(* ===== verification/GB_Prelude.thy ===== *)
theory GB_Prelude
  imports Main "HOL-Library.Word"
begin

text \<open>
  Shared vocabulary of the development.

  \<^item> The machine integers of the emulator: \<open>u8\<close> is \<open>unsigned char\<close>, \<open>u16\<close> is
    \<open>unsigned short\<close>, \<open>u32\<close> is \<open>unsigned int\<close> (and \<open>int\<close> where only its bits
    matter), \<open>u64\<close> is \<open>unsigned long\<close>.
  \<^item> \<open>fault\<close> and \<open>'a res\<close>: the outcome of an operation that can leave defined C. Every
    array access, pointer dereference, shift and call through a function pointer that is
    not guarded by the source is a branch of the model; \<open>Inl\<close> carries the fault.
  \<^item> C arrays are functions from an index together with the bound written out at every
    access (\<open>arr_get\<close>, \<open>arr_set\<close>).
  \<^item> Lemmas on words and results that the component theories share, with the collections
    \<open>word_simps\<close> and \<open>res_simps\<close>.
\<close>

unbundle bit_operations_syntax

named_theorems word_simps \<open>splitting and joining bytes\<close>
named_theorems res_simps \<open>running operations that can fault\<close>
named_theorems flag_simps \<open>reading the flag register after an update\<close>

type_synonym u8 = "8 word"
type_synonym u16 = "16 word"
type_synonym u32 = "32 word"
type_synonym u64 = "64 word"

section \<open>Outcomes\<close>

datatype fault =
    OutOfBounds      \<comment> \<open>an index past the end of an array or a buffer\<close>
  | NullPointer      \<comment> \<open>a NULL object or function pointer is used\<close>
  | BadShift         \<comment> \<open>a shift by the width of the type or more\<close>
  | BadCall          \<comment> \<open>a function called through a pointer of another type\<close>
  | UseAfterFree     \<comment> \<open>freed memory or a closed file is used\<close>
  | BadFormat        \<comment> \<open>the arguments of a \<open>printf\<close> do not fit its format\<close>

type_synonym 'a res = "fault + 'a"

definition bind_res :: "'a res \<Rightarrow> ('a \<Rightarrow> 'b res) \<Rightarrow> 'b res" where
  "bind_res m f = (case m of Inl e \<Rightarrow> Inl e | Inr x \<Rightarrow> f x)"

lemma bind_res_Inr [simp, res_simps]: "bind_res (Inr x) f = f x"
  by (simp add: bind_res_def)

lemma bind_res_Inl [simp, res_simps]: "bind_res (Inl e) f = Inl e"
  by (simp add: bind_res_def)

lemma bind_res_id [simp, res_simps]: "bind_res m Inr = m"
  by (cases m) simp_all

lemma bind_res_eq_Inr: "bind_res m f = Inr y \<longleftrightarrow> (\<exists>x. m = Inr x \<and> f x = Inr y)"
  by (cases m) auto

lemma bind_res_eq_Inl:
  "bind_res m f = Inl e \<longleftrightarrow> m = Inl e \<or> (\<exists>x. m = Inr x \<and> f x = Inl e)"
  by (cases m) auto

lemma bind_res_assoc: "bind_res (bind_res m f) g = bind_res m (\<lambda>x. bind_res (f x) g)"
  by (cases m) auto

lemma bind_res_InrE:
  assumes "bind_res m f = Inr y"
  obtains x where "m = Inr x" and "f x = Inr y"
  using assms by (auto simp: bind_res_eq_Inr)

text \<open>An outcome satisfies a property when it is a fault or a value with the property.\<close>

definition on_ok :: "('a \<Rightarrow> bool) \<Rightarrow> 'a res \<Rightarrow> bool" where
  "on_ok P m = (case m of Inl _ \<Rightarrow> True | Inr x \<Rightarrow> P x)"

lemma on_ok_simps [simp]: "on_ok P (Inr x) = P x" "on_ok P (Inl e)"
  by (simp_all add: on_ok_def)

lemma on_ok_bind: "on_ok P m \<Longrightarrow> (\<And>x. P x \<Longrightarrow> on_ok Q (f x)) \<Longrightarrow> on_ok Q (bind_res m f)"
  by (cases m) auto

lemma on_okD: "on_ok P m \<Longrightarrow> m = Inr x \<Longrightarrow> P x"
  by simp

lemma on_ok_mono: "on_ok P m \<Longrightarrow> (\<And>x. P x \<Longrightarrow> Q x) \<Longrightarrow> on_ok Q m"
  by (cases m) auto

lemma on_ok_bind_trivial: "(\<And>x. on_ok Q (f x)) \<Longrightarrow> on_ok Q (bind_res m f)"
  by (cases m) auto

section \<open>C arrays\<close>

definition arr_get :: "nat \<Rightarrow> (nat \<Rightarrow> 'a) \<Rightarrow> nat \<Rightarrow> 'a res" where
  "arr_get n a i = (if i < n then Inr (a i) else Inl OutOfBounds)"

definition arr_set :: "nat \<Rightarrow> (nat \<Rightarrow> 'a) \<Rightarrow> nat \<Rightarrow> 'a \<Rightarrow> (nat \<Rightarrow> 'a) res" where
  "arr_set n a i x = (if i < n then Inr (a(i := x)) else Inl OutOfBounds)"

lemma arr_get_ok [simp, res_simps]: "i < n \<Longrightarrow> arr_get n a i = Inr (a i)"
  by (simp add: arr_get_def)

lemma arr_get_out [simp, res_simps]: "n \<le> i \<Longrightarrow> arr_get n a i = Inl OutOfBounds"
  by (simp add: arr_get_def)

lemma arr_set_ok [simp, res_simps]: "i < n \<Longrightarrow> arr_set n a i x = Inr (a(i := x))"
  by (simp add: arr_set_def)

lemma arr_set_out [simp, res_simps]: "n \<le> i \<Longrightarrow> arr_set n a i x = Inl OutOfBounds"
  by (simp add: arr_set_def)

text \<open>A heap block: what a pointer returned by \<open>malloc\<close> points to.\<close>

record buffer =
  bsize :: nat
  bdata :: "nat \<Rightarrow> u8"

definition buf_get :: "buffer option \<Rightarrow> nat \<Rightarrow> u8 res" where
  "buf_get p i = (case p of None \<Rightarrow> Inl NullPointer
     | Some b \<Rightarrow> arr_get (bsize b) (bdata b) i)"

definition buf_set :: "buffer option \<Rightarrow> nat \<Rightarrow> u8 \<Rightarrow> buffer option res" where
  "buf_set p i x = (case p of None \<Rightarrow> Inl NullPointer
     | Some b \<Rightarrow> bind_res (arr_set (bsize b) (bdata b) i x) (\<lambda>d. Inr (Some (b\<lparr>bdata := d\<rparr>))))"

lemma buf_get_simps [simp]:
  "buf_get None i = Inl NullPointer"
  "buf_get (Some b) i = arr_get (bsize b) (bdata b) i"
  by (simp_all add: buf_get_def)

lemma buf_set_simps [simp]:
  "buf_set None i x = Inl NullPointer"
  "i < bsize b \<Longrightarrow> buf_set (Some b) i x = Inr (Some (b\<lparr>bdata := (bdata b)(i := x)\<rparr>))"
  "bsize b \<le> i \<Longrightarrow> buf_set (Some b) i x = Inl OutOfBounds"
  by (simp_all add: buf_set_def)

lemma buf_set_size:
  "buf_set p i x = Inr q \<Longrightarrow> map_option bsize q = map_option bsize p"
  by (cases p) (auto simp: buf_set_def arr_set_def split: if_splits)

text \<open>A pointer variable, with what it points to.\<close>

datatype 'a ptr = Null | Ptr 'a | Freed

fun deref :: "'a ptr \<Rightarrow> 'a res" where
  "deref Null = Inl NullPointer"
| "deref (Ptr x) = Inr x"
| "deref Freed = Inl UseAfterFree"

section \<open>Bytes and 16-bit values\<close>

definition hi8 :: "u16 \<Rightarrow> u8" where
  "hi8 w = ucast (drop_bit 8 w)"

definition lo8 :: "u16 \<Rightarrow> u8" where
  "lo8 w = ucast w"

definition mk16 :: "u8 \<Rightarrow> u8 \<Rightarrow> u16" where
  "mk16 h l = push_bit 8 (ucast h) OR ucast l"

lemma bit_mk16: "bit (mk16 h l) n \<longleftrightarrow> (if n < 8 then bit l n else bit h (n - 8))"
  by (auto simp: mk16_def bit_simps dest: bit_imp_le_length)

lemma bit_hi8: "bit (hi8 w) n \<longleftrightarrow> n < 8 \<and> bit w (n + 8)"
  by (auto simp: hi8_def bit_simps add.commute)

lemma bit_lo8: "bit (lo8 w) n \<longleftrightarrow> n < 8 \<and> bit w n"
  by (auto simp: lo8_def bit_simps)

lemma hi8_mk16 [simp, word_simps]: "hi8 (mk16 h l) = h"
  by (rule bit_word_eqI) (simp add: bit_hi8 bit_mk16)

lemma lo8_mk16 [simp, word_simps]: "lo8 (mk16 h l) = l"
  by (rule bit_word_eqI) (simp add: bit_lo8 bit_mk16)

lemma mk16_hi8_lo8 [simp, word_simps]: "mk16 (hi8 w) (lo8 w) = w"
  by (rule bit_word_eqI) (auto simp: bit_hi8 bit_lo8 bit_mk16)

lemma mk16_eq_iff: "mk16 h l = mk16 h' l' \<longleftrightarrow> h = h' \<and> l = l'"
  by (metis hi8_mk16 lo8_mk16)

lemma byte_eqI:
  fixes v w :: u8
  assumes "bit v 0 = bit w 0" "bit v 1 = bit w 1" "bit v 2 = bit w 2" "bit v 3 = bit w 3"
    "bit v 4 = bit w 4" "bit v 5 = bit w 5" "bit v 6 = bit w 6" "bit v 7 = bit w 7"
  shows "v = w"
proof (rule bit_word_eqI)
  fix n assume "n < LENGTH(8)"
  then have "n \<in> {0, 1, 2, 3, 4, 5, 6, 7}" by auto
  then show "bit v n = bit w n" using assms by blast
qed

section \<open>Single bits\<close>

text \<open>Testing a byte with a one-bit mask, as the code does, reads that bit.\<close>

lemma and_bit_mask_eq_0 [simp, word_simps]:
  "(w AND 0x01 = 0) = (\<not> bit w 0)" "(w AND 0x02 = 0) = (\<not> bit w 1)"
  "(w AND 0x04 = 0) = (\<not> bit w 2)" "(w AND 0x08 = 0) = (\<not> bit w 3)"
  "(w AND 0x10 = 0) = (\<not> bit w 4)" "(w AND 0x20 = 0) = (\<not> bit w 5)"
  "(w AND 0x40 = 0) = (\<not> bit w 6)" "(w AND 0x80 = 0) = (\<not> bit w 7)"
  for w :: u8
  using and_exp_eq_0_iff_not_bit [of w 0] and_exp_eq_0_iff_not_bit [of w 1]
    and_exp_eq_0_iff_not_bit [of w 2] and_exp_eq_0_iff_not_bit [of w 3]
    and_exp_eq_0_iff_not_bit [of w 4] and_exp_eq_0_iff_not_bit [of w 5]
    and_exp_eq_0_iff_not_bit [of w 6] and_exp_eq_0_iff_not_bit [of w 7]
  by simp_all

text \<open>The bits of the one-bit masks, in the form the simplifier brings them to.\<close>

lemma bit_mask_int [simp]:
  "bit (1 :: int) n = (n = 0)" "bit (2 :: int) n = (n = 1)"
  "bit (4 :: int) n = (n = 2)" "bit (8 :: int) n = (n = 3)"
  "bit (16 :: int) n = (n = 4)" "bit (32 :: int) n = (n = 5)"
  "bit (64 :: int) n = (n = 6)" "bit (128 :: int) n = (n = 7)"
  using bit_exp_iff [where ?'a = int, of 1 n] bit_exp_iff [where ?'a = int, of 2 n]
    bit_exp_iff [where ?'a = int, of 3 n] bit_exp_iff [where ?'a = int, of 4 n]
    bit_exp_iff [where ?'a = int, of 5 n] bit_exp_iff [where ?'a = int, of 6 n]
    bit_exp_iff [where ?'a = int, of 7 n]
  by (auto simp: bit_1_iff)

lemma bit_byte_mask [simp]:
  "bit (255 :: int) n = (n < 8)" "bit (65280 :: int) n = (8 \<le> n \<and> n < 16)"
  "bit (15 :: int) n = (n < 4)" "bit (240 :: int) n = (4 \<le> n \<and> n < 8)"
proof -
  have m: "(255 :: int) = mask 8" "(65280 :: int) = push_bit 8 (mask 8)"
    "(15 :: int) = mask 4" "(240 :: int) = push_bit 4 (mask 4)"
    by (simp_all add: mask_eq_exp_minus_1 push_bit_eq_mult)
  show "bit (255 :: int) n = (n < 8)" "bit (65280 :: int) n = (8 \<le> n \<and> n < 16)"
    "bit (15 :: int) n = (n < 4)" "bit (240 :: int) n = (4 \<le> n \<and> n < 8)"
    unfolding m by (auto simp: bit_mask_iff bit_push_bit_iff)
qed

lemma unat_nibble: "unat (w AND 0x0F) = unat w mod 16" for w :: u8
proof -
  have "w AND 0x0F = take_bit 4 w"
    by (simp add: take_bit_eq_mask mask_eq_decr_exp)
  then have "unat (w AND 0x0F) = take_bit 4 (unat w)"
    by (simp only: unsigned_take_bit_eq)
  then show ?thesis
    by (simp add: take_bit_eq_mod)
qed

lemma u8_bound: "unat w < 256" for w :: u8
  using unsigned_less [of w] by simp

lemma u16_bound: "unat w < 65536" for w :: u16
  using unsigned_less [of w] by simp

section \<open>Tables with a property at every index\<close>

fun table_all :: "(nat \<Rightarrow> 'a \<Rightarrow> bool) \<Rightarrow> nat \<Rightarrow> 'a list \<Rightarrow> bool" where
  "table_all P k [] = True"
| "table_all P k (x # xs) = (P k x \<and> table_all P (Suc k) xs)"

lemma table_all_append: "table_all P k (xs @ ys) = (table_all P k xs \<and> table_all P (k + length xs) ys)"
  by (induction xs arbitrary: k) simp_all

lemma table_all_nth: "table_all P k xs \<Longrightarrow> i < length xs \<Longrightarrow> P (k + i) (xs ! i)"
proof (induction xs arbitrary: k i)
  case (Cons x xs)
  then show ?case using Cons.IH [of "Suc k" "i - 1"] by (cases i) auto
qed simp

end
