(* ===== verification/Constants.thy ===== *)
theory Constants
  imports GB_Prelude
begin

text \<open>
  \<^verbatim>\<open>src/cpu_constants.c\<close> (the masks and the register file written at reset) and the one
  pure function of \<^verbatim>\<open>src/utils.c\<close>, \<open>UpdateBit\<close>.
\<close>

definition LOW_NIBBLE :: u8 where [simp]: "LOW_NIBBLE = 0x0F"

definition HIGH_NIBBLE :: u8 where [simp]: "HIGH_NIBBLE = 0xF0"

definition LOW_BYTE :: u16 where [simp]: "LOW_BYTE = 0x00FF"

definition HIGH_BYTE :: u16 where [simp]: "HIGH_BYTE = 0xFF00"

definition LOW_WORD :: u16 where [simp]: "LOW_WORD = 0xFFFF"

definition HIGH_WORD :: u32 where [simp]: "HIGH_WORD = 0xFFFF0000"

definition resetAddresses :: "u16 list" where
  "resetAddresses =
    [0xFF05, 0xFF06, 0xFF07, 0xFF10, 0xFF11, 0xFF12, 0xFF14, 0xFF16,
     0xFF17, 0xFF19, 0xFF1A, 0xFF1B, 0xFF1C, 0xFF1E, 0xFF20, 0xFF21,
     0xFF22, 0xFF23, 0xFF24, 0xFF25, 0xFF26, 0xFF40, 0xFF42, 0xFF43,
     0xFF45, 0xFF47, 0xFF48, 0xFF49, 0xFF4A, 0xFF4B]"

definition resetValues :: "u8 list" where
  "resetValues =
    [0x00, 0x00, 0x00, 0x80, 0xBF, 0xF3, 0xBF, 0x3F, 0x00, 0xBF,
     0x7F, 0xFF, 0x9F, 0xBF, 0xFF, 0x00, 0x00, 0xBF, 0x77, 0xF3,
     0xF1, 0x91, 0x00, 0x00, 0x00, 0xFC, 0xFF, 0xFF, 0x00, 0x00]"

definition resetValuesCount :: nat where
  "resetValuesCount = length resetValues"

lemma length_reset_tables: "length resetAddresses = 30" "length resetValues = 30"
  by (simp_all add: resetAddresses_def resetValues_def)

text \<open>
  \<open>UpdateBit(&byte, bitPosition, bitValue)\<close>: the new byte and the returned bits. The callers
  pass a mask as \<open>bitPosition\<close> and the masked bit as \<open>bitValue\<close>.
\<close>

definition UpdateBit :: "u8 \<Rightarrow> u8 \<Rightarrow> u8 \<Rightarrow> u8 \<times> u8" where
  "UpdateBit byte bitPosition bitValue =
    (let bitChanged = byte AND bitValue
     in ((byte AND NOT bitPosition) OR bitValue, bitChanged))"

lemma bit_UpdateBit:
  "bit (fst (UpdateBit byte m (v AND m))) n =
     (if bit m n then bit v n else bit byte n)"
  by (auto simp: UpdateBit_def bit_simps dest: bit_imp_le_length)

end
