(* ===== verification/Interrupts.thy ===== *)
theory Interrupts
  imports Constants
begin

text \<open>
  The interrupt registers of \<^verbatim>\<open>include/interrupt.h\<close> and the part of \<^verbatim>\<open>src/interrupt.c\<close> that
  the memory bus and the GPU call: \<open>validateInterrupt\<close> and \<open>writeInterrupt\<close>. The dispatch
  (\<open>handleInterrupt\<close>, \<open>interruptStep\<close>) pushes the program counter and is modelled after the CPU,
  in theory \<open>Cpu\<close>.
\<close>

record interruptRegisters =
  request :: u8
  enable :: u8
  masterEnable :: u8

definition VBLANK_INTERRUPT :: u8 where [simp]: "VBLANK_INTERRUPT = 0x01"

definition LCD_INTERRUPT :: u8 where [simp]: "LCD_INTERRUPT = 0x02"

definition SERIAL_INTERRUPT :: u8 where [simp]: "SERIAL_INTERRUPT = 0x04"

definition TIMER_INTERRUPT :: u8 where [simp]: "TIMER_INTERRUPT = 0x08"

definition JOYPAD_INTERRUPT :: u8 where [simp]: "JOYPAD_INTERRUPT = 0x10"

definition interruptBits :: "u8 list" where
  "interruptBits = [VBLANK_INTERRUPT, LCD_INTERRUPT, SERIAL_INTERRUPT,
                    TIMER_INTERRUPT, JOYPAD_INTERRUPT]"

text \<open>
  The loop compares the loop index \<open>bit\<close>, not \<open>interruptBits[bit]\<close>, with the argument.
\<close>

definition validateInterrupt :: "u8 \<Rightarrow> bool" where
  "validateInterrupt interruptBit =
     list_ex (\<lambda>bit. bit = unat interruptBit) [0..<length interruptBits]"

definition writeInterrupt :: "u16 \<Rightarrow> u8 \<Rightarrow> interruptRegisters \<Rightarrow> interruptRegisters" where
  "writeInterrupt address interruptBit i =
    (if validateInterrupt interruptBit then
       (if address = 0xFF0F then i\<lparr>request := request i OR interruptBit\<rparr>
        else if address = 0xFFFF then i\<lparr>enable := enable i OR interruptBit\<rparr>
        else i)
     else i)"

lemma validateInterrupt_iff: "validateInterrupt b \<longleftrightarrow> unat b < 5"
  by (simp add: validateInterrupt_def interruptBits_def upt_rec list_ex_iff) auto

lemma validateInterrupt_simps [simp]:
  "validateInterrupt 0x01" "validateInterrupt 0x02" "validateInterrupt 0x04"
  "\<not> validateInterrupt 0x08" "\<not> validateInterrupt 0x10"
  by (simp_all add: validateInterrupt_iff)

lemma writeInterrupt_frame [simp]:
  "masterEnable (writeInterrupt a b i) = masterEnable i"
  "a \<noteq> 0xFFFF \<Longrightarrow> enable (writeInterrupt a b i) = enable i"
  "a \<noteq> 0xFF0F \<Longrightarrow> request (writeInterrupt a b i) = request i"
  by (auto simp: writeInterrupt_def)

lemma writeInterrupt_request_mono: "bit (request i) n \<Longrightarrow> bit (request (writeInterrupt a b i)) n"
  by (auto simp: writeInterrupt_def bit_or_iff)

text \<open>
  The invariant of the two registers that follows: only the three sources a write accepts are ever
  requested or enabled.
\<close>

definition irq_ok :: "interruptRegisters \<Rightarrow> bool" where
  "irq_ok i \<longleftrightarrow> request i AND 0xF8 = 0 \<and> enable i AND 0xF8 = 0"

lemma upper_bits_clear: "w AND 0xF8 = 0 \<longleftrightarrow> (\<forall>n\<ge>3. \<not> bit w n)" for w :: u8
proof -
  have m: "(248 :: int) = push_bit 3 (mask 5)" by (simp add: mask_eq_exp_minus_1 push_bit_eq_mult)
  have "bit (248 :: int) n \<longleftrightarrow> 3 \<le> n \<and> n < 8" for n
    unfolding m by (auto simp: bit_mask_iff bit_push_bit_iff)
  moreover have "bit w n \<Longrightarrow> n < 8" for n using bit_imp_le_length [of w n] by simp
  ultimately show ?thesis
    by (simp add: bit_eq_iff bit_and_iff bit_numeral_word_iff) blast
qed

lemma irq_ok_masterEnable [simp]: "irq_ok (i\<lparr>masterEnable := b\<rparr>) = irq_ok i"
  by (simp add: irq_ok_def)

lemma irq_ok_clear:
  "irq_ok i \<Longrightarrow> irq_ok (i\<lparr>request := request i AND m\<rparr>)"
  "irq_ok i \<Longrightarrow> irq_ok (i\<lparr>masterEnable := b, request := request i AND m\<rparr>)"
  by (simp_all add: irq_ok_def upper_bits_clear bit_and_iff)

lemma irq_ok_write: "irq_ok i \<Longrightarrow> irq_ok (writeInterrupt a b i)"
proof -
  have "unat b < 5 \<Longrightarrow> 3 \<le> n \<Longrightarrow> \<not> bit b n" for n
  proof -
    assume "unat b < 5" "3 \<le> n"
    then have "unat b < 2 ^ n" using power_increasing [of 3 n "2 :: nat"] by simp
    then have "\<not> bit (unat b) n" by (simp add: bit_iff_odd)
    then show "\<not> bit b n" by (auto simp: bit_unsigned_iff dest: bit_imp_le_length)
  qed
  then show "irq_ok i \<Longrightarrow> irq_ok (writeInterrupt a b i)"
    by (auto simp: writeInterrupt_def validateInterrupt_iff irq_ok_def upper_bits_clear bit_or_iff)
qed

text \<open>
  The exact reach of \<open>writeInterrupt\<close>. It ORs the value into the register the address
  names when the value is at most four, and is otherwise ignored: the only interrupt sources that
  can be requested or enabled on their own are VBLANK, LCD and SERIAL, and a write of the TIMER or
  JOYPAD bit (as every write with a bit from 3 up) changes nothing.
\<close>

theorem writeInterrupt_reach:
  "writeInterrupt a b i =
     (if unat b < 5 \<and> a = 0xFF0F then i\<lparr>request := request i OR b\<rparr>
      else if unat b < 5 \<and> a = 0xFFFF then i\<lparr>enable := enable i OR b\<rparr> else i)
   \<and> writeInterrupt a TIMER_INTERRUPT i = i \<and> writeInterrupt a JOYPAD_INTERRUPT i = i"
  by (simp add: writeInterrupt_def validateInterrupt_iff)

end
