(* ===== verification/Gpu.thy ===== *)
theory Gpu
  imports Interrupts
begin

text \<open>
  The pixel processing unit, \<^verbatim>\<open>src/gpu.c\<close> and \<^verbatim>\<open>include/gpu.h\<close>: its registers, VRAM, the
  decoded tiles, the frame buffer, and the mode machine \<open>gpuStep\<close> drives. The GPU raises
  interrupts, so its step functions also take and return the interrupt registers. Operations that
  index \<open>tiles\<close>, \<open>Palette\<close>, \<open>frameBuffer\<close> or \<open>VRAM\<close> check the bound and can fault. The first
  tile of VRAM is dumped to a file: \<open>tileFile\<close> is what has been written to it, and \<open>tileFileOpens\<close> is the
  parameter that says which of the coming calls of \<open>fopen\<close> succeed. The log lines are left out.
\<close>

section \<open>State\<close>

record gpuRegisters =
  lcdControl :: u8
  lcdStatus :: u8
  scrollX :: u8
  scrollY :: u8
  lcdYCoordinate :: u8
  lcdLYCompare :: u8
  oamDMASourceAddress :: u8
  backgroundPalette :: u8
  objPalette0 :: u8
  objPalette1 :: u8
  lcdWindowY :: u8
  lcdWindowX :: u8

record BasicColour =
  colR :: u8
  colG :: u8
  colB :: u8

record GPU =
  gpuRegs :: gpuRegisters
  VRAM :: "nat \<Rightarrow> u8"
  frameBuffer :: "nat \<Rightarrow> BasicColour"
  tiles :: "nat \<Rightarrow> nat \<Rightarrow> nat \<Rightarrow> u8"
  mode :: u8
  modeClock :: u32
  modeString :: "string option"
  tileFile :: "u8 list"             \<comment> \<open>contents of \<^verbatim>\<open>tile0.bin\<close>\<close>
  tileFileOpens :: "nat \<Rightarrow> bool"     \<comment> \<open>whether the next, the one after it, ... can be opened\<close>

definition HBLANK :: u8 where [simp]: "HBLANK = 0"

definition VBLANK :: u8 where [simp]: "VBLANK = 1"

definition OAM_SCANLINE :: u8 where [simp]: "OAM_SCANLINE = 2"

definition VRAM_SCANLINE :: u8 where [simp]: "VRAM_SCANLINE = 3"

definition OAM_SCAN_CYCLE :: u32 where [simp]: "OAM_SCAN_CYCLE = 80"

definition VRAM_SCAN_CYCLE :: u32 where [simp]: "VRAM_SCAN_CYCLE = 172"

definition HBLANK_CYCLE :: u32 where [simp]: "HBLANK_CYCLE = 204"

definition VBLANK_CYCLE :: u32 where [simp]: "VBLANK_CYCLE = 456"

definition LCD_DISPLAY_ENABLE :: u8 where [simp]: "LCD_DISPLAY_ENABLE = 0x80"

definition WINDOW_TILE_MAP_DISPLAY_SELECT :: u8 where
  [simp]: "WINDOW_TILE_MAP_DISPLAY_SELECT = 0x40"

definition WINDOW_DISPLAY_ENABLE :: u8 where [simp]: "WINDOW_DISPLAY_ENABLE = 0x20"

definition BG_WINDOW_TILE_DATA_SELECT :: u8 where [simp]: "BG_WINDOW_TILE_DATA_SELECT = 0x10"

definition BG_TILE_MAP_DISPLAY_SELECT :: u8 where [simp]: "BG_TILE_MAP_DISPLAY_SELECT = 0x08"

definition SPRITE_SIZE :: u8 where [simp]: "SPRITE_SIZE = 0x04"

definition SPRITE_DISPLAY_ENABLE :: u8 where [simp]: "SPRITE_DISPLAY_ENABLE = 0x02"

definition BG_DISPLAY :: u8 where [simp]: "BG_DISPLAY = 0x01"

definition STATUS_LYC_INT_SELECT :: u8 where [simp]: "STATUS_LYC_INT_SELECT = 0x40"

definition STATUS_MODE_2_INT_SELECT :: u8 where [simp]: "STATUS_MODE_2_INT_SELECT = 0x20"

definition STATUS_MODE_1_INT_SELECT :: u8 where [simp]: "STATUS_MODE_1_INT_SELECT = 0x10"

definition STATUS_MODE_0_INT_SELECT :: u8 where [simp]: "STATUS_MODE_0_INT_SELECT = 0x08"

definition STATUS_LYC_EQUALS_LY :: u8 where [simp]: "STATUS_LYC_EQUALS_LY = 0x04"

definition STATUS_PPU_MODE_UPPER :: u8 where [simp]: "STATUS_PPU_MODE_UPPER = 0x02"

definition STATUS_PPU_MODE_LOWER :: u8 where [simp]: "STATUS_PPU_MODE_LOWER = 0x01"

definition MAX_LINES :: u8 where [simp]: "MAX_LINES = 153"

definition Palette :: "BasicColour list" where
  "Palette = [\<lparr>colR = 255, colG = 255, colB = 255\<rparr>, \<lparr>colR = 192, colG = 192, colB = 192\<rparr>,
              \<lparr>colR = 96, colG = 96, colB = 96\<rparr>, \<lparr>colR = 0, colG = 0, colB = 0\<rparr>]"

definition modeStrings :: "string list" where
  "modeStrings = [''HBlank'', ''VBlank'', ''OAM Scanline'', ''VRAM Scanline'']"

text \<open>The initial value of the globals of the file.\<close>

definition GPU_static :: GPU where
  "GPU_static =
    \<lparr>gpuRegs = \<lparr>lcdControl = 0, lcdStatus = 0, scrollX = 0, scrollY = 0, lcdYCoordinate = 0,
        lcdLYCompare = 0, oamDMASourceAddress = 0, backgroundPalette = 0b11100100,
        objPalette0 = 0, objPalette1 = 0, lcdWindowY = 0, lcdWindowX = 0\<rparr>,
     VRAM = (\<lambda>_. 0), frameBuffer = (\<lambda>_. \<lparr>colR = 0, colG = 0, colB = 0\<rparr>),
     tiles = (\<lambda>_ _ _. 0), mode = VBLANK, modeClock = 116, modeString = None,
     tileFile = [], tileFileOpens = (\<lambda>_. True)\<rparr>"

definition initGPU :: "GPU \<Rightarrow> GPU" where
  "initGPU g = g\<lparr>gpuRegs := (gpuRegs g)\<lparr>lcdControl := 0, lcdStatus := 0, scrollX := 0,
      scrollY := 0, lcdYCoordinate := 153, lcdLYCompare := 0, oamDMASourceAddress := 0,
      objPalette0 := 0, objPalette1 := 0, lcdWindowY := 0, lcdWindowX := 0\<rparr>,
    VRAM := (\<lambda>_. 0), tiles := (\<lambda>_ _ _. 0)\<rparr>"

definition gpuReset :: "GPU \<Rightarrow> GPU" where
  "gpuReset g = initGPU (g\<lparr>mode := VBLANK, modeClock := 116\<rparr>)"

section \<open>Scan lines and modes\<close>

definition NextScanline :: "GPU \<Rightarrow> interruptRegisters \<Rightarrow> GPU \<times> interruptRegisters" where
  "NextScanline g i =
    (let R = gpuRegs g;
         R = (if lcdYCoordinate R = MAX_LINES then R\<lparr>lcdYCoordinate := 0\<rparr>
              else R\<lparr>lcdYCoordinate := lcdYCoordinate R + 1\<rparr>)
     in if lcdYCoordinate R = lcdLYCompare R then
          (let R = R\<lparr>lcdStatus := lcdStatus R OR STATUS_LYC_EQUALS_LY\<rparr>
           in (g\<lparr>gpuRegs := R\<rparr>,
               if lcdStatus R AND STATUS_LYC_INT_SELECT \<noteq> 0
               then writeInterrupt 0xFF0F LCD_INTERRUPT i else i))
        else (g\<lparr>gpuRegs := R\<lparr>lcdStatus := lcdStatus R AND NOT STATUS_LYC_EQUALS_LY\<rparr>\<rparr>, i))"

definition HandleLCDModeChange ::
    "u8 \<Rightarrow> GPU \<Rightarrow> interruptRegisters \<Rightarrow> GPU \<times> interruptRegisters" where
  "HandleLCDModeChange inMode g i =
    (let g = g\<lparr>mode := inMode\<rparr>;
         R = gpuRegs g;
         R = R\<lparr>lcdStatus := lcdStatus R AND 0xFC\<rparr>;
         R = R\<lparr>lcdStatus := lcdStatus R OR inMode\<rparr>;
         g = g\<lparr>gpuRegs := R\<rparr>
     in if mode g = OAM_SCANLINE then
          (g, if lcdStatus R AND STATUS_MODE_2_INT_SELECT \<noteq> 0
              then writeInterrupt 0xFF0F LCD_INTERRUPT i else i)
        else if mode g = HBLANK then
          (g, if lcdStatus R AND STATUS_MODE_1_INT_SELECT \<noteq> 0
              then writeInterrupt 0xFF0F LCD_INTERRUPT i else i)
        else if mode g = VBLANK then
          (g, writeInterrupt 0xFF0F VBLANK_INTERRUPT
                (if lcdStatus R AND STATUS_MODE_0_INT_SELECT \<noteq> 0
                 then writeInterrupt 0xFF0F LCD_INTERRUPT i else i))
        else (g, i))"

section \<open>VRAM and tiles\<close>

definition gpuReadByte :: "u16 \<Rightarrow> GPU \<Rightarrow> u8" where
  "gpuReadByte address g = (if address < 0x2000 then VRAM g (unat address) else 0)"

definition tile_get :: "(nat \<Rightarrow> nat \<Rightarrow> nat \<Rightarrow> u8) \<Rightarrow> nat \<Rightarrow> nat \<Rightarrow> nat \<Rightarrow> u8 res" where
  "tile_get t i y x = (if i < 384 \<and> y < 8 \<and> x < 8 then Inr (t i y x) else Inl OutOfBounds)"

definition tile_set ::
    "(nat \<Rightarrow> nat \<Rightarrow> nat \<Rightarrow> u8) \<Rightarrow> nat \<Rightarrow> nat \<Rightarrow> nat \<Rightarrow> u8 \<Rightarrow> (nat \<Rightarrow> nat \<Rightarrow> nat \<Rightarrow> u8) res" where
  "tile_set t i y x v = (if i < 384 \<and> y < 8 \<and> x < 8
     then Inr (t(i := (t i)(y := (t i y)(x := v)))) else Inl OutOfBounds)"

text \<open>One round of the pixel loop of \<open>updateTile\<close>, then the loop over the pixels given.\<close>

definition tilePixel :: "u8 \<Rightarrow> u8 \<Rightarrow> nat \<Rightarrow> u8" where
  "tilePixel pixelRowLsb pixelRowMsb pixel =
    (let bitIndex = (push_bit (7 - pixel) 1 :: u16);
         writeValue = (if ucast pixelRowLsb AND bitIndex \<noteq> 0 then 1 else 0)
     in writeValue + (if ucast pixelRowMsb AND bitIndex \<noteq> 0 then 2 else 0))"

fun updateTileLoop :: "nat list \<Rightarrow> u16 \<Rightarrow> u16 \<Rightarrow> u8 \<Rightarrow> u8 \<Rightarrow> GPU \<Rightarrow> GPU res" where
  "updateTileLoop [] tile subRow lsb msb g = Inr g"
| "updateTileLoop (pixel # ps) tile subRow lsb msb g =
     bind_res (tile_set (tiles g) (unat tile) (unat subRow) pixel (tilePixel lsb msb pixel))
       (\<lambda>t. updateTileLoop ps tile subRow lsb msb (g\<lparr>tiles := t\<rparr>))"

definition updateTile :: "u16 \<Rightarrow> u8 \<Rightarrow> GPU \<Rightarrow> GPU res" where
  "updateTile addr val g =
    (let baseAddress = addr AND 0x1FFE;
         tile = drop_bit 4 baseAddress AND 0x1FF;
         subRow = drop_bit 1 baseAddress AND 7;
         pixelRowLsb = gpuReadByte baseAddress g;
         pixelRowMsb = gpuReadByte (baseAddress + 1) g
     in updateTileLoop [0..<8] tile subRow pixelRowLsb pixelRowMsb g)"

text \<open>The result of \<open>fopen\<close> is not tested: \<open>fwrite\<close> gets the NULL pointer of a file that cannot be opened.\<close>

definition gpuWriteVramToFile :: "GPU \<Rightarrow> GPU res" where
  "gpuWriteVramToFile g =
    (if \<not> tileFileOpens g 0 then Inl NullPointer
     else Inr (g\<lparr>tileFile := map (VRAM g) [0..<16], tileFileOpens := (\<lambda>i. tileFileOpens g (Suc i))\<rparr>))"

definition gpuWriteByte :: "u16 \<Rightarrow> u8 \<Rightarrow> GPU \<Rightarrow> (int \<times> GPU) res" where
  "gpuWriteByte address value g =
    (let modifiedAddress = address - 0x8000
     in if modifiedAddress < 0x2000 then
          bind_res (arr_set 0x2000 (VRAM g) (unat modifiedAddress) value) (\<lambda>v.
            let g = g\<lparr>VRAM := v\<rparr>
            in bind_res (if address < 0x1800 then updateTile modifiedAddress value g else Inr g) (\<lambda>g.
               bind_res (gpuWriteVramToFile g) (\<lambda>g. Inr (1, g))))
        else Inr (0, g))"

section \<open>Registers\<close>

definition gpuReadRegister :: "u16 \<Rightarrow> GPU \<Rightarrow> u8" where
  "gpuReadRegister address g =
    (let R = gpuRegs g in
     if address = 0xFF40 then lcdControl R
     else if address = 0xFF41 then lcdStatus R
     else if address = 0xFF42 then scrollX R
     else if address = 0xFF43 then scrollY R
     else if address = 0xFF44 then lcdYCoordinate R
     else if address = 0xFF45 then lcdLYCompare R
     else if address = 0xFF47 then 0
     else if address = 0xFF48 then objPalette0 R
     else if address = 0xFF49 then objPalette1 R
     else if address = 0xFF4A then lcdWindowY R
     else if address = 0xFF4B then lcdWindowX R
     else 0)"

text \<open>\<open>UpdateBit(&GPU.registers.lcdControl, m, (value & m))\<close> and the same on \<open>lcdStatus\<close>.\<close>

definition updateLcdControlBit :: "u8 \<Rightarrow> u8 \<Rightarrow> GPU \<Rightarrow> GPU" where
  "updateLcdControlBit m value g =
    g\<lparr>gpuRegs := (gpuRegs g)\<lparr>lcdControl :=
       fst (UpdateBit (lcdControl (gpuRegs g)) m (value AND m))\<rparr>\<rparr>"

definition updateLcdStatusBit :: "u8 \<Rightarrow> u8 \<Rightarrow> GPU \<Rightarrow> GPU" where
  "updateLcdStatusBit m value g =
    g\<lparr>gpuRegs := (gpuRegs g)\<lparr>lcdStatus :=
       fst (UpdateBit (lcdStatus (gpuRegs g)) m (value AND m))\<rparr>\<rparr>"

definition UpdateLcdControlRegister :: "u8 \<Rightarrow> GPU \<Rightarrow> GPU" where
  "UpdateLcdControlRegister value g =
    (let g = updateLcdControlBit LCD_DISPLAY_ENABLE value g;
         g = (if lcdControl (gpuRegs g) AND LCD_DISPLAY_ENABLE = 0 then
                g\<lparr>gpuRegs := (gpuRegs g)\<lparr>lcdYCoordinate := 0,
                     lcdStatus := lcdStatus (gpuRegs g) AND 0xF8\<rparr>,
                  modeClock := 0, mode := HBLANK\<rparr>
              else
                g\<lparr>gpuRegs := (gpuRegs g)\<lparr>lcdStatus :=
                     (lcdStatus (gpuRegs g) AND 0xF8) OR mode g\<rparr>\<rparr>);
         g = updateLcdControlBit WINDOW_TILE_MAP_DISPLAY_SELECT value g;
         g = updateLcdControlBit WINDOW_DISPLAY_ENABLE value g;
         g = updateLcdControlBit BG_WINDOW_TILE_DATA_SELECT value g;
         g = updateLcdControlBit BG_TILE_MAP_DISPLAY_SELECT value g;
         g = updateLcdControlBit SPRITE_SIZE value g;
         g = updateLcdControlBit SPRITE_DISPLAY_ENABLE value g
     in updateLcdControlBit BG_DISPLAY value g)"

definition UpdateLcdStatusRegister :: "u8 \<Rightarrow> GPU \<Rightarrow> GPU" where
  "UpdateLcdStatusRegister value g =
    (let g = updateLcdStatusBit STATUS_LYC_INT_SELECT value g;
         g = updateLcdStatusBit STATUS_MODE_2_INT_SELECT value g;
         g = updateLcdStatusBit STATUS_MODE_1_INT_SELECT value g;
         g = updateLcdStatusBit STATUS_MODE_0_INT_SELECT value g;
         g = updateLcdStatusBit STATUS_LYC_EQUALS_LY value g;
         g = updateLcdStatusBit STATUS_PPU_MODE_UPPER value g
     in updateLcdStatusBit STATUS_PPU_MODE_LOWER value g)"

definition gpuWriteRegister :: "u16 \<Rightarrow> u8 \<Rightarrow> GPU \<Rightarrow> GPU" where
  "gpuWriteRegister address value g =
    (let upd = (\<lambda>f. g\<lparr>gpuRegs := f (gpuRegs g)\<rparr>) in
     if address = 0xFF40 then
       (let g = UpdateLcdControlRegister value g
        in g\<lparr>gpuRegs := (gpuRegs g)\<lparr>lcdControl := value\<rparr>\<rparr>)
     else if address = 0xFF41 then upd (lcdStatus_update (\<lambda>_. value))
     else if address = 0xFF42 then upd (scrollY_update (\<lambda>_. value))
     else if address = 0xFF43 then upd (scrollX_update (\<lambda>_. value))
     else if address = 0xFF44 then upd (lcdYCoordinate_update (\<lambda>_. 0))
     else if address = 0xFF45 then upd (lcdLYCompare_update (\<lambda>_. value))
     else if address = 0xFF48 then upd (objPalette0_update (\<lambda>_. value))
     else if address = 0xFF49 then upd (objPalette1_update (\<lambda>_. value))
     else if address = 0xFF4A then upd (lcdWindowX_update (\<lambda>_. value))
     else if address = 0xFF4B then upd (lcdWindowY_update (\<lambda>_. value))
     else g)"

section \<open>Drawing a line and stepping\<close>

text \<open>
  The pixel loop of \<open>renderScan\<close>; the first argument is the number of rounds left of its 160.
\<close>

fun renderLoop ::
    "nat \<Rightarrow> u16 \<Rightarrow> u8 \<Rightarrow> u8 \<Rightarrow> u8 \<Rightarrow> u32 \<Rightarrow> u16 \<Rightarrow> GPU \<Rightarrow> GPU res" where
  "renderLoop 0 mapOffset y lineOffset x canvasOffset tile g = Inr g"
| "renderLoop (Suc n) mapOffset y lineOffset x canvasOffset tile g =
    bind_res (tile_get (tiles g) (unat tile) (unat y) (unat x)) (\<lambda>colour.
    bind_res (arr_get 4 (\<lambda>k. Palette ! k) (unat colour)) (\<lambda>rCol.
    bind_res (arr_set (160 * 144) (frameBuffer g) (unat canvasOffset) rCol) (\<lambda>fb.
      let g = g\<lparr>frameBuffer := fb\<rparr>; x = x + 1; canvasOffset = canvasOffset + 1
      in if x = 8 then
           (let x = 0; lineOffset = (lineOffset + 1) AND 31;
                tile = (ucast (gpuReadByte (mapOffset + ucast lineOffset) g) :: u16)
            in if lcdControl (gpuRegs g) AND BG_WINDOW_TILE_DATA_SELECT \<noteq> 0 \<and> tile < 128 then
                 (let tile = tile + 256
                  in if tile > 383 then Inr g
                     else renderLoop n mapOffset y lineOffset x canvasOffset tile g)
               else renderLoop n mapOffset y lineOffset x canvasOffset tile g)
         else renderLoop n mapOffset y lineOffset x canvasOffset tile g)))"

definition renderScan :: "GPU \<Rightarrow> GPU res" where
  "renderScan g =
    (let R = gpuRegs g;
         mapOffset = (if lcdControl R AND BG_TILE_MAP_DISPLAY_SELECT \<noteq> 0
                      then 0x1C00 else 0x1800 :: u16);
         lineStart = lcdYCoordinate R + scrollY R;
         mapOffset = mapOffset + drop_bit 3 (ucast lineStart AND 0xFF);
         lineOffset = drop_bit 3 (scrollX R);
         x = scrollX R AND 7;
         y = lineStart AND 7;
         canvasOffset = (ucast (lcdYCoordinate R) * 160 :: u32);
         tile = (ucast (gpuReadByte (mapOffset + ucast lineOffset) g) :: u16);
         tile = (if lcdControl R AND BG_WINDOW_TILE_DATA_SELECT \<noteq> 0 \<and> tile < 128
                 then tile + 256 else tile)
     in if tile > 383 then Inr g
        else renderLoop 160 mapOffset y lineOffset x canvasOffset tile g)"

definition gpuStep ::
    "u32 \<Rightarrow> GPU \<Rightarrow> interruptRegisters \<Rightarrow> (GPU \<times> interruptRegisters) res" where
  "gpuStep tick g i =
    (if lcdControl (gpuRegs g) AND LCD_DISPLAY_ENABLE = 0 then Inr (g, i)
     else
       (let g = g\<lparr>modeClock := modeClock g + tick\<rparr> in
        if mode g = HBLANK then
          (if modeClock g \<ge> HBLANK_CYCLE then
             (let g = g\<lparr>modeClock := modeClock g - HBLANK_CYCLE,
                        modeString := Some (modeStrings ! 0)\<rparr>;
                  (g, i) = NextScanline g i
              in if lcdYCoordinate (gpuRegs g) = 144
                 then Inr (HandleLCDModeChange VBLANK g i)
                 else Inr (HandleLCDModeChange OAM_SCANLINE g i))
           else Inr (g, i))
        else if mode g = VBLANK then
          (if modeClock g \<ge> VBLANK_CYCLE then
             (let g = g\<lparr>modeClock := modeClock g - VBLANK_CYCLE,
                        modeString := Some (modeStrings ! 1)\<rparr>;
                  (g, i) = NextScanline g i
              in if lcdYCoordinate (gpuRegs g) = 0
                 then Inr (HandleLCDModeChange OAM_SCANLINE g i)
                 else Inr (g, i))
           else Inr (g, i))
        else if mode g = OAM_SCANLINE then
          (if modeClock g \<ge> OAM_SCAN_CYCLE then
             (let g = g\<lparr>modeClock := modeClock g - OAM_SCAN_CYCLE,
                        modeString := Some (modeStrings ! 2)\<rparr>
              in Inr (HandleLCDModeChange VRAM_SCANLINE g i))
           else Inr (g, i))
        else if mode g = VRAM_SCANLINE then
          (if modeClock g \<ge> VRAM_SCAN_CYCLE then
             (let g = g\<lparr>modeString := Some (modeStrings ! 3),
                        modeClock := modeClock g - VRAM_SCAN_CYCLE\<rparr>
              in bind_res (renderScan g) (\<lambda>g. Inr (HandleLCDModeChange HBLANK g i)))
           else Inr (g, i))
        else Inr (g, i)))"

definition determineModeClock :: "GPU \<Rightarrow> string" where
  "determineModeClock g =
    (if mode g = HBLANK then ''HBLANK''
     else if mode g = VBLANK then ''VBLANK''
     else if mode g = OAM_SCANLINE then ''OAM Scanline''
     else if mode g = VRAM_SCANLINE then ''VRAM Scanline''
     else ''Invalid!'')"

end
