(* ===== verification/Gpu_Correct.thy ===== *)
theory Gpu_Correct
  imports Gpu
begin

text \<open>
  What the GPU model guarantees: drawing a line computes exactly the pixels of \<open>scanPixel\<close> and
  stays inside every array; \<open>gpuStep\<close> keeps the invariant \<open>gpu_inv\<close> and never faults; the mode
  machine is a clock that advances modulo the 70224 ticks of a frame and requests the VBLANK
  interrupt exactly when line 144 begins; the registers, VRAM and tiles change as stated.
\<close>

section \<open>One step of the mode machine\<close>

definition nextLine :: "u8 \<Rightarrow> u8" where
  "nextLine l = (if l = 153 then 0 else l + 1)"

lemma NextScanline_fst:
  "fst (NextScanline g i) = g\<lparr>gpuRegs := (gpuRegs g)\<lparr>
     lcdYCoordinate := nextLine (lcdYCoordinate (gpuRegs g)),
     lcdStatus := (if nextLine (lcdYCoordinate (gpuRegs g)) = lcdLYCompare (gpuRegs g)
       then lcdStatus (gpuRegs g) OR 4 else lcdStatus (gpuRegs g) AND NOT 4)\<rparr>\<rparr>"
  by (simp add: NextScanline_def nextLine_def Let_def)

lemma NextScanline_snd:
  "snd (NextScanline g i) =
     (if nextLine (lcdYCoordinate (gpuRegs g)) = lcdLYCompare (gpuRegs g)
         \<and> bit (lcdStatus (gpuRegs g)) 6
      then writeInterrupt 0xFF0F LCD_INTERRUPT i else i)"
  by (simp add: NextScanline_def nextLine_def Let_def bit_or_iff)

lemma HandleLCDModeChange_fst:
  "fst (HandleLCDModeChange m g i) = g\<lparr>mode := m, gpuRegs := (gpuRegs g)\<lparr>
     lcdStatus := (lcdStatus (gpuRegs g) AND 0xFC) OR m\<rparr>\<rparr>"
  by (simp add: HandleLCDModeChange_def Let_def)

lemma u8_lt_4_cases: "m < 4 \<Longrightarrow> m = 0 \<or> m = 1 \<or> m = 2 \<or> m = 3" for m :: u8
proof -
  assume "m < 4"
  then have "unat m = 0 \<or> unat m = 1 \<or> unat m = 2 \<or> unat m = 3"
    by (auto simp: word_less_nat_alt)
  then show ?thesis
    by (auto simp: word_unat_eq_iff)
qed

lemma HandleLCDModeChange_snd:
  "m < 4 \<Longrightarrow> snd (HandleLCDModeChange m g i) =
     (let st = lcdStatus (gpuRegs g);
          i' = (if m = 2 \<and> bit st 5 \<or> m = 0 \<and> bit st 4 \<or> m = 1 \<and> bit st 3
                then writeInterrupt 0xFF0F LCD_INTERRUPT i else i)
      in if m = 1 then writeInterrupt 0xFF0F VBLANK_INTERRUPT i' else i')"
proof -
  assume m: "m < 4"
  consider "m = 0" | "m = 1" | "m = 2" | "m = 3"
    using u8_lt_4_cases [OF m] by blast
  then show ?thesis
    by cases (auto simp: HandleLCDModeChange_def Let_def bit_or_iff bit_and_iff)
qed

section \<open>Drawing stays in bounds\<close>

definition tiles_ok :: "GPU \<Rightarrow> bool" where
  "tiles_ok g \<longleftrightarrow> (\<forall>t<384. \<forall>y<8. \<forall>x<8. tiles g t y x < 4)"

text \<open>The tile number the code computes from the byte in the tile map.\<close>

definition bgTile :: "GPU \<Rightarrow> u8 \<Rightarrow> nat" where
  "bgTile g v = (if bit (lcdControl (gpuRegs g)) 4 \<and> v < 128 then unat v + 256 else unat v)"

lemma bgTile_bound: "bgTile g v < 384"
  using u8_bound [of v] by (auto simp: bgTile_def word_less_nat_alt)

lemma bgTile_upd [simp]: "bgTile (g\<lparr>frameBuffer := fb\<rparr>) = bgTile g"
  by (simp add: bgTile_def fun_eq_iff)

lemma gpuReadByte_upd [simp]: "gpuReadByte a (g\<lparr>frameBuffer := fb\<rparr>) = gpuReadByte a g"
  by (simp add: gpuReadByte_def)

lemma ucast_tile: "unat (ucast v :: u16) = unat v" for v :: u8
  using u8_bound [of v] by (simp add: unsigned_ucast_eq take_bit_nat_eq_self)

lemma tile_adjust:
  fixes v :: u8
  defines "t \<equiv> (ucast v :: u16)"
  shows "unat (t + 256) = unat v + 256" and "(t < 128) = (v < 128)" and "\<not> t > 383"
    and "v < 128 \<Longrightarrow> \<not> t + 256 > 383"
proof -
  have v: "unat v < 256" by (rule u8_bound)
  have t: "unat t = unat v" by (simp add: t_def ucast_tile)
  show a: "unat (t + 256) = unat v + 256"
    using v t by (simp add: unat_word_ariths)
  show "(t < 128) = (v < 128)" using t by (simp add: word_less_nat_alt)
  show "\<not> t > 383" using t v by (simp add: word_less_nat_alt)
  show "v < 128 \<Longrightarrow> \<not> t + 256 > 383" using a by (simp add: word_less_nat_alt)
qed

text \<open>The tile under column \<open>k\<close> of tiles, counted from \<open>lineOffset\<close> and wrapping after 32.\<close>

definition columnTile :: "GPU \<Rightarrow> u16 \<Rightarrow> u8 \<Rightarrow> nat \<Rightarrow> nat" where
  "columnTile g mapOffset lineOffset k =
     bgTile g (gpuReadByte (mapOffset + of_nat ((unat lineOffset + k) mod 32)) g)"

text \<open>The colour of a pixel \<open>c\<close> places right of the left edge of tile column 0.\<close>

definition linePixel :: "GPU \<Rightarrow> u16 \<Rightarrow> u8 \<Rightarrow> u8 \<Rightarrow> nat \<Rightarrow> BasicColour" where
  "linePixel g mapOffset lineOffset y c =
     Palette ! unat (tiles g (columnTile g mapOffset lineOffset (c div 8)) (unat y) (c mod 8))"

definition drawPixels :: "(nat \<Rightarrow> BasicColour) \<Rightarrow> nat \<Rightarrow> nat \<Rightarrow> (nat \<Rightarrow> BasicColour) \<Rightarrow> nat \<Rightarrow> BasicColour" where
  "drawPixels fb base n pix p = (if base \<le> p \<and> p < base + n then pix (p - base) else fb p)"

lemma drawPixels_Suc:
  "drawPixels fb base (Suc n) pix = drawPixels (fb(base := pix 0)) (Suc base) n (\<lambda>k. pix (Suc k))"
  by (auto simp: drawPixels_def fun_eq_iff Suc_diff_Suc)

lemma columnTile_upd [simp]: "columnTile (g\<lparr>frameBuffer := fb\<rparr>) = columnTile g"
  by (simp add: columnTile_def fun_eq_iff)

lemma linePixel_upd [simp]: "linePixel (g\<lparr>frameBuffer := fb\<rparr>) = linePixel g"
  by (simp add: linePixel_def fun_eq_iff)

lemma columnTile_bound: "columnTile g mo lo k < 384"
  by (simp add: columnTile_def bgTile_bound)

lemma lineOffset_wrap: "unat ((lo + 1) AND 31) = (unat lo + 1) mod 32" for lo :: u8
proof -
  have "(lo + 1) AND 31 = take_bit 5 (lo + 1)"
    by (simp add: take_bit_eq_mask mask_eq_decr_exp)
  then have "unat ((lo + 1) AND 31) = unat (lo + 1) mod 32"
    by (simp only: unsigned_take_bit_eq) (simp add: take_bit_eq_mod)
  also have "\<dots> = (unat lo + 1) mod 256 mod 32"
    by (simp add: unat_word_ariths)
  finally show ?thesis by (simp add: mod_mod_cancel)
qed

lemma ucast_lineOffset: "unat lo < 32 \<Longrightarrow> (ucast lo :: u16) = of_nat (unat lo mod 32)" for lo :: u8
  by simp

lemma linePixel_next_column:
  assumes "unat lo < 32"
  shows "linePixel g mo ((lo + 1) AND 31) y c = linePixel g mo lo y (8 + c)"
proof -
  have "(8 + c) div 8 = 1 + c div 8" by simp
  then have "((unat lo + 1) mod 32 + c div 8) mod 32 = (unat lo + (8 + c) div 8) mod 32"
    by (simp only: mod_add_left_eq add.assoc)
  then have "columnTile g mo ((lo + 1) AND 31) (c div 8) = columnTile g mo lo ((8 + c) div 8)"
    by (simp add: columnTile_def lineOffset_wrap)
  then show ?thesis by (simp add: linePixel_def)
qed

lemma tile_pixel_ok:
  fixes x y :: u8
  assumes "tiles_ok g" and "t < 384" and "y < 8" and "x < 8"
  shows "unat (tiles g t (unat y) (unat x)) < 4"
  using assms by (simp add: tiles_ok_def word_less_nat_alt)

lemma renderLoop_step:
  assumes ok: "tiles_ok g" and t: "unat tile = columnTile g mo lo 0" and y: "y < 8" and x: "x < 8"
    and c: "unat canvas < 23040" and lo: "unat lo < 32"
  defines "g' \<equiv> g\<lparr>frameBuffer := (frameBuffer g)(unat canvas := linePixel g mo lo y (unat x))\<rparr>"
  shows "x < 7 \<Longrightarrow> renderLoop (Suc n) mo y lo x canvas tile g
           = renderLoop n mo y lo (x + 1) (canvas + 1) tile g'"
    and "x = 7 \<Longrightarrow> \<exists>tile'. unat tile' = columnTile g mo ((lo + 1) AND 31) 0 \<and>
           renderLoop (Suc n) mo y lo x canvas tile g
           = renderLoop n mo y ((lo + 1) AND 31) 0 (canvas + 1) tile' g'"
proof -
  have x8: "unat x < 8" using x by (simp add: word_less_nat_alt)
  have tb: "unat tile < 384" using t columnTile_bound by simp
  have pix: "Palette ! unat (tiles g (unat tile) (unat y) (unat x)) = linePixel g mo lo y (unat x)"
    using x8 by (simp add: linePixel_def t)
  have col: "unat (tiles g (unat tile) (unat y) (unat x)) < 4"
    by (rule tile_pixel_ok [OF ok tb y x])
  have run: "renderLoop (Suc n) mo y lo x canvas tile g =
      (let x = x + 1; canvas = canvas + 1
       in if x = 8 then
            (let x = 0; lo = (lo + 1) AND 31; tile = (ucast (gpuReadByte (mo + ucast lo) g') :: u16)
             in if bit (lcdControl (gpuRegs g)) 4 \<and> tile < 128 then
                  (let tile = tile + 256
                   in if tile > 383 then Inr g' else renderLoop n mo y lo x canvas tile g')
                else renderLoop n mo y lo x canvas tile g')
          else renderLoop n mo y lo x canvas tile g')"
    using tb x8 y col c by (simp add: tile_get_def word_less_nat_alt Let_def pix g'_def)
  show "x < 7 \<Longrightarrow> renderLoop (Suc n) mo y lo x canvas tile g
           = renderLoop n mo y lo (x + 1) (canvas + 1) tile g'"
  proof -
    assume "x < 7"
    then have "x + 1 \<noteq> 8" by auto
    then show ?thesis by (simp add: run del: renderLoop.simps)
  qed
  assume x7: "x = 7"
  define lo' where "lo' = (lo + 1) AND 31"
  define v where "v = gpuReadByte (mo + ucast lo') g"
  define tile' where "tile' = (if bit (lcdControl (gpuRegs g)) 4 \<and> v < 128
     then (ucast v :: u16) + 256 else ucast v)"
  have "unat lo' < 32" by (simp add: lo'_def lineOffset_wrap)
  then have "unat tile' = columnTile g mo lo' 0"
    by (simp add: tile'_def columnTile_def bgTile_def v_def tile_adjust ucast_tile)
  moreover have "renderLoop (Suc n) mo y lo x canvas tile g
      = renderLoop n mo y lo' 0 (canvas + 1) tile' g'"
    by (subst run) (simp add: x7 tile'_def lo'_def [symmetric] v_def g'_def tile_adjust Let_def
        del: renderLoop.simps)
  ultimately show "\<exists>tile'. unat tile' = columnTile g mo ((lo + 1) AND 31) 0 \<and>
           renderLoop (Suc n) mo y lo x canvas tile g
           = renderLoop n mo y ((lo + 1) AND 31) 0 (canvas + 1) tile' g'"
    by (auto simp: lo'_def)
qed

lemma renderLoop_spec:
  assumes "tiles_ok g" and "unat tile = columnTile g mo lo 0" and "y < 8" and "x < 8"
    and "unat canvas + n \<le> 23040" and "unat lo < 32"
  shows "renderLoop n mo y lo x canvas tile g = Inr (g\<lparr>frameBuffer :=
           drawPixels (frameBuffer g) (unat canvas) n (\<lambda>k. linePixel g mo lo y (unat x + k))\<rparr>)"
  using assms
proof (induction n arbitrary: x lo canvas tile g)
  case 0
  have "drawPixels (frameBuffer g) b 0 f = frameBuffer g" for b f
    by (auto simp: drawPixels_def fun_eq_iff)
  then show ?case by simp
next
  case (Suc n)
  define g' where "g' = g\<lparr>frameBuffer := (frameBuffer g)(unat canvas := linePixel g mo lo y (unat x))\<rparr>"
  have canvas: "unat canvas < 23040" "unat (canvas + 1) = Suc (unat canvas)"
    using Suc.prems(5) by (simp_all add: unat_word_ariths)
  have ok': "tiles_ok g'" using Suc.prems(1) by (simp add: tiles_ok_def g'_def)
  note step = renderLoop_step [OF Suc.prems(1,2,3,4) canvas(1) Suc.prems(6), of n]
  show ?case
  proof (cases "x = 7")
    case False
    have "unat x \<noteq> 7" "unat x < 8"
      using False Suc.prems(4) by (auto simp: word_unat_eq_iff word_less_nat_alt)
    then have x7: "x < 7" and x': "x + 1 < 8" "unat (x + 1) = Suc (unat x)"
      by (auto simp: word_less_nat_alt unat_word_ariths)
    have "columnTile g' = columnTile g" "linePixel g' = linePixel g" by (simp_all add: g'_def)
    with Suc.IH [OF ok', of tile lo "x + 1" "canvas + 1"] Suc.prems canvas x' x7
    show ?thesis
      by (simp add: step(1) [folded g'_def] drawPixels_Suc del: renderLoop.simps)
        (simp add: g'_def)
  next
    case True
    let ?lo = "(lo + 1) AND 31"
    have lo: "unat ?lo < 32" by (simp add: lineOffset_wrap)
    have same: "columnTile g' = columnTile g" "linePixel g' = linePixel g" by (simp_all add: g'_def)
    from step(2) [OF True, folded g'_def] obtain tile' where
      t': "unat tile' = columnTile g mo ?lo 0" and
      run: "renderLoop (Suc n) mo y lo x canvas tile g = renderLoop n mo y ?lo 0 (canvas + 1) tile' g'"
      by blast
    have "linePixel g mo ?lo y c = linePixel g mo lo y (Suc (unat x + c))" for c
      using linePixel_next_column [OF Suc.prems(6), of g mo y c] True by simp
    with Suc.IH [OF ok', of tile' ?lo 0 "canvas + 1"] Suc.prems canvas lo t' same
    show ?thesis
      by (simp add: run drawPixels_Suc del: renderLoop.simps) (simp add: g'_def)
  qed
qed

text \<open>What one call of \<open>renderScan\<close> computes, as a function of the registers, VRAM and tiles.\<close>

definition scanMapOffset :: "GPU \<Rightarrow> u16" where
  "scanMapOffset g = (if bit (lcdControl (gpuRegs g)) 3 then 0x1C00 else 0x1800)
     + drop_bit 3 (ucast (lcdYCoordinate (gpuRegs g) + scrollY (gpuRegs g)))"

definition scanPixel :: "GPU \<Rightarrow> nat \<Rightarrow> BasicColour" where
  "scanPixel g k = linePixel g (scanMapOffset g) (drop_bit 3 (scrollX (gpuRegs g)))
     ((lcdYCoordinate (gpuRegs g) + scrollY (gpuRegs g)) AND 7)
     (unat (scrollX (gpuRegs g)) mod 8 + k)"

lemma and7_lt: "w AND 7 < 8" "unat (w AND 7) = unat w mod 8" for w :: u8
proof -
  have "w AND 7 = take_bit 3 w"
    by (simp add: take_bit_eq_mask mask_eq_decr_exp)
  then show u: "unat (w AND 7) = unat w mod 8"
    by (simp only: unsigned_take_bit_eq) (simp add: take_bit_eq_mod)
  show "w AND 7 < 8" by (simp add: word_less_nat_alt u)
qed

lemma drop3_lt: "unat (drop_bit 3 w) < 32" for w :: u8
proof -
  have "unat (drop_bit 3 w) = drop_bit 3 (unat w)"
    by (simp only: unsigned_drop_bit_eq) (simp add: take_bit_nat_eq_self u8_bound)
  then show ?thesis
    using u8_bound [of w] by (simp add: drop_bit_eq_div)
qed

lemma ucast_and_FF: "ucast b AND 0xFF = (ucast b :: u16)" for b :: u8
proof -
  have "ucast b AND 0xFF = take_bit 8 (ucast b :: u16)"
    by (simp add: take_bit_eq_mask mask_eq_decr_exp)
  also have "\<dots> = ucast b"
    by (rule bit_word_eqI) (auto simp: bit_simps dest: bit_imp_le_length)
  finally show ?thesis .
qed

lemma renderScan_eq:
  assumes "tiles_ok g" and "lcdYCoordinate (gpuRegs g) \<le> 143"
  shows "renderScan g = Inr (g\<lparr>frameBuffer := drawPixels (frameBuffer g)
           (160 * unat (lcdYCoordinate (gpuRegs g))) 160 (scanPixel g)\<rparr>)"
proof -
  define R where "R = gpuRegs g"
  define mo where "mo = scanMapOffset g"
  define lo where "lo = drop_bit 3 (scrollX R)"
  define y where "y = (lcdYCoordinate R + scrollY R) AND 7"
  define canvas where "canvas = (ucast (lcdYCoordinate R) * 160 :: u32)"
  define v where "v = gpuReadByte (mo + ucast lo) g"
  define tile where "tile = (if bit (lcdControl R) 4 \<and> v < 128 then (ucast v :: u16) + 256 else ucast v)"
  have lo: "unat lo < 32" by (simp add: lo_def drop3_lt)
  have t: "unat tile = columnTile g mo lo 0"
    using lo by (simp add: tile_def columnTile_def bgTile_def v_def R_def tile_adjust ucast_tile)
  have t383: "\<not> tile > 383"
    using columnTile_bound [of g mo lo 0] t by (simp add: word_less_nat_alt)
  have ly: "unat (lcdYCoordinate R) \<le> 143"
    using assms(2) by (simp add: R_def word_le_nat_alt)
  then have canvas: "unat canvas = 160 * unat (lcdYCoordinate R)"
    by (simp add: canvas_def unat_word_ariths unsigned_ucast_eq take_bit_nat_eq_self)
  have sp: "scanPixel g = (\<lambda>k. linePixel g mo lo y (unat (scrollX R AND 7) + k))"
    by (simp add: fun_eq_iff scanPixel_def mo_def lo_def y_def and7_lt R_def)
  have "renderScan g = renderLoop 160 mo y lo (scrollX R AND 7) canvas tile g"
    using t383 by (simp add: renderScan_def Let_def R_def mo_def lo_def y_def canvas_def tile_def
        v_def scanMapOffset_def ucast_and_FF tile_adjust)
  also have "\<dots> = Inr (g\<lparr>frameBuffer := drawPixels (frameBuffer g) (unat canvas) 160
      (\<lambda>k. linePixel g mo lo y (unat (scrollX R AND 7) + k))\<rparr>)"
    by (rule renderLoop_spec) (use assms t lo ly canvas in \<open>simp_all add: y_def and7_lt\<close>)
  finally show ?thesis
    by (simp add: canvas sp R_def)
qed

section \<open>The mode machine\<close>

definition gpu_inv :: "GPU \<Rightarrow> bool" where
  "gpu_inv g \<longleftrightarrow> mode g < 4 \<and> lcdYCoordinate (gpuRegs g) \<le> 153
     \<and> (mode g \<noteq> VBLANK \<longrightarrow> lcdYCoordinate (gpuRegs g) \<le> 143) \<and> tiles_ok g"

lemma tiles_ok_upd [simp]:
  "tiles_ok (g\<lparr>gpuRegs := R\<rparr>) = tiles_ok g" "tiles_ok (g\<lparr>mode := m\<rparr>) = tiles_ok g"
  "tiles_ok (g\<lparr>modeClock := c\<rparr>) = tiles_ok g" "tiles_ok (g\<lparr>modeString := st\<rparr>) = tiles_ok g"
  "tiles_ok (g\<lparr>frameBuffer := fb\<rparr>) = tiles_ok g" "tiles_ok (g\<lparr>VRAM := v\<rparr>) = tiles_ok g"
  by (simp_all add: tiles_ok_def)

lemma gpuStep_off: "\<not> bit (lcdControl (gpuRegs g)) 7 \<Longrightarrow> gpuStep t g i = Inr (g, i)"
  by (simp add: gpuStep_def)

lemma gpuStep_wait:
  "bit (lcdControl (gpuRegs g)) 7 \<Longrightarrow>
   mode g = 0 \<and> modeClock g + t < 204 \<or> mode g = 1 \<and> modeClock g + t < 456
   \<or> mode g = 2 \<and> modeClock g + t < 80 \<or> mode g = 3 \<and> modeClock g + t < 172
   \<Longrightarrow> gpuStep t g i = Inr (g\<lparr>modeClock := modeClock g + t\<rparr>, i)"
  by (auto simp: gpuStep_def Let_def)

lemma gpuStep_oam:
  "bit (lcdControl (gpuRegs g)) 7 \<Longrightarrow> mode g = 2 \<Longrightarrow> 80 \<le> modeClock g + t \<Longrightarrow>
   gpuStep t g i = Inr (HandleLCDModeChange 3
     (g\<lparr>modeClock := modeClock g + t - 80, modeString := Some (modeStrings ! 2)\<rparr>) i)"
  by (simp add: gpuStep_def Let_def)

lemma gpuStep_vram:
  "bit (lcdControl (gpuRegs g)) 7 \<Longrightarrow> mode g = 3 \<Longrightarrow> 172 \<le> modeClock g + t \<Longrightarrow>
   gpuStep t g i = bind_res (renderScan
      (g\<lparr>modeString := Some (modeStrings ! 3), modeClock := modeClock g + t - 172\<rparr>))
      (\<lambda>g. Inr (HandleLCDModeChange 0 g i))"
  by (simp add: gpuStep_def Let_def)

lemma gpuStep_hblank:
  "bit (lcdControl (gpuRegs g)) 7 \<Longrightarrow> mode g = 0 \<Longrightarrow> 204 \<le> modeClock g + t \<Longrightarrow>
   gpuStep t g i = (let n = NextScanline
      (g\<lparr>modeClock := modeClock g + t - 204, modeString := Some (modeStrings ! 0)\<rparr>) i
     in Inr (HandleLCDModeChange (if nextLine (lcdYCoordinate (gpuRegs g)) = 144 then 1 else 2)
          (fst n) (snd n)))"
  by (simp add: gpuStep_def Let_def case_prod_beta NextScanline_fst)

lemma gpuStep_vblank:
  "bit (lcdControl (gpuRegs g)) 7 \<Longrightarrow> mode g = 1 \<Longrightarrow> 456 \<le> modeClock g + t \<Longrightarrow>
   gpuStep t g i = (let n = NextScanline
      (g\<lparr>modeClock := modeClock g + t - 456, modeString := Some (modeStrings ! 1)\<rparr>) i
     in if nextLine (lcdYCoordinate (gpuRegs g)) = 0
        then Inr (HandleLCDModeChange 2 (fst n) (snd n)) else Inr n)"
  by (simp add: gpuStep_def Let_def case_prod_beta) (simp add: NextScanline_fst)

lemmas gpuStep_rules = gpuStep_off gpuStep_wait gpuStep_oam gpuStep_vram gpuStep_hblank gpuStep_vblank

lemma nextLine_bounds:
  "l \<le> 153 \<Longrightarrow> nextLine l \<le> 153"
  "l \<le> 143 \<Longrightarrow> nextLine l \<noteq> 144 \<Longrightarrow> nextLine l \<le> 143"
  "l \<le> 153 \<Longrightarrow> unat (nextLine l) = (unat l + 1) mod 154"
proof -
  show u: "unat (nextLine l) = (unat l + 1) mod 154" if "l \<le> 153"
  proof (cases "l = 153")
    case False
    then have "unat l \<noteq> 153" by (auto simp: word_unat_eq_iff)
    with that have "unat l < 153" by (simp add: word_le_nat_alt)
    with False show ?thesis by (simp add: nextLine_def unat_word_ariths)
  qed (simp add: nextLine_def)
  show "nextLine l \<le> 153" if "l \<le> 153"
    using u [OF that] by (simp add: word_le_nat_alt)
  show "nextLine l \<le> 143" if "l \<le> 143" and "nextLine l \<noteq> 144"
  proof -
    have "l \<le> 153" using that(1) by (simp add: word_le_nat_alt)
    from u [OF this] that show ?thesis
      by (simp add: word_le_nat_alt word_unat_eq_iff)
  qed
qed

lemma renderScan_upd:
  assumes "gpu_inv g" and "mode g \<noteq> 1"
  shows "\<exists>fb. renderScan (g\<lparr>modeString := st, modeClock := c\<rparr>)
           = Inr (g\<lparr>modeString := st, modeClock := c, frameBuffer := fb\<rparr>)"
proof -
  have "tiles_ok (g\<lparr>modeString := st, modeClock := c\<rparr>)"
    and "lcdYCoordinate (gpuRegs (g\<lparr>modeString := st, modeClock := c\<rparr>)) \<le> 143"
    using assms by (simp_all add: gpu_inv_def)
  from renderScan_eq [OF this] show ?thesis by auto
qed

text \<open>The five things a step with the display on can do, for the case analyses below.\<close>

lemma gpuStep_cases:
  assumes "gpu_inv g"
  obtains (wait) "mode g = 0 \<and> modeClock g + t < 204 \<or> mode g = 1 \<and> modeClock g + t < 456
      \<or> mode g = 2 \<and> modeClock g + t < 80 \<or> mode g = 3 \<and> modeClock g + t < 172"
    | (hblank) "mode g = 0" "204 \<le> modeClock g + t"
    | (vblank) "mode g = 1" "456 \<le> modeClock g + t"
    | (oam) "mode g = 2" "80 \<le> modeClock g + t"
    | (vram) "mode g = 3" "172 \<le> modeClock g + t"
proof -
  have "mode g = 0 \<or> mode g = 1 \<or> mode g = 2 \<or> mode g = 3"
    using assms u8_lt_4_cases by (simp add: gpu_inv_def)
  then show ?thesis
    using that by (metis not_le)
qed

lemma gpuStep_safe:
  assumes inv: "gpu_inv g"
  shows "\<exists>p. gpuStep t g i = Inr p \<and> gpu_inv (fst p) \<and> tileFileOpens (fst p) = tileFileOpens g"
proof (cases "bit (lcdControl (gpuRegs g)) 7")
  case False
  with inv show ?thesis by (simp add: gpuStep_off)
next
  case on: True
  from inv show ?thesis
  proof (cases rule: gpuStep_cases [of g t])
    case wait
    with inv show ?thesis by (auto simp: gpuStep_wait [OF on] gpu_inv_def)
  next
    case hblank
    have "lcdYCoordinate (gpuRegs g) \<le> 143" using inv hblank by (simp add: gpu_inv_def)
    note b = nextLine_bounds(2) [OF this]
    show ?thesis using inv hblank b nextLine_bounds(1)
      by (auto simp: gpuStep_hblank [OF on] Let_def gpu_inv_def HandleLCDModeChange_fst
          NextScanline_fst)
  next
    case vblank
    with inv nextLine_bounds(1) show ?thesis
      by (cases "nextLine (lcdYCoordinate (gpuRegs g)) = 0")
        (simp_all add: gpuStep_vblank [OF on] Let_def gpu_inv_def HandleLCDModeChange_fst
          NextScanline_fst del: split_paired_Ex)
  next
    case oam
    with inv show ?thesis
      by (auto simp: gpuStep_oam [OF on] gpu_inv_def HandleLCDModeChange_fst)
  next
    case vram
    with inv obtain fb where "renderScan
        (g\<lparr>modeString := Some (modeStrings ! 3), modeClock := modeClock g + t - 172\<rparr>)
        = Inr (g\<lparr>modeString := Some (modeStrings ! 3), modeClock := modeClock g + t - 172,
            frameBuffer := fb\<rparr>)"
      using renderScan_upd by fastforce
    with inv vram show ?thesis
      by (simp add: gpuStep_vram [OF on] gpu_inv_def HandleLCDModeChange_fst del: split_paired_Ex)
  qed
qed

section \<open>Timing\<close>

definition modePeriod :: "u8 \<Rightarrow> nat" where
  "modePeriod m = (if m = 0 then 204 else if m = 1 then 456 else if m = 2 then 80 else 172)"

definition gpu_timed :: "GPU \<Rightarrow> bool" where
  "gpu_timed g \<longleftrightarrow> gpu_inv g \<and> unat (modeClock g) < modePeriod (mode g)
     \<and> (mode g = VBLANK \<longrightarrow> 144 \<le> lcdYCoordinate (gpuRegs g))"

text \<open>The position in the frame, in clock ticks since line 0 entered OAM scan.\<close>

definition framePos :: "GPU \<Rightarrow> nat" where
  "framePos g = 456 * unat (lcdYCoordinate (gpuRegs g))
     + (if mode g = 3 then 80 else if mode g = 0 then 252 else 0) + unat (modeClock g)"

lemma unat_minus_word: "b \<le> a \<Longrightarrow> unat (a - b) = unat a - unat b" for a b :: "'a::len word"
  by (rule unat_sub)

lemma request_bit0 [simp]:
  "bit (request (writeInterrupt 0xFF0F 2 i)) 0 = bit (request i) 0"
  "bit (request (writeInterrupt 0xFF0F 1 i)) 0"
  by (simp_all add: writeInterrupt_def bit_or_iff)

lemma NextScanline_bit0 [simp]: "bit (request (snd (NextScanline g i))) 0 = bit (request i) 0"
  by (simp add: NextScanline_snd)

lemma HandleLCDModeChange_bit0:
  "m < 4 \<Longrightarrow> bit (request (snd (HandleLCDModeChange m g i))) 0 = (m = 1 \<or> bit (request i) 0)"
  by (simp add: HandleLCDModeChange_snd Let_def)

definition frame_advance :: "GPU \<Rightarrow> nat \<Rightarrow> interruptRegisters \<Rightarrow> GPU \<times> interruptRegisters \<Rightarrow> bool" where
  "frame_advance g t i p \<longleftrightarrow> gpu_timed (fst p) \<and> lcdControl (gpuRegs (fst p)) = lcdControl (gpuRegs g)
     \<and> framePos (fst p) = (framePos g + t) mod 70224
     \<and> (bit (request (snd p)) 0 \<longleftrightarrow>
          bit (request i) 0 \<or> framePos g < 65664 \<and> 65664 \<le> framePos g + t)"

lemma frame_same_line:
  fixes ly k t :: nat
  assumes "k + t < 456" and "ly \<le> 153"
  shows "(456 * ly + k + t) mod 70224 = 456 * ly + k + t"
    and "\<not> (456 * ly + k < 65664 \<and> 65664 \<le> 456 * ly + k + t)"
proof -
  show "(456 * ly + k + t) mod 70224 = 456 * ly + k + t"
    using assms by simp
  show "\<not> (456 * ly + k < 65664 \<and> 65664 \<le> 456 * ly + k + t)"
    using assms by (cases "ly \<le> 143") linarith+
qed

lemma frame_next_line:
  fixes ly k t :: nat
  assumes "456 \<le> k + t" and "k + t < 912" and "k < 456" and "ly \<le> 153"
  shows "(456 * ly + k + t) mod 70224 = 456 * ((ly + 1) mod 154) + (k + t - 456)"
    and "(456 * ly + k < 65664 \<and> 65664 \<le> 456 * ly + k + t) \<longleftrightarrow> ly = 143"
proof -
  show "(456 * ly + k + t) mod 70224 = 456 * ((ly + 1) mod 154) + (k + t - 456)"
  proof (cases "ly = 153")
    case True
    with assms have "456 * ly + k + t = 70224 + (k + t - 456)" by simp
    then show ?thesis using assms True by (simp add: mod_if)
  next
    case False
    with assms have "ly + 1 < 154" "456 * ly + k + t < 70224" by linarith+
    moreover obtain d where "k + t = 456 + d"
      using assms(1) le_Suc_ex by blast
    ultimately show ?thesis by (simp add: add.assoc)
  qed
  consider "ly \<le> 142" | "ly = 143" | "144 \<le> ly" by linarith
  then show "(456 * ly + k < 65664 \<and> 65664 \<le> 456 * ly + k + t) \<longleftrightarrow> ly = 143"
    using assms by cases linarith+
qed

lemma gpuStep_frame_advance:
  assumes timed: "gpu_timed g" and on: "bit (lcdControl (gpuRegs g)) 7" and t: "unat t \<le> 80"
  shows "\<exists>p. gpuStep t g i = Inr p \<and> frame_advance g (unat t) i p"
proof -
  define ly where "ly = unat (lcdYCoordinate (gpuRegs g))"
  define c where "c = unat (modeClock g)"
  have inv: "gpu_inv g" using timed by (simp add: gpu_timed_def)
  have c: "c < modePeriod (mode g)" using timed by (simp add: gpu_timed_def c_def)
  then have "c < 456" by (simp add: modePeriod_def split: if_splits)
  with t have ct: "unat (modeClock g + t) = c + unat t"
    by (simp add: unat_word_ariths c_def)
  have ly: "ly \<le> 153" "mode g \<noteq> 1 \<Longrightarrow> ly \<le> 143" "mode g = 1 \<Longrightarrow> 144 \<le> ly"
    using timed by (auto simp: gpu_timed_def gpu_inv_def ly_def word_le_nat_alt)
  have nl: "unat (nextLine (lcdYCoordinate (gpuRegs g))) = (ly + 1) mod 154"
    using nextLine_bounds(3) ly(1) by (simp add: ly_def word_le_nat_alt)
  obtain p where p: "gpuStep t g i = Inr p" and inv': "gpu_inv (fst p)"
    using gpuStep_safe [OF inv] by blast
  have ly144: "nextLine (lcdYCoordinate (gpuRegs g)) = 144 \<longleftrightarrow> ly = 143"
    "nextLine (lcdYCoordinate (gpuRegs g)) = 0 \<longleftrightarrow> ly = 153"
    using nl ly(1) by (auto simp: word_unat_eq_iff mod_Suc split: if_splits)
  note split = frame_same_line frame_next_line
  have "frame_advance g (unat t) i p"
    using inv
  proof (cases rule: gpuStep_cases [of g t])
    case wait
    then have p': "p = (g\<lparr>modeClock := modeClock g + t\<rparr>, i)"
      using p by (simp add: gpuStep_wait [OF on])
    define k where "k = (if mode g = 3 then 80 else if mode g = 0 then 252 else 0) + c"
    have pos: "framePos g = 456 * ly + k" "framePos (fst p) = 456 * ly + k + unat t"
      by (simp_all add: framePos_def p' k_def c_def [symmetric] ly_def [symmetric] ct)
    have kt: "k + unat t < 456" and m: "c + unat t < modePeriod (mode g)"
      using wait by (auto simp: k_def modePeriod_def word_less_nat_alt ct)
    show ?thesis
      using frame_same_line [OF kt ly(1)] inv' m timed pos
      by (auto simp: frame_advance_def gpu_timed_def p' ct)
  next
    case hblank
    define n where "n = NextScanline
      (g\<lparr>modeClock := modeClock g + t - 204, modeString := Some (modeStrings ! 0)\<rparr>) i"
    have p': "p = HandleLCDModeChange (if ly = 143 then 1 else 2) (fst n) (snd n)"
      using p hblank ly144 by (simp add: gpuStep_hblank [OF on] n_def Let_def)
    have c204: "c < 204" "204 \<le> c + unat t" "ly \<le> 143"
      using hblank c ly by (simp_all add: modePeriod_def word_le_nat_alt ct)
    then have kt: "456 \<le> 252 + c + unat t" "252 + c + unat t < 912" "252 + c < 456"
      using t by linarith+
    have le: "144 \<le> nextLine (lcdYCoordinate (gpuRegs g))" if "ly = 143"
      using ly144 that by simp
    have lt: "c + unat t - 204 < 80" "c + unat t - 204 < 456" using c204 t by linarith+
    show ?thesis
      using frame_next_line [OF kt ly(1)] inv' c204 hblank t le lt
      by (simp add: frame_advance_def gpu_timed_def framePos_def p' n_def ly_def [symmetric]
         modePeriod_def c_def [symmetric] ct HandleLCDModeChange_fst HandleLCDModeChange_bit0
         unat_minus_word NextScanline_fst nl)
  next
    case vblank
    define n where "n = NextScanline
      (g\<lparr>modeClock := modeClock g + t - 456, modeString := Some (modeStrings ! 1)\<rparr>) i"
    have p': "p = (if ly = 153 then HandleLCDModeChange 2 (fst n) (snd n) else n)"
      using p vblank ly144 by (simp add: gpuStep_vblank [OF on] n_def Let_def split: if_splits)
    have c456: "c < 456" "456 \<le> c + unat t" "144 \<le> ly"
      using vblank c ly by (simp_all add: modePeriod_def word_le_nat_alt ct)
    then have kt: "456 \<le> c + unat t" "c + unat t < 912" "c < 456"
      using t by linarith+
    have le: "144 \<le> nextLine (lcdYCoordinate (gpuRegs g))" if "ly \<noteq> 153"
      using nl ly(1) c456 that by (simp add: word_le_nat_alt mod_Suc)
    show ?thesis
      using frame_next_line [OF kt ly(1)] inv' c456 vblank t le
      by (cases "ly = 153")
        (simp_all add: frame_advance_def gpu_timed_def framePos_def p' n_def ly_def [symmetric]
         modePeriod_def c_def [symmetric] ct HandleLCDModeChange_fst HandleLCDModeChange_bit0
         unat_minus_word NextScanline_fst nl)
  next
    case oam
    then have p': "p = HandleLCDModeChange 3
     (g\<lparr>modeClock := modeClock g + t - 80, modeString := Some (modeStrings ! 2)\<rparr>) i"
      using p by (simp add: gpuStep_oam [OF on])
    have c80: "c < 80" "80 \<le> c + unat t"
      using oam c by (simp_all add: modePeriod_def word_le_nat_alt ct)
    then have kt: "c + unat t < 456" using t by simp
    show ?thesis
      using frame_same_line [OF kt ly(1)] inv' c80 oam t
      by (auto simp: frame_advance_def gpu_timed_def framePos_def p' ly_def [symmetric] modePeriod_def
         c_def [symmetric] ct HandleLCDModeChange_fst HandleLCDModeChange_bit0 unat_minus_word)
  next
    case vram
    obtain fb where p': "p = HandleLCDModeChange 0 (g\<lparr>modeString := Some (modeStrings ! 3),
        modeClock := modeClock g + t - 172, frameBuffer := fb\<rparr>) i"
      using p vram renderScan_upd [OF inv, of "modeClock g + t - 172" "Some (modeStrings ! 3)"]
      by (auto simp: gpuStep_vram [OF on])
    have c172: "c < 172" "172 \<le> c + unat t"
      using vram c by (simp_all add: modePeriod_def word_le_nat_alt ct)
    then have kt: "80 + c + unat t < 456" using t by simp
    show ?thesis
      using frame_same_line [OF kt ly(1)] inv' c172 vram t
      by (auto simp: frame_advance_def gpu_timed_def framePos_def p' ly_def [symmetric] modePeriod_def
         c_def [symmetric] ct HandleLCDModeChange_fst HandleLCDModeChange_bit0 unat_minus_word)
  qed
  with p show ?thesis by blast
qed

section \<open>The interrupts a step requests\<close>

lemma NextScanline_irq: "irq_ok i \<Longrightarrow> irq_ok (snd (NextScanline g i))"
  by (simp add: NextScanline_def Let_def irq_ok_write)

lemma HandleLCDModeChange_irq: "irq_ok i \<Longrightarrow> irq_ok (snd (HandleLCDModeChange m g i))"
  by (simp add: HandleLCDModeChange_def Let_def irq_ok_write)

lemma gpuStep_irq:
  assumes "irq_ok i"
  shows "on_ok (\<lambda>p. irq_ok (snd p)) (gpuStep t g i)"
  using assms
  by (simp add: gpuStep_def Let_def case_prod_beta NextScanline_irq HandleLCDModeChange_irq on_ok_bind_trivial)

end
