(* ===== verification/Gpu_Properties.thy ===== *)
theory Gpu_Properties
  imports Gpu_Correct
begin

text \<open>
  The properties of the GPU: the frame clock over whole runs, the VBLANK request, the pixels of a
  line, the decoding of tiles, VRAM and register accesses, the LCD control register and the STAT
  interrupts. \<open>gpuRun\<close> steps the GPU by a list of tick counts, as the main loop does one at a
  time; \<open>gpuPoweredOn\<close> is the GPU after \<open>gpuReset\<close> and the write of 91h to FF40 that
  \<open>initializeMemory\<close> makes.
\<close>

section \<open>Whole frames\<close>

text \<open>The GPU stepped by a sequence of tick counts, as the main loop does.\<close>

fun gpuRun :: "u32 list \<Rightarrow> GPU \<Rightarrow> interruptRegisters \<Rightarrow> (GPU \<times> interruptRegisters) res" where
  "gpuRun [] g i = Inr (g, i)"
| "gpuRun (t # ts) g i = bind_res (gpuStep t g i) (\<lambda>(g, i). gpuRun ts g i)"

text \<open>The mode a display shows at a position of the frame.\<close>

definition modeAt :: "nat \<Rightarrow> u8" where
  "modeAt p = (if 65664 \<le> p then VBLANK else if p mod 456 < 80 then OAM_SCANLINE
     else if p mod 456 < 252 then VRAM_SCANLINE else HBLANK)"

lemma framePos_mode:
  assumes "gpu_timed g"
  shows "unat (lcdYCoordinate (gpuRegs g)) = framePos g div 456" and "mode g = modeAt (framePos g)"
proof -
  define ly where "ly = unat (lcdYCoordinate (gpuRegs g))"
  define k where "k = (if mode g = 3 then 80 else if mode g = 0 then 252 else 0) + unat (modeClock g)"
  have pos: "framePos g = 456 * ly + k" by (simp add: framePos_def ly_def k_def)
  have m: "mode g = 0 \<or> mode g = 1 \<or> mode g = 2 \<or> mode g = 3"
    using assms u8_lt_4_cases by (simp add: gpu_timed_def gpu_inv_def)
  have k: "k < 456"
    using assms m by (auto simp: gpu_timed_def modePeriod_def k_def)
  then show "ly = framePos g div 456" by (simp add: pos)
  have ly: "mode g \<noteq> 1 \<Longrightarrow> ly \<le> 143" "mode g = 1 \<Longrightarrow> 144 \<le> ly"
    using assms by (auto simp: gpu_timed_def gpu_inv_def ly_def word_le_nat_alt)
  have "(456 * ly + k) mod 456 = k" using k by simp
  moreover have "65664 \<le> 456 * ly + k \<longleftrightarrow> 144 \<le> ly" using k by (cases "144 \<le> ly") linarith+
  ultimately show "mode g = modeAt (framePos g)"
    using m ly assms by (auto simp: modeAt_def pos k_def gpu_timed_def modePeriod_def)
qed

lemma framePos_bound: "gpu_timed g \<Longrightarrow> framePos g < 70224"
proof -
  assume g: "gpu_timed g"
  then have "framePos g div 456 < 154"
    using framePos_mode(1) [OF g] by (simp add: gpu_timed_def gpu_inv_def word_le_nat_alt)
  then show ?thesis by (simp add: div_less_iff_less_mult)
qed

lemma gpuRun_frame:
  assumes "gpu_timed g" and "bit (lcdControl (gpuRegs g)) 7" and "\<forall>t\<in>set ts. unat t \<le> 80"
  shows "\<exists>p. gpuRun ts g i = Inr p \<and> gpu_timed (fst p)
    \<and> framePos (fst p) = (framePos g + (\<Sum>t\<leftarrow>ts. unat t)) mod 70224"
  using assms
proof (induction ts arbitrary: g i)
  case Nil
  then show ?case by (simp add: framePos_bound)
next
  case (Cons t ts)
  have "unat t \<le> 80" using Cons.prems(3) by simp
  from gpuStep_frame_advance [OF Cons.prems(1,2) this] obtain q where
    q: "gpuStep t g i = Inr q" and adv: "frame_advance g (unat t) i q"
    by blast
  have "\<exists>p. gpuRun ts (fst q) (snd q) = Inr p \<and> gpu_timed (fst p)
    \<and> framePos (fst p) = (framePos (fst q) + (\<Sum>t\<leftarrow>ts. unat t)) mod 70224"
    by (rule Cons.IH) (use adv Cons.prems in \<open>simp_all add: frame_advance_def\<close>)
  moreover have "(framePos (fst q) + (\<Sum>t\<leftarrow>ts. unat t)) mod 70224
      = (framePos g + (\<Sum>t\<leftarrow>t # ts. unat t)) mod 70224"
    using adv by (simp add: frame_advance_def mod_add_left_eq add.assoc)
  ultimately show ?case
    by (simp add: q case_prod_beta del: split_paired_Ex)
qed

text \<open>
  \<^bold>\<open>C4.\<close> The display is a clock. From any timed state with the display on, stepping the GPU by any
  sequence of tick counts of at most 80 succeeds, and afterwards the line register and the mode
  are those of the frame position advanced by the total number of ticks modulo 70224: line
  \<open>position div 456\<close>, OAM scan for 80 ticks of a line, VRAM scan for 172, HBLANK for the rest, and
  VBLANK from line 144 on. So no tick is lost or counted twice at any mode change.
\<close>

theorem gpu_frame_clock:
  assumes "gpu_timed g" and "bit (lcdControl (gpuRegs g)) 7" and "\<forall>t\<in>set ts. unat t \<le> 80"
  shows "\<exists>g' i'. gpuRun ts g i = Inr (g', i')
    \<and> unat (lcdYCoordinate (gpuRegs g'))
        = (framePos g + (\<Sum>t\<leftarrow>ts. unat t)) mod 70224 div 456
    \<and> mode g' = modeAt ((framePos g + (\<Sum>t\<leftarrow>ts. unat t)) mod 70224)"
  using gpuRun_frame [OF assms] framePos_mode by (metis prod.collapse)

definition gpuPoweredOn :: GPU where
  "gpuPoweredOn = gpuWriteRegister 0xFF40 0x91 (gpuReset GPU_static)"

lemma gpuPoweredOn_timed: "gpu_timed gpuPoweredOn" "lcdControl (gpuRegs gpuPoweredOn) = 0x91"
  "framePos gpuPoweredOn = 69884"
  by (simp_all add: gpuPoweredOn_def gpu_timed_def gpu_inv_def tiles_ok_def GPU_static_def gpuReset_def
      initGPU_def gpuWriteRegister_def UpdateLcdControlRegister_def updateLcdControlBit_def
      UpdateBit_def modePeriod_def Let_def framePos_def)

lemma gpu_frame_clock_witness:
  "\<exists>g' i'. gpuRun [80, 80, 80, 80, 24] gpuPoweredOn
       \<lparr>request = 0, enable = 0, masterEnable = 0\<rparr> = Inr (g', i')
    \<and> unat (lcdYCoordinate (gpuRegs g')) = 0 \<and> mode g' = OAM_SCANLINE"
  using gpu_frame_clock [OF gpuPoweredOn_timed(1), of "[80, 80, 80, 80, 24]"
     "\<lparr>request = 0, enable = 0, masterEnable = 0\<rparr>"]
  by (simp add: gpuPoweredOn_timed modeAt_def)

text \<open>
  VBLANK is requested exactly once per frame: a step of at most 80 ticks sets the request bit
  if and only if the frame position crosses 65664 (the start of line 144), and then the GPU is in
  VBLANK mode on line 144.
\<close>

theorem gpuStep_vblank_request:
  assumes "gpu_timed g" and "bit (lcdControl (gpuRegs g)) 7" and "unat t \<le> 80"
    and "\<not> bit (request i) 0"
  shows "\<exists>g' i'. gpuStep t g i = Inr (g', i')
    \<and> (bit (request i') 0 \<longleftrightarrow> framePos g < 65664 \<and> 65664 \<le> framePos g + unat t)
    \<and> (bit (request i') 0 \<longrightarrow> mode g' = VBLANK \<and> lcdYCoordinate (gpuRegs g') = 144)"
proof -
  from gpuStep_frame_advance [OF assms(1,2,3)] obtain g' i' where
    p: "gpuStep t g i = Inr (g', i')" and adv: "frame_advance g (unat t) i (g', i')"
    by (metis prod.collapse)
  have "mode g' = VBLANK \<and> lcdYCoordinate (gpuRegs g') = 144"
    if "framePos g < 65664 \<and> 65664 \<le> framePos g + unat t"
  proof -
    have "framePos g' = framePos g + unat t"
      using adv that assms(3) by (simp add: frame_advance_def)
    moreover from this have "framePos g' div 456 = 144" using that assms(3) by linarith
    ultimately show ?thesis
      using framePos_mode [of g'] adv that
      by (simp add: frame_advance_def modeAt_def word_unat_eq_iff)
  qed
  with p adv assms(4) show ?thesis
    by (auto simp: frame_advance_def)
qed

lemma gpuStep_vblank_request_witness:
  "\<exists>g' i'. gpuStep 24 gpuPoweredOn \<lparr>request = 0, enable = 0, masterEnable = 0\<rparr> = Inr (g', i')
    \<and> \<not> bit (request i') 0"
  using gpuStep_vblank_request [OF gpuPoweredOn_timed(1), of 24
      "\<lparr>request = 0, enable = 0, masterEnable = 0\<rparr>"]
  by (auto simp: gpuPoweredOn_timed)

section \<open>VRAM writes and tiles\<close>

text \<open>The two bit planes of a pixel row, as \<open>updateTile\<close> combines them.\<close>

definition planePixel :: "u8 \<Rightarrow> u8 \<Rightarrow> nat \<Rightarrow> u8" where
  "planePixel lsb msb x = of_bool (bit lsb (7 - x)) + 2 * of_bool (bit msb (7 - x))"

lemma tilePixel_eq: "x < 8 \<Longrightarrow> tilePixel lsb msb x = planePixel lsb msb x"
  by (auto simp: tilePixel_def planePixel_def Let_def and_exp_eq_0_iff_not_bit bit_simps
      push_bit_of_1)

lemma updateTileLoop_eq:
  assumes "unat tile < 384" and "unat row < 8" and "\<forall>x\<in>set ps. x < 8"
  shows "updateTileLoop ps tile row lsb msb g = Inr (g\<lparr>tiles := (tiles g)(unat tile :=
    (tiles g (unat tile))(unat row := (\<lambda>x. if x \<in> set ps then planePixel lsb msb x
       else tiles g (unat tile) (unat row) x)))\<rparr>)"
  using assms
proof (induction ps arbitrary: g)
  case (Cons x ps)
  then show ?case
    by (auto simp: tile_set_def tilePixel_eq fun_eq_iff intro!: GPU.equality)
qed simp

lemma updateTile_eq:
  fixes addr :: u16
  defines "base \<equiv> addr AND 0x1FFE"
  defines "tile \<equiv> unat (drop_bit 4 base AND 0x1FF)" and "row \<equiv> unat (drop_bit 1 base AND 7)"
  shows "updateTile addr v g =
    (if tile < 384 then Inr (g\<lparr>tiles := (tiles g)(tile := (tiles g tile)(row :=
       (\<lambda>x. if x < 8 then planePixel (VRAM g (unat base)) (VRAM g (unat base + 1)) x
            else tiles g tile row x)))\<rparr>)
     else Inl OutOfBounds)"
proof -
  have "base \<le> 0x1FFE" unfolding base_def by (rule word_and_le1)
  then have b: "unat base \<le> 0x1FFE" by (simp add: word_le_nat_alt)
  then have b1: "unat (base + 1) = unat base + 1" by (simp add: unat_word_ariths)
  have lt: "base < 0x2000" "base + 1 < 0x2000"
    using b b1 by (simp_all add: word_less_nat_alt)
  have "drop_bit 1 base AND 7 \<le> 7" by (rule word_and_le1)
  then have row: "row < 8" by (simp add: row_def word_le_nat_alt)
  show ?thesis
  proof (cases "tile < 384")
    case True
    have "updateTile addr v g = updateTileLoop [0..<8] (drop_bit 4 base AND 0x1FF)
        (drop_bit 1 base AND 7) (VRAM g (unat base)) (VRAM g (unat base + 1)) g"
      by (simp add: updateTile_def Let_def base_def [symmetric] gpuReadByte_def lt b1)
    with True row show ?thesis
      by (simp add: updateTileLoop_eq tile_def row_def cong: if_cong)
  next
    case False
    have "[0..<8] = 0 # [1..<8]" by (simp add: upt_rec)
    with False show ?thesis
      by (simp add: updateTile_def Let_def base_def [symmetric] tile_set_def tile_def)
  qed
qed

text \<open>
  \<open>updateTile\<close> decodes the row of the tile an address lies in: pixel \<open>x\<close> gets bit \<open>7 - x\<close> of the
  low plane plus twice that bit of the high plane, every other pixel keeps its value, and an
  address in the tile maps (a tile number of 384 or more) is the out-of-bounds write of the code.
\<close>

theorem updateTile_decodes:
  "updateTile addr v g =
    (let base = addr AND 0x1FFE; tile = unat (drop_bit 4 base AND 0x1FF);
         row = unat (drop_bit 1 base AND 7)
     in if tile < 384 then Inr (g\<lparr>tiles := (tiles g)(tile := (tiles g tile)(row :=
          (\<lambda>x. if x < 8 then planePixel (VRAM g (unat base)) (VRAM g (unat base + 1)) x
               else tiles g tile row x)))\<rparr>)
        else Inl OutOfBounds)"
  unfolding Let_def by (rule updateTile_eq)

text \<open>The GPU after a dump, and the condition under which no dump fails.\<close>

definition dumped :: "GPU \<Rightarrow> GPU" where
  "dumped g = g\<lparr>tileFile := map (VRAM g) [0..<16], tileFileOpens := (\<lambda>i. tileFileOpens g (Suc i))\<rparr>"

definition dumpable :: "GPU \<Rightarrow> bool" where
  "dumpable g \<longleftrightarrow> (\<forall>i. tileFileOpens g i)"

lemma gpuWriteVramToFile_eq:
  "gpuWriteVramToFile g = (if tileFileOpens g 0 then Inr (dumped g) else Inl NullPointer)"
  by (simp add: gpuWriteVramToFile_def dumped_def)

lemma dumpableD: "dumpable g \<Longrightarrow> tileFileOpens g i"
  by (simp add: dumpable_def)

lemma dumped_simps [simp]:
  "gpuRegs (dumped g) = gpuRegs g" "VRAM (dumped g) = VRAM g" "frameBuffer (dumped g) = frameBuffer g"
  "tiles (dumped g) = tiles g" "mode (dumped g) = mode g" "modeClock (dumped g) = modeClock g"
  "gpu_inv (dumped g) = gpu_inv g" "dumpable g \<Longrightarrow> dumpable (dumped g)"
  by (simp_all add: dumped_def gpu_inv_def tiles_ok_def dumpable_def)

lemma gpuWriteByte_eq:
  "gpuWriteByte a v g = (if 0x8000 \<le> a \<and> a < 0xA000
     then if tileFileOpens g 0 then Inr (1, dumped (g\<lparr>VRAM := (VRAM g)(unat a - 0x8000 := v)\<rparr>)) else Inl NullPointer
     else Inr (0, g))"
proof -
  have ua: "unat a < 65536" by (rule u16_bound)
  have m: "a - 0x8000 < 0x2000 \<longleftrightarrow> 0x8000 \<le> a \<and> a < 0xA000"
    using ua by (auto simp: word_less_nat_alt word_le_nat_alt unat_sub_if')
  have u: "0x8000 \<le> a \<Longrightarrow> unat (a - 0x8000) = unat a - 0x8000"
    by (simp add: unat_sub_if' word_le_nat_alt)
  show ?thesis
  proof (cases "0x8000 \<le> a \<and> a < 0xA000")
    case True
    then have "\<not> a < 0x1800" "unat a - 0x8000 < 0x2000"
      by (auto simp: word_less_nat_alt word_le_nat_alt)
    with True m u show ?thesis
      by (simp add: gpuWriteByte_def gpuReadByte_def gpuWriteVramToFile_eq Let_def)
  next
    case False
    with m show ?thesis by (auto simp: gpuWriteByte_def gpuReadByte_def Let_def)
  qed
qed

text \<open>
  VRAM accesses. A write to 8000h..9FFFh stores the byte at the offset, dumps the first tile as it then is and
  reports success, and changes nothing else (in particular no decoded tile: the guard of the call of
  \<open>updateTile\<close> tests the CPU address, which is never below 1800h here); when the file of the dump cannot be
  opened the write goes through a NULL pointer. Any other address is rejected without effect. A read takes an
  offset and returns 0 outside the 8 KB.
\<close>

theorem gpuWriteByte_effect:
  "gpuWriteByte a v g = (if 0x8000 \<le> a \<and> a < 0xA000
     then if tileFileOpens g 0 then Inr (1, dumped (g\<lparr>VRAM := (VRAM g)(unat a - 0x8000 := v)\<rparr>)) else Inl NullPointer
     else Inr (0, g))
   \<and> gpuReadByte a g = (if a < 0x2000 then VRAM g (unat a) else 0)"
  by (simp add: gpuWriteByte_eq gpuReadByte_def)

section \<open>Registers\<close>

text \<open>The register a write of \<open>FF4x\<close> is read back from.\<close>

text \<open>
  Register write/read pairs. FF40, FF41, FF45, FF48 and FF49 read back the byte written, FF44 is
  reset by any write, FF46 and FF47 drop the byte, and the pairs FF42/FF43 and FF4A/FF4B are
  crossed: what is written to one is read at the other.
\<close>

theorem gpuRegister_roundtrip:
  "gpuReadRegister 0xFF40 (gpuWriteRegister 0xFF40 v g) = v
   \<and> gpuReadRegister 0xFF41 (gpuWriteRegister 0xFF41 v g) = v
   \<and> gpuReadRegister 0xFF45 (gpuWriteRegister 0xFF45 v g) = v
   \<and> gpuReadRegister 0xFF48 (gpuWriteRegister 0xFF48 v g) = v
   \<and> gpuReadRegister 0xFF49 (gpuWriteRegister 0xFF49 v g) = v
   \<and> gpuReadRegister 0xFF44 (gpuWriteRegister 0xFF44 v g) = 0
   \<and> gpuReadRegister 0xFF43 (gpuWriteRegister 0xFF42 v g) = v
   \<and> gpuReadRegister 0xFF42 (gpuWriteRegister 0xFF42 v g) = gpuReadRegister 0xFF42 g
   \<and> gpuReadRegister 0xFF42 (gpuWriteRegister 0xFF43 v g) = v
   \<and> gpuReadRegister 0xFF43 (gpuWriteRegister 0xFF43 v g) = gpuReadRegister 0xFF43 g
   \<and> gpuReadRegister 0xFF4B (gpuWriteRegister 0xFF4A v g) = v
   \<and> gpuReadRegister 0xFF4A (gpuWriteRegister 0xFF4B v g) = v
   \<and> gpuWriteRegister 0xFF46 v g = g \<and> gpuWriteRegister 0xFF47 v g = g"
  by (simp add: gpuReadRegister_def gpuWriteRegister_def Let_def)

text \<open>Updating the eight bits one after the other writes the whole byte.\<close>

lemma UpdateBit_all:
  fixes b v :: u8
  defines "upd \<equiv> \<lambda>m b. fst (UpdateBit b m (v AND m))"
  shows "upd 0x01 (upd 0x02 (upd 0x04 (upd 0x08 (upd 0x10 (upd 0x20 (upd 0x40 (upd 0x80 b))))))) = v"
proof (rule bit_word_eqI)
  fix n :: nat
  assume "n < LENGTH(8)"
  then have "n = 0 \<or> n = 1 \<or> n = 2 \<or> n = 3 \<or> n = 4 \<or> n = 5 \<or> n = 6 \<or> n = 7"
    by (simp add: numeral_eq_Suc less_Suc_eq)
  then show "bit (upd 0x01 (upd 0x02 (upd 0x04 (upd 0x08 (upd 0x10 (upd 0x20 (upd 0x40
      (upd 0x80 b)))))))) n = bit v n"
    unfolding upd_def bit_UpdateBit by (elim disjE) simp_all
qed

lemma UpdateBit_top: "bit (fst (UpdateBit b 0x80 (v AND 0x80))) 7 = bit v 7"
  by (simp add: bit_UpdateBit)

lemma UpdateLcdControlRegister_eq:
  "UpdateLcdControlRegister v g =
    (let on = bit v 7; R = gpuRegs g in
     g\<lparr>gpuRegs := R\<lparr>lcdControl := v,
         lcdYCoordinate := (if on then lcdYCoordinate R else 0),
         lcdStatus := (if on then (lcdStatus R AND 0xF8) OR mode g else lcdStatus R AND 0xF8)\<rparr>,
       modeClock := (if on then modeClock g else 0), mode := (if on then mode g else HBLANK)\<rparr>)"
  by (cases "bit v 7")
    (simp_all add: UpdateLcdControlRegister_def updateLcdControlBit_def Let_def UpdateBit_top
      UpdateBit_all [simplified])

lemma gpuWriteRegister_inv: "gpu_inv g \<Longrightarrow> gpu_inv (gpuWriteRegister a v g)"
  by (auto simp: gpuWriteRegister_def UpdateLcdControlRegister_eq Let_def gpu_inv_def)

text \<open>
  Writing the LCD control register stores the whole byte. Switching the display off resets the
  line, the clock, the mode (HBLANK) and the low status bits; leaving it on only puts the current
  mode into the status register.
\<close>

theorem LcdControl_write:
  "gpuWriteRegister 0xFF40 v g =
    (let on = bit v 7; R = gpuRegs g in
     g\<lparr>gpuRegs := R\<lparr>lcdControl := v,
         lcdYCoordinate := (if on then lcdYCoordinate R else 0),
         lcdStatus := (if on then (lcdStatus R AND 0xF8) OR mode g else lcdStatus R AND 0xF8)\<rparr>,
       modeClock := (if on then modeClock g else 0), mode := (if on then mode g else HBLANK)\<rparr>)"
  by (simp add: gpuWriteRegister_def UpdateLcdControlRegister_eq Let_def)

lemma gpuWriteRegister_dumpable [simp]: "dumpable (gpuWriteRegister a v g) = dumpable g"
  by (auto simp: gpuWriteRegister_def UpdateLcdControlRegister_eq Let_def dumpable_def)

lemma gpuReset_dumpable [simp]: "dumpable (gpuReset g) = dumpable g"
  by (simp add: gpuReset_def initGPU_def dumpable_def)

lemma gpuReset_inv: "gpu_inv (gpuReset g)"
  by (simp add: gpuReset_def initGPU_def gpu_inv_def tiles_ok_def)

section \<open>A line of the background, pixel by pixel\<close>

text \<open>
  The pixel at column \<open>x\<close> of the current line, over natural numbers: the line and column of the
  background picture, the byte of the tile map, the tile it selects and the palette entry. The
  row of the map is added without the factor 32 a map row has, as the code does.
\<close>

definition bgPixel :: "GPU \<Rightarrow> nat \<Rightarrow> BasicColour" where
  "bgPixel g x =
    (let R = gpuRegs g;
         line = (unat (lcdYCoordinate R) + unat (scrollY R)) mod 256;
         col = unat (scrollX R) + x;
         mapBase = (if bit (lcdControl R) 3 then 0x1C00 else 0x1800);
         v = VRAM g (mapBase + line div 8 + (col div 8) mod 32)
     in Palette ! unat (tiles g (bgTile g v) (line mod 8) (col mod 8)))"

lemma scanPixel_eq: "scanPixel g x = bgPixel g x"
proof -
  define R where "R = gpuRegs g"
  define line where "line = unat (lcdYCoordinate R + scrollY R)"
  define sx where "sx = unat (scrollX R)"
  define mb where "mb = (if bit (lcdControl R) 3 then 0x1C00 else 0x1800 :: nat)"
  define c where "c = (sx + x) div 8 mod 32"
  have line: "line = (unat (lcdYCoordinate R) + unat (scrollY R)) mod 256"
    by (simp add: line_def unat_word_ariths)
  then have l32: "line div 8 < 32" by (simp add: div_less_iff_less_mult)
  have split_div: "(8 * a + b) div 8 = a + b div 8" for a b :: nat by simp
  have c32: "c < 32" by (simp add: c_def)
  have ly: "unat (drop_bit 3 (ucast (lcdYCoordinate R + scrollY R) :: u16)) = line div 8"
    by (simp only: unsigned_drop_bit_eq unsigned_ucast_eq)
      (simp add: take_bit_nat_eq_self u8_bound drop_bit_eq_div line_def less_trans [OF u8_bound])
  have mo: "unat (scanMapOffset g) = mb + line div 8"
    using l32 ly by (simp add: scanMapOffset_def R_def mb_def unat_word_ariths)
  have "unat (of_nat c :: u16) = c" using c32 by (simp add: unat_of_nat)
  then have addr: "unat (scanMapOffset g + of_nat c) = mb + line div 8 + c"
    using l32 c32 mo by (simp add: unat_word_ariths mb_def)
  have v: "gpuReadByte (scanMapOffset g + of_nat c) g = VRAM g (mb + line div 8 + c)"
    using addr l32 c32 by (simp add: gpuReadByte_def word_less_nat_alt mb_def)
  have lo: "unat (drop_bit 3 (scrollX R)) = sx div 8"
    by (simp only: unsigned_drop_bit_eq) (simp add: take_bit_nat_eq_self u8_bound drop_bit_eq_div sx_def)
  have col: "(sx div 8 + (sx mod 8 + x) div 8) mod 32 = c" "(sx mod 8 + x) mod 8 = (sx + x) mod 8"
    using split_div [of "sx div 8" "sx mod 8 + x"] by (simp_all add: c_def mod_add_left_eq)
  show ?thesis
    unfolding scanPixel_def linePixel_def columnTile_def bgPixel_def Let_def
    by (simp add: R_def [symmetric] lo sx_def [symmetric] col v and7_lt line_def [symmetric])
      (simp add: line mb_def c_def)
qed

text \<open>
  \<^bold>\<open>C19.\<close> Drawing a line succeeds, writes exactly the 160 pixels of that line of the frame buffer, each
  with the colour of the background picture at \<open>(x + scrollX, LY + scrollY)\<close> as \<open>bgPixel\<close> gives it,
  and leaves every other pixel and all other state alone. The optimised loop (one map read per tile
  column, running offsets, wrap-around of the column) equals the per-pixel formula.
\<close>

theorem renderScan_pixels:
  assumes "tiles_ok g" and "lcdYCoordinate (gpuRegs g) \<le> 143"
  shows "\<exists>fb. renderScan g = Inr (g\<lparr>frameBuffer := fb\<rparr>)
    \<and> (\<forall>x<160. fb (160 * unat (lcdYCoordinate (gpuRegs g)) + x) = bgPixel g x)
    \<and> (\<forall>p. p div 160 \<noteq> unat (lcdYCoordinate (gpuRegs g)) \<longrightarrow> fb p = frameBuffer g p)"
  unfolding renderScan_eq [OF assms]
proof (intro exI conjI allI impI)
  show "Inr (g\<lparr>frameBuffer := drawPixels (frameBuffer g) (160 * unat (lcdYCoordinate (gpuRegs g)))
      160 (scanPixel g)\<rparr>) = (Inr (g\<lparr>frameBuffer := drawPixels (frameBuffer g)
      (160 * unat (lcdYCoordinate (gpuRegs g))) 160 (scanPixel g)\<rparr>) :: GPU res)" ..
qed (auto simp: drawPixels_def scanPixel_eq)

definition stripeGPU :: GPU where
  "stripeGPU = GPU_static\<lparr>tiles := (\<lambda>t y x. if t = 1 then 3 else 0),
     VRAM := (\<lambda>a. if a = 0x1801 then 1 else 0)\<rparr>"

lemma renderScan_pixels_witness:
  "\<exists>fb. renderScan stripeGPU = Inr (stripeGPU\<lparr>frameBuffer := fb\<rparr>)
    \<and> colR (fb 7) = 255 \<and> colR (fb 9) = 0 \<and> colR (fb 16) = 255"
proof -
  have "tiles_ok stripeGPU" "lcdYCoordinate (gpuRegs stripeGPU) \<le> 143"
    by (simp_all add: stripeGPU_def tiles_ok_def GPU_static_def)
  from renderScan_pixels [OF this] obtain fb where
    r: "renderScan stripeGPU = Inr (stripeGPU\<lparr>frameBuffer := fb\<rparr>)" and
    px: "\<forall>x<160. fb (160 * unat (lcdYCoordinate (gpuRegs stripeGPU)) + x) = bgPixel stripeGPU x"
    by blast
  have "fb 7 = bgPixel stripeGPU 7" "fb 9 = bgPixel stripeGPU 9" "fb 16 = bgPixel stripeGPU 16"
    using px [rule_format, of 7] px [rule_format, of 9] px [rule_format, of 16]
    by (simp_all add: stripeGPU_def GPU_static_def)
  with r show ?thesis
    by (auto simp: bgPixel_def bgTile_def stripeGPU_def GPU_static_def Palette_def)
qed

section \<open>STAT interrupts\<close>

definition statSelected :: "u8 \<Rightarrow> u8 \<Rightarrow> bool" where
  "statSelected m st \<longleftrightarrow> m = OAM_SCANLINE \<and> bit st 5 \<or> m = HBLANK \<and> bit st 4
     \<or> m = VBLANK \<and> bit st 3"

text \<open>
  A mode change stores the mode, puts it into the two low status bits and requests exactly: the
  LCD interrupt when the new mode is selected (OAM by bit 5, HBLANK by bit 4, VBLANK by bit 3), and
  the VBLANK interrupt on entering VBLANK.
\<close>

theorem HandleLCDModeChange_stat:
  assumes "m < 4"
  shows "HandleLCDModeChange m g i =
    (g\<lparr>mode := m, gpuRegs := (gpuRegs g)\<lparr>lcdStatus := (lcdStatus (gpuRegs g) AND 0xFC) OR m\<rparr>\<rparr>,
     i\<lparr>request := request i OR (if statSelected m (lcdStatus (gpuRegs g)) then 2 else 0)
                            OR (if m = VBLANK then 1 else 0)\<rparr>)"
  using u8_lt_4_cases [OF assms]
  by (elim disjE; cases i)
    (simp_all add: HandleLCDModeChange_def statSelected_def Let_def bit_or_iff bit_and_iff
      writeInterrupt_def or.assoc)

lemma HandleLCDModeChange_stat_witness:
  "snd (HandleLCDModeChange VBLANK GPU_static \<lparr>request = 4, enable = 0, masterEnable = 0\<rparr>)
     = \<lparr>request = 5, enable = 0, masterEnable = 0\<rparr>"
  using HandleLCDModeChange_stat [of 1 GPU_static "\<lparr>request = 4, enable = 0, masterEnable = 0\<rparr>"]
  by (simp add: statSelected_def GPU_static_def)

text \<open>
  The next scan line is the successor modulo 154; the coincidence flag afterwards says exactly
  whether the new line equals LYC, and the LCD interrupt is requested if and only if the flag is set
  and selected by bit 6.
\<close>

theorem NextScanline_lyc:
  assumes "lcdYCoordinate (gpuRegs g) \<le> 153"
  shows "\<exists>g' i'. NextScanline g i = (g', i')
    \<and> unat (lcdYCoordinate (gpuRegs g')) = (unat (lcdYCoordinate (gpuRegs g)) + 1) mod 154
    \<and> (bit (lcdStatus (gpuRegs g')) 2 \<longleftrightarrow> lcdYCoordinate (gpuRegs g') = lcdLYCompare (gpuRegs g'))
    \<and> i' = i\<lparr>request := request i OR
         (if bit (lcdStatus (gpuRegs g')) 2 \<and> bit (lcdStatus (gpuRegs g')) 6 then 2 else 0)\<rparr>"
  using nextLine_bounds(3) [OF assms]
  by (cases "NextScanline g i")
    (use NextScanline_fst [of g i] NextScanline_snd [of g i] in
      \<open>auto simp: bit_or_iff bit_and_iff writeInterrupt_def\<close>)

lemma NextScanline_lyc_witness:
  "\<exists>g' i'. NextScanline GPU_static \<lparr>request = 0, enable = 0, masterEnable = 0\<rparr> = (g', i')
     \<and> unat (lcdYCoordinate (gpuRegs g')) = 1"
  using NextScanline_lyc [of GPU_static "\<lparr>request = 0, enable = 0, masterEnable = 0\<rparr>"]
  by (auto simp: GPU_static_def)

text \<open>
  Memory safety of the display. From any state that satisfies the invariant, any sequence of
  steps with any tick counts runs without an out-of-bounds access to the tiles, the palette or the
  frame buffer, and keeps the invariant.
\<close>

theorem gpuStep_safe_all:
  assumes "gpu_inv g"
  shows "\<exists>g' i'. gpuRun ts g i = Inr (g', i') \<and> gpu_inv g'"
  using assms
proof (induction ts arbitrary: g i)
  case (Cons t ts)
  obtain p where p: "gpuStep t g i = Inr p" "gpu_inv (fst p)"
    using gpuStep_safe [OF Cons.prems] by blast
  then show ?case using Cons.IH [of "fst p" "snd p"] by (simp add: case_prod_beta)
qed simp

lemma gpuStep_safe_all_witness:
  "\<exists>g' i'. gpuRun [4000, 80, 172, 204] gpuPoweredOn \<lparr>request = 0, enable = 0, masterEnable = 0\<rparr>
     = Inr (g', i') \<and> gpu_inv g'"
  by (rule gpuStep_safe_all) (use gpuPoweredOn_timed(1) in \<open>simp add: gpu_timed_def\<close>)

end
