(* ===== verification/Mbc.thy ===== *)
theory Mbc
  imports GB_Prelude "HOL-Library.Signed_Division"
begin

text \<open>
  The cartridge as the running program sees it: its ROM, RAM and header
  (\<^verbatim>\<open>include/cartridge.h\<close>), the controller selected for it (\<^verbatim>\<open>src/MBC.c\<close>) and the
  controllers themselves (\<^verbatim>\<open>src/MBC/\<close>), with the globals each of them keeps.

  \<^item> ROM and RAM are heap blocks, NULL until they are allocated; every access checks the bound.
  \<^item> The two function pointers of \<open>struct MBC\<close> are values of \<open>mbcFn option\<close>, None the NULL they
    start as; \<open>mbcSet\<close> says that \<open>cartridge.mbc\<close> has been set to \<open>&MBC\<close>.
  \<^item> \<open>time(NULL)\<close> is the next value of a clock the state carries (\<open>timeSrc\<close>, \<open>timeIdx\<close>), so every
    theorem holds for every clock. \<open>time_t\<close> is \<open>int\<close>; its division truncates (\<open>sdiv\<close>, \<open>smod\<close>).
  \<^item> A shift by the width of the type or more, or one that leaves \<open>int\<close>, is the fault \<open>BadShift\<close>.
\<close>

section \<open>State\<close>

record header =
  entryPoint :: "u8 list"
  nintendoLogo :: "u8 list"
  title :: "u8 list"
  newLicenseeCode :: "u8 list"
  sgbFlag :: u8
  cartridgeType :: u8
  romSize :: u8
  ramSize :: u8
  destinationCode :: u8
  oldLicenseeCode :: u8
  maskROMVersionNumber :: u8
  headerChecksum :: u8
  globalChecksum :: "u8 list"

datatype mbcFn = FnMBCNone | FnMBC1 | FnMBC2 | FnMBC3 | FnMBC4 | FnMBC5

record mbc1Regs =
  RAMEnable :: u8
  AccessMode :: u8
  ROMBankLow :: u8
  RAMBank_ROMBankUpper :: u8

record ClockRegisters =
  seconds :: u8
  minutes :: u8
  hours :: u8
  lowerDayCounter :: u8
  upperDayCounter :: u8

record mbc3Regs =
  RAM_TimerEnable :: u8
  ROMBankNumber :: u8
  RAMBankNumber :: u8
  RTCRegisterSelect :: u8
  LatchClockSequence :: u8
  RTCAccessMode :: u8
  haltTimestamp :: int
  baseTimestamp :: int
  Clock :: ClockRegisters

record cart =
  hdr :: header
  rom :: "buffer option"
  ram :: "buffer option"
  mbcSet :: bool
  mbcReadByte :: "mbcFn option"
  mbcWriteByte :: "mbcFn option"
  mbc1 :: mbc1Regs
  mbc3 :: mbc3Regs
  timeSrc :: "nat \<Rightarrow> int"
  timeIdx :: nat

text \<open>The globals before \<open>main\<close> runs.\<close>

definition header_static :: header where
  "header_static = \<lparr>entryPoint = replicate 0x04 0, nintendoLogo = replicate 0x30 0,
     title = replicate 0x10 0, newLicenseeCode = replicate 0x02 0, sgbFlag = 0,
     cartridgeType = 0, romSize = 0, ramSize = 0, destinationCode = 0, oldLicenseeCode = 0,
     maskROMVersionNumber = 0, headerChecksum = 0, globalChecksum = replicate 0x02 0\<rparr>"

definition mbc1_static :: mbc1Regs where
  "mbc1_static = \<lparr>RAMEnable = 0, AccessMode = 0, ROMBankLow = 0, RAMBank_ROMBankUpper = 0\<rparr>"

definition mbc3_static :: mbc3Regs where
  "mbc3_static = \<lparr>RAM_TimerEnable = 0, ROMBankNumber = 1, RAMBankNumber = 0,
     RTCRegisterSelect = 0, LatchClockSequence = 255, RTCAccessMode = 0,
     haltTimestamp = 0, baseTimestamp = 0,
     Clock = \<lparr>seconds = 0, minutes = 0, hours = 0, lowerDayCounter = 0, upperDayCounter = 0\<rparr>\<rparr>"

definition cart_static :: "(nat \<Rightarrow> int) \<Rightarrow> cart" where
  "cart_static clk = \<lparr>hdr = header_static, rom = None, ram = None, mbcSet = False,
     mbcReadByte = None, mbcWriteByte = None, mbc1 = mbc1_static, mbc3 = mbc3_static,
     timeSrc = clk, timeIdx = 0\<rparr>"

text \<open>\<open>time(NULL)\<close>.\<close>

definition time_now :: "cart \<Rightarrow> int \<times> cart" where
  "time_now c = (timeSrc c (timeIdx c), c\<lparr>timeIdx := timeIdx c + 1\<rparr>)"

text \<open>\<open>a << n\<close> on \<open>unsigned int\<close>, and on an \<open>unsigned short\<close> promoted to \<open>int\<close> and stored back.\<close>

definition shl_uint :: "u32 \<Rightarrow> u8 \<Rightarrow> u32 res" where
  "shl_uint a n = (if unat n < 32 then Inr (push_bit (unat n) a) else Inl BadShift)"

definition shl_ushort :: "u16 \<Rightarrow> u8 \<Rightarrow> u16 res" where
  "shl_ushort a n = (if unat n < 32 \<and> unat a * 2 ^ unat n < 2 ^ 31
     then Inr (push_bit (unat n) a) else Inl BadShift)"

section \<open>Cartridges without a controller\<close>

definition MBCNone_ReadByte :: "u16 \<Rightarrow> cart \<Rightarrow> u8 res" where
  "MBCNone_ReadByte memAddr c =
    (let address = unat memAddr in
     if address \<le> 0x7FFF then buf_get (rom c) address
     else if address \<ge> 0xA000 \<and> address \<le> 0xBFFF then buf_get (ram c) (address - 0xA000)
     else Inr 0)"

definition MBCNone_WriteByte :: "u16 \<Rightarrow> u8 \<Rightarrow> cart \<Rightarrow> (int \<times> cart) res" where
  "MBCNone_WriteByte memAddr value c =
    (if memAddr \<ge> 0xA000 \<and> memAddr \<le> 0xBFFF then
       bind_res (buf_set (ram c) (unat (memAddr - 0xA000)) value) (\<lambda>m. Inr (1, c\<lparr>ram := m\<rparr>))
     else Inr (1, c))"

section \<open>MBC1\<close>

definition MBC1_ROM_MODE :: u8 where [simp]: "MBC1_ROM_MODE = 0"

definition MBC1_RAM_MODE :: u8 where [simp]: "MBC1_RAM_MODE = 1"

definition MBC1_ReadByte :: "u16 \<Rightarrow> cart \<Rightarrow> u8 res" where
  "MBC1_ReadByte memAddr c =
    (let address = (ucast memAddr :: u32); m = mbc1 c in
     if address \<le> 0x3FFF then buf_get (rom c) (unat address)
     else if address \<le> 0x7FFF then
       (let bank = ROMBankLow m;
            bank = (if AccessMode m = MBC1_ROM_MODE
                    then bank OR push_bit 4 (RAMBank_ROMBankUpper m) else bank);
            address = address - 0x4000
        in bind_res (shl_uint address bank) (\<lambda>address. buf_get (rom c) (unat address)))
     else if address \<ge> 0xA000 \<and> address \<le> 0xBFFF then
       (if RAMEnable m \<noteq> 0 then
          (let address = address - 0xA000
           in bind_res (if AccessMode m = MBC1_RAM_MODE
                        then shl_uint address (RAMBank_ROMBankUpper m) else Inr address)
                (\<lambda>address. buf_get (ram c) (unat address)))
        else Inr 0)
     else Inr 0)"

definition MBC1_WriteByte :: "u16 \<Rightarrow> u8 \<Rightarrow> cart \<Rightarrow> (int \<times> cart) res" where
  "MBC1_WriteByte memAddr value c =
    (let address = memAddr; m = mbc1 c in
     if address \<le> 0x1FFF then
       (if value AND 0x0A = 0x0A then Inr (1, c\<lparr>mbc1 := m\<lparr>RAMEnable := 1\<rparr>\<rparr>)
        else Inr (1, c\<lparr>mbc1 := m\<lparr>RAMEnable := 0\<rparr>\<rparr>))
     else if address \<le> 0x3FFF then
       (let value_5Bit = value AND 0x1F in
        if value_5Bit = 0 then Inr (1, c\<lparr>mbc1 := m\<lparr>ROMBankLow := 1\<rparr>\<rparr>)
        else
          (let value_5Bit = (if value_5Bit = 0x20 \<or> value_5Bit = 0x40 \<or> value_5Bit = 0x60
                             then value_5Bit + 1 else value_5Bit)
           in Inr (1, c\<lparr>mbc1 := m\<lparr>ROMBankLow := value_5Bit\<rparr>\<rparr>)))
     else if address \<le> 0x5FFF then
       Inr (1, c\<lparr>mbc1 := m\<lparr>RAMBank_ROMBankUpper := value AND 0x03\<rparr>\<rparr>)
     else if address \<le> 0x7FFF then Inr (1, c\<lparr>mbc1 := m\<lparr>AccessMode := value\<rparr>\<rparr>)
     else if address \<ge> 0xA000 \<and> address \<le> 0xBFFF then
       (if RAMEnable m \<noteq> 0 then
          (let address = address - 0xA000
           in bind_res (if AccessMode m = MBC1_RAM_MODE
                        then shl_ushort address (RAMBank_ROMBankUpper m) else Inr address)
                (\<lambda>address. bind_res (buf_set (ram c) (unat address) value)
                  (\<lambda>b. Inr (1, c\<lparr>ram := b\<rparr>))))
        else Inr (0, c))
     else Inr (0, c))"

section \<open>The controllers that are stubs in the source\<close>

definition MBC2_ReadByte :: "u16 \<Rightarrow> cart \<Rightarrow> u8 res" where
  "MBC2_ReadByte memAddr c = Inr 1"

definition MBC2_WriteByte :: "u16 \<Rightarrow> u8 \<Rightarrow> cart \<Rightarrow> (int \<times> cart) res" where
  "MBC2_WriteByte memAddr value c = Inr (1, c)"

definition MBC4_ReadByte :: "u16 \<Rightarrow> cart \<Rightarrow> u8 res" where
  "MBC4_ReadByte memAddr c = Inr 1"

definition MBC4_WriteByte :: "u16 \<Rightarrow> u8 \<Rightarrow> cart \<Rightarrow> (int \<times> cart) res" where
  "MBC4_WriteByte memAddr value c = Inr (1, c)"

definition MBC5_ReadByte :: "u16 \<Rightarrow> cart \<Rightarrow> u8 res" where
  "MBC5_ReadByte memAddr c = Inr 1"

definition MBC5_WriteByte :: "u16 \<Rightarrow> u8 \<Rightarrow> cart \<Rightarrow> (int \<times> cart) res" where
  "MBC5_WriteByte memAddr value c = Inr (1, c)"

section \<open>MBC3 and its real-time clock\<close>

definition MBC3_RAM_MODE :: u8 where [simp]: "MBC3_RAM_MODE = 0"

definition MBC3_RTC_MODE :: u8 where [simp]: "MBC3_RTC_MODE = 1"

definition RTC_SECONDS :: u8 where [simp]: "RTC_SECONDS = 0x08"

definition RTC_MINUTES :: u8 where [simp]: "RTC_MINUTES = 0x09"

definition RTC_HOURS :: u8 where [simp]: "RTC_HOURS = 0x0A"

definition RTC_DAY_LOWER :: u8 where [simp]: "RTC_DAY_LOWER = 0x0B"

definition RTC_DAY_UPPER :: u8 where [simp]: "RTC_DAY_UPPER = 0x0C"

definition SECOND :: int where [simp]: "SECOND = 1"

definition MINUTE :: int where [simp]: "MINUTE = 60"

definition HOUR :: int where [simp]: "HOUR = 3600"

definition DAY :: int where [simp]: "DAY = 86400"

definition SECONDS_UNIT :: int where [simp]: "SECONDS_UNIT = 60"

definition MINUTES_UNIT :: int where [simp]: "MINUTES_UNIT = 60"

definition HOURS_UNIT :: int where [simp]: "HOURS_UNIT = 24"

definition DAYS_LOWER_UNIT :: int where [simp]: "DAYS_LOWER_UNIT = 255"

definition DAYS_UPPER_UNIT :: int where [simp]: "DAYS_UPPER_UNIT = 256"

definition dayCounterMSB :: u8 where [simp]: "dayCounterMSB = 0x01"

definition haltFlag :: u8 where [simp]: "haltFlag = 0x40"

definition dayCounterCarryFlag :: u8 where [simp]: "dayCounterCarryFlag = 0x80"

definition dayCounterOverflow :: int where [simp]: "dayCounterOverflow = 0x1FF * DAY"

definition determineTimestamp :: "cart \<Rightarrow> int \<times> cart" where
  "determineTimestamp c =
    (if upperDayCounter (Clock (mbc3 c)) AND haltFlag \<noteq> 0
     then (haltTimestamp (mbc3 c), c) else time_now c)"

definition addBase :: "int \<Rightarrow> cart \<Rightarrow> cart" where
  "addBase d c = c\<lparr>mbc3 := (mbc3 c)\<lparr>baseTimestamp := baseTimestamp (mbc3 c) + d\<rparr>\<rparr>"

definition updateBaseTimestamp :: "int \<Rightarrow> int \<Rightarrow> u8 \<Rightarrow> cart \<Rightarrow> cart" where
  "updateBaseTimestamp timeUnitAsSeconds timeUnit writeValue c =
    (let (oldTimestamp, c) = determineTimestamp c;
         oldTimeUnit = ((oldTimestamp - baseTimestamp (mbc3 c)) sdiv timeUnitAsSeconds)
                         smod timeUnit;
         c = addBase (oldTimeUnit * timeUnitAsSeconds) c
     in if timeUnit = DAYS_UPPER_UNIT
        then addBase (- (push_bit 8 (uint (writeValue AND 0x1)) * timeUnitAsSeconds)) c
        else addBase (- (uint writeValue * timeUnitAsSeconds)) c)"

definition writeToRTCRegister :: "u8 \<Rightarrow> cart \<Rightarrow> u8 \<times> cart" where
  "writeToRTCRegister value c =
    (let s = RTCRegisterSelect (mbc3 c) in
     if s = RTC_SECONDS then (1, updateBaseTimestamp SECOND SECONDS_UNIT value c)
     else if s = RTC_MINUTES then (1, updateBaseTimestamp MINUTE MINUTES_UNIT value c)
     else if s = RTC_HOURS then (1, updateBaseTimestamp HOUR HOURS_UNIT value c)
     else if s = RTC_DAY_LOWER then (1, updateBaseTimestamp DAY DAYS_LOWER_UNIT value c)
     else if s = RTC_DAY_UPPER then
       (let c = updateBaseTimestamp DAY DAYS_UPPER_UNIT value c in
        if (upperDayCounter (Clock (mbc3 c)) XOR value) AND haltFlag \<noteq> 0 then
          (let (now, c) = time_now c in
           if value XOR haltFlag \<noteq> 0
           then (1, c\<lparr>mbc3 := (mbc3 c)\<lparr>haltTimestamp := now\<rparr>\<rparr>)
           else (1, addBase (now - haltTimestamp (mbc3 c)) c))
        else (1, c))
     else (0, c))"

definition readRTCRegister :: "cart \<Rightarrow> u8" where
  "readRTCRegister c =
    (let s = RTCRegisterSelect (mbc3 c); k = Clock (mbc3 c) in
     if s = RTC_SECONDS then seconds k
     else if s = RTC_MINUTES then minutes k
     else if s = RTC_HOURS then hours k
     else if s = RTC_DAY_LOWER then lowerDayCounter k
     else if s = RTC_DAY_UPPER then upperDayCounter k
     else 0)"

text \<open>The \<open>do\<close> loop of \<open>latchRTC\<close>, on \<open>elapsedTime\<close> and \<open>baseTimestamp\<close>.\<close>

function latchLoop :: "int \<Rightarrow> int \<Rightarrow> int \<times> int" where
  "latchLoop elapsedTime base =
    (let elapsedTime = elapsedTime - dayCounterOverflow * DAY;
         base = base + dayCounterOverflow * DAY
     in if elapsedTime > dayCounterOverflow * DAY then latchLoop elapsedTime base
        else (elapsedTime, base))"
  by pat_completeness auto

termination latchLoop
  by (relation "measure (\<lambda>(e, b). nat e)") auto

declare latchLoop.simps [simp del]

text \<open>The second half of \<open>latchRTC\<close>: the clock registers set to the elapsed time.\<close>

definition latchRegisters :: "int \<Rightarrow> ClockRegisters \<Rightarrow> ClockRegisters" where
  "latchRegisters elapsedTime k =
    (let k = k\<lparr>lowerDayCounter := word_of_int ((elapsedTime sdiv DAY) AND DAYS_LOWER_UNIT)\<rparr>;
         k = k\<lparr>upperDayCounter := upperDayCounter k AND NOT dayCounterMSB\<rparr>;
         k = k\<lparr>upperDayCounter :=
               word_of_int (drop_bit 8 ((elapsedTime sdiv DAY) AND DAYS_UPPER_UNIT))\<rparr>;
         elapsedTime = elapsedTime smod DAY;
         k = k\<lparr>hours := word_of_int ((elapsedTime sdiv HOUR) AND 0xFF)\<rparr>;
         elapsedTime = elapsedTime smod HOUR;
         k = k\<lparr>minutes := word_of_int ((elapsedTime sdiv MINUTE) AND 0xFF)\<rparr>;
         elapsedTime = elapsedTime smod MINUTE
     in k\<lparr>seconds := word_of_int (elapsedTime AND 0xFF)\<rparr>)"

definition latchRTC :: "cart \<Rightarrow> cart" where
  "latchRTC c =
    (let (elapsedTime, c) = (if upperDayCounter (Clock (mbc3 c)) AND haltFlag \<noteq> 0
                             then (haltTimestamp (mbc3 c), c) else time_now c);
         m = mbc3 c;
         (elapsedTime, m) =
           (if elapsedTime > dayCounterOverflow then
              (let (e, b) = latchLoop elapsedTime (baseTimestamp m)
               in (e, m\<lparr>baseTimestamp := b, Clock := (Clock m)\<lparr>upperDayCounter :=
                         upperDayCounter (Clock m) OR dayCounterCarryFlag\<rparr>\<rparr>))
            else (elapsedTime, m))
     in c\<lparr>mbc3 := m\<lparr>Clock := latchRegisters elapsedTime (Clock m)\<rparr>\<rparr>)"

definition MBC3_ReadByte :: "u16 \<Rightarrow> cart \<Rightarrow> u8 res" where
  "MBC3_ReadByte memAddr c =
    (let address = (ucast memAddr :: u32); m = mbc3 c in
     if address \<le> 0x3FFF then buf_get (rom c) (unat address)
     else if address \<le> 0x7FFF then
       bind_res (shl_uint (address - 0x4000) (ROMBankNumber m))
         (\<lambda>address. buf_get (rom c) (unat address))
     else if address \<ge> 0xA000 \<and> address \<le> 0xBFFF then
       (if RAM_TimerEnable m \<noteq> 0 then
          (if RTCAccessMode m = MBC3_RAM_MODE then
             bind_res (shl_uint (address - 0xA000) (RAMBankNumber m))
               (\<lambda>address. buf_get (ram c) (unat address))
           else if RTCAccessMode m = MBC3_RTC_MODE then Inr (readRTCRegister c)
           else Inr 0)
        else Inr 0)
     else Inr 0)"

definition MBC3_WriteByte :: "u16 \<Rightarrow> u8 \<Rightarrow> cart \<Rightarrow> (int \<times> cart) res" where
  "MBC3_WriteByte memAddr value c =
    (let address = memAddr; m = mbc3 c in
     if address \<le> 0x1FFF then
       (if value AND 0x0A = 0x0A then Inr (1, c\<lparr>mbc3 := m\<lparr>RAM_TimerEnable := 1\<rparr>\<rparr>)
        else Inr (1, c\<lparr>mbc3 := m\<lparr>RAM_TimerEnable := 0\<rparr>\<rparr>))
     else if address \<le> 0x3FFF then
       (let value_7Bit = value AND 0x7F in
        if value_7Bit = 0 then Inr (1, c\<lparr>mbc3 := m\<lparr>ROMBankNumber := 1\<rparr>\<rparr>)
        else Inr (1, c\<lparr>mbc3 := m\<lparr>ROMBankNumber := value_7Bit\<rparr>\<rparr>))
     else if address \<le> 0x5FFF then
       (if value \<le> 0x07 then
          Inr (1, c\<lparr>mbc3 := m\<lparr>RAMBankNumber := value, RTCAccessMode := MBC3_RAM_MODE\<rparr>\<rparr>)
        else if value \<ge> 0x08 \<and> value \<le> 0x0C then
          Inr (1, c\<lparr>mbc3 := m\<lparr>RTCRegisterSelect := value, RTCAccessMode := MBC3_RTC_MODE\<rparr>\<rparr>)
        else Inr (0, c))
     else if address \<le> 0x7FFF then
       (if RTCAccessMode m = MBC3_RTC_MODE then
          (let c = (if LatchClockSequence m = 0 \<and> value = 1 then latchRTC c else c)
           in Inr (1, c\<lparr>mbc3 := (mbc3 c)\<lparr>LatchClockSequence := value\<rparr>\<rparr>))
        else Inr (1, c))
     else if address \<ge> 0xA000 \<and> address \<le> 0xBFFF then
       (if RAM_TimerEnable m \<noteq> 0 then
          (if RTCAccessMode m = MBC3_RAM_MODE then
             bind_res (shl_ushort (address - 0xA000) (RAMBankNumber m)) (\<lambda>address.
             bind_res (buf_set (ram c) (unat address) value) (\<lambda>b. Inr (0, c\<lparr>ram := b\<rparr>)))
           else if RTCAccessMode m = MBC3_RTC_MODE then
             (let (r, c) = writeToRTCRegister value c in Inr (uint r, c))
           else Inr (0, c))
        else Inr (0, c))
     else Inr (0, c))"

section \<open>Selecting and calling the controller\<close>

definition ROM_ONLY :: u8 where [simp]: "ROM_ONLY = 0x00"

definition MBC1 :: u8 where [simp]: "MBC1 = 0x01"

definition MBC1_RAM :: u8 where [simp]: "MBC1_RAM = 0x02"

definition MBC1_RAM_BATTERY :: u8 where [simp]: "MBC1_RAM_BATTERY = 0x03"

definition MBC2 :: u8 where [simp]: "MBC2 = 0x05"

definition MBC2_BATTERY :: u8 where [simp]: "MBC2_BATTERY = 0x06"

definition ROM_RAM :: u8 where [simp]: "ROM_RAM = 0x08"

definition ROM_RAM_BATTERY :: u8 where [simp]: "ROM_RAM_BATTERY = 0x09"

definition MMM01 :: u8 where [simp]: "MMM01 = 0x0B"

definition MMM01_RAM :: u8 where [simp]: "MMM01_RAM = 0x0C"

definition MMM01_RAM_BATTERY :: u8 where [simp]: "MMM01_RAM_BATTERY = 0x0D"

definition MBC3_TIMER_BATTERY :: u8 where [simp]: "MBC3_TIMER_BATTERY = 0x0F"

definition MBC3_TIMER_RAM_BATTERY :: u8 where [simp]: "MBC3_TIMER_RAM_BATTERY = 0x10"

definition MBC3 :: u8 where [simp]: "MBC3 = 0x11"

definition MBC3_RAM :: u8 where [simp]: "MBC3_RAM = 0x12"

definition MBC3_RAM_BATTERY :: u8 where [simp]: "MBC3_RAM_BATTERY = 0x13"

definition MBC4 :: u8 where [simp]: "MBC4 = 0x15"

definition MBC4_RAM :: u8 where [simp]: "MBC4_RAM = 0x16"

definition MBC4_RAM_BATTERY :: u8 where [simp]: "MBC4_RAM_BATTERY = 0x17"

definition MBC5 :: u8 where [simp]: "MBC5 = 0x19"

definition MBC5_RAM :: u8 where [simp]: "MBC5_RAM = 0x1A"

definition MBC5_RAM_BATTERY :: u8 where [simp]: "MBC5_RAM_BATTERY = 0x1B"

definition MBC5_RUMBLE :: u8 where [simp]: "MBC5_RUMBLE = 0x1C"

definition MBC5_RUMBLE_RAM :: u8 where [simp]: "MBC5_RUMBLE_RAM = 0x1D"

definition MBC5_RUMBLE_RAM_BATTERY :: u8 where [simp]: "MBC5_RUMBLE_RAM_BATTERY = 0x1E"

definition POCKET_CAMERA :: u8 where [simp]: "POCKET_CAMERA = 0xFC"

definition BANDAI_TAMA5 :: u8 where [simp]: "BANDAI_TAMA5 = 0xFD"

definition HUC3 :: u8 where [simp]: "HUC3 = 0xFE"

definition HUC1_RAM_BATTERY :: u8 where [simp]: "HUC1_RAM_BATTERY = 0xFF"

definition setMBCFns :: "mbcFn \<Rightarrow> cart \<Rightarrow> cart" where
  "setMBCFns f c = c\<lparr>mbcReadByte := Some f, mbcWriteByte := Some f\<rparr>"

definition setMBCType :: "u8 \<Rightarrow> cart \<Rightarrow> int \<times> cart" where
  "setMBCType cartMBC c =
    (if cartMBC = ROM_ONLY then (1, setMBCFns FnMBCNone c)
     else if cartMBC \<in> {MBC1, MBC1_RAM, MBC1_RAM_BATTERY} then (1, setMBCFns FnMBC1 c)
     else if cartMBC \<in> {MBC2, MBC2_BATTERY} then (1, setMBCFns FnMBC2 c)
     else if cartMBC \<in> {ROM_RAM, ROM_RAM_BATTERY} then (0, setMBCFns FnMBCNone c)
     else if cartMBC \<in> {MMM01, MMM01_RAM, MMM01_RAM_BATTERY} then (0, c)
     else if cartMBC \<in> {MBC3, MBC3_RAM, MBC3_RAM_BATTERY, MBC3_TIMER_BATTERY,
                        MBC3_TIMER_RAM_BATTERY} then (1, setMBCFns FnMBC3 c)
     else if cartMBC \<in> {MBC4, MBC4_RAM, MBC4_RAM_BATTERY} then (1, setMBCFns FnMBC4 c)
     else if cartMBC \<in> {MBC5_RAM, MBC5_RAM_BATTERY, MBC5_RUMBLE, MBC5_RUMBLE_RAM,
                        MBC5_RUMBLE_RAM_BATTERY} then (1, setMBCFns FnMBC5 c)
     else (0, c))"

fun mbcFnRead :: "mbcFn \<Rightarrow> u16 \<Rightarrow> cart \<Rightarrow> u8 res" where
  "mbcFnRead FnMBCNone = MBCNone_ReadByte"
| "mbcFnRead FnMBC1 = MBC1_ReadByte"
| "mbcFnRead FnMBC2 = MBC2_ReadByte"
| "mbcFnRead FnMBC3 = MBC3_ReadByte"
| "mbcFnRead FnMBC4 = MBC4_ReadByte"
| "mbcFnRead FnMBC5 = MBC5_ReadByte"

fun mbcFnWrite :: "mbcFn \<Rightarrow> u16 \<Rightarrow> u8 \<Rightarrow> cart \<Rightarrow> (int \<times> cart) res" where
  "mbcFnWrite FnMBCNone = MBCNone_WriteByte"
| "mbcFnWrite FnMBC1 = MBC1_WriteByte"
| "mbcFnWrite FnMBC2 = MBC2_WriteByte"
| "mbcFnWrite FnMBC3 = MBC3_WriteByte"
| "mbcFnWrite FnMBC4 = MBC4_WriteByte"
| "mbcFnWrite FnMBC5 = MBC5_WriteByte"

text \<open>\<open>cartridge.mbc->readByte(address)\<close> and \<open>cartridge.mbc->writeByte(address, value)\<close>.\<close>

definition mbc_readByte :: "u16 \<Rightarrow> cart \<Rightarrow> u8 res" where
  "mbc_readByte address c =
    (if mbcSet c then (case mbcReadByte c of None \<Rightarrow> Inl NullPointer
                       | Some f \<Rightarrow> mbcFnRead f address c)
     else Inl NullPointer)"

definition mbc_writeByte :: "u16 \<Rightarrow> u8 \<Rightarrow> cart \<Rightarrow> (int \<times> cart) res" where
  "mbc_writeByte address value c =
    (if mbcSet c then (case mbcWriteByte c of None \<Rightarrow> Inl NullPointer
                       | Some f \<Rightarrow> mbcFnWrite f address value c)
     else Inl NullPointer)"

end
