(* ===== verification/Mbc_Correct.thy ===== *)
theory Mbc_Correct
  imports Mbc
begin

text \<open>
  What the controllers guarantee. The locale \<open>mbc_contract\<close> states what the bus relies on; it is
  interpreted on the read and write functions of every controller and on the calls through the
  function pointers. The rest is the banking arithmetic of MBC1 and MBC3 as the code computes it
  and the real-time clock of MBC3: what latching puts into the clock registers for every time, and
  that its loop ends.
\<close>

section \<open>The contract of a controller\<close>

text \<open>
  What the memory bus relies on, whatever the controller: a write changes neither the ROM nor the
  header nor the choice of controller, it keeps the size of the RAM, and a write below 8000h only
  sets registers of the controller and cannot fault.
\<close>

definition cart_frame :: "cart \<Rightarrow> cart \<Rightarrow> bool" where
  "cart_frame c c' \<longleftrightarrow> rom c' = rom c \<and> hdr c' = hdr c \<and> mbcSet c' = mbcSet c
     \<and> mbcReadByte c' = mbcReadByte c \<and> mbcWriteByte c' = mbcWriteByte c
     \<and> map_option bsize (ram c') = map_option bsize (ram c) \<and> timeSrc c' = timeSrc c"

lemma cart_frame_refl [simp]: "cart_frame c c"
  by (simp add: cart_frame_def)

lemma cart_frame_trans: "cart_frame a b \<Longrightarrow> cart_frame b c \<Longrightarrow> cart_frame a c"
  by (simp add: cart_frame_def)

lemma cart_frame_upd [simp]:
  "cart_frame c (c'\<lparr>mbc1 := m\<rparr>) = cart_frame c c'" "cart_frame c (c'\<lparr>mbc3 := n\<rparr>) = cart_frame c c'"
  "cart_frame c (c'\<lparr>timeIdx := k\<rparr>) = cart_frame c c'"
  by (simp_all add: cart_frame_def)

text \<open>A sequence of bus writes, each with its own outcome.\<close>

fun runWrites :: "(u16 \<Rightarrow> u8 \<Rightarrow> cart \<Rightarrow> (int \<times> cart) res) \<Rightarrow> (u16 \<times> u8) list \<Rightarrow> cart \<Rightarrow> cart res" where
  "runWrites w [] c = Inr c"
| "runWrites w ((a, v) # ws) c = bind_res (w a v c) (\<lambda>(r, c). runWrites w ws c)"

locale mbc_contract =
  fixes rd :: "u16 \<Rightarrow> cart \<Rightarrow> u8 res"
    and wr :: "u16 \<Rightarrow> u8 \<Rightarrow> cart \<Rightarrow> (int \<times> cart) res"
  assumes write_frame: "wr a v c = Inr (r, c') \<Longrightarrow> cart_frame c c'"
    and write_low_ram: "a < 0x8000 \<Longrightarrow> wr a v c = Inr (r, c') \<Longrightarrow> ram c' = ram c"
    and read_rom: "a < 0x4000 \<Longrightarrow> cart_frame c c' \<Longrightarrow> rd a c' = rd a c"
begin

lemma runWrites_frame: "runWrites wr ws c = Inr c' \<Longrightarrow> cart_frame c c'"
proof (induction ws arbitrary: c)
  case (Cons p ws)
  obtain a v where p: "p = (a, v)" by (cases p)
  with Cons.prems obtain r d where "wr a v c = Inr (r, d)" and "runWrites wr ws d = Inr c'"
    by (auto simp: bind_res_eq_Inr)
  with Cons.IH write_frame show ?case by (blast intro: cart_frame_trans)
qed simp

lemma runWrites_read_rom:
  "runWrites wr ws c = Inr c' \<Longrightarrow> a < 0x4000 \<Longrightarrow> rd a c' = rd a c"
proof -
  assume "runWrites wr ws c = Inr c'" and a: "a < 0x4000"
  then have "cart_frame c c'" by (simp add: runWrites_frame)
  with a show "rd a c' = rd a c" by (rule read_rom)
qed

end

subsection \<open>Each controller keeps it\<close>

lemma buf_set_frame:
  "buf_set (ram c) i x = Inr m \<Longrightarrow> cart_frame c (c\<lparr>ram := m\<rparr>)"
  using buf_set_size by (simp add: cart_frame_def)

lemma time_now_frame: "cart_frame c (snd (time_now c))" "ram (snd (time_now c)) = ram c"
  by (simp_all add: time_now_def)

lemma updateBaseTimestamp_frame:
  "cart_frame c (updateBaseTimestamp s u v c)" "ram (updateBaseTimestamp s u v c) = ram c"
  by (simp_all add: updateBaseTimestamp_def determineTimestamp_def time_now_def addBase_def Let_def)

lemma writeToRTCRegister_frame:
  "cart_frame c (snd (writeToRTCRegister v c))" "ram (snd (writeToRTCRegister v c)) = ram c"
  by (simp_all add: writeToRTCRegister_def time_now_def addBase_def Let_def
      updateBaseTimestamp_frame)

lemma latchRTC_frame: "cart_frame c (latchRTC c)" "ram (latchRTC c) = ram c"
  by (simp_all add: latchRTC_def time_now_def Let_def case_prod_beta)

lemma u16_low: "a < 0x8000 \<Longrightarrow> \<not> 0xA000 \<le> a" for a :: u16
  by (simp add: word_less_nat_alt word_le_nat_alt)

interpretation none: mbc_contract MBCNone_ReadByte MBCNone_WriteByte
proof
  fix a v c r c'
  show "MBCNone_WriteByte a v c = Inr (r, c') \<Longrightarrow> cart_frame c c'"
    by (auto simp: MBCNone_WriteByte_def bind_res_eq_Inr buf_set_frame split: if_splits)
  show "a < 0x8000 \<Longrightarrow> MBCNone_WriteByte a v c = Inr (r, c') \<Longrightarrow> ram c' = ram c"
    by (auto simp: MBCNone_WriteByte_def u16_low)
qed (simp add: MBCNone_ReadByte_def word_less_nat_alt Let_def cart_frame_def)

interpretation mbc1: mbc_contract MBC1_ReadByte MBC1_WriteByte
proof
  fix a v c r c'
  show "MBC1_WriteByte a v c = Inr (r, c') \<Longrightarrow> cart_frame c c'"
    by (auto simp: MBC1_WriteByte_def bind_res_eq_Inr buf_set_frame Let_def split: if_splits)
  show "a < 0x8000 \<Longrightarrow> MBC1_WriteByte a v c = Inr (r, c') \<Longrightarrow> ram c' = ram c"
    by (auto simp: MBC1_WriteByte_def u16_low Let_def split: if_splits)
  show "a < 0x4000 \<Longrightarrow> cart_frame c c' \<Longrightarrow> MBC1_ReadByte a c' = MBC1_ReadByte a c" for c c'
  proof -
    assume "a < 0x4000"
    then have "(ucast a :: u32) \<le> 0x3FFF"
      by (simp add: word_le_nat_alt word_less_nat_alt unsigned_ucast_eq take_bit_nat_eq_self
          less_trans [OF u16_bound])
    then show "cart_frame c c' \<Longrightarrow> MBC1_ReadByte a c' = MBC1_ReadByte a c"
      by (simp add: MBC1_ReadByte_def Let_def cart_frame_def)
  qed
qed

interpretation mbc2: mbc_contract MBC2_ReadByte MBC2_WriteByte
  by unfold_locales (auto simp: MBC2_ReadByte_def MBC2_WriteByte_def)

interpretation mbc3: mbc_contract MBC3_ReadByte MBC3_WriteByte
proof
  fix a v c r c'
  show "MBC3_WriteByte a v c = Inr (r, c') \<Longrightarrow> cart_frame c c'"
    using writeToRTCRegister_frame(1) [of c v]
    by (auto simp: MBC3_WriteByte_def bind_res_eq_Inr buf_set_frame Let_def latchRTC_frame
        split: if_splits prod.splits)
  show "a < 0x8000 \<Longrightarrow> MBC3_WriteByte a v c = Inr (r, c') \<Longrightarrow> ram c' = ram c"
    by (auto simp: MBC3_WriteByte_def u16_low Let_def latchRTC_frame split: if_splits)
  show "a < 0x4000 \<Longrightarrow> cart_frame c c' \<Longrightarrow> MBC3_ReadByte a c' = MBC3_ReadByte a c" for c c'
  proof -
    assume "a < 0x4000"
    then have "(ucast a :: u32) \<le> 0x3FFF"
      by (simp add: word_le_nat_alt word_less_nat_alt unsigned_ucast_eq take_bit_nat_eq_self
          less_trans [OF u16_bound])
    then show "cart_frame c c' \<Longrightarrow> MBC3_ReadByte a c' = MBC3_ReadByte a c"
      by (simp add: MBC3_ReadByte_def Let_def cart_frame_def)
  qed
qed

interpretation mbc4: mbc_contract MBC4_ReadByte MBC4_WriteByte
  by unfold_locales (auto simp: MBC4_ReadByte_def MBC4_WriteByte_def)

interpretation mbc5: mbc_contract MBC5_ReadByte MBC5_WriteByte
  by unfold_locales (auto simp: MBC5_ReadByte_def MBC5_WriteByte_def)

lemmas mbc_frames = none.write_frame mbc1.write_frame mbc2.write_frame mbc3.write_frame
  mbc4.write_frame mbc5.write_frame

lemmas mbc_low_rams = none.write_low_ram mbc1.write_low_ram mbc2.write_low_ram mbc3.write_low_ram
  mbc4.write_low_ram mbc5.write_low_ram

lemma mbcFnWrite_frame: "mbcFnWrite f a v c = Inr (r, c') \<Longrightarrow> cart_frame c c'"
  by (cases f) (auto intro: mbc_frames)

lemma mbcFnWrite_low_ram: "a < 0x8000 \<Longrightarrow> mbcFnWrite f a v c = Inr (r, c') \<Longrightarrow> ram c' = ram c"
  by (cases f) (auto intro: mbc_low_rams)

interpretation mbcFn: mbc_contract "mbcFnRead f" "mbcFnWrite f" for f
proof
  show "mbcFnWrite f a v c = Inr (r, c') \<Longrightarrow> cart_frame c c'" for a v c r c'
    by (rule mbcFnWrite_frame)
  show "a < 0x8000 \<Longrightarrow> mbcFnWrite f a v c = Inr (r, c') \<Longrightarrow> ram c' = ram c" for a v c r c'
    by (rule mbcFnWrite_low_ram)
  show "a < 0x4000 \<Longrightarrow> cart_frame c c' \<Longrightarrow> mbcFnRead f a c' = mbcFnRead f a c" for a c c'
    by (cases f) (auto intro: none.read_rom mbc1.read_rom mbc2.read_rom mbc3.read_rom
        mbc4.read_rom mbc5.read_rom)
qed

lemma mbc_writeByte_frame: "mbc_writeByte a v c = Inr (r, c') \<Longrightarrow> cart_frame c c'"
  by (auto simp: mbc_writeByte_def mbcFnWrite_frame split: if_splits option.splits)

lemma mbc_writeByte_low_ram:
  "a < 0x8000 \<Longrightarrow> mbc_writeByte a v c = Inr (r, c') \<Longrightarrow> ram c' = ram c"
  by (auto simp: mbc_writeByte_def mbcFnWrite_low_ram split: if_splits option.splits)

section \<open>MBC1: banks\<close>

definition mbc1_inv :: "cart \<Rightarrow> bool" where
  "mbc1_inv c \<longleftrightarrow> unat (ROMBankLow (mbc1 c)) < 32 \<and> unat (RAMBank_ROMBankUpper (mbc1 c)) < 4"

lemma and_1F_lt: "unat (w AND 0x1F) < 32" and and_3_lt: "unat (w AND 0x03) < 4" 
  and and_7F_lt: "unat (w AND 0x7F) < 128" for w :: u8
proof -
  have "w AND 0x1F \<le> 0x1F" "w AND 0x03 \<le> 0x03" "w AND 0x7F \<le> 0x7F" by (rule word_and_le1)+
  then show "unat (w AND 0x1F) < 32" "unat (w AND 0x03) < 4" "unat (w AND 0x7F) < 128"
    by (simp_all add: word_le_nat_alt)
qed

lemma and_1F_neq [simp]: "w AND 0x1F \<noteq> 0x20" "w AND 0x1F \<noteq> 0x40" "w AND 0x1F \<noteq> 0x60" for w :: u8
  using and_1F_lt [of w] by auto

lemma mbc1_inv_static: "mbc1_inv (cart_static clk)"
  by (simp add: mbc1_inv_def cart_static_def mbc1_static_def)

lemma mbc1_inv_write: "mbc1_inv c \<Longrightarrow> MBC1_WriteByte a v c = Inr (r, c') \<Longrightarrow> mbc1_inv c'"
  using and_1F_lt [of v] and_3_lt [of v]
  by (auto simp: MBC1_WriteByte_def mbc1_inv_def bind_res_eq_Inr Let_def split: if_splits)

text \<open>The bank in the switchable window, and the offset the code computes for it.\<close>

definition mbc1RomBank :: "mbc1Regs \<Rightarrow> nat" where
  "mbc1RomBank m = unat (ROMBankLow m OR
     (if AccessMode m = 0 then push_bit 4 (RAMBank_ROMBankUpper m) else 0))"

definition mbc1RamIndex :: "mbc1Regs \<Rightarrow> u16 \<Rightarrow> nat" where
  "mbc1RamIndex m a = (unat a - 0xA000) * 2 ^ (if AccessMode m = 1 then unat (RAMBank_ROMBankUpper m) else 0)"

lemma ucast_u32: "unat (ucast a :: u32) = unat a" for a :: u16
  by (simp add: unsigned_ucast_eq take_bit_nat_eq_self less_trans [OF u16_bound])

lemma ucast_u32_sub:
  "k \<le> unat a \<Longrightarrow> k < 65536 \<Longrightarrow> unat ((ucast a :: u32) - of_nat k) = unat a - k" for a :: u16
  by (simp add: unat_sub_if' ucast_u32 unat_of_nat)

lemma unat_push_bit: "unat (push_bit n w) = unat w * 2 ^ n mod 2 ^ LENGTH('a)" for w :: "'a::len word"
  by (simp only: unsigned_push_bit_eq) (simp add: take_bit_eq_mod push_bit_eq_mult)

lemma MBC1_read_window:
  assumes "0x4000 \<le> a" and "a < 0x8000"
  shows "MBC1_ReadByte a c = (if mbc1RomBank (mbc1 c) < 32
     then buf_get (rom c) ((unat a - 0x4000) * 2 ^ mbc1RomBank (mbc1 c) mod 2 ^ 32)
     else Inl BadShift)"
proof -
  have a: "0x4000 \<le> unat a" "unat a < 0x8000"
    using assms by (simp_all add: word_le_nat_alt word_less_nat_alt)
  have u: "unat ((ucast a :: u32) - 0x4000) = unat a - 0x4000"
    using ucast_u32_sub [of "0x4000" a] a by simp
  have "\<not> (ucast a :: u32) \<le> 0x3FFF" "(ucast a :: u32) \<le> 0x7FFF"
    using a by (simp_all add: word_le_nat_alt ucast_u32)
  then show ?thesis
    by (simp add: MBC1_ReadByte_def Let_def shl_uint_def mbc1RomBank_def unat_push_bit u)
qed

lemma MBC1_ram_access:
  assumes "mbc1_inv c" and "RAMEnable (mbc1 c) \<noteq> 0" and "0xA000 \<le> a" and "a \<le> 0xBFFF"
  shows "MBC1_ReadByte a c = buf_get (ram c) (mbc1RamIndex (mbc1 c) a)"
    and "MBC1_WriteByte a v c = bind_res (buf_set (ram c) (mbc1RamIndex (mbc1 c) a) v)
            (\<lambda>b. Inr (1, c\<lparr>ram := b\<rparr>))"
proof -
  define n where "n = unat (RAMBank_ROMBankUpper (mbc1 c))"
  have a: "0xA000 \<le> unat a" "unat a \<le> 0xBFFF"
    using assms by (simp_all add: word_le_nat_alt)
  have "n = 0 \<or> n = 1 \<or> n = 2 \<or> n = 3" using assms(1) by (auto simp: mbc1_inv_def n_def)
  then have n: "n < 32" "(unat a - 0xA000) * 2 ^ n < 65536" using a by auto
  have u: "unat ((ucast a :: u32) - 0xA000) = unat a - 0xA000" "unat (a - 0xA000) = unat a - 0xA000"
    using ucast_u32_sub [of "0xA000" a] a by (simp_all add: unat_sub_if')
  have "\<not> (ucast a :: u32) \<le> 0x3FFF" "\<not> (ucast a :: u32) \<le> 0x7FFF" "(ucast a :: u32) \<ge> 0xA000"
    "(ucast a :: u32) \<le> 0xBFFF"
    using a by (simp_all add: word_le_nat_alt ucast_u32)
  then show "MBC1_ReadByte a c = buf_get (ram c) (mbc1RamIndex (mbc1 c) a)"
    using assms(2) n
    by (simp add: MBC1_ReadByte_def Let_def shl_uint_def mbc1RamIndex_def unat_push_bit u n_def [symmetric])
  have "\<not> a \<le> 0x1FFF" "\<not> a \<le> 0x3FFF" "\<not> a \<le> 0x5FFF" "\<not> a \<le> 0x7FFF"
    using a by (simp_all add: word_le_nat_alt)
  then show "MBC1_WriteByte a v c = bind_res (buf_set (ram c) (mbc1RamIndex (mbc1 c) a) v)
            (\<lambda>b. Inr (1, c\<lparr>ram := b\<rparr>))"
    using assms(2-4) n
    by (simp add: MBC1_WriteByte_def Let_def shl_ushort_def mbc1RamIndex_def unat_push_bit u n_def [symmetric])
qed

section \<open>MBC3: the real-time clock\<close>

definition rtc_inv :: "cart \<Rightarrow> bool" where
  "rtc_inv c \<longleftrightarrow> upperDayCounter (Clock (mbc3 c)) \<le> 1"

lemma rtc_inv_not_halted: "rtc_inv c \<Longrightarrow> \<not> bit (upperDayCounter (Clock (mbc3 c))) 6"
proof -
  assume "rtc_inv c"
  then have "upperDayCounter (Clock (mbc3 c)) = 0 \<or> upperDayCounter (Clock (mbc3 c)) = 1"
    by (auto simp: rtc_inv_def word_le_nat_alt le_Suc_eq word_unat_eq_iff)
  then show ?thesis by auto
qed

lemma latchRTC_upper: "rtc_inv (latchRTC c)"
proof -
  have "drop_bit 8 (x AND 256 :: int) \<in> {0, 1}" for x
  proof -
    have "x AND 256 = (if bit x 8 then 256 else 0)"
      by (rule bit_eqI) (use bit_exp_iff [where ?'a = int, of 8] in \<open>auto simp: bit_simps\<close>)
    then show ?thesis by (simp add: drop_bit_eq_div)
  qed
  then have "word_of_int (drop_bit 8 (x AND 256)) \<le> (1 :: u8)" for x
    by (metis (no_types) insert_iff order_refl singletonD word_of_int_0 word_of_int_1 word_zero_le)
  then show ?thesis
    by (simp add: rtc_inv_def latchRTC_def latchRegisters_def Let_def case_prod_beta)
qed

lemma Clock_updateBase [simp]: "Clock (mbc3 (updateBaseTimestamp s u v c)) = Clock (mbc3 c)"
  by (simp add: updateBaseTimestamp_def determineTimestamp_def time_now_def addBase_def Let_def)

lemma Clock_writeToRTC [simp]: "Clock (mbc3 (snd (writeToRTCRegister v c))) = Clock (mbc3 c)"
  by (simp add: writeToRTCRegister_def time_now_def addBase_def Let_def)

lemma rtc_inv_write: "rtc_inv c \<Longrightarrow> MBC3_WriteByte a v c = Inr (r, c') \<Longrightarrow> rtc_inv c'"
  using latchRTC_upper [of c] Clock_writeToRTC [of v c]
  by (auto simp: MBC3_WriteByte_def rtc_inv_def bind_res_eq_Inr Let_def
      simp del: Clock_writeToRTC split: if_splits prod.splits)

text \<open>The calls through the function pointers keep the contract whatever they point to.\<close>

interpretation bus: mbc_contract mbc_readByte mbc_writeByte
proof
  show "mbc_writeByte a v c = Inr (r, c') \<Longrightarrow> cart_frame c c'" for a v c r c'
    by (rule mbc_writeByte_frame)
  show "a < 0x8000 \<Longrightarrow> mbc_writeByte a v c = Inr (r, c') \<Longrightarrow> ram c' = ram c" for a v c r c'
    by (rule mbc_writeByte_low_ram)
  show "a < 0x4000 \<Longrightarrow> cart_frame c c' \<Longrightarrow> mbc_readByte a c' = mbc_readByte a c" for a c c'
    using mbcFn.read_rom by (auto simp: mbc_readByte_def cart_frame_def split: option.splits)
qed

section \<open>Latching the clock\<close>

lemma sdiv_nonneg: "0 \<le> e \<Longrightarrow> 0 < k \<Longrightarrow> e sdiv k = e div k" for e k :: int
  by (cases "e = 0") (simp_all add: signed_divide_int_def)

lemma smod_nonneg: "0 \<le> e \<Longrightarrow> 0 < k \<Longrightarrow> e smod k = e mod k" for e k :: int
  by (cases "e = 0") (simp_all add: signed_modulo_int_def)

lemma and_255: "x AND 255 = x mod 256" for x :: int
  using take_bit_eq_mask [of 8 x] by (simp add: take_bit_eq_mod mask_eq_exp_minus_1)

lemma and_256: "drop_bit 8 x AND 1 = x div 256 mod 2" for x :: int
  by (simp add: and_one_eq drop_bit_eq_div)

lemma uint_word_of_int_byte: "0 \<le> x \<Longrightarrow> x < 256 \<Longrightarrow> uint (word_of_int x :: u8) = x"
  by (simp add: unsigned_of_int take_bit_int_eq_self)

definition rtcPeriod :: int where "rtcPeriod = dayCounterOverflow * DAY"

lemma rtcPeriod_eq: "rtcPeriod = 3814594560000" by (simp add: rtcPeriod_def)

lemma latchLoop_spec:
  "latchLoop e b = (e', b') \<Longrightarrow> e' \<le> rtcPeriod \<and> e' + b' = e + b \<and> rtcPeriod dvd b' - b
     \<and> (e \<le> 2 * rtcPeriod \<longrightarrow> e' = e - rtcPeriod) \<and> (rtcPeriod < e \<longrightarrow> 0 < e')"
proof (induction e b rule: latchLoop.induct)
  case (1 e b)
  define K where "K = rtcPeriod"
  have K: "K = 3814594560000" "dayCounterOverflow * DAY = K" by (simp_all add: K_def rtcPeriod_def)
  have step: "latchLoop e b = (if e - K > K then latchLoop (e - K) (b + K) else (e - K, b + K))"
    by (subst latchLoop.simps) (simp only: K Let_def)
  show ?case
  proof (cases "e - K > K")
    case True
    with 1 step have ih: "e' \<le> K \<and> e' + b' = e - K + (b + K) \<and> K dvd b' - (b + K)
        \<and> (e - K \<le> 2 * K \<longrightarrow> e' = e - K - K) \<and> (K < e - K \<longrightarrow> 0 < e')"
      by (simp add: K_def rtcPeriod_def Let_def)
    then have "K dvd b' - b" using dvd_add [of K "b' - (b + K)" K] by simp
    with ih True K(1) show ?thesis by (simp add: K_def [symmetric])
  next
    case False
    with 1(2) step K(1) show ?thesis by (auto simp: K_def [symmetric])
  qed
qed

lemma mod_div_int: "0 < b \<Longrightarrow> 0 \<le> c \<Longrightarrow> x mod (b * c) div b = x div b mod c" for x b c :: int
  by (simp add: zmod_zmult2_eq)

lemma mod_mod_small: "0 < a \<Longrightarrow> a \<le> b \<Longrightarrow> x mod a mod b = x mod a" for x a b :: int
  by (rule mod_pos_pos_trivial) (auto intro: less_le_trans [OF pos_mod_bound])

lemma latchRegisters_nonneg:
  assumes "0 \<le> e"
  shows "latchRegisters e k =
     \<lparr>seconds = word_of_int (e mod 60), minutes = word_of_int (e div 60 mod 60),
      hours = word_of_int (e div 3600 mod 24), lowerDayCounter = word_of_int (e div 86400 mod 256),
      upperDayCounter = word_of_int (e div 86400 div 256 mod 2)\<rparr>"
proof -
  have m: "e mod 86400 div 3600 = e div 3600 mod 24" "e mod 3600 div 60 = e div 60 mod 60"
    using mod_div_int [of 3600 24 e, simplified] mod_div_int [of 60 60 e, simplified] by blast+
  have c: "e mod 86400 mod 3600 = e mod 3600" "e mod 3600 mod 60 = e mod 60"
    by (rule mod_mod_cancel, simp)+
  have small: "e div 3600 mod 24 mod 256 = e div 3600 mod 24"
     "e div 60 mod 60 mod 256 = e div 60 mod 60" "e mod 60 mod 256 = e mod 60"
    by (rule mod_mod_small; simp)+
  have nn: "0 \<le> e mod 86400" "0 \<le> e mod 3600" by (rule pos_mod_sign, simp)+
  have s: "e smod 86400 = e mod 86400" "e sdiv 86400 = e div 86400"
    by (simp_all only: sdiv_nonneg [OF assms] smod_nonneg [OF assms] zero_less_numeral)
  have t1: "e mod 86400 smod 3600 = e mod 3600" "e mod 86400 sdiv 3600 = e div 3600 mod 24"
    by (simp_all only: sdiv_nonneg [OF nn(1)] smod_nonneg [OF nn(1)] zero_less_numeral m c)
  have t2: "e mod 3600 smod 60 = e mod 60" "e mod 3600 sdiv 60 = e div 60 mod 60"
    by (simp_all only: sdiv_nonneg [OF nn(2)] smod_nonneg [OF nn(2)] zero_less_numeral m c)
  show ?thesis
    unfolding latchRegisters_def Let_def DAY_def HOUR_def MINUTE_def DAYS_LOWER_UNIT_def
      DAYS_UPPER_UNIT_def s t1 t2 drop_bit_and and_255 small
    by (cases k) (simp add: and_256)
qed

lemma latchRTC_early:
  assumes "\<not> bit (upperDayCounter (Clock (mbc3 c))) 6"
    and now: "now = timeSrc c (timeIdx c)" and e: "now \<le> dayCounterOverflow"
  shows "latchRTC c = c\<lparr>timeIdx := timeIdx c + 1,
     mbc3 := (mbc3 c)\<lparr>Clock := latchRegisters now (Clock (mbc3 c))\<rparr>\<rparr>"
proof -
  have "\<not> now > dayCounterOverflow" using e by simp
  with assms(1) now show ?thesis
    by (simp add: latchRTC_def Let_def time_now_def)
qed

lemma latchRegisters_neg_seconds:
  "0 \<le> d \<Longrightarrow> seconds (latchRegisters (- d) k) = word_of_int (- (d mod 60))"
proof -
  assume d: "0 \<le> d"
  have "(- d) smod 86400 smod 3600 smod 60 = - (d mod 86400 mod 3600 mod 60)"
    using d by (simp add: smod_nonneg)
  also have "d mod 86400 mod 3600 mod 60 = d mod 60" by (simp add: mod_mod_cancel)
  finally have e: "(- d) smod 86400 smod 3600 smod 60 = - (d mod 60)" .
  have "word_of_int (x AND 255) = (word_of_int x :: u8)" for x
  proof -
    have "x AND 255 = take_bit 8 x" using take_bit_eq_mask [of 8 x] by (simp add: mask_eq_exp_minus_1)
    then show ?thesis by (simp add: word_of_int_eq_iff)
  qed
  with e show ?thesis by (simp add: latchRegisters_def Let_def)
qed

lemma latchRTC_late:
  assumes "\<not> bit (upperDayCounter (Clock (mbc3 c))) 6"
    and now: "now = timeSrc c (timeIdx c)" and e: "dayCounterOverflow < now" "now \<le> rtcPeriod"
  shows "seconds (Clock (mbc3 (latchRTC c))) = word_of_int (- ((rtcPeriod - now) mod 60))"
    and "baseTimestamp (mbc3 (latchRTC c)) = baseTimestamp (mbc3 c) + rtcPeriod"
proof -
  obtain e' b' where l: "latchLoop now (baseTimestamp (mbc3 c)) = (e', b')" by fastforce
  from latchLoop_spec [OF l] e have "e' = - (rtcPeriod - now)" "b' = baseTimestamp (mbc3 c) + rtcPeriod"
    by (simp_all add: rtcPeriod_eq)
  with l assms latchRegisters_neg_seconds [of "rtcPeriod - now"]
  show "seconds (Clock (mbc3 (latchRTC c))) = word_of_int (- ((rtcPeriod - now) mod 60))"
    and "baseTimestamp (mbc3 (latchRTC c)) = baseTimestamp (mbc3 c) + rtcPeriod"
    by (simp_all add: latchRTC_def Let_def time_now_def)
qed

end
