(* ===== verification/Mbc_Properties.thy ===== *)
theory Mbc_Properties
  imports Mbc_Correct
begin

text \<open>
  The properties of the cartridge controllers: the ROM is read-only for the program, what the banked
  windows of MBC1 and MBC3 address, the real-time clock, and the choice of the controller.
\<close>

lemma time_sum:
  fixes x a b d q s m h lo :: int
  assumes "x = 60 * a + s" and "a = 60 * b + m" and "b = 24 * d + h" and "d = 256 * q + lo"
  shows "x = s + 60 * m + 3600 * h + 86400 * (lo + 256 * q)"
  using assms by simp

lemma time_split:
  fixes x :: int
  assumes "0 \<le> x" and "x \<le> 44150400"
  shows "x = x mod 60 + 60 * (x div 60 mod 60) + 3600 * (x div 3600 mod 24)
    + 86400 * (x div 86400 mod 256 + 256 * (x div 86400 div 256 mod 2))"
proof -
  have e: "x div 60 div 60 = x div 3600" "x div 3600 div 24 = x div 86400"
    using zdiv_zmult2_eq [of 60 x 60] zdiv_zmult2_eq [of 24 x 3600] by simp_all
  have "x div 86400 div 256 \<le> 44150400 div 86400 div 256" "0 \<le> x div 86400 div 256"
    using assms by (auto intro!: zdiv_mono1 simp: pos_imp_zdiv_nonneg_iff)
  then have q: "x div 86400 div 256 mod 2 = x div 86400 div 256"
    by (intro mod_pos_pos_trivial) simp_all
  show ?thesis
    unfolding q
    by (rule time_sum [OF mult_div_mod_eq [symmetric] mult_div_mod_eq [symmetric, of "x div 60" 60, unfolded e]
        mult_div_mod_eq [symmetric, of "x div 3600" 24, unfolded e] mult_div_mod_eq [symmetric]])
qed

lemma rtc_inv_bits: "rtc_inv c \<Longrightarrow> \<not> bit (upperDayCounter (Clock (mbc3 c))) 6
    \<and> \<not> bit (upperDayCounter (Clock (mbc3 c))) 7"
proof -
  assume "rtc_inv c"
  then have "upperDayCounter (Clock (mbc3 c)) = 0 \<or> upperDayCounter (Clock (mbc3 c)) = 1"
    by (auto simp: rtc_inv_def word_le_nat_alt le_Suc_eq word_unat_eq_iff)
  then show ?thesis by auto
qed

lemma MBC1_ram_disabled:
  assumes "RAMEnable (mbc1 c) = 0" and "0xA000 \<le> a" and "a \<le> 0xBFFF"
  shows "MBC1_WriteByte a v c = Inr (0, c) \<and> MBC1_ReadByte a c = Inr 0"
proof -
  have a: "0xA000 \<le> unat a" using assms by (simp add: word_le_nat_alt)
  have "\<not> a \<le> 0x1FFF" "\<not> a \<le> 0x3FFF" "\<not> a \<le> 0x5FFF" "\<not> a \<le> 0x7FFF"
    "\<not> (ucast a :: u32) \<le> 0x3FFF" "\<not> (ucast a :: u32) \<le> 0x7FFF"
    using a by (simp_all add: word_le_nat_alt ucast_u32)
  with assms show ?thesis by (simp add: MBC1_WriteByte_def MBC1_ReadByte_def Let_def)
qed

section \<open>Properties of the controllers\<close>

text \<open>
  \<^bold>\<open>C18.\<close> The ROM is read-only. Whatever controller the function pointers name and whatever
  sequence of bytes the program writes to the cartridge, if the writes do not fault then the ROM and
  the header are unchanged, the RAM keeps its size, the controller stays selected, and every read of
  the fixed bank 0000h..3FFFh gives the byte it gave before.
\<close>

theorem cart_rom_readonly:
  assumes "runWrites mbc_writeByte ws c = Inr c'"
  shows "rom c' = rom c \<and> hdr c' = hdr c \<and> map_option bsize (ram c') = map_option bsize (ram c)
    \<and> mbcSet c' = mbcSet c \<and> mbcReadByte c' = mbcReadByte c \<and> mbcWriteByte c' = mbcWriteByte c
    \<and> (a < 0x4000 \<longrightarrow> mbc_readByte a c' = mbc_readByte a c)"
  using bus.runWrites_frame [OF assms] bus.runWrites_read_rom [OF assms]
  by (simp add: cart_frame_def)

text \<open>A loaded cartridge: 32 KB of ROM whose bytes are the low bytes of their offsets, 32 KB of RAM.\<close>

definition demoCart :: "mbcFn \<Rightarrow> cart" where
  "demoCart f = (cart_static (\<lambda>_. 3600))\<lparr>mbcSet := True, mbcReadByte := Some f,
     mbcWriteByte := Some f, rom := Some \<lparr>bsize = 32768, bdata = (\<lambda>i. of_nat i)\<rparr>,
     ram := Some \<lparr>bsize = 32768, bdata = (\<lambda>_. 0)\<rparr>\<rparr>"

lemma demoCart_simps [simp]:
  "mbcSet (demoCart f)" "mbcReadByte (demoCart f) = Some f" "mbcWriteByte (demoCart f) = Some f"
  "rom (demoCart f) = Some \<lparr>bsize = 32768, bdata = (\<lambda>i. of_nat i)\<rparr>"
  "ram (demoCart f) = Some \<lparr>bsize = 32768, bdata = (\<lambda>_. 0)\<rparr>"
  "mbc1 (demoCart f) = mbc1_static" "mbc3 (demoCart f) = mbc3_static"
  "timeSrc (demoCart f) = (\<lambda>_. 3600)" "timeIdx (demoCart f) = 0"
  by (simp_all add: demoCart_def cart_static_def)

lemma cart_rom_readonly_witness:
  "\<exists>c'. runWrites mbc_writeByte [(0x0100, 0x0A), (0xA000, 0x55), (0x2000, 7)] (demoCart FnMBC1) = Inr c'
     \<and> rom c' = rom (demoCart FnMBC1)"
proof -
  obtain c' where w: "runWrites mbc_writeByte [(0x0100, 0x0A), (0xA000, 0x55), (0x2000, 7)]
      (demoCart FnMBC1) = Inr c'"
    by (simp add: mbc_writeByte_def MBC1_WriteByte_def Let_def mbc1_static_def)
  show ?thesis using cart_rom_readonly [OF w] w by blast
qed

text \<open>
  The switchable ROM window of MBC1. After selecting bank \<open>n\<close> (1 to 31) in ROM mode with
  upper bits 0, a read of 4000h + k is the byte at offset \<open>k * 2 ^ n\<close> (in 32 bits) of the ROM, or a
  fault past its end: the code shifts the offset by the bank number, where the controller it models
  reads offset \<open>n * 4000h + k\<close>.
\<close>

theorem MBC1_bank_select:
  assumes "1 \<le> unat n" and "unat n < 32" and "AccessMode (mbc1 c) = 0"
    and "RAMBank_ROMBankUpper (mbc1 c) = 0" and "0x4000 \<le> a" and "a < 0x8000"
  shows "bind_res (MBC1_WriteByte 0x2000 n c) (\<lambda>(r, c). MBC1_ReadByte a c)
    = buf_get (rom c) ((unat a - 0x4000) * 2 ^ unat n mod 2 ^ 32)"
proof -
  have n: "n AND 0x1F = n"
  proof -
    have "n AND 0x1F = take_bit 5 n" by (simp add: take_bit_eq_mask mask_eq_decr_exp)
    moreover have "take_bit 5 n = n"
      using assms(2) by (simp add: word_unat_eq_iff unsigned_take_bit_eq take_bit_nat_eq_self)
    ultimately show ?thesis by simp
  qed
  have "n \<noteq> 0" using assms(1) by auto
  then have w: "MBC1_WriteByte 0x2000 n c = Inr (1, c\<lparr>mbc1 := (mbc1 c)\<lparr>ROMBankLow := n\<rparr>\<rparr>)"
    using and_1F_neq [of n] by (simp add: MBC1_WriteByte_def Let_def n)
  show ?thesis
    using assms MBC1_read_window [OF assms(5,6), of "c\<lparr>mbc1 := (mbc1 c)\<lparr>ROMBankLow := n\<rparr>\<rparr>"]
    by (simp add: w mbc1RomBank_def)
qed

lemma MBC1_bank_select_witness:
  "bind_res (MBC1_WriteByte 0x2000 1 (demoCart FnMBC1)) (\<lambda>(r, c). MBC1_ReadByte 0x4005 c) = Inr 10"
  using MBC1_bank_select [of 1 "demoCart FnMBC1" "0x4005"] by (simp add: mbc1_static_def)

text \<open>
  External RAM of MBC1. With the RAM enabled and an offset inside it, a write succeeds, is
  read back at the same address, and changes no byte whose computed offset differs. Disabled, a
  write is rejected without effect and a read gives 0.
\<close>

theorem MBC1_ram_roundtrip:
  assumes "mbc1_inv c" and "0xA000 \<le> a" and "a \<le> 0xBFFF" and "0xA000 \<le> b" and "b \<le> 0xBFFF"
    and "ram c = Some m" and "mbc1RamIndex (mbc1 c) a < bsize m"
  shows "if RAMEnable (mbc1 c) \<noteq> 0 then (\<exists>c'. MBC1_WriteByte a v c = Inr (1, c')
      \<and> MBC1_ReadByte a c' = Inr v
      \<and> (mbc1RamIndex (mbc1 c) b \<noteq> mbc1RamIndex (mbc1 c) a \<longrightarrow> MBC1_ReadByte b c' = MBC1_ReadByte b c))
    else MBC1_WriteByte a v c = Inr (0, c) \<and> MBC1_ReadByte a c = Inr 0"
proof (cases "RAMEnable (mbc1 c) = 0")
  case True
  with MBC1_ram_disabled [OF True assms(2,3)] show ?thesis by simp
next
  case False
  define c' where "c' = c\<lparr>ram := Some (m\<lparr>bdata := (bdata m)(mbc1RamIndex (mbc1 c) a := v)\<rparr>)\<rparr>"
  have inv': "mbc1_inv c'" "RAMEnable (mbc1 c') \<noteq> 0" "mbc1 c' = mbc1 c"
    using assms(1) False by (simp_all add: c'_def mbc1_inv_def)
  have "MBC1_WriteByte a v c = Inr (1, c')"
    using MBC1_ram_access(2) [OF assms(1) False assms(2,3)] assms(6,7) by (simp add: c'_def)
  moreover have "MBC1_ReadByte a c' = Inr v"
    using MBC1_ram_access(1) [OF inv'(1,2) assms(2,3)] assms(7) inv'(3) by (simp add: c'_def)
  moreover have "MBC1_ReadByte b c' = MBC1_ReadByte b c"
    if "mbc1RamIndex (mbc1 c) b \<noteq> mbc1RamIndex (mbc1 c) a"
    using MBC1_ram_access(1) [OF inv'(1,2) assms(4,5)] MBC1_ram_access(1) [OF assms(1) False assms(4,5)]
      that inv'(3) assms(6) by (simp add: c'_def arr_get_def)
  ultimately show ?thesis using False by auto
qed

lemma MBC1_ram_roundtrip_witness:
  "\<exists>c'. MBC1_WriteByte 0xA123 7 ((demoCart FnMBC1)\<lparr>mbc1 := mbc1_static\<lparr>RAMEnable := 1\<rparr>\<rparr>) = Inr (1, c')
     \<and> MBC1_ReadByte 0xA123 c' = Inr 7"
  using MBC1_ram_roundtrip [of "(demoCart FnMBC1)\<lparr>mbc1 := mbc1_static\<lparr>RAMEnable := 1\<rparr>\<rparr>" "0xA123" "0xA123"
      "\<lparr>bsize = 32768, bdata = (\<lambda>_. 0)\<rparr>" 7]
  by (auto simp: mbc1_inv_def mbc1_static_def mbc1RamIndex_def)

text \<open>Selecting a clock register and reading it over the bus.\<close>

definition rtcRead :: "u8 \<Rightarrow> cart \<Rightarrow> u8 res" where
  "rtcRead r c = bind_res (MBC3_WriteByte 0x4000 r c) (\<lambda>(_, c). MBC3_ReadByte 0xA000 c)"

text \<open>
  \<^bold>\<open>C28.\<close> The real-time clock round trip. For every time from 0 to 511 days, enabling the clock,
  selecting it and writing the latch sequence 0, 1 over the bus succeeds, and the five clock
  registers then read over the bus are seconds, minutes and hours in range and the day counter, and
  together are exactly that time.
\<close>

theorem rtc_latch_roundtrip:
  assumes "rtc_inv c" and "now = timeSrc c (timeIdx c)" and "0 \<le> now" and "now \<le> dayCounterOverflow"
  shows "\<exists>c' s m h lo hi.
    runWrites MBC3_WriteByte [(0x0000, 0x0A), (0x4000, 0x08), (0x6000, 0), (0x6000, 1)] c = Inr c'
    \<and> rtcRead 0x08 c' = Inr s \<and> rtcRead 0x09 c' = Inr m \<and> rtcRead 0x0A c' = Inr h
    \<and> rtcRead 0x0B c' = Inr lo \<and> rtcRead 0x0C c' = Inr hi
    \<and> s < 60 \<and> m < 60 \<and> h < 24 \<and> hi \<le> 1
    \<and> now = uint s + 60 * uint m + 3600 * uint h + 86400 * (uint lo + 256 * uint hi)"
proof -
  define k where "k = latchRegisters now (Clock (mbc3 c))"
  define c' where "c' = c\<lparr>timeIdx := timeIdx c + 1, mbc3 := (mbc3 c)\<lparr>RAM_TimerEnable := 1,
     RTCRegisterSelect := 0x08, RTCAccessMode := 1, LatchClockSequence := 1, Clock := k\<rparr>\<rparr>"
  have halt: "\<not> bit (upperDayCounter (Clock (mbc3 c))) 6" using assms(1) by (rule rtc_inv_not_halted)
  have run: "runWrites MBC3_WriteByte [(0x0000, 0x0A), (0x4000, 0x08), (0x6000, 0), (0x6000, 1)] c = Inr c'"
    using latchRTC_early [of "c\<lparr>mbc3 := (mbc3 c)\<lparr>RAM_TimerEnable := 1, RTCRegisterSelect := 0x08,
        RTCAccessMode := 1, LatchClockSequence := 0\<rparr>\<rparr>"] halt assms(2,4)
    by (simp add: MBC3_WriteByte_def Let_def c'_def k_def)
  have rd: "rtcRead 0x08 c' = Inr (seconds k)" "rtcRead 0x09 c' = Inr (minutes k)"
    "rtcRead 0x0A c' = Inr (hours k)" "rtcRead 0x0B c' = Inr (lowerDayCounter k)"
    "rtcRead 0x0C c' = Inr (upperDayCounter k)"
    by (simp_all add: rtcRead_def MBC3_WriteByte_def MBC3_ReadByte_def readRTCRegister_def Let_def c'_def)
  have u: "uint (seconds k) = now mod 60" "uint (minutes k) = now div 60 mod 60"
    "uint (hours k) = now div 3600 mod 24" "uint (lowerDayCounter k) = now div 86400 mod 256"
    "uint (upperDayCounter k) = now div 86400 div 256 mod 2"
    unfolding k_def latchRegisters_nonneg [OF assms(3)]
    by (simp_all add: uint_word_of_int_byte mod_mod_small)
  have range: "s < 60" "m < 60" "h < 24" "hi \<le> 1"
    if "uint s = now mod 60" "uint m = now div 60 mod 60" "uint h = now div 3600 mod 24"
      "uint hi = now div 86400 div 256 mod 2" for s m h hi :: u8
    unfolding word_less_def word_le_def that
    using pos_mod_bound [of 2 "now div 86400 div 256"] by simp_all
  have "now = uint (seconds k) + 60 * uint (minutes k) + 3600 * uint (hours k)
      + 86400 * (uint (lowerDayCounter k) + 256 * uint (upperDayCounter k))"
    unfolding u by (rule time_split) (use assms(3,4) in simp_all)
  with run rd range [OF u(1,2,3,5)] show ?thesis by blast
qed

lemma rtc_latch_roundtrip_witness:
  "\<exists>c' s m h lo hi.
    runWrites MBC3_WriteByte [(0x0000, 0x0A), (0x4000, 0x08), (0x6000, 0), (0x6000, 1)]
      (demoCart FnMBC3) = Inr c'
    \<and> rtcRead 0x08 c' = Inr s \<and> rtcRead 0x09 c' = Inr m \<and> rtcRead 0x0A c' = Inr h
    \<and> rtcRead 0x0B c' = Inr lo \<and> rtcRead 0x0C c' = Inr hi
    \<and> s < 60 \<and> m < 60 \<and> h < 24 \<and> hi \<le> 1
    \<and> 3600 = uint s + 60 * uint m + 3600 * uint h + 86400 * (uint lo + 256 * uint hi)"
  by (rule rtc_latch_roundtrip) (simp_all add: rtc_inv_def mbc3_static_def)

text \<open>
  Latching any later time, so every present-day clock: the loop subtracts its period
  (511 days times 86400) once and leaves a negative elapsed time, the base timestamp has moved by
  the period, the latched seconds are the negated remainder cut to a byte (197 or more unless 0),
  and the carry flag the code has just set is overwritten.
\<close>

theorem rtc_latch_overflow:
  assumes "rtc_inv c" and "now = timeSrc c (timeIdx c)" and "dayCounterOverflow < now" and "now \<le> rtcPeriod"
  shows "baseTimestamp (mbc3 (latchRTC c)) = baseTimestamp (mbc3 c) + rtcPeriod
    \<and> uint (seconds (Clock (mbc3 (latchRTC c)))) = (- ((rtcPeriod - now) mod 60)) mod 256
    \<and> \<not> bit (upperDayCounter (Clock (mbc3 (latchRTC c)))) 7"
proof -
  have "uint (word_of_int x :: u8) = x mod 256" for x
    by (simp add: unsigned_of_int take_bit_eq_mod)
  then show ?thesis
    unfolding latchRTC_late [OF rtc_inv_not_halted [OF assms(1)] assms(2-4)]
    using rtc_inv_bits [OF latchRTC_upper] by blast
qed

lemma rtc_latch_overflow_witness:
  "uint (seconds (Clock (mbc3 (latchRTC (cart_static (\<lambda>_. 1700000000)))))) = 256 - 40"
  using rtc_latch_overflow [of "cart_static (\<lambda>_. 1700000000)" 1700000000]
  by (simp add: rtc_inv_def cart_static_def mbc3_static_def rtcPeriod_eq)

text \<open>
  The clock can never be halted. Starting from power-on, after any sequence of bus writes
  to MBC3 the upper day counter is 0 or 1, so the halt flag and the day carry never show, although
  the code tests and sets both.
\<close>

theorem rtc_never_halts:
  assumes "runWrites MBC3_WriteByte ws (cart_static clk) = Inr c"
  shows "upperDayCounter (Clock (mbc3 c)) \<le> 1 \<and> \<not> bit (upperDayCounter (Clock (mbc3 c))) 6
    \<and> \<not> bit (upperDayCounter (Clock (mbc3 c))) 7"
proof -
  have "rtc_inv c" if "runWrites MBC3_WriteByte ws d = Inr c" and "rtc_inv d" for d
    using that
  proof (induction ws arbitrary: d)
    case (Cons p ws)
    then show ?case
      by (cases p) (auto simp: bind_res_eq_Inr dest: rtc_inv_write)
  qed simp
  moreover have "rtc_inv (cart_static clk)"
    by (simp add: rtc_inv_def cart_static_def mbc3_static_def)
  ultimately have "rtc_inv c" using assms by blast
  with rtc_inv_bits [OF this] show ?thesis by (simp add: rtc_inv_def)
qed

lemma rtc_never_halts_witness:
  "\<exists>c. runWrites MBC3_WriteByte [(0, 0x0A), (0x4000, 0x0C), (0xA000, 0x40)] (cart_static (\<lambda>_. 0)) = Inr c
     \<and> \<not> bit (upperDayCounter (Clock (mbc3 c))) 6"
proof -
  obtain c where "runWrites MBC3_WriteByte [(0, 0x0A), (0x4000, 0x0C), (0xA000, 0x40)]
      (cart_static (\<lambda>_. 0)) = Inr c"
    by (simp add: MBC3_WriteByte_def Let_def cart_static_def mbc3_static_def writeToRTCRegister_def
        case_prod_beta)
  with rtc_never_halts [OF this] show ?thesis by blast
qed

text \<open>
  External RAM of MBC3. A write through an enabled RAM bank below 4 that stays inside the RAM
  stores the byte where the read of the same address finds it, but always reports failure; from
  bank 4 on the write offset is cut to 16 bits while the read offset is not.
\<close>

theorem MBC3_ram_access:
  assumes "RAM_TimerEnable (mbc3 c) \<noteq> 0" and "RTCAccessMode (mbc3 c) = 0"
    and "unat (RAMBankNumber (mbc3 c)) < 8" and "0xA000 \<le> a" and "a \<le> 0xBFFF"
  shows "MBC3_WriteByte a v c = bind_res (buf_set (ram c)
       ((unat a - 0xA000) * 2 ^ unat (RAMBankNumber (mbc3 c)) mod 65536) v) (\<lambda>b. Inr (0, c\<lparr>ram := b\<rparr>))
    \<and> MBC3_ReadByte a c = buf_get (ram c) ((unat a - 0xA000) * 2 ^ unat (RAMBankNumber (mbc3 c)))"
proof -
  define n where "n = unat (RAMBankNumber (mbc3 c))"
  have a: "0xA000 \<le> unat a" "unat a \<le> 0xBFFF"
    using assms by (simp_all add: word_le_nat_alt)
  have "n = 0 \<or> n = 1 \<or> n = 2 \<or> n = 3 \<or> n = 4 \<or> n = 5 \<or> n = 6 \<or> n = 7"
    using assms(3) unfolding n_def [symmetric] by linarith
  then have n: "n < 32" "(unat a - 0xA000) * 2 ^ n < 2 ^ 31" using a by (elim disjE; simp)+
  have u: "unat ((ucast a :: u32) - 0xA000) = unat a - 0xA000" "unat (a - 0xA000) = unat a - 0xA000"
    using ucast_u32_sub [of "0xA000" a] a by (simp_all add: unat_sub_if')
  have "\<not> (ucast a :: u32) \<le> 0x3FFF" "\<not> (ucast a :: u32) \<le> 0x7FFF" "(ucast a :: u32) \<ge> 0xA000"
    "(ucast a :: u32) \<le> 0xBFFF"
    using a by (simp_all add: word_le_nat_alt ucast_u32)
  then have "MBC3_ReadByte a c = buf_get (ram c) ((unat a - 0xA000) * 2 ^ n)"
    using assms(1,2) n
    by (simp add: MBC3_ReadByte_def Let_def shl_uint_def unat_push_bit u n_def [symmetric])
  moreover have "\<not> a \<le> 0x1FFF" "\<not> a \<le> 0x3FFF" "\<not> a \<le> 0x5FFF" "\<not> a \<le> 0x7FFF"
    using a by (simp_all add: word_le_nat_alt)
  then have "MBC3_WriteByte a v c = bind_res (buf_set (ram c) ((unat a - 0xA000) * 2 ^ n mod 65536) v)
      (\<lambda>b. Inr (0, c\<lparr>ram := b\<rparr>))"
    using assms(1,2,4,5) n
    by (simp add: MBC3_WriteByte_def Let_def shl_ushort_def unat_push_bit u n_def [symmetric])
  ultimately show ?thesis by (simp add: n_def)
qed

lemma MBC3_ram_access_witness:
  "\<exists>c'. MBC3_WriteByte 0xA010 9 ((demoCart FnMBC3)\<lparr>mbc3 := mbc3_static\<lparr>RAM_TimerEnable := 1\<rparr>\<rparr>) = Inr (0, c')
     \<and> (case ram c' of Some b \<Rightarrow> bdata b 0x10 = 9 | None \<Rightarrow> False)"
  using MBC3_ram_access [of "(demoCart FnMBC3)\<lparr>mbc3 := mbc3_static\<lparr>RAM_TimerEnable := 1\<rparr>\<rparr>" "0xA010" 9]
  by (simp add: mbc3_static_def)

text \<open>
  Choosing a controller. \<open>setMBCType\<close> reports success exactly for the listed cartridge
  types, and then both function pointers name the same controller; types 08h and 09h set the
  pointers but report failure, and every other type (19h, plain MBC5, among them) leaves them alone.
\<close>

theorem setMBCType_accepts:
  "fst (setMBCType t c) = (if t \<in> {0x00, 0x01, 0x02, 0x03, 0x05, 0x06, 0x0F, 0x10, 0x11, 0x12, 0x13,
       0x15, 0x16, 0x17, 0x1A, 0x1B, 0x1C, 0x1D, 0x1E} then 1 else 0)
   \<and> (fst (setMBCType t c) = 1 \<or> t = 0x08 \<or> t = 0x09 \<longrightarrow>
        mbcReadByte (snd (setMBCType t c)) = mbcWriteByte (snd (setMBCType t c))
        \<and> mbcReadByte (snd (setMBCType t c)) \<noteq> None
        \<and> rom (snd (setMBCType t c)) = rom c \<and> ram (snd (setMBCType t c)) = ram c)
   \<and> (fst (setMBCType t c) = 0 \<and> t \<noteq> 0x08 \<and> t \<noteq> 0x09 \<longrightarrow> snd (setMBCType t c) = c)"
proof (cases "t \<in> {0x00, 0x01, 0x02, 0x03, 0x05, 0x06, 0x08, 0x09, 0x0F, 0x10, 0x11, 0x12, 0x13,
       0x15, 0x16, 0x17, 0x1A, 0x1B, 0x1C, 0x1D, 0x1E}")
  case True
  then show ?thesis
    by (elim insertE emptyE; simp add: setMBCType_def setMBCFns_def)
next
  case False
  then show ?thesis by (simp add: setMBCType_def)
qed

lemma setMBCType_accepts_witness:
  "fst (setMBCType 0x19 (demoCart FnMBC1)) = 0
   \<and> mbcReadByte (snd (setMBCType 0x13 (demoCart FnMBC1))) = mbcWriteByte (snd (setMBCType 0x13 (demoCart FnMBC1)))"
  using setMBCType_accepts [of "0x19" "demoCart FnMBC1"] setMBCType_accepts [of "0x13" "demoCart FnMBC1"] by simp

end
