(* ===== verification/Cartridge.thy ===== *)
theory Cartridge
  imports Mbc
begin

text \<open>
  Loading and checking a cartridge: \<^verbatim>\<open>src/cartridge.c\<close> and \<^verbatim>\<open>src/bios.c\<close>.

  The C library is a parameter: \<open>cenv\<close> says which files can be opened and what they contain, and
  what \<open>malloc\<close> answers to the two requests (None is NULL, Some the bytes the block happens to
  hold). A \<open>FILE\<close> is its contents and the read position; \<open>fread\<close> copies what is left of the file and
  leaves the rest of the buffer as it was.
\<close>

section \<open>Files\<close>

record FILE =
  fcontents :: "u8 list"
  fpos :: nat

record cenv =
  files :: "string \<Rightarrow> u8 list option"
  romBlock :: "nat \<Rightarrow> (nat \<Rightarrow> u8) option"
  ramBlock :: "nat \<Rightarrow> (nat \<Rightarrow> u8) option"

definition fopen :: "cenv \<Rightarrow> string \<Rightarrow> FILE option" where
  "fopen e name = map_option (\<lambda>bs. \<lparr>fcontents = bs, fpos = 0\<rparr>) (files e name)"

definition fseek_set :: "nat \<Rightarrow> FILE \<Rightarrow> FILE" where
  "fseek_set n f = f\<lparr>fpos := n\<rparr>"

definition fseek_end :: "FILE \<Rightarrow> FILE" where
  "fseek_end f = f\<lparr>fpos := length (fcontents f)\<rparr>"

definition fread :: "u8 list \<Rightarrow> FILE \<Rightarrow> u8 list \<times> FILE" where
  "fread buf f =
    (let got = take (length buf) (drop (fpos f) (fcontents f))
     in (got @ drop (length got) buf, f\<lparr>fpos := fpos f + length got\<rparr>))"

definition fread1 :: "u8 \<Rightarrow> FILE \<Rightarrow> u8 \<times> FILE" where
  "fread1 b f = (let (bs, f) = fread [b] f in (hd bs, f))"

section \<open>Loading\<close>

definition HeaderStart :: nat where [simp]: "HeaderStart = 0x100"

definition RAM_NONE :: u8 where [simp]: "RAM_NONE = 0x00"

definition RAM_2KB :: u8 where [simp]: "RAM_2KB = 0x01"

definition RAM_8KB :: u8 where [simp]: "RAM_8KB = 0x02"

definition RAM_32KB :: u8 where [simp]: "RAM_32KB = 0x03"

text \<open>
  The pointers keep pointing at what has been freed. A freed block is one without bytes, which \<open>malloc\<close> is never
  asked for here: every access through the pointer faults from then on, and so does freeing it again.
\<close>

definition freeBlock :: "buffer option \<Rightarrow> buffer option res" where
  "freeBlock p = (case p of None \<Rightarrow> Inr None
     | Some b \<Rightarrow> if bsize b = 0 then Inl UseAfterFree else Inr (Some (b\<lparr>bsize := 0\<rparr>)))"

definition cartCleanup :: "cart \<Rightarrow> cart res" where
  "cartCleanup c = bind_res (freeBlock (rom c)) (\<lambda>m. bind_res (freeBlock (ram c)) (\<lambda>n.
     Inr (c\<lparr>rom := m, ram := n\<rparr>)))"

definition setHeaderValues :: "FILE \<Rightarrow> header \<Rightarrow> header \<times> FILE" where
  "setHeaderValues f h =
    (let f = fseek_set HeaderStart f;
         (b, f) = fread (entryPoint h) f; h = h\<lparr>entryPoint := b\<rparr>;
         (b, f) = fread (nintendoLogo h) f; h = h\<lparr>nintendoLogo := b\<rparr>;
         (b, f) = fread (title h) f; h = h\<lparr>title := b\<rparr>;
         (b, f) = fread (newLicenseeCode h) f; h = h\<lparr>newLicenseeCode := b\<rparr>;
         (b, f) = fread1 (sgbFlag h) f; h = h\<lparr>sgbFlag := b\<rparr>;
         (b, f) = fread1 (cartridgeType h) f; h = h\<lparr>cartridgeType := b\<rparr>;
         (b, f) = fread1 (romSize h) f; h = h\<lparr>romSize := b\<rparr>;
         (b, f) = fread1 (ramSize h) f; h = h\<lparr>ramSize := b\<rparr>;
         (b, f) = fread1 (destinationCode h) f; h = h\<lparr>destinationCode := b\<rparr>;
         (b, f) = fread1 (oldLicenseeCode h) f; h = h\<lparr>oldLicenseeCode := b\<rparr>;
         (b, f) = fread1 (maskROMVersionNumber h) f; h = h\<lparr>maskROMVersionNumber := b\<rparr>;
         (b, f) = fread1 (headerChecksum h) f; h = h\<lparr>headerChecksum := b\<rparr>;
         (b, f) = fread (globalChecksum h) f
     in (h\<lparr>globalChecksum := b\<rparr>, f))"

definition getCartSize :: "FILE \<Rightarrow> u32 \<times> FILE" where
  "getCartSize f =
    (let f = fseek_end f; filesize = fpos f; f = fseek_set 0 f in (of_nat filesize, f))"

definition validateCartSize :: "u32 \<Rightarrow> header \<Rightarrow> bool" where
  "validateCartSize cartSize h =
    (if romSize h < 0x08 then push_bit (15 + unat (romSize h)) 1 = cartSize
     else if romSize h \<ge> 0x52 \<and> romSize h \<le> 0x54 then
       (if romSize h = 0x52 then 0x120000 = cartSize
        else if romSize h = 0x53 then 0x140000 = cartSize
        else if romSize h = 0x54 then 0x180000 = cartSize
        else False)
     else False)"

definition readCartROMToMemory :: "cenv \<Rightarrow> FILE \<Rightarrow> cart \<Rightarrow> int \<times> cart" where
  "readCartROMToMemory e f c =
    (let (h, f) = setHeaderValues f (hdr c);
         c = c\<lparr>hdr := h\<rparr>;
         (cartSize, f) = getCartSize f
     in if validateCartSize cartSize h then
          (case romBlock e (unat cartSize) of
             None \<Rightarrow> (0, c\<lparr>rom := None\<rparr>)
           | Some d \<Rightarrow>
               (let got = take (unat cartSize) (drop (fpos f) (fcontents f))
                in (1, c\<lparr>rom := Some \<lparr>bsize = unat cartSize,
                     bdata = (\<lambda>i. if i < length got then got ! i else d i)\<rparr>\<rparr>)))
        else (0, c))"

definition initializeRAM :: "cenv \<Rightarrow> u8 \<Rightarrow> cart \<Rightarrow> int \<times> cart" where
  "initializeRAM e cartRamSize c =
    (if cartRamSize \<in> {RAM_NONE, RAM_2KB, RAM_32KB} then
       (let ramSize = (if cartRamSize = RAM_NONE then 0
                       else if cartRamSize = RAM_2KB then 1024 * 2 else 1024 * 32)
        in if ramSize \<noteq> 0 then
             (case ramBlock e ramSize of
                None \<Rightarrow> (0, c\<lparr>ram := None\<rparr>)
              | Some d \<Rightarrow> (1, c\<lparr>ram := Some \<lparr>bsize = ramSize,
                              bdata = (\<lambda>i. if i < ramSize then 0 else d i)\<rparr>\<rparr>))
           else (1, c))
     else (0, c))"

definition loadCartridge :: "cenv \<Rightarrow> string \<Rightarrow> cart \<Rightarrow> int \<times> cart" where
  "loadCartridge e cartName c =
    (case fopen e cartName of
       None \<Rightarrow> (0, c)
     | Some f \<Rightarrow>
         (let (success, c) = readCartROMToMemory e f c
          in if success \<noteq> 0 then
               (let (success, c) = initializeRAM e (ramSize (hdr c)) c
                in if success \<noteq> 0 then
                     (let (success, c) = setMBCType (cartridgeType (hdr c)) c
                      in if success \<noteq> 0 then (success, c\<lparr>mbcSet := True\<rparr>) else (success, c))
                   else (success, c))
             else (success, c)))"

section \<open>The power-up checks\<close>

definition nintendoLogoBitmap :: "u8 list" where
  "nintendoLogoBitmap =
    [0xCE, 0xED, 0x66, 0x66, 0xCC, 0x0D, 0x00, 0x0B, 0x03, 0x73, 0x00, 0x83,
     0x00, 0x0C, 0x00, 0x0D, 0x00, 0x08, 0x11, 0x1F, 0x88, 0x89, 0x00, 0x0E,
     0xDC, 0xCC, 0x6E, 0xE6, 0xDD, 0xDD, 0xD9, 0x99, 0xBB, 0xBB, 0x67, 0x63,
     0x6E, 0x0E, 0xEC, 0xCC, 0xDD, 0xDC, 0x99, 0x9F, 0xBB, 0xB9, 0x33, 0x3E]"

definition CART_LOGO_START_LOC :: nat where [simp]: "CART_LOGO_START_LOC = 0x104"

definition HEADER_VALUES_START :: nat where [simp]: "HEADER_VALUES_START = 0x134"

definition HEADER_VALUES_END :: nat where [simp]: "HEADER_VALUES_END = 0x14D"

text \<open>The loop over the logo bytes, from index \<open>i\<close> on with the flag so far.\<close>

fun checkLogoLoop :: "u8 list \<Rightarrow> u8 list \<Rightarrow> int \<Rightarrow> int" where
  "checkLogoLoop (e # es) (l # ls) isMatch =
     checkLogoLoop es ls (if e \<noteq> l then 0 else isMatch)"
| "checkLogoLoop _ _ isMatch = isMatch"

definition checkLogo :: "FILE \<Rightarrow> header \<Rightarrow> int \<times> header \<times> FILE" where
  "checkLogo f h =
    (let f = fseek_set CART_LOGO_START_LOC f;
         (b, f) = fread (nintendoLogo h) f;
         h = h\<lparr>nintendoLogo := b\<rparr>
     in (checkLogoLoop nintendoLogoBitmap (nintendoLogo h) 1, h, f))"

text \<open>
  The local array is read completely (\<open>validateCart\<close> has checked the size), so its initial
  contents do not matter.
\<close>

definition checkHeaderValues :: "FILE \<Rightarrow> int" where
  "checkHeaderValues f =
    (let f = fseek_set HEADER_VALUES_START f;
         (headerValues, f) = fread (replicate (HEADER_VALUES_END - HEADER_VALUES_START) 0) f;
         valueSum = foldl (\<lambda>s v. s + uint v) 0 headerValues;
         valueSum = valueSum + 0x19
     in if valueSum AND 1 \<noteq> 0 then 0 else 1)"

definition validateCart :: "cenv \<Rightarrow> string \<Rightarrow> cart \<Rightarrow> int \<times> cart" where
  "validateCart e fileName c =
    (case fopen e fileName of
       None \<Rightarrow> (0, c)
     | Some f \<Rightarrow>
         (let f = fseek_end f; cartSize = fpos f
          in if cartSize < 0x14F then (0, c)
             else
               (let (logo, h, f) = checkLogo (fseek_set 0 f) (hdr c);
                    c = c\<lparr>hdr := h\<rparr>
                in if \<not> (logo \<noteq> 0 \<and> checkHeaderValues f \<noteq> 0) then (0, c) else (1, c))))"

end
