(* ===== verification/Cartridge_Properties.thy ===== *)
theory Cartridge_Properties
  imports Cartridge
begin

text \<open>
  Loading and checking cartridges: \<open>loadable\<close> and \<open>headerOf\<close> say, without reading positions or
  buffers, when \<open>loadCartridge\<close> succeeds and what it leaves in memory.
\<close>

section \<open>Reading the header\<close>

definition header_wf :: "header \<Rightarrow> bool" where
  "header_wf h \<longleftrightarrow> length (entryPoint h) = 4 \<and> length (nintendoLogo h) = 0x30
     \<and> length (title h) = 0x10 \<and> length (newLicenseeCode h) = 2 \<and> length (globalChecksum h) = 2"

lemma header_wf_static: "header_wf header_static"
  by (simp add: header_wf_def header_static_def)

lemma fread_full:
  "fpos f + length buf \<le> length (fcontents f) \<Longrightarrow>
   fread buf f = (take (length buf) (drop (fpos f) (fcontents f)), f\<lparr>fpos := fpos f + length buf\<rparr>)"
  by (simp add: fread_def Let_def min_absorb2)

lemma fread1_full:
  "fpos f < length (fcontents f) \<Longrightarrow> fread1 b f = (fcontents f ! fpos f, f\<lparr>fpos := fpos f + 1\<rparr>)"
  by (simp add: fread1_def fread_full hd_drop_conv_nth take_Suc)

lemma fread_length [simp]: "length (fst (fread buf f)) = length buf"
  by (simp add: fread_def Let_def)

lemma fread_contents [simp]: "fcontents (snd (fread buf f)) = fcontents f"
  "fcontents (snd (fread1 b f)) = fcontents f"
  by (simp_all add: fread_def fread1_def Let_def case_prod_beta)

text \<open>The header a file of at least 150h bytes holds, at the offsets the comments give.\<close>

definition headerOf :: "u8 list \<Rightarrow> header" where
  "headerOf bs = \<lparr>entryPoint = take 4 (drop 0x100 bs), nintendoLogo = take 0x30 (drop 0x104 bs),
     title = take 0x10 (drop 0x134 bs), newLicenseeCode = take 2 (drop 0x144 bs),
     sgbFlag = bs ! 0x146, cartridgeType = bs ! 0x147, romSize = bs ! 0x148, ramSize = bs ! 0x149,
     destinationCode = bs ! 0x14A, oldLicenseeCode = bs ! 0x14B, maskROMVersionNumber = bs ! 0x14C,
     headerChecksum = bs ! 0x14D, globalChecksum = take 2 (drop 0x14E bs)\<rparr>"

lemma fread_at:
  "p + length buf \<le> length bs \<Longrightarrow> fread buf \<lparr>fcontents = bs, fpos = p\<rparr>
     = (take (length buf) (drop p bs), \<lparr>fcontents = bs, fpos = p + length buf\<rparr>)"
  "p < length bs \<Longrightarrow> fread1 b \<lparr>fcontents = bs, fpos = p\<rparr> = (bs ! p, \<lparr>fcontents = bs, fpos = p + 1\<rparr>)"
  by (simp_all add: fread_full fread1_full)

lemma setHeaderValues_full:
  assumes "header_wf h" and "0x150 \<le> length (fcontents f)"
  shows "fst (setHeaderValues f h) = headerOf (fcontents f)"
proof -
  define bs where "bs = fcontents f"
  have len: "0x150 \<le> length bs" using assms(2) by (simp add: bs_def)
  have f: "fseek_set HeaderStart f = \<lparr>fcontents = bs, fpos = 0x100\<rparr>"
    by (simp add: fseek_set_def bs_def)
  obtain ep lo ti nl sg ct ro ra dc ol mr hc gc where
    h: "h = \<lparr>entryPoint = ep, nintendoLogo = lo, title = ti, newLicenseeCode = nl, sgbFlag = sg,
      cartridgeType = ct, romSize = ro, ramSize = ra, destinationCode = dc, oldLicenseeCode = ol,
      maskROMVersionNumber = mr, headerChecksum = hc, globalChecksum = gc\<rparr>"
    by (cases h) blast
  have l: "length ep = 4" "length lo = 0x30" "length ti = 0x10" "length nl = 2" "length gc = 2"
    using assms(1) by (simp_all add: header_wf_def h)
  have r: "fread ep \<lparr>fcontents = bs, fpos = 0x100\<rparr> = (take 4 (drop 0x100 bs), \<lparr>fcontents = bs, fpos = 0x104\<rparr>)"
    "fread lo \<lparr>fcontents = bs, fpos = 0x104\<rparr> = (take 0x30 (drop 0x104 bs), \<lparr>fcontents = bs, fpos = 0x134\<rparr>)"
    "fread ti \<lparr>fcontents = bs, fpos = 0x134\<rparr> = (take 0x10 (drop 0x134 bs), \<lparr>fcontents = bs, fpos = 0x144\<rparr>)"
    "fread nl \<lparr>fcontents = bs, fpos = 0x144\<rparr> = (take 2 (drop 0x144 bs), \<lparr>fcontents = bs, fpos = 0x146\<rparr>)"
    "fread gc \<lparr>fcontents = bs, fpos = 0x14E\<rparr> = (take 2 (drop 0x14E bs), \<lparr>fcontents = bs, fpos = 0x150\<rparr>)"
    using len by (simp_all add: fread_at(1) l)
  have r1: "fread1 b \<lparr>fcontents = bs, fpos = p\<rparr> = (bs ! p, \<lparr>fcontents = bs, fpos = p + 1\<rparr>)"
    if "p < 0x150" for b p
    using that len by (intro fread_at(2)) simp
  show ?thesis
    unfolding setHeaderValues_def Let_def f h bs_def [symmetric]
    by (simp add: r r1 headerOf_def)
qed

lemma setHeaderValues_contents [simp]: "fcontents (snd (setHeaderValues f h)) = fcontents f"
  by (simp add: setHeaderValues_def case_prod_beta Let_def fseek_set_def)

definition expectedSize :: "u8 \<Rightarrow> nat option" where
  "expectedSize r = (if r < 8 then Some (32768 * 2 ^ unat r) else if r = 0x52 then Some 0x120000
     else if r = 0x53 then Some 0x140000 else if r = 0x54 then Some 0x180000 else None)"

lemma validateCartSize_iff:
  assumes "n < 2 ^ 32"
  shows "validateCartSize (of_nat n) h \<longleftrightarrow> expectedSize (romSize h) = Some n"
proof -
  have eq: "(k = (of_nat n :: u32)) = (unat k = n)" for k
    using assms by (auto simp: unat_of_nat)
  have 52: "0x52 \<le> r \<and> r \<le> 0x54 \<longleftrightarrow> r = 0x52 \<or> r = 0x53 \<or> r = 0x54" for r :: u8
    by (auto simp: word_le_nat_alt word_unat_eq_iff)
  show ?thesis
  proof (cases "romSize h < 8")
    case True
    define k where "k = unat (romSize h)"
    from True have "k < 8" by (simp add: k_def word_less_nat_alt)
    then have "k = 0 \<or> k = 1 \<or> k = 2 \<or> k = 3 \<or> k = 4 \<or> k = 5 \<or> k = 6 \<or> k = 7" by linarith
    then have "unat (push_bit (15 + k) 1 :: u32) = 32768 * 2 ^ k"
      by (elim disjE) simp_all
    with True show ?thesis by (simp add: validateCartSize_def expectedSize_def eq k_def)
  next
    case False
    then show ?thesis
      by (cases "romSize h = 0x52 \<or> romSize h = 0x53 \<or> romSize h = 0x54")
        (auto simp: validateCartSize_def expectedSize_def eq 52)
  qed
qed

lemma expectedSize_large: "expectedSize r = Some n \<Longrightarrow> 32768 \<le> n"
  by (auto simp: expectedSize_def split: if_splits)

lemma expectedSize_bound: "expectedSize r = Some n \<Longrightarrow> n < 2 ^ 32"
proof -
  assume a: "expectedSize r = Some n"
  have "32768 * 2 ^ unat r < (2 ^ 32 :: nat)" if "r < 8"
  proof -
    have "(2::nat) ^ unat r \<le> 2 ^ 8" using that by (intro power_increasing) (simp_all add: word_less_nat_alt)
    then show ?thesis by simp
  qed
  with a show ?thesis by (auto simp: expectedSize_def split: if_splits)
qed

section \<open>Loading\<close>

text \<open>
  When a file is a cartridge the emulator can run. The controllers are listed by the type byte of the header, as
  the documentation of the console has them; plain MBC5 (19h) is not among those the code knows.
\<close>

definition controllers :: "(u8 \<times> mbcFn) list" where
  "controllers = [(0x00, FnMBCNone), (0x01, FnMBC1), (0x02, FnMBC1), (0x03, FnMBC1), (0x05, FnMBC2), (0x06, FnMBC2),
     (0x0F, FnMBC3), (0x10, FnMBC3), (0x11, FnMBC3), (0x12, FnMBC3), (0x13, FnMBC3),
     (0x15, FnMBC4), (0x16, FnMBC4), (0x17, FnMBC4),
     (0x1A, FnMBC5), (0x1B, FnMBC5), (0x1C, FnMBC5), (0x1D, FnMBC5), (0x1E, FnMBC5)]"

definition controllerOf :: "u8 \<Rightarrow> mbcFn option" where
  "controllerOf = map_of controllers"

definition supportedType :: "u8 \<Rightarrow> bool" where
  "supportedType t \<longleftrightarrow> controllerOf t \<noteq> None"

definition ramBytes :: "u8 \<Rightarrow> nat option" where
  "ramBytes r = (if r = 0 then Some 0 else if r = 1 then Some 2048 else if r = 3 then Some 32768 else None)"

definition loadable :: "cenv \<Rightarrow> u8 list \<Rightarrow> bool" where
  "loadable e bs \<longleftrightarrow> expectedSize (bs ! 0x148) = Some (length bs) \<and> romBlock e (length bs) \<noteq> None
     \<and> (\<exists>n. ramBytes (bs ! 0x149) = Some n \<and> (n \<noteq> 0 \<longrightarrow> ramBlock e n \<noteq> None))
     \<and> supportedType (bs ! 0x147)"

lemma setMBCType_controller:
  "setMBCType t c = (case controllerOf t of Some f \<Rightarrow> (1, setMBCFns f c)
     | None \<Rightarrow> (0, if t = 0x08 \<or> t = 0x09 then setMBCFns FnMBCNone c else c))"
  by (simp add: setMBCType_def controllerOf_def controllers_def)

lemma setMBCType_frame:
  "rom (snd (setMBCType t c)) = rom c" "ram (snd (setMBCType t c)) = ram c" "hdr (snd (setMBCType t c)) = hdr c"
  by (simp_all add: setMBCType_def setMBCFns_def)

lemma getCartSize_eq: "getCartSize f = (of_nat (length (fcontents f)), f\<lparr>fpos := 0\<rparr>)"
  by (simp add: getCartSize_def fseek_end_def fseek_set_def Let_def)

lemma readCartROM_eq:
  fixes c :: cart
  assumes "length bs < 2 ^ 32" and "fcontents f = bs"
  defines "h \<equiv> fst (setHeaderValues f (hdr c))"
  shows "readCartROMToMemory e f c = (if expectedSize (romSize h) = Some (length bs) then
     (case romBlock e (length bs) of None \<Rightarrow> (0, c\<lparr>hdr := h, rom := None\<rparr>)
      | Some d \<Rightarrow> (1, c\<lparr>hdr := h, rom := Some \<lparr>bsize = length bs,
           bdata = (\<lambda>i. if i < length bs then bs ! i else d i)\<rparr>\<rparr>))
     else (0, c\<lparr>hdr := h\<rparr>))"
proof -
  have "unat (of_nat (length bs) :: u32) = length bs"
    using assms(1) by (simp add: unat_of_nat)
  then show ?thesis
    using validateCartSize_iff [OF assms(1)]
    by (simp add: readCartROMToMemory_def case_prod_beta Let_def getCartSize_eq assms h_def
        split: option.split)
qed

lemma readCartROM_header:
  assumes "header_wf (hdr c)" and "length bs < 2 ^ 32"
  shows "\<exists>h. readCartROMToMemory e \<lparr>fcontents = bs, fpos = p\<rparr> c =
    (if expectedSize (bs ! 0x148) = Some (length bs) then
       (case romBlock e (length bs) of None \<Rightarrow> (0, c\<lparr>hdr := headerOf bs, rom := None\<rparr>)
        | Some d \<Rightarrow> (1, c\<lparr>hdr := headerOf bs, rom := Some \<lparr>bsize = length bs,
             bdata = (\<lambda>i. if i < length bs then bs ! i else d i)\<rparr>\<rparr>))
     else (0, c\<lparr>hdr := h\<rparr>))"
proof (cases "0x150 \<le> length bs")
  case True
  then have "fst (setHeaderValues \<lparr>fcontents = bs, fpos = p\<rparr> (hdr c)) = headerOf bs"
    using setHeaderValues_full [OF assms(1), of "\<lparr>fcontents = bs, fpos = p\<rparr>"] by simp
  moreover have "romSize (headerOf bs) = bs ! 0x148" by (simp add: headerOf_def)
  ultimately show ?thesis
    using readCartROM_eq [OF assms(2), of "\<lparr>fcontents = bs, fpos = p\<rparr>" e c]
    by (auto split: option.split)
next
  case False
  then have "expectedSize r \<noteq> Some (length bs)" for r using expectedSize_large by fastforce
  then show ?thesis
    using readCartROM_eq [OF assms(2), of "\<lparr>fcontents = bs, fpos = p\<rparr>" e c] by simp blast
qed

lemma initializeRAM_eq:
  "initializeRAM e r c = (case ramBytes r of None \<Rightarrow> (0, c)
     | Some n \<Rightarrow> if n = 0 then (1, c) else (case ramBlock e n of None \<Rightarrow> (0, c\<lparr>ram := None\<rparr>)
         | Some d \<Rightarrow> (1, c\<lparr>ram := Some \<lparr>bsize = n, bdata = (\<lambda>i. if i < n then 0 else d i)\<rparr>\<rparr>)))"
  by (auto simp: initializeRAM_def ramBytes_def split: option.split)

lemma loadCartridge_main:
  assumes "header_wf (hdr c)" and "files e name = Some bs" and "length bs < 2 ^ 32"
  shows "\<exists>r c'. loadCartridge e name c = (r, c') \<and> (r = 1 \<longleftrightarrow> loadable e bs) \<and> (r \<noteq> 1 \<longrightarrow> r = 0)
    \<and> (r = 1 \<longrightarrow> hdr c' = headerOf bs \<and> mbcSet c'
        \<and> mbcReadByte c' = controllerOf (bs ! 0x147) \<and> mbcWriteByte c' = controllerOf (bs ! 0x147)
        \<and> (\<exists>m. rom c' = Some m \<and> bsize m = length bs \<and> (\<forall>i<length bs. bdata m i = bs ! i))
        \<and> (if ramBytes (bs ! 0x149) = Some 0 then ram c' = ram c
           else \<exists>m. ram c' = Some m \<and> Some (bsize m) = ramBytes (bs ! 0x149) \<and> (\<forall>i<bsize m. bdata m i = 0)))"
proof (cases "expectedSize (bs ! 0x148) = Some (length bs) \<and> romBlock e (length bs) \<noteq> None")
  case False
  have "fst (readCartROMToMemory e \<lparr>fcontents = bs, fpos = 0\<rparr> c) = 0"
    using readCartROM_header [OF assms(1,3), of e 0] False by (auto split: option.splits)
  then have "\<exists>c'. loadCartridge e name c = (0, c')"
    by (simp add: loadCartridge_def fopen_def assms(2) case_prod_beta Let_def)
  moreover have "\<not> loadable e bs" using False by (simp add: loadable_def)
  ultimately show ?thesis by (auto split del: if_split)
next
  case True
  then obtain d where d: "romBlock e (length bs) = Some d" by blast
  define c1 where "c1 = c\<lparr>hdr := headerOf bs, rom := Some \<lparr>bsize = length bs,
           bdata = (\<lambda>i. if i < length bs then bs ! i else d i)\<rparr>\<rparr>"
  have c1: "readCartROMToMemory e \<lparr>fcontents = bs, fpos = 0\<rparr> c = (1, c1)"
    using readCartROM_header [OF assms(1,3), of e 0] True d by (simp add: c1_def)
  have hdr1: "hdr c1 = headerOf bs" "ram c1 = ram c" "rom c1 = Some \<lparr>bsize = length bs,
           bdata = (\<lambda>i. if i < length bs then bs ! i else d i)\<rparr>" by (simp_all add: c1_def)
  define q where "q = initializeRAM e (bs ! 0x149) c1"
  define s where "s = setMBCType (bs ! 0x147) (snd q)"
  have load: "loadCartridge e name c = (if fst q \<noteq> 0 then
      (if fst s \<noteq> 0 then (fst s, (snd s)\<lparr>mbcSet := True\<rparr>) else (fst s, snd s)) else (fst q, snd q))"
  proof -
    have "hdr (snd q) = headerOf bs"
      using hdr1 by (simp add: q_def initializeRAM_eq split: option.split)
    then show ?thesis
      by (simp add: loadCartridge_def fopen_def assms(2) case_prod_beta Let_def c1 q_def s_def hdr1)
         (simp add: headerOf_def q_def [symmetric] s_def [symmetric])
  qed
  have q: "fst q = 1 \<longleftrightarrow> (\<exists>n. ramBytes (bs ! 0x149) = Some n \<and> (n \<noteq> 0 \<longrightarrow> ramBlock e n \<noteq> None))"
    "fst q = 0 \<or> fst q = 1" "rom (snd q) = rom c1" "hdr (snd q) = hdr c1"
    by (auto simp: q_def initializeRAM_eq split: option.split)
  have qram: "if ramBytes (bs ! 0x149) = Some 0 then ram (snd q) = ram c
      else \<exists>m. ram (snd q) = Some m \<and> Some (bsize m) = ramBytes (bs ! 0x149) \<and> (\<forall>i<bsize m. bdata m i = 0)"
    if "fst q = 1"
    using that hdr1 by (auto simp: q_def initializeRAM_eq split: option.splits if_splits)
  have s: "fst s = 1 \<longleftrightarrow> supportedType (bs ! 0x147)" "fst s = 0 \<or> fst s = 1"
    "fst s = 1 \<Longrightarrow> mbcReadByte (snd s) = controllerOf (bs ! 0x147) \<and> mbcWriteByte (snd s) = controllerOf (bs ! 0x147)"
    by (auto simp: s_def supportedType_def setMBCType_controller setMBCFns_def split: option.splits)
  show ?thesis
  proof (cases "fst q = 1 \<and> fst s = 1")
    case True
    then have "loadable e bs" using q(1) s(1) d \<open>expectedSize _ = _ \<and> _\<close> by (simp add: loadable_def)
    moreover have "loadCartridge e name c = (1, (snd s)\<lparr>mbcSet := True\<rparr>)" using load True by simp
    moreover have "rom (snd s) = rom c1" "ram (snd s) = ram (snd q)" "hdr (snd s) = headerOf bs"
      using q(3,4) hdr1 by (simp_all add: s_def setMBCType_frame)
    ultimately show ?thesis using True qram s(3) hdr1(3) by (simp del: split_paired_Ex)
  next
    case False
    then have "\<not> loadable e bs" using q(1) s(1) by (auto simp: loadable_def)
    moreover have "\<exists>c'. loadCartridge e name c = (0, c')"
      using load False q(2) s(2) by auto
    ultimately show ?thesis by (auto split del: if_split)
  qed
qed

text \<open>
  \<^bold>\<open>C20.\<close> Loading a cartridge, exactly. Given a readable file of less than 4 GB, \<open>loadCartridge\<close>
  succeeds if and only if the file is loadable (its size is the one its header byte 148h stands for,
  the RAM size byte is 0, 1 or 3, memory is available, its type byte 147h is one of the 19 of \<open>controllers\<close>), and
  then the ROM is the file, the header is the header of the file, the RAM is zeroed and of the size the header
  asks for (the pointer as it was for size 0), and both function pointers are those of the controller that the
  type stands for: none, MBC1, MBC2, MBC3, MBC4 or MBC5.
\<close>

theorem loadCartridge_spec:
  assumes "header_wf (hdr c)" and "files e name = Some bs" and "length bs < 2 ^ 32"
  shows "\<exists>r c'. loadCartridge e name c = (r, c') \<and> (r = 1 \<longleftrightarrow> loadable e bs) \<and> (r \<noteq> 1 \<longrightarrow> r = 0)
    \<and> (r = 1 \<longrightarrow> hdr c' = headerOf bs \<and> mbcSet c'
        \<and> mbcReadByte c' = controllerOf (bs ! 0x147) \<and> mbcWriteByte c' = controllerOf (bs ! 0x147)
        \<and> (\<exists>m. rom c' = Some m \<and> bsize m = length bs \<and> (\<forall>i<length bs. bdata m i = bs ! i))
        \<and> (if ramBytes (bs ! 0x149) = Some 0 then ram c' = ram c
           else \<exists>m. ram c' = Some m \<and> Some (bsize m) = ramBytes (bs ! 0x149) \<and> (\<forall>i<bsize m. bdata m i = 0)))"
  using loadCartridge_main [OF assms] by blast

definition blankEnv :: cenv where
  "blankEnv = \<lparr>files = (\<lambda>n. if n = ''blank.gb'' then Some (replicate 32768 0) else None),
     romBlock = (\<lambda>_. Some (\<lambda>_. 0xFF)), ramBlock = (\<lambda>_. None)\<rparr>"

lemma loadCartridge_spec_witness:
  "\<exists>c' m. loadCartridge blankEnv ''blank.gb'' (cart_static (\<lambda>_. 0)) = (1, c') \<and> rom c' = Some m
     \<and> bsize m = 32768 \<and> bdata m 5 = 0 \<and> mbcWriteByte c' = Some FnMBCNone"
proof -
  have "header_wf (hdr (cart_static (\<lambda>_. 0)))" by (simp add: cart_static_def header_wf_static)
  moreover have "files blankEnv ''blank.gb'' = Some (replicate 32768 0)" by (simp add: blankEnv_def)
  moreover have "length (replicate 32768 (0::u8)) < 2 ^ 32" by simp
  moreover have "loadable blankEnv (replicate 32768 0)"
    by (simp add: loadable_def expectedSize_def blankEnv_def ramBytes_def supportedType_def controllerOf_def controllers_def)
  ultimately show ?thesis
    using loadCartridge_spec [of "cart_static (\<lambda>_. 0)" blankEnv "''blank.gb''" "replicate 32768 0"]
    by (auto simp: controllerOf_def controllers_def)
qed

text \<open>
  From file to program. After a successful load of a cartridge without a controller (type 0),
  every read of the ROM area through the function pointers gives the byte of the file at that
  address, and every write to it is ignored.
\<close>

theorem load_then_read:
  assumes "header_wf (hdr c)" and "files e name = Some bs" and "length bs < 2 ^ 32"
    and "bs ! 0x147 = 0" and "loadCartridge e name c = (1, c')" and "a < 0x8000"
  shows "mbc_readByte a c' = Inr (bs ! unat a) \<and> mbcReadByte c' = Some FnMBCNone
    \<and> MBCNone_WriteByte a v c' = Inr (1, c')"
proof -
  from loadCartridge_main [OF assms(1-3)] assms(5) obtain m where
    m: "mbcSet c'" "rom c' = Some m" "bsize m = length bs" "\<forall>i<length bs. bdata m i = bs ! i"
      "mbcReadByte c' = controllerOf (bs ! 0x147)" and "loadable e bs"
    by (auto simp del: split_paired_Ex)
  then have "expectedSize (bs ! 0x148) = Some (length bs)" by (simp add: loadable_def)
  then have len: "32768 \<le> length bs" by (rule expectedSize_large)
  have a: "unat a < 32768" using assms(6) by (simp add: word_less_nat_alt)
  have "mbcReadByte c' = Some FnMBCNone" using m(5) assms(4) by (simp add: controllerOf_def controllers_def)
  then show ?thesis
    using m len a by (simp add: mbc_readByte_def MBCNone_ReadByte_def MBCNone_WriteByte_def Let_def
        word_le_nat_alt)
qed

lemma load_then_read_witness:
  "\<exists>c'. loadCartridge blankEnv ''blank.gb'' (cart_static (\<lambda>_. 0)) = (1, c') \<and> mbc_readByte 0x150 c' = Inr 0"
proof -
  have wf: "header_wf (hdr (cart_static (\<lambda>_. 0)))" by (simp add: cart_static_def header_wf_static)
  have f: "files blankEnv ''blank.gb'' = Some (replicate 32768 0)" by (simp add: blankEnv_def)
  have l: "length (replicate 32768 (0::u8)) < 2 ^ 32" by simp
  have "loadable blankEnv (replicate 32768 0)"
    by (simp add: loadable_def expectedSize_def blankEnv_def ramBytes_def supportedType_def controllerOf_def controllers_def)
  with loadCartridge_main [OF wf f l] obtain c' where
    ld: "loadCartridge blankEnv ''blank.gb'' (cart_static (\<lambda>_. 0)) = (1, c')" by auto
  from load_then_read [OF wf f l _ ld, of "0x150"] ld show ?thesis by simp
qed

lemma checkLogoLoop_eq:
  "length es = length ls \<Longrightarrow> checkLogoLoop es ls m = (if ls = es then m else 0)"
  by (induction es ls arbitrary: m rule: list_induct2) auto

lemma foldl_uint: "foldl (\<lambda>s v. s + uint v) n xs = n + int (sum_list (map unat xs))" for xs :: "u8 list"
  by (induction xs arbitrary: n) simp_all

lemma header_parity:
  "((foldl (\<lambda>s v. s + uint v) 0 xs + 25) AND 1 = 0) = even (sum_list (map unat xs) + 25)" for xs :: "u8 list"
proof -
  have "foldl (\<lambda>s v. s + uint v) 0 xs + 25 = int (sum_list (map unat xs) + 25)"
    by (simp add: foldl_uint)
  then show ?thesis by (simp only: and_one_eq) (simp add: even_iff_mod_2_eq_zero [symmetric])
qed

lemma validateCart_char:
  assumes "length (nintendoLogo (hdr c)) = 0x30"
  shows "fst (validateCart e name c) = 1 \<longleftrightarrow> (\<exists>bs. files e name = Some bs \<and> 0x14F \<le> length bs
    \<and> take 0x30 (drop 0x104 bs) = nintendoLogoBitmap
    \<and> even (sum_list (map unat (take 25 (drop 0x134 bs))) + 25))"
proof (cases "\<exists>bs. files e name = Some bs \<and> 0x14F \<le> length bs")
  case False
  then have "fst (validateCart e name c) = 0"
    by (auto simp: validateCart_def fopen_def fseek_end_def Let_def split: option.split)
  with False show ?thesis by auto
next
  case True
  then obtain bs where bs: "files e name = Some bs" "0x14F \<le> length bs" by blast
  have logo: "fread (nintendoLogo (hdr c)) \<lparr>fcontents = bs, fpos = 0x104\<rparr> =
      (take 0x30 (drop 0x104 bs), \<lparr>fcontents = bs, fpos = 0x134\<rparr>)"
    using bs(2) assms by (simp add: fread_at(1))
  have vals: "fread (replicate 25 0) \<lparr>fcontents = bs, fpos = 0x134\<rparr> =
      (take 25 (drop 0x134 bs), \<lparr>fcontents = bs, fpos = 0x14D\<rparr>)"
    using bs(2) by (simp add: fread_at(1))
  have len: "length nintendoLogoBitmap = length (take 0x30 (drop 0x104 bs))"
    using bs(2) by (simp add: nintendoLogoBitmap_def)
  have "checkHeaderValues \<lparr>fcontents = bs, fpos = 0x134\<rparr> =
      (if even (sum_list (map unat (take 25 (drop 0x134 bs))) + 25) then 1 else 0)"
    using header_parity [of "take 25 (drop 0x134 bs)"]
    by (simp add: checkHeaderValues_def fseek_set_def Let_def vals)
  then have "fst (validateCart e name c) = (if take 0x30 (drop 0x104 bs) = nintendoLogoBitmap
      \<and> even (sum_list (map unat (take 25 (drop 0x134 bs))) + 25) then 1 else 0)"
    using bs(2) by (simp add: validateCart_def fopen_def bs(1) fseek_end_def fseek_set_def Let_def
        checkLogo_def logo checkLogoLoop_eq [OF len] case_prod_beta)
  with bs show ?thesis by simp
qed

text \<open>A file that passes the checks: the logo, and a byte that makes the sum even.\<close>

definition logoBytes :: "u8 list" where
  "logoBytes = replicate 0x104 0 @ nintendoLogoBitmap @ [1] @ replicate 26 0"

lemma logoBytes_valid: "0x14F \<le> length logoBytes \<and> take 0x30 (drop 0x104 logoBytes) = nintendoLogoBitmap
    \<and> even (sum_list (map unat (take 25 (drop 0x134 logoBytes))) + 25)"
proof -
  have logo: "length nintendoLogoBitmap = 0x30" by (simp add: nintendoLogoBitmap_def)
  have "take 25 (drop 0x134 logoBytes) = 1 # replicate 24 0"
    using logo by (simp add: logoBytes_def take_Cons')
  then have "even (sum_list (map unat (take 25 (drop 0x134 logoBytes))) + 25)"
    by (simp add: sum_list_replicate)
  with logo show ?thesis by (simp add: logoBytes_def)
qed

definition logoEnv :: cenv where
  "logoEnv = blankEnv\<lparr>files := (\<lambda>_. Some logoBytes)\<rparr>"

text \<open>
  Power-up checks, exactly. \<open>validateCart\<close> accepts a file if and only if it can be opened,
  has at least 14Fh bytes, carries the logo bytes at 104h, and the bytes 134h to 14Ch plus 25 have
  an even sum; apart from the logo field of the header nothing changes.
\<close>

theorem validateCart_iff:
  assumes "length (nintendoLogo (hdr c)) = 0x30"
  shows "fst (validateCart e name c) = 1 \<longleftrightarrow> (\<exists>bs. files e name = Some bs \<and> 0x14F \<le> length bs
    \<and> take 0x30 (drop 0x104 bs) = nintendoLogoBitmap
    \<and> even (sum_list (map unat (take 25 (drop 0x134 bs))) + 25))"
  by (rule validateCart_char [OF assms])

lemma validateCart_iff_witness: "fst (validateCart logoEnv ''logo.gb'' (cart_static (\<lambda>_. 0))) = 1"
proof -
  have "length (nintendoLogo (hdr (cart_static (\<lambda>_. 0)))) = 0x30"
    by (simp add: cart_static_def header_static_def)
  from validateCart_iff [OF this] show ?thesis using logoBytes_valid by (auto simp: logoEnv_def)
qed

end
