(* ===== verification/Registers.thy ===== *)
theory Registers
  imports Constants
begin

text \<open>
  The register file of \<^verbatim>\<open>include/registers.h\<close>, the flag helpers of \<^verbatim>\<open>src/cpu.c\<close> and
  the pointers the instructions pass around.

  The C unions overlay a 16-bit register on two bytes; every build file defines
  \<open>LITTLE_ENDIAN\<close> on the machines the emulator runs on, so the first letter names the high
  byte. The record keeps the bytes, and the 16-bit views are functions of them. A pointer to a
  register (\<open>&registers.B\<close>, \<open>&registers.HL\<close>) is a value of \<open>reg8\<close> or \<open>reg16\<close>; the code never
  takes \<open>&registers.F\<close>.
\<close>

record registers =
  rA :: u8
  rF :: u8
  rB :: u8
  rC :: u8
  rD :: u8
  rE :: u8
  rH :: u8
  rL :: u8
  rSP :: u16
  rPC :: u16

definition rAF :: "registers \<Rightarrow> u16" where "rAF r = mk16 (rA r) (rF r)"

definition rBC :: "registers \<Rightarrow> u16" where "rBC r = mk16 (rB r) (rC r)"

definition rDE :: "registers \<Rightarrow> u16" where "rDE r = mk16 (rD r) (rE r)"

definition rHL :: "registers \<Rightarrow> u16" where "rHL r = mk16 (rH r) (rL r)"

datatype reg8 = RegA | RegB | RegC | RegD | RegE | RegH | RegL

datatype reg16 = RegAF | RegBC | RegDE | RegHL | RegSP

fun get8 :: "reg8 \<Rightarrow> registers \<Rightarrow> u8" where
  "get8 RegA r = rA r"
| "get8 RegB r = rB r"
| "get8 RegC r = rC r"
| "get8 RegD r = rD r"
| "get8 RegE r = rE r"
| "get8 RegH r = rH r"
| "get8 RegL r = rL r"

fun set8 :: "reg8 \<Rightarrow> u8 \<Rightarrow> registers \<Rightarrow> registers" where
  "set8 RegA v r = r\<lparr>rA := v\<rparr>"
| "set8 RegB v r = r\<lparr>rB := v\<rparr>"
| "set8 RegC v r = r\<lparr>rC := v\<rparr>"
| "set8 RegD v r = r\<lparr>rD := v\<rparr>"
| "set8 RegE v r = r\<lparr>rE := v\<rparr>"
| "set8 RegH v r = r\<lparr>rH := v\<rparr>"
| "set8 RegL v r = r\<lparr>rL := v\<rparr>"

fun get16 :: "reg16 \<Rightarrow> registers \<Rightarrow> u16" where
  "get16 RegAF r = rAF r"
| "get16 RegBC r = rBC r"
| "get16 RegDE r = rDE r"
| "get16 RegHL r = rHL r"
| "get16 RegSP r = rSP r"

fun set16 :: "reg16 \<Rightarrow> u16 \<Rightarrow> registers \<Rightarrow> registers" where
  "set16 RegAF w r = r\<lparr>rA := hi8 w, rF := lo8 w\<rparr>"
| "set16 RegBC w r = r\<lparr>rB := hi8 w, rC := lo8 w\<rparr>"
| "set16 RegDE w r = r\<lparr>rD := hi8 w, rE := lo8 w\<rparr>"
| "set16 RegHL w r = r\<lparr>rH := hi8 w, rL := lo8 w\<rparr>"
| "set16 RegSP w r = r\<lparr>rSP := w\<rparr>"

lemma get16_set16 [simp]: "get16 p (set16 p w r) = w"
  by (cases p) (simp_all add: rAF_def rBC_def rDE_def rHL_def)

lemma set16_get16 [simp]: "set16 p (get16 p r) r = r"
  by (cases p) (simp_all add: rAF_def rBC_def rDE_def rHL_def)

lemma rHL_set16 [simp]: "rHL (set16 RegHL w r) = w"
  by (simp add: rHL_def)

section \<open>The flag register\<close>

definition flagZero :: u8 where [simp]: "flagZero = 0x80"

definition flagNegative :: u8 where [simp]: "flagNegative = 0x40"

definition flagHalfCarry :: u8 where [simp]: "flagHalfCarry = 0x20"

definition flagCarry :: u8 where [simp]: "flagCarry = 0x10"

definition setFlag :: "u8 \<Rightarrow> registers \<Rightarrow> registers" where
  "setFlag flag r = r\<lparr>rF := rF r OR flag\<rparr>"

definition removeFlag :: "u8 \<Rightarrow> registers \<Rightarrow> registers" where
  "removeFlag flag r = r\<lparr>rF := rF r AND NOT flag\<rparr>"

definition checkFlag :: "u8 \<Rightarrow> registers \<Rightarrow> u8" where
  "checkFlag flag r = (if rF r AND flag \<noteq> 0 then 1 else 0)"

text \<open>The pattern \<open>if (c) setFlag(flag); else removeFlag(flag);\<close>.\<close>

definition flagIf :: "bool \<Rightarrow> u8 \<Rightarrow> registers \<Rightarrow> registers" where
  "flagIf c flag r = (if c then setFlag flag r else removeFlag flag r)"

text \<open>What the flag bits mean, bit by bit.\<close>

definition zf :: "registers \<Rightarrow> bool" where "zf r = bit (rF r) 7"

definition nf :: "registers \<Rightarrow> bool" where "nf r = bit (rF r) 6"

definition hf :: "registers \<Rightarrow> bool" where "hf r = bit (rF r) 5"

definition cf :: "registers \<Rightarrow> bool" where "cf r = bit (rF r) 4"

definition flags :: "registers \<Rightarrow> bool \<times> bool \<times> bool \<times> bool" where
  "flags r = (zf r, nf r, hf r, cf r)"

lemma flag_bits_setFlag [flag_simps]:
  "zf (setFlag m r) = (zf r \<or> bit m 7)"
  "nf (setFlag m r) = (nf r \<or> bit m 6)"
  "hf (setFlag m r) = (hf r \<or> bit m 5)"
  "cf (setFlag m r) = (cf r \<or> bit m 4)"
  by (simp_all add: setFlag_def zf_def nf_def hf_def cf_def bit_simps)

lemma flag_bits_removeFlag [flag_simps]:
  "zf (removeFlag m r) = (zf r \<and> \<not> bit m 7)"
  "nf (removeFlag m r) = (nf r \<and> \<not> bit m 6)"
  "hf (removeFlag m r) = (hf r \<and> \<not> bit m 5)"
  "cf (removeFlag m r) = (cf r \<and> \<not> bit m 4)"
  by (simp_all add: removeFlag_def zf_def nf_def hf_def cf_def bit_simps)

lemma flag_bits_flagIf [flag_simps]:
  "zf (flagIf c m r) = (if bit m 7 then c else zf r)"
  "nf (flagIf c m r) = (if bit m 6 then c else nf r)"
  "hf (flagIf c m r) = (if bit m 5 then c else hf r)"
  "cf (flagIf c m r) = (if bit m 4 then c else cf r)"
  by (simp_all add: flagIf_def flag_bits_setFlag flag_bits_removeFlag)

lemma flag_bits_other [flag_simps]:
  "zf (r\<lparr>rA := a\<rparr>) = zf r" "nf (r\<lparr>rA := a\<rparr>) = nf r"
  "hf (r\<lparr>rA := a\<rparr>) = hf r" "cf (r\<lparr>rA := a\<rparr>) = cf r"
  "zf (r\<lparr>rSP := w\<rparr>) = zf r" "nf (r\<lparr>rSP := w\<rparr>) = nf r"
  "hf (r\<lparr>rSP := w\<rparr>) = hf r" "cf (r\<lparr>rSP := w\<rparr>) = cf r"
  "zf (r\<lparr>rPC := w\<rparr>) = zf r" "nf (r\<lparr>rPC := w\<rparr>) = nf r"
  "hf (r\<lparr>rPC := w\<rparr>) = hf r" "cf (r\<lparr>rPC := w\<rparr>) = cf r"
  by (simp_all add: zf_def nf_def hf_def cf_def)

lemma checkFlag_flags [flag_simps]:
  "checkFlag 0x80 r = of_bool (zf r)" "checkFlag 0x40 r = of_bool (nf r)"
  "checkFlag 0x20 r = of_bool (hf r)" "checkFlag 0x10 r = of_bool (cf r)"
  by (simp_all add: checkFlag_def zf_def nf_def hf_def cf_def)

text \<open>Everything but \<open>F\<close> is untouched by the flag helpers.\<close>

lemma regs_setFlag [simp]:
  "rA (setFlag m r) = rA r" "rB (setFlag m r) = rB r" "rC (setFlag m r) = rC r"
  "rD (setFlag m r) = rD r" "rE (setFlag m r) = rE r" "rH (setFlag m r) = rH r"
  "rL (setFlag m r) = rL r" "rSP (setFlag m r) = rSP r" "rPC (setFlag m r) = rPC r"
  by (simp_all add: setFlag_def)

lemma regs_removeFlag [simp]:
  "rA (removeFlag m r) = rA r" "rB (removeFlag m r) = rB r" "rC (removeFlag m r) = rC r"
  "rD (removeFlag m r) = rD r" "rE (removeFlag m r) = rE r" "rH (removeFlag m r) = rH r"
  "rL (removeFlag m r) = rL r" "rSP (removeFlag m r) = rSP r" "rPC (removeFlag m r) = rPC r"
  by (simp_all add: removeFlag_def)

lemma regs_flagIf [simp]:
  "rA (flagIf c m r) = rA r" "rB (flagIf c m r) = rB r" "rC (flagIf c m r) = rC r"
  "rD (flagIf c m r) = rD r" "rE (flagIf c m r) = rE r" "rH (flagIf c m r) = rH r"
  "rL (flagIf c m r) = rL r" "rSP (flagIf c m r) = rSP r" "rPC (flagIf c m r) = rPC r"
  by (simp_all add: flagIf_def)

section \<open>Pointers to registers\<close>

text \<open>
  What the instructions that work through an \<open>unsigned char *\<close> rely on: the pointed-to byte
  can be read back, is not the flag register, and writing it moves neither \<open>SP\<close> nor \<open>PC\<close>.
\<close>

locale reg_cell =
  fixes get :: "registers \<Rightarrow> u8"
    and put :: "u8 \<Rightarrow> registers \<Rightarrow> registers"
  assumes get_put [simp]: "get (put v r) = v"
    and put_put [simp]: "put v (put w r) = put v r"
    and put_get [simp]: "put (get r) r = r"
    and put_rF [simp]: "rF (put v r) = rF r"
    and get_rF [simp]: "get (r\<lparr>rF := f\<rparr>) = get r"
    and put_rSP [simp]: "rSP (put v r) = rSP r"
    and put_rPC [simp]: "rPC (put v r) = rPC r"
begin

lemma cell_flagIf [simp]: "get (flagIf c m r) = get r"
  by (simp add: flagIf_def setFlag_def removeFlag_def)

lemma cell_setFlag [simp]: "get (setFlag m r) = get r"
  by (simp add: setFlag_def)

lemma cell_removeFlag [simp]: "get (removeFlag m r) = get r"
  by (simp add: removeFlag_def)

lemma cell_put_flags [simp]:
  "zf (put v r) = zf r" "nf (put v r) = nf r" "hf (put v r) = hf r" "cf (put v r) = cf r"
  by (simp_all add: zf_def nf_def hf_def cf_def)

lemma cell_checkFlag [simp]: "checkFlag m (put v r) = checkFlag m r"
  by (simp add: checkFlag_def)

end

interpretation r8: reg_cell "get8 p" "set8 p" for p
  by unfold_locales (cases p; simp)+

end
