(* ===== verification/Memory.thy ===== *)
theory Memory
  imports Registers Gpu Mbc
begin

text \<open>
  The state of the whole machine and the memory bus, \<^verbatim>\<open>src/memory.c\<close>. The record \<open>gb\<close> collects
  the globals of the program: the register file, the interrupt registers, the GPU, the cartridge,
  the memories of the bus, and the globals of \<^verbatim>\<open>src/cpu.c\<close>. A read changes nothing, so
  \<open>mmuReadByte\<close> returns a byte only; \<open>mmuWriteByte\<close> returns the success flag and the new state.
\<close>

record gb =
  regs :: registers
  intr :: interruptRegisters
  gpu :: GPU
  crt :: cart
  wRAM :: "nat \<Rightarrow> u8"
  OAM :: "nat \<Rightarrow> u8"
  ioPorts :: "nat \<Rightarrow> u8"
  hRAM :: "nat \<Rightarrow> u8"
  tickCounter :: u64
  stopped :: u8
  lastOpcodeName :: string
  lastOperand :: u16

text \<open>The globals before \<open>main\<close> runs.\<close>

definition registers_static :: registers where
  "registers_static = \<lparr>rA = 0, rF = 0, rB = 0, rC = 0, rD = 0, rE = 0, rH = 0, rL = 0,
     rSP = 0, rPC = 0\<rparr>"

definition gb_static :: "(nat \<Rightarrow> int) \<Rightarrow> gb" where
  "gb_static clk = \<lparr>regs = registers_static,
     intr = \<lparr>request = 0, enable = 0, masterEnable = 0\<rparr>, gpu = GPU_static, crt = cart_static clk,
     wRAM = (\<lambda>_. 0), OAM = (\<lambda>_. 0), ioPorts = (\<lambda>_. 0), hRAM = (\<lambda>_. 0),
     tickCounter = 0, stopped = 0, lastOpcodeName = '''', lastOperand = 0\<rparr>"

definition initializeMemory :: "gb \<Rightarrow> gb" where
  "initializeMemory g = g\<lparr>wRAM := (\<lambda>_. 0), OAM := (\<lambda>_. 0), ioPorts := (\<lambda>_. 0), hRAM := (\<lambda>_. 0)\<rparr>"

definition mmuReadByte :: "u16 \<Rightarrow> gb \<Rightarrow> u8 res" where
  "mmuReadByte address g =
    (if address < 0x8000 then mbc_readByte address (crt g)
     else if address < 0xA000 then Inr (gpuReadByte address (gpu g))
     else if address < 0xC000 then mbc_readByte address (crt g)
     else if address < 0xE000 then arr_get 0x2000 (wRAM g) (unat address - 0xC000)
     else if address < 0xFE00 then arr_get 0x2000 (wRAM g) (unat address - 0xE000)
     else if address < 0xFEA0 then arr_get 0xA0 (OAM g) (unat address - 0xFE00)
     else if address < 0xFF00 then Inr 0
     else if address < 0xFF80 then
       (if address = 0xFF0F then Inr (request (intr g))
        else if address \<ge> 0xFF40 \<and> address \<le> 0xFF4B then Inr (gpuReadRegister address (gpu g))
        else Inr 0)
     else if address < 0xFFFF then arr_get 0x7F (hRAM g) (unat address - 0xFF80)
     else if address = 0xFFFF then Inr (enable (intr g))
     else Inr 0)"

definition mmuReadShort :: "u16 \<Rightarrow> gb \<Rightarrow> u16 res" where
  "mmuReadShort address g =
    bind_res (mmuReadByte address g) (\<lambda>b.
      let returnValue = (ucast b :: u16) in
      bind_res (mmuReadByte (address + 1) g) (\<lambda>b.
        Inr (returnValue OR push_bit 8 (ucast b))))"

definition mmuWriteByte :: "u16 \<Rightarrow> u8 \<Rightarrow> gb \<Rightarrow> (int \<times> gb) res" where
  "mmuWriteByte address value g =
    (let toCart = (\<lambda>g. bind_res (mbc_writeByte address value (crt g)) (\<lambda>(r, c). Inr (r, g\<lparr>crt := c\<rparr>)))
     in
     if address < 0x8000 then toCart g
     else if address < 0xA000 then
       bind_res (gpuWriteByte address value (gpu g)) (\<lambda>(r, p). Inr (r, g\<lparr>gpu := p\<rparr>))
     else if address < 0xC000 then toCart g
     else if address < 0xE000 then
       bind_res (arr_set 0x2000 (wRAM g) (unat address - 0xC000) value) (\<lambda>m. Inr (1, g\<lparr>wRAM := m\<rparr>))
     else if address < 0xFE00 then
       bind_res (arr_set 0x2000 (wRAM g) (unat address - 0xE000) value) (\<lambda>m. Inr (1, g\<lparr>wRAM := m\<rparr>))
     else if address < 0xFEA0 then
       bind_res (arr_set 0xA0 (OAM g) (unat address - 0xFE00) value) (\<lambda>m. Inr (1, g\<lparr>OAM := m\<rparr>))
     else if address < 0xFF00 then Inr (0, g)
     else if address < 0xFF80 then
       (if address = 0xFF0F then Inr (1, g\<lparr>intr := writeInterrupt address value (intr g)\<rparr>)
        else if address \<ge> 0xFF40 \<and> address \<le> 0xFF4B then
          Inr (1, g\<lparr>gpu := gpuWriteRegister address value (gpu g)\<rparr>)
        else
          bind_res (arr_set 0x80 (ioPorts g) (unat address - 0xFF00) value)
            (\<lambda>m. Inr (1, g\<lparr>ioPorts := m\<rparr>)))
     else if address < 0xFFFF then
       bind_res (arr_set 0x7F (hRAM g) (unat address - 0xFF80) value) (\<lambda>m. Inr (1, g\<lparr>hRAM := m\<rparr>))
     else if address = 0xFFFF then Inr (1, g\<lparr>intr := writeInterrupt address value (intr g)\<rparr>)
     else Inr (0, g))"

definition mmuWriteShort :: "u16 \<Rightarrow> u16 \<Rightarrow> gb \<Rightarrow> (int \<times> gb) res" where
  "mmuWriteShort address value g =
    (let valueLower = (ucast (value AND 0xFF) :: u8);
         valueUpper = (ucast (drop_bit 8 (value AND 0xFF00)) :: u8)
     in bind_res (mmuWriteByte address valueLower g) (\<lambda>(success, g).
        bind_res (mmuWriteByte (address + 1) valueUpper g) (\<lambda>(success, g). Inr (success, g))))"

text \<open>The callers in \<^verbatim>\<open>src/cpu.c\<close> ignore the success flag.\<close>

definition mmuStore :: "u16 \<Rightarrow> u8 \<Rightarrow> gb \<Rightarrow> gb res" where
  "mmuStore address value g = bind_res (mmuWriteByte address value g) (\<lambda>(_, g). Inr g)"

end
