(* ===== verification/Memory_Correct.thy ===== *)
theory Memory_Correct
  imports Memory Mbc_Correct Gpu_Properties
begin

text \<open>
  The memory bus. The locale \<open>byte_bus\<close> is the interface the stack and memory instructions use; it
  is interpreted on the bus with the work RAM (and its echo), the object attribute memory and the
  high RAM as its cells. \<open>bus_frame\<close> is what any write keeps.
\<close>

section \<open>The interface of a byte bus\<close>

text \<open>
  What the instructions rely on when they keep data in memory: some addresses are cells, \<open>phys\<close>
  says which cell an address names, a store to a cell succeeds, is seen at every address that names
  the cell, and is not seen anywhere else.
\<close>

locale byte_bus =
  fixes rd :: "u16 \<Rightarrow> 's \<Rightarrow> u8 res"
    and st :: "u16 \<Rightarrow> u8 \<Rightarrow> 's \<Rightarrow> 's res"
    and cell :: "u16 \<Rightarrow> bool"
    and phys :: "u16 \<Rightarrow> u16"
  assumes st_ok: "cell a \<Longrightarrow> \<exists>s'. st a v s = Inr s'"
    and rd_st: "cell a \<Longrightarrow> cell b \<Longrightarrow> phys a = phys b \<Longrightarrow> st a v s = Inr s' \<Longrightarrow> rd b s' = Inr v"
    and rd_st_other: "cell a \<Longrightarrow> \<not> (cell b \<and> phys a = phys b) \<Longrightarrow> st a v s = Inr s' \<Longrightarrow> rd b s' = rd b s"
begin

definition st2 :: "u16 \<Rightarrow> u8 \<Rightarrow> u16 \<Rightarrow> u8 \<Rightarrow> 's \<Rightarrow> 's res" where
  "st2 a v b w s = bind_res (st a v s) (st b w)"

lemma st2_ok: "cell a \<Longrightarrow> cell b \<Longrightarrow> \<exists>s'. st2 a v b w s = Inr s'"
  using st_ok unfolding st2_def by (metis bind_res_Inr)

lemma rd_st2:
  assumes "cell a" and "cell b" and "phys a \<noteq> phys b" and "st2 a v b w s = Inr s'"
  shows "rd a s' = Inr v" and "rd b s' = Inr w"
proof -
  from assms(4) obtain t where t: "st a v s = Inr t" "st b w t = Inr s'"
    by (auto simp: st2_def bind_res_eq_Inr)
  show "rd b s' = Inr w" using rd_st [OF assms(2,2) refl t(2)] .
  have "rd a s' = rd a t" using rd_st_other [OF assms(2) _ t(2)] assms(3) by metis
  also have "\<dots> = Inr v" using rd_st [OF assms(1,1) refl t(1)] .
  finally show "rd a s' = Inr v" .
qed

lemma rd_st2_other:
  assumes "cell a" and "cell b" and "st2 a v b w s = Inr s'"
    and "\<not> (cell x \<and> phys a = phys x)" and "\<not> (cell x \<and> phys b = phys x)"
  shows "rd x s' = rd x s"
proof -
  from assms(3) obtain t where t: "st a v s = Inr t" "st b w t = Inr s'"
    by (auto simp: st2_def bind_res_eq_Inr)
  show ?thesis
    using rd_st_other [OF assms(1,4) t(1)] rd_st_other [OF assms(2,5) t(2)] by simp
qed

end

section \<open>The RAM of the machine\<close>

text \<open>Work RAM with its echo, the object attribute memory and the high RAM.\<close>

definition ramCell :: "u16 \<Rightarrow> bool" where
  "ramCell a \<longleftrightarrow> 0xC000 \<le> unat a \<and> unat a < 0xFEA0 \<or> 0xFF80 \<le> unat a \<and> unat a < 0xFFFF"

definition ramPhys :: "u16 \<Rightarrow> u16" where
  "ramPhys a = (if 0xE000 \<le> unat a \<and> unat a < 0xFE00 then a - 0x2000 else a)"

lemma ramPhys_eq:
  "ramPhys a = ramPhys b \<longleftrightarrow>
    (if 0xE000 \<le> unat a \<and> unat a < 0xFE00 then unat a - 0x2000 else unat a)
    = (if 0xE000 \<le> unat b \<and> unat b < 0xFE00 then unat b - 0x2000 else unat b)"
  by (auto simp: ramPhys_def word_unat_eq_iff unat_sub_if')

lemmas u16_cmp = word_less_nat_alt word_le_nat_alt

text \<open>The region of an address.\<close>

lemma ramCell_cases:
  assumes "ramCell a"
  obtains (wram) "0xC000 \<le> unat a" "unat a < 0xE000"
    | (echo) "0xE000 \<le> unat a" "unat a < 0xFE00"
    | (oam) "0xFE00 \<le> unat a" "unat a < 0xFEA0"
    | (hram) "0xFF80 \<le> unat a" "unat a < 0xFFFF"
  using assms unfolding ramCell_def by linarith

lemma mmu_wram: "0xC000 \<le> unat a \<Longrightarrow> unat a < 0xE000 \<Longrightarrow>
    mmuReadByte a g = Inr (wRAM g (unat a - 0xC000))
    \<and> mmuWriteByte a v g = Inr (1, g\<lparr>wRAM := (wRAM g)(unat a - 0xC000 := v)\<rparr>)"
  by (simp add: mmuReadByte_def mmuWriteByte_def Let_def u16_cmp)

lemma mmu_echo: "0xE000 \<le> unat a \<Longrightarrow> unat a < 0xFE00 \<Longrightarrow>
    mmuReadByte a g = Inr (wRAM g (unat a - 0xE000))
    \<and> mmuWriteByte a v g = Inr (1, g\<lparr>wRAM := (wRAM g)(unat a - 0xE000 := v)\<rparr>)"
  by (simp add: mmuReadByte_def mmuWriteByte_def Let_def u16_cmp)

lemma mmu_oam: "0xFE00 \<le> unat a \<Longrightarrow> unat a < 0xFEA0 \<Longrightarrow>
    mmuReadByte a g = Inr (OAM g (unat a - 0xFE00))
    \<and> mmuWriteByte a v g = Inr (1, g\<lparr>OAM := (OAM g)(unat a - 0xFE00 := v)\<rparr>)"
  by (simp add: mmuReadByte_def mmuWriteByte_def Let_def u16_cmp)

lemma mmu_hram: "0xFF80 \<le> unat a \<Longrightarrow> unat a < 0xFFFF \<Longrightarrow>
    mmuReadByte a g = Inr (hRAM g (unat a - 0xFF80))
    \<and> mmuWriteByte a v g = Inr (1, g\<lparr>hRAM := (hRAM g)(unat a - 0xFF80 := v)\<rparr>)"
  by (simp add: mmuReadByte_def mmuWriteByte_def Let_def u16_cmp)

lemmas mmu_cells = mmu_wram mmu_echo mmu_oam mmu_hram

text \<open>What a read outside the cells depends on.\<close>

lemma mmuReadByte_other:
  assumes "\<not> ramCell a" and "crt g = crt h" and "gpu g = gpu h" and "intr g = intr h"
  shows "mmuReadByte a g = mmuReadByte a h"
proof -
  consider "unat a < 0xC000" | "0xFEA0 \<le> unat a" "unat a < 0xFF80" | "unat a = 0xFFFF"
    using assms(1) u16_bound [of a] unfolding ramCell_def by linarith
  then show ?thesis
    by cases (simp_all add: mmuReadByte_def u16_cmp assms(2-4))
qed

text \<open>A read of a cell, as a function of the three memories.\<close>

definition cellVal :: "u16 \<Rightarrow> gb \<Rightarrow> u8" where
  "cellVal a g = (let n = unat (ramPhys a) in
     if n < 0xE000 then wRAM g (n - 0xC000) else if n < 0xFEA0 then OAM g (n - 0xFE00)
     else hRAM g (n - 0xFF80))"

definition cellSet :: "u16 \<Rightarrow> u8 \<Rightarrow> gb \<Rightarrow> gb" where
  "cellSet a v g = (let n = unat (ramPhys a) in
     if n < 0xE000 then g\<lparr>wRAM := (wRAM g)(n - 0xC000 := v)\<rparr>
     else if n < 0xFEA0 then g\<lparr>OAM := (OAM g)(n - 0xFE00 := v)\<rparr>
     else g\<lparr>hRAM := (hRAM g)(n - 0xFF80 := v)\<rparr>)"

lemma ramPhys_unat: "unat (ramPhys a) =
   (if 0xE000 \<le> unat a \<and> unat a < 0xFE00 then unat a - 0x2000 else unat a)"
  by (simp add: ramPhys_def unat_sub_if')

lemma mmu_cell:
  assumes "ramCell a"
  shows "mmuReadByte a g = Inr (cellVal a g)" and "mmuWriteByte a v g = Inr (1, cellSet a v g)"
    and "mmuStore a v g = Inr (cellSet a v g)"
proof -
  have "mmuReadByte a g = Inr (cellVal a g) \<and> mmuWriteByte a v g = Inr (1, cellSet a v g)"
    using assms
  proof (cases rule: ramCell_cases)
    case wram
    then have "unat (ramPhys a) = unat a" by (simp add: ramPhys_unat)
    with wram mmu_wram [OF wram] show ?thesis by (simp add: cellVal_def cellSet_def Let_def)
  next
    case echo
    then have "unat (ramPhys a) = unat a - 0x2000" "unat a - 0x2000 < 0xE000"
      "unat a - 0x2000 - 0xC000 = unat a - 0xE000" by (simp_all add: ramPhys_unat)
    with echo mmu_echo [OF echo] show ?thesis by (simp add: cellVal_def cellSet_def Let_def)
  next
    case oam
    then have "unat (ramPhys a) = unat a" by (simp add: ramPhys_unat)
    with oam mmu_oam [OF oam] show ?thesis by (simp add: cellVal_def cellSet_def Let_def)
  next
    case hram
    then have "unat (ramPhys a) = unat a" by (simp add: ramPhys_unat)
    with hram mmu_hram [OF hram] show ?thesis by (simp add: cellVal_def cellSet_def Let_def)
  qed
  then show *: "mmuReadByte a g = Inr (cellVal a g)" "mmuWriteByte a v g = Inr (1, cellSet a v g)"
    by simp_all
  show "mmuStore a v g = Inr (cellSet a v g)" by (simp add: mmuStore_def *)
qed

lemma ramPhys_range: "ramCell a \<Longrightarrow> 0xC000 \<le> unat (ramPhys a) \<and> unat (ramPhys a) < 0xE000
   \<or> 0xFE00 \<le> unat (ramPhys a) \<and> unat (ramPhys a) < 0xFEA0
   \<or> 0xFF80 \<le> unat (ramPhys a)"
  by (auto simp: ramCell_def ramPhys_unat)

lemma cellVal_cellSet:
  assumes "ramCell a" and "ramCell b"
  shows "cellVal b (cellSet a v g) = (if ramPhys a = ramPhys b then v else cellVal b g)"
proof (cases "ramPhys a = ramPhys b")
  case True
  then show ?thesis by (simp add: cellVal_def cellSet_def Let_def)
next
  case False
  then have "unat (ramPhys a) \<noteq> unat (ramPhys b)" by (simp add: word_unat_eq_iff)
  with False ramPhys_range [OF assms(1)] ramPhys_range [OF assms(2)] show ?thesis
    by (auto simp: cellVal_def cellSet_def Let_def)
qed

lemma cellSet_frame [simp]:
  "regs (cellSet a v g) = regs g" "intr (cellSet a v g) = intr g" "gpu (cellSet a v g) = gpu g"
  "crt (cellSet a v g) = crt g" "tickCounter (cellSet a v g) = tickCounter g"
  "stopped (cellSet a v g) = stopped g" "ioPorts (cellSet a v g) = ioPorts g"
  by (simp_all add: cellSet_def Let_def)

interpretation mmu: byte_bus mmuReadByte mmuStore ramCell ramPhys
proof
  fix a b v g g'
  show "ramCell a \<Longrightarrow> \<exists>g'. mmuStore a v g = Inr g'" by (simp add: mmu_cell)
  show "ramCell a \<Longrightarrow> ramCell b \<Longrightarrow> ramPhys a = ramPhys b \<Longrightarrow> mmuStore a v g = Inr g'
      \<Longrightarrow> mmuReadByte b g' = Inr v"
    by (auto simp: mmu_cell cellVal_cellSet)
  show "ramCell a \<Longrightarrow> \<not> (ramCell b \<and> ramPhys a = ramPhys b) \<Longrightarrow> mmuStore a v g = Inr g'
      \<Longrightarrow> mmuReadByte b g' = mmuReadByte b g"
    by (cases "ramCell b") (auto simp: mmu_cell cellVal_cellSet intro!: mmuReadByte_other)
qed

section \<open>What every write keeps\<close>

definition bus_frame :: "gb \<Rightarrow> gb \<Rightarrow> bool" where
  "bus_frame g g' \<longleftrightarrow> regs g' = regs g \<and> tickCounter g' = tickCounter g \<and> stopped g' = stopped g
     \<and> masterEnable (intr g') = masterEnable (intr g) \<and> cart_frame (crt g) (crt g')
     \<and> (gpu_inv (gpu g) \<longrightarrow> gpu_inv (gpu g')) \<and> (dumpable (gpu g) \<longrightarrow> dumpable (gpu g')) \<and> (irq_ok (intr g) \<longrightarrow> irq_ok (intr g'))"

lemma bus_frame_refl [simp]: "bus_frame g g"
  by (simp add: bus_frame_def)

lemma bus_frame_trans: "bus_frame a b \<Longrightarrow> bus_frame b c \<Longrightarrow> bus_frame a c"
  by (auto simp: bus_frame_def intro: cart_frame_trans)

lemma VRAM_upd [simp]:
  "gpu_inv (p\<lparr>VRAM := v\<rparr>) = gpu_inv p" "dumpable (p\<lparr>VRAM := v\<rparr>) = dumpable p"
  by (simp_all add: gpu_inv_def dumpable_def)

text \<open>The regions that are not cells.\<close>

lemma non_cell_cases:
  assumes "\<not> ramCell a"
  obtains (cart) "unat a < 0x8000 \<or> 0xA000 \<le> unat a \<and> unat a < 0xC000"
    | (vram) "0x8000 \<le> unat a" "unat a < 0xA000"
    | (unusable) "0xFEA0 \<le> unat a" "unat a < 0xFF00"
    | (io) "0xFF00 \<le> unat a" "unat a < 0xFF80"
    | (ie) "unat a = 0xFFFF"
  using assms u16_bound [of a] unfolding ramCell_def by linarith

lemma mmuWriteByte_cart:
  "unat a < 0x8000 \<or> 0xA000 \<le> unat a \<and> unat a < 0xC000 \<Longrightarrow> mmuWriteByte a v g =
     bind_res (mbc_writeByte a v (crt g)) (\<lambda>(r, c). Inr (r, g\<lparr>crt := c\<rparr>))"
  "unat a < 0x8000 \<or> 0xA000 \<le> unat a \<and> unat a < 0xC000 \<Longrightarrow>
     mmuReadByte a g = mbc_readByte a (crt g)"
  by (auto simp: mmuWriteByte_def mmuReadByte_def u16_cmp Let_def)

lemma mmuWriteByte_vram:
  assumes "0x8000 \<le> unat a" and "unat a < 0xA000"
  shows "mmuWriteByte a v g = (if tileFileOpens (gpu g) 0
      then Inr (1, g\<lparr>gpu := dumped ((gpu g)\<lparr>VRAM := (VRAM (gpu g))(unat a - 0x8000 := v)\<rparr>)\<rparr>) else Inl NullPointer)"
    and "mmuReadByte a g = Inr 0"
  using assms by (simp_all add: mmuWriteByte_def mmuReadByte_def u16_cmp Let_def gpuWriteByte_eq gpuReadByte_def)

lemma mmuWriteByte_unusable:
  assumes "0xFEA0 \<le> unat a" and "unat a < 0xFF00"
  shows "mmuWriteByte a v g = Inr (0, g)" and "mmuReadByte a g = Inr 0"
  using assms by (simp_all add: mmuWriteByte_def mmuReadByte_def u16_cmp Let_def)

lemma mmuWriteByte_io:
  assumes "0xFF00 \<le> unat a" and "unat a < 0xFF80"
  shows "mmuWriteByte a v g = Inr (1, if a = 0xFF0F then g\<lparr>intr := writeInterrupt a v (intr g)\<rparr>
      else if 0xFF40 \<le> a \<and> a \<le> 0xFF4B then g\<lparr>gpu := gpuWriteRegister a v (gpu g)\<rparr>
      else g\<lparr>ioPorts := (ioPorts g)(unat a - 0xFF00 := v)\<rparr>)"
    and "mmuReadByte a g = Inr (if a = 0xFF0F then request (intr g)
      else if 0xFF40 \<le> a \<and> a \<le> 0xFF4B then gpuReadRegister a (gpu g) else 0)"
proof -
  have "\<not> a < 0xFF00" "a < 0xFF80" using assms by (simp_all add: u16_cmp)
  moreover from this have "\<not> a < 0x8000" "\<not> a < 0xA000" "\<not> a < 0xC000" "\<not> a < 0xE000" "\<not> a < 0xFE00"
    "\<not> a < 0xFEA0" by (auto simp: u16_cmp)
  moreover have "unat a - 0xFF00 < 0x80" using assms by simp
  ultimately show "mmuWriteByte a v g = Inr (1, if a = 0xFF0F then g\<lparr>intr := writeInterrupt a v (intr g)\<rparr>
      else if 0xFF40 \<le> a \<and> a \<le> 0xFF4B then g\<lparr>gpu := gpuWriteRegister a v (gpu g)\<rparr>
      else g\<lparr>ioPorts := (ioPorts g)(unat a - 0xFF00 := v)\<rparr>)"
    and "mmuReadByte a g = Inr (if a = 0xFF0F then request (intr g)
      else if 0xFF40 \<le> a \<and> a \<le> 0xFF4B then gpuReadRegister a (gpu g) else 0)"
    by (simp_all add: mmuWriteByte_def mmuReadByte_def Let_def)
qed

lemma mmuWriteByte_ie:
  assumes "unat a = 0xFFFF"
  shows "mmuWriteByte a v g = Inr (1, g\<lparr>intr := writeInterrupt a v (intr g)\<rparr>)"
    and "mmuReadByte a g = Inr (enable (intr g))"
proof -
  have "a = 0xFFFF" using assms by (simp add: word_unat_eq_iff)
  then show "mmuWriteByte a v g = Inr (1, g\<lparr>intr := writeInterrupt a v (intr g)\<rparr>)"
    and "mmuReadByte a g = Inr (enable (intr g))"
    by (simp_all add: mmuWriteByte_def mmuReadByte_def Let_def)
qed

lemma mmuWriteByte_frame: "mmuWriteByte a v g = Inr (r, g') \<Longrightarrow> bus_frame g g'"
proof (cases "ramCell a")
  case True
  then show "mmuWriteByte a v g = Inr (r, g') \<Longrightarrow> bus_frame g g'"
    by (auto simp: mmu_cell bus_frame_def)
next
  case False
  then show "mmuWriteByte a v g = Inr (r, g') \<Longrightarrow> bus_frame g g'"
    by (cases rule: non_cell_cases)
      (auto simp: mmuWriteByte_cart mmuWriteByte_vram mmuWriteByte_unusable mmuWriteByte_io
        mmuWriteByte_ie bus_frame_def bind_res_eq_Inr mbc_writeByte_frame gpuWriteRegister_inv irq_ok_write
        split: if_splits)
qed

lemma mmuStore_frame: "mmuStore a v g = Inr g' \<Longrightarrow> bus_frame g g'"
  by (auto simp: mmuStore_def bind_res_eq_Inr intro: mmuWriteByte_frame)

lemma mmu_no_fault:
  assumes "0x8000 \<le> unat a \<and> unat a < 0xA000 \<or> 0xC000 \<le> unat a"
  shows "\<exists>v. mmuReadByte a g = Inr v"
    and "(\<exists>r g'. mmuWriteByte a v g = Inr (r, g')) \<longleftrightarrow> (unat a < 0xA000 \<longrightarrow> tileFileOpens (gpu g) 0)"
proof -
  have "(\<exists>v. mmuReadByte a g = Inr v)
    \<and> ((\<exists>r g'. mmuWriteByte a v g = Inr (r, g')) \<longleftrightarrow> (unat a < 0xA000 \<longrightarrow> tileFileOpens (gpu g) 0))"
  proof (cases "ramCell a")
    case True
    then have "\<not> unat a < 0xA000" by (auto simp: ramCell_def)
    with True show ?thesis by (simp add: mmu_cell)
  next
    case False
    then show ?thesis
    proof (cases rule: non_cell_cases)
      case cart
      with assms have False by linarith
      then show ?thesis ..
    qed (simp_all add: mmuWriteByte_vram mmuWriteByte_unusable mmuWriteByte_io mmuWriteByte_ie)
  qed
  then show "\<exists>v. mmuReadByte a g = Inr v"
    and "(\<exists>r g'. mmuWriteByte a v g = Inr (r, g')) \<longleftrightarrow> (unat a < 0xA000 \<longrightarrow> tileFileOpens (gpu g) 0)"
    by blast+
qed

section \<open>16-bit accesses\<close>

lemma mmuReadShort_eq:
  "mmuReadShort a g = bind_res (mmuReadByte a g) (\<lambda>l. bind_res (mmuReadByte (a + 1) g)
     (\<lambda>h. Inr (mk16 h l)))"
  by (simp add: mmuReadShort_def mk16_def Let_def or.commute)

lemma mmuWriteShort_eq:
  "mmuWriteShort a w g = bind_res (mmuWriteByte a (lo8 w) g) (\<lambda>(_, g). mmuWriteByte (a + 1) (hi8 w) g)"
proof -
  have l: "(ucast (w AND 0xFF) :: u8) = lo8 w"
    by (rule bit_word_eqI) (auto simp: lo8_def bit_simps)
  have h: "(ucast (drop_bit 8 (w AND 0xFF00)) :: u8) = hi8 w"
    by (rule bit_word_eqI) (auto simp: hi8_def bit_simps)
  show ?thesis
    unfolding mmuWriteShort_def l h Let_def by (simp add: case_prod_beta')
qed

end
