(* ===== verification/Memory_Properties.thy ===== *)
theory Memory_Properties
  imports Memory_Correct
begin

text \<open>
  The properties of the memory bus: reads after writes over the whole RAM, 16-bit accesses, which
  accesses can fault, and what is lost on the way to the unimplemented ports and to VRAM.
\<close>

text \<open>
  \<^bold>\<open>C16.\<close> The RAM is a RAM. A write to work RAM, its echo, the object attribute memory or the high
  RAM succeeds; afterwards every address of the machine that names the same cell (the address
  itself, or its mirror 2000h away between E000h and FDFFh) reads the byte written, every other
  address reads what it read before, and no other component has changed.
\<close>

theorem mmu_ram_roundtrip:
  assumes "ramCell a"
  shows "\<exists>g'. mmuWriteByte a v g = Inr (1, g')
    \<and> (\<forall>b. mmuReadByte b g' = (if ramCell b \<and> ramPhys a = ramPhys b then Inr v else mmuReadByte b g))
    \<and> regs g' = regs g \<and> intr g' = intr g \<and> gpu g' = gpu g \<and> crt g' = crt g \<and> ioPorts g' = ioPorts g"
proof -
  have st: "mmuStore a v g = Inr (cellSet a v g)" by (rule mmu_cell(3) [OF assms])
  have "mmuReadByte b (cellSet a v g) =
      (if ramCell b \<and> ramPhys a = ramPhys b then Inr v else mmuReadByte b g)" for b
    using mmu.rd_st [OF assms _ _ st] mmu.rd_st_other [OF assms _ st] by auto
  then show ?thesis using mmu_cell(2) [OF assms] by simp
qed

lemma mmu_ram_roundtrip_witness:
  "\<exists>g'. mmuWriteByte 0xC123 7 (gb_static (\<lambda>_. 0)) = Inr (1, g') \<and> mmuReadByte 0xE123 g' = Inr 7"
proof -
  have "ramCell 0xC123" by (simp add: ramCell_def)
  from mmu_ram_roundtrip [OF this, of 7 "gb_static (\<lambda>_. 0)"] show ?thesis
    by (auto simp: ramCell_def ramPhys_eq)
qed

text \<open>
  16-bit round trip: a value written to two neighbouring RAM cells is read back, the low
  byte at the address itself, and no other address sees the write.
\<close>

theorem mmu_short_roundtrip:
  assumes "ramCell a" and "ramCell (a + 1)" and "ramPhys a \<noteq> ramPhys (a + 1)"
  shows "\<exists>g'. mmuWriteShort a w g = Inr (1, g') \<and> mmuReadShort a g' = Inr w
    \<and> mmuReadByte a g' = Inr (lo8 w) \<and> mmuReadByte (a + 1) g' = Inr (hi8 w)
    \<and> (\<forall>b. \<not> ramCell b \<longrightarrow> mmuReadByte b g' = mmuReadByte b g)"
proof -
  define g' where "g' = cellSet (a + 1) (hi8 w) (cellSet a (lo8 w) g)"
  have st: "mmu.st2 a (lo8 w) (a + 1) (hi8 w) g = Inr g'"
    by (simp add: mmu.st2_def mmu_cell(3) [OF assms(1)] mmu_cell(3) [OF assms(2)] g'_def)
  note rd = mmu.rd_st2 [OF assms st]
  have "mmuReadByte b g' = mmuReadByte b g" if "\<not> ramCell b" for b
    using mmu.rd_st2_other [OF assms(1,2) st] that by simp
  moreover have "mmuWriteShort a w g = Inr (1, g')"
    by (simp add: mmuWriteShort_eq mmu_cell(2) [OF assms(1)] mmu_cell(2) [OF assms(2)] g'_def)
  moreover have "mmuReadShort a g' = Inr w"
    by (simp add: mmuReadShort_eq rd)
  ultimately show ?thesis using rd by blast
qed

lemma mmu_short_roundtrip_witness:
  "\<exists>g'. mmuWriteShort 0xFF80 0xBEEF (gb_static (\<lambda>_. 0)) = Inr (1, g') \<and> mmuReadShort 0xFF80 g' = Inr 0xBEEF"
proof -
  have "ramCell 0xFF80" "ramCell (0xFF80 + 1)" "ramPhys 0xFF80 \<noteq> ramPhys (0xFF80 + 1)"
    by (simp_all add: ramCell_def ramPhys_eq)
  from mmu_short_roundtrip [OF this, of "0xBEEF" "gb_static (\<lambda>_. 0)"] show ?thesis by auto
qed

text \<open>
  Only the cartridge and the dump of VRAM can fault, and nothing escapes the machine. Every read of an
  address outside the cartridge (8000h..9FFFh and C000h..FFFFh) succeeds, and so does every write, except that
  one to VRAM needs the file of the dump; any write that succeeds
  keeps the CPU registers, the tick counter, the ROM and header of the cartridge, the master enable
  flag and the invariant of the display.
\<close>

theorem mmu_safe:
  "(0x8000 \<le> unat a \<and> unat a < 0xA000 \<or> 0xC000 \<le> unat a \<longrightarrow>
      (\<exists>x. mmuReadByte a g = Inr x)
      \<and> ((\<exists>r g'. mmuWriteByte a v g = Inr (r, g')) \<longleftrightarrow> (unat a < 0xA000 \<longrightarrow> tileFileOpens (gpu g) 0)))
   \<and> (\<forall>r g'. mmuWriteByte a v g = Inr (r, g') \<longrightarrow> regs g' = regs g \<and> tickCounter g' = tickCounter g
        \<and> rom (crt g') = rom (crt g) \<and> hdr (crt g') = hdr (crt g)
        \<and> masterEnable (intr g') = masterEnable (intr g) \<and> (gpu_inv (gpu g) \<longrightarrow> gpu_inv (gpu g')))"
proof (intro conjI impI allI)
  fix r g'
  assume "mmuWriteByte a v g = Inr (r, g')"
  then have f: "bus_frame g g'" by (rule mmuWriteByte_frame)
  then show "regs g' = regs g" "tickCounter g' = tickCounter g"
    "masterEnable (intr g') = masterEnable (intr g)"
    "rom (crt g') = rom (crt g)" "hdr (crt g') = hdr (crt g)"
    by (simp_all add: bus_frame_def cart_frame_def)
  show "gpu_inv (gpu g) \<Longrightarrow> gpu_inv (gpu g')" using f by (simp add: bus_frame_def)
qed (use mmu_no_fault in blast)+

lemma mmu_safe_witness:
  "\<exists>r g'. mmuWriteByte 0xFF40 0x91 (gb_static (\<lambda>_. 0)) = Inr (r, g') \<and> gpu_inv (gpu g')"
proof -
  have inv: "gpu_inv (gpu (gb_static (\<lambda>_. 0)))"
    by (simp add: gb_static_def gpu_inv_def GPU_static_def tiles_ok_def)
  show ?thesis
    using mmu_safe [where a = "0xFF40" and g = "gb_static (\<lambda>_. 0)" and v = "0x91"] inv
    by (simp del: split_paired_Ex) blast
qed

text \<open>
  What the program cannot read back. Every read of VRAM through the bus is 0, whatever was
  written (the bus passes the CPU address where the GPU expects an offset); a byte written to an
  I/O port other than FF0F and FF40..FF4B goes to \<open>ioPorts\<close> and every such port reads as 0; the
  region FEA0h..FEFFh rejects writes and reads as 0.
\<close>

theorem mmu_lost_writes:
  "(0x8000 \<le> unat a \<and> unat a < 0xA000 \<longrightarrow> mmuReadByte a g = Inr 0
      \<and> mmuWriteByte a v g = (if tileFileOpens (gpu g) 0
          then Inr (1, g\<lparr>gpu := dumped ((gpu g)\<lparr>VRAM := (VRAM (gpu g))(unat a - 0x8000 := v)\<rparr>)\<rparr>) else Inl NullPointer))
   \<and> (0xFF00 \<le> unat a \<and> unat a < 0xFF80 \<and> a \<noteq> 0xFF0F \<and> \<not> (0xFF40 \<le> a \<and> a \<le> 0xFF4B) \<longrightarrow>
      mmuReadByte a g = Inr 0
      \<and> mmuWriteByte a v g = Inr (1, g\<lparr>ioPorts := (ioPorts g)(unat a - 0xFF00 := v)\<rparr>))
   \<and> (0xFEA0 \<le> unat a \<and> unat a < 0xFF00 \<longrightarrow> mmuReadByte a g = Inr 0 \<and> mmuWriteByte a v g = Inr (0, g))"
  using mmuWriteByte_vram [of a] mmuWriteByte_io [of a] mmuWriteByte_unusable [of a]
  by auto

lemma mmu_lost_writes_witness:
  "mmuReadByte 0x9000 (gb_static (\<lambda>_. 0)) = Inr 0 \<and> mmuReadByte 0xFF01 (gb_static (\<lambda>_. 0)) = Inr 0"
  using mmu_lost_writes [where a = "0x9000" and g = "gb_static (\<lambda>_. 0)"]
    mmu_lost_writes [where a = "0xFF01" and g = "gb_static (\<lambda>_. 0)"]
  by auto

end
