(* ===== verification/Cpu_Regs.thy ===== *)
theory Cpu_Regs
  imports Registers
begin

text \<open>
  The instructions of \<^verbatim>\<open>src/cpu.c\<close> that work on the register file only: the 8-bit and 16-bit
  arithmetic, the register forms of the rotates, shifts and bit instructions. Each is a function on
  \<open>registers\<close>, statement by statement as the code has it; a pointer argument is a \<open>reg8\<close> or
  \<open>reg16\<close>. The forms that go through memory are in theory \<open>Cpu_Mem\<close>.
\<close>

section \<open>Loads\<close>

definition ld_r_s :: "reg8 \<Rightarrow> u8 \<Rightarrow> registers \<Rightarrow> registers" where
  "ld_r_s ptrR n r = set8 ptrR n r"

definition ld_dd_nn :: "reg16 \<Rightarrow> u16 \<Rightarrow> registers \<Rightarrow> registers" where
  "ld_dd_nn ptrDD nn r = set16 ptrDD nn r"

definition ld_SP_HL :: "registers \<Rightarrow> registers" where
  "ld_SP_HL r = r\<lparr>rSP := rHL r\<rparr>"

definition ld_HL_SP_e :: "u8 \<Rightarrow> registers \<Rightarrow> registers" where
  "ld_HL_SP_e e r =
    (let signedE = (scast e :: u16);
         value = rSP r + signedE;
         r = flagIf (unat (rSP r AND LOW_WORD) + unat (signedE AND LOW_WORD) > unat LOW_WORD)
               flagCarry r;
         r = flagIf (unat (rSP r AND ucast LOW_NIBBLE) + unat (signedE AND ucast LOW_NIBBLE)
                     > unat LOW_NIBBLE) flagHalfCarry r;
         r = removeFlag (flagZero OR flagNegative) r
     in set16 RegHL value r)"

section \<open>8-bit arithmetic\<close>

definition add_s :: "u8 \<Rightarrow> registers \<Rightarrow> registers" where
  "add_s s r =
    (let sum = (ucast (rA r) :: u16) + ucast s;
         r = removeFlag flagNegative r;
         r = flagIf (sum AND HIGH_BYTE \<noteq> 0) flagCarry r;
         r = flagIf (unat (rA r AND LOW_NIBBLE) + unat (s AND LOW_NIBBLE) > unat LOW_NIBBLE)
               flagHalfCarry r;
         r = r\<lparr>rA := ucast (sum AND LOW_BYTE)\<rparr>
     in flagIf (rA r = 0) flagZero r)"

definition adc_s :: "u8 \<Rightarrow> registers \<Rightarrow> registers" where
  "adc_s s r =
    (let s = s + checkFlag flagCarry r;
         sum = (ucast (rA r) :: u16) + ucast s;
         r = removeFlag flagNegative r;
         r = flagIf (sum AND HIGH_BYTE \<noteq> 0) flagCarry r;
         r = flagIf (unat (rA r AND LOW_NIBBLE) + unat (s AND LOW_NIBBLE) > unat LOW_NIBBLE)
               flagHalfCarry r;
         r = r\<lparr>rA := ucast (sum AND LOW_BYTE)\<rparr>
     in flagIf (rA r = 0) flagZero r)"

definition sub_s :: "u8 \<Rightarrow> registers \<Rightarrow> registers" where
  "sub_s s r =
    (let r = setFlag flagNegative r;
         r = flagIf (s > rA r) flagCarry r;
         r = flagIf (s AND LOW_NIBBLE > rA r AND LOW_NIBBLE) flagHalfCarry r;
         r = r\<lparr>rA := rA r - s\<rparr>
     in flagIf (rA r = 0) flagZero r)"

definition sbc_s :: "u8 \<Rightarrow> registers \<Rightarrow> registers" where
  "sbc_s s r =
    (let r = setFlag flagNegative r;
         s = s + checkFlag flagCarry r;
         r = flagIf (s > rA r) flagCarry r;
         r = flagIf (s AND LOW_NIBBLE > rA r AND LOW_NIBBLE) flagHalfCarry r;
         r = r\<lparr>rA := rA r - s\<rparr>
     in flagIf (rA r = 0) flagZero r)"

definition and_s :: "u8 \<Rightarrow> registers \<Rightarrow> registers" where
  "and_s s r =
    (let r = removeFlag (flagNegative OR flagCarry) r;
         r = setFlag flagHalfCarry r;
         r = r\<lparr>rA := rA r AND s\<rparr>
     in flagIf (rA r = 0) flagZero r)"

definition or_s :: "u8 \<Rightarrow> registers \<Rightarrow> registers" where
  "or_s s r =
    (let r = removeFlag (flagNegative OR flagHalfCarry OR flagCarry) r;
         r = r\<lparr>rA := rA r OR s\<rparr>
     in flagIf (rA r = 0) flagZero r)"

definition xor_s :: "u8 \<Rightarrow> registers \<Rightarrow> registers" where
  "xor_s s r =
    (let r = removeFlag (flagNegative OR flagHalfCarry OR flagCarry) r;
         r = r\<lparr>rA := rA r XOR s\<rparr>
     in flagIf (rA r = 0) flagZero r)"

definition cmp_s :: "u8 \<Rightarrow> registers \<Rightarrow> registers" where
  "cmp_s s r =
    (let r = setFlag flagNegative r;
         r = flagIf (s > rA r) flagCarry r;
         r = flagIf (s AND LOW_NIBBLE > rA r AND LOW_NIBBLE) flagHalfCarry r
     in flagIf (rA r = s) flagZero r)"

definition inc_s :: "reg8 \<Rightarrow> registers \<Rightarrow> registers" where
  "inc_s s r =
    (let r = removeFlag flagNegative r;
         r = flagIf (get8 s r AND LOW_NIBBLE = LOW_NIBBLE) flagHalfCarry r;
         r = set8 s (get8 s r + 1) r
     in flagIf (get8 s r = 0) flagZero r)"

definition dec_s :: "reg8 \<Rightarrow> registers \<Rightarrow> registers" where
  "dec_s s r =
    (let r = setFlag flagNegative r;
         r = flagIf (get8 s r AND LOW_NIBBLE = 0) flagHalfCarry r;
         r = set8 s (get8 s r - 1) r
     in flagIf (get8 s r = 0) flagZero r)"

section \<open>16-bit arithmetic\<close>

definition add_HL_ss :: "u16 \<Rightarrow> registers \<Rightarrow> registers" where
  "add_HL_ss ss r =
    (let r = removeFlag flagNegative r;
         sum = (ucast (rHL r) :: u32) + ucast ss;
         r = flagIf (sum AND HIGH_WORD \<noteq> 0) flagCarry r;
         r = flagIf (unat (rHL r AND ucast LOW_NIBBLE) + unat (ss AND ucast LOW_NIBBLE)
                     > unat LOW_NIBBLE) flagHalfCarry r
     in set16 RegHL (ucast sum) r)"

definition add_SP_e :: "u8 \<Rightarrow> registers \<Rightarrow> registers" where
  "add_SP_e e r =
    (let r = removeFlag (flagZero OR flagNegative) r;
         signedE = (scast e :: u16);
         sum = rSP r + signedE;
         r = flagIf (unat (rSP r AND LOW_WORD) + unat (signedE AND LOW_WORD) > unat LOW_WORD)
               flagCarry r;
         r = flagIf (unat (sum AND ucast LOW_NIBBLE) + unat (rSP r AND ucast LOW_NIBBLE)
                     > unat LOW_NIBBLE) flagHalfCarry r
     in r\<lparr>rSP := sum\<rparr>)"

definition inc_ss :: "reg16 \<Rightarrow> registers \<Rightarrow> registers" where
  "inc_ss ptrSS r = set16 ptrSS (get16 ptrSS r + 1) r"

definition dec_ss :: "reg16 \<Rightarrow> registers \<Rightarrow> registers" where
  "dec_ss ptrSS r = set16 ptrSS (get16 ptrSS r - 1) r"

section \<open>Miscellaneous\<close>

definition swap_s :: "reg8 \<Rightarrow> registers \<Rightarrow> registers" where
  "swap_s ptrS r =
    (let r = removeFlag (flagNegative OR flagHalfCarry OR flagCarry) r;
         r = set8 ptrS (drop_bit 4 (get8 ptrS r AND HIGH_NIBBLE)
               OR push_bit 4 (get8 ptrS r AND LOW_NIBBLE)) r
     in flagIf (get8 ptrS r = 0) flagZero r)"

definition daa :: "registers \<Rightarrow> registers" where
  "daa r =
    (let r = (if checkFlag flagNegative r \<noteq> 0 then
                (let r = (if checkFlag flagHalfCarry r \<noteq> 0
                          then r\<lparr>rA := (rA r - 0x06) AND 0xFF\<rparr> else r)
                 in if checkFlag flagCarry r \<noteq> 0 then r\<lparr>rA := rA r - (rA r - 0x60)\<rparr> else r)
              else
                (let r = (if checkFlag flagHalfCarry r \<noteq> 0 \<or> rA r AND LOW_NIBBLE > 9
                          then r\<lparr>rA := rA r + 0x06\<rparr> else r)
                 in if checkFlag flagCarry r \<noteq> 0 \<or> rA r > 0x9F then r\<lparr>rA := rA r + 0x60\<rparr> else r));
         r = flagIf ((ucast (rA r) :: u16) AND 0x0100 = 0x0100) flagCarry r;
         r = flagIf (rA r = 0) flagZero r
     in removeFlag flagHalfCarry r)"

definition cpl :: "registers \<Rightarrow> registers" where
  "cpl r = (let r = setFlag (flagNegative OR flagHalfCarry) r in r\<lparr>rA := NOT (rA r)\<rparr>)"

definition ccf :: "registers \<Rightarrow> registers" where
  "ccf r = (let r = (if checkFlag flagCarry r \<noteq> 0 then removeFlag flagCarry r
                     else setFlag flagCarry r)
            in removeFlag (flagNegative OR flagHalfCarry) r)"

definition scf :: "registers \<Rightarrow> registers" where
  "scf r = removeFlag (flagNegative OR flagHalfCarry) (setFlag flagCarry r)"

section \<open>Rotates and shifts\<close>

definition rlc_A :: "registers \<Rightarrow> registers" where
  "rlc_A r =
    (let r = removeFlag (flagZero OR flagNegative OR flagHalfCarry) r;
         r = flagIf (rA r AND 0x80 \<noteq> 0) flagCarry r;
         r = r\<lparr>rA := push_bit 1 (rA r)\<rparr>
     in r\<lparr>rA := rA r + checkFlag flagCarry r\<rparr>)"

definition rl_A :: "registers \<Rightarrow> registers" where
  "rl_A r =
    (let r = removeFlag (flagZero OR flagNegative OR flagHalfCarry) r;
         r = flagIf (rA r AND 0x80 \<noteq> 0) flagCarry r
     in r\<lparr>rA := push_bit 1 (rA r)\<rparr>)"

definition rrc_A :: "registers \<Rightarrow> registers" where
  "rrc_A r =
    (let r = removeFlag (flagZero OR flagNegative OR flagHalfCarry) r;
         r = flagIf (rA r AND 0x01 \<noteq> 0) flagCarry r;
         r = r\<lparr>rA := drop_bit 1 (rA r)\<rparr>
     in if checkFlag flagCarry r \<noteq> 0 then r\<lparr>rA := rA r OR 0x80\<rparr> else r)"

definition rr_A :: "registers \<Rightarrow> registers" where
  "rr_A r =
    (let r = removeFlag (flagZero OR flagNegative OR flagHalfCarry) r;
         r = flagIf (rA r AND 0x01 \<noteq> 0) flagCarry r
     in r\<lparr>rA := drop_bit 1 (rA r)\<rparr>)"

definition rlc_s :: "reg8 \<Rightarrow> registers \<Rightarrow> registers" where
  "rlc_s ptrS r =
    (let r = removeFlag (flagNegative OR flagHalfCarry) r;
         r = flagIf (get8 ptrS r AND 0x80 \<noteq> 0) flagCarry r;
         r = set8 ptrS (push_bit 1 (get8 ptrS r)) r;
         r = set8 ptrS (get8 ptrS r + checkFlag flagCarry r) r
     in flagIf (get8 ptrS r = 0) flagZero r)"

definition rl_s :: "reg8 \<Rightarrow> registers \<Rightarrow> registers" where
  "rl_s ptrS r =
    (let r = removeFlag (flagNegative OR flagHalfCarry) r;
         r = flagIf (get8 ptrS r AND 0x80 \<noteq> 0) flagCarry r;
         r = set8 ptrS (push_bit 1 (get8 ptrS r)) r
     in flagIf (get8 ptrS r = 0) flagZero r)"

definition rrc_s :: "reg8 \<Rightarrow> registers \<Rightarrow> registers" where
  "rrc_s ptrS r =
    (let r = removeFlag (flagNegative OR flagHalfCarry) r;
         r = flagIf (get8 ptrS r AND 0x01 \<noteq> 0) flagCarry r;
         r = set8 ptrS (drop_bit 1 (get8 ptrS r)) r;
         r = (if checkFlag flagCarry r \<noteq> 0 then set8 ptrS (get8 ptrS r OR 0x80) r else r)
     in flagIf (get8 ptrS r = 0) flagZero r)"

definition rr_s :: "reg8 \<Rightarrow> registers \<Rightarrow> registers" where
  "rr_s ptrS r =
    (let r = removeFlag (flagNegative OR flagHalfCarry) r;
         r = flagIf (get8 ptrS r AND 0x01 \<noteq> 0) flagCarry r;
         r = set8 ptrS (drop_bit 1 (get8 ptrS r)) r
     in flagIf (get8 ptrS r = 0) flagZero r)"

definition sla_s :: "reg8 \<Rightarrow> registers \<Rightarrow> registers" where
  "sla_s ptrS r =
    (let r = removeFlag (flagNegative OR flagHalfCarry) r;
         r = flagIf (get8 ptrS r AND 0x80 \<noteq> 0) flagCarry r;
         r = set8 ptrS (push_bit 1 (get8 ptrS r)) r
     in flagIf (get8 ptrS r = 0) flagZero r)"

definition sra_s :: "reg8 \<Rightarrow> registers \<Rightarrow> registers" where
  "sra_s ptrS r =
    (let r = removeFlag (flagNegative OR flagHalfCarry) r;
         r = flagIf (get8 ptrS r AND 0x01 \<noteq> 0) flagCarry r;
         r = set8 ptrS (drop_bit 1 (get8 ptrS r) OR (get8 ptrS r AND 0x80)) r
     in flagIf (get8 ptrS r = 0) flagZero r)"

definition srl_s :: "reg8 \<Rightarrow> registers \<Rightarrow> registers" where
  "srl_s ptrS r =
    (let r = removeFlag (flagNegative OR flagHalfCarry) r;
         r = (if get8 ptrS r AND 0x01 \<noteq> 0 then setFlag flagCarry r else setFlag flagCarry r);
         r = set8 ptrS (drop_bit 1 (get8 ptrS r)) r
     in flagIf (get8 ptrS r = 0) flagZero r)"

section \<open>Bit instructions\<close>

text \<open>\<open>1 << bitPosition\<close> on \<open>int\<close>.\<close>

definition shl1 :: "u8 \<Rightarrow> u32 res" where
  "shl1 bitPosition = (if unat bitPosition < 31 then Inr (push_bit (unat bitPosition) 1)
     else Inl BadShift)"

definition bit_b_s :: "u8 \<Rightarrow> reg8 \<Rightarrow> registers \<Rightarrow> registers res" where
  "bit_b_s bitPosition ptrS r =
    (let r = removeFlag flagNegative r;
         r = setFlag flagHalfCarry r
     in bind_res (shl1 bitPosition) (\<lambda>m.
          Inr (flagIf ((ucast (get8 ptrS r) :: u32) AND m = 0) flagZero r)))"

definition set_b_s :: "u8 \<Rightarrow> reg8 \<Rightarrow> registers \<Rightarrow> registers res" where
  "set_b_s bitPosition ptrS r =
    bind_res (shl1 bitPosition) (\<lambda>m. Inr (set8 ptrS (ucast ((ucast (get8 ptrS r) :: u32) OR m)) r))"

definition res_b_s :: "u8 \<Rightarrow> reg8 \<Rightarrow> registers \<Rightarrow> registers res" where
  "res_b_s bitPosition ptrS r =
    bind_res (shl1 bitPosition)
      (\<lambda>m. Inr (set8 ptrS (ucast ((ucast (get8 ptrS r) :: u32) AND NOT m)) r))"

section \<open>Jumps\<close>

definition jp_nn :: "u16 \<Rightarrow> registers \<Rightarrow> registers" where
  "jp_nn nn r = r\<lparr>rPC := nn\<rparr>"

definition jr_e :: "u8 \<Rightarrow> registers \<Rightarrow> registers" where
  "jr_e e r = r\<lparr>rPC := rPC r + scast e\<rparr>"

definition nop :: "registers \<Rightarrow> registers" where "nop r = r"

definition undefined_op :: "registers \<Rightarrow> registers" where "undefined_op r = r"

end
