(* ===== verification/Cpu_Mem.thy ===== *)
theory Cpu_Mem
  imports Memory Cpu_Regs
begin

text \<open>
  The instructions of \<^verbatim>\<open>src/cpu.c\<close> that touch memory, the tick counter or the interrupt
  registers, as functions on the machine that can fault where a memory access can, and the reset
  of the CPU.
\<close>

definition modRegs :: "(registers \<Rightarrow> registers) \<Rightarrow> gb \<Rightarrow> gb" where
  "modRegs f g = g\<lparr>regs := f (regs g)\<rparr>"

definition addTicks :: "u64 \<Rightarrow> gb \<Rightarrow> gb" where
  "addTicks n g = g\<lparr>tickCounter := tickCounter g + n\<rparr>"

section \<open>Loads\<close>

definition ld_d_r :: "u8 \<Rightarrow> gb \<Rightarrow> gb res" where
  "ld_d_r r g = mmuStore (rHL (regs g)) r g"

definition ld_d_n :: "u8 \<Rightarrow> gb \<Rightarrow> gb res" where
  "ld_d_n n g = mmuStore (rHL (regs g)) n g"

definition ld_A_ss :: "u16 \<Rightarrow> gb \<Rightarrow> gb res" where
  "ld_A_ss memLocation g =
    bind_res (mmuReadByte memLocation g) (\<lambda>v. Inr (modRegs (rA_update (\<lambda>_. v)) g))"

definition ld_dd_A :: "u16 \<Rightarrow> gb \<Rightarrow> gb res" where
  "ld_dd_A memLocation g = mmuStore memLocation (rA (regs g)) g"

definition ld_A_c :: "gb \<Rightarrow> gb res" where
  "ld_A_c g =
    (let memLocation = 0xFF00 + ucast (checkFlag flagCarry (regs g))
     in bind_res (mmuReadByte memLocation g) (\<lambda>v. Inr (modRegs (rA_update (\<lambda>_. v)) g)))"

definition ld_c_A :: "gb \<Rightarrow> gb res" where
  "ld_c_A g =
    (let memLocation = 0xFF00 + ucast (checkFlag flagCarry (regs g))
     in mmuStore memLocation (rA (regs g)) g)"

definition ldd_A_mHL :: "gb \<Rightarrow> gb res" where
  "ldd_A_mHL g = bind_res (mmuReadByte (rHL (regs g)) g) (\<lambda>v.
     let g = modRegs (rA_update (\<lambda>_. v)) g
     in Inr (modRegs (\<lambda>r. set16 RegHL (rHL r - 1) r) g))"

definition ldd_mHL_A :: "gb \<Rightarrow> gb res" where
  "ldd_mHL_A g = bind_res (mmuStore (rHL (regs g)) (rA (regs g)) g) (\<lambda>g.
     Inr (modRegs (\<lambda>r. set16 RegHL (rHL r - 1) r) g))"

definition ldi_A_mHL :: "gb \<Rightarrow> gb res" where
  "ldi_A_mHL g = bind_res (mmuReadByte (rHL (regs g)) g) (\<lambda>v.
     let g = modRegs (rA_update (\<lambda>_. v)) g
     in Inr (modRegs (\<lambda>r. set16 RegHL (rHL r + 1) r) g))"

definition ldi_mHL_A :: "gb \<Rightarrow> gb res" where
  "ldi_mHL_A g = bind_res (mmuStore (rHL (regs g)) (rA (regs g)) g) (\<lambda>g.
     Inr (modRegs (\<lambda>r. set16 RegHL (rHL r + 1) r) g))"

definition ldh_n_A :: "u8 \<Rightarrow> gb \<Rightarrow> gb res" where
  "ldh_n_A n g = mmuStore (0xFF00 + ucast n) (rA (regs g)) g"

definition ldh_A_n :: "u8 \<Rightarrow> gb \<Rightarrow> gb res" where
  "ldh_A_n n g = bind_res (mmuReadByte (0xFF00 + ucast n) g) (\<lambda>v.
     Inr (modRegs (rA_update (\<lambda>_. v)) g))"

definition ld_nn_SP :: "u16 \<Rightarrow> gb \<Rightarrow> gb res" where
  "ld_nn_SP nn g = bind_res (mmuWriteShort nn (rSP (regs g)) g) (\<lambda>(_, g). Inr g)"

definition push_ss :: "u16 \<Rightarrow> gb \<Rightarrow> gb res" where
  "push_ss ss g =
    (let lowSS = (ucast (ss AND 0xFF) :: u8);
         highSS = (ucast (drop_bit 8 (ss AND 0xFF00)) :: u8);
         g = modRegs (\<lambda>r. r\<lparr>rSP := rSP r - 1\<rparr>) g
     in bind_res (mmuStore (rSP (regs g)) lowSS g) (\<lambda>g.
          let g = modRegs (\<lambda>r. r\<lparr>rSP := rSP r - 1\<rparr>) g
          in mmuStore (rSP (regs g)) highSS g))"

definition pop_dd :: "reg16 \<Rightarrow> gb \<Rightarrow> gb res" where
  "pop_dd ptrDD g =
    bind_res (mmuReadByte (rSP (regs g)) g) (\<lambda>b.
      let bytePair = (push_bit 8 (ucast b) :: u16);
          g = modRegs (\<lambda>r. r\<lparr>rSP := rSP r + 1\<rparr>) g
      in bind_res (mmuReadByte (rSP (regs g)) g) (\<lambda>b.
           let bytePair = (ucast b :: u16);
               g = modRegs (\<lambda>r. r\<lparr>rSP := rSP r + 1\<rparr>) g
           in Inr (modRegs (set16 ptrDD bytePair) g)))"

section \<open>Read-modify-write at HL\<close>

definition inc_sHL :: "gb \<Rightarrow> gb res" where
  "inc_sHL g =
    (let g = modRegs (removeFlag flagNegative) g in
     bind_res (mmuReadByte (rHL (regs g)) g) (\<lambda>value.
     let g = modRegs (flagIf (value AND LOW_NIBBLE = LOW_NIBBLE) flagHalfCarry) g;
         value = value + 1
     in bind_res (mmuStore (rHL (regs g)) value g) (\<lambda>g.
          Inr (modRegs (flagIf (value = 0) flagZero) g))))"

definition dec_sHL :: "gb \<Rightarrow> gb res" where
  "dec_sHL g =
    (let g = modRegs (setFlag flagNegative) g in
     bind_res (mmuReadByte (rHL (regs g)) g) (\<lambda>value.
     let g = modRegs (flagIf (value AND LOW_NIBBLE = 0) flagHalfCarry) g;
         value = value - 1
     in bind_res (mmuStore (rHL (regs g)) value g) (\<lambda>g.
          Inr (modRegs (flagIf (value = 0) flagZero) g))))"

definition swap_sHL :: "gb \<Rightarrow> gb res" where
  "swap_sHL g =
    (let g = modRegs (removeFlag (flagNegative OR flagHalfCarry OR flagCarry)) g in
     bind_res (mmuReadByte (rHL (regs g)) g) (\<lambda>value.
     let value = drop_bit 4 (value AND HIGH_NIBBLE) OR push_bit 4 (value AND LOW_NIBBLE)
     in bind_res (mmuStore (rHL (regs g)) value g) (\<lambda>g.
          Inr (modRegs (flagIf (value = 0) flagZero) g))))"

definition rlc_sHL :: "gb \<Rightarrow> gb res" where
  "rlc_sHL g =
    (let g = modRegs (removeFlag (flagNegative OR flagHalfCarry)) g in
     bind_res (mmuReadByte (rHL (regs g)) g) (\<lambda>value.
     let g = modRegs (flagIf (value AND 0x80 \<noteq> 0) flagCarry) g;
         value = push_bit 1 value;
         value = value + checkFlag flagCarry (regs g)
     in bind_res (mmuStore (rHL (regs g)) value g) (\<lambda>g.
          Inr (modRegs (flagIf (value = 0) flagZero) g))))"

definition rl_sHL :: "gb \<Rightarrow> gb res" where
  "rl_sHL g =
    (let g = modRegs (removeFlag (flagNegative OR flagHalfCarry)) g in
     bind_res (mmuReadByte (rHL (regs g)) g) (\<lambda>value.
     let g = modRegs (flagIf (value AND 0x80 \<noteq> 0) flagCarry) g;
         value = push_bit 1 value
     in bind_res (mmuStore (rHL (regs g)) value g) (\<lambda>g.
          Inr (modRegs (flagIf (value = 0) flagZero) g))))"

definition rrc_sHL :: "gb \<Rightarrow> gb res" where
  "rrc_sHL g =
    (let g = modRegs (removeFlag (flagNegative OR flagHalfCarry)) g in
     bind_res (mmuReadByte (rHL (regs g)) g) (\<lambda>value.
     let g = modRegs (flagIf (value AND 0x01 \<noteq> 0) flagCarry) g;
         value = drop_bit 1 value;
         value = (if checkFlag flagCarry (regs g) \<noteq> 0 then value OR 0x80 else value)
     in bind_res (mmuStore (rHL (regs g)) value g) (\<lambda>g.
          Inr (modRegs (flagIf (value = 0) flagZero) g))))"

definition rr_sHL :: "gb \<Rightarrow> gb res" where
  "rr_sHL g =
    (let g = modRegs (removeFlag (flagNegative OR flagHalfCarry)) g in
     bind_res (mmuReadByte (rHL (regs g)) g) (\<lambda>value.
     let g = modRegs (flagIf (value AND 0x01 \<noteq> 0) flagCarry) g;
         value = drop_bit 1 value
     in bind_res (mmuStore (rHL (regs g)) value g) (\<lambda>g.
          Inr (modRegs (flagIf (value = 0) flagZero) g))))"

definition sla_sHL :: "gb \<Rightarrow> gb res" where
  "sla_sHL g =
    (let g = modRegs (removeFlag (flagNegative OR flagHalfCarry)) g in
     bind_res (mmuReadByte (rHL (regs g)) g) (\<lambda>value.
     let g = modRegs (flagIf (value AND 0x80 \<noteq> 0) flagCarry) g;
         value = push_bit 1 value
     in bind_res (mmuStore (rHL (regs g)) value g) (\<lambda>g.
          Inr (modRegs (flagIf (value = 0) flagZero) g))))"

definition sra_sHL :: "gb \<Rightarrow> gb res" where
  "sra_sHL g =
    (let g = modRegs (removeFlag (flagNegative OR flagHalfCarry)) g in
     bind_res (mmuReadByte (rHL (regs g)) g) (\<lambda>value.
     let g = modRegs (flagIf (value AND 0x01 \<noteq> 0) flagCarry) g;
         value = drop_bit 1 value OR (value AND 0x80)
     in bind_res (mmuStore (rHL (regs g)) value g) (\<lambda>g.
          Inr (modRegs (flagIf (value = 0) flagZero) g))))"

definition srl_sHL :: "gb \<Rightarrow> gb res" where
  "srl_sHL g =
    (let g = modRegs (removeFlag (flagNegative OR flagHalfCarry)) g in
     bind_res (mmuReadByte (rHL (regs g)) g) (\<lambda>value.
     let g = (if value AND 0x01 \<noteq> 0 then modRegs (setFlag flagCarry) g
              else modRegs (setFlag flagCarry) g);
         value = drop_bit 1 value
     in bind_res (mmuStore (rHL (regs g)) value g) (\<lambda>g.
          Inr (modRegs (flagIf (value = 0) flagZero) g))))"

definition bit_b_sHL :: "u8 \<Rightarrow> gb \<Rightarrow> gb res" where
  "bit_b_sHL bitPosition g =
    (let g = modRegs (removeFlag flagNegative) g;
         g = modRegs (setFlag flagHalfCarry) g
     in bind_res (mmuReadByte (rHL (regs g)) g) (\<lambda>b.
          let value = (ucast b :: u32) in
          bind_res (shl1 bitPosition) (\<lambda>m. Inr (modRegs (flagIf (value AND m = 0) flagZero) g))))"

definition set_b_sHL :: "u8 \<Rightarrow> gb \<Rightarrow> gb res" where
  "set_b_sHL bitPosition g =
    bind_res (mmuReadByte (rHL (regs g)) g) (\<lambda>value.
    bind_res (shl1 bitPosition) (\<lambda>m.
      mmuStore (rHL (regs g)) (ucast ((ucast value :: u32) OR m)) g))"

definition res_b_sHL :: "u8 \<Rightarrow> gb \<Rightarrow> gb res" where
  "res_b_sHL bitPosition g =
    bind_res (mmuReadByte (rHL (regs g)) g) (\<lambda>value.
    bind_res (shl1 bitPosition) (\<lambda>m.
      mmuStore (rHL (regs g)) (ucast ((ucast value :: u32) AND NOT m)) g))"

section \<open>Control\<close>

definition halt :: "gb \<Rightarrow> gb" where
  "halt g = (if masterEnable (intr g) \<noteq> 0 then g else modRegs (\<lambda>r. r\<lparr>rPC := rPC r + 1\<rparr>) g)"

definition stop :: "gb \<Rightarrow> gb" where "stop g = g\<lparr>stopped := 1\<rparr>"

definition di :: "gb \<Rightarrow> gb" where "di g = g\<lparr>intr := (intr g)\<lparr>masterEnable := 0\<rparr>\<rparr>"

definition ei :: "gb \<Rightarrow> gb" where "ei g = g\<lparr>intr := (intr g)\<lparr>masterEnable := 1\<rparr>\<rparr>"

definition FLAG_NOT_SET :: u8 where [simp]: "FLAG_NOT_SET = 0"

definition FLAG_SET :: u8 where [simp]: "FLAG_SET = 1"

definition jp_cc_nn :: "u16 \<Rightarrow> u8 \<Rightarrow> u8 \<Rightarrow> gb \<Rightarrow> gb" where
  "jp_cc_nn nn flag condition g =
    (if checkFlag flag (regs g) = condition
     then addTicks 4 (modRegs (\<lambda>r. r\<lparr>rPC := nn\<rparr>) g) else g)"

definition jr_cc_e :: "u8 \<Rightarrow> u8 \<Rightarrow> u8 \<Rightarrow> gb \<Rightarrow> gb" where
  "jr_cc_e e flag condition g =
    (if checkFlag flag (regs g) = condition
     then addTicks 4 (modRegs (\<lambda>r. r\<lparr>rPC := rPC r + scast e\<rparr>) g) else g)"

definition call_nn :: "u16 \<Rightarrow> gb \<Rightarrow> gb res" where
  "call_nn nn g =
    (let memLocation = rSP (regs g) - 0x01;
         PCh = (ucast (drop_bit 8 (rPC (regs g) AND HIGH_BYTE)) :: u8)
     in bind_res (mmuStore memLocation PCh g) (\<lambda>g.
        let memLocation = memLocation - 1;
            PCl = (ucast (rPC (regs g) AND LOW_BYTE) :: u8)
        in bind_res (mmuStore memLocation PCl g) (\<lambda>g.
             Inr (modRegs (\<lambda>r. r\<lparr>rPC := nn, rSP := memLocation\<rparr>) g))))"

definition call_cc_nn :: "u16 \<Rightarrow> u8 \<Rightarrow> u8 \<Rightarrow> gb \<Rightarrow> gb res" where
  "call_cc_nn nn flag condition g =
    (if checkFlag flag (regs g) = condition
     then bind_res (call_nn nn g) (\<lambda>g. Inr (addTicks 12 g)) else Inr g)"

definition rst_f :: "u8 \<Rightarrow> gb \<Rightarrow> gb res" where
  "rst_f f g =
    (let memLocation = rSP (regs g) - 1;
         PCh = (ucast (drop_bit 8 (rPC (regs g) AND HIGH_BYTE)) :: u8)
     in bind_res (mmuStore memLocation PCh g) (\<lambda>g.
        let PCl = (ucast (rPC (regs g) AND LOW_BYTE) :: u8);
            memLocation = memLocation - 1
        in bind_res (mmuStore memLocation PCl g) (\<lambda>g.
             Inr (modRegs (\<lambda>r. r\<lparr>rPC := ucast f AND LOW_BYTE, rSP := memLocation\<rparr>) g))))"

definition ret :: "gb \<Rightarrow> gb res" where
  "ret g =
    (let memLocation = rSP (regs g)
     in bind_res (mmuReadByte memLocation g) (\<lambda>valSP.
        let g = modRegs (\<lambda>r. r\<lparr>rPC := ucast valSP AND LOW_BYTE\<rparr>) g;
            memLocation = memLocation + 1
        in bind_res (mmuReadByte memLocation g) (\<lambda>valSP.
           let g = modRegs (\<lambda>r. r\<lparr>rPC := rPC r OR push_bit 8 (ucast valSP AND LOW_BYTE)\<rparr>) g
           in Inr (modRegs (\<lambda>r. r\<lparr>rSP := memLocation + 1\<rparr>) g))))"

definition ret_cc :: "u8 \<Rightarrow> u8 \<Rightarrow> gb \<Rightarrow> gb res" where
  "ret_cc flag condition g =
    (if checkFlag flag (regs g) = condition
     then bind_res (ret g) (\<lambda>g. Inr (addTicks 12 g)) else Inr g)"

definition reti :: "gb \<Rightarrow> gb res" where
  "reti g = bind_res (ret g) (\<lambda>g. Inr (ei g))"

section \<open>Reset\<close>

text \<open>The loop of \<open>cpuReset\<close> over the reset tables.\<close>

fun resetLoop :: "(u16 \<times> u8) list \<Rightarrow> gb \<Rightarrow> gb res" where
  "resetLoop [] g = Inr g"
| "resetLoop ((a, v) # rest) g = bind_res (mmuStore a v g) (resetLoop rest)"

definition cpuReset :: "gb \<Rightarrow> gb res" where
  "cpuReset g =
    (let g = modRegs (\<lambda>r. r\<lparr>rSP := 0xFFFE, rPC := 0x0100\<rparr>) (modRegs (\<lambda>r.
               set16 RegHL 0x014D (set16 RegDE 0x00D8 (set16 RegBC 0x0013
                 (set16 RegAF 0x01B0 r)))) g)
     in bind_res (resetLoop (zip resetAddresses resetValues) g) (\<lambda>g.
          Inr (g\<lparr>intr := (intr g)\<lparr>enable := 0\<rparr>, tickCounter := 0\<rparr>)))"

end
