(* ===== verification/Opcode.thy ===== *)
theory Opcode
  imports Cpu_Mem
begin

text \<open>
  \<^verbatim>\<open>include/opcode.h\<close>: an entry of an opcode table. The \<open>void *\<close> of an entry is a function of
  one of the three types the caller casts it to; calling it through another type is the fault
  \<open>BadCall\<close>. \<open>regOp\<close>, \<open>regOpRes\<close> and \<open>pureOp\<close> run an instruction of \<open>Cpu_Regs\<close> or one that cannot
  fault on the machine.
\<close>

definition regOp :: "(registers \<Rightarrow> registers) \<Rightarrow> gb \<Rightarrow> gb res" where
  "regOp f g = Inr (modRegs f g)"

definition regOpRes :: "(registers \<Rightarrow> registers res) \<Rightarrow> gb \<Rightarrow> gb res" where
  "regOpRes f g = bind_res (f (regs g)) (\<lambda>r. Inr (g\<lparr>regs := r\<rparr>))"

definition pureOp :: "(gb \<Rightarrow> gb) \<Rightarrow> gb \<Rightarrow> gb res" where
  "pureOp f g = Inr (f g)"

datatype opfn =
    Fn0 "gb \<Rightarrow> gb res"
  | Fn8 "u8 \<Rightarrow> gb \<Rightarrow> gb res"
  | Fn16 "u16 \<Rightarrow> gb \<Rightarrow> gb res"

record opcode =
  asmName :: string
  operandType :: u8
  opFunction :: opfn

definition NO_OPERANDS :: u8 where [simp]: "NO_OPERANDS = 0"

definition OPERAND_CHAR :: u8 where [simp]: "OPERAND_CHAR = 1"

definition OPERAND_SHORT :: u8 where [simp]: "OPERAND_SHORT = 2"

end
