(* ===== verification/Base_Table.thy ===== *)
theory Base_Table
  imports Opcode
begin

text \<open>
  \<^verbatim>\<open>src/BaseOpcodeTable.c\<close>: the one-byte opcodes. One definition per function of the file, in its order, then the
  tick counts and the table, sixteen entries to a row.
\<close>

section \<open>Functions\<close>

definition ld_BC_nn :: "u16 \<Rightarrow> gb \<Rightarrow> gb res" where
  "ld_BC_nn immediate g = regOp (ld_dd_nn RegBC immediate) g"

definition ld_mBC_A :: "gb \<Rightarrow> gb res" where
  "ld_mBC_A g = ld_dd_A (rBC (regs g)) g"

definition inc_BC :: "gb \<Rightarrow> gb res" where
  "inc_BC g = regOp (inc_ss RegBC) g"

definition inc_B :: "gb \<Rightarrow> gb res" where
  "inc_B g = regOp (inc_s RegB) g"

definition dec_B :: "gb \<Rightarrow> gb res" where
  "dec_B g = regOp (dec_s RegB) g"

definition ld_B_n :: "u8 \<Rightarrow> gb \<Rightarrow> gb res" where
  "ld_B_n immediate g = regOp (ld_r_s RegB immediate) g"

definition add_HL_BC :: "gb \<Rightarrow> gb res" where
  "add_HL_BC g = regOp (\<lambda>r. add_HL_ss (rBC r) r) g"

definition ld_A_mBC :: "gb \<Rightarrow> gb res" where
  "ld_A_mBC g = ld_A_ss (rBC (regs g)) g"

definition dec_BC :: "gb \<Rightarrow> gb res" where
  "dec_BC g = regOp (dec_ss RegBC) g"

definition inc_C :: "gb \<Rightarrow> gb res" where
  "inc_C g = regOp (inc_s RegC) g"

definition dec_C :: "gb \<Rightarrow> gb res" where
  "dec_C g = regOp (dec_s RegC) g"

definition ld_C_n :: "u8 \<Rightarrow> gb \<Rightarrow> gb res" where
  "ld_C_n immediate g = regOp (ld_r_s RegC immediate) g"

definition ld_DE_nn :: "u16 \<Rightarrow> gb \<Rightarrow> gb res" where
  "ld_DE_nn immediate g = regOp (ld_dd_nn RegDE immediate) g"

definition ld_mDE_A :: "gb \<Rightarrow> gb res" where
  "ld_mDE_A g = ld_dd_A (rDE (regs g)) g"

definition inc_DE :: "gb \<Rightarrow> gb res" where
  "inc_DE g = regOp (inc_ss RegDE) g"

definition inc_D :: "gb \<Rightarrow> gb res" where
  "inc_D g = regOp (inc_s RegD) g"

definition dec_D :: "gb \<Rightarrow> gb res" where
  "dec_D g = regOp (dec_s RegD) g"

definition ld_D_n :: "u8 \<Rightarrow> gb \<Rightarrow> gb res" where
  "ld_D_n immediate g = regOp (ld_r_s RegD immediate) g"

definition add_HL_DE :: "gb \<Rightarrow> gb res" where
  "add_HL_DE g = regOp (\<lambda>r. add_HL_ss (rDE r) r) g"

definition ld_A_mDE :: "gb \<Rightarrow> gb res" where
  "ld_A_mDE g = bind_res (mmuReadByte (rDE (regs g)) g) (\<lambda>v. regOp (ld_r_s RegA v) g)"

definition dec_DE :: "gb \<Rightarrow> gb res" where
  "dec_DE g = regOp (dec_ss RegDE) g"

definition inc_E :: "gb \<Rightarrow> gb res" where
  "inc_E g = regOp (inc_s RegE) g"

definition dec_E :: "gb \<Rightarrow> gb res" where
  "dec_E g = regOp (inc_s RegE) g"

definition ld_E_n :: "u8 \<Rightarrow> gb \<Rightarrow> gb res" where
  "ld_E_n immediate g = regOp (ld_r_s RegE immediate) g"

definition jr_NZ_n :: "u8 \<Rightarrow> gb \<Rightarrow> gb res" where
  "jr_NZ_n immediate g = Inr (jr_cc_e immediate flagZero FLAG_NOT_SET g)"

definition ld_HL_nn :: "u16 \<Rightarrow> gb \<Rightarrow> gb res" where
  "ld_HL_nn immediate g = regOp (ld_dd_nn RegHL immediate) g"

definition inc_HL :: "gb \<Rightarrow> gb res" where
  "inc_HL g = regOp (inc_ss RegHL) g"

definition inc_H :: "gb \<Rightarrow> gb res" where
  "inc_H g = regOp (inc_s RegH) g"

definition dec_H :: "gb \<Rightarrow> gb res" where
  "dec_H g = regOp (dec_s RegH) g"

definition ld_H_n :: "u8 \<Rightarrow> gb \<Rightarrow> gb res" where
  "ld_H_n immediate g = regOp (ld_r_s RegH immediate) g"

definition jr_Z_n :: "u8 \<Rightarrow> gb \<Rightarrow> gb res" where
  "jr_Z_n immediate g = Inr (jr_cc_e immediate flagZero FLAG_SET g)"

definition add_HL_HL :: "gb \<Rightarrow> gb res" where
  "add_HL_HL g = regOp (\<lambda>r. add_HL_ss (rHL r) r) g"

definition dec_HL :: "gb \<Rightarrow> gb res" where
  "dec_HL g = regOp (dec_ss RegHL) g"

definition inc_L :: "gb \<Rightarrow> gb res" where
  "inc_L g = regOp (inc_s RegL) g"

definition dec_L :: "gb \<Rightarrow> gb res" where
  "dec_L g = regOp (dec_s RegL) g"

definition ld_L_n :: "u8 \<Rightarrow> gb \<Rightarrow> gb res" where
  "ld_L_n immediate g = regOp (ld_r_s RegL immediate) g"

definition jr_NC_n :: "u8 \<Rightarrow> gb \<Rightarrow> gb res" where
  "jr_NC_n immediate g = Inr (jr_cc_e immediate flagCarry FLAG_NOT_SET g)"

definition ld_SP_nn :: "u16 \<Rightarrow> gb \<Rightarrow> gb res" where
  "ld_SP_nn immediate g = regOp (ld_dd_nn RegSP immediate) g"

definition inc_SP :: "gb \<Rightarrow> gb res" where
  "inc_SP g = regOp (inc_ss RegSP) g"

definition inc_mHL :: "gb \<Rightarrow> gb res" where
  "inc_mHL g = inc_sHL g"

definition dec_mHL :: "gb \<Rightarrow> gb res" where
  "dec_mHL g = dec_sHL g"

definition jr_C_n :: "u8 \<Rightarrow> gb \<Rightarrow> gb res" where
  "jr_C_n immediate g = Inr (jr_cc_e immediate flagCarry FLAG_SET g)"

definition add_HL_SP :: "gb \<Rightarrow> gb res" where
  "add_HL_SP g = regOp (\<lambda>r. add_HL_ss (rSP r) r) g"

definition dec_SP :: "gb \<Rightarrow> gb res" where
  "dec_SP g = regOp (dec_ss RegSP) g"

definition inc_A :: "gb \<Rightarrow> gb res" where
  "inc_A g = regOp (inc_s RegA) g"

definition dec_A :: "gb \<Rightarrow> gb res" where
  "dec_A g = regOp (dec_s RegA) g"

definition ld_A_n :: "u8 \<Rightarrow> gb \<Rightarrow> gb res" where
  "ld_A_n immediate g = regOp (ld_r_s RegA immediate) g"

definition ld_B_B :: "gb \<Rightarrow> gb res" where
  "ld_B_B g = regOp (\<lambda>r. ld_r_s RegB (rB r) r) g"

definition ld_B_C :: "gb \<Rightarrow> gb res" where
  "ld_B_C g = regOp (\<lambda>r. ld_r_s RegB (rC r) r) g"

definition ld_B_D :: "gb \<Rightarrow> gb res" where
  "ld_B_D g = regOp (\<lambda>r. ld_r_s RegB (rD r) r) g"

definition ld_B_E :: "gb \<Rightarrow> gb res" where
  "ld_B_E g = regOp (\<lambda>r. ld_r_s RegB (rE r) r) g"

definition ld_B_H :: "gb \<Rightarrow> gb res" where
  "ld_B_H g = regOp (\<lambda>r. ld_r_s RegB (rH r) r) g"

definition ld_B_L :: "gb \<Rightarrow> gb res" where
  "ld_B_L g = regOp (\<lambda>r. ld_r_s RegB (rL r) r) g"

definition ld_B_mHL :: "gb \<Rightarrow> gb res" where
  "ld_B_mHL g = bind_res (mmuReadByte (rHL (regs g)) g) (\<lambda>v. regOp (ld_r_s RegB v) g)"

definition ld_B_A :: "gb \<Rightarrow> gb res" where
  "ld_B_A g = regOp (\<lambda>r. ld_r_s RegB (rA r) r) g"

definition ld_C_B :: "gb \<Rightarrow> gb res" where
  "ld_C_B g = regOp (\<lambda>r. ld_r_s RegC (rB r) r) g"

definition ld_C_C :: "gb \<Rightarrow> gb res" where
  "ld_C_C g = regOp (\<lambda>r. ld_r_s RegC (rC r) r) g"

definition ld_C_D :: "gb \<Rightarrow> gb res" where
  "ld_C_D g = regOp (\<lambda>r. ld_r_s RegC (rD r) r) g"

definition ld_C_E :: "gb \<Rightarrow> gb res" where
  "ld_C_E g = regOp (\<lambda>r. ld_r_s RegC (rE r) r) g"

definition ld_C_H :: "gb \<Rightarrow> gb res" where
  "ld_C_H g = regOp (\<lambda>r. ld_r_s RegC (rH r) r) g"

definition ld_C_L :: "gb \<Rightarrow> gb res" where
  "ld_C_L g = regOp (\<lambda>r. ld_r_s RegC (rL r) r) g"

definition ld_C_mHL :: "gb \<Rightarrow> gb res" where
  "ld_C_mHL g = bind_res (mmuReadByte (rHL (regs g)) g) (\<lambda>v. regOp (ld_r_s RegC v) g)"

definition ld_C_A :: "gb \<Rightarrow> gb res" where
  "ld_C_A g = regOp (\<lambda>r. ld_r_s RegC (rA r) r) g"

definition ld_D_B :: "gb \<Rightarrow> gb res" where
  "ld_D_B g = regOp (\<lambda>r. ld_r_s RegD (rB r) r) g"

definition ld_D_C :: "gb \<Rightarrow> gb res" where
  "ld_D_C g = regOp (\<lambda>r. ld_r_s RegD (rC r) r) g"

definition ld_D_D :: "gb \<Rightarrow> gb res" where
  "ld_D_D g = regOp (\<lambda>r. ld_r_s RegD (rD r) r) g"

definition ld_D_E :: "gb \<Rightarrow> gb res" where
  "ld_D_E g = regOp (\<lambda>r. ld_r_s RegD (rE r) r) g"

definition ld_D_H :: "gb \<Rightarrow> gb res" where
  "ld_D_H g = regOp (\<lambda>r. ld_r_s RegD (rH r) r) g"

definition ld_D_L :: "gb \<Rightarrow> gb res" where
  "ld_D_L g = regOp (\<lambda>r. ld_r_s RegD (rL r) r) g"

definition ld_D_mHL :: "gb \<Rightarrow> gb res" where
  "ld_D_mHL g = bind_res (mmuReadByte (rHL (regs g)) g) (\<lambda>v. regOp (ld_r_s RegD v) g)"

definition ld_D_A :: "gb \<Rightarrow> gb res" where
  "ld_D_A g = regOp (\<lambda>r. ld_r_s RegD (rA r) r) g"

definition ld_E_B :: "gb \<Rightarrow> gb res" where
  "ld_E_B g = regOp (\<lambda>r. ld_r_s RegE (rB r) r) g"

definition ld_E_C :: "gb \<Rightarrow> gb res" where
  "ld_E_C g = regOp (\<lambda>r. ld_r_s RegE (rC r) r) g"

definition ld_E_D :: "gb \<Rightarrow> gb res" where
  "ld_E_D g = regOp (\<lambda>r. ld_r_s RegE (rD r) r) g"

definition ld_E_E :: "gb \<Rightarrow> gb res" where
  "ld_E_E g = regOp (\<lambda>r. ld_r_s RegE (rE r) r) g"

definition ld_E_H :: "gb \<Rightarrow> gb res" where
  "ld_E_H g = regOp (\<lambda>r. ld_r_s RegE (rH r) r) g"

definition ld_E_L :: "gb \<Rightarrow> gb res" where
  "ld_E_L g = regOp (\<lambda>r. ld_r_s RegE (rL r) r) g"

definition ld_E_mHL :: "gb \<Rightarrow> gb res" where
  "ld_E_mHL g = bind_res (mmuReadByte (rHL (regs g)) g) (\<lambda>v. regOp (ld_r_s RegE v) g)"

definition ld_E_A :: "gb \<Rightarrow> gb res" where
  "ld_E_A g = regOp (\<lambda>r. ld_r_s RegE (rA r) r) g"

definition ld_H_B :: "gb \<Rightarrow> gb res" where
  "ld_H_B g = regOp (\<lambda>r. ld_r_s RegH (rB r) r) g"

definition ld_H_C :: "gb \<Rightarrow> gb res" where
  "ld_H_C g = regOp (\<lambda>r. ld_r_s RegH (rC r) r) g"

definition ld_H_D :: "gb \<Rightarrow> gb res" where
  "ld_H_D g = regOp (\<lambda>r. ld_r_s RegH (rD r) r) g"

definition ld_H_E :: "gb \<Rightarrow> gb res" where
  "ld_H_E g = regOp (\<lambda>r. ld_r_s RegH (rE r) r) g"

definition ld_H_H :: "gb \<Rightarrow> gb res" where
  "ld_H_H g = regOp (\<lambda>r. ld_r_s RegH (rH r) r) g"

definition ld_H_L :: "gb \<Rightarrow> gb res" where
  "ld_H_L g = regOp (\<lambda>r. ld_r_s RegH (rL r) r) g"

definition ld_H_mHL :: "gb \<Rightarrow> gb res" where
  "ld_H_mHL g = bind_res (mmuReadByte (rHL (regs g)) g) (\<lambda>v. regOp (ld_r_s RegH v) g)"

definition ld_H_A :: "gb \<Rightarrow> gb res" where
  "ld_H_A g = regOp (\<lambda>r. ld_r_s RegH (rA r) r) g"

definition ld_L_B :: "gb \<Rightarrow> gb res" where
  "ld_L_B g = regOp (\<lambda>r. ld_r_s RegL (rB r) r) g"

definition ld_L_C :: "gb \<Rightarrow> gb res" where
  "ld_L_C g = regOp (\<lambda>r. ld_r_s RegL (rC r) r) g"

definition ld_L_D :: "gb \<Rightarrow> gb res" where
  "ld_L_D g = regOp (\<lambda>r. ld_r_s RegL (rD r) r) g"

definition ld_L_E :: "gb \<Rightarrow> gb res" where
  "ld_L_E g = regOp (\<lambda>r. ld_r_s RegL (rE r) r) g"

definition ld_L_H :: "gb \<Rightarrow> gb res" where
  "ld_L_H g = regOp (\<lambda>r. ld_r_s RegL (rH r) r) g"

definition ld_L_L :: "gb \<Rightarrow> gb res" where
  "ld_L_L g = regOp (\<lambda>r. ld_r_s RegL (rL r) r) g"

definition ld_L_mHL :: "gb \<Rightarrow> gb res" where
  "ld_L_mHL g = bind_res (mmuReadByte (rHL (regs g)) g) (\<lambda>v. regOp (ld_r_s RegL v) g)"

definition ld_L_A :: "gb \<Rightarrow> gb res" where
  "ld_L_A g = regOp (\<lambda>r. ld_r_s RegL (rA r) r) g"

definition ld_mHL_B :: "gb \<Rightarrow> gb res" where
  "ld_mHL_B g = ld_d_r (rB (regs g)) g"

definition ld_mHL_C :: "gb \<Rightarrow> gb res" where
  "ld_mHL_C g = ld_d_r (rC (regs g)) g"

definition ld_mHL_D :: "gb \<Rightarrow> gb res" where
  "ld_mHL_D g = ld_d_r (rD (regs g)) g"

definition ld_mHL_E :: "gb \<Rightarrow> gb res" where
  "ld_mHL_E g = ld_d_r (rE (regs g)) g"

definition ld_mHL_H :: "gb \<Rightarrow> gb res" where
  "ld_mHL_H g = ld_d_r (rH (regs g)) g"

definition ld_mHL_L :: "gb \<Rightarrow> gb res" where
  "ld_mHL_L g = ld_d_r (rL (regs g)) g"

definition ld_mHL_A :: "gb \<Rightarrow> gb res" where
  "ld_mHL_A g = ld_d_r (rA (regs g)) g"

definition ld_A_B :: "gb \<Rightarrow> gb res" where
  "ld_A_B g = regOp (\<lambda>r. ld_r_s RegA (rB r) r) g"

definition ld_A_C :: "gb \<Rightarrow> gb res" where
  "ld_A_C g = regOp (\<lambda>r. ld_r_s RegA (rC r) r) g"

definition ld_A_D :: "gb \<Rightarrow> gb res" where
  "ld_A_D g = regOp (\<lambda>r. ld_r_s RegA (rD r) r) g"

definition ld_A_E :: "gb \<Rightarrow> gb res" where
  "ld_A_E g = regOp (\<lambda>r. ld_r_s RegA (rE r) r) g"

definition ld_A_H :: "gb \<Rightarrow> gb res" where
  "ld_A_H g = regOp (\<lambda>r. ld_r_s RegA (rH r) r) g"

definition ld_A_L :: "gb \<Rightarrow> gb res" where
  "ld_A_L g = regOp (\<lambda>r. ld_r_s RegA (rL r) r) g"

definition ld_A_mHL :: "gb \<Rightarrow> gb res" where
  "ld_A_mHL g = bind_res (mmuReadByte (rHL (regs g)) g) (\<lambda>v. regOp (ld_r_s RegA v) g)"

definition ld_A_A :: "gb \<Rightarrow> gb res" where
  "ld_A_A g = regOp (\<lambda>r. ld_r_s RegA (rA r) r) g"

definition add_A_B :: "gb \<Rightarrow> gb res" where
  "add_A_B g = regOp (\<lambda>r. add_s (rB r) r) g"

definition add_A_C :: "gb \<Rightarrow> gb res" where
  "add_A_C g = regOp (\<lambda>r. add_s (rC r) r) g"

definition add_A_D :: "gb \<Rightarrow> gb res" where
  "add_A_D g = regOp (\<lambda>r. add_s (rD r) r) g"

definition add_A_E :: "gb \<Rightarrow> gb res" where
  "add_A_E g = regOp (\<lambda>r. add_s (rE r) r) g"

definition add_A_H :: "gb \<Rightarrow> gb res" where
  "add_A_H g = regOp (\<lambda>r. add_s (rH r) r) g"

definition add_A_L :: "gb \<Rightarrow> gb res" where
  "add_A_L g = regOp (\<lambda>r. add_s (rL r) r) g"

definition add_A_mHL :: "gb \<Rightarrow> gb res" where
  "add_A_mHL g = bind_res (mmuReadByte (rHL (regs g)) g) (\<lambda>v. regOp (add_s v) g)"

definition add_A_A :: "gb \<Rightarrow> gb res" where
  "add_A_A g = regOp (\<lambda>r. add_s (rA r) r) g"

definition adc_A_B :: "gb \<Rightarrow> gb res" where
  "adc_A_B g = regOp (\<lambda>r. adc_s (rB r) r) g"

definition adc_A_C :: "gb \<Rightarrow> gb res" where
  "adc_A_C g = regOp (\<lambda>r. adc_s (rC r) r) g"

definition adc_A_D :: "gb \<Rightarrow> gb res" where
  "adc_A_D g = regOp (\<lambda>r. adc_s (rD r) r) g"

definition adc_A_E :: "gb \<Rightarrow> gb res" where
  "adc_A_E g = regOp (\<lambda>r. adc_s (rE r) r) g"

definition adc_A_H :: "gb \<Rightarrow> gb res" where
  "adc_A_H g = regOp (\<lambda>r. adc_s (rH r) r) g"

definition adc_A_L :: "gb \<Rightarrow> gb res" where
  "adc_A_L g = regOp (\<lambda>r. adc_s (rL r) r) g"

definition adc_A_mHL :: "gb \<Rightarrow> gb res" where
  "adc_A_mHL g = bind_res (mmuReadByte (rHL (regs g)) g) (\<lambda>v. regOp (adc_s v) g)"

definition adc_A_A :: "gb \<Rightarrow> gb res" where
  "adc_A_A g = regOp (\<lambda>r. adc_s (rA r) r) g"

definition sub_A_B :: "gb \<Rightarrow> gb res" where
  "sub_A_B g = regOp (\<lambda>r. sub_s (rB r) r) g"

definition sub_A_C :: "gb \<Rightarrow> gb res" where
  "sub_A_C g = regOp (\<lambda>r. sub_s (rC r) r) g"

definition sub_A_D :: "gb \<Rightarrow> gb res" where
  "sub_A_D g = regOp (\<lambda>r. sub_s (rD r) r) g"

definition sub_A_E :: "gb \<Rightarrow> gb res" where
  "sub_A_E g = regOp (\<lambda>r. sub_s (rE r) r) g"

definition sub_A_H :: "gb \<Rightarrow> gb res" where
  "sub_A_H g = regOp (\<lambda>r. sub_s (rH r) r) g"

definition sub_A_L :: "gb \<Rightarrow> gb res" where
  "sub_A_L g = regOp (\<lambda>r. sub_s (rL r) r) g"

definition sub_A_mHL :: "gb \<Rightarrow> gb res" where
  "sub_A_mHL g = bind_res (mmuReadByte (rHL (regs g)) g) (\<lambda>v. regOp (sub_s v) g)"

definition sub_A_A :: "gb \<Rightarrow> gb res" where
  "sub_A_A g = regOp (\<lambda>r. sub_s (rA r) r) g"

definition sbc_A_B :: "gb \<Rightarrow> gb res" where
  "sbc_A_B g = regOp (\<lambda>r. sbc_s (rB r) r) g"

definition sbc_A_C :: "gb \<Rightarrow> gb res" where
  "sbc_A_C g = regOp (\<lambda>r. sbc_s (rC r) r) g"

definition sbc_A_D :: "gb \<Rightarrow> gb res" where
  "sbc_A_D g = regOp (\<lambda>r. sbc_s (rD r) r) g"

definition sbc_A_E :: "gb \<Rightarrow> gb res" where
  "sbc_A_E g = regOp (\<lambda>r. sbc_s (rE r) r) g"

definition sbc_A_H :: "gb \<Rightarrow> gb res" where
  "sbc_A_H g = regOp (\<lambda>r. sbc_s (rH r) r) g"

definition sbc_A_L :: "gb \<Rightarrow> gb res" where
  "sbc_A_L g = regOp (\<lambda>r. sbc_s (rL r) r) g"

definition sbc_A_mHL :: "gb \<Rightarrow> gb res" where
  "sbc_A_mHL g = bind_res (mmuReadByte (rHL (regs g)) g) (\<lambda>v. regOp (sbc_s v) g)"

definition sbc_A_A :: "gb \<Rightarrow> gb res" where
  "sbc_A_A g = regOp (\<lambda>r. sbc_s (rA r) r) g"

definition and_B :: "gb \<Rightarrow> gb res" where
  "and_B g = regOp (\<lambda>r. and_s (rB r) r) g"

definition and_C :: "gb \<Rightarrow> gb res" where
  "and_C g = regOp (\<lambda>r. and_s (rC r) r) g"

definition and_D :: "gb \<Rightarrow> gb res" where
  "and_D g = regOp (\<lambda>r. and_s (rD r) r) g"

definition and_E :: "gb \<Rightarrow> gb res" where
  "and_E g = regOp (\<lambda>r. and_s (rE r) r) g"

definition and_H :: "gb \<Rightarrow> gb res" where
  "and_H g = regOp (\<lambda>r. and_s (rH r) r) g"

definition and_L :: "gb \<Rightarrow> gb res" where
  "and_L g = regOp (\<lambda>r. and_s (rL r) r) g"

definition and_mHL :: "gb \<Rightarrow> gb res" where
  "and_mHL g = bind_res (mmuReadByte (rHL (regs g)) g) (\<lambda>v. regOp (and_s v) g)"

definition and_A :: "gb \<Rightarrow> gb res" where
  "and_A g = regOp (\<lambda>r. and_s (rA r) r) g"

definition xor_B :: "gb \<Rightarrow> gb res" where
  "xor_B g = regOp (\<lambda>r. xor_s (rB r) r) g"

definition xor_C :: "gb \<Rightarrow> gb res" where
  "xor_C g = regOp (\<lambda>r. xor_s (rC r) r) g"

definition xor_D :: "gb \<Rightarrow> gb res" where
  "xor_D g = regOp (\<lambda>r. xor_s (rD r) r) g"

definition xor_E :: "gb \<Rightarrow> gb res" where
  "xor_E g = regOp (\<lambda>r. xor_s (rE r) r) g"

definition xor_H :: "gb \<Rightarrow> gb res" where
  "xor_H g = regOp (\<lambda>r. xor_s (rH r) r) g"

definition xor_L :: "gb \<Rightarrow> gb res" where
  "xor_L g = regOp (\<lambda>r. xor_s (rL r) r) g"

definition xor_mHL :: "gb \<Rightarrow> gb res" where
  "xor_mHL g = bind_res (mmuReadByte (rHL (regs g)) g) (\<lambda>v. regOp (xor_s v) g)"

definition xor_A :: "gb \<Rightarrow> gb res" where
  "xor_A g = regOp (\<lambda>r. xor_s (rA r) r) g"

definition or_B :: "gb \<Rightarrow> gb res" where
  "or_B g = regOp (\<lambda>r. or_s (rB r) r) g"

definition or_C :: "gb \<Rightarrow> gb res" where
  "or_C g = regOp (\<lambda>r. or_s (rC r) r) g"

definition or_D :: "gb \<Rightarrow> gb res" where
  "or_D g = regOp (\<lambda>r. or_s (rD r) r) g"

definition or_E :: "gb \<Rightarrow> gb res" where
  "or_E g = regOp (\<lambda>r. or_s (rE r) r) g"

definition or_H :: "gb \<Rightarrow> gb res" where
  "or_H g = regOp (\<lambda>r. or_s (rH r) r) g"

definition or_L :: "gb \<Rightarrow> gb res" where
  "or_L g = regOp (\<lambda>r. or_s (rL r) r) g"

definition or_mHL :: "gb \<Rightarrow> gb res" where
  "or_mHL g = bind_res (mmuReadByte (rHL (regs g)) g) (\<lambda>v. regOp (or_s v) g)"

definition or_A :: "gb \<Rightarrow> gb res" where
  "or_A g = regOp (\<lambda>r. or_s (rA r) r) g"

definition cmp_B :: "gb \<Rightarrow> gb res" where
  "cmp_B g = regOp (\<lambda>r. cmp_s (rB r) r) g"

definition cmp_C :: "gb \<Rightarrow> gb res" where
  "cmp_C g = regOp (\<lambda>r. cmp_s (rC r) r) g"

definition cmp_D :: "gb \<Rightarrow> gb res" where
  "cmp_D g = regOp (\<lambda>r. cmp_s (rD r) r) g"

definition cmp_E :: "gb \<Rightarrow> gb res" where
  "cmp_E g = regOp (\<lambda>r. cmp_s (rE r) r) g"

definition cmp_H :: "gb \<Rightarrow> gb res" where
  "cmp_H g = regOp (\<lambda>r. cmp_s (rH r) r) g"

definition cmp_L :: "gb \<Rightarrow> gb res" where
  "cmp_L g = regOp (\<lambda>r. cmp_s (rL r) r) g"

definition cmp_mHL :: "gb \<Rightarrow> gb res" where
  "cmp_mHL g = bind_res (mmuReadByte (rHL (regs g)) g) (\<lambda>v. regOp (cmp_s v) g)"

definition cmp_A :: "gb \<Rightarrow> gb res" where
  "cmp_A g = regOp (\<lambda>r. cmp_s (rA r) r) g"

definition ret_NZ :: "gb \<Rightarrow> gb res" where
  "ret_NZ g = ret_cc flagZero FLAG_NOT_SET g"

definition pop_BC :: "gb \<Rightarrow> gb res" where
  "pop_BC g = pop_dd RegBC g"

definition jp_NZ_nn :: "u16 \<Rightarrow> gb \<Rightarrow> gb res" where
  "jp_NZ_nn immediate g = Inr (jp_cc_nn immediate flagZero FLAG_NOT_SET g)"

definition call_NZ_nn :: "u16 \<Rightarrow> gb \<Rightarrow> gb res" where
  "call_NZ_nn immediate g = call_cc_nn immediate flagZero FLAG_NOT_SET g"

definition push_BC :: "gb \<Rightarrow> gb res" where
  "push_BC g = push_ss (rBC (regs g)) g"

definition add_A_n :: "u8 \<Rightarrow> gb \<Rightarrow> gb res" where
  "add_A_n immediate g = regOp (add_s immediate) g"

definition rst_0 :: "gb \<Rightarrow> gb res" where
  "rst_0 g = rst_f 0x00 g"

definition ret_Z :: "gb \<Rightarrow> gb res" where
  "ret_Z g = ret_cc flagZero FLAG_SET g"

definition jp_Z_nn :: "u16 \<Rightarrow> gb \<Rightarrow> gb res" where
  "jp_Z_nn immediate g = Inr (jp_cc_nn immediate flagZero FLAG_SET g)"

definition extOps :: "gb \<Rightarrow> gb res" where
  "extOps g = Inr g"

definition call_Z_nn :: "u16 \<Rightarrow> gb \<Rightarrow> gb res" where
  "call_Z_nn immediate g = call_cc_nn immediate flagZero FLAG_SET g"

definition adc_A_n :: "u8 \<Rightarrow> gb \<Rightarrow> gb res" where
  "adc_A_n immediate g = regOp (adc_s immediate) g"

definition rst_08 :: "gb \<Rightarrow> gb res" where
  "rst_08 g = rst_f 0x08 g"

definition ret_NC :: "gb \<Rightarrow> gb res" where
  "ret_NC g = ret_cc flagCarry FLAG_NOT_SET g"

definition pop_DE :: "gb \<Rightarrow> gb res" where
  "pop_DE g = pop_dd RegDE g"

definition jp_NC_nn :: "u16 \<Rightarrow> gb \<Rightarrow> gb res" where
  "jp_NC_nn immediate g = Inr (jp_cc_nn immediate flagCarry FLAG_NOT_SET g)"

definition call_NC_nn :: "u16 \<Rightarrow> gb \<Rightarrow> gb res" where
  "call_NC_nn immediate g = call_cc_nn immediate flagCarry FLAG_NOT_SET g"

definition push_DE :: "gb \<Rightarrow> gb res" where
  "push_DE g = push_ss (rDE (regs g)) g"

definition sub_A_n :: "u8 \<Rightarrow> gb \<Rightarrow> gb res" where
  "sub_A_n immediate g = regOp (sub_s immediate) g"

definition rst_10 :: "gb \<Rightarrow> gb res" where
  "rst_10 g = rst_f 0x10 g"

definition ret_C :: "gb \<Rightarrow> gb res" where
  "ret_C g = ret_cc flagCarry FLAG_SET g"

definition jp_C_nn :: "u16 \<Rightarrow> gb \<Rightarrow> gb res" where
  "jp_C_nn immediate g = Inr (jp_cc_nn immediate flagCarry FLAG_SET g)"

definition call_C_nn :: "u16 \<Rightarrow> gb \<Rightarrow> gb res" where
  "call_C_nn immediate g = call_cc_nn immediate flagCarry FLAG_NOT_SET g"

definition sbc_A_n :: "u8 \<Rightarrow> gb \<Rightarrow> gb res" where
  "sbc_A_n immediate g = regOp (sbc_s immediate) g"

definition rst_18 :: "gb \<Rightarrow> gb res" where
  "rst_18 g = rst_f 0x18 g"

definition pop_HL :: "gb \<Rightarrow> gb res" where
  "pop_HL g = pop_dd RegHL g"

definition ldh_mC_A :: "gb \<Rightarrow> gb res" where
  "ldh_mC_A g = ldh_n_A (rC (regs g)) g"

definition push_HL :: "gb \<Rightarrow> gb res" where
  "push_HL g = push_ss (rHL (regs g)) g"

definition and_n :: "u8 \<Rightarrow> gb \<Rightarrow> gb res" where
  "and_n immediate g = regOp (and_s immediate) g"

definition rst_20 :: "gb \<Rightarrow> gb res" where
  "rst_20 g = rst_f 0x20 g"

definition jp_mHL :: "gb \<Rightarrow> gb res" where
  "jp_mHL g = bind_res (mmuReadShort (rHL (regs g)) g) (\<lambda>value. regOp (jp_nn value) g)"

definition ld_nn_A :: "u16 \<Rightarrow> gb \<Rightarrow> gb res" where
  "ld_nn_A immediate g = ld_dd_A immediate g"

definition xor_n :: "u8 \<Rightarrow> gb \<Rightarrow> gb res" where
  "xor_n immediate g = regOp (xor_s immediate) g"

definition rst_28 :: "gb \<Rightarrow> gb res" where
  "rst_28 g = rst_f 0x28 g"

definition pop_AF :: "gb \<Rightarrow> gb res" where
  "pop_AF g = pop_dd RegAF g"

definition push_AF :: "gb \<Rightarrow> gb res" where
  "push_AF g = push_ss (rAF (regs g)) g"

definition or_n :: "u8 \<Rightarrow> gb \<Rightarrow> gb res" where
  "or_n immediate g = regOp (or_s immediate) g"

definition rst_30 :: "gb \<Rightarrow> gb res" where
  "rst_30 g = rst_f 0x30 g"

definition ld_A_m_nn :: "u16 \<Rightarrow> gb \<Rightarrow> gb res" where
  "ld_A_m_nn immediate g = ld_A_ss immediate g"

definition cp_n :: "u8 \<Rightarrow> gb \<Rightarrow> gb res" where
  "cp_n immediate g = regOp (cmp_s immediate) g"

definition rst_38 :: "gb \<Rightarrow> gb res" where
  "rst_38 g = rst_f 0x38 g"

section \<open>Ticks and table\<close>

definition baseOpcodeTicks :: "u64 list" where
  "baseOpcodeTicks =
    [4, 12, 8, 8, 4, 4, 8, 4, 20, 8, 8, 8, 4, 4, 8, 4,
     4, 12, 8, 8, 4, 4, 8, 4, 12, 8, 8, 8, 4, 4, 8, 4,
     8, 12, 8, 8, 4, 4, 8, 4, 8, 8, 8, 8, 4, 4, 8, 4,
     8, 12, 8, 8, 12, 12, 12, 4, 8, 8, 8, 8, 4, 4, 8, 4,
     4, 4, 4, 4, 4, 4, 8, 4, 4, 4, 4, 4, 4, 4, 8, 4,
     4, 4, 4, 4, 4, 4, 8, 4, 4, 4, 4, 4, 4, 4, 8, 4,
     4, 4, 4, 4, 4, 4, 8, 4, 4, 4, 4, 4, 4, 4, 8, 4,
     8, 8, 8, 8, 8, 8, 4, 8, 4, 4, 4, 4, 4, 4, 8, 4,
     4, 4, 4, 4, 4, 4, 8, 4, 4, 4, 4, 4, 4, 4, 8, 4,
     4, 4, 4, 4, 4, 4, 8, 4, 4, 4, 4, 4, 4, 4, 8, 4,
     4, 4, 4, 4, 4, 4, 8, 4, 4, 4, 4, 4, 4, 4, 8, 4,
     4, 4, 4, 4, 4, 4, 8, 4, 4, 4, 4, 4, 4, 4, 8, 4,
     8, 12, 12, 16, 12, 16, 8, 16, 8, 16, 12, 4, 12, 24, 8, 16,
     8, 12, 12, 0, 12, 16, 8, 16, 8, 16, 12, 0, 12, 0, 8, 16,
     12, 12, 8, 0, 0, 16, 8, 16, 16, 4, 16, 0, 0, 0, 8, 16,
     12, 12, 8, 4, 0, 16, 8, 16, 12, 8, 16, 4, 0, 0, 8, 16]"

definition baseRow0 :: "opcode list" where
  "baseRow0 =
    [\<lparr>asmName = ''NOP'', operandType = NO_OPERANDS, opFunction = Fn0 (regOp nop)\<rparr>,
     \<lparr>asmName = ''LD BC,nn'', operandType = OPERAND_SHORT, opFunction = Fn16 ld_BC_nn\<rparr>,
     \<lparr>asmName = ''LD (BC),A'', operandType = NO_OPERANDS, opFunction = Fn0 ld_mBC_A\<rparr>,
     \<lparr>asmName = ''INC BC'', operandType = NO_OPERANDS, opFunction = Fn0 inc_BC\<rparr>,
     \<lparr>asmName = ''INC B'', operandType = NO_OPERANDS, opFunction = Fn0 inc_B\<rparr>,
     \<lparr>asmName = ''DEC B'', operandType = NO_OPERANDS, opFunction = Fn0 dec_B\<rparr>,
     \<lparr>asmName = ''LD B,n'', operandType = OPERAND_CHAR, opFunction = Fn8 ld_B_n\<rparr>,
     \<lparr>asmName = ''RLC A'', operandType = NO_OPERANDS, opFunction = Fn0 (regOp rlc_A)\<rparr>,
     \<lparr>asmName = ''LD (nn),SP'', operandType = OPERAND_SHORT, opFunction = Fn16 ld_nn_SP\<rparr>,
     \<lparr>asmName = ''ADD HL,BC'', operandType = NO_OPERANDS, opFunction = Fn0 add_HL_BC\<rparr>,
     \<lparr>asmName = ''LD A,(BC)'', operandType = NO_OPERANDS, opFunction = Fn0 ld_A_mBC\<rparr>,
     \<lparr>asmName = ''DEC BC'', operandType = NO_OPERANDS, opFunction = Fn0 dec_BC\<rparr>,
     \<lparr>asmName = ''INC C'', operandType = NO_OPERANDS, opFunction = Fn0 inc_C\<rparr>,
     \<lparr>asmName = ''DEC C'', operandType = NO_OPERANDS, opFunction = Fn0 dec_C\<rparr>,
     \<lparr>asmName = ''LD C,n'', operandType = OPERAND_CHAR, opFunction = Fn8 ld_C_n\<rparr>,
     \<lparr>asmName = ''RRC A'', operandType = NO_OPERANDS, opFunction = Fn0 (regOp rrc_A)\<rparr>]"

definition baseRow1 :: "opcode list" where
  "baseRow1 =
    [\<lparr>asmName = ''STOP'', operandType = NO_OPERANDS, opFunction = Fn0 (pureOp stop)\<rparr>,
     \<lparr>asmName = ''LD DE,nn'', operandType = OPERAND_SHORT, opFunction = Fn16 ld_DE_nn\<rparr>,
     \<lparr>asmName = ''LD (DE),A'', operandType = NO_OPERANDS, opFunction = Fn0 ld_mDE_A\<rparr>,
     \<lparr>asmName = ''INC DE'', operandType = NO_OPERANDS, opFunction = Fn0 inc_DE\<rparr>,
     \<lparr>asmName = ''INC D'', operandType = NO_OPERANDS, opFunction = Fn0 inc_D\<rparr>,
     \<lparr>asmName = ''DEC D'', operandType = NO_OPERANDS, opFunction = Fn0 dec_D\<rparr>,
     \<lparr>asmName = ''LD D,n'', operandType = OPERAND_CHAR, opFunction = Fn8 ld_D_n\<rparr>,
     \<lparr>asmName = ''RL A'', operandType = NO_OPERANDS, opFunction = Fn0 (regOp rl_A)\<rparr>,
     \<lparr>asmName = ''JR n'', operandType = OPERAND_CHAR, opFunction = Fn8 (\<lambda>n. regOp (jr_e n))\<rparr>,
     \<lparr>asmName = ''ADD HL,DE'', operandType = NO_OPERANDS, opFunction = Fn0 add_HL_DE\<rparr>,
     \<lparr>asmName = ''LD A,(DE)'', operandType = NO_OPERANDS, opFunction = Fn0 ld_A_mDE\<rparr>,
     \<lparr>asmName = ''DEC DE'', operandType = NO_OPERANDS, opFunction = Fn0 dec_DE\<rparr>,
     \<lparr>asmName = ''INC E'', operandType = NO_OPERANDS, opFunction = Fn0 inc_E\<rparr>,
     \<lparr>asmName = ''DEC E'', operandType = NO_OPERANDS, opFunction = Fn0 dec_E\<rparr>,
     \<lparr>asmName = ''LD E,n'', operandType = OPERAND_CHAR, opFunction = Fn8 ld_E_n\<rparr>,
     \<lparr>asmName = ''RR A'', operandType = NO_OPERANDS, opFunction = Fn0 (regOp rr_A)\<rparr>]"

definition baseRow2 :: "opcode list" where
  "baseRow2 =
    [\<lparr>asmName = ''JR NZ,n'', operandType = OPERAND_CHAR, opFunction = Fn8 jr_NZ_n\<rparr>,
     \<lparr>asmName = ''LD HL,nn'', operandType = OPERAND_SHORT, opFunction = Fn16 ld_HL_nn\<rparr>,
     \<lparr>asmName = ''LDI (HL),A'', operandType = NO_OPERANDS, opFunction = Fn0 ldi_mHL_A\<rparr>,
     \<lparr>asmName = ''INC HL'', operandType = NO_OPERANDS, opFunction = Fn0 inc_HL\<rparr>,
     \<lparr>asmName = ''INC H'', operandType = NO_OPERANDS, opFunction = Fn0 inc_H\<rparr>,
     \<lparr>asmName = ''DEC H'', operandType = NO_OPERANDS, opFunction = Fn0 dec_H\<rparr>,
     \<lparr>asmName = ''LD H,n'', operandType = OPERAND_CHAR, opFunction = Fn8 ld_H_n\<rparr>,
     \<lparr>asmName = ''DAA'', operandType = NO_OPERANDS, opFunction = Fn0 (regOp daa)\<rparr>,
     \<lparr>asmName = ''JR Z,n'', operandType = OPERAND_CHAR, opFunction = Fn8 jr_Z_n\<rparr>,
     \<lparr>asmName = ''ADD HL,HL'', operandType = NO_OPERANDS, opFunction = Fn0 add_HL_HL\<rparr>,
     \<lparr>asmName = ''LDI A,(HL)'', operandType = NO_OPERANDS, opFunction = Fn0 ldi_A_mHL\<rparr>,
     \<lparr>asmName = ''DEC HL'', operandType = NO_OPERANDS, opFunction = Fn0 dec_HL\<rparr>,
     \<lparr>asmName = ''INC L'', operandType = NO_OPERANDS, opFunction = Fn0 inc_L\<rparr>,
     \<lparr>asmName = ''DEC L'', operandType = NO_OPERANDS, opFunction = Fn0 dec_L\<rparr>,
     \<lparr>asmName = ''LD L,n'', operandType = OPERAND_CHAR, opFunction = Fn8 ld_L_n\<rparr>,
     \<lparr>asmName = ''CPL'', operandType = NO_OPERANDS, opFunction = Fn0 (regOp cpl)\<rparr>]"

definition baseRow3 :: "opcode list" where
  "baseRow3 =
    [\<lparr>asmName = ''JR NC,n'', operandType = OPERAND_CHAR, opFunction = Fn8 jr_NC_n\<rparr>,
     \<lparr>asmName = ''LD SP,nn'', operandType = OPERAND_SHORT, opFunction = Fn16 ld_SP_nn\<rparr>,
     \<lparr>asmName = ''LDD (HL),A'', operandType = NO_OPERANDS, opFunction = Fn0 ldd_mHL_A\<rparr>,
     \<lparr>asmName = ''INC SP'', operandType = NO_OPERANDS, opFunction = Fn0 inc_SP\<rparr>,
     \<lparr>asmName = ''INC (HL)'', operandType = NO_OPERANDS, opFunction = Fn0 inc_mHL\<rparr>,
     \<lparr>asmName = ''DEC (HL)'', operandType = NO_OPERANDS, opFunction = Fn0 dec_mHL\<rparr>,
     \<lparr>asmName = ''LD (HL),n'', operandType = OPERAND_CHAR, opFunction = Fn8 ld_d_n\<rparr>,
     \<lparr>asmName = ''SCF'', operandType = NO_OPERANDS, opFunction = Fn0 (regOp scf)\<rparr>,
     \<lparr>asmName = ''JR C,n'', operandType = OPERAND_CHAR, opFunction = Fn8 jr_C_n\<rparr>,
     \<lparr>asmName = ''ADD HL,SP'', operandType = NO_OPERANDS, opFunction = Fn0 add_HL_SP\<rparr>,
     \<lparr>asmName = ''LDD A,(HL)'', operandType = NO_OPERANDS, opFunction = Fn0 ldd_A_mHL\<rparr>,
     \<lparr>asmName = ''DEC SP'', operandType = NO_OPERANDS, opFunction = Fn0 dec_SP\<rparr>,
     \<lparr>asmName = ''INC A'', operandType = NO_OPERANDS, opFunction = Fn0 inc_A\<rparr>,
     \<lparr>asmName = ''DEC A'', operandType = NO_OPERANDS, opFunction = Fn0 dec_A\<rparr>,
     \<lparr>asmName = ''LD A,n'', operandType = OPERAND_CHAR, opFunction = Fn8 ld_A_n\<rparr>,
     \<lparr>asmName = ''CCF'', operandType = NO_OPERANDS, opFunction = Fn0 (regOp ccf)\<rparr>]"

definition baseRow4 :: "opcode list" where
  "baseRow4 =
    [\<lparr>asmName = ''LD B,B'', operandType = NO_OPERANDS, opFunction = Fn0 ld_B_B\<rparr>,
     \<lparr>asmName = ''LD B,C'', operandType = NO_OPERANDS, opFunction = Fn0 ld_B_C\<rparr>,
     \<lparr>asmName = ''LD B,D'', operandType = NO_OPERANDS, opFunction = Fn0 ld_B_D\<rparr>,
     \<lparr>asmName = ''LD B,E'', operandType = NO_OPERANDS, opFunction = Fn0 ld_B_E\<rparr>,
     \<lparr>asmName = ''LD B,H'', operandType = NO_OPERANDS, opFunction = Fn0 ld_B_H\<rparr>,
     \<lparr>asmName = ''LD B,L'', operandType = NO_OPERANDS, opFunction = Fn0 ld_B_L\<rparr>,
     \<lparr>asmName = ''LD B,(HL)'', operandType = NO_OPERANDS, opFunction = Fn0 ld_B_mHL\<rparr>,
     \<lparr>asmName = ''LD B,A'', operandType = NO_OPERANDS, opFunction = Fn0 ld_B_A\<rparr>,
     \<lparr>asmName = ''LD C,B'', operandType = NO_OPERANDS, opFunction = Fn0 ld_C_B\<rparr>,
     \<lparr>asmName = ''LD C,C'', operandType = NO_OPERANDS, opFunction = Fn0 ld_C_C\<rparr>,
     \<lparr>asmName = ''LD C,D'', operandType = NO_OPERANDS, opFunction = Fn0 ld_C_D\<rparr>,
     \<lparr>asmName = ''LD C,E'', operandType = NO_OPERANDS, opFunction = Fn0 ld_C_E\<rparr>,
     \<lparr>asmName = ''LD C,H'', operandType = NO_OPERANDS, opFunction = Fn0 ld_C_H\<rparr>,
     \<lparr>asmName = ''LD C,L'', operandType = NO_OPERANDS, opFunction = Fn0 ld_C_L\<rparr>,
     \<lparr>asmName = ''LD C,(HL)'', operandType = NO_OPERANDS, opFunction = Fn0 ld_C_mHL\<rparr>,
     \<lparr>asmName = ''LD C,A'', operandType = NO_OPERANDS, opFunction = Fn0 ld_C_A\<rparr>]"

definition baseRow5 :: "opcode list" where
  "baseRow5 =
    [\<lparr>asmName = ''LD D,B'', operandType = NO_OPERANDS, opFunction = Fn0 ld_D_B\<rparr>,
     \<lparr>asmName = ''LD D,C'', operandType = NO_OPERANDS, opFunction = Fn0 ld_D_C\<rparr>,
     \<lparr>asmName = ''LD D,D'', operandType = NO_OPERANDS, opFunction = Fn0 ld_D_D\<rparr>,
     \<lparr>asmName = ''LD D,E'', operandType = NO_OPERANDS, opFunction = Fn0 ld_D_E\<rparr>,
     \<lparr>asmName = ''LD D,H'', operandType = NO_OPERANDS, opFunction = Fn0 ld_D_H\<rparr>,
     \<lparr>asmName = ''LD D,L'', operandType = NO_OPERANDS, opFunction = Fn0 ld_D_L\<rparr>,
     \<lparr>asmName = ''LD D,(HL)'', operandType = NO_OPERANDS, opFunction = Fn0 ld_D_mHL\<rparr>,
     \<lparr>asmName = ''LD D,A'', operandType = NO_OPERANDS, opFunction = Fn0 ld_D_A\<rparr>,
     \<lparr>asmName = ''LD E,B'', operandType = NO_OPERANDS, opFunction = Fn0 ld_E_B\<rparr>,
     \<lparr>asmName = ''LD E,C'', operandType = NO_OPERANDS, opFunction = Fn0 ld_E_C\<rparr>,
     \<lparr>asmName = ''LD E,D'', operandType = NO_OPERANDS, opFunction = Fn0 ld_E_D\<rparr>,
     \<lparr>asmName = ''LD E,E'', operandType = NO_OPERANDS, opFunction = Fn0 ld_E_E\<rparr>,
     \<lparr>asmName = ''LD E,H'', operandType = NO_OPERANDS, opFunction = Fn0 ld_E_H\<rparr>,
     \<lparr>asmName = ''LD E,L'', operandType = NO_OPERANDS, opFunction = Fn0 ld_E_L\<rparr>,
     \<lparr>asmName = ''LD E,(HL)'', operandType = NO_OPERANDS, opFunction = Fn0 ld_E_mHL\<rparr>,
     \<lparr>asmName = ''LD E,A'', operandType = NO_OPERANDS, opFunction = Fn0 ld_E_A\<rparr>]"

definition baseRow6 :: "opcode list" where
  "baseRow6 =
    [\<lparr>asmName = ''LD H,B'', operandType = NO_OPERANDS, opFunction = Fn0 ld_H_B\<rparr>,
     \<lparr>asmName = ''LD H,C'', operandType = NO_OPERANDS, opFunction = Fn0 ld_H_C\<rparr>,
     \<lparr>asmName = ''LD H,D'', operandType = NO_OPERANDS, opFunction = Fn0 ld_H_D\<rparr>,
     \<lparr>asmName = ''LD H,E'', operandType = NO_OPERANDS, opFunction = Fn0 ld_H_E\<rparr>,
     \<lparr>asmName = ''LD H,H'', operandType = NO_OPERANDS, opFunction = Fn0 ld_H_H\<rparr>,
     \<lparr>asmName = ''LD H,L'', operandType = NO_OPERANDS, opFunction = Fn0 ld_H_L\<rparr>,
     \<lparr>asmName = ''LD H,(HL)'', operandType = NO_OPERANDS, opFunction = Fn0 ld_H_mHL\<rparr>,
     \<lparr>asmName = ''LD H,A'', operandType = NO_OPERANDS, opFunction = Fn0 ld_H_A\<rparr>,
     \<lparr>asmName = ''LD L,B'', operandType = NO_OPERANDS, opFunction = Fn0 ld_L_B\<rparr>,
     \<lparr>asmName = ''LD L,C'', operandType = NO_OPERANDS, opFunction = Fn0 ld_L_C\<rparr>,
     \<lparr>asmName = ''LD L,D'', operandType = NO_OPERANDS, opFunction = Fn0 ld_L_D\<rparr>,
     \<lparr>asmName = ''LD L,E'', operandType = NO_OPERANDS, opFunction = Fn0 ld_L_E\<rparr>,
     \<lparr>asmName = ''LD L,H'', operandType = NO_OPERANDS, opFunction = Fn0 ld_L_H\<rparr>,
     \<lparr>asmName = ''LD L,L'', operandType = NO_OPERANDS, opFunction = Fn0 ld_L_L\<rparr>,
     \<lparr>asmName = ''LD L,(HL)'', operandType = NO_OPERANDS, opFunction = Fn0 ld_L_mHL\<rparr>,
     \<lparr>asmName = ''LD L,A'', operandType = NO_OPERANDS, opFunction = Fn0 ld_L_A\<rparr>]"

definition baseRow7 :: "opcode list" where
  "baseRow7 =
    [\<lparr>asmName = ''LD (HL),B'', operandType = NO_OPERANDS, opFunction = Fn0 ld_mHL_B\<rparr>,
     \<lparr>asmName = ''LD (HL),C'', operandType = NO_OPERANDS, opFunction = Fn0 ld_mHL_C\<rparr>,
     \<lparr>asmName = ''LD (HL),D'', operandType = NO_OPERANDS, opFunction = Fn0 ld_mHL_D\<rparr>,
     \<lparr>asmName = ''LD (HL),E'', operandType = NO_OPERANDS, opFunction = Fn0 ld_mHL_E\<rparr>,
     \<lparr>asmName = ''LD (HL),H'', operandType = NO_OPERANDS, opFunction = Fn0 ld_mHL_H\<rparr>,
     \<lparr>asmName = ''LD (HL),L'', operandType = NO_OPERANDS, opFunction = Fn0 ld_mHL_L\<rparr>,
     \<lparr>asmName = ''HALT'', operandType = NO_OPERANDS, opFunction = Fn0 (pureOp halt)\<rparr>,
     \<lparr>asmName = ''LD (HL),A'', operandType = NO_OPERANDS, opFunction = Fn0 ld_mHL_A\<rparr>,
     \<lparr>asmName = ''LD A,B'', operandType = NO_OPERANDS, opFunction = Fn0 ld_A_B\<rparr>,
     \<lparr>asmName = ''LD A,C'', operandType = NO_OPERANDS, opFunction = Fn0 ld_A_C\<rparr>,
     \<lparr>asmName = ''LD A,D'', operandType = NO_OPERANDS, opFunction = Fn0 ld_A_D\<rparr>,
     \<lparr>asmName = ''LD A,E'', operandType = NO_OPERANDS, opFunction = Fn0 ld_A_E\<rparr>,
     \<lparr>asmName = ''LD A,H'', operandType = NO_OPERANDS, opFunction = Fn0 ld_A_H\<rparr>,
     \<lparr>asmName = ''LD A,L'', operandType = NO_OPERANDS, opFunction = Fn0 ld_A_L\<rparr>,
     \<lparr>asmName = ''LD A,(HL)'', operandType = NO_OPERANDS, opFunction = Fn0 ld_A_mHL\<rparr>,
     \<lparr>asmName = ''LD A,A'', operandType = NO_OPERANDS, opFunction = Fn0 ld_A_A\<rparr>]"

definition baseRow8 :: "opcode list" where
  "baseRow8 =
    [\<lparr>asmName = ''ADD A,B'', operandType = NO_OPERANDS, opFunction = Fn0 add_A_B\<rparr>,
     \<lparr>asmName = ''ADD A,C'', operandType = NO_OPERANDS, opFunction = Fn0 add_A_C\<rparr>,
     \<lparr>asmName = ''ADD A,D'', operandType = NO_OPERANDS, opFunction = Fn0 add_A_D\<rparr>,
     \<lparr>asmName = ''ADD A,E'', operandType = NO_OPERANDS, opFunction = Fn0 add_A_E\<rparr>,
     \<lparr>asmName = ''ADD A,H'', operandType = NO_OPERANDS, opFunction = Fn0 add_A_H\<rparr>,
     \<lparr>asmName = ''ADD A,L'', operandType = NO_OPERANDS, opFunction = Fn0 add_A_L\<rparr>,
     \<lparr>asmName = ''ADD A,(HL)'', operandType = NO_OPERANDS, opFunction = Fn0 add_A_mHL\<rparr>,
     \<lparr>asmName = ''ADD A,A'', operandType = NO_OPERANDS, opFunction = Fn0 add_A_A\<rparr>,
     \<lparr>asmName = ''ADC A,B'', operandType = NO_OPERANDS, opFunction = Fn0 adc_A_B\<rparr>,
     \<lparr>asmName = ''ADC A,C'', operandType = NO_OPERANDS, opFunction = Fn0 adc_A_C\<rparr>,
     \<lparr>asmName = ''ADC A,D'', operandType = NO_OPERANDS, opFunction = Fn0 adc_A_D\<rparr>,
     \<lparr>asmName = ''ADC A,E'', operandType = NO_OPERANDS, opFunction = Fn0 adc_A_E\<rparr>,
     \<lparr>asmName = ''ADC A,H'', operandType = NO_OPERANDS, opFunction = Fn0 adc_A_H\<rparr>,
     \<lparr>asmName = ''ADC A,L'', operandType = NO_OPERANDS, opFunction = Fn0 adc_A_L\<rparr>,
     \<lparr>asmName = ''ADC A,(HL)'', operandType = NO_OPERANDS, opFunction = Fn0 adc_A_mHL\<rparr>,
     \<lparr>asmName = ''ADC A,A'', operandType = NO_OPERANDS, opFunction = Fn0 adc_A_A\<rparr>]"

definition baseRow9 :: "opcode list" where
  "baseRow9 =
    [\<lparr>asmName = ''SUB A,B'', operandType = NO_OPERANDS, opFunction = Fn0 sub_A_B\<rparr>,
     \<lparr>asmName = ''SUB A,C'', operandType = NO_OPERANDS, opFunction = Fn0 sub_A_C\<rparr>,
     \<lparr>asmName = ''SUB A,D'', operandType = NO_OPERANDS, opFunction = Fn0 sub_A_D\<rparr>,
     \<lparr>asmName = ''SUB A,E'', operandType = NO_OPERANDS, opFunction = Fn0 sub_A_E\<rparr>,
     \<lparr>asmName = ''SUB A,H'', operandType = NO_OPERANDS, opFunction = Fn0 sub_A_H\<rparr>,
     \<lparr>asmName = ''SUB A,L'', operandType = NO_OPERANDS, opFunction = Fn0 sub_A_L\<rparr>,
     \<lparr>asmName = ''SUB A,(HL)'', operandType = NO_OPERANDS, opFunction = Fn0 sub_A_mHL\<rparr>,
     \<lparr>asmName = ''SUB A,A'', operandType = NO_OPERANDS, opFunction = Fn0 sub_A_A\<rparr>,
     \<lparr>asmName = ''SBC A,B'', operandType = NO_OPERANDS, opFunction = Fn0 sbc_A_B\<rparr>,
     \<lparr>asmName = ''SBC A,C'', operandType = NO_OPERANDS, opFunction = Fn0 sbc_A_C\<rparr>,
     \<lparr>asmName = ''SBC A,D'', operandType = NO_OPERANDS, opFunction = Fn0 sbc_A_D\<rparr>,
     \<lparr>asmName = ''SBC A,E'', operandType = NO_OPERANDS, opFunction = Fn0 sbc_A_E\<rparr>,
     \<lparr>asmName = ''SBC A,H'', operandType = NO_OPERANDS, opFunction = Fn0 sbc_A_H\<rparr>,
     \<lparr>asmName = ''SBC A,L'', operandType = NO_OPERANDS, opFunction = Fn0 sbc_A_L\<rparr>,
     \<lparr>asmName = ''SBC A,(HL)'', operandType = NO_OPERANDS, opFunction = Fn0 sbc_A_mHL\<rparr>,
     \<lparr>asmName = ''SBC A,A'', operandType = NO_OPERANDS, opFunction = Fn0 sbc_A_A\<rparr>]"

definition baseRowA :: "opcode list" where
  "baseRowA =
    [\<lparr>asmName = ''AND B'', operandType = NO_OPERANDS, opFunction = Fn0 and_B\<rparr>,
     \<lparr>asmName = ''AND C'', operandType = NO_OPERANDS, opFunction = Fn0 and_C\<rparr>,
     \<lparr>asmName = ''AND D'', operandType = NO_OPERANDS, opFunction = Fn0 and_D\<rparr>,
     \<lparr>asmName = ''AND E'', operandType = NO_OPERANDS, opFunction = Fn0 and_E\<rparr>,
     \<lparr>asmName = ''AND H'', operandType = NO_OPERANDS, opFunction = Fn0 and_H\<rparr>,
     \<lparr>asmName = ''AND L'', operandType = NO_OPERANDS, opFunction = Fn0 and_L\<rparr>,
     \<lparr>asmName = ''AND (HL)'', operandType = NO_OPERANDS, opFunction = Fn0 and_mHL\<rparr>,
     \<lparr>asmName = ''AND A'', operandType = NO_OPERANDS, opFunction = Fn0 and_A\<rparr>,
     \<lparr>asmName = ''XOR B'', operandType = NO_OPERANDS, opFunction = Fn0 xor_B\<rparr>,
     \<lparr>asmName = ''XOR C'', operandType = NO_OPERANDS, opFunction = Fn0 xor_C\<rparr>,
     \<lparr>asmName = ''XOR D'', operandType = NO_OPERANDS, opFunction = Fn0 xor_D\<rparr>,
     \<lparr>asmName = ''XOR E'', operandType = NO_OPERANDS, opFunction = Fn0 xor_E\<rparr>,
     \<lparr>asmName = ''XOR H'', operandType = NO_OPERANDS, opFunction = Fn0 xor_H\<rparr>,
     \<lparr>asmName = ''XOR L'', operandType = NO_OPERANDS, opFunction = Fn0 xor_L\<rparr>,
     \<lparr>asmName = ''XOR (HL)'', operandType = NO_OPERANDS, opFunction = Fn0 xor_mHL\<rparr>,
     \<lparr>asmName = ''XOR A'', operandType = NO_OPERANDS, opFunction = Fn0 xor_A\<rparr>]"

definition baseRowB :: "opcode list" where
  "baseRowB =
    [\<lparr>asmName = ''OR B'', operandType = NO_OPERANDS, opFunction = Fn0 or_B\<rparr>,
     \<lparr>asmName = ''OR C'', operandType = NO_OPERANDS, opFunction = Fn0 or_C\<rparr>,
     \<lparr>asmName = ''OR D'', operandType = NO_OPERANDS, opFunction = Fn0 or_D\<rparr>,
     \<lparr>asmName = ''OR E'', operandType = NO_OPERANDS, opFunction = Fn0 or_E\<rparr>,
     \<lparr>asmName = ''OR H'', operandType = NO_OPERANDS, opFunction = Fn0 or_H\<rparr>,
     \<lparr>asmName = ''OR L'', operandType = NO_OPERANDS, opFunction = Fn0 or_L\<rparr>,
     \<lparr>asmName = ''OR (HL)'', operandType = NO_OPERANDS, opFunction = Fn0 or_mHL\<rparr>,
     \<lparr>asmName = ''OR A'', operandType = NO_OPERANDS, opFunction = Fn0 or_A\<rparr>,
     \<lparr>asmName = ''CP B'', operandType = NO_OPERANDS, opFunction = Fn0 cmp_B\<rparr>,
     \<lparr>asmName = ''CP C'', operandType = NO_OPERANDS, opFunction = Fn0 cmp_C\<rparr>,
     \<lparr>asmName = ''CP D'', operandType = NO_OPERANDS, opFunction = Fn0 cmp_D\<rparr>,
     \<lparr>asmName = ''CP E'', operandType = NO_OPERANDS, opFunction = Fn0 cmp_E\<rparr>,
     \<lparr>asmName = ''CP H'', operandType = NO_OPERANDS, opFunction = Fn0 cmp_H\<rparr>,
     \<lparr>asmName = ''CP L'', operandType = NO_OPERANDS, opFunction = Fn0 cmp_L\<rparr>,
     \<lparr>asmName = ''CP (HL)'', operandType = NO_OPERANDS, opFunction = Fn0 cmp_mHL\<rparr>,
     \<lparr>asmName = ''CP A'', operandType = NO_OPERANDS, opFunction = Fn0 cmp_A\<rparr>]"

definition baseRowC :: "opcode list" where
  "baseRowC =
    [\<lparr>asmName = ''RET NZ'', operandType = NO_OPERANDS, opFunction = Fn0 ret_NZ\<rparr>,
     \<lparr>asmName = ''POP BC'', operandType = NO_OPERANDS, opFunction = Fn0 pop_BC\<rparr>,
     \<lparr>asmName = ''JP NZ,nn'', operandType = OPERAND_SHORT, opFunction = Fn16 jp_NZ_nn\<rparr>,
     \<lparr>asmName = ''JP nn'', operandType = OPERAND_SHORT, opFunction = Fn16 (\<lambda>nn. regOp (jp_nn nn))\<rparr>,
     \<lparr>asmName = ''CALL NZ,nn'', operandType = OPERAND_SHORT, opFunction = Fn16 call_NZ_nn\<rparr>,
     \<lparr>asmName = ''PUSH BC'', operandType = NO_OPERANDS, opFunction = Fn0 push_BC\<rparr>,
     \<lparr>asmName = ''ADD A,n'', operandType = OPERAND_CHAR, opFunction = Fn8 add_A_n\<rparr>,
     \<lparr>asmName = ''RST 0'', operandType = NO_OPERANDS, opFunction = Fn0 rst_0\<rparr>,
     \<lparr>asmName = ''RET Z'', operandType = NO_OPERANDS, opFunction = Fn0 ret_Z\<rparr>,
     \<lparr>asmName = ''RET'', operandType = NO_OPERANDS, opFunction = Fn0 ret\<rparr>,
     \<lparr>asmName = ''JP Z,nn'', operandType = OPERAND_SHORT, opFunction = Fn16 jp_Z_nn\<rparr>,
     \<lparr>asmName = ''Ext ops'', operandType = OPERAND_CHAR, opFunction = Fn0 extOps\<rparr>,
     \<lparr>asmName = ''CALL Z,nn'', operandType = OPERAND_SHORT, opFunction = Fn16 call_Z_nn\<rparr>,
     \<lparr>asmName = ''CALL nn'', operandType = OPERAND_SHORT, opFunction = Fn16 call_nn\<rparr>,
     \<lparr>asmName = ''ADC A,n'', operandType = OPERAND_CHAR, opFunction = Fn8 adc_A_n\<rparr>,
     \<lparr>asmName = ''RST 8'', operandType = NO_OPERANDS, opFunction = Fn0 rst_08\<rparr>]"

definition baseRowD :: "opcode list" where
  "baseRowD =
    [\<lparr>asmName = ''RET NC'', operandType = NO_OPERANDS, opFunction = Fn0 ret_NC\<rparr>,
     \<lparr>asmName = ''POP DE'', operandType = NO_OPERANDS, opFunction = Fn0 pop_DE\<rparr>,
     \<lparr>asmName = ''JP NC,nn'', operandType = OPERAND_SHORT, opFunction = Fn16 jp_NC_nn\<rparr>,
     \<lparr>asmName = ''undefined'', operandType = NO_OPERANDS, opFunction = Fn0 (regOp undefined_op)\<rparr>,
     \<lparr>asmName = ''CALL NC,nn'', operandType = OPERAND_SHORT, opFunction = Fn16 call_NC_nn\<rparr>,
     \<lparr>asmName = ''PUSH DE'', operandType = NO_OPERANDS, opFunction = Fn0 push_DE\<rparr>,
     \<lparr>asmName = ''SUB A,n'', operandType = OPERAND_CHAR, opFunction = Fn8 sub_A_n\<rparr>,
     \<lparr>asmName = ''RST 10'', operandType = NO_OPERANDS, opFunction = Fn0 rst_10\<rparr>,
     \<lparr>asmName = ''RET C'', operandType = NO_OPERANDS, opFunction = Fn0 ret_C\<rparr>,
     \<lparr>asmName = ''RETI'', operandType = NO_OPERANDS, opFunction = Fn0 reti\<rparr>,
     \<lparr>asmName = ''JP C,nn'', operandType = OPERAND_SHORT, opFunction = Fn16 jp_C_nn\<rparr>,
     \<lparr>asmName = ''undefined'', operandType = NO_OPERANDS, opFunction = Fn0 (regOp undefined_op)\<rparr>,
     \<lparr>asmName = ''CALL C,nn'', operandType = OPERAND_SHORT, opFunction = Fn16 call_C_nn\<rparr>,
     \<lparr>asmName = ''undefined'', operandType = NO_OPERANDS, opFunction = Fn0 (regOp undefined_op)\<rparr>,
     \<lparr>asmName = ''SBC A,n'', operandType = OPERAND_CHAR, opFunction = Fn8 sbc_A_n\<rparr>,
     \<lparr>asmName = ''RST 18'', operandType = NO_OPERANDS, opFunction = Fn0 rst_18\<rparr>]"

definition baseRowE :: "opcode list" where
  "baseRowE =
    [\<lparr>asmName = ''LDH (n),A'', operandType = OPERAND_CHAR, opFunction = Fn8 ldh_n_A\<rparr>,
     \<lparr>asmName = ''POP HL'', operandType = NO_OPERANDS, opFunction = Fn0 pop_HL\<rparr>,
     \<lparr>asmName = ''LDH (C),A'', operandType = NO_OPERANDS, opFunction = Fn0 ldh_mC_A\<rparr>,
     \<lparr>asmName = ''undefined'', operandType = NO_OPERANDS, opFunction = Fn0 (regOp undefined_op)\<rparr>,
     \<lparr>asmName = ''undefined'', operandType = NO_OPERANDS, opFunction = Fn0 (regOp undefined_op)\<rparr>,
     \<lparr>asmName = ''PUSH HL'', operandType = NO_OPERANDS, opFunction = Fn0 push_HL\<rparr>,
     \<lparr>asmName = ''AND n'', operandType = OPERAND_CHAR, opFunction = Fn8 and_n\<rparr>,
     \<lparr>asmName = ''RST 20'', operandType = NO_OPERANDS, opFunction = Fn0 rst_20\<rparr>,
     \<lparr>asmName = ''ADD SP,d'', operandType = OPERAND_CHAR, opFunction = Fn8 (\<lambda>n. regOp (add_SP_e n))\<rparr>,
     \<lparr>asmName = ''JP (HL)'', operandType = NO_OPERANDS, opFunction = Fn0 jp_mHL\<rparr>,
     \<lparr>asmName = ''LD (nn),A'', operandType = OPERAND_SHORT, opFunction = Fn16 ld_nn_A\<rparr>,
     \<lparr>asmName = ''undefined'', operandType = NO_OPERANDS, opFunction = Fn0 (regOp undefined_op)\<rparr>,
     \<lparr>asmName = ''undefined'', operandType = NO_OPERANDS, opFunction = Fn0 (regOp undefined_op)\<rparr>,
     \<lparr>asmName = ''undefined'', operandType = NO_OPERANDS, opFunction = Fn0 (regOp undefined_op)\<rparr>,
     \<lparr>asmName = ''XOR n'', operandType = OPERAND_CHAR, opFunction = Fn8 xor_n\<rparr>,
     \<lparr>asmName = ''RST 28'', operandType = NO_OPERANDS, opFunction = Fn0 rst_28\<rparr>]"

definition baseRowF :: "opcode list" where
  "baseRowF =
    [\<lparr>asmName = ''LDH A,(n)'', operandType = OPERAND_CHAR, opFunction = Fn8 ldh_A_n\<rparr>,
     \<lparr>asmName = ''POP AF'', operandType = NO_OPERANDS, opFunction = Fn0 pop_AF\<rparr>,
     \<lparr>asmName = ''undefined'', operandType = NO_OPERANDS, opFunction = Fn0 (regOp undefined_op)\<rparr>,
     \<lparr>asmName = ''DI'', operandType = NO_OPERANDS, opFunction = Fn0 (pureOp di)\<rparr>,
     \<lparr>asmName = ''undefined'', operandType = NO_OPERANDS, opFunction = Fn0 (regOp undefined_op)\<rparr>,
     \<lparr>asmName = ''PUSH AF'', operandType = NO_OPERANDS, opFunction = Fn0 push_AF\<rparr>,
     \<lparr>asmName = ''OR n'', operandType = OPERAND_CHAR, opFunction = Fn8 or_n\<rparr>,
     \<lparr>asmName = ''RST 30'', operandType = NO_OPERANDS, opFunction = Fn0 rst_30\<rparr>,
     \<lparr>asmName = ''LDHL SP,d'', operandType = OPERAND_CHAR, opFunction = Fn8 (\<lambda>n. regOp (ld_HL_SP_e n))\<rparr>,
     \<lparr>asmName = ''LD SP,HL'', operandType = NO_OPERANDS, opFunction = Fn0 (regOp ld_SP_HL)\<rparr>,
     \<lparr>asmName = ''LD A,(nn)'', operandType = OPERAND_SHORT, opFunction = Fn16 ld_A_m_nn\<rparr>,
     \<lparr>asmName = ''EI'', operandType = NO_OPERANDS, opFunction = Fn0 (pureOp ei)\<rparr>,
     \<lparr>asmName = ''undefined'', operandType = NO_OPERANDS, opFunction = Fn0 (regOp undefined_op)\<rparr>,
     \<lparr>asmName = ''undefined'', operandType = NO_OPERANDS, opFunction = Fn0 (regOp undefined_op)\<rparr>,
     \<lparr>asmName = ''CP n'', operandType = OPERAND_CHAR, opFunction = Fn8 cp_n\<rparr>,
     \<lparr>asmName = ''RST 38'', operandType = NO_OPERANDS, opFunction = Fn0 rst_38\<rparr>]"

definition baseOpcodeTable :: "opcode list" where
  "baseOpcodeTable = baseRow0 @ baseRow1 @ baseRow2 @ baseRow3 @ baseRow4 @ baseRow5 @ baseRow6 @ baseRow7 @ baseRow8 @ baseRow9 @ baseRowA @ baseRowB @ baseRowC @ baseRowD @ baseRowE @ baseRowF"

end
