(* ===== verification/Cb_Table.thy ===== *)
theory Cb_Table
  imports Opcode
begin

text \<open>
  \<^verbatim>\<open>src/CBOpcodeTable.c\<close>: the opcodes after the prefix CBh. One definition per function of the file, in its order, then the
  tick counts and the table, sixteen entries to a row.
\<close>

section \<open>Functions\<close>

definition rlc_B :: "gb \<Rightarrow> gb res" where
  "rlc_B g = regOp (rlc_s RegB) g"

definition rlc_C :: "gb \<Rightarrow> gb res" where
  "rlc_C g = regOp (rlc_s RegC) g"

definition rlc_D :: "gb \<Rightarrow> gb res" where
  "rlc_D g = regOp (rlc_s RegD) g"

definition rlc_E :: "gb \<Rightarrow> gb res" where
  "rlc_E g = regOp (rlc_s RegE) g"

definition rlc_H :: "gb \<Rightarrow> gb res" where
  "rlc_H g = regOp (rlc_s RegH) g"

definition rlc_L :: "gb \<Rightarrow> gb res" where
  "rlc_L g = regOp (rlc_s RegL) g"

definition rlc_mHL :: "gb \<Rightarrow> gb res" where
  "rlc_mHL g = rlc_sHL g"

definition rrc_B :: "gb \<Rightarrow> gb res" where
  "rrc_B g = regOp (rrc_s RegB) g"

definition rrc_C :: "gb \<Rightarrow> gb res" where
  "rrc_C g = regOp (rrc_s RegC) g"

definition rrc_D :: "gb \<Rightarrow> gb res" where
  "rrc_D g = regOp (rrc_s RegD) g"

definition rrc_E :: "gb \<Rightarrow> gb res" where
  "rrc_E g = regOp (rrc_s RegE) g"

definition rrc_H :: "gb \<Rightarrow> gb res" where
  "rrc_H g = regOp (rrc_s RegH) g"

definition rrc_L :: "gb \<Rightarrow> gb res" where
  "rrc_L g = regOp (rrc_s RegL) g"

definition rrc_mHL :: "gb \<Rightarrow> gb res" where
  "rrc_mHL g = rrc_sHL g"

definition rl_B :: "gb \<Rightarrow> gb res" where
  "rl_B g = regOp (rl_s RegB) g"

definition rl_C :: "gb \<Rightarrow> gb res" where
  "rl_C g = regOp (rl_s RegC) g"

definition rl_D :: "gb \<Rightarrow> gb res" where
  "rl_D g = regOp (rl_s RegD) g"

definition rl_E :: "gb \<Rightarrow> gb res" where
  "rl_E g = regOp (rl_s RegE) g"

definition rl_H :: "gb \<Rightarrow> gb res" where
  "rl_H g = regOp (rl_s RegH) g"

definition rl_L :: "gb \<Rightarrow> gb res" where
  "rl_L g = regOp (rl_s RegL) g"

definition rl_mHL :: "gb \<Rightarrow> gb res" where
  "rl_mHL g = rl_sHL g"

definition rr_B :: "gb \<Rightarrow> gb res" where
  "rr_B g = regOp (rr_s RegB) g"

definition rr_C :: "gb \<Rightarrow> gb res" where
  "rr_C g = regOp (rr_s RegC) g"

definition rr_D :: "gb \<Rightarrow> gb res" where
  "rr_D g = regOp (rr_s RegD) g"

definition rr_E :: "gb \<Rightarrow> gb res" where
  "rr_E g = regOp (rr_s RegE) g"

definition rr_H :: "gb \<Rightarrow> gb res" where
  "rr_H g = regOp (rr_s RegH) g"

definition rr_L :: "gb \<Rightarrow> gb res" where
  "rr_L g = regOp (rr_s RegL) g"

definition rr_mHL :: "gb \<Rightarrow> gb res" where
  "rr_mHL g = rr_sHL g"

definition sla_B :: "gb \<Rightarrow> gb res" where
  "sla_B g = regOp (sla_s RegB) g"

definition sla_C :: "gb \<Rightarrow> gb res" where
  "sla_C g = regOp (sla_s RegC) g"

definition sla_D :: "gb \<Rightarrow> gb res" where
  "sla_D g = regOp (sla_s RegD) g"

definition sla_E :: "gb \<Rightarrow> gb res" where
  "sla_E g = regOp (sla_s RegE) g"

definition sla_H :: "gb \<Rightarrow> gb res" where
  "sla_H g = regOp (sla_s RegH) g"

definition sla_L :: "gb \<Rightarrow> gb res" where
  "sla_L g = regOp (sla_s RegL) g"

definition sla_mHL :: "gb \<Rightarrow> gb res" where
  "sla_mHL g = sla_sHL g"

definition sla_A :: "gb \<Rightarrow> gb res" where
  "sla_A g = regOp (sla_s RegA) g"

definition sra_B :: "gb \<Rightarrow> gb res" where
  "sra_B g = regOp (sra_s RegB) g"

definition sra_C :: "gb \<Rightarrow> gb res" where
  "sra_C g = regOp (sra_s RegC) g"

definition sra_D :: "gb \<Rightarrow> gb res" where
  "sra_D g = regOp (sra_s RegD) g"

definition sra_E :: "gb \<Rightarrow> gb res" where
  "sra_E g = regOp (sra_s RegE) g"

definition sra_H :: "gb \<Rightarrow> gb res" where
  "sra_H g = regOp (sra_s RegH) g"

definition sra_L :: "gb \<Rightarrow> gb res" where
  "sra_L g = regOp (sra_s RegL) g"

definition sra_mHL :: "gb \<Rightarrow> gb res" where
  "sra_mHL g = sra_sHL g"

definition sra_A :: "gb \<Rightarrow> gb res" where
  "sra_A g = regOp (sra_s RegA) g"

definition swap_B :: "gb \<Rightarrow> gb res" where
  "swap_B g = regOp (swap_s RegB) g"

definition swap_C :: "gb \<Rightarrow> gb res" where
  "swap_C g = regOp (swap_s RegC) g"

definition swap_D :: "gb \<Rightarrow> gb res" where
  "swap_D g = regOp (swap_s RegD) g"

definition swap_E :: "gb \<Rightarrow> gb res" where
  "swap_E g = regOp (swap_s RegE) g"

definition swap_H :: "gb \<Rightarrow> gb res" where
  "swap_H g = regOp (swap_s RegH) g"

definition swap_L :: "gb \<Rightarrow> gb res" where
  "swap_L g = regOp (swap_s RegL) g"

definition swap_mHL :: "gb \<Rightarrow> gb res" where
  "swap_mHL g = swap_sHL g"

definition swap_A :: "gb \<Rightarrow> gb res" where
  "swap_A g = regOp (swap_s RegA) g"

definition srl_B :: "gb \<Rightarrow> gb res" where
  "srl_B g = regOp (srl_s RegB) g"

definition srl_C :: "gb \<Rightarrow> gb res" where
  "srl_C g = regOp (srl_s RegC) g"

definition srl_D :: "gb \<Rightarrow> gb res" where
  "srl_D g = regOp (srl_s RegD) g"

definition srl_E :: "gb \<Rightarrow> gb res" where
  "srl_E g = regOp (srl_s RegE) g"

definition srl_H :: "gb \<Rightarrow> gb res" where
  "srl_H g = regOp (srl_s RegH) g"

definition srl_L :: "gb \<Rightarrow> gb res" where
  "srl_L g = regOp (srl_s RegL) g"

definition srl_mHL :: "gb \<Rightarrow> gb res" where
  "srl_mHL g = srl_sHL g"

definition srl_A :: "gb \<Rightarrow> gb res" where
  "srl_A g = regOp (srl_s RegA) g"

definition bit_0_B :: "gb \<Rightarrow> gb res" where
  "bit_0_B g = regOpRes (bit_b_s 0 RegB) g"

definition bit_0_C :: "gb \<Rightarrow> gb res" where
  "bit_0_C g = regOpRes (bit_b_s 0 RegC) g"

definition bit_0_D :: "gb \<Rightarrow> gb res" where
  "bit_0_D g = regOpRes (bit_b_s 0 RegD) g"

definition bit_0_E :: "gb \<Rightarrow> gb res" where
  "bit_0_E g = regOpRes (bit_b_s 0 RegE) g"

definition bit_0_H :: "gb \<Rightarrow> gb res" where
  "bit_0_H g = regOpRes (bit_b_s 0 RegH) g"

definition bit_0_L :: "gb \<Rightarrow> gb res" where
  "bit_0_L g = regOpRes (bit_b_s 0 RegL) g"

definition bit_0_mHL :: "gb \<Rightarrow> gb res" where
  "bit_0_mHL g = bit_b_sHL 0 g"

definition bit_0_A :: "gb \<Rightarrow> gb res" where
  "bit_0_A g = regOpRes (bit_b_s 0 RegA) g"

definition bit_1_B :: "gb \<Rightarrow> gb res" where
  "bit_1_B g = regOpRes (bit_b_s 1 RegB) g"

definition bit_1_C :: "gb \<Rightarrow> gb res" where
  "bit_1_C g = regOpRes (bit_b_s 1 RegC) g"

definition bit_1_D :: "gb \<Rightarrow> gb res" where
  "bit_1_D g = regOpRes (bit_b_s 1 RegD) g"

definition bit_1_E :: "gb \<Rightarrow> gb res" where
  "bit_1_E g = regOpRes (bit_b_s 1 RegE) g"

definition bit_1_H :: "gb \<Rightarrow> gb res" where
  "bit_1_H g = regOpRes (bit_b_s 1 RegH) g"

definition bit_1_L :: "gb \<Rightarrow> gb res" where
  "bit_1_L g = regOpRes (bit_b_s 1 RegL) g"

definition bit_1_mHL :: "gb \<Rightarrow> gb res" where
  "bit_1_mHL g = bit_b_sHL 1 g"

definition bit_1_A :: "gb \<Rightarrow> gb res" where
  "bit_1_A g = regOpRes (bit_b_s 1 RegA) g"

definition bit_2_B :: "gb \<Rightarrow> gb res" where
  "bit_2_B g = regOpRes (bit_b_s 2 RegB) g"

definition bit_2_C :: "gb \<Rightarrow> gb res" where
  "bit_2_C g = regOpRes (bit_b_s 2 RegC) g"

definition bit_2_D :: "gb \<Rightarrow> gb res" where
  "bit_2_D g = regOpRes (bit_b_s 2 RegD) g"

definition bit_2_E :: "gb \<Rightarrow> gb res" where
  "bit_2_E g = regOpRes (bit_b_s 2 RegE) g"

definition bit_2_H :: "gb \<Rightarrow> gb res" where
  "bit_2_H g = regOpRes (bit_b_s 2 RegH) g"

definition bit_2_L :: "gb \<Rightarrow> gb res" where
  "bit_2_L g = regOpRes (bit_b_s 2 RegL) g"

definition bit_2_mHL :: "gb \<Rightarrow> gb res" where
  "bit_2_mHL g = bit_b_sHL 2 g"

definition bit_2_A :: "gb \<Rightarrow> gb res" where
  "bit_2_A g = regOpRes (bit_b_s 2 RegA) g"

definition bit_3_B :: "gb \<Rightarrow> gb res" where
  "bit_3_B g = regOpRes (bit_b_s 3 RegB) g"

definition bit_3_C :: "gb \<Rightarrow> gb res" where
  "bit_3_C g = regOpRes (bit_b_s 3 RegC) g"

definition bit_3_D :: "gb \<Rightarrow> gb res" where
  "bit_3_D g = regOpRes (bit_b_s 3 RegD) g"

definition bit_3_E :: "gb \<Rightarrow> gb res" where
  "bit_3_E g = regOpRes (bit_b_s 3 RegE) g"

definition bit_3_H :: "gb \<Rightarrow> gb res" where
  "bit_3_H g = regOpRes (bit_b_s 3 RegH) g"

definition bit_3_L :: "gb \<Rightarrow> gb res" where
  "bit_3_L g = regOpRes (bit_b_s 3 RegL) g"

definition bit_3_mHL :: "gb \<Rightarrow> gb res" where
  "bit_3_mHL g = bit_b_sHL 3 g"

definition bit_3_A :: "gb \<Rightarrow> gb res" where
  "bit_3_A g = regOpRes (bit_b_s 3 RegA) g"

definition bit_4_B :: "gb \<Rightarrow> gb res" where
  "bit_4_B g = regOpRes (bit_b_s 4 RegB) g"

definition bit_4_C :: "gb \<Rightarrow> gb res" where
  "bit_4_C g = regOpRes (bit_b_s 4 RegC) g"

definition bit_4_D :: "gb \<Rightarrow> gb res" where
  "bit_4_D g = regOpRes (bit_b_s 4 RegD) g"

definition bit_4_E :: "gb \<Rightarrow> gb res" where
  "bit_4_E g = regOpRes (bit_b_s 4 RegE) g"

definition bit_4_H :: "gb \<Rightarrow> gb res" where
  "bit_4_H g = regOpRes (bit_b_s 4 RegH) g"

definition bit_4_L :: "gb \<Rightarrow> gb res" where
  "bit_4_L g = regOpRes (bit_b_s 4 RegL) g"

definition bit_4_mHL :: "gb \<Rightarrow> gb res" where
  "bit_4_mHL g = bit_b_sHL 4 g"

definition bit_4_A :: "gb \<Rightarrow> gb res" where
  "bit_4_A g = regOpRes (bit_b_s 4 RegA) g"

definition bit_5_B :: "gb \<Rightarrow> gb res" where
  "bit_5_B g = regOpRes (bit_b_s 5 RegB) g"

definition bit_5_C :: "gb \<Rightarrow> gb res" where
  "bit_5_C g = regOpRes (bit_b_s 5 RegC) g"

definition bit_5_D :: "gb \<Rightarrow> gb res" where
  "bit_5_D g = regOpRes (bit_b_s 5 RegD) g"

definition bit_5_E :: "gb \<Rightarrow> gb res" where
  "bit_5_E g = regOpRes (bit_b_s 5 RegE) g"

definition bit_5_H :: "gb \<Rightarrow> gb res" where
  "bit_5_H g = regOpRes (bit_b_s 5 RegH) g"

definition bit_5_L :: "gb \<Rightarrow> gb res" where
  "bit_5_L g = regOpRes (bit_b_s 5 RegL) g"

definition bit_5_mHL :: "gb \<Rightarrow> gb res" where
  "bit_5_mHL g = bit_b_sHL 5 g"

definition bit_5_A :: "gb \<Rightarrow> gb res" where
  "bit_5_A g = regOpRes (bit_b_s 5 RegA) g"

definition bit_6_B :: "gb \<Rightarrow> gb res" where
  "bit_6_B g = regOpRes (bit_b_s 6 RegB) g"

definition bit_6_C :: "gb \<Rightarrow> gb res" where
  "bit_6_C g = regOpRes (bit_b_s 6 RegC) g"

definition bit_6_D :: "gb \<Rightarrow> gb res" where
  "bit_6_D g = regOpRes (bit_b_s 6 RegD) g"

definition bit_6_E :: "gb \<Rightarrow> gb res" where
  "bit_6_E g = regOpRes (bit_b_s 6 RegE) g"

definition bit_6_H :: "gb \<Rightarrow> gb res" where
  "bit_6_H g = regOpRes (bit_b_s 6 RegH) g"

definition bit_6_L :: "gb \<Rightarrow> gb res" where
  "bit_6_L g = regOpRes (bit_b_s 6 RegL) g"

definition bit_6_mHL :: "gb \<Rightarrow> gb res" where
  "bit_6_mHL g = bit_b_sHL 6 g"

definition bit_6_A :: "gb \<Rightarrow> gb res" where
  "bit_6_A g = regOpRes (bit_b_s 6 RegA) g"

definition bit_7_B :: "gb \<Rightarrow> gb res" where
  "bit_7_B g = regOpRes (bit_b_s 7 RegB) g"

definition bit_7_C :: "gb \<Rightarrow> gb res" where
  "bit_7_C g = regOpRes (bit_b_s 7 RegC) g"

definition bit_7_D :: "gb \<Rightarrow> gb res" where
  "bit_7_D g = regOpRes (bit_b_s 7 RegD) g"

definition bit_7_E :: "gb \<Rightarrow> gb res" where
  "bit_7_E g = regOpRes (bit_b_s 7 RegE) g"

definition bit_7_H :: "gb \<Rightarrow> gb res" where
  "bit_7_H g = regOpRes (bit_b_s 7 RegH) g"

definition bit_7_L :: "gb \<Rightarrow> gb res" where
  "bit_7_L g = regOpRes (bit_b_s 7 RegL) g"

definition bit_7_mHL :: "gb \<Rightarrow> gb res" where
  "bit_7_mHL g = bit_b_sHL 7 g"

definition bit_7_A :: "gb \<Rightarrow> gb res" where
  "bit_7_A g = regOpRes (bit_b_s 7 RegA) g"

definition res_0_B :: "gb \<Rightarrow> gb res" where
  "res_0_B g = regOpRes (res_b_s 0 RegB) g"

definition res_0_C :: "gb \<Rightarrow> gb res" where
  "res_0_C g = regOpRes (res_b_s 0 RegC) g"

definition res_0_D :: "gb \<Rightarrow> gb res" where
  "res_0_D g = regOpRes (res_b_s 0 RegD) g"

definition res_0_E :: "gb \<Rightarrow> gb res" where
  "res_0_E g = regOpRes (res_b_s 0 RegE) g"

definition res_0_H :: "gb \<Rightarrow> gb res" where
  "res_0_H g = regOpRes (res_b_s 0 RegH) g"

definition res_0_L :: "gb \<Rightarrow> gb res" where
  "res_0_L g = regOpRes (res_b_s 0 RegL) g"

definition res_0_mHL :: "gb \<Rightarrow> gb res" where
  "res_0_mHL g = res_b_sHL 0 g"

definition res_0_A :: "gb \<Rightarrow> gb res" where
  "res_0_A g = regOpRes (res_b_s 0 RegA) g"

definition res_1_B :: "gb \<Rightarrow> gb res" where
  "res_1_B g = regOpRes (res_b_s 1 RegB) g"

definition res_1_C :: "gb \<Rightarrow> gb res" where
  "res_1_C g = regOpRes (res_b_s 1 RegC) g"

definition res_1_D :: "gb \<Rightarrow> gb res" where
  "res_1_D g = regOpRes (res_b_s 1 RegD) g"

definition res_1_E :: "gb \<Rightarrow> gb res" where
  "res_1_E g = regOpRes (res_b_s 1 RegE) g"

definition res_1_H :: "gb \<Rightarrow> gb res" where
  "res_1_H g = regOpRes (res_b_s 1 RegH) g"

definition res_1_L :: "gb \<Rightarrow> gb res" where
  "res_1_L g = regOpRes (res_b_s 1 RegL) g"

definition res_1_mHL :: "gb \<Rightarrow> gb res" where
  "res_1_mHL g = res_b_sHL 1 g"

definition res_1_A :: "gb \<Rightarrow> gb res" where
  "res_1_A g = regOpRes (res_b_s 1 RegA) g"

definition res_2_B :: "gb \<Rightarrow> gb res" where
  "res_2_B g = regOpRes (res_b_s 2 RegB) g"

definition res_2_C :: "gb \<Rightarrow> gb res" where
  "res_2_C g = regOpRes (res_b_s 2 RegC) g"

definition res_2_D :: "gb \<Rightarrow> gb res" where
  "res_2_D g = regOpRes (res_b_s 2 RegD) g"

definition res_2_E :: "gb \<Rightarrow> gb res" where
  "res_2_E g = regOpRes (res_b_s 2 RegE) g"

definition res_2_H :: "gb \<Rightarrow> gb res" where
  "res_2_H g = regOpRes (res_b_s 2 RegH) g"

definition res_2_L :: "gb \<Rightarrow> gb res" where
  "res_2_L g = regOpRes (res_b_s 2 RegL) g"

definition res_2_mHL :: "gb \<Rightarrow> gb res" where
  "res_2_mHL g = res_b_sHL 2 g"

definition res_2_A :: "gb \<Rightarrow> gb res" where
  "res_2_A g = regOpRes (res_b_s 2 RegA) g"

definition res_3_B :: "gb \<Rightarrow> gb res" where
  "res_3_B g = regOpRes (res_b_s 3 RegB) g"

definition res_3_C :: "gb \<Rightarrow> gb res" where
  "res_3_C g = regOpRes (res_b_s 3 RegC) g"

definition res_3_D :: "gb \<Rightarrow> gb res" where
  "res_3_D g = regOpRes (res_b_s 3 RegD) g"

definition res_3_E :: "gb \<Rightarrow> gb res" where
  "res_3_E g = regOpRes (res_b_s 3 RegE) g"

definition res_3_H :: "gb \<Rightarrow> gb res" where
  "res_3_H g = regOpRes (res_b_s 3 RegH) g"

definition res_3_L :: "gb \<Rightarrow> gb res" where
  "res_3_L g = regOpRes (res_b_s 3 RegL) g"

definition res_3_mHL :: "gb \<Rightarrow> gb res" where
  "res_3_mHL g = res_b_sHL 3 g"

definition res_3_A :: "gb \<Rightarrow> gb res" where
  "res_3_A g = regOpRes (res_b_s 3 RegA) g"

definition res_4_B :: "gb \<Rightarrow> gb res" where
  "res_4_B g = regOpRes (res_b_s 4 RegB) g"

definition res_4_C :: "gb \<Rightarrow> gb res" where
  "res_4_C g = regOpRes (res_b_s 4 RegC) g"

definition res_4_D :: "gb \<Rightarrow> gb res" where
  "res_4_D g = regOpRes (res_b_s 4 RegD) g"

definition res_4_E :: "gb \<Rightarrow> gb res" where
  "res_4_E g = regOpRes (res_b_s 4 RegE) g"

definition res_4_H :: "gb \<Rightarrow> gb res" where
  "res_4_H g = regOpRes (res_b_s 4 RegH) g"

definition res_4_L :: "gb \<Rightarrow> gb res" where
  "res_4_L g = regOpRes (res_b_s 4 RegL) g"

definition res_4_mHL :: "gb \<Rightarrow> gb res" where
  "res_4_mHL g = res_b_sHL 4 g"

definition res_4_A :: "gb \<Rightarrow> gb res" where
  "res_4_A g = regOpRes (res_b_s 4 RegA) g"

definition res_5_B :: "gb \<Rightarrow> gb res" where
  "res_5_B g = regOpRes (res_b_s 5 RegB) g"

definition res_5_C :: "gb \<Rightarrow> gb res" where
  "res_5_C g = regOpRes (res_b_s 5 RegC) g"

definition res_5_D :: "gb \<Rightarrow> gb res" where
  "res_5_D g = regOpRes (res_b_s 5 RegD) g"

definition res_5_E :: "gb \<Rightarrow> gb res" where
  "res_5_E g = regOpRes (res_b_s 5 RegE) g"

definition res_5_H :: "gb \<Rightarrow> gb res" where
  "res_5_H g = regOpRes (res_b_s 5 RegH) g"

definition res_5_L :: "gb \<Rightarrow> gb res" where
  "res_5_L g = regOpRes (res_b_s 5 RegL) g"

definition res_5_mHL :: "gb \<Rightarrow> gb res" where
  "res_5_mHL g = res_b_sHL 5 g"

definition res_5_A :: "gb \<Rightarrow> gb res" where
  "res_5_A g = regOpRes (res_b_s 5 RegA) g"

definition res_6_B :: "gb \<Rightarrow> gb res" where
  "res_6_B g = regOpRes (res_b_s 6 RegB) g"

definition res_6_C :: "gb \<Rightarrow> gb res" where
  "res_6_C g = regOpRes (res_b_s 6 RegC) g"

definition res_6_D :: "gb \<Rightarrow> gb res" where
  "res_6_D g = regOpRes (res_b_s 6 RegD) g"

definition res_6_E :: "gb \<Rightarrow> gb res" where
  "res_6_E g = regOpRes (res_b_s 6 RegE) g"

definition res_6_H :: "gb \<Rightarrow> gb res" where
  "res_6_H g = regOpRes (res_b_s 6 RegH) g"

definition res_6_L :: "gb \<Rightarrow> gb res" where
  "res_6_L g = regOpRes (res_b_s 6 RegL) g"

definition res_6_mHL :: "gb \<Rightarrow> gb res" where
  "res_6_mHL g = res_b_sHL 6 g"

definition res_6_A :: "gb \<Rightarrow> gb res" where
  "res_6_A g = regOpRes (res_b_s 6 RegA) g"

definition res_7_B :: "gb \<Rightarrow> gb res" where
  "res_7_B g = regOpRes (res_b_s 7 RegB) g"

definition res_7_C :: "gb \<Rightarrow> gb res" where
  "res_7_C g = regOpRes (res_b_s 7 RegC) g"

definition res_7_D :: "gb \<Rightarrow> gb res" where
  "res_7_D g = regOpRes (res_b_s 7 RegD) g"

definition res_7_E :: "gb \<Rightarrow> gb res" where
  "res_7_E g = regOpRes (res_b_s 7 RegE) g"

definition res_7_H :: "gb \<Rightarrow> gb res" where
  "res_7_H g = regOpRes (res_b_s 7 RegH) g"

definition res_7_L :: "gb \<Rightarrow> gb res" where
  "res_7_L g = regOpRes (res_b_s 7 RegL) g"

definition res_7_mHL :: "gb \<Rightarrow> gb res" where
  "res_7_mHL g = res_b_sHL 7 g"

definition res_7_A :: "gb \<Rightarrow> gb res" where
  "res_7_A g = regOpRes (res_b_s 7 RegA) g"

definition set_0_B :: "gb \<Rightarrow> gb res" where
  "set_0_B g = regOpRes (set_b_s 0 RegB) g"

definition set_0_C :: "gb \<Rightarrow> gb res" where
  "set_0_C g = regOpRes (set_b_s 0 RegC) g"

definition set_0_D :: "gb \<Rightarrow> gb res" where
  "set_0_D g = regOpRes (set_b_s 0 RegD) g"

definition set_0_E :: "gb \<Rightarrow> gb res" where
  "set_0_E g = regOpRes (set_b_s 0 RegE) g"

definition set_0_H :: "gb \<Rightarrow> gb res" where
  "set_0_H g = regOpRes (set_b_s 0 RegH) g"

definition set_0_L :: "gb \<Rightarrow> gb res" where
  "set_0_L g = regOpRes (set_b_s 0 RegL) g"

definition set_0_mHL :: "gb \<Rightarrow> gb res" where
  "set_0_mHL g = set_b_sHL 0 g"

definition set_0_A :: "gb \<Rightarrow> gb res" where
  "set_0_A g = regOpRes (set_b_s 0 RegA) g"

definition set_1_B :: "gb \<Rightarrow> gb res" where
  "set_1_B g = regOpRes (set_b_s 1 RegB) g"

definition set_1_C :: "gb \<Rightarrow> gb res" where
  "set_1_C g = regOpRes (set_b_s 1 RegC) g"

definition set_1_D :: "gb \<Rightarrow> gb res" where
  "set_1_D g = regOpRes (set_b_s 1 RegD) g"

definition set_1_E :: "gb \<Rightarrow> gb res" where
  "set_1_E g = regOpRes (set_b_s 1 RegE) g"

definition set_1_H :: "gb \<Rightarrow> gb res" where
  "set_1_H g = regOpRes (set_b_s 1 RegH) g"

definition set_1_L :: "gb \<Rightarrow> gb res" where
  "set_1_L g = regOpRes (set_b_s 1 RegL) g"

definition set_1_mHL :: "gb \<Rightarrow> gb res" where
  "set_1_mHL g = set_b_sHL 1 g"

definition set_1_A :: "gb \<Rightarrow> gb res" where
  "set_1_A g = regOpRes (set_b_s 1 RegA) g"

definition set_2_B :: "gb \<Rightarrow> gb res" where
  "set_2_B g = regOpRes (set_b_s 2 RegB) g"

definition set_2_C :: "gb \<Rightarrow> gb res" where
  "set_2_C g = regOpRes (set_b_s 2 RegC) g"

definition set_2_D :: "gb \<Rightarrow> gb res" where
  "set_2_D g = regOpRes (set_b_s 2 RegD) g"

definition set_2_E :: "gb \<Rightarrow> gb res" where
  "set_2_E g = regOpRes (set_b_s 2 RegE) g"

definition set_2_H :: "gb \<Rightarrow> gb res" where
  "set_2_H g = regOpRes (set_b_s 2 RegH) g"

definition set_2_L :: "gb \<Rightarrow> gb res" where
  "set_2_L g = regOpRes (set_b_s 2 RegL) g"

definition set_2_mHL :: "gb \<Rightarrow> gb res" where
  "set_2_mHL g = set_b_sHL 2 g"

definition set_2_A :: "gb \<Rightarrow> gb res" where
  "set_2_A g = regOpRes (set_b_s 2 RegA) g"

definition set_3_B :: "gb \<Rightarrow> gb res" where
  "set_3_B g = regOpRes (set_b_s 3 RegB) g"

definition set_3_C :: "gb \<Rightarrow> gb res" where
  "set_3_C g = regOpRes (set_b_s 3 RegC) g"

definition set_3_D :: "gb \<Rightarrow> gb res" where
  "set_3_D g = regOpRes (set_b_s 3 RegD) g"

definition set_3_E :: "gb \<Rightarrow> gb res" where
  "set_3_E g = regOpRes (set_b_s 3 RegE) g"

definition set_3_H :: "gb \<Rightarrow> gb res" where
  "set_3_H g = regOpRes (set_b_s 3 RegH) g"

definition set_3_L :: "gb \<Rightarrow> gb res" where
  "set_3_L g = regOpRes (set_b_s 3 RegL) g"

definition set_3_mHL :: "gb \<Rightarrow> gb res" where
  "set_3_mHL g = set_b_sHL 3 g"

definition set_3_A :: "gb \<Rightarrow> gb res" where
  "set_3_A g = regOpRes (set_b_s 3 RegA) g"

definition set_4_B :: "gb \<Rightarrow> gb res" where
  "set_4_B g = regOpRes (set_b_s 4 RegB) g"

definition set_4_C :: "gb \<Rightarrow> gb res" where
  "set_4_C g = regOpRes (set_b_s 4 RegC) g"

definition set_4_D :: "gb \<Rightarrow> gb res" where
  "set_4_D g = regOpRes (set_b_s 4 RegD) g"

definition set_4_E :: "gb \<Rightarrow> gb res" where
  "set_4_E g = regOpRes (set_b_s 4 RegE) g"

definition set_4_H :: "gb \<Rightarrow> gb res" where
  "set_4_H g = regOpRes (set_b_s 4 RegH) g"

definition set_4_L :: "gb \<Rightarrow> gb res" where
  "set_4_L g = regOpRes (set_b_s 4 RegL) g"

definition set_4_mHL :: "gb \<Rightarrow> gb res" where
  "set_4_mHL g = set_b_sHL 4 g"

definition set_4_A :: "gb \<Rightarrow> gb res" where
  "set_4_A g = regOpRes (set_b_s 4 RegA) g"

definition set_5_B :: "gb \<Rightarrow> gb res" where
  "set_5_B g = regOpRes (set_b_s 5 RegB) g"

definition set_5_C :: "gb \<Rightarrow> gb res" where
  "set_5_C g = regOpRes (set_b_s 5 RegC) g"

definition set_5_D :: "gb \<Rightarrow> gb res" where
  "set_5_D g = regOpRes (set_b_s 5 RegD) g"

definition set_5_E :: "gb \<Rightarrow> gb res" where
  "set_5_E g = regOpRes (set_b_s 5 RegE) g"

definition set_5_H :: "gb \<Rightarrow> gb res" where
  "set_5_H g = regOpRes (set_b_s 5 RegH) g"

definition set_5_L :: "gb \<Rightarrow> gb res" where
  "set_5_L g = regOpRes (set_b_s 5 RegL) g"

definition set_5_mHL :: "gb \<Rightarrow> gb res" where
  "set_5_mHL g = set_b_sHL 5 g"

definition set_5_A :: "gb \<Rightarrow> gb res" where
  "set_5_A g = regOpRes (set_b_s 5 RegA) g"

definition set_6_B :: "gb \<Rightarrow> gb res" where
  "set_6_B g = regOpRes (set_b_s 6 RegB) g"

definition set_6_C :: "gb \<Rightarrow> gb res" where
  "set_6_C g = regOpRes (set_b_s 6 RegC) g"

definition set_6_D :: "gb \<Rightarrow> gb res" where
  "set_6_D g = regOpRes (set_b_s 6 RegD) g"

definition set_6_E :: "gb \<Rightarrow> gb res" where
  "set_6_E g = regOpRes (set_b_s 6 RegE) g"

definition set_6_H :: "gb \<Rightarrow> gb res" where
  "set_6_H g = regOpRes (set_b_s 6 RegH) g"

definition set_6_L :: "gb \<Rightarrow> gb res" where
  "set_6_L g = regOpRes (set_b_s 6 RegL) g"

definition set_6_mHL :: "gb \<Rightarrow> gb res" where
  "set_6_mHL g = set_b_sHL 6 g"

definition set_6_A :: "gb \<Rightarrow> gb res" where
  "set_6_A g = regOpRes (set_b_s 6 RegA) g"

definition set_7_B :: "gb \<Rightarrow> gb res" where
  "set_7_B g = regOpRes (set_b_s 7 RegB) g"

definition set_7_C :: "gb \<Rightarrow> gb res" where
  "set_7_C g = regOpRes (set_b_s 7 RegC) g"

definition set_7_D :: "gb \<Rightarrow> gb res" where
  "set_7_D g = regOpRes (set_b_s 7 RegD) g"

definition set_7_E :: "gb \<Rightarrow> gb res" where
  "set_7_E g = regOpRes (set_b_s 7 RegE) g"

definition set_7_H :: "gb \<Rightarrow> gb res" where
  "set_7_H g = regOpRes (set_b_s 7 RegH) g"

definition set_7_L :: "gb \<Rightarrow> gb res" where
  "set_7_L g = regOpRes (set_b_s 7 RegL) g"

definition set_7_mHL :: "gb \<Rightarrow> gb res" where
  "set_7_mHL g = set_b_sHL 7 g"

definition set_7_A :: "gb \<Rightarrow> gb res" where
  "set_7_A g = regOpRes (set_b_s 7 RegA) g"

section \<open>Ticks and table\<close>

definition cbOpcodeTicks :: "u64 list" where
  "cbOpcodeTicks =
    [8, 8, 8, 8, 8, 8, 16, 8, 8, 8, 8, 8, 8, 8, 16, 8,
     8, 8, 8, 8, 8, 8, 16, 8, 8, 8, 8, 8, 8, 8, 16, 8,
     8, 8, 8, 8, 8, 8, 16, 8, 8, 8, 8, 8, 8, 8, 16, 8,
     8, 8, 8, 8, 8, 8, 16, 8, 8, 8, 8, 8, 8, 8, 16, 8,
     8, 8, 8, 8, 8, 8, 12, 8, 8, 8, 8, 8, 8, 8, 12, 8,
     8, 8, 8, 8, 8, 8, 12, 8, 8, 8, 8, 8, 8, 8, 12, 8,
     8, 8, 8, 8, 8, 8, 12, 8, 8, 8, 8, 8, 8, 8, 12, 8,
     8, 8, 8, 8, 8, 8, 12, 8, 8, 8, 8, 8, 8, 8, 12, 8,
     8, 8, 8, 8, 8, 8, 12, 8, 8, 8, 8, 8, 8, 8, 12, 8,
     8, 8, 8, 8, 8, 8, 12, 8, 8, 8, 8, 8, 8, 8, 12, 8,
     8, 8, 8, 8, 8, 8, 12, 8, 8, 8, 8, 8, 8, 8, 12, 8,
     8, 8, 8, 8, 8, 8, 12, 8, 8, 8, 8, 8, 8, 8, 12, 8,
     8, 8, 8, 8, 8, 8, 12, 8, 8, 8, 8, 8, 8, 8, 12, 8,
     8, 8, 8, 8, 8, 8, 12, 8, 8, 8, 8, 8, 8, 8, 12, 8,
     8, 8, 8, 8, 8, 8, 12, 8, 8, 8, 8, 8, 8, 8, 12, 8,
     8, 8, 8, 8, 8, 8, 12, 8, 8, 8, 8, 8, 8, 8, 12, 8]"

definition cbRow0 :: "opcode list" where
  "cbRow0 =
    [\<lparr>asmName = ''RLC B'', operandType = NO_OPERANDS, opFunction = Fn0 rlc_B\<rparr>,
     \<lparr>asmName = ''RLC C'', operandType = NO_OPERANDS, opFunction = Fn0 rlc_C\<rparr>,
     \<lparr>asmName = ''RLC D'', operandType = NO_OPERANDS, opFunction = Fn0 rlc_D\<rparr>,
     \<lparr>asmName = ''RLC E'', operandType = NO_OPERANDS, opFunction = Fn0 rlc_E\<rparr>,
     \<lparr>asmName = ''RLC H'', operandType = NO_OPERANDS, opFunction = Fn0 rlc_H\<rparr>,
     \<lparr>asmName = ''RLC L'', operandType = NO_OPERANDS, opFunction = Fn0 rlc_L\<rparr>,
     \<lparr>asmName = ''RLC (HL)'', operandType = NO_OPERANDS, opFunction = Fn0 rlc_mHL\<rparr>,
     \<lparr>asmName = ''RLC A'', operandType = NO_OPERANDS, opFunction = Fn0 (regOp rlc_A)\<rparr>,
     \<lparr>asmName = ''RRC B'', operandType = NO_OPERANDS, opFunction = Fn0 rrc_B\<rparr>,
     \<lparr>asmName = ''RRC C'', operandType = NO_OPERANDS, opFunction = Fn0 rrc_C\<rparr>,
     \<lparr>asmName = ''RRC D'', operandType = NO_OPERANDS, opFunction = Fn0 rrc_D\<rparr>,
     \<lparr>asmName = ''RRC E'', operandType = NO_OPERANDS, opFunction = Fn0 rrc_E\<rparr>,
     \<lparr>asmName = ''RRC H'', operandType = NO_OPERANDS, opFunction = Fn0 rrc_H\<rparr>,
     \<lparr>asmName = ''RRC L'', operandType = NO_OPERANDS, opFunction = Fn0 rrc_L\<rparr>,
     \<lparr>asmName = ''RRC (HR)'', operandType = NO_OPERANDS, opFunction = Fn0 rrc_mHL\<rparr>,
     \<lparr>asmName = ''RRC A'', operandType = NO_OPERANDS, opFunction = Fn0 (regOp rrc_A)\<rparr>]"

definition cbRow1 :: "opcode list" where
  "cbRow1 =
    [\<lparr>asmName = ''RL B'', operandType = NO_OPERANDS, opFunction = Fn0 rl_B\<rparr>,
     \<lparr>asmName = ''RL C'', operandType = NO_OPERANDS, opFunction = Fn0 rl_C\<rparr>,
     \<lparr>asmName = ''RL D'', operandType = NO_OPERANDS, opFunction = Fn0 rl_D\<rparr>,
     \<lparr>asmName = ''RL E'', operandType = NO_OPERANDS, opFunction = Fn0 rl_E\<rparr>,
     \<lparr>asmName = ''RL H'', operandType = NO_OPERANDS, opFunction = Fn0 rl_H\<rparr>,
     \<lparr>asmName = ''RL L'', operandType = NO_OPERANDS, opFunction = Fn0 rl_L\<rparr>,
     \<lparr>asmName = ''RL (HL)'', operandType = NO_OPERANDS, opFunction = Fn0 rl_mHL\<rparr>,
     \<lparr>asmName = ''RL A'', operandType = NO_OPERANDS, opFunction = Fn0 (regOp rl_A)\<rparr>,
     \<lparr>asmName = ''RR B'', operandType = NO_OPERANDS, opFunction = Fn0 rr_B\<rparr>,
     \<lparr>asmName = ''RR C'', operandType = NO_OPERANDS, opFunction = Fn0 rr_C\<rparr>,
     \<lparr>asmName = ''RR D'', operandType = NO_OPERANDS, opFunction = Fn0 rr_D\<rparr>,
     \<lparr>asmName = ''RR E'', operandType = NO_OPERANDS, opFunction = Fn0 rr_E\<rparr>,
     \<lparr>asmName = ''RR H'', operandType = NO_OPERANDS, opFunction = Fn0 rr_H\<rparr>,
     \<lparr>asmName = ''RR L'', operandType = NO_OPERANDS, opFunction = Fn0 rr_L\<rparr>,
     \<lparr>asmName = ''RR (HR)'', operandType = NO_OPERANDS, opFunction = Fn0 rr_mHL\<rparr>,
     \<lparr>asmName = ''RR A'', operandType = NO_OPERANDS, opFunction = Fn0 (regOp rr_A)\<rparr>]"

definition cbRow2 :: "opcode list" where
  "cbRow2 =
    [\<lparr>asmName = ''SLA B'', operandType = NO_OPERANDS, opFunction = Fn0 sla_B\<rparr>,
     \<lparr>asmName = ''SLA C'', operandType = NO_OPERANDS, opFunction = Fn0 sla_C\<rparr>,
     \<lparr>asmName = ''SLA D'', operandType = NO_OPERANDS, opFunction = Fn0 sla_D\<rparr>,
     \<lparr>asmName = ''SLA E'', operandType = NO_OPERANDS, opFunction = Fn0 sla_E\<rparr>,
     \<lparr>asmName = ''SLA H'', operandType = NO_OPERANDS, opFunction = Fn0 sla_H\<rparr>,
     \<lparr>asmName = ''SLA L'', operandType = NO_OPERANDS, opFunction = Fn0 sla_L\<rparr>,
     \<lparr>asmName = ''SLA (HL)'', operandType = NO_OPERANDS, opFunction = Fn0 sla_mHL\<rparr>,
     \<lparr>asmName = ''SLA A'', operandType = NO_OPERANDS, opFunction = Fn0 sla_A\<rparr>,
     \<lparr>asmName = ''SRA B'', operandType = NO_OPERANDS, opFunction = Fn0 sra_B\<rparr>,
     \<lparr>asmName = ''SRA C'', operandType = NO_OPERANDS, opFunction = Fn0 sra_C\<rparr>,
     \<lparr>asmName = ''SRA D'', operandType = NO_OPERANDS, opFunction = Fn0 sra_D\<rparr>,
     \<lparr>asmName = ''SRA E'', operandType = NO_OPERANDS, opFunction = Fn0 sra_E\<rparr>,
     \<lparr>asmName = ''SRA H'', operandType = NO_OPERANDS, opFunction = Fn0 sra_H\<rparr>,
     \<lparr>asmName = ''SRA L'', operandType = NO_OPERANDS, opFunction = Fn0 sra_L\<rparr>,
     \<lparr>asmName = ''SRA (HL)'', operandType = NO_OPERANDS, opFunction = Fn0 sra_mHL\<rparr>,
     \<lparr>asmName = ''SRA A'', operandType = NO_OPERANDS, opFunction = Fn0 sra_A\<rparr>]"

definition cbRow3 :: "opcode list" where
  "cbRow3 =
    [\<lparr>asmName = ''SWAP B'', operandType = NO_OPERANDS, opFunction = Fn0 swap_B\<rparr>,
     \<lparr>asmName = ''SWAP C'', operandType = NO_OPERANDS, opFunction = Fn0 swap_C\<rparr>,
     \<lparr>asmName = ''SWAP D'', operandType = NO_OPERANDS, opFunction = Fn0 swap_D\<rparr>,
     \<lparr>asmName = ''SWAP E'', operandType = NO_OPERANDS, opFunction = Fn0 swap_E\<rparr>,
     \<lparr>asmName = ''SWAP H'', operandType = NO_OPERANDS, opFunction = Fn0 swap_H\<rparr>,
     \<lparr>asmName = ''SWAP L'', operandType = NO_OPERANDS, opFunction = Fn0 swap_L\<rparr>,
     \<lparr>asmName = ''SWAP (HL)'', operandType = NO_OPERANDS, opFunction = Fn0 swap_mHL\<rparr>,
     \<lparr>asmName = ''SWAP A'', operandType = NO_OPERANDS, opFunction = Fn0 swap_A\<rparr>,
     \<lparr>asmName = ''SRL B'', operandType = NO_OPERANDS, opFunction = Fn0 srl_B\<rparr>,
     \<lparr>asmName = ''SRL C'', operandType = NO_OPERANDS, opFunction = Fn0 srl_C\<rparr>,
     \<lparr>asmName = ''SRL D'', operandType = NO_OPERANDS, opFunction = Fn0 srl_D\<rparr>,
     \<lparr>asmName = ''SRL E'', operandType = NO_OPERANDS, opFunction = Fn0 srl_E\<rparr>,
     \<lparr>asmName = ''SRL H'', operandType = NO_OPERANDS, opFunction = Fn0 srl_H\<rparr>,
     \<lparr>asmName = ''SRL L'', operandType = NO_OPERANDS, opFunction = Fn0 srl_L\<rparr>,
     \<lparr>asmName = ''SRL (HL)'', operandType = NO_OPERANDS, opFunction = Fn0 srl_mHL\<rparr>,
     \<lparr>asmName = ''SRL A'', operandType = NO_OPERANDS, opFunction = Fn0 srl_A\<rparr>]"

definition cbRow4 :: "opcode list" where
  "cbRow4 =
    [\<lparr>asmName = ''BIT 0,B'', operandType = NO_OPERANDS, opFunction = Fn0 bit_0_B\<rparr>,
     \<lparr>asmName = ''BIT 0,C'', operandType = NO_OPERANDS, opFunction = Fn0 bit_0_C\<rparr>,
     \<lparr>asmName = ''BIT 0,D'', operandType = NO_OPERANDS, opFunction = Fn0 bit_0_D\<rparr>,
     \<lparr>asmName = ''BIT 0,E'', operandType = NO_OPERANDS, opFunction = Fn0 bit_0_E\<rparr>,
     \<lparr>asmName = ''BIT 0,H'', operandType = NO_OPERANDS, opFunction = Fn0 bit_0_H\<rparr>,
     \<lparr>asmName = ''BIT 0,L'', operandType = NO_OPERANDS, opFunction = Fn0 bit_0_L\<rparr>,
     \<lparr>asmName = ''BIT 0,(HL)'', operandType = NO_OPERANDS, opFunction = Fn0 bit_0_mHL\<rparr>,
     \<lparr>asmName = ''BIT 0,A'', operandType = NO_OPERANDS, opFunction = Fn0 bit_0_A\<rparr>,
     \<lparr>asmName = ''BIT 1,B'', operandType = NO_OPERANDS, opFunction = Fn0 bit_1_B\<rparr>,
     \<lparr>asmName = ''BIT 1,C'', operandType = NO_OPERANDS, opFunction = Fn0 bit_1_C\<rparr>,
     \<lparr>asmName = ''BIT 1,D'', operandType = NO_OPERANDS, opFunction = Fn0 bit_1_D\<rparr>,
     \<lparr>asmName = ''BIT 1,E'', operandType = NO_OPERANDS, opFunction = Fn0 bit_1_E\<rparr>,
     \<lparr>asmName = ''BIT 1,H'', operandType = NO_OPERANDS, opFunction = Fn0 bit_1_H\<rparr>,
     \<lparr>asmName = ''BIT 1,L'', operandType = NO_OPERANDS, opFunction = Fn0 bit_1_L\<rparr>,
     \<lparr>asmName = ''BIT 1,(HL)'', operandType = NO_OPERANDS, opFunction = Fn0 bit_1_mHL\<rparr>,
     \<lparr>asmName = ''BIT 1,A'', operandType = NO_OPERANDS, opFunction = Fn0 bit_1_A\<rparr>]"

definition cbRow5 :: "opcode list" where
  "cbRow5 =
    [\<lparr>asmName = ''BIT 2,B'', operandType = NO_OPERANDS, opFunction = Fn0 bit_2_B\<rparr>,
     \<lparr>asmName = ''BIT 2,C'', operandType = NO_OPERANDS, opFunction = Fn0 bit_2_C\<rparr>,
     \<lparr>asmName = ''BIT 2,D'', operandType = NO_OPERANDS, opFunction = Fn0 bit_2_D\<rparr>,
     \<lparr>asmName = ''BIT 2,E'', operandType = NO_OPERANDS, opFunction = Fn0 bit_2_E\<rparr>,
     \<lparr>asmName = ''BIT 2,H'', operandType = NO_OPERANDS, opFunction = Fn0 bit_2_H\<rparr>,
     \<lparr>asmName = ''BIT 2,L'', operandType = NO_OPERANDS, opFunction = Fn0 bit_2_L\<rparr>,
     \<lparr>asmName = ''BIT 2,(HL)'', operandType = NO_OPERANDS, opFunction = Fn0 bit_2_mHL\<rparr>,
     \<lparr>asmName = ''BIT 2,A'', operandType = NO_OPERANDS, opFunction = Fn0 bit_2_A\<rparr>,
     \<lparr>asmName = ''BIT 3,B'', operandType = NO_OPERANDS, opFunction = Fn0 bit_3_B\<rparr>,
     \<lparr>asmName = ''BIT 3,C'', operandType = NO_OPERANDS, opFunction = Fn0 bit_3_C\<rparr>,
     \<lparr>asmName = ''BIT 3,D'', operandType = NO_OPERANDS, opFunction = Fn0 bit_3_D\<rparr>,
     \<lparr>asmName = ''BIT 3,E'', operandType = NO_OPERANDS, opFunction = Fn0 bit_3_E\<rparr>,
     \<lparr>asmName = ''BIT 3,H'', operandType = NO_OPERANDS, opFunction = Fn0 bit_3_H\<rparr>,
     \<lparr>asmName = ''BIT 3,L'', operandType = NO_OPERANDS, opFunction = Fn0 bit_3_L\<rparr>,
     \<lparr>asmName = ''BIT 3,(HL)'', operandType = NO_OPERANDS, opFunction = Fn0 bit_3_mHL\<rparr>,
     \<lparr>asmName = ''BIT 3,A'', operandType = NO_OPERANDS, opFunction = Fn0 bit_3_A\<rparr>]"

definition cbRow6 :: "opcode list" where
  "cbRow6 =
    [\<lparr>asmName = ''BIT 4,B'', operandType = NO_OPERANDS, opFunction = Fn0 bit_4_B\<rparr>,
     \<lparr>asmName = ''BIT 4,C'', operandType = NO_OPERANDS, opFunction = Fn0 bit_4_C\<rparr>,
     \<lparr>asmName = ''BIT 4,D'', operandType = NO_OPERANDS, opFunction = Fn0 bit_4_D\<rparr>,
     \<lparr>asmName = ''BIT 4,E'', operandType = NO_OPERANDS, opFunction = Fn0 bit_4_E\<rparr>,
     \<lparr>asmName = ''BIT 4,H'', operandType = NO_OPERANDS, opFunction = Fn0 bit_4_H\<rparr>,
     \<lparr>asmName = ''BIT 4,L'', operandType = NO_OPERANDS, opFunction = Fn0 bit_4_L\<rparr>,
     \<lparr>asmName = ''BIT 4,(HL)'', operandType = NO_OPERANDS, opFunction = Fn0 bit_4_mHL\<rparr>,
     \<lparr>asmName = ''BIT 4,A'', operandType = NO_OPERANDS, opFunction = Fn0 bit_4_A\<rparr>,
     \<lparr>asmName = ''BIT 5,B'', operandType = NO_OPERANDS, opFunction = Fn0 bit_5_B\<rparr>,
     \<lparr>asmName = ''BIT 5,C'', operandType = NO_OPERANDS, opFunction = Fn0 bit_5_C\<rparr>,
     \<lparr>asmName = ''BIT 5,D'', operandType = NO_OPERANDS, opFunction = Fn0 bit_5_D\<rparr>,
     \<lparr>asmName = ''BIT 5,E'', operandType = NO_OPERANDS, opFunction = Fn0 bit_5_E\<rparr>,
     \<lparr>asmName = ''BIT 5,H'', operandType = NO_OPERANDS, opFunction = Fn0 bit_5_H\<rparr>,
     \<lparr>asmName = ''BIT 5,L'', operandType = NO_OPERANDS, opFunction = Fn0 bit_5_L\<rparr>,
     \<lparr>asmName = ''BIT 5,(HL)'', operandType = NO_OPERANDS, opFunction = Fn0 bit_5_mHL\<rparr>,
     \<lparr>asmName = ''BIT 5,A'', operandType = NO_OPERANDS, opFunction = Fn0 bit_5_A\<rparr>]"

definition cbRow7 :: "opcode list" where
  "cbRow7 =
    [\<lparr>asmName = ''BIT 6,B'', operandType = NO_OPERANDS, opFunction = Fn0 bit_6_B\<rparr>,
     \<lparr>asmName = ''BIT 6,C'', operandType = NO_OPERANDS, opFunction = Fn0 bit_6_C\<rparr>,
     \<lparr>asmName = ''BIT 6,D'', operandType = NO_OPERANDS, opFunction = Fn0 bit_6_D\<rparr>,
     \<lparr>asmName = ''BIT 6,E'', operandType = NO_OPERANDS, opFunction = Fn0 bit_6_E\<rparr>,
     \<lparr>asmName = ''BIT 6,H'', operandType = NO_OPERANDS, opFunction = Fn0 bit_6_H\<rparr>,
     \<lparr>asmName = ''BIT 6,L'', operandType = NO_OPERANDS, opFunction = Fn0 bit_6_L\<rparr>,
     \<lparr>asmName = ''BIT 6,(HL)'', operandType = NO_OPERANDS, opFunction = Fn0 bit_6_mHL\<rparr>,
     \<lparr>asmName = ''BIT 6,A'', operandType = NO_OPERANDS, opFunction = Fn0 bit_6_A\<rparr>,
     \<lparr>asmName = ''BIT 7,B'', operandType = NO_OPERANDS, opFunction = Fn0 bit_7_B\<rparr>,
     \<lparr>asmName = ''BIT 7,C'', operandType = NO_OPERANDS, opFunction = Fn0 bit_7_C\<rparr>,
     \<lparr>asmName = ''BIT 7,D'', operandType = NO_OPERANDS, opFunction = Fn0 bit_7_D\<rparr>,
     \<lparr>asmName = ''BIT 7,E'', operandType = NO_OPERANDS, opFunction = Fn0 bit_7_E\<rparr>,
     \<lparr>asmName = ''BIT 7,H'', operandType = NO_OPERANDS, opFunction = Fn0 bit_7_H\<rparr>,
     \<lparr>asmName = ''BIT 7,L'', operandType = NO_OPERANDS, opFunction = Fn0 bit_7_L\<rparr>,
     \<lparr>asmName = ''BIT 7,(HL)'', operandType = NO_OPERANDS, opFunction = Fn0 bit_7_mHL\<rparr>,
     \<lparr>asmName = ''BIT 7,A'', operandType = NO_OPERANDS, opFunction = Fn0 bit_7_A\<rparr>]"

definition cbRow8 :: "opcode list" where
  "cbRow8 =
    [\<lparr>asmName = ''RES 0,B'', operandType = NO_OPERANDS, opFunction = Fn0 res_0_B\<rparr>,
     \<lparr>asmName = ''RES 0,C'', operandType = NO_OPERANDS, opFunction = Fn0 res_0_C\<rparr>,
     \<lparr>asmName = ''RES 0,D'', operandType = NO_OPERANDS, opFunction = Fn0 res_0_D\<rparr>,
     \<lparr>asmName = ''RES 0,E'', operandType = NO_OPERANDS, opFunction = Fn0 res_0_E\<rparr>,
     \<lparr>asmName = ''RES 0,H'', operandType = NO_OPERANDS, opFunction = Fn0 res_0_H\<rparr>,
     \<lparr>asmName = ''RES 0,L'', operandType = NO_OPERANDS, opFunction = Fn0 res_0_L\<rparr>,
     \<lparr>asmName = ''RES 0,(HL)'', operandType = NO_OPERANDS, opFunction = Fn0 res_0_mHL\<rparr>,
     \<lparr>asmName = ''RES 0,A'', operandType = NO_OPERANDS, opFunction = Fn0 res_0_A\<rparr>,
     \<lparr>asmName = ''RES 1,B'', operandType = NO_OPERANDS, opFunction = Fn0 res_1_B\<rparr>,
     \<lparr>asmName = ''RES 1,C'', operandType = NO_OPERANDS, opFunction = Fn0 res_1_C\<rparr>,
     \<lparr>asmName = ''RES 1,D'', operandType = NO_OPERANDS, opFunction = Fn0 res_1_D\<rparr>,
     \<lparr>asmName = ''RES 1,E'', operandType = NO_OPERANDS, opFunction = Fn0 res_1_E\<rparr>,
     \<lparr>asmName = ''RES 1,H'', operandType = NO_OPERANDS, opFunction = Fn0 res_1_H\<rparr>,
     \<lparr>asmName = ''RES 1,L'', operandType = NO_OPERANDS, opFunction = Fn0 res_1_L\<rparr>,
     \<lparr>asmName = ''RES 1,(HL)'', operandType = NO_OPERANDS, opFunction = Fn0 res_1_mHL\<rparr>,
     \<lparr>asmName = ''RES 1,A'', operandType = NO_OPERANDS, opFunction = Fn0 res_1_A\<rparr>]"

definition cbRow9 :: "opcode list" where
  "cbRow9 =
    [\<lparr>asmName = ''RES 2,B'', operandType = NO_OPERANDS, opFunction = Fn0 res_2_B\<rparr>,
     \<lparr>asmName = ''RES 2,C'', operandType = NO_OPERANDS, opFunction = Fn0 res_2_C\<rparr>,
     \<lparr>asmName = ''RES 2,D'', operandType = NO_OPERANDS, opFunction = Fn0 res_2_D\<rparr>,
     \<lparr>asmName = ''RES 2,E'', operandType = NO_OPERANDS, opFunction = Fn0 res_2_E\<rparr>,
     \<lparr>asmName = ''RES 2,H'', operandType = NO_OPERANDS, opFunction = Fn0 res_2_H\<rparr>,
     \<lparr>asmName = ''RES 2,L'', operandType = NO_OPERANDS, opFunction = Fn0 res_2_L\<rparr>,
     \<lparr>asmName = ''RES 2,(HL)'', operandType = NO_OPERANDS, opFunction = Fn0 res_2_mHL\<rparr>,
     \<lparr>asmName = ''RES 2,A'', operandType = NO_OPERANDS, opFunction = Fn0 res_2_A\<rparr>,
     \<lparr>asmName = ''RES 3,B'', operandType = NO_OPERANDS, opFunction = Fn0 res_3_B\<rparr>,
     \<lparr>asmName = ''RES 3,C'', operandType = NO_OPERANDS, opFunction = Fn0 res_3_C\<rparr>,
     \<lparr>asmName = ''RES 3,D'', operandType = NO_OPERANDS, opFunction = Fn0 res_3_D\<rparr>,
     \<lparr>asmName = ''RES 3,E'', operandType = NO_OPERANDS, opFunction = Fn0 res_3_E\<rparr>,
     \<lparr>asmName = ''RES 3,H'', operandType = NO_OPERANDS, opFunction = Fn0 res_3_H\<rparr>,
     \<lparr>asmName = ''RES 3,L'', operandType = NO_OPERANDS, opFunction = Fn0 res_3_L\<rparr>,
     \<lparr>asmName = ''RES 3,(HL)'', operandType = NO_OPERANDS, opFunction = Fn0 res_3_mHL\<rparr>,
     \<lparr>asmName = ''RES 3,A'', operandType = NO_OPERANDS, opFunction = Fn0 res_3_A\<rparr>]"

definition cbRowA :: "opcode list" where
  "cbRowA =
    [\<lparr>asmName = ''RES 4,B'', operandType = NO_OPERANDS, opFunction = Fn0 res_4_B\<rparr>,
     \<lparr>asmName = ''RES 4,C'', operandType = NO_OPERANDS, opFunction = Fn0 res_4_C\<rparr>,
     \<lparr>asmName = ''RES 4,D'', operandType = NO_OPERANDS, opFunction = Fn0 res_4_D\<rparr>,
     \<lparr>asmName = ''RES 4,E'', operandType = NO_OPERANDS, opFunction = Fn0 res_4_E\<rparr>,
     \<lparr>asmName = ''RES 4,H'', operandType = NO_OPERANDS, opFunction = Fn0 res_4_H\<rparr>,
     \<lparr>asmName = ''RES 4,L'', operandType = NO_OPERANDS, opFunction = Fn0 res_4_L\<rparr>,
     \<lparr>asmName = ''RES 4,(HL)'', operandType = NO_OPERANDS, opFunction = Fn0 res_4_mHL\<rparr>,
     \<lparr>asmName = ''RES 4,A'', operandType = NO_OPERANDS, opFunction = Fn0 res_4_A\<rparr>,
     \<lparr>asmName = ''RES 5,B'', operandType = NO_OPERANDS, opFunction = Fn0 res_5_B\<rparr>,
     \<lparr>asmName = ''RES 5,C'', operandType = NO_OPERANDS, opFunction = Fn0 res_5_C\<rparr>,
     \<lparr>asmName = ''RES 5,D'', operandType = NO_OPERANDS, opFunction = Fn0 res_5_D\<rparr>,
     \<lparr>asmName = ''RES 5,E'', operandType = NO_OPERANDS, opFunction = Fn0 res_5_E\<rparr>,
     \<lparr>asmName = ''RES 5,H'', operandType = NO_OPERANDS, opFunction = Fn0 res_5_H\<rparr>,
     \<lparr>asmName = ''RES 5,L'', operandType = NO_OPERANDS, opFunction = Fn0 res_5_L\<rparr>,
     \<lparr>asmName = ''RES 5,(HL)'', operandType = NO_OPERANDS, opFunction = Fn0 res_5_mHL\<rparr>,
     \<lparr>asmName = ''RES 5,A'', operandType = NO_OPERANDS, opFunction = Fn0 res_5_A\<rparr>]"

definition cbRowB :: "opcode list" where
  "cbRowB =
    [\<lparr>asmName = ''RES 6,B'', operandType = NO_OPERANDS, opFunction = Fn0 res_6_B\<rparr>,
     \<lparr>asmName = ''RES 6,C'', operandType = NO_OPERANDS, opFunction = Fn0 res_6_C\<rparr>,
     \<lparr>asmName = ''RES 6,D'', operandType = NO_OPERANDS, opFunction = Fn0 res_6_D\<rparr>,
     \<lparr>asmName = ''RES 6,E'', operandType = NO_OPERANDS, opFunction = Fn0 res_6_E\<rparr>,
     \<lparr>asmName = ''RES 6,H'', operandType = NO_OPERANDS, opFunction = Fn0 res_6_H\<rparr>,
     \<lparr>asmName = ''RES 6,L'', operandType = NO_OPERANDS, opFunction = Fn0 res_6_L\<rparr>,
     \<lparr>asmName = ''RES 6,(HL)'', operandType = NO_OPERANDS, opFunction = Fn0 res_6_mHL\<rparr>,
     \<lparr>asmName = ''RES 6,A'', operandType = NO_OPERANDS, opFunction = Fn0 res_6_A\<rparr>,
     \<lparr>asmName = ''RES 7,B'', operandType = NO_OPERANDS, opFunction = Fn0 res_7_B\<rparr>,
     \<lparr>asmName = ''RES 7,C'', operandType = NO_OPERANDS, opFunction = Fn0 res_7_C\<rparr>,
     \<lparr>asmName = ''RES 7,D'', operandType = NO_OPERANDS, opFunction = Fn0 res_7_D\<rparr>,
     \<lparr>asmName = ''RES 7,E'', operandType = NO_OPERANDS, opFunction = Fn0 res_7_E\<rparr>,
     \<lparr>asmName = ''RES 7,H'', operandType = NO_OPERANDS, opFunction = Fn0 res_7_H\<rparr>,
     \<lparr>asmName = ''RES 7,L'', operandType = NO_OPERANDS, opFunction = Fn0 res_7_L\<rparr>,
     \<lparr>asmName = ''RES 7,(HL)'', operandType = NO_OPERANDS, opFunction = Fn0 res_7_mHL\<rparr>,
     \<lparr>asmName = ''RES 7,A'', operandType = NO_OPERANDS, opFunction = Fn0 res_7_A\<rparr>]"

definition cbRowC :: "opcode list" where
  "cbRowC =
    [\<lparr>asmName = ''SET 0,B'', operandType = NO_OPERANDS, opFunction = Fn0 set_0_B\<rparr>,
     \<lparr>asmName = ''SET 0,C'', operandType = NO_OPERANDS, opFunction = Fn0 set_0_C\<rparr>,
     \<lparr>asmName = ''SET 0,D'', operandType = NO_OPERANDS, opFunction = Fn0 set_0_D\<rparr>,
     \<lparr>asmName = ''SET 0,E'', operandType = NO_OPERANDS, opFunction = Fn0 set_0_E\<rparr>,
     \<lparr>asmName = ''SET 0,H'', operandType = NO_OPERANDS, opFunction = Fn0 set_0_H\<rparr>,
     \<lparr>asmName = ''SET 0,L'', operandType = NO_OPERANDS, opFunction = Fn0 set_0_L\<rparr>,
     \<lparr>asmName = ''SET 0,(HL)'', operandType = NO_OPERANDS, opFunction = Fn0 set_0_mHL\<rparr>,
     \<lparr>asmName = ''SET 0,A'', operandType = NO_OPERANDS, opFunction = Fn0 set_0_A\<rparr>,
     \<lparr>asmName = ''SET 1,B'', operandType = NO_OPERANDS, opFunction = Fn0 set_1_B\<rparr>,
     \<lparr>asmName = ''SET 1,C'', operandType = NO_OPERANDS, opFunction = Fn0 set_1_C\<rparr>,
     \<lparr>asmName = ''SET 1,D'', operandType = NO_OPERANDS, opFunction = Fn0 set_1_D\<rparr>,
     \<lparr>asmName = ''SET 1,E'', operandType = NO_OPERANDS, opFunction = Fn0 set_1_E\<rparr>,
     \<lparr>asmName = ''SET 1,H'', operandType = NO_OPERANDS, opFunction = Fn0 set_1_H\<rparr>,
     \<lparr>asmName = ''SET 1,L'', operandType = NO_OPERANDS, opFunction = Fn0 set_1_L\<rparr>,
     \<lparr>asmName = ''SET 1,(HL)'', operandType = NO_OPERANDS, opFunction = Fn0 set_1_mHL\<rparr>,
     \<lparr>asmName = ''SET 1,A'', operandType = NO_OPERANDS, opFunction = Fn0 set_1_A\<rparr>]"

definition cbRowD :: "opcode list" where
  "cbRowD =
    [\<lparr>asmName = ''SET 2,B'', operandType = NO_OPERANDS, opFunction = Fn0 set_2_B\<rparr>,
     \<lparr>asmName = ''SET 2,C'', operandType = NO_OPERANDS, opFunction = Fn0 set_2_C\<rparr>,
     \<lparr>asmName = ''SET 2,D'', operandType = NO_OPERANDS, opFunction = Fn0 set_2_D\<rparr>,
     \<lparr>asmName = ''SET 2,E'', operandType = NO_OPERANDS, opFunction = Fn0 set_2_E\<rparr>,
     \<lparr>asmName = ''SET 2,H'', operandType = NO_OPERANDS, opFunction = Fn0 set_2_H\<rparr>,
     \<lparr>asmName = ''SET 2,L'', operandType = NO_OPERANDS, opFunction = Fn0 set_2_L\<rparr>,
     \<lparr>asmName = ''SET 2,(HL)'', operandType = NO_OPERANDS, opFunction = Fn0 set_2_mHL\<rparr>,
     \<lparr>asmName = ''SET 2,A'', operandType = NO_OPERANDS, opFunction = Fn0 set_2_A\<rparr>,
     \<lparr>asmName = ''SET 3,B'', operandType = NO_OPERANDS, opFunction = Fn0 set_3_B\<rparr>,
     \<lparr>asmName = ''SET 3,C'', operandType = NO_OPERANDS, opFunction = Fn0 set_3_C\<rparr>,
     \<lparr>asmName = ''SET 3,D'', operandType = NO_OPERANDS, opFunction = Fn0 set_3_D\<rparr>,
     \<lparr>asmName = ''SET 3,E'', operandType = NO_OPERANDS, opFunction = Fn0 set_3_E\<rparr>,
     \<lparr>asmName = ''SET 3,H'', operandType = NO_OPERANDS, opFunction = Fn0 set_3_H\<rparr>,
     \<lparr>asmName = ''SET 3,L'', operandType = NO_OPERANDS, opFunction = Fn0 set_3_L\<rparr>,
     \<lparr>asmName = ''SET 3,(HL)'', operandType = NO_OPERANDS, opFunction = Fn0 set_3_mHL\<rparr>,
     \<lparr>asmName = ''SET 3,A'', operandType = NO_OPERANDS, opFunction = Fn0 set_3_A\<rparr>]"

definition cbRowE :: "opcode list" where
  "cbRowE =
    [\<lparr>asmName = ''SET 4,B'', operandType = NO_OPERANDS, opFunction = Fn0 set_4_B\<rparr>,
     \<lparr>asmName = ''SET 4,C'', operandType = NO_OPERANDS, opFunction = Fn0 set_4_C\<rparr>,
     \<lparr>asmName = ''SET 4,D'', operandType = NO_OPERANDS, opFunction = Fn0 set_4_D\<rparr>,
     \<lparr>asmName = ''SET 4,E'', operandType = NO_OPERANDS, opFunction = Fn0 set_4_E\<rparr>,
     \<lparr>asmName = ''SET 4,H'', operandType = NO_OPERANDS, opFunction = Fn0 set_4_H\<rparr>,
     \<lparr>asmName = ''SET 4,L'', operandType = NO_OPERANDS, opFunction = Fn0 set_4_L\<rparr>,
     \<lparr>asmName = ''SET 4,(HL)'', operandType = NO_OPERANDS, opFunction = Fn0 set_4_mHL\<rparr>,
     \<lparr>asmName = ''SET 4,A'', operandType = NO_OPERANDS, opFunction = Fn0 set_4_A\<rparr>,
     \<lparr>asmName = ''SET 5,B'', operandType = NO_OPERANDS, opFunction = Fn0 set_5_B\<rparr>,
     \<lparr>asmName = ''SET 5,C'', operandType = NO_OPERANDS, opFunction = Fn0 set_5_C\<rparr>,
     \<lparr>asmName = ''SET 5,D'', operandType = NO_OPERANDS, opFunction = Fn0 set_5_D\<rparr>,
     \<lparr>asmName = ''SET 5,E'', operandType = NO_OPERANDS, opFunction = Fn0 set_5_E\<rparr>,
     \<lparr>asmName = ''SET 5,H'', operandType = NO_OPERANDS, opFunction = Fn0 set_5_H\<rparr>,
     \<lparr>asmName = ''SET 5,L'', operandType = NO_OPERANDS, opFunction = Fn0 set_5_L\<rparr>,
     \<lparr>asmName = ''SET 5,(HL)'', operandType = NO_OPERANDS, opFunction = Fn0 set_5_mHL\<rparr>,
     \<lparr>asmName = ''SET 5,A'', operandType = NO_OPERANDS, opFunction = Fn0 set_5_A\<rparr>]"

definition cbRowF :: "opcode list" where
  "cbRowF =
    [\<lparr>asmName = ''SET 6,B'', operandType = NO_OPERANDS, opFunction = Fn0 set_6_B\<rparr>,
     \<lparr>asmName = ''SET 6,C'', operandType = NO_OPERANDS, opFunction = Fn0 set_6_C\<rparr>,
     \<lparr>asmName = ''SET 6,D'', operandType = NO_OPERANDS, opFunction = Fn0 set_6_D\<rparr>,
     \<lparr>asmName = ''SET 6,E'', operandType = NO_OPERANDS, opFunction = Fn0 set_6_E\<rparr>,
     \<lparr>asmName = ''SET 6,H'', operandType = NO_OPERANDS, opFunction = Fn0 set_6_H\<rparr>,
     \<lparr>asmName = ''SET 6,L'', operandType = NO_OPERANDS, opFunction = Fn0 set_6_L\<rparr>,
     \<lparr>asmName = ''SET 6,(HL)'', operandType = NO_OPERANDS, opFunction = Fn0 set_6_mHL\<rparr>,
     \<lparr>asmName = ''SET 6,A'', operandType = NO_OPERANDS, opFunction = Fn0 set_6_A\<rparr>,
     \<lparr>asmName = ''SET 7,B'', operandType = NO_OPERANDS, opFunction = Fn0 set_7_B\<rparr>,
     \<lparr>asmName = ''SET 7,C'', operandType = NO_OPERANDS, opFunction = Fn0 set_7_C\<rparr>,
     \<lparr>asmName = ''SET 7,D'', operandType = NO_OPERANDS, opFunction = Fn0 set_7_D\<rparr>,
     \<lparr>asmName = ''SET 7,E'', operandType = NO_OPERANDS, opFunction = Fn0 set_7_E\<rparr>,
     \<lparr>asmName = ''SET 7,H'', operandType = NO_OPERANDS, opFunction = Fn0 set_7_H\<rparr>,
     \<lparr>asmName = ''SET 7,L'', operandType = NO_OPERANDS, opFunction = Fn0 set_7_L\<rparr>,
     \<lparr>asmName = ''SET 7,(HL)'', operandType = NO_OPERANDS, opFunction = Fn0 set_7_mHL\<rparr>,
     \<lparr>asmName = ''SET 7,A'', operandType = NO_OPERANDS, opFunction = Fn0 set_7_A\<rparr>]"

definition CBOpcodeTable :: "opcode list" where
  "CBOpcodeTable = cbRow0 @ cbRow1 @ cbRow2 @ cbRow3 @ cbRow4 @ cbRow5 @ cbRow6 @ cbRow7 @ cbRow8 @ cbRow9 @ cbRowA @ cbRowB @ cbRowC @ cbRowD @ cbRowE @ cbRowF"

end
