(* ===== verification/Cpu.thy ===== *)
theory Cpu
  imports Base_Table Cb_Table Cartridge
begin

text \<open>
  Fetching, decoding and executing an instruction, loading a game and interrupt dispatch: the
  functions of \<^verbatim>\<open>src/cpu.c\<close> and \<^verbatim>\<open>src/interrupt.c\<close> above the instructions. The log
  lines are left out; what is shown of the CPU, the JSON export among it, is theory \<open>Cpu_Debug\<close>.
\<close>

section \<open>One instruction\<close>

definition DetermineOpcode :: "gb \<Rightarrow> (opcode \<times> gb) res" where
  "DetermineOpcode g =
    bind_res (mmuReadByte (rPC (regs g)) g) (\<lambda>aInstruction.
      let g = modRegs (\<lambda>r. r\<lparr>rPC := rPC r + 1\<rparr>) g in
      if aInstruction = 0xCB then
        bind_res (mmuReadByte (rPC (regs g)) g) (\<lambda>aInstruction.
          let g = modRegs (\<lambda>r. r\<lparr>rPC := rPC r + 1\<rparr>) g
          in Inr (CBOpcodeTable ! unat aInstruction,
                  addTicks (cbOpcodeTicks ! unat aInstruction) g))
      else
        Inr (baseOpcodeTable ! unat aInstruction,
             addTicks (baseOpcodeTicks ! unat aInstruction) g))"

definition DetermineOperand :: "opcode \<Rightarrow> gb \<Rightarrow> (u16 \<times> gb) res" where
  "DetermineOperand inOpcode g =
    bind_res
      (if operandType inOpcode = OPERAND_CHAR then
         bind_res (mmuReadByte (rPC (regs g)) g) (\<lambda>b. Inr (ucast b))
       else if operandType inOpcode = OPERAND_SHORT then mmuReadShort (rPC (regs g)) g
       else Inr 0)
      (\<lambda>aOperand.
        Inr (aOperand, modRegs (\<lambda>r. r\<lparr>rPC := rPC r + ucast (operandType inOpcode)\<rparr>) g))"

definition ExecuteOpcode :: "opcode \<Rightarrow> u16 \<Rightarrow> gb \<Rightarrow> gb res" where
  "ExecuteOpcode inOpcode inOperand g =
    (if operandType inOpcode = OPERAND_CHAR then
       (case opFunction inOpcode of Fn8 f \<Rightarrow> f (ucast inOperand) g | _ \<Rightarrow> Inl BadCall)
     else if operandType inOpcode = OPERAND_SHORT then
       (case opFunction inOpcode of Fn16 f \<Rightarrow> f inOperand g | _ \<Rightarrow> Inl BadCall)
     else if operandType inOpcode = NO_OPERANDS then
       (case opFunction inOpcode of Fn0 f \<Rightarrow> f g | _ \<Rightarrow> Inl BadCall)
     else Inr g)"

text \<open>
  At one address, left from a search for an error, the dump of VRAM is made before the instruction.
  \<open>tickStart\<close> and \<open>ticksUsed\<close> are \<open>int\<close>, so the difference is taken modulo 2 to the 32.
\<close>

definition dumpAtPC :: "gb \<Rightarrow> gb res" where
  "dumpAtPC g =
    (if rPC (regs g) = 0x282A then bind_res (gpuWriteVramToFile (gpu g)) (\<lambda>p. Inr (g\<lparr>gpu := p\<rparr>)) else Inr g)"

definition cpuStep :: "gb \<Rightarrow> (u32 \<times> gb) res" where
  "cpuStep g = bind_res (dumpAtPC g) (\<lambda>g.
     let tickStart = (ucast (tickCounter g) :: u32) in
     bind_res (DetermineOpcode g) (\<lambda>(aOpcode, g).
     bind_res (DetermineOperand aOpcode g) (\<lambda>(aOperand, g).
     bind_res (ExecuteOpcode aOpcode aOperand g) (\<lambda>g.
       let g = g\<lparr>lastOpcodeName := asmName aOpcode, lastOperand := aOperand\<rparr>;
           ticksUsed = ucast (tickCounter g) - tickStart
       in Inr (ticksUsed, g)))))"

section \<open>Loading a game\<close>

definition loadROM :: "cenv \<Rightarrow> string \<Rightarrow> gb \<Rightarrow> (int \<times> gb) res" where
  "loadROM e cartName g =
    (let g = initializeMemory g in
     bind_res (cpuReset g) (\<lambda>g.
       let (success, c) = loadCartridge e cartName (crt g)
       in Inr (0, g\<lparr>crt := c\<rparr>)))"

definition cpuClose :: "gb \<Rightarrow> gb res" where
  "cpuClose g = bind_res (cartCleanup (crt g)) (\<lambda>c. Inr (g\<lparr>crt := c\<rparr>))"

section \<open>Interrupts\<close>

definition VERT_BLNK_INTR_START :: int where [simp]: "VERT_BLNK_INTR_START = 0x40"

definition LCDC_STATUS_INTR_START :: int where [simp]: "LCDC_STATUS_INTR_START = 0x48"

definition TIMER_OVERFLOW_INTR :: int where [simp]: "TIMER_OVERFLOW_INTR = 0x50"

definition SERIAL_TX_COMPLETION_INTR :: int where [simp]: "SERIAL_TX_COMPLETION_INTR = 0x58"

definition HIGH_LOW_P10_P13_INTR :: int where [simp]: "HIGH_LOW_P10_P13_INTR = 0x60"

text \<open>\<open>call_nn\<close> gets the interrupt bit, not the address.\<close>

definition handleInterrupt :: "u8 \<Rightarrow> int \<Rightarrow> gb \<Rightarrow> gb res" where
  "handleInterrupt inInterrupt inInterruptAddress g =
    bind_res (call_nn (ucast inInterrupt) g) (\<lambda>g.
      let g = g\<lparr>intr := (intr g)\<lparr>request := request (intr g) AND NOT inInterrupt\<rparr>\<rparr>
      in Inr (addTicks 20 g))"

definition interruptStep :: "gb \<Rightarrow> gb res" where
  "interruptStep g =
    (if masterEnable (intr g) = 1 then
       (let flags = enable (intr g) AND request (intr g) in
        if flags > 0 then
          (let g = g\<lparr>intr := (intr g)\<lparr>masterEnable := 0\<rparr>\<rparr> in
           if flags AND VBLANK_INTERRUPT \<noteq> 0 then
             handleInterrupt VBLANK_INTERRUPT VERT_BLNK_INTR_START g
           else if flags AND LCD_INTERRUPT \<noteq> 0 then
             handleInterrupt LCD_INTERRUPT LCDC_STATUS_INTR_START g
           else if flags AND TIMER_INTERRUPT \<noteq> 0 then
             (let g = modRegs (\<lambda>r. r\<lparr>rPC := word_of_int TIMER_OVERFLOW_INTR\<rparr>) g;
                  g = g\<lparr>intr := (intr g)\<lparr>request := request (intr g) AND NOT TIMER_INTERRUPT\<rparr>\<rparr>
              in handleInterrupt TIMER_INTERRUPT TIMER_OVERFLOW_INTR g)
           else if flags AND SERIAL_INTERRUPT \<noteq> 0 then
             handleInterrupt SERIAL_INTERRUPT SERIAL_TX_COMPLETION_INTR g
           else if flags AND JOYPAD_INTERRUPT \<noteq> 0 then
             handleInterrupt JOYPAD_INTERRUPT HIGH_LOW_P10_P13_INTR g
           else Inr g)
        else Inr g)
     else Inr g)"

end
