(* ===== verification/Cpu_Alu_Correct.thy ===== *)
theory Cpu_Alu_Correct
  imports Cpu_Regs
begin

text \<open>
  What the instructions on the register file compute: the result byte, the four flags and the frame
  of every 8-bit operation, first over words and then, for the properties, as arithmetic on numbers:
  carries, nibble carries, rotations, single bits and binary-coded decimals.
\<close>

section \<open>Carries and nibbles\<close>

lemma drop_bit_eq_0_iff: "drop_bit n w = 0 \<longleftrightarrow> unat w < 2 ^ n" for w :: "'a::len word"
proof -
  have "drop_bit n w = 0 \<longleftrightarrow> unat (drop_bit n w) = 0" by (simp add: unat_eq_0)
  also have "unat (drop_bit n w) = unat w div 2 ^ n"
    using unsigned_less [of w] by (simp only: unsigned_drop_bit_eq) (simp add: drop_bit_eq_div take_bit_nat_eq_self)
  finally show ?thesis by (simp add: div_eq_0_iff)
qed

lemma push_drop_eq_0: "push_bit n (drop_bit n w) = 0 \<longleftrightarrow> drop_bit n w = 0" for w :: "'a::len word"
proof
  assume z: "push_bit n (drop_bit n w) = 0"
  show "drop_bit n w = 0"
  proof (rule bit_word_eqI)
    fix k
    assume k: "k < LENGTH('a)"
    have "bit (push_bit n (drop_bit n w)) (n + k) = bit (0 :: 'a word) (n + k)" by (simp only: z)
    then show "bit (drop_bit n w) k = bit 0 k"
      by (auto simp: bit_simps dest: bit_imp_le_length)
  qed
qed simp

lemma and_high_byte: "w AND 0xFF00 = 0 \<longleftrightarrow> unat w < 256" for w :: u16
proof -
  have "w AND 0xFF00 = push_bit 8 (drop_bit 8 w)"
    by (rule bit_word_eqI) (auto simp: bit_simps)
  then show ?thesis by (simp only: push_drop_eq_0 drop_bit_eq_0_iff) simp
qed

lemma and_high_word: "w AND 0xFFFF0000 = 0 \<longleftrightarrow> unat w < 65536" for w :: u32
proof -
  have m: "(4294901760 :: int) = push_bit 16 (mask 16)" by (simp add: mask_eq_exp_minus_1 push_bit_eq_mult)
  have b: "bit (4294901760 :: int) n \<longleftrightarrow> 16 \<le> n \<and> n < 32" for n
    unfolding m by (auto simp: bit_mask_iff bit_push_bit_iff)
  have "w AND 0xFFFF0000 = push_bit 16 (drop_bit 16 w)"
  proof (rule bit_word_eqI)
    fix n assume "n < LENGTH(32)"
    then show "bit (w AND 0xFFFF0000) n = bit (push_bit 16 (drop_bit 16 w)) n"
      by (cases "16 \<le> n") (simp_all add: bit_and_iff bit_push_bit_iff bit_drop_bit_eq b)
  qed
  then show ?thesis by (simp only: push_drop_eq_0 drop_bit_eq_0_iff) simp
qed

lemma byte_sum:
  fixes a s :: u8
  defines "w \<equiv> (ucast a + ucast s :: u16)"
  shows "unat w = unat a + unat s" and "w AND 0xFF00 \<noteq> 0 \<longleftrightarrow> 255 < unat a + unat s"
    and "ucast (w AND 0xFF) = a + s"
proof -
  show u: "unat w = unat a + unat s"
    using u8_bound [of a] u8_bound [of s]
    by (simp add: w_def unat_word_ariths unsigned_ucast_eq take_bit_nat_eq_self)
  show "w AND 0xFF00 \<noteq> 0 \<longleftrightarrow> 255 < unat a + unat s"
    using and_high_byte [of w] u by auto
  have "ucast (w AND 0xFF) = (ucast w :: u8)"
    by (rule bit_word_eqI) (auto simp: bit_simps)
  also have "\<dots> = a + s"
    by (simp add: w_def word_unat_eq_iff unsigned_ucast_eq unat_word_ariths take_bit_eq_mod
        mod_add_eq mod_mod_cancel)
  finally show "ucast (w AND 0xFF) = a + s" .
qed

lemma word_sum:
  fixes a s :: u16
  defines "w \<equiv> (ucast a + ucast s :: u32)"
  shows "w AND 0xFFFF0000 \<noteq> 0 \<longleftrightarrow> 65535 < unat a + unat s" and "ucast w = a + s"
proof -
  have "unat w = unat a + unat s"
    using u16_bound [of a] u16_bound [of s]
    by (simp add: w_def unat_word_ariths unsigned_ucast_eq take_bit_nat_eq_self)
  then show "w AND 0xFFFF0000 \<noteq> 0 \<longleftrightarrow> 65535 < unat a + unat s"
    using and_high_word [of w] by auto
  show "ucast w = a + s"
    by (simp add: w_def word_unat_eq_iff unsigned_ucast_eq unat_word_ariths take_bit_eq_mod
        mod_add_eq mod_mod_cancel)
qed

lemma nibble_less: "s AND 0x0F > a AND 0x0F \<longleftrightarrow> unat a mod 16 < unat s mod 16" for a s :: u8
  by (simp add: word_less_nat_alt unat_nibble)

lemma nibble_16: "unat (w AND 0x0F) = unat w mod 16" for w :: u16
proof -
  have "w AND 0x0F = take_bit 4 w" by (simp add: take_bit_eq_mask mask_eq_decr_exp)
  then have "unat (w AND 0x0F) = take_bit 4 (unat w)" by (simp only: unsigned_take_bit_eq)
  then show ?thesis by (simp add: take_bit_eq_mod)
qed

section \<open>The register file after an arithmetic instruction\<close>

text \<open>
  \<open>alu_is r r' a z n h c\<close>: from \<open>r\<close> to \<open>r'\<close> the accumulator becomes \<open>a\<close>, the flags become Z, N, H
  and C as given, and nothing else changes, the unused low nibble of F included.
\<close>

definition same_but_AF :: "registers \<Rightarrow> registers \<Rightarrow> bool" where
  "same_but_AF r r' \<longleftrightarrow> rB r' = rB r \<and> rC r' = rC r \<and> rD r' = rD r \<and> rE r' = rE r \<and> rH r' = rH r
     \<and> rL r' = rL r \<and> rSP r' = rSP r \<and> rPC r' = rPC r \<and> rF r' AND 0x0F = rF r AND 0x0F"

definition alu_is :: "registers \<Rightarrow> registers \<Rightarrow> u8 \<Rightarrow> bool \<Rightarrow> bool \<Rightarrow> bool \<Rightarrow> bool \<Rightarrow> bool" where
  "alu_is r r' a z n h c \<longleftrightarrow> rA r' = a \<and> flags r' = (z, n, h, c) \<and> same_but_AF r r'"

lemma low_flags [simp]:
  "m AND 0x0F = 0 \<Longrightarrow> rF (setFlag m r) AND 0x0F = rF r AND 0x0F"
  "m AND 0x0F = 0 \<Longrightarrow> rF (removeFlag m r) AND 0x0F = rF r AND 0x0F"
  "m AND 0x0F = 0 \<Longrightarrow> rF (flagIf c m r) AND 0x0F = rF r AND 0x0F"
proof -
  assume m: "m AND 0x0F = 0"
  have n: "bit m n \<Longrightarrow> n < 4 \<Longrightarrow> False" for n
    using arg_cong [OF m, of "\<lambda>x. bit x n"] by (simp add: bit_and_iff)
  show s: "rF (setFlag m r) AND 0x0F = rF r AND 0x0F"
    by (rule bit_word_eqI) (auto simp: setFlag_def bit_simps dest: n)
  show t: "rF (removeFlag m r) AND 0x0F = rF r AND 0x0F"
    by (rule bit_word_eqI) (auto simp: removeFlag_def bit_simps dest: n)
  show "rF (flagIf c m r) AND 0x0F = rF r AND 0x0F"
    using s t by (simp add: flagIf_def)
qed

lemma add_s_alu:
  "alu_is r (add_s s r) (rA r + s) (rA r + s = 0) False
     (15 < unat (rA r) mod 16 + unat s mod 16) (255 < unat (rA r) + unat s)"
  using byte_sum [of "rA r" s]
  by (simp add: alu_is_def same_but_AF_def flags_def add_s_def Let_def flag_simps unat_nibble)

lemma adc_s_alu:
  defines "t \<equiv> \<lambda>s r. s + of_bool (cf r) :: u8"
  shows "alu_is r (adc_s s r) (rA r + t s r) (rA r + t s r = 0) False
     (15 < unat (rA r) mod 16 + unat (t s r) mod 16) (255 < unat (rA r) + unat (t s r))"
  using byte_sum [of "rA r" "t s r"]
  by (simp add: alu_is_def same_but_AF_def flags_def adc_s_def Let_def flag_simps unat_nibble t_def)

lemma sub_s_alu:
  "alu_is r (sub_s s r) (rA r - s) (rA r = s) True
     (unat (rA r) mod 16 < unat s mod 16) (unat (rA r) < unat s)"
  by (simp add: alu_is_def same_but_AF_def flags_def sub_s_def Let_def flag_simps unat_nibble
      word_less_nat_alt)

lemma sbc_s_alu:
  defines "t \<equiv> \<lambda>s r. s + of_bool (cf r) :: u8"
  shows "alu_is r (sbc_s s r) (rA r - t s r) (rA r = t s r) True
     (unat (rA r) mod 16 < unat (t s r) mod 16) (unat (rA r) < unat (t s r))"
  by (simp add: alu_is_def same_but_AF_def flags_def sbc_s_def Let_def flag_simps unat_nibble
      word_less_nat_alt t_def)

lemma cmp_s_alu:
  "alu_is r (cmp_s s r) (rA r) (rA r = s) True
     (unat (rA r) mod 16 < unat s mod 16) (unat (rA r) < unat s)"
  by (simp add: alu_is_def same_but_AF_def flags_def cmp_s_def Let_def flag_simps unat_nibble
      word_less_nat_alt)

lemma logic_alu:
  "alu_is r (and_s s r) (rA r AND s) (rA r AND s = 0) False True False"
  "alu_is r (or_s s r) (rA r OR s) (rA r OR s = 0) False False False"
  "alu_is r (xor_s s r) (rA r XOR s) (rA r XOR s = 0) False False False"
  by (simp_all add: alu_is_def same_but_AF_def flags_def and_s_def or_s_def xor_s_def Let_def flag_simps)

section \<open>Instructions through a register pointer\<close>

text \<open>
  \<open>cell_is p r r' v z n h c\<close>: from \<open>r\<close> to \<open>r'\<close> the register \<open>p\<close> becomes \<open>v\<close>, the flags become Z, N,
  H and C as given, and nothing else changes.
\<close>

definition cell_is :: "reg8 \<Rightarrow> registers \<Rightarrow> registers \<Rightarrow> u8 \<Rightarrow> bool \<Rightarrow> bool \<Rightarrow> bool \<Rightarrow> bool \<Rightarrow> bool" where
  "cell_is p r r' v z n h c \<longleftrightarrow> r' = set8 p v (r\<lparr>rF := rF r'\<rparr>) \<and> flags r' = (z, n, h, c)
     \<and> rF r' AND 0x0F = rF r AND 0x0F"

lemma cell_is_get: "cell_is p r r' v z n h c \<Longrightarrow> get8 p r' = v"
  unfolding cell_is_def using r8.get_put by metis

lemma only_F [simp]:
  "(flagIf c m r)\<lparr>rF := f\<rparr> = r\<lparr>rF := f\<rparr>" "(setFlag m r)\<lparr>rF := f\<rparr> = r\<lparr>rF := f\<rparr>"
  "(removeFlag m r)\<lparr>rF := f\<rparr> = r\<lparr>rF := f\<rparr>"
  by (simp_all add: flagIf_def setFlag_def removeFlag_def)

lemma set8_F: "(set8 p v r)\<lparr>rF := f\<rparr> = set8 p v (r\<lparr>rF := f\<rparr>)"
  by (cases p) simp_all

text \<open>The shape of every one of these instructions: flags, then the register, then Z.\<close>

lemma cell_isI:
  assumes "r' = flagIf (v = 0) 0x80 (set8 p v q)" and "q\<lparr>rF := 0\<rparr> = r\<lparr>rF := 0\<rparr>"
    and "nf q = n" and "hf q = h" and "cf q = c" and "rF q AND 0x0F = rF r AND 0x0F"
  shows "cell_is p r r' v (v = 0) n h c"
proof -
  have "q\<lparr>rF := f\<rparr> = r\<lparr>rF := f\<rparr>" for f
    using assms(2) by (metis registers.update_convs(2) registers.surjective registers.select_convs)
  then have "r'\<lparr>rF := f\<rparr> = set8 p v (r\<lparr>rF := f\<rparr>)" for f
    using assms(1) by (simp add: set8_F)
  from this [of "rF r'"] have "r' = set8 p v (r\<lparr>rF := rF r'\<rparr>)" by simp
  with assms show ?thesis
    by (simp add: cell_is_def flags_def flag_simps)
qed

lemmas cell_defs = inc_s_def dec_s_def swap_s_def rlc_s_def rl_s_def rrc_s_def rr_s_def sla_s_def
  sra_s_def srl_s_def

lemma inc_s_cell: "cell_is p r (inc_s p r) (get8 p r + 1) (get8 p r + 1 = 0) False
    (unat (get8 p r) mod 16 = 15) (cf r)"
proof -
  have "get8 p r AND 0x0F = 0x0F \<longleftrightarrow> unat (get8 p r) mod 16 = 15"
    by (simp add: word_unat_eq_iff unat_nibble)
  then show ?thesis
    by (intro cell_isI [where q = "flagIf (unat (get8 p r) mod 16 = 15) 0x20 (removeFlag 0x40 r)"])
      (simp_all add: inc_s_def Let_def flag_simps)
qed

lemma dec_s_cell: "cell_is p r (dec_s p r) (get8 p r - 1) (get8 p r - 1 = 0) True
    (unat (get8 p r) mod 16 = 0) (cf r)"
proof -
  have "get8 p r AND 0x0F = 0 \<longleftrightarrow> unat (get8 p r) mod 16 = 0"
    by (simp add: word_unat_eq_iff unat_nibble)
  then show ?thesis
    by (intro cell_isI [where q = "flagIf (unat (get8 p r) mod 16 = 0) 0x20 (setFlag 0x40 r)"])
      (simp_all add: dec_s_def Let_def flag_simps)
qed

definition rot_regs :: "bool \<Rightarrow> registers \<Rightarrow> registers" where
  "rot_regs c r = flagIf c 0x10 (removeFlag 0x60 r)"

text \<open>The byte each rotate or shift produces, and the bit that goes to the carry.\<close>

lemma rlc_s_cell: "cell_is p r (rlc_s p r) (push_bit 1 (get8 p r) + of_bool (bit (get8 p r) 7))
    (push_bit 1 (get8 p r) + of_bool (bit (get8 p r) 7) = 0) False False (bit (get8 p r) 7)"
  by (rule cell_isI [where q = "rot_regs (bit (get8 p r) 7) r"])
    (simp_all add: rlc_s_def Let_def flag_simps rot_regs_def)

lemma rl_s_cell: "cell_is p r (rl_s p r) (push_bit 1 (get8 p r)) (push_bit 1 (get8 p r) = 0)
    False False (bit (get8 p r) 7)"
  by (rule cell_isI [where q = "rot_regs (bit (get8 p r) 7) r"])
    (simp_all add: rl_s_def Let_def flag_simps rot_regs_def)

lemma sla_s_cell: "cell_is p r (sla_s p r) (push_bit 1 (get8 p r)) (push_bit 1 (get8 p r) = 0)
    False False (bit (get8 p r) 7)"
  by (rule cell_isI [where q = "rot_regs (bit (get8 p r) 7) r"])
    (simp_all add: sla_s_def Let_def flag_simps rot_regs_def)

lemma rrc_s_cell: "cell_is p r (rrc_s p r)
    (drop_bit 1 (get8 p r) OR (if bit (get8 p r) 0 then 0x80 else 0))
    (drop_bit 1 (get8 p r) OR (if bit (get8 p r) 0 then 0x80 else 0) = 0)
    False False (bit (get8 p r) 0)"
  by (rule cell_isI [where q = "rot_regs (bit (get8 p r) 0) r"])
    (simp_all add: rrc_s_def Let_def flag_simps rot_regs_def)

lemma rr_s_cell: "cell_is p r (rr_s p r) (drop_bit 1 (get8 p r)) (drop_bit 1 (get8 p r) = 0)
    False False (bit (get8 p r) 0)"
  by (rule cell_isI [where q = "rot_regs (bit (get8 p r) 0) r"])
    (simp_all add: rr_s_def Let_def flag_simps rot_regs_def)

lemma sra_s_cell: "cell_is p r (sra_s p r) (drop_bit 1 (get8 p r) OR (get8 p r AND 0x80))
    (drop_bit 1 (get8 p r) OR (get8 p r AND 0x80) = 0) False False (bit (get8 p r) 0)"
  by (rule cell_isI [where q = "rot_regs (bit (get8 p r) 0) r"])
    (simp_all add: sra_s_def Let_def flag_simps rot_regs_def)

lemma srl_s_cell: "cell_is p r (srl_s p r) (drop_bit 1 (get8 p r)) (drop_bit 1 (get8 p r) = 0)
    False False True"
  by (rule cell_isI [where q = "setFlag 0x10 (removeFlag 0x60 r)"])
    (simp_all add: srl_s_def Let_def flag_simps)

lemma swap_s_cell: "cell_is p r (swap_s p r)
    (drop_bit 4 (get8 p r AND 0xF0) OR push_bit 4 (get8 p r AND 0x0F))
    (drop_bit 4 (get8 p r AND 0xF0) OR push_bit 4 (get8 p r AND 0x0F) = 0) False False False"
  by (rule cell_isI [where q = "removeFlag 0x70 r"])
    (simp_all add: swap_s_def Let_def flag_simps)

section \<open>Bytes as numbers\<close>

lemma u8_add: "unat (a + b) = (unat a + unat b) mod 256" for a b :: u8
  by (simp add: unat_word_ariths)

lemma u8_sub: "unat (a - b) = (256 + unat a - unat b) mod 256" for a b :: u8
proof -
  have "unat a = unat ((a - b) + b)" by simp
  also have "\<dots> = (unat (a - b) + unat b) mod 256" by (rule u8_add)
  finally have e: "unat a = (unat (a - b) + unat b) mod 256" .
  have l: "unat (a - b) < 256" "unat b < 256" by (rule u8_bound)+
  show ?thesis
  proof (cases "unat (a - b) + unat b < 256")
    case True with e l show ?thesis by simp
  next
    case False
    then have "unat a = unat (a - b) + unat b - 256" using e l by (simp add: le_mod_geq)
    with False l show ?thesis by simp
  qed
qed

lemma u8_zero: "w = 0 \<longleftrightarrow> unat w = 0" for w :: u8
  by (simp add: unat_eq_0)

lemma u8_inc: "unat (s + 1) = (if unat s = 255 then 0 else unat s + 1)" for s :: u8
  using u8_add [of s 1] u8_bound [of s] by auto

lemma alu_isD:
  assumes "alu_is r r' a z n h c"
  shows "rA r' = a" "zf r' = z" "nf r' = n" "hf r' = h" "cf r' = c"
  using assms by (simp_all add: alu_is_def flags_def)

lemma mod16_inc: "unat (s + 1) mod 16 = (if unat s mod 16 = 15 then 0 else unat s mod 16 + 1)"
  for s :: u8
proof (cases "unat s = 255")
  case True then show ?thesis by (simp add: u8_inc)
next
  case False then show ?thesis by (simp add: u8_inc mod_Suc)
qed

lemma adc_s_carry:
  fixes s :: u8
  assumes "cf r"
  defines "a \<equiv> unat (rA r)" and "n \<equiv> unat s"
  shows "unat (rA (adc_s s r)) = (a + n + 1) mod 256"
    and "zf (adc_s s r) \<longleftrightarrow> (a + n + 1) mod 256 = 0" and "\<not> nf (adc_s s r)"
    and "cf (adc_s s r) \<longleftrightarrow> 255 < a + n + 1 \<and> n \<noteq> 255"
    and "hf (adc_s s r) \<longleftrightarrow> 15 < a mod 16 + n mod 16 + 1 \<and> n mod 16 \<noteq> 15"
proof -
  note d = alu_isD [OF adc_s_alu [of r s]]
  have a: "a < 256" unfolding a_def by (rule u8_bound)
  have a16: "a mod 16 < 16" by (rule mod_less_divisor) simp
  have s: "unat (rA r + (s + 1)) = (a + n + 1) mod 256"
    unfolding a_def n_def u8_add [of "rA r"] u8_add [of s] by (simp add: mod_simps add.assoc)
  show "unat (rA (adc_s s r)) = (a + n + 1) mod 256"
    using s d(1) assms(1) by (simp only: of_bool_eq)
  show "zf (adc_s s r) \<longleftrightarrow> (a + n + 1) mod 256 = 0"
    using s d(2) assms(1) u8_zero [of "rA r + (s + 1)"] by (simp only: of_bool_eq)
  show "\<not> nf (adc_s s r)" using d(3) by simp
  show "cf (adc_s s r) \<longleftrightarrow> 255 < a + n + 1 \<and> n \<noteq> 255"
    using d(5) assms(1) a unfolding a_def n_def by (simp only: of_bool_eq u8_inc) auto
  show "hf (adc_s s r) \<longleftrightarrow> 15 < a mod 16 + n mod 16 + 1 \<and> n mod 16 \<noteq> 15"
    using d(4) assms(1) a16 unfolding a_def n_def by (simp only: of_bool_eq mod16_inc) auto
qed

lemma sbc_s_carry:
  fixes s :: u8
  assumes "cf r"
  defines "a \<equiv> unat (rA r)" and "n \<equiv> unat s"
  shows "unat (rA (sbc_s s r)) = (256 + a - (n + 1) mod 256) mod 256"
    and "zf (sbc_s s r) \<longleftrightarrow> (256 + a - (n + 1) mod 256) mod 256 = 0" and "nf (sbc_s s r)"
    and "cf (sbc_s s r) \<longleftrightarrow> a < n + 1 \<and> n \<noteq> 255"
    and "hf (sbc_s s r) \<longleftrightarrow> a mod 16 < n mod 16 + 1 \<and> n mod 16 \<noteq> 15"
proof -
  note d = alu_isD [OF sbc_s_alu [of r s]]
  have s: "unat (rA r - (s + 1)) = (256 + a - (n + 1) mod 256) mod 256"
    unfolding a_def n_def u8_sub [of "rA r"] u8_add [of s] by simp
  show "unat (rA (sbc_s s r)) = (256 + a - (n + 1) mod 256) mod 256"
    using s d(1) assms(1) by (simp only: of_bool_eq)
  have "rA r = s + 1 \<longleftrightarrow> rA r - (s + 1) = 0" by simp
  also have "\<dots> \<longleftrightarrow> (256 + a - (n + 1) mod 256) mod 256 = 0"
    unfolding u8_zero s ..
  finally show "zf (sbc_s s r) \<longleftrightarrow> (256 + a - (n + 1) mod 256) mod 256 = 0"
    using d(2) assms(1) by (simp only: of_bool_eq)
  show "nf (sbc_s s r)" using d(3) by simp
  show "cf (sbc_s s r) \<longleftrightarrow> a < n + 1 \<and> n \<noteq> 255"
    using d(5) assms(1) unfolding a_def n_def by (simp only: of_bool_eq u8_inc) auto
  show "hf (sbc_s s r) \<longleftrightarrow> a mod 16 < n mod 16 + 1 \<and> n mod 16 \<noteq> 15"
    using d(4) assms(1) unfolding a_def n_def by (simp only: of_bool_eq mod16_inc) auto
qed

section \<open>Rotations and single bits\<close>

lemma byte_no_8 [simp]: "\<not> bit w 8" for w :: u8
  by (auto dest: bit_imp_le_length)

lemma rotl_byte: "push_bit 1 w + of_bool (bit w 7) = word_rotl 1 w" for w :: u8
proof -
  have "push_bit 1 w AND of_bool (bit w 7) = 0"
    by (rule byte_eqI; unfold bit_and_iff bit_push_bit_iff bit_of_bool_iff; simp)
  then have "push_bit 1 w + of_bool (bit w 7) = push_bit 1 w OR of_bool (bit w 7)"
    by (rule disjunctive_add_eq_or) 
  also have "\<dots> = word_rotl 1 w"
    by (rule byte_eqI; unfold bit_or_iff bit_push_bit_iff bit_of_bool_iff bit_word_rotl_iff; simp)
  finally show ?thesis .
qed

lemma rotr_byte: "drop_bit 1 w OR (if bit w 0 then 0x80 else 0) = word_rotr 1 w" for w :: u8
  by (rule byte_eqI, simp_all add: bit_or_iff bit_drop_bit_eq bit_word_rotr_iff)
    (simp only: numeral_3_eq_3)

lemma swap_byte: "drop_bit 4 (w AND 0xF0) OR push_bit 4 (w AND 0x0F) = word_rotl 4 w" for w :: u8
  by (rule byte_eqI) (simp_all add: bit_or_iff bit_and_iff bit_push_bit_iff bit_drop_bit_eq bit_word_rotl_iff)

lemma rotl_4_4: "word_rotl 4 (word_rotl 4 w) = w" for w :: u8
  by (rule byte_eqI) (simp_all add: bit_word_rotl_iff)

lemma asr_byte: "sint (drop_bit 1 w OR (w AND 0x80)) = sint w div 2" for w :: u8
proof -
  have "drop_bit 1 w OR (w AND 0x80) = signed_drop_bit 1 w"
    by (rule byte_eqI) (simp_all add: bit_or_iff bit_and_iff bit_drop_bit_eq bit_signed_drop_bit_iff)
  then show ?thesis by (simp add: sint_signed_drop_bit_eq drop_bit_eq_div)
qed

lemma half_byte: "unat (drop_bit 1 w) = unat w div 2" for w :: u8
  by (simp only: unsigned_drop_bit_eq) (simp add: drop_bit_eq_div take_bit_nat_eq_self u8_bound)

lemmas cell_get = rlc_s_cell [THEN cell_is_get] rl_s_cell [THEN cell_is_get]
  rrc_s_cell [THEN cell_is_get] rr_s_cell [THEN cell_is_get] sla_s_cell [THEN cell_is_get]
  sra_s_cell [THEN cell_is_get] srl_s_cell [THEN cell_is_get] swap_s_cell [THEN cell_is_get]

lemma cell_is_cf: "cell_is p r r' v z n h c \<Longrightarrow> cf r' = c"
  by (simp add: cell_is_def flags_def)

lemma double_byte: "push_bit 1 w = 2 * w" for w :: u8
  by (simp add: push_bit_eq_mult)

lemma dec_inc_ss: "dec_ss q (inc_ss q r) = r" "inc_ss q (dec_ss q r) = r"
proof -
  have pp: "set16 q v (set16 q w r) = set16 q v r" for v w
    by (cases q) simp_all
  show "dec_ss q (inc_ss q r) = r" "inc_ss q (dec_ss q r) = r"
    by (simp_all add: dec_ss_def inc_ss_def pp)
qed

lemma set16_HL_flags: "zf (set16 RegHL w r) = zf r" "nf (set16 RegHL w r) = nf r"
  "hf (set16 RegHL w r) = hf r" "cf (set16 RegHL w r) = cf r"
  by (simp_all add: zf_def nf_def hf_def cf_def)

lemma add_HL_ss_word:
  "rHL (add_HL_ss ss r) = rHL r + ss"
  "flags (add_HL_ss ss r) = (zf r, False, 15 < unat (rHL r) mod 16 + unat ss mod 16,
        65535 < unat (rHL r) + unat ss)"
proof -
  have HL: "rHL (flagIf c m q) = rHL q" "rHL (removeFlag m q) = rHL q" for c m q
    by (simp_all add: rHL_def)
  show "rHL (add_HL_ss ss r) = rHL r + ss"
    using word_sum [of "rHL r" ss] by (simp add: add_HL_ss_def Let_def HL del: set16.simps)
  show "flags (add_HL_ss ss r) = (zf r, False, 15 < unat (rHL r) mod 16 + unat ss mod 16,
        65535 < unat (rHL r) + unat ss)"
    using word_sum [of "rHL r" ss]
    by (simp add: add_HL_ss_def Let_def HL set16_HL_flags flags_def flag_simps nibble_16 del: set16.simps)
qed

lemma shl1_ok: "unat b < 31 \<Longrightarrow> shl1 b = Inr (push_bit (unat b) 1)"
  by (simp add: shl1_def)

lemma one_bit: "ucast w AND (2 ^ n :: u32) = 0 \<longleftrightarrow> \<not> bit w n" if "n < 8" for w :: u8
  using that by (simp add: and_exp_eq_0_iff_not_bit bit_simps)

lemma one_bit_set: "ucast (ucast w OR (2 ^ n :: u32)) = set_bit n w" if "n < 8" for w :: u8
  using that by (intro bit_word_eqI) (auto simp: bit_simps)

lemma one_bit_clear: "ucast (ucast w AND NOT (2 ^ n :: u32)) = unset_bit n w"
  if "n < 8" for w :: u8
  using that by (intro bit_word_eqI) (auto simp: bit_simps)

lemma bit_b_s_word:
  assumes "unat b < 8"
  shows "bit_b_s b p r = Inr (flagIf (\<not> bit (get8 p r) (unat b)) 0x80 (setFlag 0x20 (removeFlag 0x40 r)))"
  using assms by (simp add: bit_b_s_def shl1_ok Let_def one_bit)

section \<open>Decimal adjustment\<close>

text \<open>The accumulator \<open>daa\<close> leaves after an addition, as a number.\<close>

definition daa_add_value :: "nat \<Rightarrow> bool \<Rightarrow> bool \<Rightarrow> nat" where
  "daa_add_value a h c =
    (let a = (if h \<or> 9 < a mod 16 then (a + 6) mod 256 else a)
     in if c \<or> 159 < a then (a + 96) mod 256 else a)"

lemma daa_carry_clear: "((ucast w :: u16) AND 0x0100 = 0x0100) = False" for w :: u8
proof -
  have "bit ((ucast w :: u16) AND 0x0100) 8 = False"
    by (simp add: bit_and_iff bit_ucast_iff)
  moreover have "bit (0x0100 :: u16) 8" by (simp add: bit_numeral_word_iff) 
  ultimately show ?thesis by metis
qed

lemma daa_add:
  assumes "\<not> nf r"
  shows "unat (rA (daa r)) = daa_add_value (unat (rA r)) (hf r) (cf r)"
    and "cf (daa r) = False" and "zf (daa r) \<longleftrightarrow> rA (daa r) = 0" and "\<not> hf (daa r)" and "\<not> nf (daa r)"
proof -
  have l: "rA r AND 0x0F > 9 \<longleftrightarrow> 9 < unat (rA r) mod 16"
    by (simp add: word_less_nat_alt unat_nibble)
  have g: "0x9F < w \<longleftrightarrow> 159 < unat w" for w :: u8
    by (simp add: word_less_nat_alt)
  have s: "unat (w + 6) = (unat w + 6) mod 256" "unat (w + 96) = (unat w + 96) mod 256"
    "unat (102 + w) = ((unat w + 6) mod 256 + 96) mod 256" for w :: u8
  proof -
    have c: "unat (6 :: u8) = 6" "unat (96 :: u8) = 96" "unat (102 :: u8) = 102" by simp_all
    show "unat (w + 6) = (unat w + 6) mod 256" "unat (w + 96) = (unat w + 96) mod 256"
      by (simp_all only: u8_add c)
    have "unat (102 + w) = (unat w + 102) mod 256"
      by (simp only: u8_add c add.commute)
    then show "unat (102 + w) = ((unat w + 6) mod 256 + 96) mod 256"
      by (simp add: mod_simps add.commute)
  qed
  show "unat (rA (daa r)) = daa_add_value (unat (rA r)) (hf r) (cf r)"
    using assms
    by (auto simp: daa_def Let_def checkFlag_flags daa_carry_clear daa_add_value_def l g s flag_simps)
  show "cf (daa r) = False" "zf (daa r) \<longleftrightarrow> rA (daa r) = 0" "\<not> hf (daa r)" "\<not> nf (daa r)"
    using assms by (auto simp: daa_def Let_def checkFlag_flags daa_carry_clear flag_simps)
qed

text \<open>
  \<open>bcd t\<close> is the byte holding the two decimal digits of \<open>t\<close>. The adjustment of every sum of two
  BCD bytes is one of 361 cases of digit sums, which evaluation goes through.
\<close>

definition bcd :: "nat \<Rightarrow> nat" where
  "bcd t = 16 * (t mod 100 div 10) + t mod 10"

definition daa_sum_ok :: "nat \<Rightarrow> nat \<Rightarrow> bool" where
  "daa_sum_ok h l \<longleftrightarrow> daa_add_value ((16 * h + l) mod 256) (15 < l) (255 < 16 * h + l) =
     (if h = 15 \<and> 10 \<le> l \<and> l \<le> 15 then l - 10 else bcd (10 * h + l))"

lemma daa_sum_cases: "list_all (\<lambda>h. list_all (daa_sum_ok h) [0..<19]) [0..<19]"
  by code_simp

lemma list_all_upt: "list_all P [0..<n] \<Longrightarrow> k < n \<Longrightarrow> P k"
  by (simp add: list_all_iff)

lemma daa_sum: "h < 19 \<Longrightarrow> l < 19 \<Longrightarrow> daa_sum_ok h l"
  by (rule list_all_upt [where P = "daa_sum_ok h", OF list_all_upt
        [where P = "\<lambda>h. list_all (daa_sum_ok h) [0..<19]", OF daa_sum_cases]])

section \<open>Properties\<close>

text \<open>
  \<^bold>\<open>C11.\<close> The 8-bit arithmetic and logic without carry-in, exactly: the accumulator, the flags Z, N,
  H (carry or borrow between the nibbles) and C (carry or borrow out of the byte), and the frame: no
  other register and no unused bit of F changes.
\<close>

theorem alu_exact:
  "alu_is r (add_s s r) (rA r + s) (rA r + s = 0) False
     (15 < unat (rA r) mod 16 + unat s mod 16) (255 < unat (rA r) + unat s)
   \<and> alu_is r (sub_s s r) (rA r - s) (rA r = s) True
     (unat (rA r) mod 16 < unat s mod 16) (unat (rA r) < unat s)
   \<and> alu_is r (cmp_s s r) (rA r) (rA r = s) True
     (unat (rA r) mod 16 < unat s mod 16) (unat (rA r) < unat s)
   \<and> alu_is r (and_s s r) (rA r AND s) (rA r AND s = 0) False True False
   \<and> alu_is r (or_s s r) (rA r OR s) (rA r OR s = 0) False False False
   \<and> alu_is r (xor_s s r) (rA r XOR s) (rA r XOR s = 0) False False False"
  using add_s_alu sub_s_alu cmp_s_alu logic_alu by blast

text \<open>
  \<^bold>\<open>C25.\<close> Arithmetic with carry-in, against the numbers it should compute. The byte and Z are always
  right; C is right except that it is lost when the operand is FFh and the carry is set, and H is
  right except that it is lost when the low nibble of the operand is Fh and the carry is set: the
  code adds the carry to the operand byte first, where it wraps.
\<close>

theorem carry_in_exact:
  "let a = unat (rA r); n = unat s; c = of_bool (cf r) in
     unat (rA (adc_s s r)) = (a + n + c) mod 256
     \<and> (zf (adc_s s r) \<longleftrightarrow> (a + n + c) mod 256 = 0) \<and> \<not> nf (adc_s s r)
     \<and> (cf (adc_s s r) \<longleftrightarrow> 255 < a + n + c \<and> \<not> (c = 1 \<and> n = 255))
     \<and> (hf (adc_s s r) \<longleftrightarrow> 15 < a mod 16 + n mod 16 + c \<and> \<not> (c = 1 \<and> n mod 16 = 15))
     \<and> unat (rA (sbc_s s r)) = (256 + a - (n + c) mod 256) mod 256
     \<and> (zf (sbc_s s r) \<longleftrightarrow> (256 + a - (n + c) mod 256) mod 256 = 0) \<and> nf (sbc_s s r)
     \<and> (cf (sbc_s s r) \<longleftrightarrow> a < n + c \<and> \<not> (c = 1 \<and> n = 255))
     \<and> (hf (sbc_s s r) \<longleftrightarrow> a mod 16 < n mod 16 + c \<and> \<not> (c = 1 \<and> n mod 16 = 15))"
proof (cases "cf r")
  case True
  with adc_s_carry [OF True, of s] sbc_s_carry [OF True, of s] show ?thesis
    by (simp only: Let_def of_bool_eq simp_thms refl)
next
  case False
  have n: "unat s mod 256 = unat s" using u8_bound [of s] by simp
  have z: "rA r = s \<longleftrightarrow> (256 + unat (rA r) - unat s) mod 256 = 0"
    using u8_zero [of "rA r - s"] u8_sub [of "rA r" s] by simp
  from False alu_isD [OF adc_s_alu [of r s]] alu_isD [OF sbc_s_alu [of r s]] show ?thesis
    by (simp only: Let_def of_bool_eq u8_add u8_sub u8_zero z add_0_right n simp_thms zero_neq_one)
qed

text \<open>
  \<^bold>\<open>C26.\<close> Rotates and shifts through any register. \<open>rlc_s\<close> and \<open>rrc_s\<close> rotate the byte and undo each
  other, \<open>swap_s\<close> is its own inverse, \<open>sla_s\<close>, \<open>sra_s\<close> and \<open>srl_s\<close> shift; \<open>rl_s\<close> is the same function as
  \<open>sla_s\<close> and \<open>rr_s\<close> shifts in a zero, so neither rotates through the carry; \<open>srl_s\<close> always sets C.
\<close>

theorem rotates_exact:
  "get8 p (rlc_s p r) = word_rotl 1 (get8 p r) \<and> get8 p (rrc_s p r) = word_rotr 1 (get8 p r)
   \<and> get8 p (rrc_s p (rlc_s p r)) = get8 p r \<and> get8 p (swap_s p (swap_s p r)) = get8 p r
   \<and> rl_s p r = sla_s p r \<and> get8 p (sla_s p r) = 2 * get8 p r \<and> cf (sla_s p r) = bit (get8 p r) 7
   \<and> unat (get8 p (rr_s p r)) = unat (get8 p r) div 2 \<and> cf (rr_s p r) = bit (get8 p r) 0
   \<and> sint (get8 p (sra_s p r)) = sint (get8 p r) div 2
   \<and> unat (get8 p (srl_s p r)) = unat (get8 p r) div 2 \<and> cf (srl_s p r)"
proof -
  have "get8 p (rrc_s p (rlc_s p r)) = get8 p r"
    by (simp only: cell_get rotl_byte rotr_byte word_rot_lr)
  moreover have "get8 p (swap_s p (swap_s p r)) = get8 p r"
    by (simp only: cell_get swap_byte rotl_4_4)
  moreover have "get8 p (sla_s p r) = 2 * get8 p r"
    by (simp only: cell_get double_byte)
  moreover have "rl_s p r = sla_s p r"
    by (simp only: sla_s_def rl_s_def)
  ultimately show ?thesis
    using sla_s_cell [THEN cell_is_cf, of p r] rr_s_cell [THEN cell_is_cf, of p r]
      srl_s_cell [THEN cell_is_cf, of p r]
    by (simp only: cell_get(1-4,6-8) rotl_byte rotr_byte half_byte asr_byte simp_thms)
qed

text \<open>
  Increments, decrements and 16-bit arithmetic: the result, Z, N, H and the untouched C of
  the 8-bit forms; \<open>inc_ss\<close> and \<open>dec_ss\<close> undo each other; \<open>add_HL_ss\<close> adds modulo 65536, with C the carry out of bit 15, H the carry out of bit 3 (not
  bit 11) and Z kept.
\<close>

theorem inc_dec_16bit_exact:
  "cell_is p r (inc_s p r) (get8 p r + 1) (get8 p r + 1 = 0) False (unat (get8 p r) mod 16 = 15) (cf r)
   \<and> cell_is p r (dec_s p r) (get8 p r - 1) (get8 p r - 1 = 0) True (unat (get8 p r) mod 16 = 0) (cf r)
   \<and> dec_ss q (inc_ss q r) = r \<and> inc_ss q (dec_ss q r) = r
   \<and> rHL (add_HL_ss ss r) = rHL r + ss
   \<and> flags (add_HL_ss ss r) = (zf r, False, 15 < unat (rHL r) mod 16 + unat ss mod 16,
        65535 < unat (rHL r) + unat ss)"
  by (intro conjI inc_s_cell dec_s_cell dec_inc_ss add_HL_ss_word)

text \<open>
  Bit instructions on any register, for the bit numbers the opcodes have: \<open>bit_b_s\<close> reports the
  complement of the bit in Z and keeps C and the register, \<open>set_b_s\<close> and \<open>res_b_s\<close> change exactly that
  bit and no flag.
\<close>

theorem bits_exact:
  assumes "unat b < 8"
  shows "\<exists>r1 r2 r3. bit_b_s b p r = Inr r1 \<and> flags r1 = (\<not> bit (get8 p r) (unat b), False, True, cf r)
      \<and> get8 p r1 = get8 p r
    \<and> set_b_s b p r = Inr r2 \<and> r2 = set8 p (set_bit (unat b) (get8 p r)) r
    \<and> res_b_s b p r = Inr r3 \<and> r3 = set8 p (unset_bit (unat b) (get8 p r)) r"
  using assms bit_b_s_word [OF assms, of p r]
  by (simp add: flags_def flag_simps set_b_s_def res_b_s_def shl1_ok one_bit_set one_bit_clear)

theorem bits_exact_witness:
  "let r = \<lparr>rA = 0x45, rF = 0, rB = 0, rC = 0, rD = 0, rE = 0, rH = 0, rL = 0,
       rSP = 0, rPC = 0\<rparr> in
     set_b_s 7 RegA r = Inr (set8 RegA (set_bit 7 0x45) r)"
  using bits_exact [of 7 RegA "\<lparr>rA = 0x45, rF = 0, rB = 0, rC = 0, rD = 0, rE = 0, rH = 0, rL = 0,
       rSP = 0, rPC = 0\<rparr>"]
  by (auto simp del: split_paired_Ex)

text \<open>
  Decimal adjustment after \<open>add_s\<close>, for two numbers below 100 held as BCD bytes: the
  accumulator becomes the BCD byte of the sum modulo 100 unless the ten-digits add up to 15 and the
  units carry without overflowing a nibble; there the adjustment of the low nibble wraps the byte and
  the second adjustment is skipped. The decimal carry is lost always: C is clear afterwards whatever
  the sum.
\<close>

theorem daa_after_add:
  assumes "m < 100" and "n < 100" and "unat (rA r) = bcd m" and "unat s = bcd n"
  shows "unat (rA (daa (add_s s r))) =
      (if m div 10 + n div 10 = 15 \<and> 10 \<le> m mod 10 + n mod 10 \<and> m mod 10 + n mod 10 \<le> 15
       then m mod 10 + n mod 10 - 10 else bcd (m + n))
    \<and> \<not> cf (daa (add_s s r))"
proof -
  define h l where hl: "h = m div 10 + n div 10" "l = m mod 10 + n mod 10"
  have b: "h < 19" "l < 19" using assms(1,2) hl by presburger+
  have e: "bcd m = 16 * (m div 10) + m mod 10" "bcd n = 16 * (n div 10) + n mod 10"
    using assms(1,2) by (simp_all add: bcd_def)
  have sum: "unat (rA r) + unat s = 16 * h + l" using assms(3,4) e hl by simp
  have nib: "unat (rA r) mod 16 + unat s mod 16 = l"
  proof -
    have "x mod 10 mod 16 = x mod 10" for x :: nat  \<comment> \<open>a digit fits a nibble\<close>
      by (rule mod_less) (rule less_trans [OF mod_less_divisor]; simp)
    then show ?thesis using assms(3,4) e hl by (simp only: mod_mult_self4)
  qed
  have mn: "10 * h + l = m + n"
    using mult_div_mod_eq [of 10 m] mult_div_mod_eq [of 10 n] hl by linarith
  note d = alu_isD [OF add_s_alu [of r s]]
  have "unat (rA (add_s s r)) = (16 * h + l) mod 256"
    using d(1) sum by (simp add: unat_word_ariths)
  moreover have "hf (add_s s r) = (15 < l)" "cf (add_s s r) = (255 < 16 * h + l)"
    using d(4,5) sum nib by simp_all
  moreover have "\<not> nf (add_s s r)" using d(3) by simp
  ultimately show ?thesis
    using daa_add [of "add_s s r"] daa_sum [OF b]
    unfolding hl [symmetric] mn [symmetric] by (simp add: daa_sum_ok_def)
qed

theorem daa_after_add_witness:
  "let r = daa (add_s 0x38 (\<lparr>rA = 0x45, rF = 0, rB = 0, rC = 0, rD = 0, rE = 0, rH = 0, rL = 0,
       rSP = 0, rPC = 0\<rparr>)) in unat (rA r) = 0x83 \<and> \<not> cf r"
  using daa_after_add [of 45 38 "\<lparr>rA = 0x45, rF = 0, rB = 0, rC = 0, rD = 0, rE = 0, rH = 0, rL = 0,
       rSP = 0, rPC = 0\<rparr>" "0x38"]
  by (simp add: bcd_def)

end
