(* ===== verification/Cpu_Mem_Correct.thy ===== *)
theory Cpu_Mem_Correct
  imports Cpu_Mem Memory_Correct Cpu_Alu_Correct
begin

text \<open>
  The instructions that go through memory: the forms at HL against the register forms, the stack
  and the calls, over the bus contract of theory \<open>Memory_Correct\<close>.
\<close>

section \<open>Memory accesses do not see the registers\<close>

lemma modRegs_sel [simp]:
  "regs (modRegs f g) = f (regs g)" "crt (modRegs f g) = crt g" "gpu (modRegs f g) = gpu g"
  "intr (modRegs f g) = intr g" "wRAM (modRegs f g) = wRAM g" "OAM (modRegs f g) = OAM g"
  "hRAM (modRegs f g) = hRAM g" "ioPorts (modRegs f g) = ioPorts g"
  "tickCounter (modRegs f g) = tickCounter g" "stopped (modRegs f g) = stopped g"
  by (simp_all add: modRegs_def)

lemma modRegs_modRegs [simp]: "modRegs f (modRegs h g) = modRegs (\<lambda>r. f (h r)) g"
  by (simp add: modRegs_def)

lemma mmuReadByte_regs: "mmuReadByte a (g\<lparr>regs := r\<rparr>) = mmuReadByte a g"
  by (simp add: mmuReadByte_def)

lemma mmuReadByte_modRegs [simp]: "mmuReadByte a (modRegs f g) = mmuReadByte a g"
  by (simp add: mmuReadByte_regs modRegs_def)

lemma mmuWriteByte_regs:
  "mmuWriteByte a v (g\<lparr>regs := r\<rparr>) = bind_res (mmuWriteByte a v g) (\<lambda>(b, g'). Inr (b, g'\<lparr>regs := r\<rparr>))"
proof (cases "ramCell a")
  case True
  then show ?thesis by (simp add: mmu_cell cellSet_def Let_def)
next
  case False
  then show ?thesis
  proof (cases rule: non_cell_cases)
    case cart
    then show ?thesis
      by (simp only: mmuWriteByte_cart) (cases "mbc_writeByte a v (crt g)"; auto)
  qed (simp_all add: mmuWriteByte_vram mmuWriteByte_unusable mmuWriteByte_io mmuWriteByte_ie)
qed

lemma mmuStore_regs:
  "mmuStore a v (g\<lparr>regs := r\<rparr>) = bind_res (mmuStore a v g) (\<lambda>g'. Inr (g'\<lparr>regs := r\<rparr>))"
  unfolding mmuStore_def mmuWriteByte_regs by (cases "mmuWriteByte a v g") auto

lemma mmuStore_modRegs: "mmuStore a v (modRegs f g) =
   bind_res (mmuStore a v g) (\<lambda>g'. Inr (g'\<lparr>regs := f (regs g)\<rparr>))"
  by (simp add: modRegs_def mmuStore_regs)

section \<open>Instructions at HL\<close>

text \<open>
  \<open>at_HL f\<close> runs the register form \<open>f\<close> on the byte HL points to: the byte goes through the
  accumulator of a copy of the register file, and only its flags come back.
\<close>

definition at_HL :: "(reg8 \<Rightarrow> registers \<Rightarrow> registers) \<Rightarrow> gb \<Rightarrow> gb res" where
  "at_HL f g = bind_res (mmuReadByte (rHL (regs g)) g) (\<lambda>v.
     let r = f RegA ((regs g)\<lparr>rA := v\<rparr>)
     in bind_res (mmuStore (rHL (regs g)) (rA r) g) (\<lambda>g'.
          Inr (g'\<lparr>regs := (regs g)\<lparr>rF := rF r\<rparr>\<rparr>)))"

lemma flag_A_commute [simp]:
  "setFlag m (r\<lparr>rA := a\<rparr>) = (setFlag m r)\<lparr>rA := a\<rparr>"
  "removeFlag m (r\<lparr>rA := a\<rparr>) = (removeFlag m r)\<lparr>rA := a\<rparr>"
  "flagIf c m (r\<lparr>rA := a\<rparr>) = (flagIf c m r)\<lparr>rA := a\<rparr>"
  "checkFlag m (r\<lparr>rA := a\<rparr>) = checkFlag m r"
  "rHL (r\<lparr>rA := a\<rparr>) = rHL r"
  by (simp_all add: setFlag_def removeFlag_def flagIf_def checkFlag_def rHL_def)

lemma flag_HL [simp]:
  "rHL (setFlag m r) = rHL r" "rHL (removeFlag m r) = rHL r" "rHL (flagIf c m r) = rHL r"
  by (simp_all add: rHL_def)

lemma only_F_self [simp]:
  "r\<lparr>rF := rF (setFlag m q)\<rparr> = setFlag m (r\<lparr>rF := rF q\<rparr>)"
  "r\<lparr>rF := rF (removeFlag m q)\<rparr> = removeFlag m (r\<lparr>rF := rF q\<rparr>)"
  "r\<lparr>rF := rF (flagIf c m q)\<rparr> = flagIf c m (r\<lparr>rF := rF q\<rparr>)"
  by (simp_all add: setFlag_def removeFlag_def flagIf_def)

lemma modRegs_upd [simp]: "modRegs f (g\<lparr>regs := r\<rparr>) = g\<lparr>regs := f r\<rparr>"
  by (simp add: modRegs_def)

lemmas HL_form = at_HL_def Let_def mmuStore_modRegs bind_res_assoc

lemma HL_forms:
  "inc_sHL = at_HL inc_s" "dec_sHL = at_HL dec_s" "swap_sHL = at_HL swap_s"
  "rlc_sHL = at_HL rlc_s" "rl_sHL = at_HL rl_s" "rr_sHL = at_HL rr_s"
  "sla_sHL = at_HL sla_s" "sra_sHL = at_HL sra_s" "srl_sHL = at_HL srl_s"
  by (rule ext,
     simp add: HL_form inc_sHL_def inc_s_def dec_sHL_def dec_s_def swap_sHL_def swap_s_def rlc_sHL_def
      rlc_s_def rl_sHL_def rl_s_def rr_sHL_def rr_s_def sla_sHL_def sla_s_def
      sra_sHL_def sra_s_def srl_sHL_def srl_s_def if_distrib cong: if_cong)+

lemma bind_Inr_cong: "(\<And>x. f x = h x) \<Longrightarrow> bind_res m f = bind_res m h"
  by (cases m) auto

lemma rrc_HL_form: "rrc_sHL = at_HL rrc_s"
proof
  show "rrc_sHL g = at_HL rrc_s g" for g
    unfolding rrc_sHL_def at_HL_def rrc_s_def Let_def mmuReadByte_modRegs modRegs_sel flag_HL
    by (rule bind_Inr_cong) (simp add: HL_form)
qed

text \<open>The bit instructions, for any register number the opcodes have.\<close>

lemma bit_HL_forms:
  assumes "unat b < 8"
  shows "bit_b_sHL b g = bind_res (mmuReadByte (rHL (regs g)) g) (\<lambda>v.
       bind_res (bit_b_s b RegA ((regs g)\<lparr>rA := v\<rparr>)) (\<lambda>r. Inr (g\<lparr>regs := (regs g)\<lparr>rF := rF r\<rparr>\<rparr>)))"
    and "set_b_sHL b g = bind_res (mmuReadByte (rHL (regs g)) g) (\<lambda>v.
       mmuStore (rHL (regs g)) (set_bit (unat b) v) g)"
    and "res_b_sHL b g = bind_res (mmuReadByte (rHL (regs g)) g) (\<lambda>v.
       mmuStore (rHL (regs g)) (unset_bit (unat b) v) g)"
  using assms
  by (simp_all add: bit_b_sHL_def bit_b_s_word set_b_sHL_def res_b_sHL_def shl1_ok Let_def one_bit
      one_bit_set one_bit_clear) (simp add: modRegs_def)

section \<open>The stack\<close>

lemma ramPhys_pred: "ramPhys (a - 1) \<noteq> ramPhys a"
proof (cases "a = 0")
  case False
  then have "unat (a - 1) = unat a - 1" "0 < unat a"
    by (simp_all add: unat_minus_one unat_gt_0)
  then show ?thesis by (simp add: ramPhys_eq) linarith
qed (simp add: ramPhys_def)

lemma pc_bytes:
  "ucast (drop_bit 8 (w AND 0xFF00)) = hi8 w" "ucast (w AND 0xFF) = lo8 w"
  "lo8 (drop_bit 8 w) = hi8 w"
  by (rule bit_word_eqI; auto simp: hi8_def lo8_def bit_simps)+

lemma low_byte_ucast [simp]: "ucast b AND 0x00FF = (ucast b :: u16)" for b :: u8
  by (rule bit_word_eqI) (auto simp: bit_simps dest: bit_imp_le_length)

lemma cellSet_regs [simp]: "cellSet a v (g\<lparr>regs := r\<rparr>) = (cellSet a v g)\<lparr>regs := r\<rparr>"
  "cellVal a (g\<lparr>regs := r\<rparr>) = cellVal a g" "cellVal a (modRegs f g) = cellVal a g"
  by (simp_all add: cellSet_def cellVal_def modRegs_def Let_def)

definition stackCells :: "gb \<Rightarrow> bool" where
  "stackCells g \<longleftrightarrow> ramCell (rSP (regs g) - 1) \<and> ramCell (rSP (regs g) - 2)"

lemma call_nn_stack:
  assumes "stackCells g"
  defines "sp \<equiv> rSP (regs g)"
  shows "call_nn nn g = Inr (modRegs (\<lambda>r. r\<lparr>rPC := nn, rSP := sp - 2\<rparr>)
     (cellSet (sp - 2) (lo8 (rPC (regs g))) (cellSet (sp - 1) (hi8 (rPC (regs g))) g)))"
  using assms(1) unfolding stackCells_def
  by (simp add: call_nn_def Let_def mmu_cell(3) pc_bytes sp_def diff_diff_eq)

lemma rst_f_call: "rst_f f g = call_nn (ucast f) g"
  by (simp add: rst_f_def call_nn_def Let_def)

lemma push_ss_stack:
  assumes "stackCells g"
  defines "sp \<equiv> rSP (regs g)"
  shows "push_ss ss g = Inr (modRegs (\<lambda>r. r\<lparr>rSP := sp - 2\<rparr>)
     (cellSet (sp - 2) (hi8 ss) (cellSet (sp - 1) (lo8 ss) g)))"
proof -
  have c: "ramCell (sp - 1)" "ramCell (sp - 2)" using assms by (simp_all add: stackCells_def sp_def)
  then show ?thesis
    by (simp add: push_ss_def Let_def mmuStore_modRegs mmu_cell(3) pc_bytes sp_def [symmetric])
      (simp add: modRegs_def)
qed


lemma ret_stack:
  assumes "ramCell (rSP (regs g))" and "ramCell (rSP (regs g) + 1)"
  defines "sp \<equiv> rSP (regs g)"
  shows "ret g = Inr (modRegs (\<lambda>r. r\<lparr>rPC := mk16 (cellVal (sp + 1) g) (cellVal sp g), rSP := sp + 2\<rparr>) g)"
proof -
  have "ret g = Inr (modRegs (\<lambda>r. r\<lparr>rPC := ucast (cellVal sp g) OR push_bit 8 (ucast (cellVal (sp + 1) g)),
      rSP := sp + 2\<rparr>) g)"
    using assms(1,2)
    by (simp add: ret_def Let_def mmu_cell(1) sp_def [symmetric] add.commute)
  then show ?thesis by (simp only: mk16_def or.commute)
qed

lemma pop_dd_stack:
  assumes "ramCell (rSP (regs g))" and "ramCell (rSP (regs g) + 1)"
  defines "sp \<equiv> rSP (regs g)"
  shows "pop_dd p g = Inr (modRegs (\<lambda>r. set16 p (ucast (cellVal (sp + 1) g)) (r\<lparr>rSP := sp + 2\<rparr>)) g)"
  using assms(1,2) by (simp add: pop_dd_def Let_def mmu_cell(1) modRegs_def sp_def add.commute)

lemma stack_cells_read:
  assumes "stackCells g"
  defines "sp \<equiv> rSP (regs g)"
  shows "cellVal (sp - 2) (cellSet (sp - 2) l (cellSet (sp - 1) h g)) = l"
    and "cellVal (sp - 1) (cellSet (sp - 2) l (cellSet (sp - 1) h g)) = h"
  using assms ramPhys_pred [of "sp - 1"]
  by (simp_all add: stackCells_def cellVal_cellSet)


lemma stackCells_other:
  assumes "stackCells g" and "\<not> ramCell b"
  shows "mmuReadByte b (cellSet (rSP (regs g) - 2) l (cellSet (rSP (regs g) - 1) h g)) = mmuReadByte b g"
proof -
  have c: "ramCell (rSP (regs g) - 1)" "ramCell (rSP (regs g) - 2)"
    using assms(1) by (simp_all add: stackCells_def)
  have "mmu.st2 (rSP (regs g) - 1) h (rSP (regs g) - 2) l g =
      Inr (cellSet (rSP (regs g) - 2) l (cellSet (rSP (regs g) - 1) h g))"
    by (simp add: mmu.st2_def mmu_cell(3) [OF c(1)] mmu_cell(3) [OF c(2)])
  from mmu.rd_st2_other [OF c this] assms(2) show ?thesis by simp
qed

lemma ret_after:
  assumes "stackCells g"
  defines "sp \<equiv> rSP (regs g)"
  shows "ret (modRegs (\<lambda>r. f r\<lparr>rSP := sp - 2\<rparr>) (cellSet (sp - 2) l (cellSet (sp - 1) h g))) =
    Inr (modRegs (\<lambda>r. f r\<lparr>rPC := mk16 h l, rSP := sp\<rparr>) (cellSet (sp - 2) l (cellSet (sp - 1) h g)))"
proof -
  have "sp - 2 + 1 = sp - 1" by simp
  with assms(1) stack_cells_read [OF assms(1), folded sp_def] show ?thesis
    by (subst ret_stack) (simp_all add: stackCells_def sp_def [symmetric])
qed

section \<open>Properties\<close>

text \<open>
  \<^bold>\<open>C24.\<close> The instructions at (HL) are their register forms applied to the byte HL points to: the same
  result byte is stored back, the same flags come out, no other register changes, and the fault of the
  memory access is the only one. The bit, set and reset forms do the same with one bit.
\<close>

theorem HL_forms_agree:
  assumes "unat b < 8"
  shows "inc_sHL = at_HL inc_s \<and> dec_sHL = at_HL dec_s \<and> swap_sHL = at_HL swap_s
    \<and> rlc_sHL = at_HL rlc_s \<and> rl_sHL = at_HL rl_s \<and> rrc_sHL = at_HL rrc_s \<and> rr_sHL = at_HL rr_s
    \<and> sla_sHL = at_HL sla_s \<and> sra_sHL = at_HL sra_s \<and> srl_sHL = at_HL srl_s
    \<and> bit_b_sHL b g = bind_res (mmuReadByte (rHL (regs g)) g) (\<lambda>v.
         bind_res (bit_b_s b RegA ((regs g)\<lparr>rA := v\<rparr>)) (\<lambda>r. Inr (g\<lparr>regs := (regs g)\<lparr>rF := rF r\<rparr>\<rparr>)))
    \<and> set_b_sHL b g = bind_res (mmuReadByte (rHL (regs g)) g) (\<lambda>v.
         mmuStore (rHL (regs g)) (set_bit (unat b) v) g)
    \<and> res_b_sHL b g = bind_res (mmuReadByte (rHL (regs g)) g) (\<lambda>v.
         mmuStore (rHL (regs g)) (unset_bit (unat b) v) g)"
  by (intro conjI HL_forms rrc_HL_form bit_HL_forms [OF assms])

definition gbDemo :: gb where
  "gbDemo = modRegs (\<lambda>r. r\<lparr>rH := 0xC0, rL := 0x10, rSP := 0xFFFE, rPC := 0x0150\<rparr>) (gb_static (\<lambda>_. 0))"

lemma HL_forms_agree_witness:
  "set_b_sHL 3 gbDemo = bind_res (mmuReadByte 0xC010 gbDemo) (\<lambda>v. mmuStore 0xC010 (set_bit 3 v) gbDemo)"
proof -
  have "rHL (regs gbDemo) = 0xC010" by (simp add: gbDemo_def rHL_def mk16_def)
  then show ?thesis using HL_forms_agree [of 3 gbDemo] by simp
qed

text \<open>
  \<^bold>\<open>C30.\<close> Calls and returns. With the stack in RAM a call succeeds, jumps to its target and takes two
  bytes; the matching return restores PC and SP and every other register, and no address outside the
  RAM reads differently. A restart is the call of its vector.
\<close>

theorem call_ret_roundtrip:
  assumes "stackCells g"
  shows "\<exists>g1 g2. call_nn nn g = Inr g1 \<and> rPC (regs g1) = nn \<and> rSP (regs g1) = rSP (regs g) - 2
     \<and> ret g1 = Inr g2 \<and> regs g2 = regs g \<and> tickCounter g2 = tickCounter g
     \<and> (\<forall>b. \<not> ramCell b \<longrightarrow> mmuReadByte b g2 = mmuReadByte b g)
     \<and> rst_f f g = call_nn (ucast f) g"
  using call_nn_stack [OF assms, of nn] stackCells_other [OF assms]
    ret_after [OF assms, where f = "\<lambda>r. r\<lparr>rPC := nn\<rparr>" and h = "hi8 (rPC (regs g))" and l = "lo8 (rPC (regs g))"]
  by (simp add: rst_f_call)

lemma stackCells_demo: "stackCells gbDemo"
  by (simp add: stackCells_def gbDemo_def ramCell_def)

lemma call_ret_roundtrip_witness:
  "\<exists>g1 g2. call_nn 0x2000 gbDemo = Inr g1 \<and> rPC (regs g1) = 0x2000 \<and> ret g1 = Inr g2 \<and> regs g2 = regs gbDemo"
  using call_ret_roundtrip [OF stackCells_demo, of "0x2000" 0] by blast

text \<open>
  Pushes and pops. A push takes two bytes of the stack and a pop gives them back, but the pop
  drops the first byte it reads, which is the high byte of the pair: the register pair gets the low
  byte zero-extended. The push stores the bytes the other way round than a call does, so a return
  after a push jumps to the byte-swapped address.
\<close>

theorem push_pop_low_byte:
  assumes "stackCells g"
  shows "\<exists>g1 g2 g3. push_ss ss g = Inr g1 \<and> rSP (regs g1) = rSP (regs g) - 2
     \<and> pop_dd p g1 = Inr g2 \<and> regs g2 = set16 p (ucast (lo8 ss)) (regs g)
     \<and> ret g1 = Inr g3 \<and> regs g3 = (regs g)\<lparr>rPC := mk16 (lo8 ss) (hi8 ss)\<rparr>"
proof -
  define sp where "sp = rSP (regs g)"
  define h where "h = cellSet (sp - 2) (hi8 ss) (cellSet (sp - 1) (lo8 ss) g)"
  have sp1: "sp - 2 + 1 = sp - 1" by simp
  have c: "ramCell (sp - 1)" "ramCell (sp - 2)" using assms by (simp_all add: stackCells_def sp_def)
  have rh: "regs h = regs g" by (simp add: h_def)
  have v: "cellVal (sp - 1) h = lo8 ss"
    using stack_cells_read(2) [OF assms] by (simp add: h_def sp_def)
  have p1: "push_ss ss g = Inr (modRegs (\<lambda>r. r\<lparr>rSP := sp - 2\<rparr>) h)"
    using push_ss_stack [OF assms] by (simp add: h_def sp_def)
  have p2: "pop_dd p (modRegs (\<lambda>r. r\<lparr>rSP := sp - 2\<rparr>) h) =
      Inr (modRegs (\<lambda>r. set16 p (ucast (lo8 ss)) (r\<lparr>rSP := sp\<rparr>)) h)"
    using c v by (subst pop_dd_stack) (simp_all add: sp1)
  have p3: "ret (modRegs (\<lambda>r. r\<lparr>rSP := sp - 2\<rparr>) h) =
      Inr (modRegs (\<lambda>r. r\<lparr>rPC := mk16 (lo8 ss) (hi8 ss), rSP := sp\<rparr>) h)"
    using ret_after [OF assms, where f = "\<lambda>r. r"] by (simp add: h_def sp_def)
  have "(regs g)\<lparr>rSP := sp\<rparr> = regs g" "(regs g)\<lparr>rPC := w, rSP := sp\<rparr> = (regs g)\<lparr>rPC := w\<rparr>" for w
    by (simp_all add: sp_def)
  with p1 p2 p3 rh show ?thesis by (simp add: sp_def)
qed

lemma push_pop_low_byte_witness:
  "\<exists>g1 g2. push_ss 0x1234 gbDemo = Inr g1 \<and> pop_dd RegBC g1 = Inr g2 \<and> rBC (regs g2) = 0x34"
proof -
  have "ucast (lo8 0x1234) = (0x34 :: u16)" by (simp add: lo8_def)
  moreover have "rBC (set16 RegBC w r) = w" for w r by (simp add: rBC_def)
  ultimately show ?thesis
    using push_pop_low_byte [OF stackCells_demo, of "0x1234" RegBC] by metis
qed

end
