(* ===== verification/Cpu_Total.thy ===== *)
theory Cpu_Total
  imports Cpu Cpu_Mem_Correct
begin

text \<open>
  Totality of the CPU: on a machine whose cartridge cannot fault every entry of the two opcode tables
  runs to the end, keeps the machine safe and adds a bounded number of ticks.
\<close>

section \<open>Safe machines\<close>

text \<open>
  A machine is safe when its display is in order, the file for the dump of VRAM opens whenever it is asked
  for, and its cartridge cannot fault: no controller with a full ROM and RAM, or one of the controllers
  whose functions are stubs. MBC1 and MBC3 compute addresses past their memories (theory
  \<open>Mbc_Correct\<close>), so no size makes them total.
\<close>

definition holds_bytes :: "nat \<Rightarrow> buffer option \<Rightarrow> bool" where
  "holds_bytes n p = (case p of None \<Rightarrow> False | Some b \<Rightarrow> n \<le> bsize b)"

lemma holds_bytes_size: "map_option bsize p = map_option bsize q \<Longrightarrow> holds_bytes n p = holds_bytes n q"
  by (cases p; cases q) (auto simp: holds_bytes_def)

lemma holds_bytes_get: "holds_bytes n p \<Longrightarrow> i < n \<Longrightarrow> \<exists>v. buf_get p i = Inr v"
  by (auto simp: holds_bytes_def split: option.splits)

lemma holds_bytes_set: "holds_bytes n p \<Longrightarrow> i < n \<Longrightarrow> \<exists>q. buf_set p i v = Inr q"
  by (auto simp: holds_bytes_def split: option.splits)

fun fn_total :: "mbcFn \<Rightarrow> cart \<Rightarrow> bool" where
  "fn_total FnMBCNone c = (holds_bytes 0x8000 (rom c) \<and> holds_bytes 0x2000 (ram c))"
| "fn_total FnMBC1 c = False"
| "fn_total FnMBC3 c = False"
| "fn_total f c = True"

definition cart_total :: "cart \<Rightarrow> bool" where
  "cart_total c = (mbcSet c \<and> (case (mbcReadByte c, mbcWriteByte c) of
     (Some f, Some f') \<Rightarrow> fn_total f c \<and> fn_total f' c | _ \<Rightarrow> False))"

definition safe :: "gb \<Rightarrow> bool" where
  "safe g \<longleftrightarrow> cart_total (crt g) \<and> gpu_inv (gpu g) \<and> dumpable (gpu g)"

lemma fn_total_frame: "cart_frame c c' \<Longrightarrow> fn_total f c' = fn_total f c"
  using holds_bytes_size [of "ram c'" "ram c" "0x2000"] by (cases f) (simp_all add: cart_frame_def)

lemma cart_total_frame: "cart_frame c c' \<Longrightarrow> cart_total c' = cart_total c"
  using fn_total_frame [of c c']
  by (simp add: cart_total_def cart_frame_def split: option.splits)

lemma fn_total_read: "fn_total f c \<Longrightarrow> \<exists>v. mbcFnRead f a c = Inr v"
  by (cases f) (auto simp: MBC2_ReadByte_def MBC4_ReadByte_def MBC5_ReadByte_def MBCNone_ReadByte_def
      Let_def intro: holds_bytes_get)

lemma fn_total_write: "fn_total f c \<Longrightarrow> \<exists>r c'. mbcFnWrite f a v c = Inr (r, c')"
proof (cases f)
  case FnMBCNone
  assume t: "fn_total f c"
  show ?thesis
  proof (cases "0xA000 \<le> a \<and> a \<le> 0xBFFF")
    case True
    then have "unat (a - 0xA000) < 0x2000" by (auto simp: u16_cmp unat_sub_if')
    with t FnMBCNone obtain q where "buf_set (ram c) (unat (a - 0xA000)) v = Inr q"
      using holds_bytes_set by fastforce
    with True FnMBCNone show ?thesis by (simp add: MBCNone_WriteByte_def)
  qed (auto simp: FnMBCNone MBCNone_WriteByte_def)
qed (simp_all add: MBC2_WriteByte_def MBC4_WriteByte_def MBC5_WriteByte_def)

lemma cart_total_read: "cart_total c \<Longrightarrow> \<exists>v. mbc_readByte a c = Inr v"
  by (auto simp: cart_total_def mbc_readByte_def intro: fn_total_read split: option.splits)

lemma cart_total_write: "cart_total c \<Longrightarrow> \<exists>r c'. mbc_writeByte a v c = Inr (r, c')"
  by (auto simp: cart_total_def mbc_writeByte_def intro: fn_total_write split: option.splits)

lemma safe_read: "safe g \<Longrightarrow> \<exists>v. mmuReadByte a g = Inr v"
proof -
  assume s: "safe g"
  consider "unat a < 0x8000 \<or> 0xA000 \<le> unat a \<and> unat a < 0xC000"
    | "0x8000 \<le> unat a \<and> unat a < 0xA000 \<or> 0xC000 \<le> unat a" by linarith
  then show ?thesis
  proof cases
    case 1
    then show ?thesis using s cart_total_read [of "crt g" a] by (simp add: mmuWriteByte_cart(2) safe_def)
  next
    case 2
    then show ?thesis by (rule mmu_no_fault(1))
  qed
qed

lemma safe_write: "safe g \<Longrightarrow> \<exists>r g'. mmuWriteByte a v g = Inr (r, g')"
proof -
  assume s: "safe g"
  consider "unat a < 0x8000 \<or> 0xA000 \<le> unat a \<and> unat a < 0xC000"
    | "0x8000 \<le> unat a \<and> unat a < 0xA000 \<or> 0xC000 \<le> unat a" by linarith
  then show ?thesis
  proof cases
    case 1
    then obtain r c' where "mbc_writeByte a v (crt g) = Inr (r, c')"
      using s cart_total_write [of "crt g" a v] by (auto simp: safe_def)
    with 1 show ?thesis by (simp add: mmuWriteByte_cart(1))
  next
    case 2
    then show ?thesis using mmu_no_fault(2) [OF 2] s by (simp add: safe_def dumpableD)
  qed
qed

lemma safe_frame: "bus_frame g g' \<Longrightarrow> safe g \<Longrightarrow> safe g'"
  by (auto simp: safe_def bus_frame_def cart_total_frame)

lemma safe_upd [simp]:
  "safe (modRegs f g) = safe g" "safe (g\<lparr>regs := r\<rparr>) = safe g" "safe (addTicks n g) = safe g"
  "safe (g\<lparr>intr := i\<rparr>) = safe g" "safe (g\<lparr>stopped := b\<rparr>) = safe g"
  "safe (g\<lparr>tickCounter := t\<rparr>) = safe g" "safe (g\<lparr>lastOpcodeName := s, lastOperand := w\<rparr>) = safe g"
  by (simp_all add: safe_def addTicks_def)

section \<open>Running to the end\<close>

text \<open>
  \<open>runs k g m\<close>: started on \<open>g\<close>, the computation \<open>m\<close> ends without a fault, in a safe machine, at
  most \<open>k\<close> ticks later, and requests and enables no interrupt that a write to memory cannot.
\<close>

definition irq_kept :: "gb \<Rightarrow> gb \<Rightarrow> bool" where
  "irq_kept g g' \<longleftrightarrow> (irq_ok (intr g) \<longrightarrow> irq_ok (intr g'))"

lemma irq_kept_refl [simp]: "irq_kept g g"
  by (simp add: irq_kept_def)

lemma irq_kept_trans: "irq_kept a b \<Longrightarrow> irq_kept b c \<Longrightarrow> irq_kept a c"
  by (simp add: irq_kept_def)

lemma irq_kept_upd [simp]:
  "irq_kept g (modRegs f h) = irq_kept g h" "irq_kept g (h\<lparr>regs := r\<rparr>) = irq_kept g h"
  "irq_kept g (addTicks n h) = irq_kept g h" "irq_kept g (h\<lparr>stopped := b\<rparr>) = irq_kept g h"
  "irq_kept g (h\<lparr>lastOpcodeName := s, lastOperand := w\<rparr>) = irq_kept g h"
  "irq_kept g (h\<lparr>intr := i\<rparr>) = (irq_ok (intr g) \<longrightarrow> irq_ok i)"
  "irq_kept (modRegs f h) g = irq_kept h g"
  by (simp_all add: irq_kept_def addTicks_def)

definition runs :: "nat \<Rightarrow> gb \<Rightarrow> gb res \<Rightarrow> bool" where
  "runs k g m \<longleftrightarrow> (\<exists>g' t. m = Inr g' \<and> safe g' \<and> tickCounter g' = tickCounter g + of_nat t \<and> t \<le> k
     \<and> irq_kept g g')"

named_theorems runs_rules \<open>operations that run to the end\<close>

lemma runsI: "m = Inr g' \<Longrightarrow> safe g' \<Longrightarrow> tickCounter g' = tickCounter g + of_nat t \<Longrightarrow> t \<le> k
    \<Longrightarrow> irq_kept g g' \<Longrightarrow> runs k g m"
  by (auto simp: runs_def)

lemma runs_mono: "runs j g m \<Longrightarrow> j \<le> k \<Longrightarrow> runs k g m"
  by (auto simp: runs_def intro: le_trans)

lemma runs_pure [runs_rules]:
  "safe g' \<Longrightarrow> tickCounter g' = tickCounter g \<Longrightarrow> irq_kept g g' \<Longrightarrow> runs k g (Inr g')"
  by (auto intro: runsI [where t = 0])

lemma runs_store [runs_rules]:
  assumes "safe h" and "tickCounter h = tickCounter g" and "irq_kept g h"
  shows "runs k g (mmuStore a v h)"
proof -
  obtain r g' where w: "mmuWriteByte a v h = Inr (r, g')" using safe_write [OF assms(1)] by blast
  have "safe g'" "tickCounter g' = tickCounter g" "irq_kept g g'"
    using safe_frame [OF mmuWriteByte_frame [OF w] assms(1)] mmuWriteByte_frame [OF w] assms(2,3)
    by (simp_all add: bus_frame_def irq_kept_def)
  with w show ?thesis by (auto simp: mmuStore_def intro: runs_pure)
qed

lemma runs_read [runs_rules]:
  assumes "safe h" and "\<And>v. runs k g (f v)"
  shows "runs k g (bind_res (mmuReadByte a h) f)"
  using safe_read [OF assms(1), of a] assms(2) by auto

lemma runs_bind_store [runs_rules]:
  assumes "safe h" and "irq_kept g h"
    and "\<And>h'. safe h' \<Longrightarrow> tickCounter h' = tickCounter h \<Longrightarrow> regs h' = regs h \<Longrightarrow> irq_kept g h'
    \<Longrightarrow> runs k g (f h')"
  shows "runs k g (bind_res (mmuStore a v h) f)"
proof -
  obtain r h' where w: "mmuWriteByte a v h = Inr (r, h')" using safe_write [OF assms(1)] by blast
  have "safe h'" "tickCounter h' = tickCounter h" "regs h' = regs h" "irq_kept g h'"
    using safe_frame [OF mmuWriteByte_frame [OF w] assms(1)] mmuWriteByte_frame [OF w] assms(2)
    by (simp_all add: bus_frame_def irq_kept_def)
  with w assms(3) show ?thesis by (simp add: mmuStore_def)
qed

lemma runs_seq:
  assumes "runs j g m" and "\<And>g'. safe g' \<Longrightarrow> runs k g' (f g')"
  shows "runs (j + k) g (bind_res m f)"
proof -
  from assms(1) obtain g' t where g': "m = Inr g'" "safe g'" "tickCounter g' = tickCounter g + of_nat t" "t \<le> j"
    "irq_kept g g'" by (auto simp: runs_def)
  from assms(2) [OF g'(2)] obtain g'' u where
    "f g' = Inr g''" "safe g''" "tickCounter g'' = tickCounter g' + of_nat u" "u \<le> k" "irq_kept g' g''"
    by (auto simp: runs_def)
  with g' show ?thesis
    by (intro runsI [where t = "t + u" and g' = g'']) (simp_all add: add.assoc irq_kept_trans)
qed

lemma addTicks_ticks [simp]: "tickCounter (addTicks n g) = tickCounter g + n"
  by (simp add: addTicks_def)

section \<open>The instructions\<close>

lemma runs_addTicks:
  "safe h \<Longrightarrow> tickCounter h = tickCounter g \<Longrightarrow> irq_kept g h \<Longrightarrow> 4 \<le> k \<Longrightarrow> runs k g (Inr (addTicks 4 h))"
  "safe h \<Longrightarrow> tickCounter h = tickCounter g \<Longrightarrow> irq_kept g h \<Longrightarrow> 12 \<le> k \<Longrightarrow> runs k g (Inr (addTicks 12 h))"
  using runsI [OF refl, where t = 4 and g' = "addTicks 4 h"]
    runsI [OF refl, where t = 12 and g' = "addTicks 12 h"] by simp_all

lemma runs_regOp [runs_rules]: "safe g \<Longrightarrow> runs k g (regOp f g)"
  by (simp add: regOp_def runs_rules)

lemma runs_pureOp [runs_rules]:
  "safe g \<Longrightarrow> runs k g (pureOp halt g)" "safe g \<Longrightarrow> runs k g (pureOp stop g)"
  "safe g \<Longrightarrow> runs k g (pureOp di g)" "safe g \<Longrightarrow> runs k g (pureOp ei g)"
  by (simp_all add: pureOp_def halt_def stop_def di_def ei_def runs_rules)

lemma runs_jumps [runs_rules]:
  "safe g \<Longrightarrow> 4 \<le> k \<Longrightarrow> runs k g (Inr (jp_cc_nn nn f c g))"
  "safe g \<Longrightarrow> 4 \<le> k \<Longrightarrow> runs k g (Inr (jr_cc_e e f c g))"
  by (simp_all add: jp_cc_nn_def jr_cc_e_def runs_addTicks runs_pure)

lemma runs_loads [runs_rules]:
  assumes "safe g"
  shows "runs k g (ld_d_r r g)" "runs k g (ld_d_n n g)" "runs k g (ld_A_ss a g)"
    "runs k g (ld_dd_A a g)" "runs k g (ld_A_c g)" "runs k g (ld_c_A g)" "runs k g (ldd_A_mHL g)"
    "runs k g (ldd_mHL_A g)" "runs k g (ldi_A_mHL g)" "runs k g (ldi_mHL_A g)" "runs k g (ldh_n_A n g)"
    "runs k g (ldh_A_n n g)"
  using assms
  by (auto simp: ld_d_r_def ld_d_n_def ld_A_ss_def ld_dd_A_def ld_A_c_def ld_c_A_def ldd_A_mHL_def
      ldd_mHL_A_def ldi_A_mHL_def ldi_mHL_A_def ldh_n_A_def ldh_A_n_def Let_def intro!: runs_rules)

lemma runs_read_short [runs_rules]:
  assumes "safe h" and "\<And>v. runs k g (f v)"
  shows "runs k g (bind_res (mmuReadShort a h) f)"
  using assms by (auto simp: mmuReadShort_eq bind_res_assoc intro!: runs_read)

lemma ld_nn_SP_eq:
  "ld_nn_SP nn g = bind_res (mmuStore nn (lo8 (rSP (regs g))) g)
     (mmuStore (nn + 1) (hi8 (rSP (regs g))))"
  by (simp add: ld_nn_SP_def mmuWriteShort_eq mmuStore_def bind_res_assoc case_prod_beta')

lemma runs_stack [runs_rules]:
  assumes "safe g"
  shows "runs k g (ld_nn_SP nn g)" "runs k g (push_ss w g)" "runs k g (pop_dd p g)"
    "runs k g (call_nn nn g)" "runs k g (rst_f f g)" "runs k g (ret g)" "runs k g (reti g)"
  using assms
  by (auto simp: ld_nn_SP_eq push_ss_def pop_dd_def call_nn_def rst_f_def ret_def reti_def ei_def
      bind_res_assoc Let_def intro!: runs_rules)

lemma runs_conditional [runs_rules]:
  assumes "safe g" and "12 \<le> k"
  shows "runs k g (call_cc_nn nn f c g)" "runs k g (ret_cc f c g)"
proof -
  note seq = runs_seq [where j = 0 and k = k, simplified]
  show "runs k g (call_cc_nn nn f c g)" "runs k g (ret_cc f c g)"
    using assms seq [OF runs_stack(4), of g] seq [OF runs_stack(6), of g]
    by (simp_all add: call_cc_nn_def ret_cc_def runs_addTicks runs_pure)
qed

lemma runs_at_HL [runs_rules]: "safe g \<Longrightarrow> runs k g (at_HL f g)"
  by (auto simp: at_HL_def Let_def intro!: runs_rules)

lemma runs_bits [runs_rules]:
  assumes "safe g" and "unat b < 8"
  shows "runs k g (bit_b_sHL b g)" "runs k g (set_b_sHL b g)" "runs k g (res_b_sHL b g)"
    "runs k g (regOpRes (bit_b_s b p) g)" "runs k g (regOpRes (set_b_s b p) g)"
    "runs k g (regOpRes (res_b_s b p) g)"
  using assms
  by (auto simp: bit_HL_forms bit_b_s_word regOpRes_def set_b_s_def res_b_s_def shl1_ok
      intro!: runs_rules)

section \<open>The tables\<close>

text \<open>An entry is in order when its function has the type its operand asks for and always runs.\<close>

fun fn_runs :: "opfn \<Rightarrow> u8 \<Rightarrow> bool" where
  "fn_runs (Fn0 f) t = (t = 0 \<and> (\<forall>g. safe g \<longrightarrow> runs 12 g (f g)))"
| "fn_runs (Fn8 f) t = (t = 1 \<and> (\<forall>n g. safe g \<longrightarrow> runs 12 g (f n g)))"
| "fn_runs (Fn16 f) t = (t = 2 \<and> (\<forall>nn g. safe g \<longrightarrow> runs 12 g (f nn g)))"

definition opcode_ok :: "opcode \<Rightarrow> bool" where
  "opcode_ok op = fn_runs (opFunction op) (operandType op)"

lemmas base_op_defs =
  ld_BC_nn_def ld_mBC_A_def inc_BC_def inc_B_def dec_B_def ld_B_n_def add_HL_BC_def
  ld_A_mBC_def dec_BC_def inc_C_def dec_C_def ld_C_n_def ld_DE_nn_def ld_mDE_A_def inc_DE_def
  inc_D_def dec_D_def ld_D_n_def add_HL_DE_def ld_A_mDE_def dec_DE_def inc_E_def dec_E_def
  ld_E_n_def jr_NZ_n_def ld_HL_nn_def inc_HL_def inc_H_def dec_H_def ld_H_n_def jr_Z_n_def
  add_HL_HL_def dec_HL_def inc_L_def dec_L_def ld_L_n_def jr_NC_n_def ld_SP_nn_def inc_SP_def
  inc_mHL_def dec_mHL_def jr_C_n_def add_HL_SP_def dec_SP_def inc_A_def dec_A_def ld_A_n_def
  ld_B_B_def ld_B_C_def ld_B_D_def ld_B_E_def ld_B_H_def ld_B_L_def ld_B_mHL_def ld_B_A_def
  ld_C_B_def ld_C_C_def ld_C_D_def ld_C_E_def ld_C_H_def ld_C_L_def ld_C_mHL_def ld_C_A_def
  ld_D_B_def ld_D_C_def ld_D_D_def ld_D_E_def ld_D_H_def ld_D_L_def ld_D_mHL_def ld_D_A_def
  ld_E_B_def ld_E_C_def ld_E_D_def ld_E_E_def ld_E_H_def ld_E_L_def ld_E_mHL_def ld_E_A_def
  ld_H_B_def ld_H_C_def ld_H_D_def ld_H_E_def ld_H_H_def ld_H_L_def ld_H_mHL_def ld_H_A_def
  ld_L_B_def ld_L_C_def ld_L_D_def ld_L_E_def ld_L_H_def ld_L_L_def ld_L_mHL_def ld_L_A_def
  ld_mHL_B_def ld_mHL_C_def ld_mHL_D_def ld_mHL_E_def ld_mHL_H_def ld_mHL_L_def ld_mHL_A_def
  ld_A_B_def ld_A_C_def ld_A_D_def ld_A_E_def ld_A_H_def ld_A_L_def ld_A_mHL_def ld_A_A_def
  add_A_B_def add_A_C_def add_A_D_def add_A_E_def add_A_H_def add_A_L_def add_A_mHL_def
  add_A_A_def adc_A_B_def adc_A_C_def adc_A_D_def adc_A_E_def adc_A_H_def adc_A_L_def
  adc_A_mHL_def adc_A_A_def sub_A_B_def sub_A_C_def sub_A_D_def sub_A_E_def sub_A_H_def
  sub_A_L_def sub_A_mHL_def sub_A_A_def sbc_A_B_def sbc_A_C_def sbc_A_D_def sbc_A_E_def
  sbc_A_H_def sbc_A_L_def sbc_A_mHL_def sbc_A_A_def and_B_def and_C_def and_D_def and_E_def
  and_H_def and_L_def and_mHL_def and_A_def xor_B_def xor_C_def xor_D_def xor_E_def xor_H_def
  xor_L_def xor_mHL_def xor_A_def or_B_def or_C_def or_D_def or_E_def or_H_def or_L_def
  or_mHL_def or_A_def cmp_B_def cmp_C_def cmp_D_def cmp_E_def cmp_H_def cmp_L_def cmp_mHL_def
  cmp_A_def ret_NZ_def pop_BC_def jp_NZ_nn_def call_NZ_nn_def push_BC_def add_A_n_def rst_0_def
  ret_Z_def jp_Z_nn_def extOps_def call_Z_nn_def adc_A_n_def rst_08_def ret_NC_def pop_DE_def
  jp_NC_nn_def call_NC_nn_def push_DE_def sub_A_n_def rst_10_def ret_C_def jp_C_nn_def
  call_C_nn_def sbc_A_n_def rst_18_def pop_HL_def ldh_mC_A_def push_HL_def and_n_def rst_20_def
  jp_mHL_def ld_nn_A_def xor_n_def rst_28_def pop_AF_def push_AF_def or_n_def rst_30_def
  ld_A_m_nn_def cp_n_def rst_38_def

lemmas cb_op_defs =
  rlc_B_def rlc_C_def rlc_D_def rlc_E_def rlc_H_def rlc_L_def rlc_mHL_def rrc_B_def rrc_C_def
  rrc_D_def rrc_E_def rrc_H_def rrc_L_def rrc_mHL_def rl_B_def rl_C_def rl_D_def rl_E_def
  rl_H_def rl_L_def rl_mHL_def rr_B_def rr_C_def rr_D_def rr_E_def rr_H_def rr_L_def rr_mHL_def
  sla_B_def sla_C_def sla_D_def sla_E_def sla_H_def sla_L_def sla_mHL_def sla_A_def sra_B_def
  sra_C_def sra_D_def sra_E_def sra_H_def sra_L_def sra_mHL_def sra_A_def swap_B_def swap_C_def
  swap_D_def swap_E_def swap_H_def swap_L_def swap_mHL_def swap_A_def srl_B_def srl_C_def
  srl_D_def srl_E_def srl_H_def srl_L_def srl_mHL_def srl_A_def bit_0_B_def bit_0_C_def
  bit_0_D_def bit_0_E_def bit_0_H_def bit_0_L_def bit_0_mHL_def bit_0_A_def bit_1_B_def
  bit_1_C_def bit_1_D_def bit_1_E_def bit_1_H_def bit_1_L_def bit_1_mHL_def bit_1_A_def
  bit_2_B_def bit_2_C_def bit_2_D_def bit_2_E_def bit_2_H_def bit_2_L_def bit_2_mHL_def
  bit_2_A_def bit_3_B_def bit_3_C_def bit_3_D_def bit_3_E_def bit_3_H_def bit_3_L_def
  bit_3_mHL_def bit_3_A_def bit_4_B_def bit_4_C_def bit_4_D_def bit_4_E_def bit_4_H_def
  bit_4_L_def bit_4_mHL_def bit_4_A_def bit_5_B_def bit_5_C_def bit_5_D_def bit_5_E_def
  bit_5_H_def bit_5_L_def bit_5_mHL_def bit_5_A_def bit_6_B_def bit_6_C_def bit_6_D_def
  bit_6_E_def bit_6_H_def bit_6_L_def bit_6_mHL_def bit_6_A_def bit_7_B_def bit_7_C_def
  bit_7_D_def bit_7_E_def bit_7_H_def bit_7_L_def bit_7_mHL_def bit_7_A_def res_0_B_def
  res_0_C_def res_0_D_def res_0_E_def res_0_H_def res_0_L_def res_0_mHL_def res_0_A_def
  res_1_B_def res_1_C_def res_1_D_def res_1_E_def res_1_H_def res_1_L_def res_1_mHL_def
  res_1_A_def res_2_B_def res_2_C_def res_2_D_def res_2_E_def res_2_H_def res_2_L_def
  res_2_mHL_def res_2_A_def res_3_B_def res_3_C_def res_3_D_def res_3_E_def res_3_H_def
  res_3_L_def res_3_mHL_def res_3_A_def res_4_B_def res_4_C_def res_4_D_def res_4_E_def
  res_4_H_def res_4_L_def res_4_mHL_def res_4_A_def res_5_B_def res_5_C_def res_5_D_def
  res_5_E_def res_5_H_def res_5_L_def res_5_mHL_def res_5_A_def res_6_B_def res_6_C_def
  res_6_D_def res_6_E_def res_6_H_def res_6_L_def res_6_mHL_def res_6_A_def res_7_B_def
  res_7_C_def res_7_D_def res_7_E_def res_7_H_def res_7_L_def res_7_mHL_def res_7_A_def
  set_0_B_def set_0_C_def set_0_D_def set_0_E_def set_0_H_def set_0_L_def set_0_mHL_def
  set_0_A_def set_1_B_def set_1_C_def set_1_D_def set_1_E_def set_1_H_def set_1_L_def
  set_1_mHL_def set_1_A_def set_2_B_def set_2_C_def set_2_D_def set_2_E_def set_2_H_def
  set_2_L_def set_2_mHL_def set_2_A_def set_3_B_def set_3_C_def set_3_D_def set_3_E_def
  set_3_H_def set_3_L_def set_3_mHL_def set_3_A_def set_4_B_def set_4_C_def set_4_D_def
  set_4_E_def set_4_H_def set_4_L_def set_4_mHL_def set_4_A_def set_5_B_def set_5_C_def
  set_5_D_def set_5_E_def set_5_H_def set_5_L_def set_5_mHL_def set_5_A_def set_6_B_def
  set_6_C_def set_6_D_def set_6_E_def set_6_H_def set_6_L_def set_6_mHL_def set_6_A_def
  set_7_B_def set_7_C_def set_7_D_def set_7_E_def set_7_H_def set_7_L_def set_7_mHL_def
  set_7_A_def

lemma baseRow0_ok: "list_all opcode_ok baseRow0"
  by (simp add: baseRow0_def opcode_ok_def base_op_defs HL_forms runs_rules)

lemma baseRow1_ok: "list_all opcode_ok baseRow1"
  by (simp add: baseRow1_def opcode_ok_def base_op_defs HL_forms runs_rules)

lemma baseRow2_ok: "list_all opcode_ok baseRow2"
  by (simp add: baseRow2_def opcode_ok_def base_op_defs HL_forms runs_rules)

lemma baseRow3_ok: "list_all opcode_ok baseRow3"
  by (simp add: baseRow3_def opcode_ok_def base_op_defs HL_forms runs_rules)

lemma baseRow4_ok: "list_all opcode_ok baseRow4"
  by (simp add: baseRow4_def opcode_ok_def base_op_defs HL_forms runs_rules)

lemma baseRow5_ok: "list_all opcode_ok baseRow5"
  by (simp add: baseRow5_def opcode_ok_def base_op_defs HL_forms runs_rules)

lemma baseRow6_ok: "list_all opcode_ok baseRow6"
  by (simp add: baseRow6_def opcode_ok_def base_op_defs HL_forms runs_rules)

lemma baseRow7_ok: "list_all opcode_ok baseRow7"
  by (simp add: baseRow7_def opcode_ok_def base_op_defs HL_forms runs_rules)

lemma baseRow8_ok: "list_all opcode_ok baseRow8"
  by (simp add: baseRow8_def opcode_ok_def base_op_defs HL_forms runs_rules)

lemma baseRow9_ok: "list_all opcode_ok baseRow9"
  by (simp add: baseRow9_def opcode_ok_def base_op_defs HL_forms runs_rules)

lemma baseRowA_ok: "list_all opcode_ok baseRowA"
  by (simp add: baseRowA_def opcode_ok_def base_op_defs HL_forms runs_rules)

lemma baseRowB_ok: "list_all opcode_ok baseRowB"
  by (simp add: baseRowB_def opcode_ok_def base_op_defs HL_forms runs_rules)

lemma baseRowC_ok: "list_all opcode_ok (baseRowC[11 := baseRowC ! 0])"
  by (simp add: baseRowC_def opcode_ok_def base_op_defs runs_rules)

lemma baseRowD_ok: "list_all opcode_ok baseRowD"
  by (simp add: baseRowD_def opcode_ok_def base_op_defs HL_forms runs_rules)

lemma baseRowE_ok: "list_all opcode_ok baseRowE"
  by (simp add: baseRowE_def opcode_ok_def base_op_defs HL_forms runs_rules)

lemma baseRowF_ok: "list_all opcode_ok baseRowF"
  by (simp add: baseRowF_def opcode_ok_def base_op_defs HL_forms runs_rules)

lemma cbRow0_ok: "list_all opcode_ok cbRow0"
  by (simp add: cbRow0_def opcode_ok_def cb_op_defs HL_forms rrc_HL_form runs_rules)

lemma cbRow1_ok: "list_all opcode_ok cbRow1"
  by (simp add: cbRow1_def opcode_ok_def cb_op_defs HL_forms rrc_HL_form runs_rules)

lemma cbRow2_ok: "list_all opcode_ok cbRow2"
  by (simp add: cbRow2_def opcode_ok_def cb_op_defs HL_forms rrc_HL_form runs_rules)

lemma cbRow3_ok: "list_all opcode_ok cbRow3"
  by (simp add: cbRow3_def opcode_ok_def cb_op_defs HL_forms rrc_HL_form runs_rules)

lemma cbRow4_ok: "list_all opcode_ok cbRow4"
  by (simp add: cbRow4_def opcode_ok_def cb_op_defs HL_forms rrc_HL_form runs_rules)

lemma cbRow5_ok: "list_all opcode_ok cbRow5"
  by (simp add: cbRow5_def opcode_ok_def cb_op_defs HL_forms rrc_HL_form runs_rules)

lemma cbRow6_ok: "list_all opcode_ok cbRow6"
  by (simp add: cbRow6_def opcode_ok_def cb_op_defs HL_forms rrc_HL_form runs_rules)

lemma cbRow7_ok: "list_all opcode_ok cbRow7"
  by (simp add: cbRow7_def opcode_ok_def cb_op_defs HL_forms rrc_HL_form runs_rules)

lemma cbRow8_ok: "list_all opcode_ok cbRow8"
  by (simp add: cbRow8_def opcode_ok_def cb_op_defs HL_forms rrc_HL_form runs_rules)

lemma cbRow9_ok: "list_all opcode_ok cbRow9"
  by (simp add: cbRow9_def opcode_ok_def cb_op_defs HL_forms rrc_HL_form runs_rules)

lemma cbRowA_ok: "list_all opcode_ok cbRowA"
  by (simp add: cbRowA_def opcode_ok_def cb_op_defs HL_forms rrc_HL_form runs_rules)

lemma cbRowB_ok: "list_all opcode_ok cbRowB"
  by (simp add: cbRowB_def opcode_ok_def cb_op_defs HL_forms rrc_HL_form runs_rules)

lemma cbRowC_ok: "list_all opcode_ok cbRowC"
  by (simp add: cbRowC_def opcode_ok_def cb_op_defs HL_forms rrc_HL_form runs_rules)

lemma cbRowD_ok: "list_all opcode_ok cbRowD"
  by (simp add: cbRowD_def opcode_ok_def cb_op_defs HL_forms rrc_HL_form runs_rules)

lemma cbRowE_ok: "list_all opcode_ok cbRowE"
  by (simp add: cbRowE_def opcode_ok_def cb_op_defs HL_forms rrc_HL_form runs_rules)

lemma cbRowF_ok: "list_all opcode_ok cbRowF"
  by (simp add: cbRowF_def opcode_ok_def cb_op_defs HL_forms rrc_HL_form runs_rules)

lemmas base_rows_ok =
  baseRow0_ok baseRow1_ok baseRow2_ok baseRow3_ok baseRow4_ok baseRow5_ok baseRow6_ok
  baseRow7_ok baseRow8_ok baseRow9_ok baseRowA_ok baseRowB_ok baseRowC_ok baseRowD_ok
  baseRowE_ok baseRowF_ok

lemmas cb_rows_ok =
  cbRow0_ok cbRow1_ok cbRow2_ok cbRow3_ok cbRow4_ok cbRow5_ok cbRow6_ok cbRow7_ok cbRow8_ok
  cbRow9_ok cbRowA_ok cbRowB_ok cbRowC_ok cbRowD_ok cbRowE_ok cbRowF_ok

lemma base_row_lengths [simp]:
  "length baseRow0 = 16" "length baseRow1 = 16" "length baseRow2 = 16" "length baseRow3 = 16"
  "length baseRow4 = 16" "length baseRow5 = 16" "length baseRow6 = 16" "length baseRow7 = 16"
  "length baseRow8 = 16" "length baseRow9 = 16" "length baseRowA = 16" "length baseRowB = 16"
  "length baseRowC = 16" "length baseRowD = 16" "length baseRowE = 16" "length baseRowF = 16"
  by (simp_all add: baseRow0_def baseRow1_def baseRow2_def baseRow3_def baseRow4_def baseRow5_def baseRow6_def baseRow7_def
    baseRow8_def baseRow9_def baseRowA_def baseRowB_def baseRowC_def baseRowD_def baseRowE_def baseRowF_def)

lemma cb_row_lengths [simp]:
  "length cbRow0 = 16" "length cbRow1 = 16" "length cbRow2 = 16" "length cbRow3 = 16" "length
  cbRow4 = 16" "length cbRow5 = 16" "length cbRow6 = 16" "length cbRow7 = 16" "length cbRow8 =
  16" "length cbRow9 = 16" "length cbRowA = 16" "length cbRowB = 16" "length cbRowC = 16"
  "length cbRowD = 16" "length cbRowE = 16" "length cbRowF = 16"
  by (simp_all add: cbRow0_def cbRow1_def cbRow2_def cbRow3_def cbRow4_def cbRow5_def cbRow6_def cbRow7_def
    cbRow8_def cbRow9_def cbRowA_def cbRowB_def cbRowC_def cbRowD_def cbRowE_def cbRowF_def)

lemma table_lengths: "length baseOpcodeTable = 256" "length CBOpcodeTable = 256"
  "length baseOpcodeTicks = 256" "length cbOpcodeTicks = 256"
  by (simp_all add: baseOpcodeTable_def CBOpcodeTable_def baseOpcodeTicks_def cbOpcodeTicks_def)

text \<open>The entry CBh of the first table is never used: \<open>DetermineOpcode\<close> goes to the second.\<close>

lemma base_table_list: "list_all opcode_ok (baseOpcodeTable[203 := baseRowC ! 0])"
  by (simp add: baseOpcodeTable_def list_update_append base_rows_ok)

lemma base_table_ok: "i < 256 \<Longrightarrow> i \<noteq> 203 \<Longrightarrow> opcode_ok (baseOpcodeTable ! i)"
  using base_table_list table_lengths(1)
  by (metis length_list_update list_all_length nth_list_update_neq)

lemma cb_table_ok: "i < 256 \<Longrightarrow> opcode_ok (CBOpcodeTable ! i)"
proof -
  have "list_all opcode_ok CBOpcodeTable" by (simp add: CBOpcodeTable_def cb_rows_ok)
  then show "i < 256 \<Longrightarrow> opcode_ok (CBOpcodeTable ! i)"
    by (simp add: list_all_length table_lengths)
qed

lemma tick_tables: "i < 256 \<Longrightarrow> baseOpcodeTicks ! i \<le> 24" "i < 256 \<Longrightarrow> cbOpcodeTicks ! i \<le> 24"
proof -
  have "list_all (\<lambda>t. t \<le> 24) baseOpcodeTicks" "list_all (\<lambda>t. t \<le> 24) cbOpcodeTicks"
    by (simp_all add: baseOpcodeTicks_def cbOpcodeTicks_def)
  then show "i < 256 \<Longrightarrow> baseOpcodeTicks ! i \<le> 24" "i < 256 \<Longrightarrow> cbOpcodeTicks ! i \<le> 24"
    by (simp_all add: list_all_length table_lengths)
qed

section \<open>One instruction\<close>

lemma ticks_word: "t \<le> 24 \<Longrightarrow> \<exists>n. t = of_nat n \<and> n \<le> 24" for t :: u64
  by (rule exI [where x = "unat t"]) (simp add: word_le_nat_alt)

lemma byte_nth: "unat b < 256" for b :: u8
  by (rule u8_bound)

lemma DetermineOpcode_total:
  assumes "safe g"
  shows "\<exists>op g' t. DetermineOpcode g = Inr (op, g') \<and> opcode_ok op \<and> safe g'
     \<and> tickCounter g' = tickCounter g + of_nat t \<and> t \<le> 24 \<and> irq_kept g g'"
proof -
  obtain b where b: "mmuReadByte (rPC (regs g)) g = Inr b" using safe_read [OF assms] by blast
  obtain c where c: "mmuReadByte (rPC (regs g) + 1) g = Inr c" using safe_read [OF assms] by blast
  show ?thesis
  proof (cases "b = 0xCB")
    case True
    from ticks_word [OF tick_tables(2) [OF byte_nth [of c]]] obtain t where
      t: "cbOpcodeTicks ! unat c = of_nat t" "t \<le> 24" by blast
    from True b c have "DetermineOpcode g = Inr (CBOpcodeTable ! unat c,
        addTicks (of_nat t) (modRegs (\<lambda>r. r\<lparr>rPC := rPC r + 2\<rparr>) g))"
      by (simp add: DetermineOpcode_def Let_def t add.commute)
    with cb_table_ok [OF byte_nth [of c]] t(2) assms show ?thesis
      by (intro exI conjI) (assumption | simp)+
  next
    case False
    then have n: "unat b \<noteq> 203" by (simp add: word_unat_eq_iff)
    from ticks_word [OF tick_tables(1) [OF byte_nth [of b]]] obtain t where
      t: "baseOpcodeTicks ! unat b = of_nat t" "t \<le> 24" by blast
    from False b have "DetermineOpcode g = Inr (baseOpcodeTable ! unat b,
        addTicks (of_nat t) (modRegs (\<lambda>r. r\<lparr>rPC := rPC r + 1\<rparr>) g))"
      by (simp add: DetermineOpcode_def Let_def t)
    with base_table_ok [OF byte_nth n] t(2) assms show ?thesis
      by (intro exI conjI) (assumption | simp)+
  qed
qed

lemma DetermineOperand_total:
  assumes "safe g"
  shows "\<exists>w g'. DetermineOperand op g = Inr (w, g') \<and> safe g' \<and> tickCounter g' = tickCounter g
     \<and> irq_kept g g'"
proof -
  obtain b where b: "mmuReadByte (rPC (regs g)) g = Inr b" using safe_read [OF assms] by blast
  obtain c where c: "mmuReadByte (rPC (regs g) + 1) g = Inr c" using safe_read [OF assms] by blast
  from b c assms show ?thesis
    by (simp add: DetermineOperand_def mmuReadShort_eq)
qed

lemma ExecuteOpcode_total: "opcode_ok op \<Longrightarrow> safe g \<Longrightarrow> runs 12 g (ExecuteOpcode op w g)"
  by (cases "opFunction op") (auto simp: opcode_ok_def ExecuteOpcode_def)

lemma u64_ticks: "ucast (a + of_nat k) - (ucast a :: u32) = of_nat k" for a :: u64
proof -
  have "ucast (a + of_nat k) = (ucast a + of_nat k :: u32)"
    by (simp add: word_unat_eq_iff unsigned_ucast_eq unat_word_ariths take_bit_eq_mod unat_of_nat
        mod_mod_cancel mod_simps)
  then show ?thesis by simp
qed

text \<open>The dump at one address of PC changes only the file.\<close>

definition atPC :: "gb \<Rightarrow> gb" where
  "atPC g = (if rPC (regs g) = 0x282A then g\<lparr>gpu := dumped (gpu g)\<rparr> else g)"

lemma dumpAtPC_eq: "dumpable (gpu g) \<Longrightarrow> dumpAtPC g = Inr (atPC g)"
  by (simp add: dumpAtPC_def atPC_def gpuWriteVramToFile_eq dumpableD)

lemma dumpAtPC_atPC: "dumpAtPC g = Inr h \<Longrightarrow> h = atPC g"
  by (auto simp: dumpAtPC_def atPC_def gpuWriteVramToFile_eq split: if_splits)

lemma atPC_simps [simp]:
  "regs (atPC g) = regs g" "intr (atPC g) = intr g" "crt (atPC g) = crt g" "tickCounter (atPC g) = tickCounter g"
  "gpuRegs (gpu (atPC g)) = gpuRegs (gpu g)" "lastOpcodeName (atPC g) = lastOpcodeName g"
  "mmuReadByte a (atPC g) = mmuReadByte a g" "dumpable (gpu g) \<Longrightarrow> dumpable (gpu (atPC g))"
  "safe g \<Longrightarrow> safe (atPC g)" "irq_kept h (atPC g) = irq_kept h g"
proof -
  show "mmuReadByte a (atPC g) = mmuReadByte a g"
    by (simp add: atPC_def mmuReadByte_def gpuReadByte_def gpuReadRegister_def Let_def)
qed (simp_all add: atPC_def safe_def irq_kept_def)

lemma cpuStep_total:
  assumes "safe g"
  shows "\<exists>n g'. cpuStep g = Inr (of_nat n, g') \<and> n \<le> 36 \<and> safe g' \<and> tickCounter g' = tickCounter g + of_nat n
     \<and> irq_kept g g'"
proof -
  have d: "dumpAtPC g = Inr (atPC g)"
    using assms by (simp add: dumpAtPC_eq safe_def)
  obtain op g1 t where 1: "DetermineOpcode (atPC g) = Inr (op, g1)" "opcode_ok op" "safe g1"
    "tickCounter g1 = tickCounter g + of_nat t" "t \<le> 24" "irq_kept g g1"
    using DetermineOpcode_total [of "atPC g"] assms by (auto simp: irq_kept_def)
  obtain w g2 where 2: "DetermineOperand op g1 = Inr (w, g2)" "safe g2" "tickCounter g2 = tickCounter g1" "irq_kept g1 g2"
    using DetermineOperand_total [OF 1(3)] by blast
  obtain g3 u where 3: "ExecuteOpcode op w g2 = Inr g3" "safe g3"
    "tickCounter g3 = tickCounter g2 + of_nat u" "u \<le> 12" "irq_kept g2 g3"
    using ExecuteOpcode_total [OF 1(2) 2(2), of w] by (auto simp: runs_def)
  have k: "irq_kept g g3" using 1(6) 2(4) 3(5) by (blast intro: irq_kept_trans)
  have t: "tickCounter g3 = tickCounter g + of_nat (t + u)"
    using 1(4) 2(3) 3(3) by (simp only: of_nat_add add.assoc)
  have "cpuStep g = Inr (ucast (tickCounter g3) - ucast (tickCounter g),
      g3\<lparr>lastOpcodeName := asmName op, lastOperand := w\<rparr>)"
    by (simp add: cpuStep_def Let_def d 1(1) 2(1) 3(1))
  then have "cpuStep g = Inr (of_nat (t + u), g3\<lparr>lastOpcodeName := asmName op, lastOperand := w\<rparr>)"
    unfolding t u64_ticks .
  moreover have "t + u \<le> 36" using 1(5) 3(4) by simp
  ultimately show ?thesis using 3(2) t k
    by (intro exI [where x = "t + u"] exI conjI) (assumption | simp)+
qed

section \<open>Interrupts\<close>

lemma handleInterrupt_total: "safe g \<Longrightarrow> runs 20 g (handleInterrupt i a g)"
proof -
  assume "safe g"
  then obtain g' where g': "call_nn (ucast i) g = Inr g'" "safe g'" "tickCounter g' = tickCounter g" "irq_kept g g'"
    using runs_stack(4) [where k = 0, of g "ucast i"] by (auto simp: runs_def)
  then have "handleInterrupt i a g =
      Inr (addTicks 20 (g'\<lparr>intr := (intr g')\<lparr>request := request (intr g') AND NOT i\<rparr>\<rparr>))"
    by (simp add: handleInterrupt_def Let_def)
  then show ?thesis by (rule runsI [where t = 20]) (use g' in \<open>simp_all add: irq_kept_def irq_ok_clear addTicks_def\<close>)
qed

lemma runs_from: "runs k h m \<Longrightarrow> tickCounter h = tickCounter g \<Longrightarrow> irq_kept g h \<Longrightarrow> runs k g m"
  by (auto simp: runs_def intro: irq_kept_trans)

lemma interruptStep_total: "safe g \<Longrightarrow> runs 20 g (interruptStep g)"
  by (auto simp: interruptStep_def Let_def irq_ok_clear
      intro!: runs_from [OF handleInterrupt_total] runs_pure)

end
