(* ===== verification/Decode.thy ===== *)
theory Decode
  imports Cpu_Total
begin

text \<open>
  The opcode tables against the regular part of the instruction encoding. An opcode of the blocks
  40h..BFh and of the whole CB page is made of bit fields: the operand in bits 0..2, the operation or
  the destination in bits 3..5, the block in bits 6..7. The specification decodes the fields; the
  tables list one function per opcode.
\<close>

section \<open>The encoding\<close>

datatype operand = OpReg reg8 | OpHL

definition fieldOperand :: "nat \<Rightarrow> operand" where
  "fieldOperand z = [OpReg RegB, OpReg RegC, OpReg RegD, OpReg RegE, OpReg RegH, OpReg RegL,
     OpHL, OpReg RegA] ! z"

definition fieldName :: "nat \<Rightarrow> string" where
  "fieldName z = [''B'', ''C'', ''D'', ''E'', ''H'', ''L'', ''(HL)'', ''A''] ! z"

fun operandRead :: "operand \<Rightarrow> gb \<Rightarrow> u8 res" where
  "operandRead (OpReg p) g = Inr (get8 p (regs g))"
| "operandRead OpHL g = mmuReadByte (rHL (regs g)) g"

fun operandWrite :: "operand \<Rightarrow> u8 \<Rightarrow> gb \<Rightarrow> gb res" where
  "operandWrite (OpReg p) v g = Inr (modRegs (set8 p v) g)"
| "operandWrite OpHL v g = mmuStore (rHL (regs g)) v g"

definition ld_spec :: "nat \<Rightarrow> gb \<Rightarrow> gb res" where
  "ld_spec n g = bind_res (operandRead (fieldOperand (n mod 8)) g) (\<lambda>v.
     operandWrite (fieldOperand (n div 8 mod 8)) v g)"

definition alu_spec :: "nat \<Rightarrow> gb \<Rightarrow> gb res" where
  "alu_spec n g = bind_res (operandRead (fieldOperand (n mod 8)) g) (\<lambda>v.
     Inr (modRegs (([add_s, adc_s, sub_s, sbc_s, and_s, xor_s, or_s, cmp_s] ! (n div 8 mod 8)) v) g))"

definition block_spec :: "nat \<Rightarrow> gb \<Rightarrow> gb res" where
  "block_spec n = (if n < 128 then ld_spec n else alu_spec n)"

definition block_name :: "nat \<Rightarrow> string" where
  "block_name n = (if n < 128 then ''LD '' @ fieldName (n div 8 mod 8) @ '','' @ fieldName (n mod 8)
     else [''ADD A,'', ''ADC A,'', ''SUB A,'', ''SBC A,'', ''AND '', ''XOR '', ''OR '', ''CP ''] ! (n div 8 mod 8)
       @ fieldName (n mod 8))"

fun rot_spec :: "(reg8 \<Rightarrow> registers \<Rightarrow> registers) \<Rightarrow> operand \<Rightarrow> gb \<Rightarrow> gb res" where
  "rot_spec f (OpReg p) g = Inr (modRegs (f p) g)"
| "rot_spec f OpHL g = at_HL f g"

fun bit_spec :: "(u8 \<Rightarrow> reg8 \<Rightarrow> registers \<Rightarrow> registers res) \<Rightarrow> (u8 \<Rightarrow> gb \<Rightarrow> gb res) \<Rightarrow> u8 \<Rightarrow> operand \<Rightarrow> gb \<Rightarrow> gb res" where
  "bit_spec f h b (OpReg p) g = bind_res (f b p (regs g)) (\<lambda>r. Inr (g\<lparr>regs := r\<rparr>))"
| "bit_spec f h b OpHL g = h b g"

definition cb_spec :: "nat \<Rightarrow> gb \<Rightarrow> gb res" where
  "cb_spec n g =
    (let x = fieldOperand (n mod 8); y = n div 8 mod 8 in
     if n < 64 then rot_spec ([rlc_s, rrc_s, rl_s, rr_s, sla_s, sra_s, swap_s, srl_s] ! y) x g
     else if n < 128 then bit_spec bit_b_s bit_b_sHL (of_nat y) x g
     else if n < 192 then bit_spec res_b_s res_b_sHL (of_nat y) x g
     else bit_spec set_b_s set_b_sHL (of_nat y) x g)"

definition cb_name :: "nat \<Rightarrow> string" where
  "cb_name n =
    (let y = n div 8 mod 8; d = ''01234567'' ! y in
     (if n < 64 then [''RLC '', ''RRC '', ''RL '', ''RR '', ''SLA '', ''SRA '', ''SWAP '', ''SRL ''] ! y
      else if n < 128 then ''BIT '' @ [d] @ '',''
      else if n < 192 then ''RES '' @ [d] @ '','' else ''SET '' @ [d] @ '','') @ fieldName (n mod 8))"

section \<open>The tables by rows\<close>

definition block_entry :: "nat \<Rightarrow> opcode \<Rightarrow> bool" where
  "block_entry n op \<longleftrightarrow> (64 \<le> n \<and> n < 192 \<and> n \<noteq> 0x76 \<longrightarrow>
     opFunction op = Fn0 (block_spec n) \<and> asmName op = block_name n)"

definition cb_entry :: "nat \<Rightarrow> opcode \<Rightarrow> bool" where
  "cb_entry n op \<longleftrightarrow> (n \<notin> {0x07, 0x0F, 0x17, 0x1F} \<longrightarrow> opFunction op = Fn0 (cb_spec n))
     \<and> (n \<notin> {0x0E, 0x1E} \<longrightarrow> asmName op = cb_name n)"

lemmas block_simps = block_entry_def block_spec_def block_name_def ld_spec_def alu_spec_def
  fieldOperand_def fieldName_def regOp_def ld_r_s_def ld_d_r_def modRegs_def fun_eq_iff

lemmas cb_simps = cb_entry_def cb_spec_def cb_name_def fieldOperand_def fieldName_def regOp_def
  regOpRes_def HL_forms rrc_HL_form fun_eq_iff Let_def

lemma baseRow0_block: "table_all block_entry 0 baseRow0"
  by (simp add: baseRow0_def block_entry_def)

lemma baseRow1_block: "table_all block_entry 16 baseRow1"
  by (simp add: baseRow1_def block_entry_def)

lemma baseRow2_block: "table_all block_entry 32 baseRow2"
  by (simp add: baseRow2_def block_entry_def)

lemma baseRow3_block: "table_all block_entry 48 baseRow3"
  by (simp add: baseRow3_def block_entry_def)

lemma baseRow4_block: "table_all block_entry 64 baseRow4"
  by (simp add: baseRow4_def base_op_defs block_simps)

lemma baseRow5_block: "table_all block_entry 80 baseRow5"
  by (simp add: baseRow5_def base_op_defs block_simps)

lemma baseRow6_block: "table_all block_entry 96 baseRow6"
  by (simp add: baseRow6_def base_op_defs block_simps)

lemma baseRow7_block: "table_all block_entry 112 baseRow7"
  by (simp add: baseRow7_def base_op_defs block_simps)

lemma baseRow8_block: "table_all block_entry 128 baseRow8"
  by (simp add: baseRow8_def base_op_defs block_simps)

lemma baseRow9_block: "table_all block_entry 144 baseRow9"
  by (simp add: baseRow9_def base_op_defs block_simps)

lemma baseRowA_block: "table_all block_entry 160 baseRowA"
  by (simp add: baseRowA_def base_op_defs block_simps)

lemma baseRowB_block: "table_all block_entry 176 baseRowB"
  by (simp add: baseRowB_def base_op_defs block_simps)

lemma baseRowC_block: "table_all block_entry 192 baseRowC"
  by (simp add: baseRowC_def block_entry_def)

lemma baseRowD_block: "table_all block_entry 208 baseRowD"
  by (simp add: baseRowD_def block_entry_def)

lemma baseRowE_block: "table_all block_entry 224 baseRowE"
  by (simp add: baseRowE_def block_entry_def)

lemma baseRowF_block: "table_all block_entry 240 baseRowF"
  by (simp add: baseRowF_def block_entry_def)

lemma cbRow0_entries: "table_all cb_entry 0 cbRow0"
  by (simp add: cbRow0_def cb_op_defs cb_simps)

lemma cbRow1_entries: "table_all cb_entry 16 cbRow1"
  by (simp add: cbRow1_def cb_op_defs cb_simps)

lemma cbRow2_entries: "table_all cb_entry 32 cbRow2"
  by (simp add: cbRow2_def cb_op_defs cb_simps)

lemma cbRow3_entries: "table_all cb_entry 48 cbRow3"
  by (simp add: cbRow3_def cb_op_defs cb_simps)

lemma cbRow4_entries: "table_all cb_entry 64 cbRow4"
  by (simp add: cbRow4_def cb_op_defs cb_simps)

lemma cbRow5_entries: "table_all cb_entry 80 cbRow5"
  by (simp add: cbRow5_def cb_op_defs cb_simps)

lemma cbRow6_entries: "table_all cb_entry 96 cbRow6"
  by (simp add: cbRow6_def cb_op_defs cb_simps)

lemma cbRow7_entries: "table_all cb_entry 112 cbRow7"
  by (simp add: cbRow7_def cb_op_defs cb_simps)

lemma cbRow8_entries: "table_all cb_entry 128 cbRow8"
  by (simp add: cbRow8_def cb_op_defs cb_simps)

lemma cbRow9_entries: "table_all cb_entry 144 cbRow9"
  by (simp add: cbRow9_def cb_op_defs cb_simps)

lemma cbRowA_entries: "table_all cb_entry 160 cbRowA"
  by (simp add: cbRowA_def cb_op_defs cb_simps)

lemma cbRowB_entries: "table_all cb_entry 176 cbRowB"
  by (simp add: cbRowB_def cb_op_defs cb_simps)

lemma cbRowC_entries: "table_all cb_entry 192 cbRowC"
  by (simp add: cbRowC_def cb_op_defs cb_simps)

lemma cbRowD_entries: "table_all cb_entry 208 cbRowD"
  by (simp add: cbRowD_def cb_op_defs cb_simps)

lemma cbRowE_entries: "table_all cb_entry 224 cbRowE"
  by (simp add: cbRowE_def cb_op_defs cb_simps)

lemma cbRowF_entries: "table_all cb_entry 240 cbRowF"
  by (simp add: cbRowF_def cb_op_defs cb_simps)

lemmas block_rows = baseRow0_block baseRow1_block baseRow2_block baseRow3_block baseRow4_block baseRow5_block baseRow6_block baseRow7_block
  baseRow8_block baseRow9_block baseRowA_block baseRowB_block baseRowC_block baseRowD_block baseRowE_block baseRowF_block

lemmas cb_rows = cbRow0_entries cbRow1_entries cbRow2_entries cbRow3_entries cbRow4_entries cbRow5_entries cbRow6_entries cbRow7_entries
  cbRow8_entries cbRow9_entries cbRowA_entries cbRowB_entries cbRowC_entries cbRowD_entries cbRowE_entries cbRowF_entries

lemma block_entries: "i < 256 \<Longrightarrow> block_entry i (baseOpcodeTable ! i)"
proof -
  have "table_all block_entry 0 baseOpcodeTable"
    by (simp add: baseOpcodeTable_def table_all_append block_rows)
  then show "i < 256 \<Longrightarrow> block_entry i (baseOpcodeTable ! i)"
    using table_all_nth [of block_entry 0 baseOpcodeTable i] by (simp add: table_lengths)
qed

lemma cb_entries: "i < 256 \<Longrightarrow> cb_entry i (CBOpcodeTable ! i)"
proof -
  have "table_all cb_entry 0 CBOpcodeTable"
    by (simp add: CBOpcodeTable_def table_all_append cb_rows)
  then show "i < 256 \<Longrightarrow> cb_entry i (CBOpcodeTable ! i)"
    using table_all_nth [of cb_entry 0 CBOpcodeTable i] by (simp add: table_lengths)
qed

lemma cb_A_entries:
  "opFunction (CBOpcodeTable ! 0x07) = Fn0 (regOp rlc_A)" "opFunction (CBOpcodeTable ! 0x0F) = Fn0 (regOp rrc_A)"
  "opFunction (CBOpcodeTable ! 0x17) = Fn0 (regOp rl_A)" "opFunction (CBOpcodeTable ! 0x1F) = Fn0 (regOp rr_A)"
  by (simp_all add: CBOpcodeTable_def nth_append cbRow0_def cbRow1_def)

text \<open>Z is set last in the forms on any register, so clearing it first makes no difference.\<close>

lemma flagIf_twice: "flagIf c 0x80 (flagIf d 0x10 (removeFlag 0xE0 r)) = flagIf c 0x80 (flagIf d 0x10 (removeFlag 0x60 r))"
proof -
  define h where "h = (\<lambda>m. flagIf c 0x80 (flagIf d 0x10 (removeFlag m r)))"
  have "rF (h 0xE0) = rF (h 0x60)"
    by (rule byte_eqI; simp add: h_def flagIf_def setFlag_def removeFlag_def bit_or_iff bit_and_iff)
  moreover have "h m = r\<lparr>rF := rF (h m)\<rparr>" for m
    by (simp add: h_def flagIf_def setFlag_def removeFlag_def)
  ultimately have "h 0xE0 = h 0x60" by metis
  then show ?thesis by (simp add: h_def)
qed

lemma cb_A_rotates:
  "rlc_s RegA r = flagIf (rA (rlc_A r) = 0) 0x80 (rlc_A r)" "\<not> zf (rlc_A r)"
  "rrc_s RegA r = flagIf (rA (rrc_A r) = 0) 0x80 (rrc_A r)" "\<not> zf (rrc_A r)"
  "rl_s RegA r = flagIf (rA (rl_A r) = 0) 0x80 (rl_A r)" "\<not> zf (rl_A r)"
  "rr_s RegA r = flagIf (rA (rr_A r) = 0) 0x80 (rr_A r)" "\<not> zf (rr_A r)"
  by (simp_all add: rlc_s_def rlc_A_def rrc_s_def rrc_A_def rl_s_def rl_A_def rr_s_def rr_A_def
      Let_def flagIf_twice flag_simps checkFlag_flags)

section \<open>Properties\<close>

text \<open>
  \<^bold>\<open>C23.\<close> The blocks 40h..BFh are the regular encoding. Every opcode there other than HALT
  copies the operand of bits 0..2 to the one of bits 3..5, or applies the arithmetic operation of
  bits 3..5 to it, through memory where an operand is (HL), and its mnemonic in the table is the one
  of its fields.
\<close>

theorem base_blocks_decode:
  assumes "64 \<le> n" and "n < 192" and "n \<noteq> 0x76"
  shows "opFunction (baseOpcodeTable ! n) = Fn0 (block_spec n) \<and> asmName (baseOpcodeTable ! n) = block_name n"
  using block_entries [of n] assms by (simp add: block_entry_def)

lemma base_blocks_decode_witness:
  "opFunction (baseOpcodeTable ! 0x9E) = Fn0 (block_spec 0x9E) \<and> asmName (baseOpcodeTable ! 0x9E) = ''SBC A,(HL)''"
  using base_blocks_decode [of "0x9E"] by (simp add: block_name_def fieldName_def)

text \<open>
  \<^bold>\<open>C15.\<close> The CB page is the regular encoding: rotate, shift, test, reset or set on the operand of
  bits 0..2, except the four rotates of the accumulator 07h, 0Fh, 17h and 1Fh. Those run the one-byte
  instruction of the base page, which clears Z where the CB form sets it from the result, so on a
  zero accumulator Z comes out differently.
\<close>

theorem cb_page_decode:
  assumes "n < 256"
  shows "opFunction (CBOpcodeTable ! n) = Fn0 (if n = 0x07 then regOp rlc_A else if n = 0x0F then regOp rrc_A
       else if n = 0x17 then regOp rl_A else if n = 0x1F then regOp rr_A else cb_spec n)
    \<and> rlc_s RegA r = flagIf (rA (rlc_A r) = 0) 0x80 (rlc_A r) \<and> \<not> zf (rlc_A r)
    \<and> rrc_s RegA r = flagIf (rA (rrc_A r) = 0) 0x80 (rrc_A r) \<and> \<not> zf (rrc_A r)
    \<and> rl_s RegA r = flagIf (rA (rl_A r) = 0) 0x80 (rl_A r) \<and> \<not> zf (rl_A r)
    \<and> rr_s RegA r = flagIf (rA (rr_A r) = 0) 0x80 (rr_A r) \<and> \<not> zf (rr_A r)"
  using cb_entries [OF assms] cb_A_entries cb_A_rotates by (simp add: cb_entry_def)

lemma cb_page_decode_witness:
  "opFunction (CBOpcodeTable ! 0x37) = Fn0 (cb_spec 0x37) \<and> opFunction (CBOpcodeTable ! 0x07) = Fn0 (regOp rlc_A)"
  using cb_page_decode [of "0x37"] cb_page_decode [of 7] by simp

end
