(* ===== verification/Decode_Outer.thy ===== *)
theory Decode_Outer
  imports Decode
begin

text \<open>
  The other two quarters of the one-byte opcode table, 00h..3Fh and C0h..FFh, against the bit fields
  of the encoding: register pairs in bits 4..5, conditions in bits 3..4, restart vectors in bits 3..5.
\<close>

section \<open>The encoding\<close>

definition fieldPair :: "nat \<Rightarrow> reg16" where
  "fieldPair p = [RegBC, RegDE, RegHL, RegSP] ! p"

definition fieldPair2 :: "nat \<Rightarrow> reg16" where
  "fieldPair2 p = [RegBC, RegDE, RegHL, RegAF] ! p"

text \<open>The conditions NZ, Z, NC and C: a flag and the value it must have.\<close>

definition condFlag :: "nat \<Rightarrow> u8" where
  "condFlag c = (if c < 2 then flagZero else flagCarry)"

definition condValue :: "nat \<Rightarrow> u8" where
  "condValue c = (if c mod 2 = 0 then FLAG_NOT_SET else FLAG_SET)"

text \<open>00h..3Fh, with \<open>y\<close> the bits 3..5 and the columns the bits 0..2.\<close>

definition low_spec :: "nat \<Rightarrow> opfn" where
  "low_spec n = (let y = n div 8; p = fieldPair (y div 2); x = fieldOperand (y mod 8) in
    [if y = 0 then Fn0 Inr else if y = 1 then Fn16 ld_nn_SP else if y = 2 then Fn0 (pureOp stop)
       else if y = 3 then Fn8 (\<lambda>e. regOp (jr_e e))
       else Fn8 (\<lambda>e g. Inr (jr_cc_e e (condFlag (y - 4)) (condValue (y - 4)) g)),
     if y mod 2 = 0 then Fn16 (\<lambda>nn. regOp (ld_dd_nn p nn)) else Fn0 (regOp (\<lambda>r. add_HL_ss (get16 p r) r)),
     Fn0 ([\<lambda>g. ld_dd_A (rBC (regs g)) g, \<lambda>g. ld_A_ss (rBC (regs g)) g, \<lambda>g. ld_dd_A (rDE (regs g)) g,
       \<lambda>g. ld_A_ss (rDE (regs g)) g, ldi_mHL_A, ldi_A_mHL, ldd_mHL_A, ldd_A_mHL] ! y),
     Fn0 (regOp (if y mod 2 = 0 then inc_ss p else dec_ss p)),
     Fn0 (rot_spec inc_s x),
     Fn0 (rot_spec dec_s x),
     Fn8 (operandWrite x),
     Fn0 (regOp ([rlc_A, rrc_A, rl_A, rr_A, daa, cpl, scf, ccf] ! y))] ! (n mod 8))"

text \<open>C0h..FFh; an opcode without an instruction does nothing.\<close>

definition high_spec :: "nat \<Rightarrow> opfn" where
  "high_spec n = (let y = n div 8 mod 8; p = fieldPair2 (y div 2); c = condFlag y; v = condValue y in
    [if y < 4 then Fn0 (ret_cc c v)
       else [Fn8 ldh_n_A, Fn8 (\<lambda>e. regOp (add_SP_e e)), Fn8 ldh_A_n, Fn8 (\<lambda>e. regOp (ld_HL_SP_e e))] ! (y - 4),
     if y mod 2 = 0 then Fn0 (pop_dd p)
       else [Fn0 ret, Fn0 reti, Fn0 (regOp (\<lambda>r. jp_nn (rHL r) r)), Fn0 (regOp ld_SP_HL)] ! (y div 2),
     if y < 4 then Fn16 (\<lambda>nn g. Inr (jp_cc_nn nn c v g))
       else [Fn0 (\<lambda>g. ldh_n_A (rC (regs g)) g), Fn16 ld_dd_A, Fn0 (\<lambda>g. ldh_A_n (rC (regs g)) g), Fn16 ld_A_ss] ! (y - 4),
     if y = 0 then Fn16 (\<lambda>nn. regOp (jp_nn nn)) else if y = 6 then Fn0 (pureOp di)
       else if y = 7 then Fn0 (pureOp ei) else Fn0 Inr,
     if y < 4 then Fn16 (\<lambda>nn. call_cc_nn nn c v) else Fn0 Inr,
     if y mod 2 = 0 then Fn0 (\<lambda>g. push_ss (get16 p (regs g)) g) else if y = 1 then Fn16 call_nn else Fn0 Inr,
     Fn8 (\<lambda>b. regOp (([add_s, adc_s, sub_s, sbc_s, and_s, xor_s, or_s, cmp_s] ! y) b)),
     Fn0 (rst_f (of_nat (8 * y)))] ! (n mod 8))"

definition outer_entry :: "nat \<Rightarrow> opcode \<Rightarrow> bool" where
  "outer_entry n op \<longleftrightarrow>
     (n < 64 \<and> n \<noteq> 0x1D \<longrightarrow> opFunction op = low_spec n)
     \<and> (192 \<le> n \<and> n \<notin> {0xCB, 0xDC, 0xE9, 0xF2} \<longrightarrow> opFunction op = high_spec n)"

lemma regOp_id [simp]: "regOp nop = Inr" "regOp undefined_op = Inr"
  by (simp_all add: fun_eq_iff regOp_def modRegs_def nop_def undefined_op_def)

lemmas outer_simps = outer_entry_def low_spec_def high_spec_def fieldPair_def fieldPair2_def condFlag_def
  condValue_def fieldOperand_def Let_def fun_eq_iff base_op_defs regOp_def HL_forms ld_A_ss_def ld_r_s_def
  ld_d_n_def modRegs_def

lemma baseRow0_outer: "table_all outer_entry 0 baseRow0"
  by (simp add: baseRow0_def outer_simps)

lemma baseRow1_outer: "table_all outer_entry 16 baseRow1"
  by (simp add: baseRow1_def outer_simps)

lemma baseRow2_outer: "table_all outer_entry 32 baseRow2"
  by (simp add: baseRow2_def outer_simps)

lemma baseRow3_outer: "table_all outer_entry 48 baseRow3"
  by (simp add: baseRow3_def outer_simps)

lemma baseRowC_outer: "table_all outer_entry 192 baseRowC"
  by (simp add: baseRowC_def outer_simps)

lemma baseRowD_outer: "table_all outer_entry 208 baseRowD"
  by (simp add: baseRowD_def outer_simps)

lemma baseRowE_outer: "table_all outer_entry 224 baseRowE"
  by (simp add: baseRowE_def outer_simps)

lemma baseRowF_outer: "table_all outer_entry 240 baseRowF"
  by (simp add: baseRowF_def outer_simps)

lemma table_all_trivial: "(\<And>i x. k \<le> i \<Longrightarrow> i < k + length xs \<Longrightarrow> P i x) \<Longrightarrow> table_all P k xs"
  by (induction xs arbitrary: k) simp_all

lemma baseRows_inner: "64 \<le> k \<Longrightarrow> k + length xs \<le> 192 \<Longrightarrow> table_all outer_entry k xs"
  by (rule table_all_trivial) (simp add: outer_entry_def)

lemma outer_entries: "i < 256 \<Longrightarrow> outer_entry i (baseOpcodeTable ! i)"
proof -
  have "table_all outer_entry 0 baseOpcodeTable"
    by (simp add: baseOpcodeTable_def table_all_append baseRows_inner baseRow0_outer baseRow1_outer baseRow2_outer
        baseRow3_outer baseRowC_outer baseRowD_outer baseRowE_outer baseRowF_outer)
  then show "i < 256 \<Longrightarrow> outer_entry i (baseOpcodeTable ! i)"
    using table_all_nth [of outer_entry 0 baseOpcodeTable i] by (simp add: table_lengths)
qed

lemma wrong_entries:
  "opFunction (baseOpcodeTable ! 0x1D) = Fn0 (regOp (inc_s RegE))"
  "opFunction (baseOpcodeTable ! 0xDC) = Fn16 (\<lambda>nn. call_cc_nn nn flagCarry FLAG_NOT_SET)"
  "opFunction (baseOpcodeTable ! 0xE9) = Fn0 (\<lambda>g. bind_res (mmuReadShort (rHL (regs g)) g) (\<lambda>w. regOp (jp_nn w) g))"
  "opFunction (baseOpcodeTable ! 0xF2) = Fn0 Inr"
  by (simp_all add: baseOpcodeTable_def nth_append baseRow1_def baseRowD_def baseRowE_def baseRowF_def
      dec_E_def call_C_nn_def jp_mHL_def fun_eq_iff)

section \<open>Properties\<close>

text \<open>
  \<^bold>\<open>C9.\<close> The quarters 00h..3Fh and C0h..FFh of the one-byte table are the encoding as well: loads, 16-bit
  arithmetic, increments, decrements, conditional jumps, calls and returns, pushes, pops, restarts and
  immediate operands by their fields, with four exceptions. 1Dh (DEC E) increments E; DCh (CALL C) calls when
  the carry is clear; E9h (JP (HL)) jumps to the word HL points to and not to HL; F2h (LD A,(C)) does nothing.
  CBh is never executed.
\<close>

theorem outer_quarters_decode:
  assumes "n < 64 \<or> 192 \<le> n" and "n < 256" and "n \<noteq> 0xCB"
  shows "opFunction (baseOpcodeTable ! n) =
     (if n = 0x1D then Fn0 (regOp (inc_s RegE))
      else if n = 0xDC then Fn16 (\<lambda>nn. call_cc_nn nn flagCarry FLAG_NOT_SET)
      else if n = 0xE9 then Fn0 (\<lambda>g. bind_res (mmuReadShort (rHL (regs g)) g) (\<lambda>w. regOp (jp_nn w) g))
      else if n = 0xF2 then Fn0 Inr
      else if n < 64 then low_spec n else high_spec n)"
  using outer_entries [OF assms(2)] assms wrong_entries by (auto simp: outer_entry_def)

lemma outer_quarters_decode_witness:
  "opFunction (baseOpcodeTable ! 0x1D) = Fn0 (regOp (inc_s RegE)) \<and> opFunction (baseOpcodeTable ! 0xC0) = high_spec 0xC0"
  using outer_quarters_decode [of "0x1D"] outer_quarters_decode [of "0xC0"] by simp

text \<open>The C type of the function behind the \<open>void *\<close> of an entry, as the operand type that casts to it.\<close>

fun fn_type :: "opfn \<Rightarrow> u8" where
  "fn_type (Fn0 f) = NO_OPERANDS"
| "fn_type (Fn8 f) = OPERAND_CHAR"
| "fn_type (Fn16 f) = OPERAND_SHORT"

lemma opcode_ok_type: "opcode_ok op \<Longrightarrow> operandType op = fn_type (opFunction op)"
  by (cases "opFunction op") (simp_all add: opcode_ok_def)

definition ticks_ok :: "u64 \<Rightarrow> bool" where
  "ticks_ok t \<longleftrightarrow> unat t mod 4 = 0 \<and> unat t \<le> 24"

lemma base_ticks_ok: "list_all ticks_ok baseOpcodeTicks"
  by (simp add: baseOpcodeTicks_def ticks_ok_def)

lemma cb_ticks_ok: "list_all (\<lambda>t. ticks_ok t \<and> 8 \<le> unat t) cbOpcodeTicks"
  by (simp add: cbOpcodeTicks_def ticks_ok_def)

lemma cb_operands: "list_all (\<lambda>op. operandType op = 0) CBOpcodeTable"
  by (simp add: CBOpcodeTable_def cbRow0_def cbRow1_def cbRow2_def cbRow3_def cbRow4_def cbRow5_def cbRow6_def
      cbRow7_def cbRow8_def cbRow9_def cbRowA_def cbRowB_def cbRowC_def cbRowD_def cbRowE_def cbRowF_def)

text \<open>
  \<^bold>\<open>C22.\<close> The opcode tables are well typed. Both have an entry and a tick count for each of the 256 bytes;
  every entry's function has the C type its operand type makes \<open>ExecuteOpcode\<close> cast it to, except CBh, whose
  cast would be wrong and which is never executed; the entries of the CB page take no operand; and all tick
  counts are multiples of 4 and at most 24, at least 8 on the CB page.
\<close>

theorem tables_typed:
  "length baseOpcodeTable = 256 \<and> length CBOpcodeTable = 256
   \<and> length baseOpcodeTicks = 256 \<and> length cbOpcodeTicks = 256
   \<and> (n < 256 \<longrightarrow>
        (operandType (baseOpcodeTable ! n) = fn_type (opFunction (baseOpcodeTable ! n)) \<longleftrightarrow> n \<noteq> 0xCB)
      \<and> operandType (CBOpcodeTable ! n) = NO_OPERANDS \<and> fn_type (opFunction (CBOpcodeTable ! n)) = NO_OPERANDS
      \<and> ticks_ok (baseOpcodeTicks ! n) \<and> ticks_ok (cbOpcodeTicks ! n) \<and> 8 \<le> unat (cbOpcodeTicks ! n))"
proof -
  have cb: "operandType (baseOpcodeTable ! 0xCB) = 1" "fn_type (opFunction (baseOpcodeTable ! 0xCB)) = 0"
    by (simp_all add: baseOpcodeTable_def nth_append baseRowC_def)
  have z: "operandType (CBOpcodeTable ! n) = 0" "ticks_ok (baseOpcodeTicks ! n)" "ticks_ok (cbOpcodeTicks ! n)"
    "8 \<le> unat (cbOpcodeTicks ! n)" if "n < 256"
    using that base_ticks_ok cb_ticks_ok cb_operands by (simp_all add: list_all_length table_lengths)
  then show ?thesis
    using opcode_ok_type [OF cb_table_ok [of n]] opcode_ok_type [OF base_table_ok [of n]] cb
    by (cases "n = 0xCB") (auto simp: table_lengths)
qed

lemma tables_typed_witness:
  "operandType (baseOpcodeTable ! 0xC3) = fn_type (opFunction (baseOpcodeTable ! 0xC3))
   \<and> operandType (baseOpcodeTable ! 0xCB) \<noteq> fn_type (opFunction (baseOpcodeTable ! 0xCB))"
  using tables_typed [of "0xC3"] tables_typed [of "0xCB"] by simp

end
