(* ===== verification/Machine.thy ===== *)
theory Machine
  imports Cpu
begin

text \<open>
  The program around the emulator: one cycle of the main loop and the two ways the front ends reset
  a game (\<^verbatim>\<open>src/Platforms/main_debug.c\<close>, \<^verbatim>\<open>src/Platforms/main_server.c\<close>), and the control of
  the server: the flags the websocket thread sets and the loop of the emulator thread reads.
\<close>

section \<open>One cycle\<close>

text \<open>The body of the main loop; with the call that sends the state to a client it is \<open>serverCycle\<close> of theory \<open>Server_Websocket\<close>.\<close>

definition LoopCycle :: "gb \<Rightarrow> gb res" where
  "LoopCycle g =
    bind_res (cpuStep g) (\<lambda>(aCpuTicks, g).
    bind_res (gpuStep aCpuTicks (gpu g) (intr g)) (\<lambda>(p, i).
      interruptStep (g\<lparr>gpu := p, intr := i\<rparr>)))"

section \<open>Resetting a game\<close>

text \<open>\<open>ResetGame\<close> of the server: the ROM is loaded before the GPU is reset.\<close>

definition ResetGame :: "cenv \<Rightarrow> string \<Rightarrow> gb \<Rightarrow> gb res" where
  "ResetGame e inGameFilename g =
    (let (valid, c) = validateCart e inGameFilename (crt g);
         g = g\<lparr>crt := c\<rparr>
     in if valid \<noteq> 0 then
          bind_res (loadROM e inGameFilename g) (\<lambda>(r, g). Inr (g\<lparr>gpu := gpuReset (gpu g)\<rparr>))
        else Inr g)"

text \<open>\<open>resetGame\<close> of the debug program: the GPU is reset first.\<close>

definition resetGame :: "cenv \<Rightarrow> string \<Rightarrow> gb \<Rightarrow> gb res" where
  "resetGame e inGameFilename g =
    (let (valid, c) = validateCart e inGameFilename (crt g);
         g = g\<lparr>crt := c\<rparr>
     in if valid \<noteq> 0 then
          (let g = g\<lparr>gpu := gpuReset (gpu g)\<rparr>
           in bind_res (loadROM e inGameFilename g) (\<lambda>(r, g). Inr g))
        else Inr g)"

section \<open>The server\<close>

text \<open>
  The emulator thread between two accesses to shared flags: the locations of \<open>RunGameboyLoop\<close>, in
  the order of its body. \<open>BeforeWait\<close> and \<open>WaitConn\<close> are \<open>InitGameboyLoop\<close> before and in its wait
  for the first connection; a signal that comes before the wait is lost, and a wait may end without
  a signal, as POSIX allows.
\<close>

datatype loopLoc =
    BeforeWait     \<comment> \<open>the thread before \<open>pthread_cond_wait\<close>\<close>
  | WaitConn       \<comment> \<open>\<open>pthread_cond_wait\<close> in \<open>InitGameboyLoop\<close>\<close>
  | TestRestart    \<comment> \<open>\<open>atomic_load(&restartGame)\<close>\<close>
  | DoReset        \<comment> \<open>\<open>ResetGame(gameFileName)\<close>\<close>
  | ClearRestart   \<comment> \<open>\<open>atomic_store(&restartGame, false)\<close>\<close>
  | ClearStart     \<comment> \<open>\<open>atomic_store(&startGame, false)\<close>\<close>
  | TestConn       \<comment> \<open>\<open>atomic_load(&wsConnected)\<close> of the first condition\<close>
  | TestStep       \<comment> \<open>\<open>atomic_load(&step)\<close>\<close>
  | DoStep         \<comment> \<open>\<open>LoopCycle()\<close> of the first branch\<close>
  | ClearStep      \<comment> \<open>\<open>atomic_store(&step, false)\<close>\<close>
  | TestConn2      \<comment> \<open>\<open>atomic_load(&wsConnected)\<close> of the second condition\<close>
  | TestStart      \<comment> \<open>\<open>atomic_load(&startGame)\<close>\<close>
  | DoRun          \<comment> \<open>\<open>LoopCycle()\<close> of the second branch\<close>

text \<open>
  The main thread after \<open>InitThreads\<close>: it opens the log files, resets the game for the first time, and waits
  for the other two threads. No lock is held over this reset.
\<close>

datatype mainLoc =
    MainInit       \<comment> \<open>\<open>InitLogFiles(NULL)\<close>\<close>
  | MainReset      \<comment> \<open>\<open>ResetGame(gameFileName)\<close>\<close>
  | MainJoin       \<comment> \<open>\<open>pthread_join\<close>\<close>

record server =
  wsConnected :: bool
  restartGame :: bool
  startGame :: bool
  stepGame :: bool
  loc :: loopLoc
  mloc :: mainLoc
  game :: gb

definition InitGlobals :: "gb \<Rightarrow> server" where
  "InitGlobals g = \<lparr>wsConnected = False, restartGame = False, startGame = False, stepGame = False,
     loc = BeforeWait, mloc = MainInit, game = g\<rparr>"

text \<open>The callbacks of the websocket thread.\<close>

definition OnOpen :: "server \<Rightarrow> server" where
  "OnOpen s = (let s = s\<lparr>wsConnected := True\<rparr>
     in if loc s = WaitConn then s\<lparr>loc := TestRestart\<rparr> else s)"

definition OnClose :: "server \<Rightarrow> server" where
  "OnClose s = s\<lparr>wsConnected := False\<rparr>"

definition OnMessage :: "string \<Rightarrow> server \<Rightarrow> server" where
  "OnMessage msg s =
    (if msg = ''reset'' then s\<lparr>restartGame := True\<rparr>
     else if msg = ''step'' then s\<lparr>stepGame := True\<rparr>
     else if msg = ''start'' then s\<lparr>startGame := True\<rparr>
     else if msg = ''stop'' then s\<lparr>startGame := False\<rparr>
     else s)"

text \<open>
  One action of the emulator thread, from one shared access to the next. A fault of the emulator
  ends the process: there is no next state.
\<close>

definition RunGameboyLoop_step :: "cenv \<Rightarrow> string \<Rightarrow> server \<Rightarrow> server option" where
  "RunGameboyLoop_step e gameFileName s =
    (case loc s of
       BeforeWait \<Rightarrow> Some (s\<lparr>loc := WaitConn\<rparr>)
     | WaitConn \<Rightarrow> None
     | TestRestart \<Rightarrow> Some (s\<lparr>loc := if restartGame s then DoReset else TestConn\<rparr>)
     | DoReset \<Rightarrow> (case ResetGame e gameFileName (game s) of
           Inl f \<Rightarrow> None | Inr g \<Rightarrow> Some (s\<lparr>game := g, loc := ClearRestart\<rparr>))
     | ClearRestart \<Rightarrow> Some (s\<lparr>restartGame := False, loc := ClearStart\<rparr>)
     | ClearStart \<Rightarrow> Some (s\<lparr>startGame := False, loc := TestConn\<rparr>)
     | TestConn \<Rightarrow> Some (s\<lparr>loc := if wsConnected s then TestStep else TestConn2\<rparr>)
     | TestStep \<Rightarrow> Some (s\<lparr>loc := if stepGame s then DoStep else TestConn2\<rparr>)
     | DoStep \<Rightarrow> (case LoopCycle (game s) of
           Inl f \<Rightarrow> None | Inr g \<Rightarrow> Some (s\<lparr>game := g, loc := ClearStep\<rparr>))
     | ClearStep \<Rightarrow> Some (s\<lparr>stepGame := False, loc := TestRestart\<rparr>)
     | TestConn2 \<Rightarrow> Some (s\<lparr>loc := if wsConnected s then TestStart else TestRestart\<rparr>)
     | TestStart \<Rightarrow> Some (s\<lparr>loc := if startGame s then DoRun else TestRestart\<rparr>)
     | DoRun \<Rightarrow> (case LoopCycle (game s) of
           Inl f \<Rightarrow> None | Inr g \<Rightarrow> Some (s\<lparr>game := g, loc := TestRestart\<rparr>)))"

text \<open>
  The main thread and the emulator thread are both inside a function that works on the emulator. The
  emulator is plain global data without a lock, so what this race makes of it is undefined in C: neither
  thread has a next state in the model. The websocket thread only works on flags and goes on.
\<close>

definition overlap :: "server \<Rightarrow> bool" where
  "overlap s \<longleftrightarrow> mloc s = MainReset \<and> loc s \<in> {DoReset, DoStep, DoRun}"

definition main_step :: "cenv \<Rightarrow> string \<Rightarrow> server \<Rightarrow> server option" where
  "main_step e gameFileName s =
    (case mloc s of
       MainInit \<Rightarrow> Some (s\<lparr>mloc := MainReset\<rparr>)
     | MainReset \<Rightarrow> (case ResetGame e gameFileName (game s) of
           Inl f \<Rightarrow> None | Inr g \<Rightarrow> Some (s\<lparr>game := g, mloc := MainJoin\<rparr>))
     | MainJoin \<Rightarrow> None)"

inductive server_step :: "cenv \<Rightarrow> string \<Rightarrow> server \<Rightarrow> server \<Rightarrow> bool" for e nm where
  opened: "server_step e nm s (OnOpen s)"
| closed: "server_step e nm s (OnClose s)"
| message: "server_step e nm s (OnMessage msg s)"
| spurious: "loc s = WaitConn \<Longrightarrow> server_step e nm s (s\<lparr>loc := TestRestart\<rparr>)"
| emulator: "\<not> overlap s \<Longrightarrow> RunGameboyLoop_step e nm s = Some s' \<Longrightarrow> server_step e nm s s'"
| main: "\<not> overlap s \<Longrightarrow> main_step e nm s = Some s' \<Longrightarrow> server_step e nm s s'"

inductive server_reach :: "cenv \<Rightarrow> string \<Rightarrow> gb \<Rightarrow> server \<Rightarrow> bool" for e nm g where
  start: "server_reach e nm g (InitGlobals g)"
| step: "server_reach e nm g s \<Longrightarrow> server_step e nm s s' \<Longrightarrow> server_reach e nm g s'"

inductive_cases server_stepE: "server_step e nm s s'"

end
