(* ===== verification/Machine_Correct.thy ===== *)
theory Machine_Correct
  imports Machine Decode Cartridge_Properties
begin

text \<open>
  Lemmas on the whole machine: a cycle of a safe machine and the loop contract it keeps, interrupt
  dispatch, the reset sequence, and the handshake between the threads of the server.
\<close>

section \<open>Machines that run for ever\<close>

text \<open>\<open>cycles step n s\<close>: \<open>n\<close> rounds of a loop whose body can fault.\<close>

fun cycles :: "('s \<Rightarrow> 's res) \<Rightarrow> nat \<Rightarrow> 's \<Rightarrow> 's res" where
  "cycles step 0 s = Inr s"
| "cycles step (Suc n) s = bind_res (step s) (cycles step n)"

locale total_loop =
  fixes inv :: "'s \<Rightarrow> bool"
    and step :: "'s \<Rightarrow> 's res"
  assumes step_total: "inv s \<Longrightarrow> \<exists>s'. step s = Inr s' \<and> inv s'"
begin

lemma loop_total: "inv s \<Longrightarrow> \<exists>s'. cycles step n s = Inr s' \<and> inv s'"
proof (induction n arbitrary: s)
  case (Suc n)
  from step_total [OF Suc.prems] obtain s' where "step s = Inr s'" "inv s'" by blast
  with Suc.IH show ?case by simp
qed simp

lemma loop_inv: "inv s \<Longrightarrow> cycles step n s = Inr s' \<Longrightarrow> inv s'"
  using loop_total [of s n] by auto

end

section \<open>One cycle\<close>

lemma LoopCycle_total:
  assumes "safe g"
  shows "\<exists>n g1 p i g'. cpuStep g = Inr (of_nat n, g1) \<and> n \<le> 36
     \<and> gpuStep (of_nat n) (gpu g1) (intr g1) = Inr (p, i)
     \<and> interruptStep (g1\<lparr>gpu := p, intr := i\<rparr>) = Inr g' \<and> LoopCycle g = Inr g' \<and> safe g'
     \<and> tickCounter g1 = tickCounter g + of_nat n \<and> irq_kept g g'"
proof -
  obtain n g1 where 1: "cpuStep g = Inr (of_nat n, g1)" "n \<le> 36" "safe g1"
    "tickCounter g1 = tickCounter g + of_nat n" "irq_kept g g1"
    using cpuStep_total [OF assms] by blast
  then have "gpu_inv (gpu g1)" by (simp add: safe_def)
  from gpuStep_safe [OF this, of "of_nat n" "intr g1"] obtain p i where
    2: "gpuStep (of_nat n) (gpu g1) (intr g1) = Inr (p, i)" "gpu_inv p" "tileFileOpens p = tileFileOpens (gpu g1)" by auto
  then have "safe (g1\<lparr>gpu := p, intr := i\<rparr>)" using 1(3) by (simp add: safe_def dumpable_def)
  from interruptStep_total [OF this] obtain g' where
    3: "interruptStep (g1\<lparr>gpu := p, intr := i\<rparr>) = Inr g'" "safe g'"
    and k: "irq_kept (g1\<lparr>gpu := p, intr := i\<rparr>) g'" by (auto simp: runs_def)
  have "irq_kept g g'"
    using 1(5) k gpuStep_irq [of "intr g1" "of_nat n" "gpu g1"] by (simp add: irq_kept_def 2(1))
  moreover have "LoopCycle g = Inr g'" using 1 2 3 by (simp add: LoopCycle_def)
  ultimately show ?thesis using 1 2 3 by blast
qed

interpretation machine: total_loop safe LoopCycle
  by unfold_locales (use LoopCycle_total in blast)

text \<open>The same loop, with only the interrupts requested and enabled that a write can set.\<close>

interpretation machine_irq: total_loop "\<lambda>g. safe g \<and> irq_ok (intr g)" LoopCycle
  by unfold_locales (use LoopCycle_total in \<open>unfold irq_kept_def, blast\<close>)

section \<open>Interrupt dispatch\<close>

text \<open>The interrupt taken: VBLANK, LCD, TIMER, SERIAL, JOYPAD in this order.\<close>

definition pending :: "u8 \<Rightarrow> u8 option" where
  "pending fl = (if bit fl 0 then Some 0x01 else if bit fl 1 then Some 0x02 else if bit fl 3 then Some 0x08
     else if bit fl 2 then Some 0x04 else if bit fl 4 then Some 0x10 else None)"

definition dispatched :: "u8 \<Rightarrow> gb \<Rightarrow> gb" where
  "dispatched i g =
    (let pc = (if i = 0x08 then 0x50 else rPC (regs g)); sp = rSP (regs g)
     in addTicks 20 ((cellSet (sp - 2) (lo8 pc) (cellSet (sp - 1) (hi8 pc) g))
          \<lparr>regs := (regs g)\<lparr>rPC := ucast i, rSP := sp - 2\<rparr>,
           intr := (intr g)\<lparr>masterEnable := 0, request := request (intr g) AND NOT i\<rparr>\<rparr>))"

lemma cellSet_intr [simp]: "cellSet a v (g\<lparr>intr := i\<rparr>) = (cellSet a v g)\<lparr>intr := i\<rparr>"
  by (simp add: cellSet_def Let_def)

lemma handleInterrupt_stack:
  assumes "stackCells g"
  defines "sp \<equiv> rSP (regs g)"
  shows "handleInterrupt i a g = Inr (addTicks 20
     ((cellSet (sp - 2) (lo8 (rPC (regs g))) (cellSet (sp - 1) (hi8 (rPC (regs g))) g))
        \<lparr>regs := (regs g)\<lparr>rPC := ucast i, rSP := sp - 2\<rparr>,
         intr := (intr g)\<lparr>request := request (intr g) AND NOT i\<rparr>\<rparr>))"
  using call_nn_stack [OF assms(1), of "ucast i"]
  by (simp add: handleInterrupt_def Let_def sp_def modRegs_def)

lemma stackCells_upd [simp]:
  "stackCells (g\<lparr>intr := i\<rparr>) = stackCells g"
  "stackCells (g\<lparr>regs := (regs g)\<lparr>rPC := w\<rparr>\<rparr>) = stackCells g"
  by (simp_all add: stackCells_def)

lemma and_zero_bits: "(a :: u8) > 0 \<longleftrightarrow> a \<noteq> 0"
  by (simp add: word_neq_0_conv)

lemma interruptStep_eq:
  assumes "stackCells g"
  shows "interruptStep g = Inr (if masterEnable (intr g) \<noteq> 1 \<or> enable (intr g) AND request (intr g) = 0 then g
     else case pending (enable (intr g) AND request (intr g)) of
         Some i \<Rightarrow> dispatched i g
       | None \<Rightarrow> g\<lparr>intr := (intr g)\<lparr>masterEnable := 0\<rparr>\<rparr>)"
proof -
  have idem: "w AND NOT 8 AND NOT 8 = w AND NOT 8" for w :: u8
    by (simp add: and.assoc)
  show ?thesis
    using assms
    by (simp add: interruptStep_def Let_def handleInterrupt_stack pending_def dispatched_def and_zero_bits idem
        modRegs_def)
qed

lemma cellVal_upd [simp]: "cellVal a (g\<lparr>intr := i\<rparr>) = cellVal a g" "cellVal a (addTicks n g) = cellVal a g"
  by (simp_all add: cellVal_def addTicks_def Let_def)

lemma addTicks_regs [simp]: "regs (addTicks n g) = regs g" "intr (addTicks n g) = intr g"
  by (simp_all add: addTicks_def)

lemma ret_dispatched:
  assumes "stackCells g"
  shows "\<exists>g'. ret (dispatched i g) = Inr g' \<and> rPC (regs g') = (if i = 0x08 then 0x50 else rPC (regs g))
     \<and> rSP (regs g') = rSP (regs g)"
proof -
  define sp pc where "sp = rSP (regs g)" and "pc = (if i = 0x08 then 0x50 else rPC (regs g))"
  have d: "rSP (regs (dispatched i g)) = sp - 2"
    "cellVal (sp - 2) (dispatched i g) = lo8 pc" "cellVal (sp - 1) (dispatched i g) = hi8 pc"
    using stack_cells_read [OF assms] by (simp_all add: dispatched_def Let_def sp_def pc_def)
  have e: "sp - 2 + 1 = sp - 1" by simp
  have "ret (dispatched i g) = Inr (modRegs (\<lambda>r. r\<lparr>rPC := mk16 (hi8 pc) (lo8 pc), rSP := sp - 2 + 2\<rparr>) (dispatched i g))"
    using assms by (subst ret_stack) (simp_all only: d e stackCells_def sp_def [symmetric])
  then show ?thesis by (simp add: sp_def pc_def)
qed

section \<open>Reset\<close>

text \<open>Every address the reset writes is an I/O port, where nothing can fault.\<close>

lemma resetLoop_io:
  "list_all (\<lambda>(a, v). 0xFF00 \<le> unat a \<and> unat a < 0xFF80) l \<Longrightarrow> \<exists>g'. resetLoop l g = Inr g' \<and> regs g' = regs g
     \<and> crt g' = crt g \<and> gpu g' = fold (\<lambda>(a, v) p. if 0xFF40 \<le> a \<and> a \<le> 0xFF4B then gpuWriteRegister a v p else p) l (gpu g)"
proof (induction l arbitrary: g)
  case (Cons p l)
  obtain a v where p: "p = (a, v)" by (cases p)
  with Cons.prems have a: "0xFF00 \<le> unat a" "unat a < 0xFF80" by simp_all
  define h where "h = (if a = 0xFF0F then g\<lparr>intr := writeInterrupt a v (intr g)\<rparr>
      else if 0xFF40 \<le> a \<and> a \<le> 0xFF4B then g\<lparr>gpu := gpuWriteRegister a v (gpu g)\<rparr>
      else g\<lparr>ioPorts := (ioPorts g)(unat a - 0xFF00 := v)\<rparr>)"
  have st: "mmuStore a v g = Inr h"
    by (simp add: mmuStore_def mmuWriteByte_io(1) [OF a] h_def)
  have "regs h = regs g" "crt h = crt g"
    "gpu h = (if 0xFF40 \<le> a \<and> a \<le> 0xFF4B then gpuWriteRegister a v (gpu g) else gpu g)"
    by (auto simp: h_def)
  with Cons.IH [of h] Cons.prems st p show ?case by auto
qed simp

lemma reset_addresses_io: "list_all (\<lambda>(a, v). 0xFF00 \<le> unat a \<and> unat a < 0xFF80) (zip resetAddresses resetValues)"
  by (simp add: resetAddresses_def resetValues_def)

definition powerOnRegs :: registers where
  "powerOnRegs = \<lparr>rA = 0x01, rF = 0xB0, rB = 0x00, rC = 0x13, rD = 0x00, rE = 0xD8, rH = 0x01, rL = 0x4D,
     rSP = 0xFFFE, rPC = 0x0100\<rparr>"

lemma cpuReset_spec:
  "\<exists>g'. cpuReset g = Inr g' \<and> regs g' = powerOnRegs \<and> tickCounter g' = 0 \<and> enable (intr g') = 0 \<and> crt g' = crt g
     \<and> gpu g' = fold (\<lambda>(a, v) p. if 0xFF40 \<le> a \<and> a \<le> 0xFF4B then gpuWriteRegister a v p else p)
         (zip resetAddresses resetValues) (gpu g)"
proof -
  define h where "h = modRegs (\<lambda>r. r\<lparr>rSP := 0xFFFE, rPC := 0x0100\<rparr>) (modRegs (\<lambda>r.
               set16 RegHL 0x014D (set16 RegDE 0x00D8 (set16 RegBC 0x0013
                 (set16 RegAF 0x01B0 r)))) g)"
  obtain g' where g': "resetLoop (zip resetAddresses resetValues) h = Inr g'" "regs g' = regs h" "crt g' = crt h"
    "gpu g' = fold (\<lambda>(a, v) p. if 0xFF40 \<le> a \<and> a \<le> 0xFF4B then gpuWriteRegister a v p else p)
         (zip resetAddresses resetValues) (gpu h)"
    using resetLoop_io [OF reset_addresses_io, of h] by blast
  have "cpuReset g = Inr (g'\<lparr>intr := (intr g')\<lparr>enable := 0\<rparr>, tickCounter := 0\<rparr>)"
    using g'(1) by (simp add: cpuReset_def Let_def h_def)
  moreover have "regs h = powerOnRegs" "crt h = crt g" "gpu h = gpu g"
    by (simp_all add: h_def powerOnRegs_def hi8_def lo8_def)
  ultimately show ?thesis using g' by simp
qed

lemma reset_lcdControl:
  "lcdControl (gpuRegs (fold (\<lambda>(a, v) p. if 0xFF40 \<le> a \<and> a \<le> 0xFF4B then gpuWriteRegister a v p else p)
         (zip resetAddresses resetValues) p)) = 0x91"
  by (simp add: resetAddresses_def resetValues_def gpuWriteRegister_def Let_def)


lemma initializeMemory_sel [simp]:
  "crt (initializeMemory g) = crt g" "gpu (initializeMemory g) = gpu g" "regs (initializeMemory g) = regs g"
  by (simp_all add: initializeMemory_def)

lemma reset_dumpable:
  "dumpable (fold (\<lambda>(a, v) p. if 0xFF40 \<le> a \<and> a \<le> 0xFF4B then gpuWriteRegister a v p else p) xs p) = dumpable p"
proof (induction xs arbitrary: p)
  case (Cons x xs)
  obtain a b where "x = (a, b)" by (cases x)
  with Cons show ?case by (cases "0xFF40 \<le> a \<and> a \<le> 0xFF4B") simp_all
qed simp

lemma loadROM_spec:
  "\<exists>g'. loadROM e nm g = Inr (0, g') \<and> regs g' = powerOnRegs \<and> tickCounter g' = 0 \<and> enable (intr g') = 0
     \<and> crt g' = snd (loadCartridge e nm (crt g)) \<and> lcdControl (gpuRegs (gpu g')) = 0x91
     \<and> (dumpable (gpu g) \<longrightarrow> dumpable (gpu g'))"
proof -
  obtain h where h: "cpuReset (initializeMemory g) = Inr h" "regs h = powerOnRegs" "tickCounter h = 0"
    "enable (intr h) = 0" "crt h = crt g"
    "gpu h = fold (\<lambda>(a, v) p. if 0xFF40 \<le> a \<and> a \<le> 0xFF4B then gpuWriteRegister a v p else p)
         (zip resetAddresses resetValues) (gpu g)"
    using cpuReset_spec [of "initializeMemory g"] by auto
  have "loadROM e nm g = Inr (0, h\<lparr>crt := snd (loadCartridge e nm (crt g))\<rparr>)"
    using h(1,5) by (simp add: loadROM_def case_prod_beta)
  then show ?thesis using h reset_lcdControl [of "gpu g"] reset_dumpable by simp
qed

section \<open>The server\<close>

text \<open>What the two threads do to the game: whole resets and whole cycles, in some order.\<close>

datatype gameAction = WholeReset | WholeCycle

fun playGame :: "cenv \<Rightarrow> string \<Rightarrow> gameAction list \<Rightarrow> gb \<Rightarrow> gb res" where
  "playGame e nm [] g = Inr g"
| "playGame e nm (WholeReset # as) g = bind_res (ResetGame e nm g) (playGame e nm as)"
| "playGame e nm (WholeCycle # as) g = bind_res (LoopCycle g) (playGame e nm as)"

lemma playGame_append [simp]: "playGame e nm (as @ bs) g = bind_res (playGame e nm as g) (playGame e nm bs)"
proof (induction as arbitrary: g)
  case (Cons a as)
  then show ?case
    by (cases a) (auto simp: bind_res_def split: sum.splits)
qed simp

text \<open>
  Only the emulator thread clears the restart and step requests, so each stays up from the test that
  saw it to the store that clears it; before the first connection only the main thread has touched the game.
\<close>

definition handshake :: "cenv \<Rightarrow> string \<Rightarrow> gb \<Rightarrow> server \<Rightarrow> bool" where
  "handshake e nm g s \<longleftrightarrow> (loc s \<in> {DoReset, ClearRestart} \<longrightarrow> restartGame s)
     \<and> (loc s \<in> {DoStep, ClearStep} \<longrightarrow> stepGame s)
     \<and> (loc s \<in> {BeforeWait, WaitConn} \<longrightarrow>
          (if mloc s = MainJoin then ResetGame e nm g = Inr (game s) else game s = g))"

lemma handshake_callbacks:
  assumes "handshake e nm g s"
  shows "handshake e nm g (OnOpen s)" "handshake e nm g (OnClose s)" "handshake e nm g (OnMessage m s)"
  using assms by (auto simp: handshake_def OnOpen_def OnClose_def OnMessage_def Let_def)

lemma handshake_spurious: "handshake e nm g s \<Longrightarrow> handshake e nm g (s\<lparr>loc := TestRestart\<rparr>)"
  by (simp add: handshake_def)

lemma handshake_emulator:
  assumes "handshake e nm g s" "RunGameboyLoop_step e nm s = Some s'"
  shows "handshake e nm g s'"
  using assms by (cases "loc s") (auto simp: handshake_def RunGameboyLoop_step_def split: sum.splits if_splits)

lemma handshake_main:
  assumes "handshake e nm g s" "main_step e nm s = Some s'"
  shows "handshake e nm g s'"
proof (cases "mloc s")
  case MainReset
  with assms(2) obtain h where "ResetGame e nm (game s) = Inr h" "s' = s\<lparr>game := h, mloc := MainJoin\<rparr>"
    by (auto simp: main_step_def split: sum.splits)
  with assms(1) MainReset show ?thesis
    by (cases "loc s") (simp_all add: handshake_def)
next
  case MainInit
  with assms have "s' = s\<lparr>mloc := MainReset\<rparr>"
    by (simp add: main_step_def)
  with assms(1) MainInit show ?thesis
    by (simp add: handshake_def)
qed (use assms(2) in \<open>simp add: main_step_def\<close>)

lemma handshake_reach: "server_reach e nm g s \<Longrightarrow> handshake e nm g s"
proof (induction rule: server_reach.induct)
  case start
  show ?case by (simp add: handshake_def InitGlobals_def)
next
  case (step s s')
  note [simp] = handshake_callbacks [OF step.IH] handshake_spurious [OF step.IH]
  from step.hyps(2) show ?case
    by (rule server_stepE) (simp_all add: handshake_emulator [OF step.IH] handshake_main [OF step.IH])
qed

text \<open>Every action of a thread leaves the game, resets it or runs one cycle of it.\<close>

lemma RunGameboyLoop_step_game:
  "RunGameboyLoop_step e nm s = Some s' \<Longrightarrow>
   game s' = game s \<or> ResetGame e nm (game s) = Inr (game s') \<or> LoopCycle (game s) = Inr (game s')"
  by (cases "loc s") (auto simp: RunGameboyLoop_step_def split: sum.splits)

lemma main_step_game:
  "main_step e nm s = Some s' \<Longrightarrow> game s' = game s \<or> ResetGame e nm (game s) = Inr (game s')"
  by (cases "mloc s") (auto simp: main_step_def split: sum.splits)

lemma server_step_game:
  "server_step e nm s s' \<Longrightarrow>
   game s' = game s \<or> ResetGame e nm (game s) = Inr (game s') \<or> LoopCycle (game s) = Inr (game s')"
  by (erule server_stepE)
    (auto simp: OnOpen_def OnClose_def OnMessage_def Let_def dest: RunGameboyLoop_step_game main_step_game)

lemma server_whole_actions: "server_reach e nm g s \<Longrightarrow> \<exists>as. playGame e nm as g = Inr (game s)"
proof (induction rule: server_reach.induct)
  case start
  show ?case by (rule exI [of _ "[]"]) (simp add: InitGlobals_def)
next
  case (step s s')
  then obtain as where "playGame e nm as g = Inr (game s)" by blast
  then have "ResetGame e nm (game s) = Inr (game s') \<Longrightarrow> playGame e nm (as @ [WholeReset]) g = Inr (game s')"
    "LoopCycle (game s) = Inr (game s') \<Longrightarrow> playGame e nm (as @ [WholeCycle]) g = Inr (game s')"
    by simp_all
  with server_step_game [OF step.hyps(2)] \<open>playGame e nm as g = Inr (game s)\<close> show ?case
    by metis
qed

text \<open>The emulator thread alone, for a number of actions.\<close>

fun emulator_run :: "cenv \<Rightarrow> string \<Rightarrow> nat \<Rightarrow> server \<Rightarrow> server option" where
  "emulator_run e nm 0 s = Some s"
| "emulator_run e nm (Suc n) s = (case RunGameboyLoop_step e nm s of None \<Rightarrow> None
     | Some s' \<Rightarrow> emulator_run e nm n s')"

end
