(* ===== verification/Machine_Properties.thy ===== *)
theory Machine_Properties
  imports Machine_Correct
begin

text \<open>
  The properties of the whole machine: an instruction and any number of cycles run to the end on a
  safe machine, interrupt dispatch, the two reset sequences, and the threads of the server.
\<close>

section \<open>Instructions and cycles\<close>

text \<open>
  \<^bold>\<open>C21.\<close> Every instruction ends. On a safe machine, one whose cartridge cannot fault and for which the file
  of the VRAM dump opens whenever it is asked for, whatever bytes PC points to: the tables have an entry of the right type for every opcode, the instruction runs without a
  fault and leaves a safe machine, and the tick counter advances by the returned number of ticks,
  which is at most 36.
\<close>

theorem cpuStep_never_faults:
  assumes "safe g"
  shows "\<exists>n g'. cpuStep g = Inr (of_nat n, g') \<and> n \<le> 36 \<and> safe g'
    \<and> tickCounter g' = tickCounter g + of_nat n"
  using cpuStep_total [OF assms] by blast

text \<open>A machine with a ROM of 32768 zero bytes (NOP) and a RAM of 8192.\<close>

definition nopCart :: cart where
  "nopCart = (cart_static (\<lambda>_. 0))\<lparr>rom := Some \<lparr>bsize = 0x8000, bdata = (\<lambda>_. 0)\<rparr>,
     ram := Some \<lparr>bsize = 0x2000, bdata = (\<lambda>_. 0)\<rparr>, mbcSet := True,
     mbcReadByte := Some FnMBCNone, mbcWriteByte := Some FnMBCNone\<rparr>"

definition nopMachine :: gb where
  "nopMachine = (gb_static (\<lambda>_. 0))\<lparr>crt := nopCart, regs := powerOnRegs\<rparr>"

lemma nopMachine_safe: "safe nopMachine"
  by (simp add: safe_def nopMachine_def nopCart_def cart_total_def holds_bytes_def gb_static_def
      gpu_inv_def GPU_static_def tiles_ok_def dumpable_def)

lemma cpuStep_never_faults_witness:
  "\<exists>n g'. cpuStep nopMachine = Inr (of_nat n, g') \<and> n \<le> 36 \<and> safe g'"
  using cpuStep_never_faults [OF nopMachine_safe] by blast

text \<open>
  \<^bold>\<open>C1.\<close> The emulator never leaves defined C on such a machine: any number of cycles of the main loop
  (instruction, display, interrupts) ends, no array of the GPU or the memory is left, no null pointer
  is used and no opcode function is called through the wrong type, and the machine stays safe. That the file of the
  dump opens is a hypothesis, as the code does not test it. The log lines of the functions
  are left out; \<open>Log_faults_iff\<close> says that a line with a text faults only after the log file has been closed.
\<close>

theorem machine_never_faults:
  assumes "safe g"
  shows "\<exists>g'. cycles LoopCycle n g = Inr g' \<and> safe g'"
  by (rule machine.loop_total [OF assms])

lemma machine_never_faults_witness: "\<exists>g'. cycles LoopCycle 100000 nopMachine = Inr g' \<and> safe g'"
  by (rule machine_never_faults [OF nopMachine_safe])

section \<open>Interrupts\<close>

text \<open>
  \<^bold>\<open>C17.\<close> Interrupt dispatch, exactly, with the stack in RAM. Nothing happens when interrupts are
  disabled or none is both enabled and requested. Otherwise the master enable flag is cleared; the
  first of VBLANK, LCD, TIMER, SERIAL and JOYPAD is acknowledged, its request bit only is cleared and
  20 ticks are added; PC becomes the bit of the interrupt (1, 2, 8, 4 or 16), not its vector address.
  A return goes back to the interrupted instruction, except after TIMER, where it goes to 50h: the
  code overwrites PC before it pushes it.
\<close>

theorem interruptStep_dispatch:
  assumes "stackCells g"
  shows "interruptStep g = Inr (if masterEnable (intr g) \<noteq> 1 \<or> enable (intr g) AND request (intr g) = 0 then g
     else case pending (enable (intr g) AND request (intr g)) of
         Some i \<Rightarrow> dispatched i g
       | None \<Rightarrow> g\<lparr>intr := (intr g)\<lparr>masterEnable := 0\<rparr>\<rparr>)
    \<and> rPC (regs (dispatched i g)) = ucast i
    \<and> request (intr (dispatched i g)) = request (intr g) AND NOT i
    \<and> tickCounter (dispatched i g) = tickCounter g + 20
    \<and> (\<exists>g'. ret (dispatched i g) = Inr g' \<and> rSP (regs g') = rSP (regs g)
         \<and> rPC (regs g') = (if i = TIMER_INTERRUPT then 0x50 else rPC (regs g)))"
proof (intro conjI)
  show "interruptStep g = Inr (if masterEnable (intr g) \<noteq> 1 \<or> enable (intr g) AND request (intr g) = 0 then g
     else case pending (enable (intr g) AND request (intr g)) of
         Some i \<Rightarrow> dispatched i g
       | None \<Rightarrow> g\<lparr>intr := (intr g)\<lparr>masterEnable := 0\<rparr>\<rparr>)"
    by (rule interruptStep_eq [OF assms])
  show "\<exists>g'. ret (dispatched i g) = Inr g' \<and> rSP (regs g') = rSP (regs g)
         \<and> rPC (regs g') = (if i = TIMER_INTERRUPT then 0x50 else rPC (regs g))"
    using ret_dispatched [OF assms, of i] by auto
qed (simp_all add: dispatched_def Let_def)

definition vblankMachine :: gb where
  "vblankMachine = nopMachine\<lparr>intr := \<lparr>request = 5, enable = 7, masterEnable = 1\<rparr>\<rparr>"

lemma interruptStep_dispatch_witness:
  "\<exists>g'. interruptStep vblankMachine = Inr g' \<and> rPC (regs g') = 1 \<and> request (intr g') = 4"
proof -
  have s: "stackCells vblankMachine"
    by (simp add: stackCells_def vblankMachine_def nopMachine_def powerOnRegs_def ramCell_def)
  from interruptStep_dispatch [OF s, of 1] show ?thesis
    by (simp add: vblankMachine_def pending_def)
qed

section \<open>Resetting\<close>

text \<open>
  \<^bold>\<open>C29.\<close> The two resets. For a game that passes the checks both succeed, load the same cartridge and
  leave the CPU in the power-on state (the registers the console has after its boot ROM, no enabled
  interrupt, tick counter 0). The debug program resets the GPU first and ends with the display on
  (91h); the server resets it last, which undoes the write to FF40: its display is off, and stepping
  the GPU then changes nothing.
\<close>

theorem reset_order:
  assumes "fst (validateCart e nm (crt g)) \<noteq> 0"
  shows "\<exists>g1 g2. ResetGame e nm g = Inr g1 \<and> resetGame e nm g = Inr g2
     \<and> regs g1 = powerOnRegs \<and> regs g2 = powerOnRegs \<and> tickCounter g1 = 0 \<and> tickCounter g2 = 0
     \<and> enable (intr g1) = 0 \<and> enable (intr g2) = 0
     \<and> crt g1 = snd (loadCartridge e nm (snd (validateCart e nm (crt g)))) \<and> crt g2 = crt g1
     \<and> lcdControl (gpuRegs (gpu g2)) = 0x91 \<and> lcdControl (gpuRegs (gpu g1)) = 0
     \<and> gpuStep t (gpu g1) i = Inr (gpu g1, i)"
proof -
  obtain v c where vc: "validateCart e nm (crt g) = (v, c)" "v \<noteq> 0"
    using assms by (cases "validateCart e nm (crt g)") auto
  obtain h1 where h1: "loadROM e nm (g\<lparr>crt := c\<rparr>) = Inr (0, h1)" "regs h1 = powerOnRegs" "tickCounter h1 = 0"
    "enable (intr h1) = 0" "crt h1 = snd (loadCartridge e nm c)"
    using loadROM_spec [of e nm "g\<lparr>crt := c\<rparr>"] by auto
  obtain h2 where h2: "loadROM e nm (g\<lparr>crt := c, gpu := gpuReset (gpu g)\<rparr>) = Inr (0, h2)" "regs h2 = powerOnRegs"
    "tickCounter h2 = 0" "enable (intr h2) = 0" "crt h2 = snd (loadCartridge e nm c)"
    "lcdControl (gpuRegs (gpu h2)) = 0x91"
    using loadROM_spec [of e nm "g\<lparr>crt := c, gpu := gpuReset (gpu g)\<rparr>"] by auto
  have "ResetGame e nm g = Inr (h1\<lparr>gpu := gpuReset (gpu h1)\<rparr>)"
    using vc h1(1) by (simp add: ResetGame_def)
  moreover have "resetGame e nm g = Inr h2"
    using vc h2(1) by (simp add: resetGame_def)
  moreover have off: "lcdControl (gpuRegs (gpuReset (gpu h1))) = 0"
    by (simp add: gpuReset_def initGPU_def)
  moreover have "gpuStep t (gpuReset (gpu h1)) i = Inr (gpuReset (gpu h1), i)"
    by (rule gpuStep_off) (simp add: off)
  ultimately show ?thesis using vc h1 h2 by simp
qed

lemma reset_order_witness:
  "\<exists>g1. ResetGame logoEnv ''logo.gb'' nopMachine = Inr g1 \<and> lcdControl (gpuRegs (gpu g1)) = 0"
proof -
  have "length (nintendoLogo (hdr (crt nopMachine))) = 0x30"
    by (simp add: nopMachine_def nopCart_def cart_static_def header_static_def)
  from validateCart_char [OF this] have "fst (validateCart logoEnv ''logo.gb'' (crt nopMachine)) = 1"
    using logoBytes_valid by (auto simp: logoEnv_def)
  then show ?thesis
    using reset_order [of logoEnv "''logo.gb''" nopMachine 4 "\<lparr>request = 0, enable = 0, masterEnable = 0\<rparr>"]
    by auto
qed

section \<open>The server\<close>

lemma ResetGame_total: "\<exists>g'. ResetGame e nm g = Inr g'"
proof (cases "fst (validateCart e nm (crt g)) = 0")
  case True
  then show ?thesis by (simp add: ResetGame_def case_prod_beta)
next
  case False
  then show ?thesis using reset_order [of e nm g] by blast
qed

lemma server_start: "server_reach e nm g (InitGlobals g)"
  by (rule server_reach.start)

lemmas server_reaches = server_reach.step [OF _ server_step.emulator] server_reach.step [OF _ server_step.main]
  server_reach.step [OF _ server_step.opened] server_reach.step [OF _ server_step.message]

text \<open>
  A client that connects and asks for a reset while the main thread is in its own one, and the same
  requests when it is past it.
\<close>

lemma overlap_reachable: "\<exists>s. server_reach e nm g s \<and> overlap s"
proof -
  let ?s1 = "(InitGlobals g)\<lparr>mloc := MainReset\<rparr>"
  have "server_reach e nm g ?s1"
    by (rule server_reaches(2) [OF server_start]) (simp_all add: overlap_def InitGlobals_def main_step_def)
  then have "server_reach e nm g (?s1\<lparr>loc := WaitConn\<rparr>)"
    by (rule server_reaches(1)) (simp_all add: overlap_def InitGlobals_def RunGameboyLoop_step_def)
  then have "server_reach e nm g (OnMessage ''reset'' (OnOpen (?s1\<lparr>loc := WaitConn\<rparr>)))"
    by (intro server_reaches(3,4))
  then have "server_reach e nm g ((OnMessage ''reset'' (OnOpen (?s1\<lparr>loc := WaitConn\<rparr>)))\<lparr>loc := DoReset\<rparr>)"
    by (rule server_reaches(1))
      (simp_all add: overlap_def InitGlobals_def RunGameboyLoop_step_def OnMessage_def OnOpen_def)
  then show ?thesis
    by (intro exI conjI) (assumption, simp add: overlap_def InitGlobals_def OnMessage_def OnOpen_def)
qed

lemma main_done_reachable:
  assumes "ResetGame e nm g = Inr g1"
  defines "t \<equiv> (InitGlobals g)\<lparr>mloc := MainJoin, game := g1, loc := WaitConn\<rparr>"
  shows "server_reach e nm g t" "server_reach e nm g ((OnMessage ''reset'' (OnOpen t))\<lparr>loc := DoReset\<rparr>)"
proof -
  have "server_reach e nm g ((InitGlobals g)\<lparr>mloc := MainReset\<rparr>)"
    by (rule server_reaches(2) [OF server_start]) (simp_all add: overlap_def InitGlobals_def main_step_def)
  then have "server_reach e nm g ((InitGlobals g)\<lparr>mloc := MainJoin, game := g1\<rparr>)"
    by (rule server_reaches(2)) (simp_all add: overlap_def InitGlobals_def main_step_def assms(1))
  then show t: "server_reach e nm g t"
    unfolding t_def by (rule server_reaches(1)) (simp_all add: overlap_def InitGlobals_def RunGameboyLoop_step_def)
  have "server_reach e nm g (OnMessage ''reset'' (OnOpen t))"
    using t by (intro server_reaches(3,4))
  then show "server_reach e nm g ((OnMessage ''reset'' (OnOpen t))\<lparr>loc := DoReset\<rparr>)"
    by (rule server_reaches(1))
      (simp_all add: t_def overlap_def InitGlobals_def RunGameboyLoop_step_def OnMessage_def OnOpen_def)
qed

text \<open>
  \<^bold>\<open>C27.\<close> The requests of the client, for every interleaving of the three threads up to the first state in which two
  of them work on the emulator at once. The emulator thread executes a reset only while its request is up,
  and the request stays up until the store after it; the same holds for a single step. Until it leaves the
  wait for the first connection it does not touch the game, which is the one at the start before the end of the
  main thread's own reset, which nobody requests, and the result of exactly this reset after it. The game is always the result of
  a sequence of whole resets and whole cycles. The main thread's reset is not ordered with the emulator
  thread: a state is reachable, for every game, in which both are in \<open>ResetGame\<close> or \<open>LoopCycle\<close>.
\<close>

theorem server_handshake:
  assumes "server_reach e nm g s"
  shows "(loc s \<in> {DoReset, ClearRestart} \<longrightarrow> restartGame s)
     \<and> (loc s \<in> {DoStep, ClearStep} \<longrightarrow> stepGame s)
     \<and> (loc s \<in> {BeforeWait, WaitConn} \<longrightarrow>
          (if mloc s = MainJoin then ResetGame e nm g = Inr (game s) else game s = g))
     \<and> (\<exists>as. playGame e nm as g = Inr (game s))
     \<and> (\<exists>s. server_reach e nm g s \<and> overlap s)"
  using handshake_reach [OF assms] server_whole_actions [OF assms] overlap_reachable [of e nm g]
  by (simp add: handshake_def)

lemma server_handshake_witness:
  "\<exists>t. server_reach logoEnv ''logo.gb'' nopMachine t \<and> loc t = WaitConn \<and> mloc t = MainJoin
     \<and> ResetGame logoEnv ''logo.gb'' nopMachine = Inr (game t)
     \<and> server_reach logoEnv ''logo.gb'' nopMachine ((OnMessage ''reset'' (OnOpen t))\<lparr>loc := DoReset\<rparr>)
     \<and> restartGame ((OnMessage ''reset'' (OnOpen t))\<lparr>loc := DoReset\<rparr>)"
proof -
  obtain g1 where g1: "ResetGame logoEnv ''logo.gb'' nopMachine = Inr g1"
    using ResetGame_total by blast
  let ?t = "(InitGlobals nopMachine)\<lparr>mloc := MainJoin, game := g1, loc := WaitConn\<rparr>"
  note r = main_done_reachable [OF g1]
  have "loc ?t = WaitConn" "mloc ?t = MainJoin" by simp_all
  moreover have "ResetGame logoEnv ''logo.gb'' nopMachine = Inr (game ?t)"
    using server_handshake [OF r(1)] by simp
  moreover have "restartGame ((OnMessage ''reset'' (OnOpen ?t))\<lparr>loc := DoReset\<rparr>)"
    using server_handshake [OF r(2)] by simp
  ultimately show ?thesis using r by blast
qed

text \<open>
  One round of the emulator thread, with a client connected, no reset requested and no message
  in between. A requested step runs exactly one \<open>LoopCycle\<close> and clears the request, whether or not the
  game is also running; without a step a running game advances by one cycle; without either the loop
  comes back without touching the game.
\<close>

theorem server_single_step:
  assumes "loc s = TestRestart" and "\<not> restartGame s" and "wsConnected s"
    and "LoopCycle (game s) = Inr g'"
  shows "emulator_run e nm (if \<not> stepGame s \<and> startGame s then 6 else 5) s =
     Some (if stepGame s then s\<lparr>game := g', stepGame := False\<rparr>
           else if startGame s then s\<lparr>game := g'\<rparr> else s)"
  using assms by (simp add: eval_nat_numeral RunGameboyLoop_step_def)

lemma server_single_step_witness:
  "\<exists>g'. LoopCycle nopMachine = Inr g' \<and> emulator_run blankEnv ''blank.gb'' 5
     \<lparr>wsConnected = True, restartGame = False, startGame = False, stepGame = True, loc = TestRestart,
       mloc = MainJoin, game = nopMachine\<rparr> = Some \<lparr>wsConnected = True, restartGame = False, startGame = False,
       stepGame = False, loc = TestRestart, mloc = MainJoin, game = g'\<rparr>"
proof -
  obtain g' where g': "LoopCycle nopMachine = Inr g'" using LoopCycle_total [OF nopMachine_safe] by blast
  from server_single_step [of "\<lparr>wsConnected = True, restartGame = False, startGame = False, stepGame = True,
      loc = TestRestart, mloc = MainJoin, game = nopMachine\<rparr>" g' blankEnv "''blank.gb''"] g'
  show ?thesis by simp
qed

text \<open>
  What the threads lose. The wait for the first connection tests no flag, so a client that
  connects before it leaves the thread waiting with the connection up: such a state can be reached,
  and the emulator thread has no action in it. A start sent while the store after a reset is due,
  and a step sent while the store after a step is due, are overwritten.
\<close>

theorem server_lost_requests:
  "(\<exists>s. server_reach e nm g s \<and> wsConnected s \<and> loc s = WaitConn \<and> RunGameboyLoop_step e nm s = None)
   \<and> RunGameboyLoop_step e nm (OnMessage ''start'' (s\<lparr>loc := ClearStart\<rparr>)) = Some (s\<lparr>startGame := False, loc := TestConn\<rparr>)
   \<and> RunGameboyLoop_step e nm (OnMessage ''step'' (s\<lparr>loc := ClearStep\<rparr>)) = Some (s\<lparr>stepGame := False, loc := TestRestart\<rparr>)"
proof (intro conjI exI)
  let ?s = "(OnOpen (InitGlobals g))\<lparr>loc := WaitConn\<rparr>"
  have "server_reach e nm g (OnOpen (InitGlobals g))"
    by (rule server_reaches(3) [OF server_start])
  moreover have "RunGameboyLoop_step e nm (OnOpen (InitGlobals g)) = Some ?s"
    by (simp add: RunGameboyLoop_step_def OnOpen_def InitGlobals_def)
  moreover have "\<not> overlap (OnOpen (InitGlobals g))"
    by (simp add: overlap_def OnOpen_def InitGlobals_def)
  ultimately show "server_reach e nm g ?s"
    by (blast intro: server_reaches)
  show "wsConnected ?s" "loc ?s = WaitConn" "RunGameboyLoop_step e nm ?s = None"
    by (simp_all add: OnOpen_def InitGlobals_def RunGameboyLoop_step_def)
qed (simp_all add: OnMessage_def RunGameboyLoop_step_def)

end
