(* ===== verification/Interrupt_Spec.thy ===== *)
theory Interrupt_Spec
  imports Machine_Properties
begin

text \<open>
  The interrupt controller as a specification: a set of pending and a set of enabled sources ordered
  by priority, and the refinement of it by the registers and functions of \<^verbatim>\<open>src/interrupt.c\<close>. Then
  the ticks a cycle hands to the display.
\<close>

section \<open>The specification\<close>

datatype irq = Vblank | Lcd | Serial | Timer | Joypad

text \<open>The bit of a source in the registers, and its rank in \<open>interruptStep\<close>.\<close>

fun irqBit :: "irq \<Rightarrow> nat" where
  "irqBit Vblank = 0"
| "irqBit Lcd = 1"
| "irqBit Serial = 2"
| "irqBit Timer = 3"
| "irqBit Joypad = 4"

fun irqRank :: "irq \<Rightarrow> nat" where
  "irqRank Vblank = 0"
| "irqRank Lcd = 1"
| "irqRank Timer = 2"
| "irqRank Serial = 3"
| "irqRank Joypad = 4"

lemma irqRank_inj: "irqRank p = irqRank q \<Longrightarrow> p = q"
  by (cases p; cases q) simp_all

instantiation irq :: linorder
begin

definition less_eq_irq :: "irq \<Rightarrow> irq \<Rightarrow> bool" where
  "p \<le> q \<longleftrightarrow> irqRank p \<le> irqRank q"

definition less_irq :: "irq \<Rightarrow> irq \<Rightarrow> bool" where
  "p < q \<longleftrightarrow> irqRank p < irqRank q"

instance
  by standard (auto simp: less_eq_irq_def less_irq_def intro: irqRank_inj)

end

instance irq :: finite
proof
  have u: "(UNIV :: irq set) = {Vblank, Lcd, Serial, Timer, Joypad}"
    using irq.exhaust by blast
  show "finite (UNIV :: irq set)" unfolding u by (intro finite.insertI finite.emptyI)
qed

record irqState =
  pendingSet :: "irq set"
  enabledSet :: "irq set"
  masterOn :: bool

text \<open>The source accepted is the pending and enabled one of the highest priority.\<close>

definition specAccept :: "irqState \<Rightarrow> irq option" where
  "specAccept s = (if masterOn s \<and> pendingSet s \<inter> enabledSet s \<noteq> {}
     then Some (Min (pendingSet s \<inter> enabledSet s)) else None)"

definition specService :: "irqState \<Rightarrow> irqState" where
  "specService s = (case specAccept s of None \<Rightarrow> s
     | Some q \<Rightarrow> s\<lparr>pendingSet := pendingSet s - {q}, masterOn := False\<rparr>)"

definition specRaise :: "irq \<Rightarrow> irqState \<Rightarrow> irqState" where
  "specRaise q s = s\<lparr>pendingSet := insert q (pendingSet s)\<rparr>"

definition absIrq :: "interruptRegisters \<Rightarrow> irqState" where
  "absIrq i = \<lparr>pendingSet = {q. bit (request i) (irqBit q)}, enabledSet = {q. bit (enable i) (irqBit q)},
     masterOn = (masterEnable i = 1)\<rparr>"

section \<open>The refinement\<close>

definition irqMask :: "irq \<Rightarrow> u8" where
  "irqMask q = push_bit (irqBit q) 1"

lemma irqMask_simps [simp]:
  "irqMask Vblank = 1" "irqMask Lcd = 2" "irqMask Serial = 4" "irqMask Timer = 8" "irqMask Joypad = 16"
  by (simp_all add: irqMask_def)

lemma bit_irqMask: "bit (irqMask p) (irqBit q) \<longleftrightarrow> p = q"
  by (cases p; cases q) (simp_all add: bit_numeral_word_iff bit_1_iff)

lemma irqBit_less [simp]: "irqBit q < 8"
  by (cases q) simp_all

text \<open>The dispatch order of the code, read as a minimum.\<close>

lemma pending_Min:
  assumes "{q. bit fl (irqBit q)} \<noteq> {}"
  shows "pending fl = Some (irqMask (Min {q. bit fl (irqBit q)}))"
proof -
  have m: "Min {q. bit fl (irqBit q)} = p" if "bit fl (irqBit p)" and "\<And>q. bit fl (irqBit q) \<Longrightarrow> p \<le> q" for p
    by (rule Min_eqI) (use that in auto)
  from assms obtain p where "bit fl (irqBit p)" by blast
  then consider "bit fl 0" | "\<not> bit fl 0" "bit fl 1" | "\<not> bit fl 0" "\<not> bit fl 1" "bit fl 3"
    | "\<not> bit fl 0" "\<not> bit fl 1" "\<not> bit fl 3" "bit fl 2"
    | "\<not> bit fl 0" "\<not> bit fl 1" "\<not> bit fl 3" "\<not> bit fl 2" "bit fl 4"
    by (cases p) auto
  then show ?thesis
  proof cases
    case 1
    have "p \<ge> Vblank" for p by (simp add: less_eq_irq_def)
    with m [of Vblank] 1 show ?thesis by (simp add: pending_def)
  next
    case 2
    then have "bit fl (irqBit q) \<Longrightarrow> Lcd \<le> q" for q by (cases q) (simp_all add: less_eq_irq_def)
    with m [of Lcd] 2 show ?thesis by (simp add: pending_def)
  next
    case 3
    then have "bit fl (irqBit q) \<Longrightarrow> Timer \<le> q" for q by (cases q) (simp_all add: less_eq_irq_def)
    with m [of Timer] 3 show ?thesis by (simp add: pending_def)
  next
    case 4
    then have "bit fl (irqBit q) \<Longrightarrow> Serial \<le> q" for q by (cases q) (simp_all add: less_eq_irq_def)
    with m [of Serial] 4 show ?thesis by (simp add: pending_def)
  next
    case 5
    then have "bit fl (irqBit q) \<Longrightarrow> Joypad \<le> q" for q by (cases q) (simp_all add: less_eq_irq_def)
    with m [of Joypad] 5 show ?thesis by (simp add: pending_def)
  qed
qed

lemma no_source_zero:
  fixes fl :: u8
  assumes "fl AND 0xF8 = 0" and "{q. bit fl (irqBit q)} = {}"
  shows "fl = 0"
proof (rule bit_word_eqI)
  fix n assume "n < LENGTH(8)"
  have "\<not> bit fl (irqBit q)" for q using assms(2) by blast
  from this [of Vblank] this [of Lcd] this [of Serial] have "\<not> bit fl 0" "\<not> bit fl 1" "\<not> bit fl 2" by simp_all
  moreover have "n < 3 \<Longrightarrow> n = 0 \<or> n = 1 \<or> n = 2" by linarith
  moreover have "3 \<le> n \<Longrightarrow> \<not> bit fl n" using assms(1) by (simp add: upper_bits_clear)
  ultimately have "\<not> bit fl n" by (cases "n < 3") auto
  then show "bit fl n = bit 0 n" by simp
qed

lemma abs_flags: "pendingSet (absIrq i) \<inter> enabledSet (absIrq i) = {q. bit (enable i AND request i) (irqBit q)}"
  by (auto simp: absIrq_def bit_and_iff)

lemma abs_dispatched:
  "intr g = i \<Longrightarrow> absIrq (intr (dispatched (irqMask q) g)) =
     (absIrq i)\<lparr>pendingSet := pendingSet (absIrq i) - {q}, masterOn := False\<rparr>"
  by (simp add: dispatched_def Let_def absIrq_def bit_and_iff bit_not_iff bit_irqMask set_eq_iff) blast


lemma abs_raise: "absIrq (writeInterrupt 0xFF0F (irqMask q) i) =
   (if q \<in> {Vblank, Lcd, Serial} then specRaise q (absIrq i) else absIrq i)"
proof -
  have b: "bit (irqMask q) (irqBit p) \<longleftrightarrow> p = q" for p using bit_irqMask [of q p] by auto
  have v: "validateInterrupt (irqMask q) \<longleftrightarrow> q \<in> {Vblank, Lcd, Serial}" by (cases q) simp_all
  show ?thesis
    unfolding writeInterrupt_def v by (simp add: absIrq_def specRaise_def bit_or_iff b) blast
qed

lemma abs_irq_ok: "irq_ok i \<Longrightarrow> pendingSet (absIrq i) \<union> enabledSet (absIrq i) \<subseteq> {Vblank, Lcd, Serial}"
proof -
  have "3 \<le> irqBit q" if "q \<notin> {Vblank, Lcd, Serial}" for q using that by (cases q) simp_all
  then show "irq_ok i \<Longrightarrow> ?thesis" by (auto simp: absIrq_def irq_ok_def upper_bits_clear)
qed

lemma accept_pending:
  assumes "irq_ok i"
  shows "if masterEnable i \<noteq> 1 \<or> enable i AND request i = 0 then specAccept (absIrq i) = None
     else \<exists>q. specAccept (absIrq i) = Some q \<and> pending (enable i AND request i) = Some (irqMask q)"
proof -
  have up: "(enable i AND request i) AND 0xF8 = 0"
    using assms unfolding irq_ok_def upper_bits_clear by (simp add: bit_and_iff)
  have m: "masterOn (absIrq i) = (masterEnable i = 1)" by (simp add: absIrq_def)
  show ?thesis
  proof (cases "{q. bit (enable i AND request i) (irqBit q)} = {}")
    case True
    then have "enable i AND request i = 0" using no_source_zero up by blast
    with True show ?thesis by (simp add: specAccept_def abs_flags)
  next
    case False
    then have "enable i AND request i \<noteq> 0" by auto
    with False pending_Min [OF False] show ?thesis by (simp add: specAccept_def abs_flags m)
  qed
qed

lemma interruptStep_service:
  assumes "stackCells g" and "irq_ok (intr g)"
  shows "interruptStep g = Inr (case specAccept (absIrq (intr g)) of None \<Rightarrow> g | Some q \<Rightarrow> dispatched (irqMask q) g)"
  using accept_pending [OF assms(2)] unfolding interruptStep_eq [OF assms(1)]
  by (auto split: option.splits if_splits)

section \<open>Properties\<close>

text \<open>
  \<^bold>\<open>C5.\<close> The interrupt registers implement the abstract controller. With the stack in RAM and only
  sources a write can set, one \<open>interruptStep\<close> is one service of the specification: the pending and
  enabled source of the highest priority (VBLANK, LCD, TIMER, SERIAL, JOYPAD) is removed from the pending
  set, the master enable goes off and PC becomes the bit of the source; with none, or with the master
  enable off, the machine is unchanged. A write of the request bit of a source to FF0Fh raises it for
  VBLANK, LCD and SERIAL and is lost for TIMER and JOYPAD.
\<close>

theorem interruptStep_refines:
  assumes "stackCells g" and "irq_ok (intr g)"
  shows "\<exists>g'. interruptStep g = Inr g' \<and> absIrq (intr g') = specService (absIrq (intr g))
     \<and> (case specAccept (absIrq (intr g)) of None \<Rightarrow> g' = g
        | Some q \<Rightarrow> rPC (regs g') = ucast (irqMask q) \<and> rSP (regs g') = rSP (regs g) - 2)
     \<and> absIrq (writeInterrupt 0xFF0F (irqMask p) (intr g)) =
         (if p \<in> {Vblank, Lcd, Serial} then specRaise p (absIrq (intr g)) else absIrq (intr g))"
  using abs_dispatched [of g "intr g"]
  by (auto simp: interruptStep_service [OF assms] specService_def abs_raise dispatched_def Let_def split: option.splits)

lemma interruptStep_refines_witness:
  "\<exists>g'. interruptStep vblankMachine = Inr g' \<and> absIrq (intr g') = specService (absIrq (intr vblankMachine))"
proof -
  have "stackCells vblankMachine" "irq_ok (intr vblankMachine)"
    by (simp_all add: stackCells_def vblankMachine_def nopMachine_def powerOnRegs_def ramCell_def irq_ok_def)
  from interruptStep_refines [OF this] show ?thesis by blast
qed

text \<open>
  \<^bold>\<open>C14.\<close> Neither a timer nor a joypad interrupt ever happens. Over any number of cycles of a safe machine
  that starts with none of them requested or enabled, whatever the program writes and however often the
  display requests an interrupt, the requested and the enabled sources stay among VBLANK, LCD and SERIAL,
  so the controller accepts no other.
\<close>

theorem no_timer_interrupts:
  assumes "safe g" and "irq_ok (intr g)" and "cycles LoopCycle n g = Inr g'"
  shows "irq_ok (intr g') \<and> pendingSet (absIrq (intr g')) \<union> enabledSet (absIrq (intr g')) \<subseteq> {Vblank, Lcd, Serial}
     \<and> specAccept (absIrq (intr g')) \<notin> {Some Timer, Some Joypad}"
proof -
  from machine_irq.loop_inv [OF _ assms(3)] assms(1,2) have ok: "irq_ok (intr g')" by blast
  note sub = abs_irq_ok [OF ok]
  have "specAccept (absIrq (intr g')) = Some q \<Longrightarrow> q \<in> pendingSet (absIrq (intr g'))" for q
    using Min_in [of "pendingSet (absIrq (intr g')) \<inter> enabledSet (absIrq (intr g'))"]
    by (auto simp: specAccept_def split: if_splits)
  with sub ok show ?thesis by blast
qed

lemma no_timer_interrupts_witness:
  "\<exists>g'. cycles LoopCycle 1000 nopMachine = Inr g' \<and> specAccept (absIrq (intr g')) \<noteq> Some Timer"
proof -
  have i: "irq_ok (intr nopMachine)" by (simp add: nopMachine_def gb_static_def irq_ok_def)
  obtain g' where "cycles LoopCycle 1000 nopMachine = Inr g'"
    using machine.loop_total [OF nopMachine_safe] by blast
  with no_timer_interrupts [OF nopMachine_safe i this] show ?thesis by blast
qed

section \<open>The ticks the display sees\<close>

lemma handleInterrupt_ticks:
  assumes "safe g"
  shows "\<exists>g'. handleInterrupt i a g = Inr g' \<and> tickCounter g' = tickCounter g + 20"
proof -
  obtain g' where "call_nn (ucast i) g = Inr g'" "tickCounter g' = tickCounter g"
    using runs_stack(4) [where k = 0, OF assms, of "ucast i"] by (auto simp: runs_def)
  then show ?thesis by (simp add: handleInterrupt_def Let_def addTicks_def)
qed

lemma interruptStep_ticks:
  assumes "safe g" and "irq_ok (intr g)"
  shows "\<exists>g'. interruptStep g = Inr g'
     \<and> tickCounter g' = tickCounter g + (if specAccept (absIrq (intr g)) = None then 0 else 20)"
proof (cases "masterEnable (intr g) \<noteq> 1 \<or> enable (intr g) AND request (intr g) = 0")
  case True
  then have "interruptStep g = Inr g" by (auto simp: interruptStep_def Let_def)
  with True accept_pending [OF assms(2)] show ?thesis by simp
next
  case False
  with accept_pending [OF assms(2)] obtain q where
    q: "specAccept (absIrq (intr g)) = Some q" "pending (enable (intr g) AND request (intr g)) = Some (irqMask q)"
    by auto
  have h: "\<exists>g'. handleInterrupt i a (g\<lparr>intr := j\<rparr>) = Inr g' \<and> tickCounter g' = tickCounter g + 20"
    "\<exists>g'. handleInterrupt i a (g\<lparr>regs := r, intr := j\<rparr>) = Inr g' \<and> tickCounter g' = tickCounter g + 20"
    for i a j r
    using handleInterrupt_ticks [of "g\<lparr>intr := j\<rparr>" i a] handleInterrupt_ticks [of "g\<lparr>regs := r, intr := j\<rparr>" i a] assms(1)
    by simp_all
  from False q show ?thesis
    by (simp add: interruptStep_def Let_def and_zero_bits pending_def modRegs_def h split: if_splits)
qed

text \<open>
  The display does not see the ticks of interrupts. A cycle of a safe machine hands the display
  the ticks of the instruction, and the tick counter advances by these and by 20 more when an interrupt is
  accepted; the next instruction is measured from there, so these 20 ticks reach the display in no cycle.
\<close>

theorem interrupt_ticks_lost:
  assumes "safe g" and "irq_ok (intr g)"
  shows "\<exists>n g1 p i g'. cpuStep g = Inr (of_nat n, g1) \<and> tickCounter g1 = tickCounter g + of_nat n
     \<and> gpuStep (of_nat n) (gpu g1) (intr g1) = Inr (p, i) \<and> LoopCycle g = Inr g'
     \<and> tickCounter g' = tickCounter g + of_nat n + (if specAccept (absIrq i) = None then 0 else 20)"
proof -
  obtain n g1 where 1: "cpuStep g = Inr (of_nat n, g1)" "safe g1" "tickCounter g1 = tickCounter g + of_nat n"
    "irq_kept g g1"
    using cpuStep_total [OF assms(1)] by blast
  then have "gpu_inv (gpu g1)" by (simp add: safe_def)
  from gpuStep_safe [OF this, of "of_nat n" "intr g1"] obtain p i where
    2: "gpuStep (of_nat n) (gpu g1) (intr g1) = Inr (p, i)" "gpu_inv p" "tileFileOpens p = tileFileOpens (gpu g1)" by auto
  have "irq_ok i" using gpuStep_irq [of "intr g1" "of_nat n" "gpu g1"] 1(4) assms(2) 2(1) by (simp add: irq_kept_def)
  moreover have "safe (g1\<lparr>gpu := p, intr := i\<rparr>)" using 1(2) 2(2,3) by (simp add: safe_def dumpable_def)
  ultimately obtain g' where g': "interruptStep (g1\<lparr>gpu := p, intr := i\<rparr>) = Inr g'"
    "tickCounter g' = tickCounter g1 + (if specAccept (absIrq i) = None then 0 else 20)"
    using interruptStep_ticks [of "g1\<lparr>gpu := p, intr := i\<rparr>"] by auto
  then have "LoopCycle g = Inr g'" by (simp add: LoopCycle_def 1(1) 2(1))
  with 1 2 g' show ?thesis by (intro exI conjI) simp_all
qed

lemma interrupt_ticks_lost_witness: "\<exists>g'. LoopCycle vblankMachine = Inr g'"
proof -
  have "safe vblankMachine" "irq_ok (intr vblankMachine)"
    using nopMachine_safe by (simp_all add: vblankMachine_def irq_ok_def)
  from interrupt_ticks_lost [OF this] show ?thesis by blast
qed

end
