(* ===== verification/Cpu_Stack.thy ===== *)
theory Cpu_Stack
  imports Machine_Properties
begin

text \<open>
  The stack of return addresses: calls and returns through memory as a stack of 16-bit values, for
  any sequence of them.
\<close>

section \<open>The contract\<close>

datatype stackOp = Call u16 | Ret

text \<open>The specification: PC and the return addresses, with a capacity. \<open>None\<close> is over- or underflow.\<close>

fun specOps :: "nat \<Rightarrow> stackOp list \<Rightarrow> u16 \<times> u16 list \<Rightarrow> (u16 \<times> u16 list) option" where
  "specOps cap [] s = Some s"
| "specOps cap (Call nn # ops) (pc, ws) = (if length ws < cap then specOps cap ops (nn, pc # ws) else None)"
| "specOps cap (Ret # ops) (pc, []) = None"
| "specOps cap (Ret # ops) (pc, w # ws) = specOps cap ops (w, ws)"

fun_cases specOps_CallE: "specOps cap (Call nn # ops) s = Some s'"
  and specOps_RetE: "specOps cap (Ret # ops) s = Some s'"

text \<open>The same operations run by a machine.\<close>

fun execOps :: "(u16 \<Rightarrow> 's \<Rightarrow> 's res) \<Rightarrow> ('s \<Rightarrow> 's res) \<Rightarrow> stackOp list \<Rightarrow> 's \<Rightarrow> 's res" where
  "execOps call return [] s = Inr s"
| "execOps call return (Call nn # ops) s = bind_res (call nn s) (execOps call return ops)"
| "execOps call return (Ret # ops) s = bind_res (return s) (execOps call return ops)"

locale return_stack =
  fixes rep :: "'s \<Rightarrow> u16 \<times> u16 list \<Rightarrow> bool"
    and call :: "u16 \<Rightarrow> 's \<Rightarrow> 's res"
    and return :: "'s \<Rightarrow> 's res"
    and cap :: nat
  assumes call_law: "rep s (pc, ws) \<Longrightarrow> length ws < cap \<Longrightarrow> \<exists>s'. call nn s = Inr s' \<and> rep s' (nn, pc # ws)"
    and return_law: "rep s (pc, w # ws) \<Longrightarrow> \<exists>s'. return s = Inr s' \<and> rep s' (w, ws)"
begin

lemma exec_refines:
  "rep s a \<Longrightarrow> specOps cap ops a = Some a' \<Longrightarrow> \<exists>s'. execOps call return ops s = Inr s' \<and> rep s' a'"
proof (induction ops arbitrary: s a)
  case (Cons op ops)
  show ?case
  proof (cases op)
    case (Call nn)
    from Cons.prems(2) [unfolded this] obtain pc ws where
      a: "a = (pc, ws)" "length ws < cap" "specOps cap ops (nn, pc # ws) = Some a'"
      by (cases rule: specOps_CallE) (auto split: if_splits)
    from call_law [of s pc ws nn] Cons.prems(1) a obtain s' where "call nn s = Inr s'" "rep s' (nn, pc # ws)"
      by blast
    with Cons.IH [OF _ a(3)] Call show ?thesis by simp
  next
    case Ret
    from Cons.prems(2) [unfolded this] obtain pc w ws where
      a: "a = (pc, w # ws)" "specOps cap ops (w, ws) = Some a'"
      by (cases rule: specOps_RetE) auto
    from return_law [of s pc w ws] Cons.prems(1) a obtain s' where "return s = Inr s'" "rep s' (w, ws)"
      by blast
    with Cons.IH [OF _ a(2)] Ret show ?thesis by simp
  qed
qed simp

end

section \<open>The stack in memory\<close>

text \<open>A segment of RAM without mirrors: work RAM, OAM or high RAM.\<close>

definition stackSeg :: "nat \<Rightarrow> nat \<Rightarrow> bool" where
  "stackSeg lo hi \<longleftrightarrow> lo \<le> hi \<and> (0xC000 \<le> lo \<and> hi \<le> 0xE000 \<or> 0xFE00 \<le> lo \<and> hi \<le> 0xFEA0
     \<or> 0xFF80 \<le> lo \<and> hi \<le> 0xFFFF)"

definition wordAt :: "gb \<Rightarrow> nat \<Rightarrow> u16" where
  "wordAt g n = mk16 (cellVal (of_nat (n + 1)) g) (cellVal (of_nat n) g)"

text \<open>The return addresses lie from SP up to \<open>hi\<close>, the last one pushed first.\<close>

definition stackRep :: "nat \<Rightarrow> nat \<Rightarrow> gb \<Rightarrow> u16 \<times> u16 list \<Rightarrow> bool" where
  "stackRep lo hi g = (\<lambda>(pc, ws). stackSeg lo hi \<and> rPC (regs g) = pc \<and> lo \<le> unat (rSP (regs g))
     \<and> unat (rSP (regs g)) + 2 * length ws = hi
     \<and> (\<forall>k<length ws. wordAt g (unat (rSP (regs g)) + 2 * k) = ws ! k))"

lemma seg_cell:
  assumes "stackSeg lo hi" and "lo \<le> n" and "n < hi"
  shows "ramCell (of_nat n)" and "ramPhys (of_nat n) = of_nat n" and "unat (of_nat n :: u16) = n"
proof -
  have n: "n < 65536" "0xC000 \<le> n" using assms by (auto simp: stackSeg_def)
  then show u: "unat (of_nat n :: u16) = n" by (simp add: unat_of_nat)
  from assms have "n < 0xE000 \<or> 0xFE00 \<le> n \<and> n < 0xFEA0 \<or> 0xFF80 \<le> n \<and> n < 0xFFFF"
    by (auto simp: stackSeg_def)
  with n show "ramCell (of_nat n)" "ramPhys (of_nat n) = of_nat n"
    by (auto simp: ramCell_def ramPhys_def u)
qed

lemma seg_get_set:
  assumes "stackSeg lo hi" and "lo \<le> n" "n < hi" and "lo \<le> m" "m < hi"
  shows "cellVal (of_nat n) (cellSet (of_nat m) v g) = (if n = m then v else cellVal (of_nat n) g)"
proof -
  have "(of_nat m :: u16) = of_nat n \<longleftrightarrow> m = n"
    using seg_cell(3) [OF assms(1-3)] seg_cell(3) [OF assms(1,4,5)] by metis
  then show ?thesis
    using seg_cell(1,2) [OF assms(1-3)] seg_cell(1,2) [OF assms(1,4,5)] by (auto simp: cellVal_cellSet)
qed

lemma sp_pred:
  assumes "k \<le> unat sp"
  shows "sp - of_nat k = (of_nat (unat sp - k) :: u16)"
  using assms by (simp add: of_nat_diff)

lemma call_stackRep:
  assumes "stackRep lo hi g (pc, ws)" and "length ws < (hi - lo) div 2"
  shows "\<exists>g'. call_nn nn g = Inr g' \<and> stackRep lo hi g' (nn, pc # ws)"
proof -
  define sp where "sp = unat (rSP (regs g))"
  have seg: "stackSeg lo hi" and sp: "lo + 2 \<le> sp" "sp + 2 * length ws = hi" and pc: "rPC (regs g) = pc"
    and w: "\<And>k. k < length ws \<Longrightarrow> wordAt g (sp + 2 * k) = ws ! k"
    using assms by (auto simp: stackRep_def sp_def)
  have lo: "0xC000 \<le> lo" using seg by (auto simp: stackSeg_def)
  have a: "rSP (regs g) - 1 = of_nat (sp - 1)" "rSP (regs g) - 2 = of_nat (sp - 2)"
    using sp_pred [of 1 "rSP (regs g)"] sp_pred [of 2 "rSP (regs g)"] sp lo by (simp_all add: sp_def)
  have "stackCells g"
    unfolding stackCells_def a using seg_cell(1) [OF seg, of "sp - 1"] seg_cell(1) [OF seg, of "sp - 2"] sp
    by simp
  define h where "h = cellSet (of_nat (sp - 2)) (lo8 pc) (cellSet (of_nat (sp - 1)) (hi8 pc) g)"
  have c: "call_nn nn g = Inr (modRegs (\<lambda>r. r\<lparr>rPC := nn, rSP := of_nat (sp - 2)\<rparr>) h)"
    using call_nn_stack [OF \<open>stackCells g\<close>, of nn] by (simp only: a pc h_def)
  have b: "lo \<le> sp - 2" "sp - 2 < hi" "lo \<le> sp - 1" "sp - 1 < hi" using sp lo by simp_all
  have v: "cellVal (of_nat n) h = (if n = sp - 2 then lo8 pc else if n = sp - 1 then hi8 pc else cellVal (of_nat n) g)"
    if "lo \<le> n" "n < hi" for n
    unfolding h_def seg_get_set [OF seg that b(1,2)] seg_get_set [OF seg that b(3,4)] ..
  have u: "unat (of_nat (sp - 2) :: u16) = sp - 2" using seg_cell(3) [OF seg, of "sp - 2"] sp by simp
  have "wordAt (modRegs f h) (sp - 2 + 2 * k) = (pc # ws) ! k" if "k < Suc (length ws)" for k f
  proof (cases k)
    case 0
    have "sp - 2 + 1 = sp - 1" using sp by simp
    with 0 v [of "sp - 2"] v [of "sp - 1"] sp show ?thesis by (simp add: wordAt_def del: of_nat_add of_nat_Suc)
  next
    case (Suc j)
    then have "wordAt g (sp + 2 * j) = ws ! j" and e: "sp - 2 + 2 * k = sp + 2 * j" using w that sp by simp_all
    moreover have "sp + 2 * j \<noteq> sp - 2" "sp + 2 * j \<noteq> sp - 1" "sp + 2 * j + 1 \<noteq> sp - 2"
      "sp + 2 * j + 1 \<noteq> sp - 1" "sp + 2 * j + 1 < hi" using sp Suc that by simp_all
    then have "cellVal (of_nat (sp + 2 * j)) h = cellVal (of_nat (sp + 2 * j)) g"
      "cellVal (of_nat (sp + 2 * j + 1)) h = cellVal (of_nat (sp + 2 * j + 1)) g"
      using v [of "sp + 2 * j"] v [of "sp + 2 * j + 1"] sp by (simp_all del: of_nat_add of_nat_Suc)
    ultimately show ?thesis unfolding e using Suc by (simp add: wordAt_def del: of_nat_add of_nat_Suc)
  qed
  moreover have "lo \<le> sp - 2" "2 \<le> hi" using sp by simp_all
  ultimately show ?thesis using sp u seg c by (simp add: stackRep_def)
qed

lemma ret_stackRep:
  assumes "stackRep lo hi g (pc, w # ws)"
  shows "\<exists>g'. ret g = Inr g' \<and> stackRep lo hi g' (w, ws)"
proof -
  define sp where "sp = unat (rSP (regs g))"
  have seg: "stackSeg lo hi" and sp: "lo \<le> sp" "sp + 2 * length ws + 2 = hi"
    and w: "\<And>k. k < Suc (length ws) \<Longrightarrow> wordAt g (sp + 2 * k) = (w # ws) ! k"
    using assms by (auto simp: stackRep_def sp_def)
  have a: "rSP (regs g) = of_nat sp" "rSP (regs g) + 1 = of_nat (sp + 1)" by (simp_all add: sp_def)
  have c: "ramCell (rSP (regs g))" unfolding a(1) using seg_cell(1) [OF seg, of sp] sp by simp
  have c': "ramCell (rSP (regs g) + 1)" unfolding a(2) using seg_cell(1) [OF seg, of "sp + 1"] sp
    by (simp del: of_nat_add of_nat_Suc)
  have pc: "mk16 (cellVal (of_nat (sp + 1)) g) (cellVal (of_nat sp) g) = w"
    using w [of 0] by (simp add: wordAt_def del: of_nat_add of_nat_Suc)
  have r: "ret g = Inr (modRegs (\<lambda>r. r\<lparr>rPC := w, rSP := rSP (regs g) + 2\<rparr>) g)"
    using ret_stack [OF c c'] pc by (simp only: a(2)) (simp only: a(1))
  have "sp + 2 < 65536" using sp seg by (auto simp: stackSeg_def)
  then have u: "unat (rSP (regs g) + 2) = sp + 2" unfolding sp_def by (simp add: unat_add_lem [THEN iffD1])
  have "wordAt (modRegs f g) (sp + 2 + 2 * k) = ws ! k" if "k < length ws" for k f
    using w [of "Suc k"] that by (simp add: wordAt_def add.assoc del: of_nat_add of_nat_Suc)
  with r u sp seg show ?thesis by (simp add: stackRep_def)
qed

interpretation cpu_stack: return_stack "stackRep lo hi" call_nn ret "(hi - lo) div 2" for lo hi
  by unfold_locales (use call_stackRep ret_stackRep in blast)+

section \<open>Properties\<close>

lemma stackRep_empty:
  "stackSeg lo hi \<Longrightarrow> unat (rSP (regs g)) = hi \<Longrightarrow> stackRep lo hi g (rPC (regs g), [])"
  by (auto simp: stackRep_def stackSeg_def)

text \<open>
  \<^bold>\<open>C7.\<close> Calls and returns implement a stack of return addresses. From a machine whose SP is the upper end
  of a part of the RAM, any sequence of calls and returns that neither underflows nor needs more than the
  words that fit there runs without a fault, and afterwards PC and the return addresses in memory are those
  of the abstract stack; a balanced sequence comes back to the PC and SP it started from.
\<close>

theorem calls_refine_stack:
  assumes "stackSeg lo (unat (rSP (regs g)))"
    and "specOps ((unat (rSP (regs g)) - lo) div 2) ops (rPC (regs g), []) = Some (pc, ws)"
  shows "\<exists>g'. execOps call_nn ret ops g = Inr g' \<and> rPC (regs g') = pc
     \<and> unat (rSP (regs g')) + 2 * length ws = unat (rSP (regs g))
     \<and> (\<forall>k<length ws. wordAt g' (unat (rSP (regs g')) + 2 * k) = ws ! k)"
  using cpu_stack.exec_refines [OF stackRep_empty [OF assms(1) refl] assms(2)] by (auto simp: stackRep_def)

lemma calls_refine_stack_witness:
  "\<exists>g'. execOps call_nn ret [Call 0x200, Call 0x300, Ret, Call 0x400, Ret, Ret] nopMachine = Inr g'
     \<and> rPC (regs g') = 0x100"
proof -
  have sp: "rSP (regs nopMachine) = 0xFFFE" "rPC (regs nopMachine) = 0x100"
    by (simp_all add: nopMachine_def powerOnRegs_def)
  then have u: "unat (rSP (regs nopMachine)) = 65534" by simp
  have seg: "stackSeg 65408 (unat (rSP (regs nopMachine)))" by (simp add: stackSeg_def u)
  have "specOps ((unat (rSP (regs nopMachine)) - 65408) div 2) [Call 0x200, Call 0x300, Ret, Call 0x400, Ret, Ret]
      (rPC (regs nopMachine), []) = Some (0x100, [])"
    by (simp add: u sp)
  from calls_refine_stack [OF seg this] show ?thesis by blast
qed

end
