(* ===== verification/Programs.thy ===== *)
theory Programs
  imports Machine_Properties
begin

text \<open>
  A machine-code program run by the whole emulator: the loop that copies a block of bytes, as games
  use it to move tiles and tables out of the ROM. One lemma per instruction of the loop, in the form
  a program proof composes.
\<close>

section \<open>Cycles without interrupts and display\<close>

text \<open>The state the server's reset leaves: display off, interrupts off. The file for the dump of VRAM opens.\<close>

definition quiet :: "gb \<Rightarrow> bool" where
  "quiet g \<longleftrightarrow> \<not> bit (lcdControl (gpuRegs (gpu g))) 7 \<and> masterEnable (intr g) \<noteq> 1 \<and> dumpable (gpu g)"

lemma LoopCycle_quiet: "cpuStep g = Inr (n, g') \<Longrightarrow> quiet g' \<Longrightarrow> LoopCycle g = Inr g'"
  by (simp add: LoopCycle_def quiet_def gpuStep_off interruptStep_def)

definition same_reads :: "gb \<Rightarrow> gb \<Rightarrow> bool" where
  "same_reads g g' \<longleftrightarrow> (\<forall>b. mmuReadByte b g' = mmuReadByte b g)"

lemma same_readsD: "same_reads g g' \<Longrightarrow> mmuReadByte b g' = mmuReadByte b g"
  by (simp add: same_reads_def)

lemma reads_upd [simp]:
  "mmuReadByte b (g\<lparr>lastOpcodeName := s, lastOperand := w\<rparr>) = mmuReadByte b g"
  "mmuReadByte b (addTicks n g) = mmuReadByte b g"
  by (simp_all add: mmuReadByte_def addTicks_def)

lemma quiet_upd [simp]:
  "quiet (g\<lparr>lastOpcodeName := s, lastOperand := w\<rparr>) = quiet g" "quiet (addTicks n g) = quiet g"
  "quiet (modRegs f g) = quiet g" "quiet (cellSet a v g) = quiet g" "quiet g \<Longrightarrow> quiet (atPC g)"
  by (simp_all add: quiet_def addTicks_def)

lemma quiet_dump: "quiet g \<Longrightarrow> dumpAtPC g = Inr (atPC g)"
  by (simp add: quiet_def dumpAtPC_eq)

text \<open>One cycle for an instruction without an operand, and for one with a byte.\<close>

lemma LoopCycle_Fn0:
  assumes "quiet g'" and "mmuReadByte (rPC (regs g)) g = Inr b" and "b \<noteq> 0xCB"
    and "baseOpcodeTable ! unat b = \<lparr>asmName = nm, operandType = 0, opFunction = Fn0 f\<rparr>"
    and "baseOpcodeTicks ! unat b = t"
    and "f (addTicks t (modRegs (\<lambda>r. r\<lparr>rPC := rPC r + 1\<rparr>) (atPC g))) = Inr g'" and "quiet g"
  shows "LoopCycle g = Inr (g'\<lparr>lastOpcodeName := nm, lastOperand := 0\<rparr>)"
proof -
  have "modRegs (\<lambda>r. r\<lparr>rPC := rPC r\<rparr>) h = h" for h by (simp add: modRegs_def)
  then have "\<exists>n. cpuStep g = Inr (n, g'\<lparr>lastOpcodeName := nm, lastOperand := 0\<rparr>)"
    using assms(2-7) by (simp add: cpuStep_def quiet_dump DetermineOpcode_def DetermineOperand_def ExecuteOpcode_def Let_def)
  with LoopCycle_quiet assms(1) show ?thesis by auto
qed

lemma LoopCycle_Fn8:
  assumes "quiet g'" and "mmuReadByte (rPC (regs g)) g = Inr b" and "b \<noteq> 0xCB"
    and "mmuReadByte (rPC (regs g) + 1) g = Inr n"
    and "baseOpcodeTable ! unat b = \<lparr>asmName = nm, operandType = 1, opFunction = Fn8 f\<rparr>"
    and "baseOpcodeTicks ! unat b = t"
    and "f n (addTicks t (modRegs (\<lambda>r. r\<lparr>rPC := rPC r + 2\<rparr>) (atPC g))) = Inr g'" and "quiet g"
  shows "LoopCycle g = Inr (g'\<lparr>lastOpcodeName := nm, lastOperand := ucast n\<rparr>)"
proof -
  have c: "modRegs f (addTicks t h) = addTicks t (modRegs f h)" for f h by (simp add: modRegs_def addTicks_def)
  have "ucast (ucast n :: u16) = n" by (rule bit_word_eqI) (auto simp: bit_simps)
  then have "\<exists>m. cpuStep g = Inr (m, g'\<lparr>lastOpcodeName := nm, lastOperand := ucast n\<rparr>)"
    using assms(2-8)
    by (simp add: cpuStep_def quiet_dump DetermineOpcode_def DetermineOperand_def ExecuteOpcode_def Let_def c add.assoc)
  with LoopCycle_quiet assms(1) show ?thesis by auto
qed

section \<open>The instructions of the loop\<close>

lemma table_entries:
  "baseOpcodeTable ! 0x05 = \<lparr>asmName = ''DEC B'', operandType = 0, opFunction = Fn0 dec_B\<rparr>"
  "baseOpcodeTable ! 0x12 = \<lparr>asmName = ''LD (DE),A'', operandType = 0, opFunction = Fn0 ld_mDE_A\<rparr>"
  "baseOpcodeTable ! 0x13 = \<lparr>asmName = ''INC DE'', operandType = 0, opFunction = Fn0 inc_DE\<rparr>"
  "baseOpcodeTable ! 0x20 = \<lparr>asmName = ''JR NZ,n'', operandType = 1, opFunction = Fn8 jr_NZ_n\<rparr>"
  "baseOpcodeTable ! 0x2A = \<lparr>asmName = ''LDI A,(HL)'', operandType = 0, opFunction = Fn0 ldi_A_mHL\<rparr>"
  by (simp_all add: baseOpcodeTable_def nth_append)
    (simp_all add: baseRow0_def baseRow1_def baseRow2_def)

lemma tick_entries:
  "baseOpcodeTicks ! 0x05 = 4" "baseOpcodeTicks ! 0x12 = 8" "baseOpcodeTicks ! 0x13 = 8"
  "baseOpcodeTicks ! 0x20 = 8" "baseOpcodeTicks ! 0x2A = 8"
  by (simp_all add: baseOpcodeTicks_def)

text \<open>What a cycle does to a quiet machine, as far as a program can see.\<close>

definition advances :: "gb \<Rightarrow> registers \<Rightarrow> u64 \<Rightarrow> gb \<Rightarrow> bool" where
  "advances g r t g' \<longleftrightarrow> LoopCycle g = Inr g' \<and> quiet g' \<and> regs g' = r \<and> tickCounter g' = tickCounter g + t"

lemma ticks_upd [simp]: "tickCounter (addTicks n g) = tickCounter g + n" "regs (addTicks n g) = regs g"
  by (simp_all add: addTicks_def)

lemma cycle_ldi:
  assumes "quiet g" and "mmuReadByte (rPC (regs g)) g = Inr 0x2A" and "mmuReadByte (rHL (regs g)) g = Inr v"
  shows "\<exists>g'. advances g (set16 RegHL (rHL (regs g) + 1) ((regs g)\<lparr>rA := v, rPC := rPC (regs g) + 1\<rparr>)) 8 g'
     \<and> same_reads g g'"
proof -
  have h: "rHL (r\<lparr>rPC := w\<rparr>) = rHL r" "rHL (r\<lparr>rA := u\<rparr>) = rHL r" for r w u by (simp_all add: rHL_def)
  define g' where "g' = modRegs (\<lambda>r. set16 RegHL (rHL (regs g) + 1) (r\<lparr>rA := v, rPC := rPC r + 1\<rparr>)) (addTicks 8 (atPC g))"
  have "LoopCycle g = Inr (g'\<lparr>lastOpcodeName := ''LDI A,(HL)'', lastOperand := 0\<rparr>)"
    by (rule LoopCycle_Fn0 [where f = ldi_A_mHL and b = "0x2A" and t = 8])
      (use assms in \<open>simp_all add: table_entries tick_entries ldi_A_mHL_def Let_def g'_def h,
        simp_all add: modRegs_def addTicks_def h\<close>)
  with assms(1) show ?thesis by (auto simp: advances_def g'_def same_reads_def)
qed

lemma cycle_store:
  assumes "quiet g" and "mmuReadByte (rPC (regs g)) g = Inr 0x12" and "ramCell (rDE (regs g))"
  shows "\<exists>g'. advances g ((regs g)\<lparr>rPC := rPC (regs g) + 1\<rparr>) 8 g'
     \<and> (\<forall>b. mmuReadByte b g' = (if ramCell b \<and> ramPhys (rDE (regs g)) = ramPhys b then Inr (rA (regs g))
          else mmuReadByte b g))"
proof -
  have h: "rDE (r\<lparr>rPC := w\<rparr>) = rDE r" for r w by (simp add: rDE_def)
  define g' where "g' = cellSet (rDE (regs g)) (rA (regs g)) (addTicks 8 (modRegs (\<lambda>r. r\<lparr>rPC := rPC r + 1\<rparr>) (atPC g)))"
  have s: "mmuStore (rDE (regs g)) (rA (regs g)) k = Inr (cellSet (rDE (regs g)) (rA (regs g)) k)" for k
    by (rule mmu_cell(3) [OF assms(3)])
  have "LoopCycle g = Inr (g'\<lparr>lastOpcodeName := ''LD (DE),A'', lastOperand := 0\<rparr>)"
    by (rule LoopCycle_Fn0 [where f = ld_mDE_A and b = "0x12" and t = 8])
      (use assms s in \<open>simp_all add: table_entries tick_entries ld_mDE_A_def ld_dd_A_def g'_def h\<close>)
  moreover have "mmuReadByte b g' = (if ramCell b \<and> ramPhys (rDE (regs g)) = ramPhys b then Inr (rA (regs g))
      else mmuReadByte b g)" for b
    using mmu.rd_st [OF assms(3) _ _ s, of b "addTicks 8 (modRegs (\<lambda>r. r\<lparr>rPC := rPC r + 1\<rparr>) (atPC g))"]
      mmu.rd_st_other [OF assms(3) _ s, of b "addTicks 8 (modRegs (\<lambda>r. r\<lparr>rPC := rPC r + 1\<rparr>) (atPC g))"]
    by (auto simp: g'_def)
  ultimately show ?thesis using assms(1) by (auto simp: advances_def g'_def)
qed

lemma cycle_inc_DE:
  assumes "quiet g" and "mmuReadByte (rPC (regs g)) g = Inr 0x13"
  shows "\<exists>g'. advances g (set16 RegDE (rDE (regs g) + 1) ((regs g)\<lparr>rPC := rPC (regs g) + 1\<rparr>)) 8 g' \<and> same_reads g g'"
proof -
  have h: "rDE (r\<lparr>rPC := w\<rparr>) = rDE r" for r w by (simp add: rDE_def)
  define g' where "g' = modRegs (\<lambda>r. set16 RegDE (rDE (regs g) + 1) (r\<lparr>rPC := rPC r + 1\<rparr>)) (addTicks 8 (atPC g))"
  have "LoopCycle g = Inr (g'\<lparr>lastOpcodeName := ''INC DE'', lastOperand := 0\<rparr>)"
    by (rule LoopCycle_Fn0 [where f = inc_DE and b = "0x13" and t = 8])
      (use assms in \<open>simp_all add: table_entries tick_entries inc_DE_def regOp_def g'_def,
        simp_all add: modRegs_def addTicks_def inc_ss_def h\<close>)
  with assms(1) show ?thesis by (auto simp: advances_def g'_def same_reads_def)
qed

lemma cycle_dec_B:
  assumes "quiet g" and "mmuReadByte (rPC (regs g)) g = Inr 0x05"
  shows "\<exists>g'. advances g (dec_s RegB ((regs g)\<lparr>rPC := rPC (regs g) + 1\<rparr>)) 4 g' \<and> same_reads g g'"
proof -
  define g' where "g' = modRegs (\<lambda>r. dec_s RegB (r\<lparr>rPC := rPC r + 1\<rparr>)) (addTicks 4 (atPC g))"
  have "LoopCycle g = Inr (g'\<lparr>lastOpcodeName := ''DEC B'', lastOperand := 0\<rparr>)"
    by (rule LoopCycle_Fn0 [where f = dec_B and b = "0x05" and t = 4])
      (use assms in \<open>simp_all add: table_entries tick_entries dec_B_def regOp_def g'_def,
        simp_all add: modRegs_def addTicks_def\<close>)
  with assms(1) show ?thesis by (auto simp: advances_def g'_def same_reads_def)
qed

lemma cycle_jr_NZ:
  assumes "quiet g" and "mmuReadByte (rPC (regs g)) g = Inr 0x20" and "mmuReadByte (rPC (regs g) + 1) g = Inr e"
  shows "\<exists>g'. advances g ((regs g)\<lparr>rPC := if zf (regs g) then rPC (regs g) + 2 else rPC (regs g) + 2 + scast e\<rparr>)
     (if zf (regs g) then 8 else 12) g' \<and> same_reads g g'"
proof -
  define g' where "g' = modRegs (\<lambda>r. r\<lparr>rPC := if zf r then rPC r + 2 else rPC r + 2 + scast e\<rparr>)
     (addTicks (if zf (regs g) then 8 else 12) (atPC g))"
  have "LoopCycle g = Inr (g'\<lparr>lastOpcodeName := ''JR NZ,n'', lastOperand := ucast e\<rparr>)"
    by (rule LoopCycle_Fn8 [where f = jr_NZ_n and b = "0x20" and t = 8])
      (use assms in \<open>simp_all add: table_entries tick_entries jr_NZ_n_def jr_cc_e_def checkFlag_def zf_def g'_def,
        simp_all add: modRegs_def addTicks_def\<close>)
  with assms(1) show ?thesis by (auto simp: advances_def g'_def same_reads_def)
qed

section \<open>One round of the loop\<close>

definition copyCode :: "u8 list" where
  "copyCode = [0x2A, 0x12, 0x13, 0x05, 0x20, 0xFA]"  \<comment> \<open>LDI A,(HL); LD (DE),A; INC DE; DEC B; JR NZ,-6\<close>

text \<open>Bytes that no write to RAM changes: a program or a table in the ROM.\<close>

definition romBytes :: "gb \<Rightarrow> u16 \<Rightarrow> u8 list \<Rightarrow> bool" where
  "romBytes g a bs \<longleftrightarrow> (\<forall>i<length bs. \<not> ramCell (a + of_nat i) \<and> mmuReadByte (a + of_nat i) g = Inr (bs ! i))"

lemma copyCode_reads:
  assumes "romBytes g a copyCode"
  shows "mmuReadByte a g = Inr 0x2A" "mmuReadByte (a + 1) g = Inr 0x12" "mmuReadByte (a + 2) g = Inr 0x13"
    "mmuReadByte (a + 3) g = Inr 0x05" "mmuReadByte (a + 4) g = Inr 0x20" "mmuReadByte (a + 5) g = Inr 0xFA"
  using assms [unfolded romBytes_def copyCode_def, rule_format, of 0]
    assms [unfolded romBytes_def copyCode_def, rule_format, of 1]
    assms [unfolded romBytes_def copyCode_def, rule_format, of 2]
    assms [unfolded romBytes_def copyCode_def, rule_format, of 3]
    assms [unfolded romBytes_def copyCode_def, rule_format, of 4]
    assms [unfolded romBytes_def copyCode_def, rule_format, of 5]
  by (simp_all add: eval_nat_numeral)

lemma romBytes_not_cell: "romBytes g a bs \<Longrightarrow> i < length bs \<Longrightarrow> \<not> ramCell (a + of_nat i)"
  by (simp add: romBytes_def)

lemma dec_B_regs:
  "rB (dec_s RegB r) = rB r - 1" "rPC (dec_s RegB r) = rPC r" "rH (dec_s RegB r) = rH r"
  "rL (dec_s RegB r) = rL r" "rD (dec_s RegB r) = rD r" "rE (dec_s RegB r) = rE r"
  "zf (dec_s RegB r) = (rB r = 1)"
  by (simp_all add: dec_s_def Let_def flagIf_def setFlag_def removeFlag_def zf_def bit_simps)

lemma copy_round:
  assumes "quiet g" and "romBytes g (rPC (regs g)) copyCode" and "mmuReadByte (rHL (regs g)) g = Inr v"
    and "ramCell (rDE (regs g))"
  shows "\<exists>g'. cycles LoopCycle 5 g = Inr g' \<and> quiet g' \<and> rB (regs g') = rB (regs g) - 1
     \<and> rHL (regs g') = rHL (regs g) + 1 \<and> rDE (regs g') = rDE (regs g) + 1
     \<and> rPC (regs g') = (if rB (regs g) = 1 then rPC (regs g) + 6 else rPC (regs g))
     \<and> tickCounter g' = tickCounter g + (if rB (regs g) = 1 then 36 else 40)
     \<and> (\<forall>b. mmuReadByte b g' = (if ramCell b \<and> ramPhys (rDE (regs g)) = ramPhys b then Inr v else mmuReadByte b g))"
proof -
  let ?pc = "rPC (regs g)" and ?hit = "\<lambda>b. ramCell b \<and> ramPhys (rDE (regs g)) = ramPhys b"
  note code = copyCode_reads [OF assms(2)]
  have out: "\<not> ramCell (?pc + of_nat i)" if "i < 6" for i
    using romBytes_not_cell [OF assms(2), of i] that by (simp add: copyCode_def)
  obtain g1 where g1: "advances g (set16 RegHL (rHL (regs g) + 1) ((regs g)\<lparr>rA := v, rPC := ?pc + 1\<rparr>)) 8 g1" "same_reads g g1"
    using cycle_ldi [OF assms(1) code(1) assms(3)] by blast
  then have q1: "quiet g1" "rPC (regs g1) = ?pc + 1" "rDE (regs g1) = rDE (regs g)" "rA (regs g1) = v"
    "rHL (regs g1) = rHL (regs g) + 1" "rB (regs g1) = rB (regs g)"
    by (simp_all add: advances_def rDE_def rHL_def)
  obtain g2 where g2: "advances g1 ((regs g1)\<lparr>rPC := rPC (regs g1) + 1\<rparr>) 8 g2"
    "\<And>b. mmuReadByte b g2 = (if ?hit b then Inr v else mmuReadByte b g)"
    using cycle_store [OF q1(1)] code(2) assms(4) by (auto simp: q1 same_readsD [OF g1(2)])
  then have q2: "quiet g2" "rPC (regs g2) = ?pc + 2" "rDE (regs g2) = rDE (regs g)"
    "rHL (regs g2) = rHL (regs g) + 1" "rB (regs g2) = rB (regs g)"
    using q1 by (simp_all add: advances_def rDE_def rHL_def)
  have r2: "mmuReadByte (?pc + 2) g2 = Inr 0x13" "mmuReadByte (?pc + 3) g2 = Inr 0x05"
    "mmuReadByte (?pc + 4) g2 = Inr 0x20" "mmuReadByte (?pc + 5) g2 = Inr 0xFA"
    using out [of 2] out [of 3] out [of 4] out [of 5] code by (simp_all add: g2(2))
  obtain g3 where g3: "advances g2 (set16 RegDE (rDE (regs g2) + 1) ((regs g2)\<lparr>rPC := rPC (regs g2) + 1\<rparr>)) 8 g3" "same_reads g2 g3"
    using cycle_inc_DE [OF q2(1)] r2(1) q2(2) by auto
  then have q3: "quiet g3" "rPC (regs g3) = ?pc + 3" "rDE (regs g3) = rDE (regs g) + 1"
    "rHL (regs g3) = rHL (regs g) + 1" "rB (regs g3) = rB (regs g)"
    using q2 by (simp_all add: advances_def rDE_def rHL_def)
  obtain g4 where g4: "advances g3 (dec_s RegB ((regs g3)\<lparr>rPC := rPC (regs g3) + 1\<rparr>)) 4 g4" "same_reads g3 g4"
    using cycle_dec_B [OF q3(1)] r2(2) q3(2) same_readsD [OF g3(2)] by auto
  then have q4: "quiet g4" "rPC (regs g4) = ?pc + 4" "rDE (regs g4) = rDE (regs g) + 1"
    "rHL (regs g4) = rHL (regs g) + 1" "rB (regs g4) = rB (regs g) - 1" "zf (regs g4) \<longleftrightarrow> rB (regs g) = 1"
    using q3 by (simp_all add: advances_def rDE_def rHL_def dec_B_regs)
  obtain g5 where g5: "advances g4 ((regs g4)\<lparr>rPC := if zf (regs g4) then rPC (regs g4) + 2 else rPC (regs g4) + 2 + scast (0xFA :: u8)\<rparr>)
     (if zf (regs g4) then 8 else 12) g5" "same_reads g4 g5"
    using cycle_jr_NZ [OF q4(1)] r2(3,4) q4(2) same_readsD [OF g3(2)] same_readsD [OF g4(2)] by (auto simp: add.assoc)
  have j: "?pc + 6 + scast (0xFA :: u8) = ?pc" by simp
  have "cycles LoopCycle 5 g = Inr g5"
    using g1 g2 g3 g4 g5 by (simp add: advances_def eval_nat_numeral)
  moreover have "mmuReadByte b g5 = (if ?hit b then Inr v else mmuReadByte b g)" for b
    using g2(2) same_readsD [OF g3(2)] same_readsD [OF g4(2)] same_readsD [OF g5(2)] by simp
  moreover have "tickCounter g5 = tickCounter g + (if rB (regs g) = 1 then 36 else 40)"
    using g1 g2 g3 g4 g5 q4(6) by (simp add: advances_def)
  ultimately show ?thesis using g5 q4 j by (intro exI [of _ g5]) (simp add: advances_def rDE_def rHL_def)
qed

section \<open>The whole loop\<close>

lemma cycles_add: "cycles step (m + n) s = bind_res (cycles step m s) (cycles step n)"
proof (induction m arbitrary: s)
  case (Suc m)
  then show ?case by (cases "step s") simp_all
qed simp

text \<open>A block of RAM cells no two of which are the same memory.\<close>

definition ramBlock :: "u16 \<Rightarrow> nat \<Rightarrow> bool" where
  "ramBlock a n \<longleftrightarrow> (\<forall>i<n. ramCell (a + of_nat i)) \<and> inj_on (\<lambda>i. ramPhys (a + of_nat i)) {..<n}"

definition inBlock :: "u16 \<Rightarrow> nat \<Rightarrow> u16 \<Rightarrow> bool" where
  "inBlock a n b \<longleftrightarrow> ramCell b \<and> (\<exists>i<n. ramPhys (a + of_nat i) = ramPhys b)"

lemma ramBlock_Suc:
  assumes "ramBlock a (Suc n)"
  shows "ramCell a" and "ramBlock (a + 1) n" and "\<not> inBlock (a + 1) n a"
proof -
  have e: "a + 1 + of_nat i = a + of_nat (Suc i)" for i by (simp add: add.assoc)
  show "ramCell a" using assms by (auto simp: ramBlock_def dest: spec [of _ 0])
  show "ramBlock (a + 1) n"
    using assms unfolding ramBlock_def e by (auto simp: inj_on_def simp del: of_nat_Suc)
  have "inj_on (\<lambda>i. ramPhys (a + of_nat i)) {..<Suc n}" using assms by (simp add: ramBlock_def)
  then have "ramPhys (a + of_nat (Suc i)) \<noteq> ramPhys a" if "i < n" for i
    using that inj_onD [of "\<lambda>i. ramPhys (a + of_nat i)" "{..<Suc n}" "Suc i" 0] by (auto simp del: of_nat_Suc)
  then show "\<not> inBlock (a + 1) n a"
    unfolding inBlock_def e by blast
qed

text \<open>Any block inside the work RAM is one.\<close>

lemma ramBlock_wram:
  assumes "0xC000 \<le> unat a" and "unat a + n \<le> 0xE000"
  shows "ramBlock a n"
proof -
  have u: "unat (a + of_nat i) = unat a + i" if "i < n" for i
    using that assms by (simp add: unat_word_ariths unat_of_nat)
  then have "ramPhys (a + of_nat i) = a + of_nat i" if "i < n" for i
    using that assms by (simp add: ramPhys_def)
  moreover have "ramCell (a + of_nat i)" if "i < n" for i
    using u [OF that] that assms by (simp add: ramCell_def)
  moreover have "inj_on (\<lambda>i. a + of_nat i) {..<n}"
    by (rule inj_onI) (metis u lessThan_iff add_left_cancel)
  ultimately show ?thesis unfolding ramBlock_def inj_on_def by auto
qed

lemma inBlock_Suc: "inBlock a (Suc n) b \<longleftrightarrow> ramCell b \<and> ramPhys a = ramPhys b \<or> inBlock (a + 1) n b"
proof -
  have e: "a + 1 + of_nat i = a + of_nat (Suc i)" for i by (simp add: add.assoc)
  show ?thesis unfolding inBlock_def e by (auto simp: less_Suc_eq_0_disj)
qed

lemma romBytes_rec:
  "romBytes g a []"
  "romBytes g a (v # bs) \<longleftrightarrow> \<not> ramCell a \<and> mmuReadByte a g = Inr v \<and> romBytes g (a + 1) bs"
proof -
  have e: "a + 1 + of_nat i = a + of_nat (Suc i)" for i by (simp add: add.assoc)
  show "romBytes g a (v # bs) \<longleftrightarrow> \<not> ramCell a \<and> mmuReadByte a g = Inr v \<and> romBytes g (a + 1) bs"
    unfolding romBytes_def e by (auto simp: less_Suc_eq_0_disj nth_Cons split: nat.splits simp del: of_nat_Suc)
qed (simp add: romBytes_def)

lemma romBytes_Cons:
  assumes "romBytes g a (v # bs)"
  shows "mmuReadByte a g = Inr v" and "romBytes g (a + 1) bs"
  using assms by (simp_all add: romBytes_rec)

lemma romBytes_same:
  "romBytes g a bs \<Longrightarrow> (\<And>b. \<not> ramCell b \<Longrightarrow> mmuReadByte b g' = mmuReadByte b g) \<Longrightarrow> romBytes g' a bs"
  by (simp add: romBytes_def)

lemma byte_count: "2 \<le> n \<Longrightarrow> n \<le> 256 \<Longrightarrow> (of_nat n :: u8) \<noteq> 1"
proof -
  assume n: "2 \<le> n" "n \<le> 256"
  have "unat (of_nat n :: u8) = n mod 256" by (simp add: unat_of_nat)
  also have "\<dots> \<noteq> 1" using n by (cases "n = 256") auto
  finally show ?thesis by (auto simp: word_unat_eq_iff)
qed

lemma copy_loop:
  assumes "quiet g" and "romBytes g (rPC (regs g)) copyCode" and "romBytes g (rHL (regs g)) (v # bs)"
    and "ramBlock (rDE (regs g)) (Suc (length bs))" and "length bs < 256" and "rB (regs g) = of_nat (Suc (length bs))"
  shows "\<exists>g'. cycles LoopCycle (5 * Suc (length bs)) g = Inr g' \<and> quiet g' \<and> rPC (regs g') = rPC (regs g) + 6
     \<and> rB (regs g') = 0 \<and> tickCounter g' + 4 = tickCounter g + 40 * of_nat (Suc (length bs))
     \<and> (\<forall>i<Suc (length bs). mmuReadByte (rDE (regs g) + of_nat i) g' = Inr ((v # bs) ! i))
     \<and> (\<forall>b. \<not> inBlock (rDE (regs g)) (Suc (length bs)) b \<longrightarrow> mmuReadByte b g' = mmuReadByte b g)"
  using assms
proof (induction bs arbitrary: g v)
  case Nil
  from copy_round [OF Nil.prems(1,2) romBytes_Cons(1) [OF Nil.prems(3)] ramBlock_Suc(1) [OF Nil.prems(4) [simplified]]]
  obtain g' where "cycles LoopCycle 5 g = Inr g'" "quiet g'" "rB (regs g') = 0" "rPC (regs g') = rPC (regs g) + 6"
    "tickCounter g' = tickCounter g + 36" "\<And>b. mmuReadByte b g' =
       (if ramCell b \<and> ramPhys (rDE (regs g)) = ramPhys b then Inr v else mmuReadByte b g)"
    using Nil.prems(6) by auto
  with ramBlock_Suc(1) [of "rDE (regs g)" 0] Nil.prems(4) show ?case
    by (intro exI [of _ g']) (auto simp: inBlock_def)
next
  case (Cons w bs)
  let ?de = "rDE (regs g)" and ?n = "Suc (length bs)"
  have block: "ramBlock ?de (Suc ?n)" using Cons.prems(4) by simp
  have "rB (regs g) \<noteq> 1" unfolding Cons.prems(6) using Cons.prems(5) by (intro byte_count) simp_all
  with copy_round [OF Cons.prems(1,2) romBytes_Cons(1) [OF Cons.prems(3)] ramBlock_Suc(1) [OF block]]
  obtain g1 where g1: "cycles LoopCycle 5 g = Inr g1" "quiet g1" "rB (regs g1) = rB (regs g) - 1"
    "rHL (regs g1) = rHL (regs g) + 1" "rDE (regs g1) = ?de + 1" "rPC (regs g1) = rPC (regs g)"
    "tickCounter g1 = tickCounter g + 40" and rd: "\<And>b. mmuReadByte b g1 =
       (if ramCell b \<and> ramPhys ?de = ramPhys b then Inr v else mmuReadByte b g)"
    by auto
  have "rB (regs g1) = of_nat ?n" using g1(3) Cons.prems(6) by simp
  moreover have "romBytes g1 (rPC (regs g1)) copyCode" "romBytes g1 (rHL (regs g1)) (w # bs)"
    using romBytes_same [OF Cons.prems(2), of g1] romBytes_same [OF romBytes_Cons(2) [OF Cons.prems(3)], of g1]
    by (simp_all add: g1(4,6) rd)
  moreover have "ramBlock (rDE (regs g1)) ?n" using ramBlock_Suc(2) [OF block] by (simp add: g1(5))
  ultimately obtain g2 where g2: "cycles LoopCycle (5 * ?n) g1 = Inr g2" "quiet g2" "rPC (regs g2) = rPC (regs g) + 6"
    "rB (regs g2) = 0" "tickCounter g2 + 4 = tickCounter g1 + 40 * of_nat ?n"
    and new: "\<And>i. i < ?n \<Longrightarrow> mmuReadByte (?de + 1 + of_nat i) g2 = Inr ((w # bs) ! i)"
    and old: "\<And>b. \<not> inBlock (?de + 1) ?n b \<Longrightarrow> mmuReadByte b g2 = mmuReadByte b g1"
    using Cons.IH [OF g1(2), of w] Cons.prems(5) by (auto simp: g1(5,6))
  have "cycles LoopCycle (5 * Suc ?n) g = Inr g2"
    using g1(1) g2(1) cycles_add [of LoopCycle 5 "5 * ?n" g] by simp
  moreover have "mmuReadByte (?de + of_nat i) g2 = Inr ((v # w # bs) ! i)" if "i < Suc ?n" for i
  proof (cases i)
    case 0
    then show ?thesis using old [OF ramBlock_Suc(3) [OF block]] ramBlock_Suc(1) [OF block] by (simp add: rd)
  next
    case (Suc j)
    then show ?thesis using new [of j] that by (simp add: add.assoc)
  qed
  moreover have "mmuReadByte b g2 = mmuReadByte b g" if "\<not> inBlock ?de (Suc ?n) b" for b
    using that old [of b] rd [of b] by (auto simp: inBlock_Suc [of ?de])
  moreover have "tickCounter g2 + 4 = tickCounter g + 40 * of_nat (Suc ?n)"
    using g2(5) g1(7) by (simp add: algebra_simps)
  ultimately show ?case using g2 by (intro exI [of _ g2]) simp
qed

text \<open>
  \<^bold>\<open>C3.\<close> A copy loop in machine code does what it says. The program 2A 12 13 05 20 FA (LDI A,(HL); LD (DE),A;
  INC DE; DEC B; JR NZ,-6) in ROM, started with display and interrupts off (and the file for the dump of VRAM at hand), with HL at a table of 1 to 256
  bytes in ROM, DE at a block of RAM and B the length (0 for 256): after exactly five cycles per byte it has
  left the loop, the block holds the table, every address outside the block and its mirrors reads what it
  did, B is 0, and it took 40 ticks per byte less the 4 of the jump not taken.
\<close>

theorem copy_program:
  assumes "quiet g" and "romBytes g (rPC (regs g)) copyCode" and "romBytes g (rHL (regs g)) table"
    and "1 \<le> length table" and "length table \<le> 256" and "rB (regs g) = of_nat (length table)"
    and "ramBlock (rDE (regs g)) (length table)"
  shows "\<exists>g'. cycles LoopCycle (5 * length table) g = Inr g' \<and> rPC (regs g') = rPC (regs g) + 6
     \<and> rB (regs g') = 0 \<and> tickCounter g' + 4 = tickCounter g + 40 * of_nat (length table)
     \<and> (\<forall>i<length table. mmuReadByte (rDE (regs g) + of_nat i) g' = Inr (table ! i))
     \<and> (\<forall>b. \<not> inBlock (rDE (regs g)) (length table) b \<longrightarrow> mmuReadByte b g' = mmuReadByte b g)"
proof -
  obtain v bs where t: "table = v # bs" using assms(4) by (cases table) auto
  then have n: "length table = Suc (length bs)" "length bs < 256" using assms(5) by simp_all
  show ?thesis
    using copy_loop [OF assms(1,2) assms(3) [unfolded t] assms(7) [unfolded n(1)] n(2) assms(6) [unfolded n(1)]]
    unfolding n(1) unfolding t by blast
qed

definition copyMachine :: gb where
  "copyMachine = nopMachine\<lparr>crt := nopCart\<lparr>rom := Some \<lparr>bsize = 0x8000,
       bdata = (\<lambda>i. if 0x150 \<le> i \<and> i < 0x156 then copyCode ! (i - 0x150) else of_nat i)\<rparr>\<rparr>,
     regs := powerOnRegs\<lparr>rPC := 0x150, rH := 0x02, rL := 0x00, rD := 0xC0, rE := 0x10, rB := 2\<rparr>\<rparr>"

lemma copyMachine_rom:
  "unat a \<le> 0x7FFF \<Longrightarrow> mmuReadByte a copyMachine =
     Inr (if 0x150 \<le> unat a \<and> unat a < 0x156 then copyCode ! (unat a - 0x150) else of_nat (unat a))"
  by (simp add: mmuWriteByte_cart(2) copyMachine_def nopCart_def mbc_readByte_def MBCNone_ReadByte_def Let_def)

lemma copy_program_witness:
  "\<exists>g'. cycles LoopCycle 10 copyMachine = Inr g' \<and> rPC (regs g') = 0x156
     \<and> mmuReadByte 0xC010 g' = Inr 0 \<and> mmuReadByte 0xC011 g' = Inr 1"
proof -
  have r: "rPC (regs copyMachine) = 0x150" "rHL (regs copyMachine) = 0x200" "rDE (regs copyMachine) = 0xC010"
    "rB (regs copyMachine) = 2"
    by (simp_all add: copyMachine_def rHL_def rDE_def mk16_def)
  have q: "quiet copyMachine"
    by (simp add: copyMachine_def quiet_def nopMachine_def gb_static_def GPU_static_def dumpable_def)
  have code: "romBytes copyMachine (rPC (regs copyMachine)) copyCode"
    by (simp add: r romBytes_rec copyMachine_rom ramCell_def copyCode_def)
  have tab: "romBytes copyMachine (rHL (regs copyMachine)) [0, 1]"
    by (simp add: r romBytes_rec copyMachine_rom ramCell_def)
  have block: "ramBlock (rDE (regs copyMachine)) (length [0, 1 :: u8])"
    unfolding r by (rule ramBlock_wram) simp_all
  from copy_program [OF q code tab _ _ _ block] r obtain g' where
    "cycles LoopCycle 10 copyMachine = Inr g'" "rPC (regs g') = 0x156"
    "\<And>i. i < 2 \<Longrightarrow> mmuReadByte (0xC010 + of_nat i) g' = Inr ([0, 1] ! i)" by auto
  from this(1,2) this(3) [of 0] this(3) [of 1] show ?thesis by simp
qed

end
