(* ===== verification/Boot.thy ===== *)
theory Boot
  imports Machine_Properties Gpu_Properties
begin

text \<open>
  From the file to the running game: what a reset with a file that passes the checks leaves, and
  whether the machine can fault from there, by the header bytes of the file.
\<close>

section \<open>Loading keeps the shape of the header\<close>

lemma validateCart_wf:
  "header_wf (hdr c) \<Longrightarrow> header_wf (hdr (snd (validateCart e nm c)))"
  by (simp add: validateCart_def checkLogo_def Let_def case_prod_beta header_wf_def split: option.split)

lemma validateCart_rest:
  "ram (snd (validateCart e nm c)) = ram c"
  by (simp add: validateCart_def checkLogo_def Let_def case_prod_beta split: option.split)

lemma ResetGame_loaded:
  assumes "fst (validateCart e nm (crt g)) \<noteq> 0"
  shows "\<exists>g1. ResetGame e nm g = Inr g1 \<and> crt g1 = snd (loadCartridge e nm (snd (validateCart e nm (crt g))))
     \<and> gpu_inv (gpu g1) \<and> regs g1 = powerOnRegs \<and> (dumpable (gpu g) \<longrightarrow> dumpable (gpu g1))"
proof -
  obtain v c where vc: "validateCart e nm (crt g) = (v, c)" "v \<noteq> 0"
    using assms by (cases "validateCart e nm (crt g)") auto
  obtain h where "loadROM e nm (g\<lparr>crt := c\<rparr>) = Inr (0, h)" "crt h = snd (loadCartridge e nm c)" "regs h = powerOnRegs"
    "dumpable (gpu g) \<longrightarrow> dumpable (gpu h)"
    using loadROM_spec [of e nm "g\<lparr>crt := c\<rparr>"] by auto
  with vc show ?thesis by (simp add: ResetGame_def gpuReset_inv)
qed

section \<open>Games that cannot fault\<close>

text \<open>
  By their header: no controller and 32 KB of RAM, or one of the controllers whose functions are stubs
  (MBC2, MBC4 and MBC5).
\<close>

definition faultless :: "u8 list \<Rightarrow> bool" where
  "faultless bs \<longleftrightarrow> bs ! 0x147 = ROM_ONLY \<and> bs ! 0x149 = RAM_32KB
     \<or> bs ! 0x147 \<in> {MBC2, MBC2_BATTERY, MBC4, MBC4_RAM, MBC4_RAM_BATTERY, MBC5_RAM, MBC5_RAM_BATTERY,
          MBC5_RUMBLE, MBC5_RUMBLE_RAM, MBC5_RUMBLE_RAM_BATTERY}"

lemma stub_fn:
  assumes "t \<in> {MBC2, MBC2_BATTERY, MBC4, MBC4_RAM, MBC4_RAM_BATTERY, MBC5_RAM, MBC5_RAM_BATTERY,
          MBC5_RUMBLE, MBC5_RUMBLE_RAM, MBC5_RUMBLE_RAM_BATTERY}"
  shows "controllerOf t \<in> {Some FnMBC2, Some FnMBC4, Some FnMBC5}"
  using assms by (auto simp: controllerOf_def controllers_def)

lemma loaded_total:
  assumes "header_wf (hdr c)" and "files e nm = Some bs" and "length bs < 2 ^ 32" and "loadable e bs" and "faultless bs"
  shows "cart_total (snd (loadCartridge e nm c))"
proof -
  obtain c' m where c': "loadCartridge e nm c = (1, c')" "mbcSet c'"
    "mbcReadByte c' = controllerOf (bs ! 0x147)" "mbcWriteByte c' = controllerOf (bs ! 0x147)"
    "rom c' = Some m" "bsize m = length bs"
    and ram: "ramBytes (bs ! 0x149) \<noteq> Some 0 \<longrightarrow> (\<exists>m. ram c' = Some m \<and> Some (bsize m) = ramBytes (bs ! 0x149))"
    using loadCartridge_main [OF assms(1-3)] assms(4) by (auto simp del: split_paired_Ex split: if_splits)
  have "32768 \<le> length bs" using assms(4) expectedSize_large by (auto simp: loadable_def)
  with c'(5,6) have rom: "holds_bytes 0x8000 (rom c')" by (simp add: holds_bytes_def)
  show ?thesis
  proof (cases "bs ! 0x147 = ROM_ONLY")
    case True
    with assms(5) have "bs ! 0x149 = 3" by (auto simp: faultless_def)
    with ram have "holds_bytes 0x2000 (ram c')" by (auto simp: holds_bytes_def ramBytes_def)
    with True rom c' show ?thesis by (simp add: cart_total_def controllerOf_def controllers_def)
  next
    case False
    with assms(5) have "controllerOf (bs ! 0x147) \<in> {Some FnMBC2, Some FnMBC4, Some FnMBC5}"
      using stub_fn [of "bs ! 0x147"] by (auto simp: faultless_def)
    with c' show ?thesis by (auto simp: cart_total_def)
  qed
qed

text \<open>
  Two files of 32 KB, one for each property: the logo, the type \<open>t\<close> of the cartridge, a byte that makes the sum
  of the header even, and zeros (NOP) everywhere else.
\<close>

definition gameBytes :: "u8 \<Rightarrow> u8 list" where
  "gameBytes t = replicate 0x104 0 @ nintendoLogoBitmap @ replicate 0x13 0 @ [t, 0, 0, 0, 0]
     @ [if even (unat t) then 1 else 0] @ replicate 0x7EB3 0"

definition gameEnv :: "u8 \<Rightarrow> cenv" where
  "gameEnv t = blankEnv\<lparr>files := (\<lambda>_. Some (gameBytes t))\<rparr>"

lemma logo_length: "length nintendoLogoBitmap = 48"
  by (simp add: nintendoLogoBitmap_def)

lemma gameBytes_shape:
  "length (gameBytes t) = 32768" "take 0x30 (drop 0x104 (gameBytes t)) = nintendoLogoBitmap"
  "gameBytes t ! 0x147 = t" "gameBytes t ! 0x148 = 0" "gameBytes t ! 0x149 = 0"
  "even (sum_list (map unat (take 25 (drop 0x134 (gameBytes t)))) + 25)"
  by (simp_all add: gameBytes_def logo_length nth_append sum_list_replicate take_Cons')

lemma gameBytes_checks:
  "fst (validateCart (gameEnv t) nm (crt nopMachine)) = 1" "header_wf (hdr (crt nopMachine))"
  "files (gameEnv t) nm = Some (gameBytes t)" "length (gameBytes t) < 2 ^ 32"
  "supportedType t \<Longrightarrow> loadable (gameEnv t) (gameBytes t)"
proof -
  show wf: "header_wf (hdr (crt nopMachine))"
    by (simp add: nopMachine_def nopCart_def cart_static_def header_wf_static)
  show f: "files (gameEnv t) nm = Some (gameBytes t)" by (simp add: gameEnv_def)
  from wf have "length (nintendoLogo (hdr (crt nopMachine))) = 0x30" by (simp add: header_wf_def)
  from validateCart_char [OF this] show "fst (validateCart (gameEnv t) nm (crt nopMachine)) = 1"
    using gameBytes_shape(6) [of t] by (simp add: f gameBytes_shape(1,2))
  show "supportedType t \<Longrightarrow> loadable (gameEnv t) (gameBytes t)"
    by (simp add: loadable_def gameBytes_shape expectedSize_def ramBytes_def gameEnv_def blankEnv_def)
qed (simp add: gameBytes_shape)

lemma nopMachine_dumpable: "dumpable (gpu nopMachine)"
  using nopMachine_safe by (simp add: safe_def)

section \<open>Properties\<close>

text \<open>
  \<^bold>\<open>C2.\<close> From the file to the running game. Let a file pass the power-up checks and be loadable, and let its
  header name no controller with 32 KB of RAM, or MBC2, MBC4 or MBC5. Let the file for the dump of VRAM open
  whenever the emulator asks for it, which it does at every write to VRAM and does not check. Then the reset of
  the server succeeds from any state of the machine, and every number of cycles after it ends without a fault:
  whatever the other bytes of the game are, the emulator runs them for ever.
\<close>

theorem boot_never_faults:
  assumes "header_wf (hdr (crt g))" and "files e nm = Some bs" and "length bs < 2 ^ 32"
    and "fst (validateCart e nm (crt g)) \<noteq> 0" and "loadable e bs" and "faultless bs" and "dumpable (gpu g)"
  shows "\<exists>g1. ResetGame e nm g = Inr g1 \<and> rPC (regs g1) = 0x100 \<and> (\<exists>g2. cycles LoopCycle n g1 = Inr g2 \<and> safe g2)"
proof -
  obtain g1 where g1: "ResetGame e nm g = Inr g1" "crt g1 = snd (loadCartridge e nm (snd (validateCart e nm (crt g))))"
    "gpu_inv (gpu g1)" "regs g1 = powerOnRegs" "dumpable (gpu g1)"
    using ResetGame_loaded [OF assms(4)] assms(7) by blast
  have "safe g1"
    using loaded_total [OF validateCart_wf [OF assms(1)] assms(2,3,5,6)] g1(2,3,5) by (simp add: safe_def)
  from machine.loop_total [OF this] g1 show ?thesis by (auto simp: powerOnRegs_def)
qed

lemma boot_never_faults_witness:
  "\<exists>g1 g2. ResetGame (gameEnv 5) ''game.gb'' nopMachine = Inr g1 \<and> cycles LoopCycle 1000000 g1 = Inr g2"
proof -
  have l: "loadable (gameEnv 5) (gameBytes 5)"
    by (rule gameBytes_checks(5)) (simp add: supportedType_def controllerOf_def controllers_def)
  have "faultless (gameBytes 5)" by (simp add: faultless_def gameBytes_shape)
  from boot_never_faults [OF gameBytes_checks(2) gameBytes_checks(3,4) _ l this nopMachine_dumpable, of "''game.gb''" 1000000]
    gameBytes_checks(1) [of 5 "''game.gb''"]
  show ?thesis by auto
qed

text \<open>
  Plain games can crash the emulator. After a reset with a file without controller and RAM (types and
  sizes 0, the ordinary 32 KB game), started with no RAM allocated, the bus reads the file below 8000h, and
  a read or write of A000h..BFFFh goes through the NULL pointer the RAM was left at; these are the only
  addresses where the bus faults, as long as the file for the dump of VRAM opens.
\<close>

theorem plain_game_faults:
  assumes "header_wf (hdr (crt g))" and "files e nm = Some bs" and "length bs < 2 ^ 32"
    and "fst (validateCart e nm (crt g)) \<noteq> 0" and "loadable e bs"
    and "bs ! 0x147 = ROM_ONLY" and "bs ! 0x149 = RAM_NONE" and "ram (crt g) = None"
    and "dumpable (gpu g)"
  shows "\<exists>g1. ResetGame e nm g = Inr g1
     \<and> (unat a < 0x8000 \<longrightarrow> mmuReadByte a g1 = Inr (bs ! unat a))
     \<and> ((\<exists>f. mmuReadByte a g1 = Inl f) \<longleftrightarrow> 0xA000 \<le> unat a \<and> unat a < 0xC000)
     \<and> ((\<exists>f. mmuWriteByte a v g1 = Inl f) \<longleftrightarrow> 0xA000 \<le> unat a \<and> unat a < 0xC000)
     \<and> (0xA000 \<le> unat a \<and> unat a < 0xC000 \<longrightarrow> mmuReadByte a g1 = Inl NullPointer \<and> mmuWriteByte a v g1 = Inl NullPointer)"
proof -
  obtain g1 where g1: "ResetGame e nm g = Inr g1" "crt g1 = snd (loadCartridge e nm (snd (validateCart e nm (crt g))))"
    "dumpable (gpu g1)"
    using ResetGame_loaded [OF assms(4)] assms(9) by blast
  obtain m where c: "mbcSet (crt g1)"
    "mbcReadByte (crt g1) = controllerOf (bs ! 0x147)" "mbcWriteByte (crt g1) = controllerOf (bs ! 0x147)"
    "rom (crt g1) = Some m" "bsize m = length bs" "\<forall>i<length bs. bdata m i = bs ! i"
    "ram (crt g1) = ram (snd (validateCart e nm (crt g)))"
    using loadCartridge_main [OF validateCart_wf [OF assms(1), of e nm] assms(2,3)] assms(5,7)
    by (auto simp: g1(2) ramBytes_def simp del: split_paired_Ex)
  have len: "32768 \<le> length bs" using assms(5) expectedSize_large by (auto simp: loadable_def)
  have fn: "mbcReadByte (crt g1) = Some FnMBCNone" "mbcWriteByte (crt g1) = Some FnMBCNone" "ram (crt g1) = None"
    using c(2,3,7) assms(6,8) by (simp_all add: controllerOf_def controllers_def validateCart_rest)
  have low: "mmuReadByte a g1 = Inr (bs ! unat a)" "mmuWriteByte a v g1 = Inr (1, g1)" if "unat a < 0x8000"
    using that c(1,4-6) len fn
    by (simp_all add: mmuWriteByte_cart mbc_readByte_def mbc_writeByte_def MBCNone_ReadByte_def MBCNone_WriteByte_def
        Let_def u16_cmp)
  have null: "mmuReadByte a g1 = Inl NullPointer" "mmuWriteByte a v g1 = Inl NullPointer"
    if "0xA000 \<le> unat a" "unat a < 0xC000"
    using that c(1) fn
    by (simp_all add: mmuWriteByte_cart mbc_readByte_def mbc_writeByte_def MBCNone_ReadByte_def MBCNone_WriteByte_def
        Let_def u16_cmp buf_set_def)
  show ?thesis
  proof (cases "unat a < 0x8000 \<or> 0xA000 \<le> unat a \<and> unat a < 0xC000")
    case True
    with g1(1) low null show ?thesis by auto
  next
    case False
    then have "0x8000 \<le> unat a \<and> unat a < 0xA000 \<or> 0xC000 \<le> unat a" by linarith
    with mmu_no_fault(1) [OF this, of g1] mmu_no_fault(2) [OF this, of v g1] g1(1,3) False dumpableD show ?thesis by auto
  qed
qed

lemma plain_game_faults_witness:
  "\<exists>g1. ResetGame (gameEnv 0) ''game.gb'' (nopMachine\<lparr>crt := (crt nopMachine)\<lparr>ram := None\<rparr>\<rparr>) = Inr g1
     \<and> mmuReadByte 0xA000 g1 = Inl NullPointer \<and> mmuReadByte 0x147 g1 = Inr 0"
proof -
  let ?g = "nopMachine\<lparr>crt := (crt nopMachine)\<lparr>ram := None\<rparr>\<rparr>"
  have l: "loadable (gameEnv 0) (gameBytes 0)"
    by (rule gameBytes_checks(5)) (simp add: supportedType_def controllerOf_def controllers_def)
  have wf: "header_wf (hdr (crt ?g))" using gameBytes_checks(2) by simp
  then have "length (nintendoLogo (hdr (crt ?g))) = 0x30" by (simp add: header_wf_def)
  from validateCart_char [OF this, of "gameEnv 0" "''game.gb''"]
  have "fst (validateCart (gameEnv 0) ''game.gb'' (crt ?g)) = 1"
    using gameBytes_shape(6) [of 0] by (simp add: gameBytes_checks(3) gameBytes_shape(1,2))
  then have v: "fst (validateCart (gameEnv 0) ''game.gb'' (crt ?g)) \<noteq> 0" by simp
  note p = plain_game_faults [OF wf gameBytes_checks(3,4) v l]
  have "gameBytes 0 ! 0x147 = ROM_ONLY" "gameBytes 0 ! 0x149 = RAM_NONE" "ram (crt ?g) = None" "dumpable (gpu ?g)"
    using nopMachine_dumpable by (simp_all add: gameBytes_shape)
  from p [OF this, of "0xA000" 0] p [OF this, of "0x147" 0] show ?thesis
    by (auto simp: gameBytes_shape)
qed

end
