(* ===== verification/Cpu_Tests.thy ===== *)
theory Cpu_Tests
  imports Machine_Properties
begin

text \<open>
  The unit tests of \<^verbatim>\<open>src/tests/cpu_tests.c\<close>, run on the model. The log lines of a failing check
  and the framework that calls the tests and counts results are theories \<open>Test_Suite\<close> and \<open>Test_Main\<close>.
\<close>

section \<open>The tests\<close>

text \<open>A failed check does \<open>success |= false\<close>.\<close>

definition check :: "bool \<Rightarrow> bool \<Rightarrow> bool" where
  "check ok success = (if \<not> ok then success \<or> False else success)"

fun memoryChecks :: "(u16 \<times> u8) list \<Rightarrow> bool \<Rightarrow> gb \<Rightarrow> bool res" where
  "memoryChecks [] success g = Inr success"
| "memoryChecks ((a, v) # rest) success g =
     bind_res (mmuReadByte a g) (\<lambda>b. memoryChecks rest (check (b = v) success) g)"

definition resetChecks :: "gb \<Rightarrow> bool res" where
  "resetChecks g =
    (let success = True;
         success = check (rAF (regs g) = 0x01B0) success;
         success = check (rBC (regs g) = 0x0013) success;
         success = check (rDE (regs g) = 0x00D8) success;
         success = check (rHL (regs g) = 0x014D) success;
         success = check (rSP (regs g) = 0xFFFE) success;
         success = check (rPC (regs g) = 0x0100) success
     in memoryChecks (zip resetAddresses resetValues) success g)"

definition test_cpuReset :: "gb \<Rightarrow> (bool \<times> gb) res" where
  "test_cpuReset g = bind_res (cpuReset g) (\<lambda>g. bind_res (resetChecks g) (\<lambda>b. Inr (b, g)))"

definition test_ld_A_n :: "gb \<Rightarrow> (bool \<times> gb) res" where
  "test_ld_A_n g =
    (let testOpcode = baseOpcodeTable ! 0x3E in
     bind_res (ExecuteOpcode testOpcode 73 g) (\<lambda>g.
       if rA (regs g) \<noteq> 73 then Inr (False, g) else Inr (True, g)))"

section \<open>Lemmas\<close>

lemma check_id: "check ok success = success"
  by (simp add: check_def)

lemma io_read: "0xFF00 \<le> unat a \<Longrightarrow> unat a < 0xFF80 \<Longrightarrow> \<exists>b. mmuReadByte a g = Inr b"
  by (simp add: mmuWriteByte_io(2))

lemma memoryChecks_id:
  "list_all (\<lambda>(a, v). 0xFF00 \<le> unat a \<and> unat a < 0xFF80) l \<Longrightarrow> memoryChecks l success g = Inr success"
proof (induction l)
  case (Cons p l)
  then show ?case using io_read [of "fst p" g] by (cases p) (auto simp: check_id)
qed simp

lemma resetChecks_true: "resetChecks g = Inr True"
  by (simp add: resetChecks_def check_id memoryChecks_id [OF reset_addresses_io])

definition readsBack :: "gb \<Rightarrow> u16 \<Rightarrow> u8 \<Rightarrow> bool" where
  "readsBack g a v \<longleftrightarrow> mmuReadByte a g = Inr v"

lemma reset_readsBack:
  assumes "gpu g = fold (\<lambda>(a, v) p. if 0xFF40 \<le> a \<and> a \<le> 0xFF4B then gpuWriteRegister a v p else p)
      (zip resetAddresses resetValues) p"
  shows "list_all (\<lambda>(a, v). readsBack g a v \<longleftrightarrow> (v = 0 \<or> a \<in> {0xFF40, 0xFF48, 0xFF49})) (zip resetAddresses resetValues)"
proof -
  have io: "readsBack g a v \<longleftrightarrow> (if 0xFF40 \<le> a \<and> a \<le> 0xFF4B then gpuReadRegister a (gpu g) = v else v = 0)"
    if "0xFF00 \<le> unat a" "unat a < 0xFF80" "a \<noteq> 0xFF0F" for a v
    using mmuWriteByte_io(2) [OF that(1,2), of g] that(3) by (auto simp: readsBack_def)
  show ?thesis
    by (simp add: resetAddresses_def resetValues_def io)
      (simp add: assms resetAddresses_def resetValues_def gpuWriteRegister_def gpuReadRegister_def Let_def)
qed

section \<open>Properties\<close>

text \<open>
  What the unit tests show. \<open>test_ld_A_n\<close> passes because the instruction at 3Eh loads 73 into A and
  nothing else. \<open>test_cpuReset\<close> passes on every machine, and its checks alone answer true for any registers and
  any memory, since \<open>success |= false\<close> never clears the flag. The memory checks do fail: after the
  reset an address of the table reads its value back exactly when the value is 0 or the address is one of FF40h,
  FF48h and FF49h, because the other ports read as 0 and FF47h has no register.
\<close>

theorem unit_tests_outcome:
  "(\<exists>g'. test_cpuReset g = Inr (True, g') \<and> regs g' = powerOnRegs
      \<and> list_all (\<lambda>(a, v). readsBack g' a v \<longleftrightarrow> (v = 0 \<or> a \<in> {0xFF40, 0xFF48, 0xFF49}))
          (zip resetAddresses resetValues))
   \<and> resetChecks h = Inr True
   \<and> test_ld_A_n h = Inr (True, h\<lparr>regs := (regs h)\<lparr>rA := 73\<rparr>\<rparr>)"
proof (intro conjI)
  obtain g' where g': "cpuReset g = Inr g'" "regs g' = powerOnRegs"
    "gpu g' = fold (\<lambda>(a, v) p. if 0xFF40 \<le> a \<and> a \<le> 0xFF4B then gpuWriteRegister a v p else p)
         (zip resetAddresses resetValues) (gpu g)"
    using cpuReset_spec [of g] by blast
  then have "test_cpuReset g = Inr (True, g')"
    by (simp add: test_cpuReset_def resetChecks_true)
  with g' reset_readsBack [OF g'(3)]
  show "\<exists>g'. test_cpuReset g = Inr (True, g') \<and> regs g' = powerOnRegs
      \<and> list_all (\<lambda>(a, v). readsBack g' a v \<longleftrightarrow> (v = 0 \<or> a \<in> {0xFF40, 0xFF48, 0xFF49}))
          (zip resetAddresses resetValues)" by blast
  have "baseOpcodeTable ! 0x3E = \<lparr>asmName = ''LD A,n'', operandType = 1, opFunction = Fn8 ld_A_n\<rparr>"
    by (simp add: baseOpcodeTable_def nth_append baseRow3_def)
  then show "test_ld_A_n h = Inr (True, h\<lparr>regs := (regs h)\<lparr>rA := 73\<rparr>\<rparr>)"
    by (simp add: test_ld_A_n_def ExecuteOpcode_def ld_A_n_def regOp_def ld_r_s_def modRegs_def)
qed (rule resetChecks_true)

end
