(* ===== verification/Clib.thy ===== *)
theory Clib
  imports GB_Prelude
begin

text \<open>
  The part of the C library that the logger, the test framework and the server use: formatted
  printing, the clock, the heap as a count of live blocks, standard output and files.

  \<^item> Strings are character lists without the terminating NUL. \<open>malloc\<close> succeeds, and lengths
    stay below 2 to the 31.
  \<^item> \<open>vformat\<close> covers the conversions the program uses: \<^verbatim>\<open>%s %d %ld %u %lu %x %X %0X %02X %04X\<close>.
    An argument of another kind, or a missing one, is undefined in C: \<open>None\<close>.
  \<^item> The readings of the clock are a parameter. \<open>localtime\<close> may fail.
\<close>

section \<open>Numbers\<close>

definition digitChar :: "nat \<Rightarrow> char" where
  "digitChar d = char_of (if d < 10 then 48 + d else 55 + d)"

definition digitLower :: "nat \<Rightarrow> char" where
  "digitLower d = char_of (if d < 10 then 48 + d else 87 + d)"

fun digits :: "(nat \<Rightarrow> char) \<Rightarrow> nat \<Rightarrow> nat \<Rightarrow> string" where
  "digits c b n = (if n < b \<or> b < 2 then [c n] else digits c b (n div b) @ [c (n mod b)])"

declare digits.simps [simp del]

definition padTo :: "nat \<Rightarrow> string \<Rightarrow> string" where
  "padTo w s = replicate (w - length s) CHR ''0'' @ s"

definition decU :: "nat \<Rightarrow> string" where
  "decU n = digits digitChar 10 n"

definition decI :: "int \<Rightarrow> string" where
  "decI i = (if i < 0 then CHR ''-'' # decU (nat (- i)) else decU (nat i))"

definition hexU :: "nat \<Rightarrow> string" where
  "hexU n = digits digitChar 16 n"

definition hexL :: "nat \<Rightarrow> string" where
  "hexL n = digits digitLower 16 n"

lemma digits_length: "2 \<le> b \<Longrightarrow> n < b ^ k \<Longrightarrow> 0 < k \<Longrightarrow> length (digits c b n) \<le> k"
proof (induction c b n arbitrary: k rule: digits.induct)
  case (1 c b n)
  show ?case
  proof (cases "n < b")
    case False
    have "k \<noteq> 1"
      using False 1 by auto
    with 1(4) obtain k' where k: "k = Suc k'" "0 < k'"
      by (cases k) auto
    with 1 False have "length (digits c b (n div b)) \<le> k'"
      by (intro 1) (auto simp: less_mult_imp_div_less mult.commute)
    with 1 False k show ?thesis
      by (subst digits.simps) simp
  qed (use 1 in \<open>subst digits.simps, simp\<close>)
qed

lemma digits_pos: "0 < length (digits c b n)"
  by (subst digits.simps) simp

lemma digits_length_exact:
  "2 \<le> b \<Longrightarrow> b ^ k \<le> n \<Longrightarrow> n < b ^ Suc k \<Longrightarrow> length (digits c b n) = Suc k"
proof (induction k arbitrary: n)
  case 0
  then show ?case by (subst digits.simps) simp
next
  case (Suc k)
  then have "b \<le> n"
    by (meson le_trans power_increasing [of 1 "Suc k" b] power_one_right le_add1 one_le_numeral
      order.trans Suc_leI zero_less_Suc power_one_right self_le_power)
  moreover have "length (digits c b (n div b)) = Suc k"
  proof (rule Suc.IH)
    show "b ^ k \<le> n div b"
      using Suc.prems by (simp add: less_eq_div_iff_mult_less_eq mult.commute)
    show "n div b < b ^ Suc k"
      using Suc.prems by (simp add: less_mult_imp_div_less mult.commute)
  qed (use Suc.prems in simp)
  ultimately show ?case
    using Suc.prems(1) by (subst digits.simps) simp
qed

lemma padTo_length [simp]: "length s \<le> w \<Longrightarrow> length (padTo w s) = w"
  by (simp add: padTo_def)

section \<open>Formatted printing\<close>

datatype vaArg = VInt int | VUInt nat | VStr string

fun convStr :: "vaArg \<Rightarrow> string option" where
  "convStr (VStr s) = Some s"
| "convStr _ = None"

fun convInt :: "vaArg \<Rightarrow> string option" where
  "convInt (VInt i) = Some (decI i)"
| "convInt _ = None"

fun convNat :: "(nat \<Rightarrow> string) \<Rightarrow> vaArg \<Rightarrow> string option" where
  "convNat f (VUInt n) = Some (f n)"
| "convNat _ _ = None"

text \<open>The conversion that starts after a percent sign, and its length.\<close>

definition directive :: "string \<Rightarrow> ((vaArg \<Rightarrow> string option) \<times> nat) option" where
  "directive r =
    (if take 1 r = ''s'' then Some (convStr, 1)
     else if take 1 r = ''d'' then Some (convInt, 1)
     else if take 2 r = ''ld'' then Some (convInt, 2)
     else if take 1 r = ''u'' then Some (convNat decU, 1)
     else if take 2 r = ''lu'' then Some (convNat decU, 2)
     else if take 1 r = ''x'' then Some (convNat hexL, 1)
     else if take 1 r = ''X'' then Some (convNat hexU, 1)
     else if take 2 r = ''0X'' then Some (convNat hexU, 2)
     else if take 3 r = ''02X'' then Some (convNat (\<lambda>n. padTo 2 (hexU n)), 3)
     else if take 3 r = ''04X'' then Some (convNat (\<lambda>n. padTo 4 (hexU n)), 3)
     else None)"

function vformat :: "string \<Rightarrow> vaArg list \<Rightarrow> string option" where
  "vformat [] args = Some []"
| "vformat (c # r) args =
    (if c \<noteq> CHR ''%'' then map_option (\<lambda>s. c # s) (vformat r args)
     else case directive r of None \<Rightarrow> None
       | Some (conv, n) \<Rightarrow> (case args of [] \<Rightarrow> None
          | a # args \<Rightarrow> (case conv a of None \<Rightarrow> None
              | Some t \<Rightarrow> map_option (\<lambda>s. t @ s) (vformat (drop n r) args))))"
  by pat_completeness auto
termination
  by (relation "measure (\<lambda>(f, _). length f)") auto

lemma vformat_plain: "CHR ''%'' \<notin> set s \<Longrightarrow> vformat (s @ f) args = map_option (\<lambda>r. s @ r) (vformat f args)"
  by (induction s) (cases "vformat f args", auto)+

text \<open>\<open>snprintf\<close> returns the length of the whole text and stores what fits.\<close>

definition snprintf :: "nat \<Rightarrow> string \<Rightarrow> nat \<times> string" where
  "snprintf n s = (length s, take (n - 1) s)"

lemma snprintf_fits [simp]: "length s < n \<Longrightarrow> snprintf n s = (length s, s)"
  by (simp add: snprintf_def)

section \<open>The clock\<close>

record tm =
  tm_year :: int
  tm_mon :: nat
  tm_mday :: nat
  tm_hour :: nat
  tm_min :: nat
  tm_sec :: nat

record clock =
  now :: nat                 \<comment> \<open>\<open>time(NULL)\<close>\<close>
  localtime :: "tm option"   \<comment> \<open>\<open>localtime\<close> of it\<close>
  tv_usec :: nat             \<comment> \<open>\<open>gettimeofday\<close>\<close>

text \<open>\<open>strftime\<close> with the format \<^verbatim>\<open>%Y-%m-%d %H:%M:%S\<close>; \<open>None\<close> stands for a result of 0.\<close>

definition dateText :: "tm \<Rightarrow> string" where
  "dateText t = decI (tm_year t + 1900) @ ''-'' @ padTo 2 (decU (tm_mon t + 1)) @ ''-''
     @ padTo 2 (decU (tm_mday t)) @ '' '' @ padTo 2 (decU (tm_hour t)) @ '':''
     @ padTo 2 (decU (tm_min t)) @ '':'' @ padTo 2 (decU (tm_sec t))"

definition strftime :: "nat \<Rightarrow> tm \<Rightarrow> string option" where
  "strftime n t = (if length (dateText t) < n then Some (dateText t) else None)"

section \<open>Heap, output and files\<close>

record cstate =
  blocks :: nat                          \<comment> \<open>live heap blocks\<close>
  out :: string                          \<comment> \<open>standard output\<close>
  files :: "string \<Rightarrow> string option"      \<comment> \<open>files and what has been written to them\<close>

definition malloc :: "'a cstate_scheme \<Rightarrow> 'a cstate_scheme" where
  "malloc st = st\<lparr>blocks := blocks st + 1\<rparr>"

definition free :: "'a cstate_scheme \<Rightarrow> 'a cstate_scheme" where
  "free st = st\<lparr>blocks := blocks st - 1\<rparr>"

lemma heap_simps [simp]:
  "blocks (malloc st) = blocks st + 1" "out (malloc st) = out st" "files (malloc st) = files st"
  "blocks (free st) = blocks st - 1" "out (free st) = out st" "files (free st) = files st"
  "free (malloc st) = st"
  by (simp_all add: malloc_def free_def)

end
