(* ===== verification/Logger.thy ===== *)
theory Logger
  imports Clib
begin

text \<open>
  The time stamps and the formatting helper of \<^verbatim>\<open>src/utils.c\<close>, and the logger of
  \<^verbatim>\<open>src/logger.c\<close>: the level filter, the layout of a line, the log file and its life cycle.

  \<^item> An enumeration is an \<open>unsigned int\<close> in C, so a level is a \<open>u32\<close> and may lie outside the
    enumeration.
  \<^item> \<open>logFile\<close> and \<open>logFilePath\<close> are pointers: \<open>Null\<close> until \<open>InitLogFiles\<close>, \<open>Freed\<close> once
    \<open>CleanupLogFiles\<close> has closed and freed what they point to. The stream is named by the path it
    was opened for.
  \<^item> \<open>mkdir\<close> and \<open>fopen\<close> answer as the operating system decides: a parameter. What is written to a
    stream counts as part of the file at once. Messages on standard error are not modelled.
\<close>

section \<open>Time stamps\<close>

definition GetMilliseconds :: "clock \<Rightarrow> nat" where
  "GetMilliseconds clk = tv_usec clk div 1000"

definition GetCurrentUnixTimeAsString :: "clock \<Rightarrow> 'a cstate_scheme \<Rightarrow> string \<times> 'a cstate_scheme" where
  "GetCurrentUnixTimeAsString clk st = (decU (now clk), malloc st)"

text \<open>\<^verbatim>\<open>%.3f\<close> of the number of milliseconds divided by 1000: exact for what a clock can return,
  below one second.\<close>

definition fmtMillis :: "nat \<Rightarrow> string" where
  "fmtMillis ms = decU (ms div 1000) @ ''.'' @ padTo 3 (decU (ms mod 1000))"

definition GetCurrentTimestamp ::
    "clock \<Rightarrow> 'a cstate_scheme \<Rightarrow> ((nat \<times> string ptr) \<times> 'a cstate_scheme) res" where
  "GetCurrentTimestamp clk st =
    (case localtime clk of
       None \<Rightarrow> Inl NullPointer
     | Some timeStr \<Rightarrow>
       (case strftime 20 timeStr of
          None \<Rightarrow> Inr ((0, Null), st)
        | Some timeBuffer \<Rightarrow>
          (let timeStrBytes = length timeBuffer;
               (millisSize, millisBuf) = snprintf 6 (fmtMillis (GetMilliseconds clk))
           in if millisSize \<noteq> 5 then Inr ((0, Null), st)
              else
                (let st = malloc st;
                     (millisStrBytes, outTimestamp) = snprintf (timeStrBytes + 5) (timeBuffer @ drop 1 millisBuf)
                 in if millisStrBytes \<noteq> millisSize + timeStrBytes - 1 then Inr ((0, Null), free st)
                    else Inr ((millisStrBytes, Ptr outTimestamp), st)))))"

text \<open>The second \<open>vsnprintf\<close> writes into a block of the length the first one computed. An empty
  text leaves \<open>*message\<close> as the caller set it, here NULL.\<close>

definition FormatArgString ::
    "string \<Rightarrow> vaArg list \<Rightarrow> 'a cstate_scheme \<Rightarrow> ((nat \<times> string ptr) \<times> 'a cstate_scheme) res" where
  "FormatArgString fmt arglist st =
    (case vformat fmt arglist of
       None \<Rightarrow> Inl BadFormat
     | Some s \<Rightarrow>
       (let len = fst (snprintf 0 s)
        in if len > 0 then
             (let st = malloc st; (len, message) = snprintf (len + 1) s
              in Inr ((len, Ptr message), st))
           else Inr ((len, Null), st)))"

section \<open>Levels\<close>

definition eTestFail :: u32 where [simp]: "eTestFail = 0"
definition eTestPass :: u32 where [simp]: "eTestPass = 1"
definition eTestInfo :: u32 where [simp]: "eTestInfo = 2"
definition eError :: u32 where [simp]: "eError = 3"
definition eWarning :: u32 where [simp]: "eWarning = 4"
definition eDebug :: u32 where [simp]: "eDebug = 5"

definition logLevelStrings :: "string list" where
  "logLevelStrings = [''TEST_FAIL'', ''TEST_PASS'', ''TEST_INFO'', ''ERROR'', ''WARN'', ''DEBUG'']"

definition LogLevelToStr :: "u32 \<Rightarrow> string" where
  "LogLevelToStr logLevel =
    (if logLevel = eTestInfo \<or> logLevel = eTestFail \<or> logLevel = eTestPass \<or> logLevel = eError
        \<or> logLevel = eWarning \<or> logLevel = eDebug
     then logLevelStrings ! unat logLevel else '''')"

record logger = cstate +
  logFile :: "string ptr"
  logFilePath :: "string ptr"
  currentLogLevel :: u32

definition logger_static :: "(string \<Rightarrow> string option) \<Rightarrow> logger" where
  "logger_static fs = \<lparr>blocks = 0, out = '''', files = fs, logFile = Null, logFilePath = Null,
     currentLogLevel = eError\<rparr>"

definition SetLogLevel :: "u32 \<Rightarrow> logger \<Rightarrow> bool \<times> logger" where
  "SetLogLevel level st =
    (if level \<ge> eTestFail \<and> level \<le> eDebug then (True, st\<lparr>currentLogLevel := level\<rparr>)
     else (False, st))"

section \<open>A line\<close>

definition newline :: string where
  "newline = [char_of (10 :: nat)]"

definition logLineChars :: string where
  "logLineChars = ''[] : '' @ newline"

definition FormatLogMessage ::
    "u32 \<Rightarrow> string ptr \<Rightarrow> clock \<Rightarrow> logger \<Rightarrow> ((nat \<times> string ptr) \<times> logger) res" where
  "FormatLogMessage logLevel message clk st =
    bind_res (GetCurrentTimestamp clk st) (\<lambda>((timestampBytes, timestampBuffer), st).
      if timestampBytes = 0 then Inr ((0, Null), st)
      else
        let logLevelStr = LogLevelToStr logLevel in
        bind_res (deref message) (\<lambda>msg.
          let logBufferSize = timestampBytes + length msg + length logLevelStr + length logLineChars + 1;
              st = malloc st in
          bind_res (deref timestampBuffer) (\<lambda>ts.
            let (logMessageSize, text) = snprintf logBufferSize
                  (''['' @ ts @ ''] '' @ logLevelStr @ '': '' @ msg @ newline)
            in if logMessageSize \<noteq> logBufferSize - 1 then Inr ((0, Freed), free (free st))
               else Inr ((logMessageSize, Ptr text), free st))))"

definition fprintf_log :: "string \<Rightarrow> string \<Rightarrow> logger \<Rightarrow> logger" where
  "fprintf_log path s st =
    st\<lparr>files := (files st)(path := Some (case files st path of None \<Rightarrow> s | Some t \<Rightarrow> t @ s))\<rparr>"

definition Log :: "u32 \<Rightarrow> string \<Rightarrow> vaArg list \<Rightarrow> clock \<Rightarrow> logger \<Rightarrow> logger res" where
  "Log logLevel message args clk st =
    (if logLevel > currentLogLevel st then Inr st
     else
       bind_res (FormatArgString message args st) (\<lambda>((len, fmtMessage), st).
       bind_res (FormatLogMessage logLevel fmtMessage clk st) (\<lambda>((formattedMessageSize, formattedLogMessage), st).
         if formattedMessageSize \<noteq> 0 then
           bind_res (deref formattedLogMessage) (\<lambda>s.
             let st = st\<lparr>out := out st @ s\<rparr>
             in if logFile st \<noteq> Null then
                  bind_res (deref (logFile st)) (\<lambda>path. Inr (fprintf_log path s st))
                else Inr st)
         else Inr st)))"

section \<open>The log file\<close>

record os =
  mkdirRet :: "string \<Rightarrow> int \<times> int"   \<comment> \<open>the result and \<open>errno\<close>\<close>
  fopenOk :: "string \<Rightarrow> bool"

definition EEXIST :: int where [simp]: "EEXIST = 17"

definition defaultLogfileDirectory :: string where "defaultLogfileDirectory = ''logs/''"
definition defaultLogfileName :: string where "defaultLogfileName = ''gamebloat_log''"
definition defaultLogfileExtension :: string where "defaultLogfileExtension = ''.txt''"

definition access :: "string \<Rightarrow> 'a cstate_scheme \<Rightarrow> int" where
  "access path st = (if files st path = None then -1 else 0)"

definition remove_file :: "string \<Rightarrow> 'a cstate_scheme \<Rightarrow> 'a cstate_scheme" where
  "remove_file path st = st\<lparr>files := (files st)(path := None)\<rparr>"

definition CreateLogfile :: "string \<Rightarrow> string \<Rightarrow> clock \<Rightarrow> logger \<Rightarrow> string \<times> logger" where
  "CreateLogfile newLogFileName dirPath clk st =
    (let (timestamp, st) = GetCurrentUnixTimeAsString clk st;
         logfileNameLength = length dirPath + length newLogFileName + length timestamp
           + length defaultLogfileExtension + 1;
         st = malloc st;
         (len, strPtr) = snprintf (logfileNameLength + 1)
           (dirPath @ newLogFileName @ ''_'' @ timestamp @ defaultLogfileExtension);
         st = (if access strPtr st \<noteq> 0 then remove_file strPtr st else st)
     in (strPtr, st))"

definition InitLogFiles :: "os \<Rightarrow> string option \<Rightarrow> clock \<Rightarrow> logger \<Rightarrow> logger" where
  "InitLogFiles e inFilePath clk st =
    (let (mkdirFailed, errno) =
       (case inFilePath of Some p \<Rightarrow> mkdirRet e p | None \<Rightarrow> mkdirRet e ''logs'')
     in if mkdirFailed \<noteq> 0 \<and> errno \<noteq> EEXIST then st
        else
          (let (path, st) =
             (case inFilePath of None \<Rightarrow> CreateLogfile defaultLogfileName defaultLogfileDirectory clk st
              | Some p \<Rightarrow> CreateLogfile defaultLogfileName p clk st);
               st = st\<lparr>logFilePath := Ptr path\<rparr>
           in if fopenOk e path then st\<lparr>logFile := Ptr path, files := (files st)(path := Some '''')\<rparr>
              else st\<lparr>logFile := Null\<rparr>))"

text \<open>\<open>free(NULL)\<close> does nothing, \<open>fclose(NULL)\<close> is undefined.\<close>

definition CleanupLogFiles :: "logger \<Rightarrow> logger res" where
  "CleanupLogFiles st =
    bind_res (deref (logFile st)) (\<lambda>path.
      let st = st\<lparr>logFile := Freed\<rparr>
      in case logFilePath st of Null \<Rightarrow> Inr st | Freed \<Rightarrow> Inl UseAfterFree
         | Ptr _ \<Rightarrow> Inr (free (st\<lparr>logFilePath := Freed\<rparr>)))"

section \<open>Calls from the program\<close>

text \<open>The global logger and the readings of the clock to come: every call of \<open>Log\<close> takes the next one.\<close>

record logEnv =
  lg :: logger
  clks :: "nat \<Rightarrow> clock"

definition LogW :: "u32 \<Rightarrow> string \<Rightarrow> vaArg list \<Rightarrow> 'a logEnv_scheme \<Rightarrow> 'a logEnv_scheme res" where
  "LogW level fmt args w =
    bind_res (Log level fmt args (clks w 0) (lg w)) (\<lambda>l. Inr (w\<lparr>lg := l, clks := (\<lambda>i. clks w (Suc i))\<rparr>))"

end
