(* ===== verification/Logger_Properties.thy ===== *)
theory Logger_Properties
  imports Logger
begin

text \<open>
  What the logger promises: the exact line it appends, when it faults, and what a log file holds
  after a session.
\<close>

section \<open>Time stamps\<close>

text \<open>A broken-down time of the years 1000 to 9999 with the ranges that C gives its fields, and the
  microseconds of a second.\<close>

definition clockOk :: "clock \<Rightarrow> bool" where
  "clockOk clk \<longleftrightarrow> tv_usec clk < 1000000 \<and>
     (case localtime clk of None \<Rightarrow> False
      | Some t \<Rightarrow> -900 \<le> tm_year t \<and> tm_year t \<le> 8099 \<and> tm_mon t < 12 \<and> tm_mday t \<le> 31
          \<and> tm_hour t < 24 \<and> tm_min t < 60 \<and> tm_sec t \<le> 60)"

definition stamp :: "clock \<Rightarrow> string" where
  "stamp clk = (case localtime clk of None \<Rightarrow> '''' | Some t \<Rightarrow> dateText t)
     @ ''.'' @ padTo 3 (decU (tv_usec clk div 1000))"

lemma decU_2: "n < 100 \<Longrightarrow> length (decU n) \<le> 2"
  unfolding decU_def by (rule digits_length) simp_all

lemma decU_3: "n < 1000 \<Longrightarrow> length (decU n) \<le> 3"
  unfolding decU_def by (rule digits_length) simp_all

lemma decU_4: "1000 \<le> n \<Longrightarrow> n < 10000 \<Longrightarrow> length (decU n) = 4"
  unfolding decU_def using digits_length_exact [of 10 3 n] by simp

lemma decU_0: "decU 0 = ''0''"
  by code_simp

lemma dateText_length:
  assumes "-900 \<le> tm_year t" "tm_year t \<le> 8099" "tm_mon t < 12" "tm_mday t \<le> 31"
    "tm_hour t < 24" "tm_min t < 60" "tm_sec t \<le> 60"
  shows "length (dateText t) = 19"
  using assms by (simp add: dateText_def decI_def decU_4 decU_2 nat_le_iff le_nat_iff)

lemma fmtMillis_1s: "ms < 1000 \<Longrightarrow> fmtMillis ms = ''0.'' @ padTo 3 (decU ms)"
  by (simp add: fmtMillis_def decU_0)

lemma GetCurrentTimestamp_ok:
  assumes "clockOk clk"
  shows "GetCurrentTimestamp clk st = Inr ((23, Ptr (stamp clk)), malloc st)" "length (stamp clk) = 23"
proof -
  from assms obtain t where t: "localtime clk = Some t" "length (dateText t) = 19" "tv_usec clk < 1000000"
    by (auto simp: clockOk_def dateText_length split: option.splits)
  have ms: "tv_usec clk div 1000 < 1000"
    using t(3) by (simp add: less_mult_imp_div_less)
  show "length (stamp clk) = 23"
    by (simp add: stamp_def t decU_3 [OF ms])
  show "GetCurrentTimestamp clk st = Inr ((23, Ptr (stamp clk)), malloc st)"
    by (simp add: GetCurrentTimestamp_def t strftime_def GetMilliseconds_def fmtMillis_1s [OF ms]
      decU_3 [OF ms] stamp_def)
qed

section \<open>The line of a message\<close>

definition logLine :: "u32 \<Rightarrow> string \<Rightarrow> clock \<Rightarrow> string" where
  "logLine level msg clk =
     ''['' @ stamp clk @ ''] '' @ LogLevelToStr level @ '': '' @ msg @ newline"

text \<open>The size that \<open>FormatLogMessage\<close> computes is the length of the line and the NUL: its branch for an
  incomplete line is dead.\<close>

lemma FormatLogMessage_ok:
  assumes "clockOk clk"
  shows "FormatLogMessage level (Ptr msg) clk st
    = Inr ((length (logLine level msg clk), Ptr (logLine level msg clk)), malloc st)"
  by (simp add: FormatLogMessage_def logLine_def newline_def logLineChars_def
    GetCurrentTimestamp_ok [OF assms] snprintf_def Let_def)

lemma FormatLogMessage_null:
  "clockOk clk \<Longrightarrow> FormatLogMessage level Null clk st = Inl NullPointer"
  by (simp add: FormatLogMessage_def GetCurrentTimestamp_ok(1))

lemma FormatArgString_text:
  "vformat fmt args = Some msg \<Longrightarrow>
   FormatArgString fmt args st = Inr (if msg = [] then ((0, Null), st) else ((length msg, Ptr msg), malloc st))"
  by (simp add: FormatArgString_def snprintf_def)

text \<open>What \<open>Log\<close> does to a logger whose file is not closed.\<close>

definition appendLine :: "string \<Rightarrow> logger \<Rightarrow> logger" where
  "appendLine s st = (let st = st\<lparr>out := out st @ s, blocks := blocks st + 2\<rparr>
     in case logFile st of Ptr p \<Rightarrow> fprintf_log p s st | _ \<Rightarrow> st)"

lemma appendLine_simps [simp]:
  "logFile (appendLine s st) = logFile st" "logFilePath (appendLine s st) = logFilePath st"
  "currentLogLevel (appendLine s st) = currentLogLevel st" "out (appendLine s st) = out st @ s"
  "blocks (appendLine s st) = blocks st + 2"
  by (simp_all add: appendLine_def fprintf_log_def Let_def split: ptr.split)

lemma Log_cases:
  assumes "clockOk clk" "vformat fmt args = Some msg"
  shows "Log level fmt args clk st =
    (if currentLogLevel st < level then Inr st
     else if msg = [] then Inl NullPointer
     else if logFile st = Freed then Inl UseAfterFree
     else Inr (appendLine (logLine level msg clk) st))"
  using FormatArgString_text [OF assms(2), of st]
  by (cases "logFile st")
     (simp_all add: Log_def FormatLogMessage_null [OF assms(1)] FormatLogMessage_ok [OF assms(1)]
      appendLine_def logLine_def fprintf_log_def malloc_def free_def)

text \<open>
  A call of \<open>Log\<close> at an enabled level, with a message that is not empty and a log file that has
  not been closed, writes exactly one line: the time stamp of 23 characters, the name of the level
  and the message; to standard output and to the log file when there is one. Every such call leaks
  two heap blocks, the formatted message and the line. Above the current level it does nothing.
\<close>

theorem Log_line:
  assumes "clockOk clk" "vformat fmt args = Some msg" "msg \<noteq> []" "logFile st \<noteq> Freed"
  shows "\<exists>st'. Log level fmt args clk st = Inr st' \<and>
    (if currentLogLevel st < level then st' = st
     else out st' = out st @ logLine level msg clk \<and> blocks st' = blocks st + 2 \<and>
       length (logLine level msg clk) = 29 + length (LogLevelToStr level) + length msg \<and>
       (\<forall>p. files st' p = (if logFile st = Ptr p
          then Some ((case files st p of None \<Rightarrow> '''' | Some t \<Rightarrow> t) @ logLine level msg clk)
          else files st p)) \<and>
       logFile st' = logFile st \<and> currentLogLevel st' = currentLogLevel st)"
  using assms GetCurrentTimestamp_ok(2) [OF assms(1)]
  by (cases "logFile st")
     (auto simp: Log_cases appendLine_def logLine_def fprintf_log_def newline_def split: option.split)

definition clock0 :: clock where
  "clock0 = \<lparr>now = 1700000000,
     localtime = Some \<lparr>tm_year = 123, tm_mon = 10, tm_mday = 14, tm_hour = 22, tm_min = 13, tm_sec = 20\<rparr>,
     tv_usec = 73000\<rparr>"

lemma clock0_ok: "clockOk clock0"
  by (simp add: clockOk_def clock0_def)

definition logger0 :: logger where
  "logger0 = logger_static (\<lambda>_. None)"

theorem Log_line_witness:
  "\<exists>st'. Log eError ''value %d'' [VInt 73] clock0 logger0 = Inr st' \<and>
     out st' = logLine eError ''value 73'' clock0"
proof -
  have "vformat ''value %d'' [VInt 73] = Some ''value 73''"
    by code_simp
  from Log_line [OF clock0_ok this, of logger0 eError] show ?thesis
    by (auto simp: logger0_def logger_static_def)
qed

text \<open>
  When \<open>Log\<close> faults: a call at an enabled level crashes exactly when its text is empty, on the
  NULL that \<open>FormatArgString\<close> leaves behind, or when \<open>CleanupLogFiles\<close> has closed the log file, on the
  closed stream. Calls above the level never fault.
\<close>

theorem Log_faults_iff:
  assumes "clockOk clk" "vformat fmt args = Some msg"
  shows "Log level fmt args clk st = Inl f \<longleftrightarrow>
    level \<le> currentLogLevel st \<and> (f = NullPointer \<and> msg = [] \<or>
      f = UseAfterFree \<and> msg \<noteq> [] \<and> logFile st = Freed)"
  by (auto simp: Log_cases [OF assms])

theorem Log_faults_iff_witness:
  "Log eError '''' [] clock0 logger0 = Inl NullPointer"
proof -
  have "vformat '''' [] = Some ''''"
    by simp
  from Log_faults_iff [OF clock0_ok this, of eError logger0 NullPointer] show ?thesis
    by (simp add: logger0_def logger_static_def)
qed

section \<open>A session\<close>

text \<open>A call of \<open>Log\<close> with the reading of the clock it makes.\<close>

datatype logCall = LogCall (callLevel: u32) (callFmt: string) (callArgs: "vaArg list") (callClock: clock)

fun LogAll :: "logCall list \<Rightarrow> logger \<Rightarrow> logger res" where
  "LogAll [] st = Inr st"
| "LogAll (LogCall level fmt args clk # cs) st = bind_res (Log level fmt args clk st) (LogAll cs)"

definition callText :: "logCall \<Rightarrow> string" where
  "callText c = (case vformat (callFmt c) (callArgs c) of None \<Rightarrow> '''' | Some s \<Rightarrow> s)"

text \<open>A call that prints: its format fits its arguments and the text is not empty.\<close>

definition callOk :: "logCall \<Rightarrow> bool" where
  "callOk c \<longleftrightarrow> clockOk (callClock c) \<and> (case vformat (callFmt c) (callArgs c) of None \<Rightarrow> False | Some s \<Rightarrow> s \<noteq> [])"

text \<open>The text of the calls at levels that are not filtered.\<close>

definition transcript :: "u32 \<Rightarrow> logCall list \<Rightarrow> string" where
  "transcript l cs = concat (map (\<lambda>c. logLine (callLevel c) (callText c) (callClock c))
     (filter (\<lambda>c. callLevel c \<le> l) cs))"

lemma LogAll_file:
  "list_all callOk cs \<Longrightarrow> logFile st = Ptr p \<Longrightarrow> files st p = Some t \<Longrightarrow>
   \<exists>st'. LogAll cs st = Inr st' \<and> logFile st' = Ptr p \<and> logFilePath st' = logFilePath st
     \<and> currentLogLevel st' = currentLogLevel st
     \<and> files st' = (files st)(p \<mapsto> t @ transcript (currentLogLevel st) cs)
     \<and> out st' = out st @ transcript (currentLogLevel st) cs
     \<and> blocks st' = blocks st + 2 * length (filter (\<lambda>c. callLevel c \<le> currentLogLevel st) cs)"
proof (induction cs arbitrary: st t)
  case (Cons c cs)
  obtain level fmt args clk where c: "c = LogCall level fmt args clk"
    by (cases c)
  from Cons.prems(1) c obtain msg where m: "clockOk clk" "vformat fmt args = Some msg" "msg \<noteq> []"
    by (auto simp: callOk_def split: option.splits)
  show ?case
  proof (cases "level \<le> currentLogLevel st")
    case False
    then have "currentLogLevel st < level" "\<not> level \<le> currentLogLevel st"
      by simp_all
    with Cons.IH [of st t] Cons.prems c show ?thesis
      by (simp del: not_le add: Log_cases [OF m(1,2)] transcript_def)
  next
    case True
    let ?st = "appendLine (logLine level msg clk) st"
    have "files ?st p = Some (t @ logLine level msg clk)" "logFile ?st = Ptr p"
      using Cons.prems by (simp_all add: appendLine_def fprintf_log_def)
    from Cons.IH [OF _ this(2,1)] Cons.prems True c m show ?thesis
      by (auto simp: Log_cases [OF m(1,2)] transcript_def callText_def appendLine_def fprintf_log_def cong: if_cong)
  qed
qed (simp add: transcript_def fun_upd_idem)

definition logPath :: "string option \<Rightarrow> clock \<Rightarrow> string" where
  "logPath dir clk = (case dir of None \<Rightarrow> defaultLogfileDirectory | Some d \<Rightarrow> d)
     @ defaultLogfileName @ ''_'' @ decU (now clk) @ defaultLogfileExtension"

text \<open>The file exists test of \<open>CreateLogfile\<close> is the wrong way round, so it removes nothing.\<close>

lemma CreateLogfile_spec:
  "CreateLogfile name dir clk st
   = (dir @ name @ ''_'' @ decU (now clk) @ defaultLogfileExtension, malloc (malloc st))"
  by (simp add: CreateLogfile_def GetCurrentUnixTimeAsString_def access_def remove_file_def snprintf_def
    fun_upd_idem malloc_def)

lemma InitLogFiles_opens:
  assumes "fst (mkdirRet e (case dir of None \<Rightarrow> ''logs'' | Some p \<Rightarrow> p)) = 0
      \<or> snd (mkdirRet e (case dir of None \<Rightarrow> ''logs'' | Some p \<Rightarrow> p)) = EEXIST"
    and "fopenOk e (logPath dir clk)"
  shows "InitLogFiles e dir clk st = st\<lparr>blocks := blocks st + 2, logFilePath := Ptr (logPath dir clk),
    logFile := Ptr (logPath dir clk), files := (files st)(logPath dir clk := Some '''')\<rparr>"
  using assms
  by (cases dir) (auto simp: InitLogFiles_def CreateLogfile_spec logPath_def malloc_def split: prod.split)

text \<open>
  \<^bold>\<open>C32.\<close> A whole session of the logger. When the directory can be made or exists and the file can be
  opened, then \<open>InitLogFiles\<close>, any calls of \<open>Log\<close> that print, and \<open>CleanupLogFiles\<close> run without a fault;
  afterwards the file named after the start time holds exactly the lines of the calls at enabled
  levels, in order, whatever it held before, no other file has changed, standard output has got the
  same lines, and the heap has lost one block for the session and two for every line.
\<close>

theorem logger_session:
  assumes "fst (mkdirRet e (case dir of None \<Rightarrow> ''logs'' | Some p \<Rightarrow> p)) = 0
      \<or> snd (mkdirRet e (case dir of None \<Rightarrow> ''logs'' | Some p \<Rightarrow> p)) = EEXIST"
    and "fopenOk e (logPath dir clk)" and "list_all callOk cs"
  shows "\<exists>st'. bind_res (LogAll cs (InitLogFiles e dir clk st)) CleanupLogFiles = Inr st' \<and>
    files st' = (files st)(logPath dir clk \<mapsto> transcript (currentLogLevel st) cs) \<and>
    out st' = out st @ transcript (currentLogLevel st) cs \<and>
    blocks st' = blocks st + 1 + 2 * length (filter (\<lambda>c. callLevel c \<le> currentLogLevel st) cs) \<and>
    logFile st' = Freed"
  using LogAll_file [OF assms(3), of "InitLogFiles e dir clk st" "logPath dir clk" "[]"]
  by (auto simp: InitLogFiles_opens [OF assms(1,2)] CleanupLogFiles_def free_def)

definition os0 :: os where
  "os0 = \<lparr>mkdirRet = (\<lambda>_. (-1, EEXIST)), fopenOk = (\<lambda>_. True)\<rparr>"

theorem logger_session_witness:
  "\<exists>st'. bind_res (LogAll [LogCall eError ''a'' [] clock0, LogCall eDebug ''b'' [] clock0]
       (InitLogFiles os0 None clock0 logger0)) CleanupLogFiles = Inr st' \<and>
     files st' (logPath None clock0) = Some (logLine eError ''a'' clock0)"
proof -
  have ok: "list_all callOk [LogCall eError ''a'' [] clock0, LogCall eDebug ''b'' [] clock0]"
    by (simp add: callOk_def clock0_ok)
  show ?thesis
    using logger_session [OF _ _ ok, of os0 None clock0 logger0]
    by (auto simp: os0_def transcript_def callText_def logger0_def logger_static_def)
qed

text \<open>
  A directory that cannot be made leaves the log file NULL, and \<open>CleanupLogFiles\<close> then closes NULL:
  the handler of a signal crashes instead of exiting.
\<close>

lemma CleanupLogFiles_null:
  "fst (mkdirRet e d) \<noteq> 0 \<Longrightarrow> snd (mkdirRet e d) \<noteq> EEXIST \<Longrightarrow> logFile st = Null \<Longrightarrow>
   CleanupLogFiles (InitLogFiles e (Some d) clk st) = Inl NullPointer"
  by (cases "mkdirRet e d") (simp add: InitLogFiles_def CleanupLogFiles_def)

lemma SetLogLevel_spec:
  "SetLogLevel level st = (level \<le> 5, st\<lparr>currentLogLevel := if level \<le> 5 then level else currentLogLevel st\<rparr>)"
  by (simp add: SetLogLevel_def)

section \<open>Calls from the program\<close>

text \<open>A world whose logger works whenever it is called.\<close>

definition logsOk :: "'a logEnv_scheme \<Rightarrow> bool" where
  "logsOk w \<longleftrightarrow> (\<forall>i. clockOk (clks w i)) \<and> logFile (lg w) \<noteq> Freed"

definition logEffect :: "u32 \<Rightarrow> string \<Rightarrow> 'a logEnv_scheme \<Rightarrow> 'a logEnv_scheme" where
  "logEffect level s w = w\<lparr>lg := (if currentLogLevel (lg w) < level then lg w
       else appendLine (logLine level s (clks w 0)) (lg w)), clks := (\<lambda>i. clks w (Suc i))\<rparr>"

lemma LogW_ok:
  "logsOk w \<Longrightarrow> vformat fmt args = Some s \<Longrightarrow> s \<noteq> [] \<Longrightarrow> LogW level fmt args w = Inr (logEffect level s w)"
  by (simp add: LogW_def logEffect_def logsOk_def Log_cases)

lemma logEffect_simps [simp]:
  "currentLogLevel (lg (logEffect level s w)) = currentLogLevel (lg w)"
  by (simp_all add: logEffect_def)

lemma logsOk_logEffect [simp]: "logsOk w \<Longrightarrow> logsOk (logEffect level s w)"
  by (simp add: logsOk_def logEffect_def)

end
