(* ===== verification/Test_Suite.thy ===== *)
theory Test_Suite
  imports Logger_Properties
begin

text \<open>
  The test framework, \<^verbatim>\<open>tests/test_suite.c\<close>: suites as linked lists of test cases on the heap.

  \<^item> \<open>nodes\<close> is the heap of test cases: an address was never used (\<open>Null\<close>), holds a live case
    (\<open>Ptr\<close>) or a freed one (\<open>Freed\<close>). \<open>brk\<close> is the next address that \<open>malloc\<close> returns.
  \<^item> A test is a function of the state of the program under test. The messages that a test itself
    logs are not modelled.
  \<^item> The loops over the list are partial functions: \<open>None\<close> means that they do not end, as on a
    cyclic list. Counts are natural numbers, far below the range of \<open>size_t\<close>.
\<close>

type_synonym 's test = "'s \<Rightarrow> (bool \<times> 's) res"

record 's TestCase =
  func :: "'s test"
  tname :: "string ptr"
  next_case :: "nat option"

record TestSuite =
  testCases :: "nat option"
  testCaseLength :: nat
  sname :: "string ptr"
  passed :: nat
  failed :: nat

record 's world = logEnv +
  nodes :: "nat \<Rightarrow> 's TestCase ptr"
  brk :: nat
  target :: 's

text \<open>Running a step after a loop.\<close>

definition bind_loop :: "'a res option \<Rightarrow> ('a \<Rightarrow> 'b res option) \<Rightarrow> 'b res option" where
  "bind_loop m f = (case m of None \<Rightarrow> None | Some (Inl e) \<Rightarrow> Some (Inl e) | Some (Inr x) \<Rightarrow> f x)"

lemma bind_loop_simps [simp, res_simps]:
  "bind_loop (Some (Inr x)) f = f x" "bind_loop (Some (Inl e)) f = Some (Inl e)" "bind_loop None f = None"
  by (simp_all add: bind_loop_def)

definition TestEnvironmentInit :: "os \<Rightarrow> 's world \<Rightarrow> 's world" where
  "TestEnvironmentInit e w =
    w\<lparr>lg := InitLogFiles e (Some ''test_results/'') (clks w 0) (lg w), clks := (\<lambda>i. clks w (Suc i))\<rparr>"

definition InitTestSuite :: "string \<Rightarrow> TestSuite" where
  "InitTestSuite suiteName = \<lparr>testCases = None, testCaseLength = 0, sname = Ptr suiteName, passed = 0, failed = 0\<rparr>"

text \<open>The search for the last case of \<open>RegisterTestCase\<close>.\<close>

partial_function (option) lastNode :: "(nat \<Rightarrow> 's TestCase ptr) \<Rightarrow> nat \<Rightarrow> nat res option" where
  "lastNode h lastTestCase =
    (case deref (h lastTestCase) of Inl f \<Rightarrow> Some (Inl f)
     | Inr t \<Rightarrow> (case next_case t of None \<Rightarrow> Some (Inr lastTestCase) | Some q \<Rightarrow> lastNode h q))"

definition setNext :: "nat \<Rightarrow> nat \<Rightarrow> 's world \<Rightarrow> 's world res" where
  "setNext p q w =
    bind_res (deref (nodes w p)) (\<lambda>t. Inr (w\<lparr>nodes := (nodes w)(p := Ptr (t\<lparr>next_case := Some q\<rparr>))\<rparr>))"

definition RegisterTestCase ::
    "TestSuite \<Rightarrow> string \<Rightarrow> 's test \<Rightarrow> 's world \<Rightarrow> (TestSuite \<times> 's world) res option" where
  "RegisterTestCase suite testName test w =
    (let newTestCase = brk w in
     bind_loop (Some (LogW eTestInfo ''Registering case %s'' [VStr testName] (w\<lparr>brk := brk w + 1\<rparr>))) (\<lambda>w.
       let w = w\<lparr>nodes := (nodes w)(newTestCase := Ptr \<lparr>func = test, tname = Ptr testName, next_case = None\<rparr>)\<rparr> in
       bind_loop
         (case testCases suite of
            None \<Rightarrow> Some (Inr (suite\<lparr>testCases := Some newTestCase\<rparr>, w))
          | Some first \<Rightarrow>
              bind_loop (lastNode (nodes w) first) (\<lambda>lastTestCase.
              bind_loop (Some (setNext lastTestCase newTestCase w)) (\<lambda>w. Some (Inr (suite, w)))))
         (\<lambda>(suite, w). Some (Inr (suite\<lparr>testCaseLength := testCaseLength suite + 1\<rparr>, w)))))"

partial_function (option) executeFrom ::
    "nat option \<Rightarrow> TestSuite \<Rightarrow> 's world \<Rightarrow> (TestSuite \<times> 's world) res option" where
  "executeFrom testCase suite w =
    (case testCase of
       None \<Rightarrow> Some (Inr (suite, w))
     | Some p \<Rightarrow>
       (case bind_res (deref (nodes w p)) (\<lambda>t.
               bind_res (func t (target w)) (\<lambda>(result, s).
               bind_res (deref (tname t)) (\<lambda>name.
               let resultLogLevel = (if result then eTestPass else eTestFail) in
               bind_res (LogW resultLogLevel ''Test: %s - Result = %d''
                   [VStr name, VInt (if result then 1 else 0)] (w\<lparr>target := s\<rparr>)) (\<lambda>w.
               Inr (next_case t,
                 suite\<lparr>passed := passed suite + (if result then 1 else 0),
                   failed := failed suite + (if result then 0 else 1)\<rparr>, w)))))
        of Inl f \<Rightarrow> Some (Inl f)
         | Inr (nxt, suite', w') \<Rightarrow> executeFrom nxt suite' w'))"

definition ExecuteTestCases :: "TestSuite \<Rightarrow> 's world \<Rightarrow> (TestSuite \<times> 's world) res option" where
  "ExecuteTestCases suite w = executeFrom (testCases suite) suite w"

definition PrintTestResults :: "TestSuite \<Rightarrow> 's world \<Rightarrow> 's world res" where
  "PrintTestResults suite w =
    bind_res (deref (sname suite)) (\<lambda>name.
      LogW eTestInfo (''## %s Results ##'' @ newline @ [char_of (9 :: nat)] @ ''Tests passed: %lu'' @ newline
          @ [char_of (9 :: nat)] @ ''Tests failed: %lu'')
        [VStr name, VUInt (passed suite), VUInt (failed suite)] w)"

partial_function (option) destroyFrom :: "nat option \<Rightarrow> 's world \<Rightarrow> 's world res option" where
  "destroyFrom testCase w =
    (case testCase of
       None \<Rightarrow> Some (Inr w)
     | Some p \<Rightarrow>
       (case deref (nodes w p) of Inl f \<Rightarrow> Some (Inl f)
        | Inr t \<Rightarrow> if tname t = Freed then Some (Inl UseAfterFree)
            else destroyFrom (next_case t) (w\<lparr>nodes := (nodes w)(p := Freed)\<rparr>)))"

text \<open>The members of the suite keep pointing at what has been freed.\<close>

definition DestroySuite :: "TestSuite \<Rightarrow> 's world \<Rightarrow> (TestSuite \<times> 's world) res option" where
  "DestroySuite expiredSuite w =
    (if sname expiredSuite = Freed then Some (Inl UseAfterFree)
     else
       let expiredSuite' = (if sname expiredSuite \<noteq> Null then expiredSuite\<lparr>sname := Freed\<rparr> else expiredSuite) in
       bind_loop (destroyFrom (testCases expiredSuite) w) (\<lambda>w. Some (Inr (expiredSuite', w))))"

end
