(* ===== verification/Test_Suite_Properties.thy ===== *)
theory Test_Suite_Properties
  imports Test_Suite
begin

text \<open>
  The linked list of a suite implements a list of test cases: registering appends, executing runs the
  cases in the order of their registration and counts the results, destroying frees every case once.
\<close>

section \<open>The list of a suite\<close>

type_synonym 's case_entry = "nat \<times> string \<times> 's test"

fun chain :: "(nat \<Rightarrow> 's TestCase ptr) \<Rightarrow> nat option \<Rightarrow> 's case_entry list \<Rightarrow> bool" where
  "chain h p [] \<longleftrightarrow> p = None"
| "chain h p ((a, n, f) # ts) \<longleftrightarrow>
     p = Some a \<and> (\<exists>q. h a = Ptr \<lparr>func = f, tname = Ptr n, next_case = q\<rparr> \<and> chain h q ts)"

definition addrs :: "'s case_entry list \<Rightarrow> nat list" where
  "addrs ts = map fst ts"

lemma addrs_simps [simp]: "addrs [] = []" "addrs (t # ts) = fst t # addrs ts" "addrs (ts @ us) = addrs ts @ addrs us"
  by (simp_all add: addrs_def)

lemma chain_upd_other [simp]: "a \<notin> set (addrs ts) \<Longrightarrow> chain (h(a := x)) p ts = chain h p ts"
  by (induction ts arbitrary: p) auto

lemma chain_live: "chain h p ts \<Longrightarrow> a \<in> set (addrs ts) \<Longrightarrow> \<exists>t. h a = Ptr t"
  by (induction ts arbitrary: p) auto

lemma chain_None [simp]: "chain h None ts \<longleftrightarrow> ts = []"
  by (cases ts) auto

text \<open>The last case of a list of distinct addresses, and the list with one more case behind it.\<close>

lemma lastNode_chain:
  "chain h (Some p) ts \<Longrightarrow> lastNode h p = Some (Inr (fst (last ts)))"
proof (induction ts arbitrary: p)
  case (Cons t ts)
  obtain a n f where t: "t = (a, n, f)"
    by (cases t)
  from Cons.prems t obtain q where
    q: "p = a" "h a = Ptr \<lparr>func = f, tname = Ptr n, next_case = q\<rparr>" "chain h q ts"
    by auto
  show ?case
    by (subst lastNode.simps) (use q t Cons.IH in \<open>cases q; auto\<close>)
qed simp

lemma chain_snoc:
  "chain h p ts \<Longrightarrow> distinct (addrs ts) \<Longrightarrow> ts \<noteq> [] \<Longrightarrow> b \<notin> set (addrs ts) \<Longrightarrow>
   h b = Ptr \<lparr>func = g, tname = Ptr m, next_case = None\<rparr> \<Longrightarrow> h (fst (last ts)) = Ptr t \<Longrightarrow>
   chain (h(fst (last ts) := Ptr (t\<lparr>next_case := Some b\<rparr>))) p (ts @ [(b, m, g)])"
proof (induction ts arbitrary: p)
  case (Cons u ts)
  obtain a n f where u: "u = (a, n, f)"
    by (cases u)
  show ?case
  proof (cases "ts = []")
    case False
    then have "fst (last ts) \<in> set (addrs ts)"
      by (simp add: addrs_def)
    with False Cons u show ?thesis by auto
  qed (use Cons u in auto)
qed simp

text \<open>The representation of a list of cases by a suite in a world.\<close>

definition suiteRep :: "TestSuite \<Rightarrow> 's world \<Rightarrow> 's case_entry list \<Rightarrow> bool" where
  "suiteRep suite w ts \<longleftrightarrow> chain (nodes w) (testCases suite) ts \<and> distinct (addrs ts)
     \<and> list_all (\<lambda>a. a < brk w) (addrs ts) \<and> testCaseLength suite = length ts"

lemma suiteRep_Init: "suiteRep (InitTestSuite n) w []"
  by (simp add: suiteRep_def InitTestSuite_def)

section \<open>Logging\<close>

lemma logEffect_world [simp]:
  "nodes (logEffect level s w) = nodes w" "brk (logEffect level s w) = brk w"
  "target (logEffect level s w) = target w"
  by (simp_all add: logEffect_def)

lemma logsOk_world [simp]:
  "logsOk (w\<lparr>nodes := h\<rparr>) = logsOk w" "logsOk (w\<lparr>brk := b\<rparr>) = logsOk w" "logsOk (w\<lparr>target := s\<rparr>) = logsOk w"
  by (simp_all add: logsOk_def)

lemma format_case: "vformat ''Registering case %s'' [VStr n] = Some (''Registering case '' @ n)"
  by (simp add: directive_def)

definition resultText :: "string \<Rightarrow> bool \<Rightarrow> string" where
  "resultText n r = ''Test: '' @ n @ '' - Result = '' @ (if r then ''1'' else ''0'')"

lemma decI_01: "decI 0 = ''0''" "decI 1 = ''1''"
  by code_simp+

lemma format_result:
  "vformat ''Test: %s - Result = %d'' [VStr n, VInt (if r then 1 else 0)] = Some (resultText n r)"
  by (simp add: directive_def resultText_def decI_01)

text \<open>The lines that a list of calls of the logger leaves, seen without the rest of the world.\<close>

definition logAll :: "(u32 \<times> string) list \<Rightarrow> 'a logEnv_scheme \<Rightarrow> 'a logEnv_scheme" where
  "logAll ls w = fold (\<lambda>(level, s). logEffect level s) ls w"

definition sameLog :: "'a logEnv_scheme \<Rightarrow> 'a logEnv_scheme \<Rightarrow> bool" where
  "sameLog u v \<longleftrightarrow> lg u = lg v \<and> clks u = clks v"

lemma logAll_simps [simp]:
  "logAll [] w = w" "logAll ((level, s) # ls) w = logAll ls (logEffect level s w)"
  "logAll (ls @ ls') w = logAll ls' (logAll ls w)"
  by (simp_all add: logAll_def)

lemma sameLog_refl [simp]: "sameLog w w"
  by (simp add: sameLog_def)

lemma sameLog_trans: "sameLog u v \<Longrightarrow> sameLog v w \<Longrightarrow> sameLog u w"
  by (simp add: sameLog_def)

lemma sameLog_upd [simp]:
  "sameLog (u\<lparr>nodes := h\<rparr>) v = sameLog u v" "sameLog (u\<lparr>brk := b\<rparr>) v = sameLog u v"
  "sameLog (u\<lparr>target := s\<rparr>) v = sameLog u v"
  for u v :: "'s world"
  by (simp_all add: sameLog_def)

lemma sameLog_logEffect: "sameLog u v \<Longrightarrow> sameLog (logEffect level s u) (logEffect level s v)"
  by (simp add: sameLog_def logEffect_def)

lemma sameLog_logAll: "sameLog u v \<Longrightarrow> sameLog (logAll ls u) (logAll ls v)"
proof (induction ls arbitrary: u v)
  case (Cons l ls)
  then show ?case
    by (cases l) (simp add: sameLog_logEffect)
qed simp

definition registeringLine :: "string \<times> 's test \<Rightarrow> u32 \<times> string" where
  "registeringLine = (\<lambda>(n, f). (eTestInfo, ''Registering case '' @ n))"

definition resultLine :: "string \<times> 's test \<Rightarrow> bool \<Rightarrow> u32 \<times> string" where
  "resultLine = (\<lambda>(n, f) r. (if r then eTestPass else eTestFail, resultText n r))"

section \<open>Registering\<close>

lemma RegisterTestCase_appends:
  assumes "suiteRep suite w ts" "logsOk w"
  shows "\<exists>suite' w'. RegisterTestCase suite n f w = Some (Inr (suite', w'))
    \<and> suiteRep suite' w' (ts @ [(brk w, n, f)]) \<and> logsOk w' \<and> brk w' = brk w + 1
    \<and> sname suite' = sname suite \<and> passed suite' = passed suite \<and> failed suite' = failed suite
    \<and> target w' = target w \<and> currentLogLevel (lg w') = currentLogLevel (lg w)
    \<and> sameLog w' (logAll [registeringLine (n, f)] w)
    \<and> (\<forall>a. a \<noteq> brk w \<longrightarrow> a \<notin> set (addrs ts) \<longrightarrow> nodes w' a = nodes w a)"
proof -
  let ?w = "logEffect eTestInfo (''Registering case '' @ n) (w\<lparr>brk := brk w + 1\<rparr>)"
  let ?new = "\<lparr>func = f, tname = Ptr n, next_case = None\<rparr>"
  have new: "brk w \<notin> set (addrs ts)"
    using assms(1) by (auto simp: suiteRep_def list_all_iff)
  have log: "LogW eTestInfo ''Registering case %s'' [VStr n] (w\<lparr>brk := brk w + 1\<rparr>) = Inr ?w"
    by (rule LogW_ok [OF _ format_case]) (use assms in simp_all)
  have same: "sameLog ?w (logAll [registeringLine (n, f)] w)"
    by (simp add: registeringLine_def sameLog_logEffect)
  show ?thesis
  proof (cases "testCases suite")
    case None
    with assms log same show ?thesis
      by (simp add: RegisterTestCase_def suiteRep_def Let_def)
  next
    case (Some p)
    let ?h = "(nodes w)(brk w := Ptr ?new)"
    have ch: "chain ?h (Some p) ts" "ts \<noteq> []" "distinct (addrs ts)"
      using assms Some new by (auto simp: suiteRep_def)
    have last: "fst (last ts) \<in> set (addrs ts)"
      using ch(2) by (simp add: addrs_def)
    from chain_live [OF ch(1) last] obtain t where t: "?h (fst (last ts)) = Ptr t" ..
    have "fst (last ts) \<noteq> brk w"
      using last new by metis
    have "chain (?h(fst (last ts) := Ptr (t\<lparr>next_case := Some (brk w)\<rparr>))) (Some p) (ts @ [(brk w, n, f)])"
      by (rule chain_snoc [OF ch(1) ch(3,2) new fun_upd_same t])
    with Some log same lastNode_chain [OF ch(1)] t \<open>fst (last ts) \<noteq> brk w\<close> assms new last show ?thesis
      by (auto simp: RegisterTestCase_def setNext_def suiteRep_def list_all_iff Let_def less_Suc_eq
        simp del: fun_upd_apply) (auto simp: fun_upd_apply)
  qed
qed

section \<open>Executing\<close>

text \<open>What a list of tests does: the results in order and the final state of the program.\<close>

fun runTests :: "(string \<times> 's test) list \<Rightarrow> 's \<Rightarrow> (bool list \<times> 's) res" where
  "runTests [] s = Inr ([], s)"
| "runTests ((n, f) # ts) s =
     bind_res (f s) (\<lambda>(r, s). bind_res (runTests ts s) (\<lambda>(rs, s). Inr (r # rs, s)))"

text \<open>The log of it.\<close>

lemma resultLine_simps: "resultLine (n, f) r = (if r then eTestPass else eTestFail, resultText n r)"
  by (simp add: resultLine_def)

fun logResults :: "'s case_entry list \<Rightarrow> bool list \<Rightarrow> 's world \<Rightarrow> 's world" where
  "logResults ((a, n, f) # ts) (r # rs) w =
     logResults ts rs (logEffect (if r then eTestPass else eTestFail) (resultText n r) w)"
| "logResults _ _ w = w"

lemma logResults_simps [simp]:
  "nodes (logResults ts rs w) = nodes w" "brk (logResults ts rs w) = brk w"
  "target (logResults ts rs w) = target w"
  "currentLogLevel (lg (logResults ts rs w)) = currentLogLevel (lg w)"
  "logsOk w \<Longrightarrow> logsOk (logResults ts rs w)"
  by (induction ts rs w rule: logResults.induct) simp_all

lemma logResults_lines: "sameLog (logResults ts rs w) (logAll (map2 resultLine (map snd ts) rs) w)"
proof (induction ts rs w rule: logResults.induct)
  case (1 a n f ts r rs w)
  then show ?case by (simp only: logResults.simps list.map zip_Cons_Cons prod.case snd_conv resultLine_simps logAll_simps)
qed simp_all

lemma logEffect_target: "logEffect level s (w\<lparr>target := t\<rparr>) = (logEffect level s w)\<lparr>target := t\<rparr>"
  by (simp add: logEffect_def)

lemma executeFrom_chain:
  "chain (nodes w) p ts \<Longrightarrow> logsOk w \<Longrightarrow> runTests (map snd ts) (target w) = Inr (rs, s) \<Longrightarrow>
   executeFrom p suite w = Some (Inr (suite\<lparr>passed := passed suite + length (filter id rs),
     failed := failed suite + length (filter Not rs)\<rparr>, logResults ts rs (w\<lparr>target := s\<rparr>)))"
proof (induction ts arbitrary: p suite w rs)
  case Nil
  then show ?case by (subst executeFrom.simps) simp
next
  case (Cons t ts)
  obtain a n f where t: "t = (a, n, f)"
    by (cases t)
  from Cons.prems(1) t obtain q where
    q: "p = Some a" "nodes w a = Ptr \<lparr>func = f, tname = Ptr n, next_case = q\<rparr>" "chain (nodes w) q ts"
    by auto
  from Cons.prems(3) t obtain r s1 rs' where
    r: "f (target w) = Inr (r, s1)" "runTests (map snd ts) s1 = Inr (rs', s)" "rs = r # rs'"
    by (auto elim!: bind_res_InrE split: prod.splits)
  let ?lev = "if r then eTestPass else eTestFail"
  let ?w = "logEffect ?lev (resultText n r) (w\<lparr>target := s1\<rparr>)"
  have log: "LogW ?lev ''Test: %s - Result = %d'' [VStr n, VInt (if r then 1 else 0)] (w\<lparr>target := s1\<rparr>) = Inr ?w"
    by (rule LogW_ok [OF _ format_result]) (use Cons.prems in \<open>simp_all add: resultText_def\<close>)
  have "executeFrom q (suite\<lparr>passed := passed suite + (if r then 1 else 0),
      failed := failed suite + (if r then 0 else 1)\<rparr>) ?w = Some (Inr
     (suite\<lparr>passed := passed suite + length (filter id rs), failed := failed suite + length (filter Not rs)\<rparr>,
      logResults ts rs' (?w\<lparr>target := s\<rparr>)))"
    by (subst Cons.IH [of ?w q rs']) (use q r Cons.prems in simp_all)
  moreover have "logResults ts rs' (?w\<lparr>target := s\<rparr>) = logResults (t # ts) rs (w\<lparr>target := s\<rparr>)"
    using t r by (simp add: logEffect_target)
  ultimately show ?case
    by (subst executeFrom.simps) (use q r log in \<open>simp add: Let_def\<close>)
qed

section \<open>Destroying\<close>

lemma destroyFrom_chain:
  "chain (nodes w) p ts \<Longrightarrow> distinct (addrs ts) \<Longrightarrow>
   destroyFrom p w = Some (Inr (w\<lparr>nodes := (\<lambda>a. if a \<in> set (addrs ts) then Freed else nodes w a)\<rparr>))"
proof (induction ts arbitrary: p w)
  case Nil
  then show ?case by (subst destroyFrom.simps) simp
next
  case (Cons t ts)
  obtain a n f where t: "t = (a, n, f)"
    by (cases t)
  from Cons.prems(1) t obtain q where
    q: "p = Some a" "nodes w a = Ptr \<lparr>func = f, tname = Ptr n, next_case = q\<rparr>" "chain (nodes w) q ts"
    by auto
  let ?w = "w\<lparr>nodes := (nodes w)(a := Freed)\<rparr>"
  have "destroyFrom q ?w = Some (Inr (?w\<lparr>nodes := (\<lambda>b. if b \<in> set (addrs ts) then Freed else nodes ?w b)\<rparr>))"
    by (rule Cons.IH) (use Cons.prems q t in \<open>simp_all del: fun_upd_apply\<close>)
  then have "destroyFrom q ?w
      = Some (Inr (w\<lparr>nodes := (\<lambda>b. if b \<in> set (addrs (t # ts)) then Freed else nodes w b)\<rparr>))"
    using t by (auto simp: fun_eq_iff intro!: arg_cong [where f = "\<lambda>h. nodes_update h w"])
  then show ?case
    by (subst destroyFrom.simps) (use q in simp)
qed

section \<open>The life of a suite\<close>

fun registerAll :: "(string \<times> 's test) list \<Rightarrow> TestSuite \<Rightarrow> 's world \<Rightarrow> (TestSuite \<times> 's world) res option" where
  "registerAll [] suite w = Some (Inr (suite, w))"
| "registerAll ((n, f) # ts) suite w =
     bind_loop (RegisterTestCase suite n f w) (\<lambda>(suite, w). registerAll ts suite w)"

lemma registerAll_rep:
  "suiteRep suite w us \<Longrightarrow> logsOk w \<Longrightarrow> \<exists>suite' w'. registerAll ts suite w = Some (Inr (suite', w'))
    \<and> suiteRep suite' w' (us @ zip [brk w..<brk w + length ts] ts) \<and> logsOk w' \<and> brk w' = brk w + length ts
    \<and> sname suite' = sname suite \<and> passed suite' = passed suite \<and> failed suite' = failed suite
    \<and> target w' = target w \<and> currentLogLevel (lg w') = currentLogLevel (lg w)
    \<and> sameLog w' (logAll (map registeringLine ts) w)
    \<and> (\<forall>a. a < brk w \<or> brk w' \<le> a \<longrightarrow> a \<notin> set (addrs us) \<longrightarrow> nodes w' a = nodes w a)"
proof (induction ts arbitrary: suite w us)
  case (Cons t ts)
  obtain n f where t: "t = (n, f)"
    by (cases t)
  from RegisterTestCase_appends [OF Cons.prems, of n f] obtain suite1 w1 where
    1: "RegisterTestCase suite n f w = Some (Inr (suite1, w1))" "suiteRep suite1 w1 (us @ [(brk w, n, f)])"
      "logsOk w1" "brk w1 = brk w + 1" "sname suite1 = sname suite" "passed suite1 = passed suite"
      "failed suite1 = failed suite" "target w1 = target w" "currentLogLevel (lg w1) = currentLogLevel (lg w)"
      "sameLog w1 (logAll [registeringLine (n, f)] w)"
      "\<forall>a. a \<noteq> brk w \<longrightarrow> a \<notin> set (addrs us) \<longrightarrow> nodes w1 a = nodes w a"
    by blast
  from Cons.IH [OF 1(2,3)] obtain suite' w' where
    2: "registerAll ts suite1 w1 = Some (Inr (suite', w'))"
      "suiteRep suite' w' ((us @ [(brk w, n, f)]) @ zip [brk w1..<brk w1 + length ts] ts)" "logsOk w'"
      "brk w' = brk w1 + length ts" "sname suite' = sname suite1" "passed suite' = passed suite1"
      "failed suite' = failed suite1" "target w' = target w1" "currentLogLevel (lg w') = currentLogLevel (lg w1)"
      "sameLog w' (logAll (map registeringLine ts) w1)"
      "\<forall>a. a < brk w1 \<or> brk w' \<le> a \<longrightarrow> a \<notin> set (addrs (us @ [(brk w, n, f)])) \<longrightarrow> nodes w' a = nodes w1 a"
    by blast
  have "sameLog w' (logAll (map registeringLine (t # ts)) w)"
    using sameLog_trans [OF 2(10) sameLog_logAll [OF 1(10)]] t by (cases "registeringLine (n, f)") simp
  have "zip [brk w..<brk w + length (t # ts)] (t # ts) = (brk w, n, f) # zip [brk w1..<brk w1 + length ts] ts"
    using t 1(4) by (simp add: upt_conv_Cons del: upt_Suc)
  with 1 2 t \<open>sameLog w' (logAll (map registeringLine (t # ts)) w)\<close> show ?case
    by (intro exI [of _ suite'] exI [of _ w']) simp
qed simp

lemma DestroySuite_freed:
  "sname suite = Freed \<Longrightarrow> DestroySuite suite w = Some (Inl UseAfterFree)"
  by (simp add: DestroySuite_def)

lemma runTests_length: "runTests ts s = Inr (rs, s') \<Longrightarrow> length rs = length ts"
  by (induction ts s arbitrary: rs rule: runTests.induct) (auto elim!: bind_res_InrE split: prod.splits)

text \<open>What a suite prints at its end.\<close>

definition resultsText :: "string \<Rightarrow> nat \<Rightarrow> nat \<Rightarrow> string" where
  "resultsText n p q = ''## '' @ n @ '' Results ##'' @ newline @ [char_of (9 :: nat)] @ ''Tests passed: '' @ decU p
     @ newline @ [char_of (9 :: nat)] @ ''Tests failed: '' @ decU q"

lemma PrintTestResults_text:
  assumes "logsOk w" "sname suite = Ptr n"
  shows "PrintTestResults suite w = Inr (logEffect eTestInfo (resultsText n (passed suite) (failed suite)) w)"
proof -
  let ?fmt = "''## %s Results ##'' @ newline @ [char_of (9 :: nat)] @ ''Tests passed: %lu'' @ newline
          @ [char_of (9 :: nat)] @ ''Tests failed: %lu''"
  have c: "char_of (9 :: nat) \<noteq> CHR ''%''" "char_of (10 :: nat) \<noteq> CHR ''%''"
    by code_simp+
  have "vformat ?fmt [VStr n, VUInt p, VUInt q] = Some (resultsText n p q)" for p q
    by (simp add: newline_def c directive_def resultsText_def)
  from LogW_ok [OF assms(1) this, where level = eTestInfo] show ?thesis
    using assms(2) by (simp add: PrintTestResults_def resultsText_def)
qed

text \<open>All lines of the life of a suite, in order.\<close>

definition lifeLines :: "string \<Rightarrow> (string \<times> 's test) list \<Rightarrow> bool list \<Rightarrow> (u32 \<times> string) list" where
  "lifeLines nm ts rs = map registeringLine ts @ map2 resultLine ts rs
     @ [(eTestInfo, resultsText nm (length (filter id rs)) (length (filter Not rs)))]"

text \<open>
  \<^bold>\<open>C31.\<close> The life of a test suite. In a world whose logger works, registering any list of tests on a
  new suite, executing it, printing its results and destroying it ends, without a fault, whatever tests it is
  as long as they do not fault themselves: the tests have run once each, in the order of registration, each on
  the state that the one before left; the counts are the numbers of tests that passed and failed and add up
  to the length of the list; the logger has got exactly the lines of \<open>lifeLines\<close>, one for each registration, one
  for each result at the level of the result, and the name with both counts at the end; exactly the cases
  allocated by the suite have been freed and no other memory has changed. The suite keeps its pointers, so
  destroying it again, or printing it, is a use after free.
\<close>

theorem suite_lifecycle:
  assumes "logsOk w" and "runTests ts (target w) = Inr (rs, s)"
  shows "\<exists>suite w'. bind_loop (registerAll ts (InitTestSuite nm) w) (\<lambda>(suite, w).
      bind_loop (ExecuteTestCases suite w) (\<lambda>(suite, w).
      bind_loop (Some (PrintTestResults suite w)) (\<lambda>w. DestroySuite suite w))) = Some (Inr (suite, w'))
    \<and> passed suite = length (filter id rs) \<and> failed suite = length (filter Not rs)
    \<and> passed suite + failed suite = length ts \<and> testCaseLength suite = length ts
    \<and> target w' = s \<and> lg w' = lg (logAll (lifeLines nm ts rs) w)
    \<and> nodes w' = (\<lambda>a. if brk w \<le> a \<and> a < brk w + length ts then Freed else nodes w a)
    \<and> DestroySuite suite w' = Some (Inl UseAfterFree) \<and> PrintTestResults suite w' = Inl UseAfterFree"
proof -
  let ?us = "zip [brk w..<brk w + length ts] ts"
  from registerAll_rep [OF suiteRep_Init assms(1), of ts nm] obtain suite1 w1 where
    1: "registerAll ts (InitTestSuite nm) w = Some (Inr (suite1, w1))" "suiteRep suite1 w1 ?us" "logsOk w1"
      "brk w1 = brk w + length ts" "sname suite1 = Ptr nm" "passed suite1 = 0" "failed suite1 = 0"
      "target w1 = target w" "\<forall>a. a < brk w \<or> brk w1 \<le> a \<longrightarrow> nodes w1 a = nodes w a"
      "sameLog w1 (logAll (map registeringLine ts) w)"
    by (auto simp: InitTestSuite_def)
  have ad: "addrs ?us = [brk w..<brk w + length ts]" "map snd ?us = ts"
    by (simp_all add: addrs_def)
  from 1(2) have ch: "chain (nodes w1) (testCases suite1) ?us" "testCaseLength suite1 = length ts"
    by (auto simp: suiteRep_def)
  let ?p = "length (filter id rs)" and ?q = "length (filter Not rs)"
  let ?suite2 = "suite1\<lparr>passed := ?p, failed := ?q\<rparr>"
  let ?w2 = "logResults ?us rs (w1\<lparr>target := s\<rparr>)"
  have 2: "ExecuteTestCases suite1 w1 = Some (Inr (?suite2, ?w2))"
    using executeFrom_chain [OF ch(1) 1(3), of rs s] assms(2) 1(6,7,8) ad(2) by (simp add: ExecuteTestCases_def)
  let ?w3 = "logEffect eTestInfo (resultsText nm ?p ?q) ?w2"
  have 3: "PrintTestResults ?suite2 ?w2 = Inr ?w3"
    using PrintTestResults_text [of ?w2 ?suite2 nm] 1(3,5) by simp
  have "sameLog ?w2 (logAll (map2 resultLine ts rs) (w1\<lparr>target := s\<rparr>))"
    using logResults_lines [of ?us rs "w1\<lparr>target := s\<rparr>"] ad(2) by simp
  moreover have "sameLog (logAll (map2 resultLine ts rs) (w1\<lparr>target := s\<rparr>))
      (logAll (map2 resultLine ts rs) (logAll (map registeringLine ts) w))"
    using 1(10) by (intro sameLog_logAll) simp
  ultimately have "sameLog ?w3 (logAll (lifeLines nm ts rs) w)"
    by (simp add: lifeLines_def) (blast intro: sameLog_logEffect sameLog_trans)
  then have log: "lg ?w3 = lg (logAll (lifeLines nm ts rs) w)"
    by (simp add: sameLog_def)
  let ?w4 = "?w3\<lparr>nodes := (\<lambda>a. if a \<in> set (addrs ?us) then Freed else nodes ?w3 a)\<rparr>"
  have 4: "DestroySuite ?suite2 ?w3 = Some (Inr (?suite2\<lparr>sname := Freed\<rparr>, ?w4))"
    using destroyFrom_chain [of ?w3 "testCases suite1" ?us] ch(1) 1(5) ad(1) by (simp add: DestroySuite_def)
  have "?p + ?q = length ts"
    using sum_length_filter_compl [of id rs] runTests_length [OF assms(2)] by (simp add: comp_def)
  moreover have "nodes ?w4 = (\<lambda>a. if brk w \<le> a \<and> a < brk w + length ts then Freed else nodes w a)"
    using 1(4,9) ad(1) by (auto simp: fun_eq_iff)
  ultimately show ?thesis
    using 1(1) 2 3 4 ch(2) log by (simp add: DestroySuite_freed PrintTestResults_def)
qed

definition passing :: "nat test" where
  "passing s = Inr (True, s + 1)"

definition failing :: "nat test" where
  "failing s = Inr (s = 0, s)"

theorem suite_lifecycle_witness:
  "\<exists>suite w'. bind_loop (registerAll [(''a'', passing), (''b'', failing)] (InitTestSuite ''demo'')
        \<lparr>lg = logger0, clks = (\<lambda>_. clock0), nodes = (\<lambda>_. Null), brk = 0, target = 0\<rparr>) (\<lambda>(suite, w).
      bind_loop (ExecuteTestCases suite w) (\<lambda>(suite, w).
      bind_loop (Some (PrintTestResults suite w)) (\<lambda>w. DestroySuite suite w))) = Some (Inr (suite, w'))
    \<and> passed suite = 1 \<and> failed suite = 1 \<and> target w' = 1"
proof -
  let ?w = "\<lparr>lg = logger0, clks = (\<lambda>_. clock0), nodes = (\<lambda>_. Null), brk = 0, target = 0 :: nat\<rparr>"
  have "logsOk ?w"
    by (simp add: logsOk_def clock0_ok logger0_def logger_static_def)
  moreover have "runTests [(''a'', passing), (''b'', failing)] (target ?w) = Inr ([True, False], 1)"
    by (simp add: passing_def failing_def)
  ultimately show ?thesis
    using suite_lifecycle [of ?w "[(''a'', passing), (''b'', failing)]" "[True, False]" 1 "''demo''"]
    by auto
qed

end
