(* ===== verification/Test_Main.thy ===== *)
theory Test_Main
  imports Cpu_Tests Test_Suite_Properties
begin

text \<open>
  The test program, \<^verbatim>\<open>tests/test_main.c\<close>, with the suite that \<^verbatim>\<open>tests/cpu_tests.c\<close> builds: the
  arguments, the demonstration suite and the suite of the CPU, in one run.
\<close>

section \<open>The arguments\<close>

definition ArgDelimiter :: char where [simp]: "ArgDelimiter = CHR ''=''"

definition ArgLogLevel :: string where "ArgLogLevel = ''log_level''"

definition ArgLogLevelValue :: "string list" where
  "ArgLogLevelValue = [''fail'', ''pass'', ''info'', ''error'', ''warning'', ''debug'']"

definition LogLevelValueLen :: nat where "LogLevelValueLen = length ArgLogLevelValue"

definition printf_out :: "string \<Rightarrow> 'a cstate_scheme \<Rightarrow> 'a cstate_scheme" where
  "printf_out s st = st\<lparr>out := out st @ s\<rparr>"

text \<open>The loop over the names, from index \<open>j\<close>.\<close>

function levelLoop :: "string \<Rightarrow> nat \<Rightarrow> logger \<Rightarrow> bool \<times> logger" where
  "levelLoop arg j st =
    (if j < LogLevelValueLen then
       if arg = ArgLogLevelValue ! j then
         (let (handled, st) = SetLogLevel (of_nat j) st
          in (handled, printf_out (''Setting log level to '' @ arg @ newline) st))
       else levelLoop arg (j + 1) st
     else (False, st))"
  by pat_completeness auto
termination
  by (relation "measure (\<lambda>(_, j, _). LogLevelValueLen - j)") auto

declare levelLoop.simps [simp del]

definition HandleLogLevel :: "string \<Rightarrow> logger \<Rightarrow> bool \<times> logger" where
  "HandleLogLevel arg st =
    (if arg \<noteq> [] \<and> hd arg = ArgDelimiter then
       (let arg = tl arg; (handled, st) = levelLoop arg 0 st
        in (handled, if \<not> handled then printf_out (''Invalid log level: '' @ arg @ newline) st else st))
     else (False, st))"

definition usage :: "string \<Rightarrow> string" where
  "usage prog = ''Usage: '' @ prog @ '' --log_level=[fail|pass|info|error|warn|debug]'' @ newline"

text \<open>\<open>Some\<close> is the code of an \<open>exit\<close>. \<open>strncmp\<close> of the first characters is a comparison of prefixes.\<close>

fun argLoop :: "string \<Rightarrow> string list \<Rightarrow> logger \<Rightarrow> int option \<times> logger" where
  "argLoop prog [] st = (None, st)"
| "argLoop prog (arg # rest) st =
    (if take 2 arg \<noteq> ''--'' then (None, printf_out (''Invalid argument '' @ arg @ newline) st)
     else
       (let arg = drop 2 arg;
            (argHandled, st) =
              (if take (length ArgLogLevel) arg = ArgLogLevel
               then HandleLogLevel (drop (length ArgLogLevel) arg) st else (False, st))
        in if \<not> argHandled then (Some 1, printf_out (usage prog) st)
           else argLoop prog rest st))"

definition HandleArguments :: "string list \<Rightarrow> logger \<Rightarrow> int option \<times> logger" where
  "HandleArguments argv st = (case argv of [] \<Rightarrow> (None, st) | prog # args \<Rightarrow> argLoop prog args st)"

section \<open>The suites\<close>

definition testFunction :: "'s test" where
  "testFunction s = Inr ((1 :: int) = 1, s)"

definition anotherTestFunction :: "'s test" where
  "anotherTestFunction s = (let result = (True = False) in Inr (result, s))"

definition finalTestFunction :: "'s test" where
  "finalTestFunction s = Inr (''b'' = ''a'', s)"

definition RegisterCpuTestCase ::
    "string \<Rightarrow> gb test \<Rightarrow> TestSuite \<times> gb world \<Rightarrow> (TestSuite \<times> gb world) res option" where
  "RegisterCpuTestCase testName testFn = (\<lambda>(cpuTestSuite, w). RegisterTestCase cpuTestSuite testName testFn w)"

definition BuildCpuTestSuite :: "gb world \<Rightarrow> (TestSuite \<times> gb world) res option" where
  "BuildCpuTestSuite w =
    (let cpuTestSuite = InitTestSuite ''CPU Tests'' in
     bind_loop (RegisterCpuTestCase ''CPU Reset'' test_cpuReset (cpuTestSuite, w)) (\<lambda>s.
     RegisterCpuTestCase ''Test ld_A_n'' test_ld_A_n s))"

type_synonym outcome = "(int \<times> (TestSuite \<times> TestSuite) option \<times> gb world) res option"

text \<open>The result is the exit code, the two suites at the end when they were run, and the world.\<close>

definition test_main ::
    "os \<Rightarrow> string list \<Rightarrow> gb world \<Rightarrow> outcome" where
  "test_main e argv w =
    (case HandleArguments argv (lg w) of
       (Some code, l) \<Rightarrow> Some (Inr (code, None, w\<lparr>lg := l\<rparr>))
     | (None, l) \<Rightarrow>
       let w = TestEnvironmentInit e (w\<lparr>lg := l\<rparr>);
           demoTestSuite = InitTestSuite ''CPU'' in
       bind_loop (RegisterTestCase demoTestSuite ''Test 1 == 1'' testFunction w) (\<lambda>(demoTestSuite, w).
       bind_loop (RegisterTestCase demoTestSuite ''Should fail true != false'' anotherTestFunction w) (\<lambda>(demoTestSuite, w).
       bind_loop (RegisterTestCase demoTestSuite ''strcmp'' finalTestFunction w) (\<lambda>(demoTestSuite, w).
       bind_loop (ExecuteTestCases demoTestSuite w) (\<lambda>(demoTestSuite, w).
       bind_loop (Some (PrintTestResults demoTestSuite w)) (\<lambda>w.
       bind_loop (BuildCpuTestSuite w) (\<lambda>(cpuTestSuite, w).
       bind_loop (ExecuteTestCases cpuTestSuite w) (\<lambda>(cpuTestSuite, w).
       bind_loop (Some (PrintTestResults cpuTestSuite w)) (\<lambda>w.
       bind_loop (DestroySuite cpuTestSuite w) (\<lambda>(cpuTestSuite, w).
       bind_loop (DestroySuite demoTestSuite w) (\<lambda>(demoTestSuite, w).
       Some (Inr (0, Some (demoTestSuite, cpuTestSuite), w)))))))))))))"

section \<open>The arguments\<close>

lemma levelLoop_step:
  assumes "j < 6"
  shows "levelLoop arg j st =
    (if arg = ArgLogLevelValue ! j
     then (True, printf_out (''Setting log level to '' @ arg @ newline) (st\<lparr>currentLogLevel := of_nat j\<rparr>))
     else levelLoop arg (Suc j) st)"
proof -
  from assms have "j = 0 \<or> j = 1 \<or> j = 2 \<or> j = 3 \<or> j = 4 \<or> j = 5"
    by auto
  then have "(of_nat j :: u32) \<le> 5"
    by auto
  with assms show ?thesis
    by (subst levelLoop.simps) (simp add: LogLevelValueLen_def ArgLogLevelValue_def SetLogLevel_spec)
qed

lemma levelLoop_end: "6 \<le> j \<Longrightarrow> levelLoop arg j st = (False, st)"
  by (subst levelLoop.simps) (simp add: LogLevelValueLen_def ArgLogLevelValue_def)

definition levelIndex :: "string \<Rightarrow> u32 option" where
  "levelIndex v = map_of (zip ArgLogLevelValue [0, 1, 2, 3, 4, 5]) v"

lemma levelLoop_0:
  "levelLoop v 0 st = (case levelIndex v of None \<Rightarrow> (False, st)
     | Some l \<Rightarrow> (True, printf_out (''Setting log level to '' @ v @ newline) (st\<lparr>currentLogLevel := l\<rparr>)))"
  by (simp add: levelLoop_step levelLoop_end levelIndex_def ArgLogLevelValue_def)

text \<open>
  The option of the test program. With the argument \<^verbatim>\<open>--log_level=v\<close> the program goes on when \<open>v\<close>
  is one of the six names, at the level of that name; any other value leaves the level as it was, prints a
  message and the usage and exits with code 1. The value \<^verbatim>\<open>warn\<close>, which the usage message offers, is one of
  those.
\<close>

theorem log_level_argument:
  "HandleArguments [prog, ''--log_level='' @ v] st =
    (case levelIndex v of
       Some l \<Rightarrow> (None, st\<lparr>currentLogLevel := l, out := out st @ ''Setting log level to '' @ v @ newline\<rparr>)
     | None \<Rightarrow> (Some 1, st\<lparr>out := out st @ ''Invalid log level: '' @ v @ newline @ usage prog\<rparr>))
   \<and> levelIndex ''warn'' = None \<and> levelIndex ''warning'' = Some eWarning"
  by (simp add: HandleArguments_def ArgLogLevel_def HandleLogLevel_def levelLoop_0 printf_out_def
      split: option.split) (simp add: levelIndex_def ArgLogLevelValue_def)

section \<open>The program\<close>

lemma chain_cong: "chain h p ts \<Longrightarrow> (\<And>a. a \<in> set (addrs ts) \<Longrightarrow> h' a = h a) \<Longrightarrow> chain h' p ts"
  by (induction ts arbitrary: p) auto

lemma suiteRep_frame:
  "suiteRep suite w ts \<Longrightarrow> (\<And>a. a < brk w \<Longrightarrow> nodes w' a = nodes w a) \<Longrightarrow> brk w \<le> brk w' \<Longrightarrow> suiteRep suite w' ts"
  unfolding suiteRep_def by (auto simp: list_all_iff intro: chain_cong)

lemma suiteRep_counts [simp]:
  "suiteRep (suite\<lparr>passed := p\<rparr>) w ts = suiteRep suite w ts" "suiteRep (suite\<lparr>failed := q\<rparr>) w ts = suiteRep suite w ts"
  by (simp_all add: suiteRep_def)

lemma ExecuteTestCases_rep:
  assumes "suiteRep suite w ts" "logsOk w" "runTests (map snd ts) (target w) = Inr (rs, s)"
  shows "\<exists>w'. ExecuteTestCases suite w = Some (Inr (suite\<lparr>passed := passed suite + length (filter id rs),
      failed := failed suite + length (filter Not rs)\<rparr>, w'))
    \<and> nodes w' = nodes w \<and> brk w' = brk w \<and> target w' = s \<and> logsOk w'"
  using executeFrom_chain [of w "testCases suite" ts rs s suite] assms
  by (auto simp: ExecuteTestCases_def suiteRep_def)

lemma PrintTestResults_ok:
  assumes "logsOk w" "sname suite = Ptr n"
  shows "\<exists>w'. PrintTestResults suite w = Inr w' \<and> nodes w' = nodes w \<and> brk w' = brk w
    \<and> target w' = target w \<and> logsOk w'"
  using assms by (simp add: PrintTestResults_text)

lemma DestroySuite_rep:
  assumes "suiteRep suite w ts" "sname suite = Ptr n"
  shows "DestroySuite suite w = Some (Inr (suite\<lparr>sname := Freed\<rparr>,
    w\<lparr>nodes := (\<lambda>a. if a \<in> set (addrs ts) then Freed else nodes w a)\<rparr>))"
  using assms destroyFrom_chain [of w "testCases suite" ts] by (simp add: DestroySuite_def suiteRep_def)

lemma run_suite:
  assumes "logsOk w" "runTests ts (target w) = Inr (rs, s)"
  shows "\<exists>suite w'. (\<forall>F. bind_loop (registerAll ts (InitTestSuite n) w) (\<lambda>(suite, w).
      bind_loop (ExecuteTestCases suite w) (\<lambda>(suite, w).
      bind_loop (Some (PrintTestResults suite w)) (F suite))) = F suite w')
    \<and> suiteRep suite w' (zip [brk w..<brk w + length ts] ts) \<and> logsOk w' \<and> brk w' = brk w + length ts
    \<and> sname suite = Ptr n \<and> passed suite = length (filter id rs) \<and> failed suite = length (filter Not rs)
    \<and> target w' = s \<and> (\<forall>a. a < brk w \<or> brk w + length ts \<le> a \<longrightarrow> nodes w' a = nodes w a)"
proof -
  let ?us = "zip [brk w..<brk w + length ts] ts"
  from registerAll_rep [OF suiteRep_Init assms(1), of ts n] obtain s1 w1 where
    1: "registerAll ts (InitTestSuite n) w = Some (Inr (s1, w1))" "suiteRep s1 w1 ?us" "logsOk w1"
      "brk w1 = brk w + length ts" "sname s1 = Ptr n" "passed s1 = 0" "failed s1 = 0" "target w1 = target w"
      "\<forall>a. a < brk w \<or> brk w + length ts \<le> a \<longrightarrow> nodes w1 a = nodes w a"
    by (auto simp: InitTestSuite_def)
  let ?s2 = "s1\<lparr>passed := length (filter id rs), failed := length (filter Not rs)\<rparr>"
  from ExecuteTestCases_rep [OF 1(2,3), of rs s] assms(2) 1(6,7,8) obtain w2 where
    2: "ExecuteTestCases s1 w1 = Some (Inr (?s2, w2))" "nodes w2 = nodes w1" "brk w2 = brk w1" "target w2 = s" "logsOk w2"
    by auto
  from PrintTestResults_ok [OF 2(5), of ?s2 n] 1(5) obtain w3 where
    3: "PrintTestResults ?s2 w2 = Inr w3" "nodes w3 = nodes w2" "brk w3 = brk w2" "target w3 = target w2" "logsOk w3"
    by auto
  have "suiteRep ?s2 w3 ?us"
    using suiteRep_frame [OF 1(2), of w3] 2(2,3) 3(2,3) by simp
  with 1 2 3 show ?thesis
    by (intro exI [of _ ?s2] exI [of _ w3]) simp
qed

text \<open>The nested registrations of the code are registrations of a list.\<close>

lemma bind_loop_assoc: "bind_loop (bind_loop m f) g = bind_loop m (\<lambda>x. bind_loop (f x) g)"
  by (auto simp: bind_loop_def split: option.split sum.split)

lemma bind_loop_return: "bind_loop m (\<lambda>(a, b). Some (Inr (a, b))) = m"
  by (auto simp: bind_loop_def split: option.split sum.split)

definition demoTests :: "(string \<times> gb test) list" where
  "demoTests = [(''Test 1 == 1'', testFunction), (''Should fail true != false'', anotherTestFunction),
     (''strcmp'', finalTestFunction)]"

definition cpuTests :: "(string \<times> gb test) list" where
  "cpuTests = [(''CPU Reset'', test_cpuReset), (''Test ld_A_n'', test_ld_A_n)]"

lemma BuildCpuTestSuite_all: "BuildCpuTestSuite w = registerAll cpuTests (InitTestSuite ''CPU Tests'') w"
  by (simp add: BuildCpuTestSuite_def RegisterCpuTestCase_def cpuTests_def bind_loop_return case_prod_unfold
    bind_loop_return [unfolded case_prod_unfold prod.collapse])

lemma runTests_demo: "runTests demoTests s = Inr ([True, False, False], s)"
  by (simp add: demoTests_def testFunction_def anotherTestFunction_def finalTestFunction_def)

lemma runTests_cpu: "\<exists>s'. runTests cpuTests s = Inr ([True, True], s') \<and> rA (regs s') = 73"
proof -
  obtain g where "test_cpuReset s = Inr (True, g)"
    using unit_tests_outcome [of s s] by blast
  then show ?thesis
    using unit_tests_outcome [of s g] by (simp add: cpuTests_def)
qed

lemma logsOk_Init: "logsOk w \<Longrightarrow> logsOk (TestEnvironmentInit e w)"
  by (simp add: logsOk_def TestEnvironmentInit_def InitLogFiles_def CreateLogfile_spec malloc_def Let_def
    split: prod.split)

lemma TestEnvironmentInit_simps [simp]:
  "nodes (TestEnvironmentInit e w) = nodes w" "brk (TestEnvironmentInit e w) = brk w"
  "target (TestEnvironmentInit e w) = target w"
  by (simp_all add: TestEnvironmentInit_def)

lemma test_main_lists:
  "test_main e [prog] w =
    (let w = TestEnvironmentInit e w in
     bind_loop (registerAll demoTests (InitTestSuite ''CPU'') w) (\<lambda>(demo, w).
     bind_loop (ExecuteTestCases demo w) (\<lambda>(demo, w).
     bind_loop (Some (PrintTestResults demo w)) (\<lambda>w.
     bind_loop (registerAll cpuTests (InitTestSuite ''CPU Tests'') w) (\<lambda>(cpu, w).
     bind_loop (ExecuteTestCases cpu w) (\<lambda>(cpu, w).
     bind_loop (Some (PrintTestResults cpu w)) (\<lambda>w.
     bind_loop (DestroySuite cpu w) (\<lambda>(cpu, w).
     bind_loop (DestroySuite demo w) (\<lambda>(demo, w). Some (Inr (0, Some (demo, cpu), w)))))))))))"
  by (simp add: test_main_def HandleArguments_def demoTests_def BuildCpuTestSuite_all Let_def case_prod_unfold
    bind_loop_assoc)

text \<open>
  \<^bold>\<open>C34.\<close> The whole test program, run without arguments in any state of the emulator: it ends with exit
  code 0 after the three demonstration tests, of which one passes and two fail, and the two tests of the CPU,
  which both pass; A then holds the 73 of the last test. The five test cases have been allocated, executed
  and freed, and nothing else on the heap has changed. The exit code says nothing about the failures.
\<close>

theorem test_main_outcome:
  assumes "logsOk w"
  shows "\<exists>demo cpu w'. test_main e [prog] w = Some (Inr (0, Some (demo, cpu), w'))
    \<and> (passed demo, failed demo) = (1, 2) \<and> (passed cpu, failed cpu) = (2, 0)
    \<and> rA (regs (target w')) = 73
    \<and> nodes w' = (\<lambda>a. if brk w \<le> a \<and> a < brk w + 5 then Freed else nodes w a)"
proof -
  let ?w = "TestEnvironmentInit e w"
  let ?ds = "zip [brk w..<brk w + 3] demoTests"
  let ?cs = "zip [brk w + 3..<brk w + 5] cpuTests"
  have len: "length demoTests = 3" "length cpuTests = 2"
    by (simp_all add: demoTests_def cpuTests_def)
  have ad: "addrs ?ds = [brk w..<brk w + 3]" "addrs ?cs = [brk w + 3..<brk w + 5]"
    by (simp_all add: addrs_def len del: upt_Suc)
  from run_suite [OF logsOk_Init [OF assms, of e] runTests_demo, where n = "''CPU''"] obtain d w3 where
    d: "\<And>F :: TestSuite \<Rightarrow> gb world \<Rightarrow> outcome. bind_loop (registerAll demoTests (InitTestSuite ''CPU'') ?w) (\<lambda>(suite, w).
      bind_loop (ExecuteTestCases suite w) (\<lambda>(suite, w).
      bind_loop (Some (PrintTestResults suite w)) (F suite))) = F d w3"
      "suiteRep d w3 ?ds" "logsOk w3" "brk w3 = brk w + 3" "sname d = Ptr ''CPU''" "passed d = 1" "failed d = 2"
      "\<And>a. a < brk w \<or> brk w + 3 \<le> a \<Longrightarrow> nodes w3 a = nodes w a"
    by (auto simp: len numeral_2_eq_2)
  obtain s where s: "runTests cpuTests (target w3) = Inr ([True, True], s)" "rA (regs s) = 73"
    using runTests_cpu by blast
  from run_suite [OF d(3) s(1), where n = "''CPU Tests''"] obtain c w6 where
    c: "\<And>F :: TestSuite \<Rightarrow> gb world \<Rightarrow> outcome. bind_loop (registerAll cpuTests (InitTestSuite ''CPU Tests'') w3) (\<lambda>(suite, w).
      bind_loop (ExecuteTestCases suite w) (\<lambda>(suite, w).
      bind_loop (Some (PrintTestResults suite w)) (F suite))) = F c w6"
      "suiteRep c w6 ?cs" "brk w6 = brk w + 5" "sname c = Ptr ''CPU Tests''" "passed c = 2" "failed c = 0"
      "target w6 = s" "\<And>a. a < brk w + 3 \<or> brk w + 5 \<le> a \<Longrightarrow> nodes w6 a = nodes w3 a"
    by (auto simp: len d(4) numeral_eq_Suc)
  let ?w7 = "w6\<lparr>nodes := (\<lambda>a. if a \<in> set (addrs ?cs) then Freed else nodes w6 a)\<rparr>"
  have "nodes ?w7 a = nodes w3 a" if "a < brk w3" for a
    using that d(4) c(8) by (simp add: ad del: upt_Suc)
  then have demo: "suiteRep d ?w7 ?ds"
    using suiteRep_frame [OF d(2), of ?w7] d(4) c(3) by simp
  let ?w8 = "?w7\<lparr>nodes := (\<lambda>a. if a \<in> set (addrs ?ds) then Freed else nodes ?w7 a)\<rparr>"
  have "test_main e [prog] w = Some (Inr (0, Some (d\<lparr>sname := Freed\<rparr>, c\<lparr>sname := Freed\<rparr>), ?w8))"
    unfolding test_main_lists Let_def
    by (simp only: d(1) c(1) DestroySuite_rep [OF c(2,4)] DestroySuite_rep [OF demo d(5)] bind_loop_simps prod.case)
  moreover have "nodes ?w8 = (\<lambda>a. if brk w \<le> a \<and> a < brk w + 5 then Freed else nodes w a)"
    using d(8) c(8) by (auto simp: ad fun_eq_iff)
  ultimately show ?thesis
    using s(2) c d by (intro exI [of _ "d\<lparr>sname := Freed\<rparr>"] exI [of _ "c\<lparr>sname := Freed\<rparr>"] exI [of _ ?w8]) simp
qed

theorem test_main_outcome_witness:
  "\<exists>demo cpu w'. test_main os0 [''gb_test'']
      \<lparr>lg = logger0, clks = (\<lambda>_. clock0), nodes = (\<lambda>_. Null), brk = 0, target = gb_static (\<lambda>_. 0)\<rparr>
    = Some (Inr (0, Some (demo, cpu), w')) \<and> failed demo = 2 \<and> failed cpu = 0"
proof -
  have "logsOk \<lparr>lg = logger0, clks = (\<lambda>_. clock0), nodes = (\<lambda>_. Null), brk = 0, target = gb_static (\<lambda>_. 0)\<rparr>"
    by (simp add: logsOk_def clock0_ok logger0_def logger_static_def)
  from test_main_outcome [OF this, of os0 "''gb_test''"] show ?thesis
    by auto
qed

end
