(* ===== verification/Cjson.thy ===== *)
theory Cjson
  imports Clib
begin

text \<open>
  The part of \<^verbatim>\<open>libs/cJSON/cJSON.c\<close> that the server uses: building an object and printing it.

  \<^item> An item is a tree: the chain of \<open>next\<close> pointers of an object is the list of its members, in the
    order in which they were added. Every item has one parent, so a pointer to an item inside a tree
    is the path to it (\<open>at_path\<close>).
  \<^item> Numbers are those of the program, integers in the range of \<open>int\<close>, which the library keeps as they
    are and prints with \<^verbatim>\<open>%d\<close>. The branches for other numbers, for arrays, \<open>null\<close>, booleans and raw
    text are not modelled, nor failing allocations.
  \<^item> Printing writes into a buffer that grows: every write is checked against its length.
    The bytes behind the length are what \<open>realloc\<close> will find there, any bytes.
\<close>

datatype cJSON =
    cJSON_Number int
  | cJSON_String string
  | cJSON_Object "(string \<times> cJSON) list"

section \<open>Building\<close>

definition cJSON_CreateObject :: cJSON where
  "cJSON_CreateObject = cJSON_Object []"

definition cJSON_CreateNumber :: "int \<Rightarrow> cJSON" where
  "cJSON_CreateNumber num = cJSON_Number (if num \<ge> 2147483647 then 2147483647
     else if num \<le> -2147483648 then -2147483648 else num)"

definition cJSON_CreateString :: "string \<Rightarrow> cJSON" where
  "cJSON_CreateString s = cJSON_String s"

text \<open>Appending to the end of the chain; only objects are ever given members.\<close>

fun add_item_to_array :: "string \<times> cJSON \<Rightarrow> cJSON \<Rightarrow> cJSON" where
  "add_item_to_array item (cJSON_Object ms) = cJSON_Object (ms @ [item])"
| "add_item_to_array item x = x"

text \<open>Changing the item that a path leads to.\<close>

fun at_path :: "nat list \<Rightarrow> (cJSON \<Rightarrow> cJSON) \<Rightarrow> cJSON \<Rightarrow> cJSON" where
  "at_path [] f x = f x"
| "at_path (i # is) f (cJSON_Object ms) =
     cJSON_Object (if i < length ms then ms[i := (fst (ms ! i), at_path is f (snd (ms ! i)))] else ms)"
| "at_path (i # is) f x = x"

fun memberCount :: "nat list \<Rightarrow> cJSON \<Rightarrow> nat" where
  "memberCount [] (cJSON_Object ms) = length ms"
| "memberCount (i # is) (cJSON_Object ms) = (if i < length ms then memberCount is (snd (ms ! i)) else 0)"
| "memberCount _ _ = 0"

definition add_item_to_object :: "nat list \<Rightarrow> string \<Rightarrow> cJSON \<Rightarrow> cJSON \<Rightarrow> cJSON" where
  "add_item_to_object object string item root = at_path object (add_item_to_array (string, item)) root"

definition cJSON_AddNumberToObject :: "nat list \<Rightarrow> string \<Rightarrow> int \<Rightarrow> cJSON \<Rightarrow> cJSON" where
  "cJSON_AddNumberToObject object name number root =
    add_item_to_object object name (cJSON_CreateNumber number) root"

definition cJSON_AddStringToObject :: "nat list \<Rightarrow> string \<Rightarrow> string \<Rightarrow> cJSON \<Rightarrow> cJSON" where
  "cJSON_AddStringToObject object name string root =
    add_item_to_object object name (cJSON_CreateString string) root"

definition cJSON_AddObjectToObject :: "nat list \<Rightarrow> string \<Rightarrow> cJSON \<Rightarrow> nat list \<times> cJSON" where
  "cJSON_AddObjectToObject object name root =
    (object @ [memberCount object root], add_item_to_object object name cJSON_CreateObject root)"

section \<open>The print buffer\<close>

record printbuffer =
  buffer :: "nat \<Rightarrow> char"
  plength :: nat
  offset :: nat
  depth :: nat

definition INT_MAX :: nat where "INT_MAX = 2147483647"

abbreviation NUL :: char where "NUL \<equiv> CHR 0x00"

text \<open>\<open>ensure\<close> makes room for \<open>needed\<close> bytes and a terminator behind the offset; \<open>None\<close> is NULL.\<close>

definition ensure :: "nat \<Rightarrow> printbuffer \<Rightarrow> printbuffer option" where
  "ensure needed p =
    (if plength p > 0 \<and> offset p \<ge> plength p then None
     else if needed > INT_MAX then None
     else
       (let needed = needed + offset p + 1 in
        if needed \<le> plength p then Some p
        else if needed > INT_MAX div 2 then
          (if needed \<le> INT_MAX then Some (p\<lparr>plength := INT_MAX\<rparr>) else None)
        else Some (p\<lparr>plength := needed * 2\<rparr>)))"

text \<open>Writing bytes from a position on, with the end of the buffer checked.\<close>

fun put :: "nat \<Rightarrow> string \<Rightarrow> printbuffer \<Rightarrow> printbuffer res" where
  "put i [] p = Inr p"
| "put i (c # cs) p = bind_res (arr_set (plength p) (buffer p) i c) (\<lambda>b. put (i + 1) cs (p\<lparr>buffer := b\<rparr>))"

text \<open>\<open>strlen\<close> from a position on: the distance to the first zero byte inside the buffer.\<close>

definition strlen_at :: "nat \<Rightarrow> printbuffer \<Rightarrow> nat res" where
  "strlen_at i p =
    (case filter (\<lambda>j. buffer p j = NUL) [i..<plength p] of [] \<Rightarrow> Inl OutOfBounds | j # _ \<Rightarrow> Inr (j - i))"

definition update_offset :: "printbuffer \<Rightarrow> printbuffer res" where
  "update_offset p = bind_res (strlen_at (offset p) p) (\<lambda>n. Inr (p\<lparr>offset := offset p + n\<rparr>))"

section \<open>Printing\<close>

definition print_number :: "int \<Rightarrow> printbuffer \<Rightarrow> (bool \<times> printbuffer) res" where
  "print_number valueint p =
    (let number_buffer = decI valueint; len = length number_buffer in
     if len > 25 then Inr (False, p)
     else case ensure (len + 1) p of None \<Rightarrow> Inr (False, p)
     | Some p \<Rightarrow>
         bind_res (put (offset p) (number_buffer @ [NUL]) p) (\<lambda>p.
         Inr (True, p\<lparr>offset := offset p + len\<rparr>)))"

definition escapeCount :: "char \<Rightarrow> nat" where
  "escapeCount c =
    (if c = CHR 0x22 \<or> c = CHR 0x5C \<or> c = CHR 0x08 \<or> c = CHR 0x0C \<or> c = CHR 0x0A \<or> c = CHR 0x0D \<or> c = CHR 0x09
     then 1 else if of_char c < (32 :: nat) then 5 else 0)"

definition escapeChar :: "char \<Rightarrow> string" where
  "escapeChar c =
    (if of_char c > (31 :: nat) \<and> c \<noteq> CHR 0x22 \<and> c \<noteq> CHR 0x5C then [c]
     else CHR 0x5C #
       (if c = CHR 0x5C then [CHR 0x5C]
        else if c = CHR 0x22 then [CHR 0x22]
        else if c = CHR 0x08 then ''b''
        else if c = CHR 0x0C then ''f''
        else if c = CHR 0x0A then ''n''
        else if c = CHR 0x0D then ''r''
        else if c = CHR 0x09 then ''t''
        else CHR ''u'' # padTo 4 (hexL (of_char c))))"

definition print_string_ptr :: "string \<Rightarrow> printbuffer \<Rightarrow> (bool \<times> printbuffer) res" where
  "print_string_ptr input p =
    (let escape_characters = sum_list (map escapeCount input);
         output_length = length input + escape_characters
     in case ensure (output_length + 3) p of None \<Rightarrow> Inr (False, p)
     | Some p \<Rightarrow>
       if escape_characters = 0 then
         bind_res (put (offset p) ([CHR 0x22] @ input @ [CHR 0x22, NUL]) p) (\<lambda>p. Inr (True, p))
       else
         bind_res (put (offset p) (CHR 0x22 # concat (map escapeChar input)) p) (\<lambda>p.
         bind_res (put (offset p + output_length + 1) [CHR 0x22, NUL] p) (\<lambda>p. Inr (True, p))))"

definition tab :: char where "tab = CHR 0x09"

text \<open>The members of an object, then the closing brace. The flag \<open>format\<close> is always set.\<close>

definition close_object :: "printbuffer \<Rightarrow> (bool \<times> printbuffer) res" where
  "close_object p =
    (case ensure (depth p + 1) p of None \<Rightarrow> Inr (False, p)
     | Some p \<Rightarrow>
         bind_res (put (offset p) (replicate (depth p - 1) tab @ [CHR ''}'', NUL]) p) (\<lambda>p.
         Inr (True, p\<lparr>depth := depth p - 1\<rparr>)))"

text \<open>Running a printing step when the one before succeeded.\<close>

definition andThen ::
    "(bool \<times> printbuffer) res \<Rightarrow> (printbuffer \<Rightarrow> (bool \<times> printbuffer) res) \<Rightarrow> (bool \<times> printbuffer) res" where
  "andThen m f = bind_res m (\<lambda>(ok, p). if ok then f p else Inr (False, p))"

definition emit :: "nat \<Rightarrow> string \<Rightarrow> nat \<Rightarrow> printbuffer \<Rightarrow> (bool \<times> printbuffer) res" where
  "emit needed text advance p =
    (case ensure needed p of None \<Rightarrow> Inr (False, p)
     | Some p \<Rightarrow> bind_res (put (offset p) text p) (\<lambda>p. Inr (True, p\<lparr>offset := offset p + advance\<rparr>)))"

definition updated :: "printbuffer \<Rightarrow> (bool \<times> printbuffer) res" where
  "updated p = bind_res (update_offset p) (\<lambda>p. Inr (True, p))"

fun print_value :: "cJSON \<Rightarrow> printbuffer \<Rightarrow> (bool \<times> printbuffer) res"
  and print_members :: "(string \<times> cJSON) list \<Rightarrow> printbuffer \<Rightarrow> (bool \<times> printbuffer) res" where
  "print_value (cJSON_Number n) p = print_number n p"
| "print_value (cJSON_String s) p = print_string_ptr s p"
| "print_value (cJSON_Object ms) p =
     (case ensure 3 p of None \<Rightarrow> Inr (False, p)
      | Some p \<Rightarrow>
          bind_res (put (offset p) [CHR ''{'', CHR 0x0A] p) (\<lambda>p.
          print_members ms (p\<lparr>depth := depth p + 1, offset := offset p + 2\<rparr>)))"
| "print_members [] p = close_object p"
| "print_members ((name, item) # rest) p =
     andThen (emit (depth p) (replicate (depth p) tab) (depth p) p) (\<lambda>p.
     andThen (print_string_ptr name p) (\<lambda>p.
     andThen (updated p) (\<lambda>p.
     andThen (emit 2 [CHR '':'', tab] 2 p) (\<lambda>p.
     andThen (print_value item p) (\<lambda>p.
     andThen (updated p) (\<lambda>p.
     let len = 1 + (if rest \<noteq> [] then 1 else 0) in
     andThen (emit (len + 1) ((if rest \<noteq> [] then '','' else []) @ [CHR 0x0A, NUL]) len p) (\<lambda>p.
     print_members rest p)))))))"

text \<open>\<open>cJSON_Print\<close>: the text up to the terminator, or NULL. The 256 bytes of the first buffer hold any
  bytes.\<close>

definition cJSON_Print :: "(nat \<Rightarrow> char) \<Rightarrow> cJSON \<Rightarrow> string option res" where
  "cJSON_Print junk item =
    bind_res (print_value item \<lparr>buffer = junk, plength = 256, offset = 0, depth = 0\<rparr>) (\<lambda>(ok, p).
      if \<not> ok then Inr None
      else bind_res (update_offset p) (\<lambda>p. Inr (Some (map (buffer p) [0..<offset p]))))"

end
