(* ===== verification/Cpu_Debug.thy ===== *)
theory Cpu_Debug
  imports Cpu Logger Cjson
begin

text \<open>
  What \<^verbatim>\<open>src/cpu.c\<close> shows of the CPU: the trace of an instruction, the dump of the registers with the
  instruction that comes next, and the JSON object that the server sends. The counter \<open>cycles\<close> of
  \<open>DebugPrintCpuState\<close> is local, counted up and never read; it is left out.
\<close>

section \<open>The trace\<close>

definition DebugPrintInstruction :: "opcode \<Rightarrow> u16 \<Rightarrow> 'a logEnv_scheme \<Rightarrow> 'a logEnv_scheme res" where
  "DebugPrintInstruction inOpcode inOperand w =
    (if operandType inOpcode = OPERAND_CHAR then
       LogW eDebug (''Executing instruction = %s, operand = 0x%X'' @ newline)
         [VStr (asmName inOpcode), VUInt (unat inOperand)] w
     else if operandType inOpcode = OPERAND_SHORT then
       LogW eDebug (''Executing instruction = %s, operand = 0x%X'' @ newline)
         [VStr (asmName inOpcode), VUInt (unat inOperand)] w
     else if operandType inOpcode = NO_OPERANDS then
       LogW eDebug (''Executing instruction = %s'' @ newline) [VStr (asmName inOpcode)] w
     else Inr w)"

text \<open>The instruction at PC, found without executing it: its byte, its entry and its operand.\<close>

definition debugNext :: "gb \<Rightarrow> (u8 \<times> opcode \<times> u16) res" where
  "debugNext g =
    bind_res (mmuReadByte (rPC (regs g)) g) (\<lambda>aNextInstruction.
    bind_res
      (if aNextInstruction = 0xCB then
         bind_res (mmuReadByte (rPC (regs g) + 1) g) (\<lambda>aNextInstruction.
           Inr (aNextInstruction, CBOpcodeTable ! unat aNextInstruction))
       else Inr (aNextInstruction, baseOpcodeTable ! unat aNextInstruction))
      (\<lambda>(aNextInstruction, aNextOpcode).
    bind_res
      (if operandType aNextOpcode = OPERAND_CHAR then
         bind_res (mmuReadByte (rPC (regs g) + 1) g) (\<lambda>b. Inr (ucast b))
       else if operandType aNextOpcode = OPERAND_SHORT then mmuReadShort (rPC (regs g) + 1) g
       else Inr 0)
      (\<lambda>aNextOperand. Inr (aNextInstruction, aNextOpcode, aNextOperand))))"

text \<open>Arguments of \<^verbatim>\<open>printf\<close>: a byte or a short for \<^verbatim>\<open>%X\<close>, a flag for \<^verbatim>\<open>%d\<close>.\<close>

abbreviation vHex :: "'a::len word \<Rightarrow> vaArg" where "vHex x \<equiv> VUInt (unat x)"

abbreviation vInt :: "'a::len word \<Rightarrow> vaArg" where "vInt x \<equiv> VInt (int (unat x))"

definition debugStars :: string where
  "debugStars = newline @ ''*********************************'' @ newline"

definition DebugPrintCpuState :: "gb \<Rightarrow> 'a logEnv_scheme \<Rightarrow> 'a logEnv_scheme res" where
  "DebugPrintCpuState g w =
    (let r = regs g in
     bind_res (LogW eDebug debugStars [] w) (\<lambda>w.
     bind_res (LogW eDebug (''++++ CPU ++++'' @ newline) [] w) (\<lambda>w.
     bind_res (LogW eDebug (''Registers'' @ newline @ ''A: 0x%02X B: 0x%02X C: 0x%02X D: 0x%02X'' @ newline
         @ ''E: 0x%02X F: 0x%02X H: 0x%02X L: 0x%02X'' @ newline)
       [vHex (rA r), vHex (rB r), vHex (rC r), vHex (rD r), vHex (rE r), vHex (rF r), vHex (rH r), vHex (rL r)] w) (\<lambda>w.
     bind_res (LogW eDebug (''Flags: Z: %d N: %d H: %d C: %d'' @ newline)
       [vInt (checkFlag flagZero r), vInt (checkFlag flagNegative r), vInt (checkFlag flagHalfCarry r),
        vInt (checkFlag flagCarry r)] w) (\<lambda>w.
     bind_res (LogW eDebug (''PC: 0x%02X SP: 0x%02X'' @ newline) [vHex (rPC r), vHex (rSP r)] w) (\<lambda>w.
     bind_res (LogW eDebug (''Total cycles (ticks): %lu'' @ newline) [VUInt (unat (tickCounter g))] w) (\<lambda>w.
     bind_res (LogW eDebug newline [] w) (\<lambda>w.
     bind_res (debugNext g) (\<lambda>(aNextInstruction, aNextOpcode, aNextOperand).
     bind_res (LogW eDebug (''Next instruction = 0x%02X (%s 0x%02X)'' @ newline)
       [vHex aNextInstruction, VStr (asmName aNextOpcode), vHex aNextOperand] w) (\<lambda>w.
     bind_res (LogW eDebug newline [] w) (\<lambda>w.
     bind_res (LogW eDebug (''Cycles: %ld'' @ newline) [VInt (sint (tickCounter g))] w) (\<lambda>w.
     LogW eDebug debugStars [] w))))))))))))"

section \<open>The export\<close>

definition GetCPUDataAsJSON :: "gb \<Rightarrow> cJSON" where
  "GetCPUDataAsJSON g =
    (let r = regs g;
         cpuJson = cJSON_CreateObject;
         (registerJson, cpuJson) = cJSON_AddObjectToObject [] ''Registers'' cpuJson;
         cpuJson = cJSON_AddNumberToObject registerJson ''A'' (uint (rA r)) cpuJson;
         cpuJson = cJSON_AddNumberToObject registerJson ''F'' (uint (rF r)) cpuJson;
         cpuJson = cJSON_AddNumberToObject registerJson ''B'' (uint (rB r)) cpuJson;
         cpuJson = cJSON_AddNumberToObject registerJson ''C'' (uint (rC r)) cpuJson;
         cpuJson = cJSON_AddNumberToObject registerJson ''D'' (uint (rD r)) cpuJson;
         cpuJson = cJSON_AddNumberToObject registerJson ''E'' (uint (rE r)) cpuJson;
         cpuJson = cJSON_AddNumberToObject registerJson ''H'' (uint (rH r)) cpuJson;
         cpuJson = cJSON_AddNumberToObject registerJson ''L'' (uint (rL r)) cpuJson;
         cpuJson = cJSON_AddNumberToObject registerJson ''AF'' (uint (rAF r)) cpuJson;
         cpuJson = cJSON_AddNumberToObject registerJson ''BC'' (uint (rBC r)) cpuJson;
         cpuJson = cJSON_AddNumberToObject registerJson ''DE'' (uint (rDE r)) cpuJson;
         cpuJson = cJSON_AddNumberToObject registerJson ''HL'' (uint (rHL r)) cpuJson;
         cpuJson = cJSON_AddNumberToObject registerJson ''SP'' (uint (rSP r)) cpuJson;
         cpuJson = cJSON_AddNumberToObject registerJson ''PC'' (uint (rPC r)) cpuJson;
         (opcodeJson, cpuJson) = cJSON_AddObjectToObject [] ''Opcode'' cpuJson;
         cpuJson = cJSON_AddStringToObject opcodeJson ''Asm'' (lastOpcodeName g) cpuJson;
         cpuJson = cJSON_AddNumberToObject opcodeJson ''Operand'' (uint (lastOperand g)) cpuJson
     in cpuJson)"

end
