(* ===== verification/Cjson_Correct.thy ===== *)
theory Cjson_Correct
  imports Cjson
begin

text \<open>
  Printing an item never leaves the buffer, and the text it returns is the item in JSON, with one
  member to a line.
\<close>

section \<open>The text of an item\<close>

definition quote :: "string \<Rightarrow> string" where
  "quote s = CHR 0x22 # concat (map escapeChar s) @ [CHR 0x22]"

fun jsonText :: "nat \<Rightarrow> cJSON \<Rightarrow> string"
  and membersText :: "nat \<Rightarrow> (string \<times> cJSON) list \<Rightarrow> string" where
  "jsonText d (cJSON_Number n) = decI n"
| "jsonText d (cJSON_String s) = quote s"
| "jsonText d (cJSON_Object ms) = [CHR ''{'', CHR 0x0A] @ membersText (d + 1) ms"
| "membersText d [] = replicate (d - 1) tab @ ''}''"
| "membersText d ((name, item) # rest) =
     replicate d tab @ quote name @ [CHR '':'', tab] @ jsonText d item
       @ (if rest \<noteq> [] then '','' else []) @ [CHR 0x0A] @ membersText d rest"

text \<open>An item that C code can build here: numbers fit in an \<open>int\<close>, strings hold no zero byte.\<close>

fun itemOk :: "cJSON \<Rightarrow> bool" where
  "itemOk (cJSON_Number n) \<longleftrightarrow> -2147483648 \<le> n \<and> n \<le> 2147483647"
| "itemOk (cJSON_String s) \<longleftrightarrow> NUL \<notin> set s"
| "itemOk (cJSON_Object ms) \<longleftrightarrow> (\<forall>(name, item) \<in> set ms. NUL \<notin> set name \<and> itemOk item)"

section \<open>Buffers\<close>

lemma put_spec:
  "i + length s \<le> plength p \<Longrightarrow>
   put i s p = Inr (p\<lparr>buffer := (\<lambda>k. if i \<le> k \<and> k < i + length s then s ! (k - i) else buffer p k)\<rparr>)"
proof (induction s arbitrary: i p)
  case (Cons c s)
  then have "i < plength p" "Suc i + length s \<le> plength p"
    by simp_all
  with Cons.IH [of "Suc i" "p\<lparr>buffer := (buffer p)(i := c)\<rparr>"] show ?case
    by (auto simp: fun_eq_iff nth_Cons' le_Suc_eq intro!: arg_cong [where f = "\<lambda>b. buffer_update b p"]
      arg_cong [where f = "\<lambda>b _. b"])
next
  case Nil
  have "(\<lambda>k. if i \<le> k \<and> k < i then [] ! (k - i) else buffer p k) = buffer p"
    by (rule ext) (auto dest: leD)
  then show ?case by simp
qed

lemma ensure_room:
  assumes "offset p < plength p" "needed + offset p + 1 \<le> INT_MAX div 2"
  shows "\<exists>L. ensure needed p = Some (p\<lparr>plength := L\<rparr>) \<and> plength p \<le> L \<and> needed + offset p + 1 \<le> L"
proof (cases "needed + offset p + 1 \<le> plength p")
  case True
  with assms show ?thesis
    by (intro exI [of _ "plength p"]) (auto simp: ensure_def Let_def INT_MAX_def)
next
  case False
  with assms show ?thesis
    by (intro exI [of _ "(needed + offset p + 1) * 2"]) (auto simp: ensure_def Let_def INT_MAX_def)
qed

lemma strlen_at_eq:
  assumes "i + n < plength p" "buffer p (i + n) = NUL" "\<And>j. j < n \<Longrightarrow> buffer p (i + j) \<noteq> NUL"
  shows "strlen_at i p = Inr n"
proof -
  have "[i..<plength p] = [i..<i + n] @ (i + n) # [Suc (i + n)..<plength p]"
    using assms(1) upt_add_eq_append [of i "i + n" "plength p - (i + n)"]
    by (simp add: upt_conv_Cons del: upt_Suc)
  moreover have "filter (\<lambda>j. buffer p j = NUL) [i..<i + n] = []"
  proof -
    have "buffer p j \<noteq> NUL" if "i \<le> j" "j < i + n" for j
      using assms(3) [of "j - i"] that by simp
    then show ?thesis by (auto simp: filter_empty_conv)
  qed
  ultimately show ?thesis
    using assms(2) by (simp add: strlen_at_def del: upt_Suc)
qed

section \<open>Steps\<close>

lemma andThen_simps [simp]:
  "andThen (Inr (True, p)) f = f p" "andThen (Inr (False, p)) f = Inr (False, p)" "andThen (Inl e) f = Inl e"
  by (simp_all add: andThen_def)

lemma andThen_assoc: "andThen (andThen m f) g = andThen m (\<lambda>p. andThen (f p) g)"
  by (auto simp: andThen_def bind_res_def split: sum.split)

text \<open>The text \<open>t\<close> has been written behind the offset and the offset has moved behind it.\<close>

definition printed :: "printbuffer \<Rightarrow> string \<Rightarrow> printbuffer \<Rightarrow> bool" where
  "printed p t p' \<longleftrightarrow> offset p' = offset p + length t \<and> offset p' < plength p' \<and>
     (\<forall>i < offset p. buffer p' i = buffer p i) \<and> (\<forall>j < length t. buffer p' (offset p + j) = t ! j)"

lemma printed_append: "printed p s p1 \<Longrightarrow> printed p1 t p2 \<Longrightarrow> printed p (s @ t) p2"
proof -
  assume s: "printed p s p1" and t: "printed p1 t p2"
  have "buffer p2 (offset p + j) = (s @ t) ! j" if "j < length s + length t" for j
  proof (cases "j < length s")
    case True
    then show ?thesis using s t by (simp add: printed_def nth_append)
  next
    case False
    then obtain k where "j = length s + k"
      by (metis le_add_diff_inverse not_less)
    with that s t show ?thesis
      by (auto simp: printed_def nth_append add.assoc)
  qed
  with s t show ?thesis
    by (auto simp: printed_def)
qed

abbreviation room :: "printbuffer \<Rightarrow> nat \<Rightarrow> bool" where
  "room p n \<equiv> offset p < plength p \<and> offset p + n + 4 \<le> INT_MAX div 2"

lemma emit_spec:
  assumes "room p (length u)" "t = u \<or> t = u @ [NUL]" "length t \<le> needed" "needed \<le> length u + 2"
  shows "\<exists>p'. emit needed t (length u) p = Inr (True, p') \<and> printed p u p' \<and> depth p' = depth p"
proof -
  from ensure_room [of p needed] assms obtain L where
    L: "ensure needed p = Some (p\<lparr>plength := L\<rparr>)" "plength p \<le> L" "needed + offset p + 1 \<le> L"
    by auto
  with assms show ?thesis
    by (auto simp: emit_def put_spec printed_def nth_append)
qed

text \<open>A text without zero bytes, terminated, behind an offset that has not moved or has moved with it.\<close>

lemma updated_spec:
  assumes "offset q + length t < plength q" "\<And>j. j < length t \<Longrightarrow> buffer q (offset q + j) = t ! j"
    "buffer q (offset q + length t) = NUL" "NUL \<notin> set t"
  shows "updated q = Inr (True, q\<lparr>offset := offset q + length t\<rparr>)"
proof -
  have "strlen_at (offset q) q = Inr (length t)"
    using assms by (intro strlen_at_eq) (auto simp: in_set_conv_nth)
  then show ?thesis by (simp add: updated_def update_offset_def)
qed

text \<open>What a printing step does when it is followed by an update of the offset.\<close>

definition printsStep :: "(printbuffer \<Rightarrow> (bool \<times> printbuffer) res) \<Rightarrow> printbuffer \<Rightarrow> string \<Rightarrow> nat \<Rightarrow> bool" where
  "printsStep f p t d \<longleftrightarrow> (\<exists>p'. andThen (f p) updated = Inr (True, p') \<and> printed p t p' \<and> depth p' = d)"

section \<open>Strings and numbers\<close>

lemma escapeChar_length: "length (escapeChar c) = 1 + escapeCount c"
proof -
  have "length (hexL (of_char c)) \<le> 4"
    unfolding hexL_def using nat_of_char_less_256 [of c]
    by (intro digits_length) (simp_all add: less_trans [OF nat_of_char_less_256])
  then show ?thesis
    by (auto simp: escapeChar_def escapeCount_def)
qed

lemma escapes_length: "length (concat (map escapeChar s)) = length s + sum_list (map escapeCount s)"
  by (induction s) (simp_all add: escapeChar_length)

lemma no_escapes: "sum_list (map escapeCount s) = 0 \<Longrightarrow> concat (map escapeChar s) = s"
proof (induction s)
  case (Cons c s)
  then have "escapeCount c = 0" by simp
  then have "escapeChar c = [c]"
    by (auto simp: escapeCount_def escapeChar_def split: if_splits)
  with Cons show ?case by simp
qed simp

lemma put_append: "put i (s @ t) p = bind_res (put i s p) (put (i + length s) t)"
proof (induction s arbitrary: i p)
  case (Cons c s)
  show ?case
    by (cases "arr_set (plength p) (buffer p) i c") (simp_all add: Cons.IH)
qed simp

lemma put_offset: "put i s p = Inr q \<Longrightarrow> offset q = offset p"
  by (induction s arbitrary: i p) (auto elim!: bind_res_InrE)

text \<open>Both branches of the code write the quoted string and a terminator.\<close>

lemma print_string_ptr_eq:
  "print_string_ptr s p =
    (case ensure (length (quote s) + 1) p of None \<Rightarrow> Inr (False, p)
     | Some p \<Rightarrow> bind_res (put (offset p) (quote s @ [NUL]) p) (\<lambda>p. Inr (True, p)))"
proof -
  let ?c = "concat (map escapeChar s)" and ?n = "sum_list (map escapeCount s)"
  have len: "length (quote s) + 1 = length s + ?n + 3"
    by (simp add: quote_def escapes_length)
  have q: "quote s @ [NUL] = (CHR 0x22 # ?c) @ [CHR 0x22, NUL]"
    by (simp add: quote_def)
  have second: "bind_res (put (offset p) (CHR 0x22 # ?c) p) (\<lambda>p.
      bind_res (put (offset p + (length s + ?n) + 1) [CHR 0x22, NUL] p) (\<lambda>p. Inr (True, p)))
    = bind_res (put (offset p) (quote s @ [NUL]) p) (\<lambda>p. Inr (True, p))" for p
    unfolding q put_append
    by (cases "put (offset p) (CHR 0x22 # ?c) p")
       (simp_all only: bind_res_Inl bind_res_Inr put_offset list.size escapes_length add.assoc add_Suc_right
          add_0_right add_0 Suc_eq_plus1)
  have first: "[CHR 0x22] @ s @ [CHR 0x22, NUL] = quote s @ [NUL]" if "?n = 0"
    using no_escapes [OF that] by (simp add: quote_def)
  show ?thesis
    unfolding print_string_ptr_def Let_def len
    by (cases "ensure (length s + ?n + 3) p"; cases "?n = 0")
       (simp_all only: option.case refl if_True if_False first second)
qed

lemma digits_no_NUL: "(\<And>d. d < b \<Longrightarrow> c d \<noteq> NUL) \<Longrightarrow> 2 \<le> b \<Longrightarrow> NUL \<notin> set (digits c b n)"
proof (induction c b n rule: digits.induct)
  case (1 c b n)
  then have "NUL \<noteq> c n" if "n < b"
    using that by metis
  moreover have "NUL \<noteq> c (n mod b)"
    using 1 by (metis mod_less_divisor not_numeral_le_zero not_less gr0I)
  ultimately show ?case
    using 1 by (subst digits.simps) simp
qed

lemma digit_no_NUL: "d < 10 \<Longrightarrow> digitChar d \<noteq> NUL" "d < 16 \<Longrightarrow> digitLower d \<noteq> NUL"
  by (auto simp: digitChar_def digitLower_def char_of_eq_iff take_bit_eq_mod)

lemma decI_no_NUL: "NUL \<notin> set (decI n)"
  by (simp add: decI_def decU_def digits_no_NUL digit_no_NUL)

lemma hexL_no_NUL: "NUL \<notin> set (hexL n)"
  by (simp add: hexL_def digits_no_NUL digit_no_NUL)

lemma notin_if: "x \<notin> set a \<Longrightarrow> x \<notin> set b \<Longrightarrow> x \<notin> set (if P then a else b)"
  by simp

lemma notin_Cons: "x \<noteq> c \<Longrightarrow> x \<notin> set a \<Longrightarrow> x \<notin> set (c # a)"
  by simp

lemma escapeChar_no_NUL:
  assumes "c \<noteq> NUL"
  shows "NUL \<notin> set (escapeChar c)"
proof -
  have c: "NUL \<noteq> c"
    using assms by metis
  have h: "NUL \<notin> set (padTo 4 (hexL (of_char c)))"
    using hexL_no_NUL [of "of_char c"] by (auto simp: padTo_def)
  show ?thesis
    unfolding escapeChar_def
    by (intro notin_if notin_Cons; (rule c | rule h | simp only: char.inject simp_thms list.set empty_iff))
qed

lemma escapes_no_NUL: "NUL \<notin> set s \<Longrightarrow> NUL \<notin> set (concat (map escapeChar s))"
proof (induction s)
  case (Cons c s)
  then have "c \<noteq> NUL" "NUL \<notin> set s"
    by (metis list.set_intros(1), metis list.set_intros(2))
  with Cons.IH escapeChar_no_NUL [of c] show ?case
    by (simp only: list.map concat.simps set_append Un_iff simp_thms)
qed simp

lemma quote_no_NUL: "NUL \<notin> set s \<Longrightarrow> NUL \<notin> set (quote s)"
  using escapes_no_NUL [of s] by (simp add: quote_def del: set_concat)

lemma decI_length: "-2147483648 \<le> n \<Longrightarrow> n \<le> 2147483647 \<Longrightarrow> length (decI n) \<le> 11"
proof -
  assume n: "-2147483648 \<le> n" "n \<le> 2147483647"
  have "length (decU m) \<le> 10" if "m < 10 ^ 10" for m
    unfolding decU_def using that by (intro digits_length) simp_all
  moreover have "nat n < 10 ^ 10" "nat (- n) < 10 ^ 10"
    using n by simp_all
  ultimately have "length (decU (nat n)) \<le> 10" "length (decU (nat (- n))) \<le> 10"
    by blast+
  then show ?thesis
    by (simp add: decI_def)
qed

text \<open>A terminated text at the offset, and the update that follows it.\<close>

lemma terminated_step:
  assumes "plength p \<le> L" "offset p + length t < L" "NUL \<notin> set t" "k = 0 \<or> k = length t"
  shows "\<exists>q. put (offset p) (t @ [NUL]) (p\<lparr>plength := L\<rparr>) = Inr q
    \<and> (\<exists>p'. updated (q\<lparr>offset := offset q + k, depth := d\<rparr>) = Inr (True, p') \<and> printed p t p' \<and> depth p' = d)
    \<and> depth q = depth p"
proof -
  let ?q = "p\<lparr>plength := L, buffer := (\<lambda>k. if offset p \<le> k \<and> k < offset p + length (t @ [NUL])
      then (t @ [NUL]) ! (k - offset p) else buffer p k)\<rparr>"
  have put: "put (offset p) (t @ [NUL]) (p\<lparr>plength := L\<rparr>) = Inr ?q"
    using assms(2) by (subst put_spec) (simp_all cong: if_cong)
  have "updated (?q\<lparr>offset := offset ?q + k, depth := d\<rparr>)
      = Inr (True, ?q\<lparr>offset := offset p + length t, depth := d\<rparr>)"
  proof (cases "k = 0")
    case True
    then show ?thesis
      using assms updated_spec [of "?q\<lparr>depth := d\<rparr>" t] by (simp add: nth_append)
  next
    case False
    with assms updated_spec [of "?q\<lparr>offset := offset ?q + k, depth := d\<rparr>" "[]"] show ?thesis
      by (simp add: nth_append)
  qed
  then show ?thesis
    using put assms(2) by (auto simp: printed_def nth_append)
qed

lemma depth_same: "depth q = d \<Longrightarrow> q\<lparr>depth := d\<rparr> = q"
  by (cases q) simp

lemma quote_step:
  assumes "room p (length (quote s))" "NUL \<notin> set s"
  shows "printsStep (print_string_ptr s) p (quote s) (depth p)"
proof -
  from ensure_room [of p "length (quote s) + 1"] assms obtain L where
    L: "ensure (length (quote s) + 1) p = Some (p\<lparr>plength := L\<rparr>)" "plength p \<le> L"
      "length (quote s) + 1 + offset p + 1 \<le> L"
    by auto
  from terminated_step [OF L(2) _ quote_no_NUL [OF assms(2)], of 0 "depth p"] L(3) show ?thesis
    by (auto simp: depth_same print_string_ptr_eq printsStep_def L(1) [simplified])
qed

lemma number_step:
  assumes "room p (length (decI n))" "-2147483648 \<le> n" "n \<le> 2147483647"
  shows "printsStep (print_number n) p (decI n) (depth p)"
proof -
  from ensure_room [of p "length (decI n) + 1"] assms obtain L where
    L: "ensure (length (decI n) + 1) p = Some (p\<lparr>plength := L\<rparr>)" "plength p \<le> L"
      "length (decI n) + 1 + offset p + 1 \<le> L"
    by auto
  have "\<not> 25 < length (decI n)"
    using decI_length [OF assms(2,3)] by simp
  with terminated_step [OF L(2) _ decI_no_NUL, of n "length (decI n)" "depth p"] L(3) show ?thesis
    by (auto simp: depth_same print_number_def printsStep_def Let_def L(1) [simplified])
qed

section \<open>Items\<close>

lemma printsStep_then:
  "printsStep f p t d \<Longrightarrow>
   \<exists>p'. (\<forall>K. andThen (f p) (\<lambda>p. andThen (updated p) K) = K p') \<and> printed p t p' \<and> depth p' = d"
  by (auto simp: printsStep_def simp flip: andThen_assoc)

lemma room_after: "printed p s p1 \<Longrightarrow> room p (length s + n) \<Longrightarrow> room p1 n"
  by (simp add: printed_def)

lemma close_step:
  assumes "room p (length (membersText (depth p) []))" "0 < depth p"
  shows "printsStep close_object p (membersText (depth p) []) (depth p - 1)"
proof -
  let ?t = "replicate (depth p - 1) tab @ ''}''"
  have len: "length ?t = depth p"
    using assms(2) by simp
  from ensure_room [of p "depth p + 1"] assms len obtain L where
    L: "ensure (depth p + 1) p = Some (p\<lparr>plength := L\<rparr>)" "plength p \<le> L" "depth p + 1 + offset p + 1 \<le> L"
    by auto
  have close: "replicate (depth p - 1) tab @ [CHR ''}'', NUL] = ?t @ [NUL]"
    by simp
  have "NUL \<notin> set ?t"
    by (simp add: tab_def)
  from terminated_step [OF L(2) _ this, of 0 "depth p - 1"] L(3) len obtain q p' where
    "put (offset p) (?t @ [NUL]) (p\<lparr>plength := L\<rparr>) = Inr q" "depth q = depth p"
    "updated (q\<lparr>depth := depth p - 1\<rparr>) = Inr (True, p')" "printed p ?t p'" "depth p' = depth p - 1"
    by auto
  then show ?thesis
    by (simp add: close_object_def printsStep_def L(1) [simplified] close [simplified])
qed

lemma open_step:
  assumes "room p (n + 2)"
  shows "\<exists>p'. (case ensure 3 p of None \<Rightarrow> Inr (False, p)
      | Some p \<Rightarrow> bind_res (put (offset p) [CHR ''{'', CHR 0x0A] p) (\<lambda>p.
          f (p\<lparr>depth := depth p + 1, offset := offset p + 2\<rparr>))) = f p'
    \<and> printed p [CHR ''{'', CHR 0x0A] p' \<and> depth p' = depth p + 1"
proof -
  from ensure_room [of p 3] assms obtain L where
    "ensure 3 p = Some (p\<lparr>plength := L\<rparr>)" "plength p \<le> L" "3 + offset p + 1 \<le> L"
    by auto
  then show ?thesis
    by (auto simp: put_spec printed_def nth_Cons')
qed

lemma print_steps:
  "itemOk item \<Longrightarrow> room p (length (jsonText (depth p) item)) \<Longrightarrow>
   printsStep (print_value item) p (jsonText (depth p) item) (depth p)"
  "\<forall>(name, item) \<in> set ms. NUL \<notin> set name \<and> itemOk item \<Longrightarrow> 0 < depth p \<Longrightarrow>
   room p (length (membersText (depth p) ms)) \<Longrightarrow>
   printsStep (print_members ms) p (membersText (depth p) ms) (depth p - 1)"
proof (induction item p and ms p rule: print_value_print_members.induct)
  case (1 n p)
  then show ?case using number_step [of p n] by simp
next
  case (2 s p)
  then show ?case using quote_step [of p s] by simp
next
  case (3 ms p)
  let ?t = "membersText (depth p + 1) ms"
  from open_step [of p "length ?t" "print_members ms"] 3(3) obtain p1 where
    p1: "print_value (cJSON_Object ms) p = print_members ms p1" "printed p [CHR ''{'', CHR 0x0A] p1"
      "depth p1 = depth p + 1"
    by auto
  have "room p1 (length ?t)"
    using room_after [OF p1(2), of "length ?t"] 3(3) by simp
  obtain x2 where x2: "ensure 3 p = Some x2"
    using ensure_room [of p 3] 3(3) by auto
  define x where "x = p1\<lparr>depth := depth p, offset := offset p1 - 2\<rparr>"
  have "p1 = x\<lparr>depth := depth x + 1, offset := offset x + 2\<rparr>" "depth x = depth p"
    using p1(2,3) by (simp_all add: x_def printed_def)
  with 3(1) [OF x2, of x] 3(2) \<open>room p1 (length ?t)\<close> have "printsStep (print_members ms) p1 ?t (depth p)"
    by auto
  with p1 show ?case
    by (auto simp: printsStep_def intro: printed_append [of p "[CHR ''{'', CHR 0x0A]", simplified])
next
  case (4 p)
  then show ?case using close_step [of p] by simp
next
  case (5 name item rest p)
  let ?v = "jsonText (depth p) item" and ?r = "membersText (depth p) rest"
  let ?c = "(if rest \<noteq> [] then '','' else []) @ [CHR 0x0A]" and ?d = "depth p"
  define len where "len = 1 + (if rest \<noteq> [] then 1 else (0 :: nat))"
  have len: "length ?c = len"
    by (simp add: len_def)
  have room: "room p (?d + (length (quote name) + (2 + (length ?v + (len + length ?r)))))"
    using 5 by (auto simp: len_def)
  obtain p1 where p1: "emit ?d (replicate ?d tab) ?d p = Inr (True, p1)" "printed p (replicate ?d tab) p1" "depth p1 = ?d"
    using emit_spec [of p "replicate ?d tab" "replicate ?d tab" ?d] room by auto
  note r1 = room_after [OF p1(2), simplified length_replicate, OF room]
  obtain p2 where p2: "\<And>K. andThen (print_string_ptr name p1) (\<lambda>p. andThen (updated p) K) = K p2"
      "printed p1 (quote name) p2" "depth p2 = ?d"
    using printsStep_then [OF quote_step [of p1 name]] r1 5 p1(3) by auto
  note r2 = room_after [OF p2(2) r1]
  obtain p3 where p3: "emit 2 [CHR '':'', tab] 2 p2 = Inr (True, p3)" "printed p2 [CHR '':'', tab] p3" "depth p3 = ?d"
    using emit_spec [of p2 "[CHR '':'', tab]" "[CHR '':'', tab]" 2] r2 p2(3) by (auto simp: numeral_2_eq_2)
  have r3: "room p3 (length ?v + (len + length ?r))"
    by (rule room_after [OF p3(2)]) (use r2 in simp)
  have "printsStep (print_value item) p3 (jsonText (depth p3) item) (depth p3)"
    by (rule 5(1)) (use 5(3) r3 p3(3) in simp_all)
  then have "printsStep (print_value item) p3 ?v ?d"
    by (simp only: p3(3))
  from printsStep_then [OF this] obtain p4 where
    p4: "\<And>K. andThen (print_value item p3) (\<lambda>p. andThen (updated p) K) = K p4" "printed p3 ?v p4" "depth p4 = ?d"
    by auto
  note r4 = room_after [OF p4(2) r3]
  obtain p5 where p5: "emit (len + 1) (?c @ [NUL]) len p4 = Inr (True, p5)" "printed p4 ?c p5" "depth p5 = ?d"
    using emit_spec [of p4 ?c "?c @ [NUL]" "len + 1"] r4 p4(3) len by auto
  have r5: "room p5 (length ?r)"
    by (rule room_after [OF p5(2)]) (use r4 len in simp)
  have "printsStep (print_members rest) p5 (membersText (depth p5) rest) (depth p5 - 1)"
    by (rule 5(2) [OF refl]) (use 5(3,4) r5 p5(3) in simp_all)
  then have "printsStep (print_members rest) p5 ?r (?d - 1)"
    by (simp only: p5(3))
  then obtain p6 where p6: "andThen (print_members rest p5) updated = Inr (True, p6)" "printed p5 ?r p6"
      "depth p6 = ?d - 1"
    by (auto simp: printsStep_def)
  have "print_members ((name, item) # rest) p = print_members rest p5"
    unfolding print_members.simps Let_def p1(3) p1(1) andThen_simps p2(1) p3(1) p4(1) len_def [symmetric]
    using p5(1) by simp
  moreover have "printed p (membersText ?d ((name, item) # rest)) p6"
    using printed_append [OF p1(2) printed_append [OF p2(2) printed_append [OF p3(2) printed_append [OF p4(2)
      printed_append [OF p5(2) p6(2)]]]]] by simp
  ultimately show ?case
    using p6 unfolding printsStep_def by auto
qed

text \<open>The printer stays inside its growing buffer and returns the text of the item, whatever bytes the
  allocated memory holds.\<close>

lemma cJSON_Print_text:
  assumes "itemOk item" and "length (jsonText 0 item) + 4 \<le> INT_MAX div 2"
  shows "cJSON_Print junk item = Inr (Some (jsonText 0 item))"
proof -
  let ?p = "\<lparr>buffer = junk, plength = 256, offset = 0, depth = 0\<rparr>"
  have "printsStep (print_value item) ?p (jsonText 0 item) 0"
    using print_steps(1) [OF assms(1), of ?p] assms(2) by simp
  then obtain q p' where q: "print_value item ?p = Inr (True, q)" "update_offset q = Inr p'" "printed ?p (jsonText 0 item) p'"
    by (auto simp: printsStep_def andThen_def updated_def bind_res_eq_Inr split: if_splits)
  have "map (buffer p') [0..<offset p'] = jsonText 0 item"
    using q(3) by (auto simp: printed_def intro: nth_equalityI)
  with q(1,2) show ?thesis
    by (simp add: cJSON_Print_def)
qed

end
