(* ===== verification/Json_Reader.thy ===== *)
theory Json_Reader
  imports Cjson_Correct
begin

text \<open>
  A reader of JSON texts as RFC 8259 defines them, for objects, strings and integers, independent of the
  library, and the round trip: what the library prints is read back as the item that was printed.
\<close>

section \<open>The reader\<close>

definition isDigit :: "char \<Rightarrow> bool" where
  "isDigit c \<longleftrightarrow> 48 \<le> (of_char c :: nat) \<and> of_char c \<le> (57 :: nat)"

definition hexVal :: "char \<Rightarrow> nat option" where
  "hexVal c = (let n = of_char c :: nat in
     if 48 \<le> n \<and> n \<le> 57 then Some (n - 48) else if 97 \<le> n \<and> n \<le> 102 then Some (n - 87)
     else if 65 \<le> n \<and> n \<le> 70 then Some (n - 55) else None)"

text \<open>Four hexadecimal digits. Only code points below 256 are characters here.\<close>

definition hex4 :: "string \<Rightarrow> char option" where
  "hex4 s = (if length s = 4 \<and> (\<forall>c \<in> set s. hexVal c \<noteq> None)
     then let n = foldl (\<lambda>a c. 16 * a + the (hexVal c)) 0 s in if n < 256 then Some (char_of n) else None
     else None)"

definition unescape :: "char \<Rightarrow> char option" where
  "unescape e = map_of [(CHR 0x22, CHR 0x22), (CHR 0x5C, CHR 0x5C), (CHR ''/'', CHR ''/''),
     (CHR ''b'', CHR 0x08), (CHR ''f'', CHR 0x0C), (CHR ''n'', CHR 0x0A), (CHR ''r'', CHR 0x0D),
     (CHR ''t'', CHR 0x09)] e"

text \<open>The characters of a string up to the closing quote. Control characters must be escaped.\<close>

function readChars :: "string \<Rightarrow> (string \<times> string) option" where
  "readChars [] = None"
| "readChars (c # r) =
    (if c = CHR 0x22 then Some ([], r)
     else if of_char c < (32 :: nat) then None
     else if c \<noteq> CHR 0x5C then map_option (\<lambda>(s, t). (c # s, t)) (readChars r)
     else if take 1 r = ''u'' then
       (case hex4 (take 4 (drop 1 r)) of None \<Rightarrow> None
        | Some x \<Rightarrow> map_option (\<lambda>(s, t). (x # s, t)) (readChars (drop 5 r)))
     else (case r of [] \<Rightarrow> None
        | e # r' \<Rightarrow> (case unescape e of None \<Rightarrow> None
           | Some x \<Rightarrow> map_option (\<lambda>(s, t). (x # s, t)) (readChars r'))))"
  by pat_completeness auto
termination
  by (relation "measure length") auto

definition readNat :: "string \<Rightarrow> (nat \<times> string) option" where
  "readNat s = (let ds = takeWhile isDigit s in
     if ds = [] \<or> hd ds = CHR ''0'' \<and> length ds > 1 then None
     else Some (foldl (\<lambda>a c. 10 * a + (of_char c - 48)) 0 ds, dropWhile isDigit s))"

definition readInt :: "string \<Rightarrow> (int \<times> string) option" where
  "readInt s = (if take 1 s = ''-'' then map_option (\<lambda>(n, r). (- int n, r)) (readNat (tl s))
     else map_option (\<lambda>(n, r). (int n, r)) (readNat s))"

definition skipWs :: "string \<Rightarrow> string" where
  "skipWs s = dropWhile (\<lambda>c. c \<in> {CHR 0x20, CHR 0x09, CHR 0x0A, CHR 0x0D}) s"

text \<open>Values and the members of an object, with a bound on the number of steps.\<close>

fun readValue :: "nat \<Rightarrow> string \<Rightarrow> (cJSON \<times> string) option"
  and readMembers :: "nat \<Rightarrow> string \<Rightarrow> ((string \<times> cJSON) list \<times> string) option" where
  "readValue 0 s = None"
| "readValue (Suc k) s =
    (case skipWs s of [] \<Rightarrow> None
     | c # r \<Rightarrow>
        if c = CHR 0x22 then map_option (\<lambda>(t, r). (cJSON_String t, r)) (readChars r)
        else if c = CHR ''{'' then
          (if take 1 (skipWs r) = ''}'' then Some (cJSON_Object [], tl (skipWs r))
           else map_option (\<lambda>(ms, r). (cJSON_Object ms, r)) (readMembers k r))
        else map_option (\<lambda>(n, r). (cJSON_Number n, r)) (readInt (c # r)))"
| "readMembers 0 s = None"
| "readMembers (Suc k) s =
    (if take 1 (skipWs s) = [CHR 0x22] then
      (case readChars (tl (skipWs s)) of None \<Rightarrow> None
       | Some (name, r) \<Rightarrow>
          if take 1 (skipWs r) = '':'' then
            (case readValue k (tl (skipWs r)) of None \<Rightarrow> None
             | Some (item, r) \<Rightarrow>
                if take 1 (skipWs r) = '','' then
                  map_option (\<lambda>(ms, r). ((name, item) # ms, r)) (readMembers k (tl (skipWs r)))
                else if take 1 (skipWs r) = ''}'' then Some ([(name, item)], tl (skipWs r))
                else None)
          else None)
     else None)"

text \<open>A whole text: one value and nothing but white space behind it.\<close>

definition readJson :: "string \<Rightarrow> cJSON option" where
  "readJson s = (case readValue (length s + 1) s of None \<Rightarrow> None
     | Some (item, r) \<Rightarrow> if skipWs r = [] then Some item else None)"

section \<open>Reading back a string\<close>

lemma hexVal_digit: "d < 16 \<Longrightarrow> hexVal (digitLower d) = Some d" "hexVal (CHR ''0'') = Some 0"
  by (simp_all add: hexVal_def digitLower_def Let_def)

lemma replicate_few: "replicate 2 x = [x, x]" "replicate 3 x = [x, x, x]"
  by (simp_all add: eval_nat_numeral)

lemma hexL_control:
  "n < 32 \<Longrightarrow> padTo 4 (hexL n) = [CHR ''0'', CHR ''0'', if n < 16 then CHR ''0'' else digitLower (n div 16),
     digitLower (n mod 16)]"
  by (simp add: hexL_def digits.simps [of _ _ n] digits.simps [of _ _ "n div 16"] padTo_def replicate_few
    less_mult_imp_div_less)

lemma hex4_escape: "of_char c < (32 :: nat) \<Longrightarrow> hex4 (padTo 4 (hexL (of_char c))) = Some c"
  by (simp add: hexL_control hex4_def hexVal_digit Let_def less_mult_imp_div_less)

lemma unescape_simps:
  "unescape (CHR 0x22) = Some (CHR 0x22)" "unescape (CHR 0x5C) = Some (CHR 0x5C)"
  "unescape (CHR ''b'') = Some (CHR 0x08)" "unescape (CHR ''f'') = Some (CHR 0x0C)"
  "unescape (CHR ''n'') = Some (CHR 0x0A)" "unescape (CHR ''r'') = Some (CHR 0x0D)"
  "unescape (CHR ''t'') = Some (CHR 0x09)"
  by (simp_all add: unescape_def)

lemma readChars_plain:
  "32 \<le> (of_char c :: nat) \<Longrightarrow> c \<noteq> CHR 0x22 \<Longrightarrow> c \<noteq> CHR 0x5C \<Longrightarrow>
   readChars (c # r) = map_option (\<lambda>(s, t). (c # s, t)) (readChars r)"
  by simp

lemma readChars_escape:
  "e \<noteq> CHR ''u'' \<Longrightarrow> unescape e = Some c \<Longrightarrow>
   readChars (CHR 0x5C # e # r) = map_option (\<lambda>(s, t). (c # s, t)) (readChars r)"
  by simp

lemma readChars_unicode:
  "length h = 4 \<Longrightarrow> hex4 h = Some c \<Longrightarrow>
   readChars (CHR 0x5C # CHR ''u'' # h @ r) = map_option (\<lambda>(s, t). (c # s, t)) (readChars r)"
  by simp

lemma escapeChar_specials:
  "escapeChar (CHR 0x5C) = [CHR 0x5C, CHR 0x5C]" "escapeChar (CHR 0x22) = [CHR 0x5C, CHR 0x22]"
  "escapeChar (CHR 0x08) = [CHR 0x5C, CHR ''b'']" "escapeChar (CHR 0x0C) = [CHR 0x5C, CHR ''f'']"
  "escapeChar (CHR 0x0A) = [CHR 0x5C, CHR ''n'']" "escapeChar (CHR 0x0D) = [CHR 0x5C, CHR ''r'']"
  "escapeChar (CHR 0x09) = [CHR 0x5C, CHR ''t'']"
  by code_simp+

lemma readChars_escapeChar:
  "readChars (escapeChar c @ r) = map_option (\<lambda>(s, t). (c # s, t)) (readChars r)"
proof (cases "c \<in> {CHR 0x5C, CHR 0x22, CHR 0x08, CHR 0x0C, CHR 0x0A, CHR 0x0D, CHR 0x09}")
  case True
  then show ?thesis
    by (elim insertE emptyE)
       (simp_all only: escapeChar_specials append.simps readChars_escape [OF _ unescape_simps(1)]
          readChars_escape [OF _ unescape_simps(2)] readChars_escape [OF _ unescape_simps(3)]
          readChars_escape [OF _ unescape_simps(4)] readChars_escape [OF _ unescape_simps(5)]
          readChars_escape [OF _ unescape_simps(6)] readChars_escape [OF _ unescape_simps(7)]
          char.inject simp_thms)
next
  case False
  show ?thesis
  proof (cases "(of_char c :: nat) < 32")
    case True
    with False have "escapeChar c = CHR 0x5C # CHR ''u'' # padTo 4 (hexL (of_char c))"
      unfolding escapeChar_def by (simp only: insert_iff empty_iff simp_thms if_False if_True not_less_eq_eq) simp
    moreover have "length (padTo 4 (hexL (of_char c))) = 4"
      by (simp only: hexL_control [OF True]) simp
    ultimately show ?thesis
      using readChars_unicode [OF _ hex4_escape [OF True], of r] by (simp only: append.simps)
  next
    case high: False
    with False have "escapeChar c = [c]"
      unfolding escapeChar_def by (simp only: insert_iff empty_iff simp_thms) simp
    with False high readChars_plain [of c r] show ?thesis by simp
  qed
qed

lemma readChars_quote: "readChars (concat (map escapeChar s) @ CHR 0x22 # r) = Some (s, r)"
  by (induction s) (simp_all add: readChars_escapeChar del: readChars.simps(2), simp)

section \<open>Reading back a number\<close>

lemma digitChar_10: "d < 10 \<Longrightarrow> isDigit (digitChar d)" "d < 10 \<Longrightarrow> of_char (digitChar d) - 48 = d"
  by (simp_all add: isDigit_def digitChar_def)

lemma decU_digits: "\<forall>c \<in> set (decU n). isDigit c"
proof -
  have "\<forall>c \<in> set (digits digitChar b n). isDigit c" if "b = 10" for b
    using that
  proof (induction digitChar b n rule: digits.induct)
    case (1 b n)
    then show ?case
      by (subst digits.simps) (auto simp: digitChar_10)
  qed
  then show ?thesis by (simp add: decU_def)
qed

lemma decU_value: "foldl (\<lambda>a c. 10 * a + (of_char c - 48)) 0 (decU n) = n"
proof -
  have "foldl (\<lambda>a c. 10 * a + (of_char c - 48)) 0 (digits digitChar b n) = n" if "b = 10" for b
    using that
  proof (induction digitChar b n rule: digits.induct)
    case (1 b n)
    then show ?case
      by (subst digits.simps) (auto simp: digitChar_10)
  qed
  then show ?thesis by (simp add: decU_def)
qed

lemma decU_first: "n = 0 \<and> decU n = ''0'' \<or> hd (decU n) \<noteq> CHR ''0'' \<and> decU n \<noteq> []"
proof -
  have nz: "list_all (\<lambda>d. digitChar d \<noteq> CHR ''0'') [1..<10]"
    by code_simp
  have "digits digitChar b n \<noteq> [] \<and> hd (digits digitChar b n) \<noteq> CHR ''0''" if "b = 10" "0 < n" for b
    using that
  proof (induction digitChar b n rule: digits.induct)
    case (1 b n)
    show ?case
    proof (cases "n < 10")
      case True
      with 1 nz show ?thesis
        by (auto simp: digits.simps [of digitChar 10 n] list_all_iff)
    next
      case False
      with 1 have "digits digitChar b (n div b) \<noteq> []" "hd (digits digitChar b (n div b)) \<noteq> CHR ''0''"
        by auto
      with False 1 show ?thesis
        by (simp add: digits.simps [of digitChar 10 n])
    qed
  qed
  moreover have "decU 0 = ''0''"
    by code_simp
  ultimately show ?thesis
    by (cases "n = 0") (auto simp: decU_def)
qed

definition endsNumber :: "string \<Rightarrow> bool" where
  "endsNumber r \<longleftrightarrow> (case r of [] \<Rightarrow> True | c # _ \<Rightarrow> \<not> isDigit c)"

lemma readNat_decU:
  assumes "endsNumber r"
  shows "readNat (decU n @ r) = Some (n, r)"
proof -
  have "takeWhile isDigit r = []" "dropWhile isDigit r = r"
    using assms by (cases r; simp add: endsNumber_def)+
  then have "takeWhile isDigit (decU n @ r) = decU n" "dropWhile isDigit (decU n @ r) = r"
    using decU_digits [of n] by (simp_all add: takeWhile_append2 dropWhile_append2)
  then show ?thesis
    using decU_first [of n] decU_value [of n] by (auto simp: readNat_def Let_def)
qed

lemma readInt_decI: "endsNumber r \<Longrightarrow> readInt (decI n @ r) = Some (n, r)"
proof -
  assume r: "endsNumber r"
  have "take 1 (decU m @ r) \<noteq> ''-''" for m
  proof -
    obtain c cs where "decU m = c # cs"
      using decU_first [of m] by (cases "decU m") auto
    moreover have "\<not> isDigit (CHR ''-'')"
      by code_simp
    ultimately show ?thesis
      using decU_digits [of m] by auto
  qed
  then show ?thesis
    using r by (simp add: readInt_def decI_def readNat_decU)
qed

section \<open>Reading back an item\<close>

definition isWs :: "char \<Rightarrow> bool" where
  "isWs c \<longleftrightarrow> c \<in> {CHR 0x20, CHR 0x09, CHR 0x0A, CHR 0x0D}"

lemma skipWs_ws [simp]: "list_all isWs w \<Longrightarrow> skipWs (w @ s) = skipWs s"
  by (induction w) (auto simp: skipWs_def isWs_def)

lemma skipWs_stop: "\<not> isWs c \<Longrightarrow> skipWs (c # s) = c # s"
  by (simp add: skipWs_def isWs_def)

lemma ws_chars [simp]: "isWs tab" "isWs (CHR 0x0A)" "\<not> isWs (CHR 0x22)" "\<not> isWs (CHR ''{'')" "\<not> isWs (CHR ''}'')"
  "\<not> isWs (CHR '':'')" "\<not> isWs (CHR '','')" "\<not> isWs (CHR ''-'')"
  by (simp_all add: isWs_def tab_def)

lemma tabs_ws [simp]: "list_all isWs (replicate n tab)"
  by (induction n) simp_all

lemma digit_not_ws: "isDigit c \<Longrightarrow> \<not> isWs c \<and> c \<noteq> CHR 0x22 \<and> c \<noteq> CHR ''{''"
  by (auto simp: isDigit_def isWs_def)

text \<open>A number does not begin like anything else.\<close>

lemma decI_first: "\<exists>c cs. decI n = c # cs \<and> \<not> isWs c \<and> c \<noteq> CHR 0x22 \<and> c \<noteq> CHR ''{''"
proof -
  obtain c cs where "decU (nat n) = c # cs"
    using decU_first [of "nat n"] by (cases "decU (nat n)") auto
  then show ?thesis
    using digit_not_ws [of c] decU_digits [of "nat n"] by (auto simp: decI_def)
qed

lemma quote_append: "quote s @ r = CHR 0x22 # concat (map escapeChar s) @ CHR 0x22 # r"
  by (simp add: quote_def)

lemma read_back:
  "length (jsonText d item) \<le> k \<Longrightarrow> list_all isWs w \<Longrightarrow> endsNumber r \<Longrightarrow>
   readValue k (w @ jsonText d item @ r) = Some (item, r)"
  "ms \<noteq> [] \<Longrightarrow> 0 < d \<Longrightarrow> length (membersText d ms) \<le> k \<Longrightarrow> list_all isWs w \<Longrightarrow>
   readMembers k (w @ membersText d ms @ r) = Some (ms, r)"
proof (induction d item and d ms arbitrary: k w r and k w r rule: jsonText_membersText.induct)
  case (1 d n)
  obtain c cs where c: "decI n = c # cs" "\<not> isWs c" "c \<noteq> CHR 0x22" "c \<noteq> CHR ''{''"
    using decI_first by blast
  with 1 obtain k' where "k = Suc k'"
    by (cases k) auto
  with 1 c readInt_decI [of r n] show ?case
    by (simp add: skipWs_stop)
next
  case (2 d s)
  then obtain k' where "k = Suc k'"
    by (cases k) (auto simp: quote_def)
  with 2 show ?case
    by (simp add: quote_append skipWs_stop readChars_quote del: append.simps append_assoc)
next
  case (3 d ms)
  then obtain k' where k: "k = Suc k'"
    by (cases k) auto
  have start: "skipWs (w @ jsonText d (cJSON_Object ms) @ r) = CHR ''{'' # CHR 0x0A # membersText (d + 1) ms @ r"
    using 3 by (simp add: skipWs_stop)
  show ?case
  proof (cases ms)
    case Nil
    have "skipWs (CHR 0x0A # membersText (d + 1) ms @ r) = CHR ''}'' # r"
      using skipWs_ws [of "CHR 0x0A # replicate d tab" "CHR ''}'' # r"] Nil by (simp add: skipWs_stop)
    with start Nil show ?thesis
      unfolding k readValue.simps by simp
  next
    case (Cons m rest)
    obtain name item where m: "m = (name, item)"
      by (cases m)
    have "skipWs (CHR 0x0A # membersText (d + 1) ms @ r)
        = CHR 0x22 # tl (quote name) @ [CHR '':'', tab] @ jsonText (d + 1) item
          @ (if rest \<noteq> [] then '','' else []) @ [CHR 0x0A] @ membersText (d + 1) rest @ r"
      using skipWs_ws [of "CHR 0x0A # replicate (d + 1) tab"] Cons m by (simp add: skipWs_stop quote_def)
    moreover have "readMembers k' (CHR 0x0A # membersText (d + 1) ms @ r) = Some (ms, r)"
      using 3(1) [of k' "[CHR 0x0A]" r] 3(2) k Cons by simp
    ultimately show ?thesis
      using start unfolding k readValue.simps by simp
  qed
next
  case (4 d)
  then show ?case by simp
next
  case (5 d name item rest)
  let ?tail = "(if rest \<noteq> [] then '','' else []) @ [CHR 0x0A] @ membersText d rest @ r"
  obtain k' where k: "k = Suc k'"
    using 5 by (cases k) (auto simp: quote_def)
  have start: "skipWs (w @ membersText d ((name, item) # rest) @ r)
      = CHR 0x22 # concat (map escapeChar name) @ CHR 0x22 # CHR '':'' # tab # jsonText d item @ ?tail"
    using skipWs_ws [of "w @ replicate d tab"] 5 by (simp add: skipWs_stop quote_def)
  have "endsNumber ?tail"
    by (simp add: endsNumber_def isDigit_def)
  then have item: "readValue k' (tab # jsonText d item @ ?tail) = Some (item, ?tail)"
    using 5(1) [of k' "[tab]" ?tail] 5(5) k by simp
  show ?case
  proof (cases "rest = []")
    case True
    have "skipWs ?tail = CHR ''}'' # r"
      using skipWs_ws [of "CHR 0x0A # replicate (d - 1) tab" "CHR ''}'' # r"] True by (simp add: skipWs_stop)
    with True item show ?thesis
      unfolding k readMembers.simps start by (simp add: readChars_quote skipWs_stop del: readChars.simps)
  next
    case False
    have "skipWs ?tail = CHR '','' # CHR 0x0A # membersText d rest @ r"
      using False by (simp add: skipWs_stop)
    moreover have "readMembers k' (CHR 0x0A # membersText d rest @ r) = Some (rest, r)"
      using 5(2) [of k' "[CHR 0x0A]" r] 5(4,5) k False by simp
    ultimately show ?thesis
      using False item unfolding k readMembers.simps start
      by (simp add: readChars_quote skipWs_stop del: readChars.simps)
  qed
qed

section \<open>The round trip\<close>

lemma jsonText_reads: "readJson (jsonText 0 item) = Some item"
proof -
  have "readValue (length (jsonText 0 item) + 1) ([] @ jsonText 0 item @ []) = Some (item, [])"
    by (rule read_back(1)) (simp_all add: endsNumber_def)
  then show ?thesis
    by (simp add: readJson_def skipWs_def del: readValue.simps)
qed

text \<open>
  \<^bold>\<open>C13.\<close> The printer of the JSON library is memory safe and correct. For every item whose strings are C
  strings, whose numbers fit in an \<open>int\<close> and whose text stays below half of \<open>INT_MAX\<close>, and whatever bytes
  the allocated memory holds, \<open>cJSON_Print\<close> succeeds, never writes or reads outside its growing buffer, and
  returns a text that a reader of JSON reads back as exactly the item that was printed.
\<close>

theorem cJSON_Print_roundtrip:
  assumes "itemOk item" and "length (jsonText 0 item) + 4 \<le> INT_MAX div 2"
  shows "\<exists>s. cJSON_Print junk item = Inr (Some s) \<and> length s = length (jsonText 0 item) \<and> readJson s = Some item"
  using cJSON_Print_text [OF assms] jsonText_reads by blast

theorem cJSON_Print_roundtrip_witness:
  "\<exists>s. cJSON_Print (\<lambda>_. CHR ''x'') (cJSON_Object [(''A'', cJSON_Number 73)]) = Inr (Some s)
     \<and> length s = 12 \<and> readJson s = Some (cJSON_Object [(''A'', cJSON_Number 73)])"
proof -
  have len: "length (jsonText 0 (cJSON_Object [(''A'', cJSON_Number 73)])) = 12"
    by code_simp
  show ?thesis
    using cJSON_Print_roundtrip [of "cJSON_Object [(''A'', cJSON_Number 73)]" "\<lambda>_. CHR ''x''"]
    unfolding len INT_MAX_def by simp
qed

end
