(* ===== verification/Cpu_Debug_Properties.thy ===== *)
theory Cpu_Debug_Properties
  imports Cpu_Debug Logger_Properties Json_Reader Machine_Properties Decode_Outer
begin

text \<open>
  What is shown of the CPU is what it does: the instruction that the dump announces is the one that
  is executed next, and the text that the server sends reads back as the registers.
\<close>

section \<open>The next instruction\<close>

lemma mmuReadByte_addTicks [simp]: "mmuReadByte b (addTicks n g) = mmuReadByte b g"
  by (simp add: mmuReadByte_def addTicks_def)

lemma mmuReadShort_upd [simp]:
  "mmuReadShort b (addTicks n g) = mmuReadShort b g" "mmuReadShort b (modRegs f g) = mmuReadShort b g"
  by (simp_all add: mmuReadShort_def)

lemma regs_upd [simp]: "regs (addTicks n g) = regs g" "regs (modRegs f g) = f (regs g)"
  by (simp_all add: addTicks_def modRegs_def)

lemma cb_no_operand: "operandType (CBOpcodeTable ! unat (b :: u8)) = 0"
  using cb_operands u8_bound [of b] by (simp add: list_all_length table_lengths)

lemma debugNext_executes:
  "bind_res (DetermineOpcode g) (\<lambda>(op, h). bind_res (DetermineOperand op h) (\<lambda>(w, h). Inr (op, w)))
   = bind_res (debugNext g) (\<lambda>(b, op, w). Inr (op, w))"
proof (cases "mmuReadByte (rPC (regs g)) g")
  case (Inr b)
  show ?thesis
  proof (cases "b = 0xCB")
    case True
    with Inr cb_no_operand show ?thesis
      by (cases "mmuReadByte (rPC (regs g) + 1) g")
         (simp_all add: DetermineOpcode_def debugNext_def DetermineOperand_def)
  next
    case False
    with Inr show ?thesis
      by (cases "mmuReadByte (rPC (regs g) + 1) g"; cases "mmuReadShort (rPC (regs g) + 1) g")
         (simp_all add: DetermineOpcode_def debugNext_def DetermineOperand_def)
  qed
qed (simp add: DetermineOpcode_def debugNext_def)

text \<open>The dump of VRAM before an instruction does not change what is read.\<close>

lemma debugNext_atPC: "debugNext (atPC g) = debugNext g"
  by (simp add: debugNext_def mmuReadShort_eq cong: if_cong)

lemma cpuStep_shown:
  "debugNext g = Inr (b, op, v) \<Longrightarrow> cpuStep g = Inr (t, g') \<Longrightarrow> lastOpcodeName g' = asmName op \<and> lastOperand g' = v"
  using debugNext_executes [of "atPC g"]
  by (auto simp: cpuStep_def Let_def bind_res_eq_Inr debugNext_atPC dest!: dumpAtPC_atPC)

section \<open>The dump\<close>

definition dumpTexts :: "gb \<Rightarrow> u8 \<Rightarrow> string \<Rightarrow> u16 \<Rightarrow> string list" where
  "dumpTexts g b name v =
    (let r = regs g; x = (\<lambda>n. padTo 2 (hexU n)); d = (\<lambda>f. decI (int (unat (checkFlag f r)))) in
     [debugStars, ''++++ CPU ++++'' @ newline,
      ''Registers'' @ newline @ ''A: 0x'' @ x (unat (rA r)) @ '' B: 0x'' @ x (unat (rB r)) @ '' C: 0x''
        @ x (unat (rC r)) @ '' D: 0x'' @ x (unat (rD r)) @ newline @ ''E: 0x'' @ x (unat (rE r)) @ '' F: 0x''
        @ x (unat (rF r)) @ '' H: 0x'' @ x (unat (rH r)) @ '' L: 0x'' @ x (unat (rL r)) @ newline,
      ''Flags: Z: '' @ d flagZero @ '' N: '' @ d flagNegative @ '' H: '' @ d flagHalfCarry @ '' C: ''
        @ d flagCarry @ newline,
      ''PC: 0x'' @ x (unat (rPC r)) @ '' SP: 0x'' @ x (unat (rSP r)) @ newline,
      ''Total cycles (ticks): '' @ decU (unat (tickCounter g)) @ newline,
      newline,
      ''Next instruction = 0x'' @ x (unat b) @ '' ('' @ name @ '' 0x'' @ x (unat v) @ '')'' @ newline,
      newline,
      ''Cycles: '' @ decI (sint (tickCounter g)) @ newline,
      debugStars])"

lemma newline_char: "newline = [CHR 0x0A]"
  by code_simp

lemma DebugPrintCpuState_texts:
  assumes "logsOk w" and "debugNext g = Inr (b, op, v)"
  shows "DebugPrintCpuState g w = Inr (fold (logEffect eDebug) (dumpTexts g b (asmName op) v) w)"
  by (simp add: DebugPrintCpuState_def dumpTexts_def Let_def LogW_ok assms directive_def newline_char
      debugStars_def)

text \<open>
  \<^bold>\<open>C33.\<close> The dump of the CPU announces what happens next. On a safe machine with a
  logger that works, \<open>DebugPrintCpuState\<close> writes exactly the eleven texts of \<open>dumpTexts\<close>, with all registers
  in hexadecimal, the flags and the tick count; and the name and the operand that it shows for the
  instruction at PC are those of the instruction that the following \<open>cpuStep\<close> executes.
\<close>

theorem dump_announces_next:
  assumes "safe g" and "logsOk w"
  shows "\<exists>b t g'. cpuStep g = Inr (t, g') \<and>
    DebugPrintCpuState g w = Inr (fold (logEffect eDebug) (dumpTexts g b (lastOpcodeName g') (lastOperand g')) w)"
proof -
  obtain t g' where c: "cpuStep g = Inr (t, g')"
    using cpuStep_total [OF assms(1)] by blast
  then obtain op h v h' where "DetermineOpcode (atPC g) = Inr (op, h)" "DetermineOperand op h = Inr (v, h')"
    by (auto simp: cpuStep_def Let_def bind_res_eq_Inr dest!: dumpAtPC_atPC)
  with debugNext_executes [of "atPC g"] obtain b where b: "debugNext g = Inr (b, op, v)"
    by (cases "debugNext g") (auto simp: debugNext_atPC)
  with cpuStep_shown [OF b c] DebugPrintCpuState_texts [OF assms(2) b] c show ?thesis by auto
qed

section \<open>The export\<close>

text \<open>The names of the tables are short and hold no zero byte.\<close>

definition nameOk :: "string \<Rightarrow> bool" where
  "nameOk s \<longleftrightarrow> list_all (\<lambda>c. c \<noteq> NUL) s \<and> length s \<le> 20"

lemma names_ok:
  "list_all (\<lambda>op. nameOk (asmName op)) CBOpcodeTable" "list_all (\<lambda>op. nameOk (asmName op)) baseOpcodeTable"
  by (simp_all add: CBOpcodeTable_def cbRow0_def cbRow1_def cbRow2_def cbRow3_def cbRow4_def cbRow5_def cbRow6_def
      cbRow7_def cbRow8_def cbRow9_def cbRowA_def cbRowB_def cbRowC_def cbRowD_def cbRowE_def cbRowF_def
      baseOpcodeTable_def baseRow0_def baseRow1_def baseRow2_def baseRow3_def baseRow4_def baseRow5_def
      baseRow6_def baseRow7_def baseRow8_def baseRow9_def baseRowA_def baseRowB_def baseRowC_def baseRowD_def
      baseRowE_def baseRowF_def nameOk_def)

lemma mmuStore_last:
  "mmuStore a v g = Inr g' \<Longrightarrow> lastOpcodeName g' = lastOpcodeName g \<and> lastOperand g' = lastOperand g"
  by (auto simp: mmuStore_def mmuWriteByte_def bind_res_eq_Inr Let_def split: if_splits)

lemma call_nn_last: "call_nn a g = Inr g' \<Longrightarrow> lastOpcodeName g' = lastOpcodeName g \<and> lastOperand g' = lastOperand g"
  by (auto simp: call_nn_def Let_def bind_res_eq_Inr modRegs_def dest!: mmuStore_last)

lemma interruptStep_last:
  "interruptStep g = Inr g' \<Longrightarrow> lastOpcodeName g' = lastOpcodeName g \<and> lastOperand g' = lastOperand g"
  by (auto simp: interruptStep_def handleInterrupt_def Let_def bind_res_eq_Inr modRegs_def addTicks_def
      split: if_splits dest!: call_nn_last)

lemma cpuStep_named: "cpuStep g = Inr (t, g') \<Longrightarrow> nameOk (lastOpcodeName g')"
  using names_ok
  by (auto simp: cpuStep_def DetermineOpcode_def Let_def bind_res_eq_Inr list_all_length table_lengths u8_bound
      split: if_splits)

lemma LoopCycle_named: "LoopCycle g = Inr g' \<Longrightarrow> nameOk (lastOpcodeName g')"
  by (auto simp: LoopCycle_def bind_res_eq_Inr dest!: cpuStep_named interruptStep_last)

lemma cycles_named: "cycles LoopCycle n g = Inr g' \<Longrightarrow> nameOk (lastOpcodeName g) \<Longrightarrow> nameOk (lastOpcodeName g')"
  by (induction n arbitrary: g) (auto simp: bind_res_eq_Inr dest: LoopCycle_named)

text \<open>The object as a value.\<close>

definition cpuObject :: "gb \<Rightarrow> cJSON" where
  "cpuObject g = (let r = regs g; byte = (\<lambda>n v. (n, cJSON_Number (uint (v :: u8))));
       short = (\<lambda>n v. (n, cJSON_Number (uint (v :: u16)))) in
     cJSON_Object [
      (''Registers'', cJSON_Object [byte ''A'' (rA r), byte ''F'' (rF r), byte ''B'' (rB r), byte ''C'' (rC r),
        byte ''D'' (rD r), byte ''E'' (rE r), byte ''H'' (rH r), byte ''L'' (rL r), short ''AF'' (rAF r),
        short ''BC'' (rBC r), short ''DE'' (rDE r), short ''HL'' (rHL r), short ''SP'' (rSP r), short ''PC'' (rPC r)]),
      (''Opcode'', cJSON_Object [(''Asm'', cJSON_String (lastOpcodeName g)), short ''Operand'' (lastOperand g)])])"

lemma u8_number: "cJSON_CreateNumber (uint v) = cJSON_Number (uint v)" for v :: u8
  using uint_lt2p [of v] by (simp add: cJSON_CreateNumber_def) (use uint_ge_0 [of v] in linarith)

lemma u16_number: "cJSON_CreateNumber (uint v) = cJSON_Number (uint v)" for v :: u16
  using uint_lt2p [of v] by (simp add: cJSON_CreateNumber_def) (use uint_ge_0 [of v] in linarith)

lemma GetCPUDataAsJSON_object: "GetCPUDataAsJSON g = cpuObject g"
  by (simp add: GetCPUDataAsJSON_def cpuObject_def Let_def cJSON_AddObjectToObject_def cJSON_AddNumberToObject_def
      cJSON_AddStringToObject_def add_item_to_object_def cJSON_CreateObject_def cJSON_CreateString_def
      u8_number u16_number)

lemma u8_int_range: "-2147483648 \<le> uint v" "uint v \<le> 2147483647" for v :: u8
  using uint_lt2p [of v] uint_ge_0 [of v] by (linarith, simp)

lemma u16_int_range: "-2147483648 \<le> uint v" "uint v \<le> 2147483647" for v :: u16
  using uint_lt2p [of v] uint_ge_0 [of v] by (linarith, simp)

lemma cpuObject_ok: "nameOk (lastOpcodeName g) \<Longrightarrow> itemOk (cpuObject g)"
  by (auto simp: cpuObject_def Let_def nameOk_def list_all_iff u8_int_range u16_int_range)

lemma decI_byte: "length (decI (uint v)) \<le> 3" for v :: u8
proof -
  have "decI (uint v) = decU (unat v)"
    by (simp add: decI_def)
  then show ?thesis using decU_3 [of "unat v"] u8_bound [of v] by simp
qed

lemma decI_short: "length (decI (uint v)) \<le> 5" for v :: u16
proof -
  have "decI (uint v) = decU (unat v)"
    by (simp add: decI_def)
  moreover have "length (decU (unat v)) \<le> 5"
    unfolding decU_def by (rule digits_length) (use u16_bound [of v] in simp_all)
  ultimately show ?thesis by simp
qed

lemma quote_length: "length (quote s) \<le> 6 * length s + 2"
proof -
  have "length (concat (map escapeChar s)) \<le> 6 * length s"
    by (induction s) (auto simp: escapeChar_length escapeCount_def)
  then show ?thesis by (simp add: quote_def)
qed

lemma cpuObject_length: "nameOk (lastOpcodeName g) \<Longrightarrow> length (jsonText 0 (cpuObject g)) \<le> 600"
proof -
  let ?r = "regs g"
  assume "nameOk (lastOpcodeName g)"
  then have "length (quote (lastOpcodeName g)) \<le> 122"
    using quote_length [of "lastOpcodeName g"] by (simp add: nameOk_def)
  moreover have "length (decI (uint (rA ?r))) \<le> 3" "length (decI (uint (rB ?r))) \<le> 3"
    "length (decI (uint (rC ?r))) \<le> 3" "length (decI (uint (rD ?r))) \<le> 3" "length (decI (uint (rE ?r))) \<le> 3"
    "length (decI (uint (rF ?r))) \<le> 3" "length (decI (uint (rH ?r))) \<le> 3" "length (decI (uint (rL ?r))) \<le> 3"
    by (rule decI_byte)+
  moreover have "length (decI (uint (rAF ?r))) \<le> 5" "length (decI (uint (rBC ?r))) \<le> 5"
    "length (decI (uint (rDE ?r))) \<le> 5" "length (decI (uint (rHL ?r))) \<le> 5"
    "length (decI (uint (rSP ?r))) \<le> 5" "length (decI (uint (rPC ?r))) \<le> 5"
    "length (decI (uint (lastOperand g))) \<le> 5"
    by (rule decI_short)+
  moreover have "length (quote ''A'') = 3" "length (quote ''F'') = 3" "length (quote ''B'') = 3"
    "length (quote ''C'') = 3" "length (quote ''D'') = 3" "length (quote ''E'') = 3" "length (quote ''H'') = 3"
    "length (quote ''L'') = 3" "length (quote ''AF'') = 4" "length (quote ''BC'') = 4" "length (quote ''DE'') = 4"
    "length (quote ''HL'') = 4" "length (quote ''SP'') = 4" "length (quote ''PC'') = 4" "length (quote ''Asm'') = 5"
    "length (quote ''Registers'') = 11" "length (quote ''Opcode'') = 8" "length (quote ''Operand'') = 9"
    by (simp_all add: quote_def escapeChar_def)
  ultimately show ?thesis
    by (simp add: cpuObject_def Let_def)
qed

text \<open>
  What the server exports is the state of the machine. After any number of cycles of a machine whose
  cartridge cannot fault, started with a short last name, printing the object of \<open>GetCPUDataAsJSON\<close>
  succeeds, whatever bytes the memory of the buffer holds, the text has at most 600 characters, and a
  reader of JSON gets from it the eight registers and six pairs with the values that they have, and the
  name and the operand of the instruction executed last.
\<close>

theorem cpu_export_roundtrip:
  assumes "safe g" and "nameOk (lastOpcodeName g)"
  shows "\<exists>g' s. cycles LoopCycle n g = Inr g' \<and> cJSON_Print junk (GetCPUDataAsJSON g') = Inr (Some s)
    \<and> length s \<le> 600 \<and> readJson s = Some (cpuObject g')"
proof -
  obtain g' where g': "cycles LoopCycle n g = Inr g'"
    using machine.loop_total [OF assms(1)] by blast
  have ok: "nameOk (lastOpcodeName g')"
    by (rule cycles_named [OF g' assms(2)])
  have len: "length (jsonText 0 (cpuObject g')) + 4 \<le> INT_MAX div 2"
    using cpuObject_length [OF ok] by (simp add: INT_MAX_def)
  have "cJSON_Print junk (cpuObject g') = Inr (Some (jsonText 0 (cpuObject g')))"
    by (rule cJSON_Print_text [OF cpuObject_ok [OF ok] len])
  moreover have "readJson (jsonText 0 (cpuObject g')) = Some (cpuObject g')"
    by (rule jsonText_reads)
  ultimately show ?thesis
    using g' cpuObject_length [OF ok] by (auto simp: GetCPUDataAsJSON_object)
qed

lemma cpu_export_roundtrip_witness:
  "\<exists>g' s. cycles LoopCycle 100 nopMachine = Inr g' \<and> cJSON_Print (\<lambda>_. CHR ''x'') (GetCPUDataAsJSON g') = Inr (Some s)
    \<and> length s \<le> 600 \<and> readJson s = Some (cpuObject g')"
  by (rule cpu_export_roundtrip [OF nopMachine_safe]) (simp add: nopMachine_def nameOk_def gb_static_def)

theorem dump_announces_next_witness:
  "\<exists>b t g'. cpuStep nopMachine = Inr (t, g') \<and>
    DebugPrintCpuState nopMachine \<lparr>lg = logger0, clks = (\<lambda>_. clock0)\<rparr> = Inr (fold (logEffect eDebug)
      (dumpTexts nopMachine b (lastOpcodeName g') (lastOperand g')) \<lparr>lg = logger0, clks = (\<lambda>_. clock0)\<rparr>)"
  by (rule dump_announces_next [OF nopMachine_safe]) (simp add: logsOk_def clock0_ok logger0_def logger_static_def)

end
