(* ===== verification/Ws_Utf8.thy ===== *)
theory Ws_Utf8
  imports GB_Prelude
begin

text \<open>
  The validation of UTF-8 in the WebSocket library, \<^verbatim>\<open>libs/wsServer/src/utf8.c\<close>: an automaton in one table,
  the classes of the 256 bytes first and the transitions behind them; and what it accepts. The decoded code
  point is computed and thrown away; it starts as whatever the uninitialised variable holds.
\<close>

section \<open>The automaton\<close>

definition utf8d :: "u8 list" where
  "utf8d = [0, 0, 0, 0, 0, 0, 0, 0, 0, 0, 0, 0, 0, 0, 0, 0, 0, 0, 0, 0, 0, 0, 0, 0, 0, 0, 0, 0, 0, 0, 0, 0] @
     [0, 0, 0, 0, 0, 0, 0, 0, 0, 0, 0, 0, 0, 0, 0, 0, 0, 0, 0, 0, 0, 0, 0, 0, 0, 0, 0, 0, 0, 0, 0, 0] @
     [0, 0, 0, 0, 0, 0, 0, 0, 0, 0, 0, 0, 0, 0, 0, 0, 0, 0, 0, 0, 0, 0, 0, 0, 0, 0, 0, 0, 0, 0, 0, 0] @
     [0, 0, 0, 0, 0, 0, 0, 0, 0, 0, 0, 0, 0, 0, 0, 0, 0, 0, 0, 0, 0, 0, 0, 0, 0, 0, 0, 0, 0, 0, 0, 0] @
     [1, 1, 1, 1, 1, 1, 1, 1, 1, 1, 1, 1, 1, 1, 1, 1, 9, 9, 9, 9, 9, 9, 9, 9, 9, 9, 9, 9, 9, 9, 9, 9] @
     [7, 7, 7, 7, 7, 7, 7, 7, 7, 7, 7, 7, 7, 7, 7, 7, 7, 7, 7, 7, 7, 7, 7, 7, 7, 7, 7, 7, 7, 7, 7, 7] @
     [8, 8, 2, 2, 2, 2, 2, 2, 2, 2, 2, 2, 2, 2, 2, 2, 2, 2, 2, 2, 2, 2, 2, 2, 2, 2, 2, 2, 2, 2, 2, 2] @
     [10, 3, 3, 3, 3, 3, 3, 3, 3, 3, 3, 3, 3, 4, 3, 3] @
     [11, 6, 6, 6, 5, 8, 8, 8, 8, 8, 8, 8, 8, 8, 8, 8] @
     [0, 1, 2, 3, 5, 8, 7, 1, 1, 1, 4, 6, 1, 1, 1, 1] @
     [1, 1, 1, 1, 1, 1, 1, 1, 1, 1, 1, 1, 1, 1, 1, 1, 1, 0, 1, 1, 1, 1, 1, 0, 1, 0, 1, 1, 1, 1, 1, 1] @
     [1, 2, 1, 1, 1, 1, 1, 2, 1, 2, 1, 1, 1, 1, 1, 1, 1, 1, 1, 1, 1, 1, 1, 2, 1, 1, 1, 1, 1, 1, 1, 1] @
     [1, 2, 1, 1, 1, 1, 1, 1, 1, 2, 1, 1, 1, 1, 1, 1, 1, 1, 1, 1, 1, 1, 1, 3, 1, 3, 1, 1, 1, 1, 1, 1] @
     [1, 3, 1, 1, 1, 1, 1, 3, 1, 3, 1, 1, 1, 1, 1, 1, 1, 3, 1, 1, 1, 1, 1, 1, 1, 1, 1, 1, 1, 1, 1, 1]"

definition UTF8_ACCEPT :: u32 where [simp]: "UTF8_ACCEPT = 0"

definition UTF8_REJECT :: u32 where [simp]: "UTF8_REJECT = 1"

definition utf8d_at :: "u32 \<Rightarrow> u32 res" where
  "utf8d_at i = (if unat i < length utf8d then Inr (ucast (utf8d ! unat i)) else Inl OutOfBounds)"

definition decode :: "u32 \<times> u32 \<Rightarrow> u32 \<Rightarrow> (u32 \<times> u32) res" where
  "decode s byte =
    (let (state, codep) = s in
     bind_res (utf8d_at byte) (\<lambda>type.
       let codep = (if state \<noteq> UTF8_ACCEPT then (byte AND 0x3F) OR push_bit 6 codep
                    else drop_bit (unat type) 0xFF AND byte)
       in bind_res (utf8d_at (256 + state * 16 + type)) (\<lambda>state. Inr (state, codep))))"

fun decodeLoop :: "u8 list \<Rightarrow> u32 \<times> u32 \<Rightarrow> (u32 \<times> u32) res" where
  "decodeLoop [] s = Inr s"
| "decodeLoop (b # bs) s = bind_res (decode s (ucast b)) (decodeLoop bs)"

definition is_utf8_len_state :: "u32 \<Rightarrow> u8 list \<Rightarrow> u32 \<Rightarrow> u32 res" where
  "is_utf8_len_state codepoint s state = bind_res (decodeLoop s (state, codepoint)) (\<lambda>(state, _). Inr state)"

definition is_utf8_len :: "u32 \<Rightarrow> u8 list \<Rightarrow> int res" where
  "is_utf8_len codepoint s =
    bind_res (decodeLoop s (0, codepoint)) (\<lambda>(state, _). Inr (if state = UTF8_ACCEPT then 1 else 0))"

text \<open>A string up to its terminator.\<close>

definition is_utf8 :: "u32 \<Rightarrow> u8 list \<Rightarrow> int res" where
  "is_utf8 codepoint s =
    bind_res (decodeLoop (takeWhile (\<lambda>b. b \<noteq> 0) s) (0, codepoint))
      (\<lambda>(state, _). Inr (if state = UTF8_ACCEPT then 1 else 0))"

section \<open>Encoding\<close>

text \<open>The code points that UTF-8 can encode, and their bytes, after RFC 3629.\<close>

definition scalarValue :: "nat \<Rightarrow> bool" where
  "scalarValue c \<longleftrightarrow> c < 0xD800 \<or> 0xE000 \<le> c \<and> c < 0x110000"

definition utf8_bytes :: "nat \<Rightarrow> nat list" where
  "utf8_bytes c =
    (if c < 0x80 then [c]
     else if c < 0x800 then [0xC0 + c div 64, 0x80 + c mod 64]
     else if c < 0x10000 then [0xE0 + c div 4096, 0x80 + c div 64 mod 64, 0x80 + c mod 64]
     else [0xF0 + c div 262144, 0x80 + c div 4096 mod 64, 0x80 + c div 64 mod 64, 0x80 + c mod 64])"

section \<open>The automaton on numbers\<close>

text \<open>The class of a byte, and the transitions by state and class.\<close>

definition classOf :: "nat \<Rightarrow> nat" where
  "classOf b = (if b < 0x80 then 0 else if b < 0x90 then 1 else if b < 0xA0 then 9 else if b < 0xC0 then 7
     else if b < 0xC2 then 8 else if b < 0xE0 then 2 else if b = 0xE0 then 10 else if b = 0xED then 4
     else if b < 0xF0 then 3 else if b = 0xF0 then 11 else if b < 0xF4 then 6 else if b = 0xF4 then 5 else 8)"

definition stepOf :: "nat \<Rightarrow> nat \<Rightarrow> nat" where
  "stepOf s b =
    (if s = 0 then (if b < 0x80 then 0 else if b < 0xC2 then 1 else if b < 0xE0 then 2 else if b = 0xE0 then 4
       else if b = 0xED then 5 else if b < 0xF0 then 3 else if b = 0xF0 then 6 else if b < 0xF4 then 7
       else if b = 0xF4 then 8 else 1)
     else if s = 2 then (if 0x80 \<le> b \<and> b < 0xC0 then 0 else 1)
     else if s = 3 then (if 0x80 \<le> b \<and> b < 0xC0 then 2 else 1)
     else if s = 4 then (if 0xA0 \<le> b \<and> b < 0xC0 then 2 else 1)
     else if s = 5 then (if 0x80 \<le> b \<and> b < 0xA0 then 2 else 1)
     else if s = 6 then (if 0x90 \<le> b \<and> b < 0xC0 then 3 else 1)
     else if s = 7 then (if 0x80 \<le> b \<and> b < 0xC0 then 3 else 1)
     else if s = 8 then (if 0x80 \<le> b \<and> b < 0x90 then 3 else 1)
     else 1)"

lemma utf8d_length: "length utf8d = 400"
  by (simp add: utf8d_def)

definition transOf :: "nat \<Rightarrow> nat \<Rightarrow> nat" where
  "transOf s t =
    (if s = 0 then [0, 1, 2, 3, 5, 8, 7, 1, 1, 1, 4, 6, 1, 1, 1, 1] ! t
     else if s = 2 \<and> t \<in> {1, 7, 9} then 0
     else if s = 3 \<and> t \<in> {1, 7, 9} \<or> s = 4 \<and> t = 7 \<or> s = 5 \<and> t \<in> {1, 9} then 2
     else if s = 6 \<and> t \<in> {7, 9} \<or> s = 7 \<and> t \<in> {1, 7, 9} \<or> s = 8 \<and> t = 1 then 3
     else 1)"

lemma utf8d_classes: "map unat (take 256 utf8d) = map classOf [0..<256]"
  by (simp add: utf8d_def classOf_def upt_rec [of 0] upt_rec [of "Suc 0"] numeral_2_eq_2 [symmetric])

lemma utf8d_transitions: "map unat (drop 256 utf8d) = map (\<lambda>i. transOf (i div 16) (i mod 16)) [0..<144]"
  by (simp add: utf8d_def transOf_def upt_rec [of 0] upt_rec [of "Suc 0"] numeral_2_eq_2 [symmetric])

lemma transOf_class: "b < 256 \<Longrightarrow> transOf s (classOf b) = stepOf s b"
proof -
  assume b: "b < 256"
  consider "s = 0" | "s = 2" | "s = 3" | "s = 4" | "s = 5" | "s = 6" | "s = 7" | "s = 8" | "s \<notin> {0, 2, 3, 4, 5, 6, 7, 8}"
    by blast
  then show ?thesis
    by cases (use b in \<open>simp_all add: transOf_def classOf_def stepOf_def\<close>)
qed

lemma classOf_bound: "classOf b < 12"
  by (simp add: classOf_def)

lemma stepOf_bound: "stepOf s b \<le> 8"
  by (simp add: stepOf_def)

lemma utf8d_class: "b < 256 \<Longrightarrow> unat (utf8d ! b) = classOf b"
proof -
  assume b: "b < 256"
  then have "map unat (take 256 utf8d) ! b = classOf b"
    unfolding utf8d_classes by (simp del: upt_rec_numeral)
  then show ?thesis using b by (simp add: utf8d_length)
qed

lemma utf8d_transition: "s \<le> 8 \<Longrightarrow> t < 16 \<Longrightarrow> unat (utf8d ! (256 + (s * 16 + t))) = transOf s t"
proof -
  assume st: "s \<le> 8" "t < 16"
  then have "map unat (drop 256 utf8d) ! (s * 16 + t) = transOf s t"
    unfolding utf8d_transitions by (simp del: upt_rec_numeral)
  then show ?thesis using st by (simp add: utf8d_length)
qed

lemma u8_u32: "unat (ucast b :: u32) = unat b" "unat b = n \<Longrightarrow> (ucast b :: u32) = of_nat n" for b :: u8
proof -
  show "unat (ucast b :: u32) = unat b"
    using u8_bound [of b] by (simp add: unsigned_ucast_eq take_bit_nat_eq_self_iff)
  show "unat b = n \<Longrightarrow> (ucast b :: u32) = of_nat n"
    by (metis of_nat_unat)
qed

lemma decode_step:
  fixes b :: u8
  assumes "unat state \<le> 8"
  shows "\<exists>cp'. decode (state, cp) (ucast b) = Inr (of_nat (stepOf (unat state) (unat b)), cp')"
proof -
  have type: "utf8d_at (ucast b) = Inr (of_nat (classOf (unat b)))"
    using u8_u32(2) [OF utf8d_class [OF u8_bound, of b]] u8_bound [of b]
    by (simp only: utf8d_at_def u8_u32(1) utf8d_length) simp
  have small: "unat state * 16 + classOf (unat b) < 144"
    using assms classOf_bound [of "unat b"] by simp
  then have i: "unat (256 + state * 16 + of_nat (classOf (unat b))) = 256 + (unat state * 16 + classOf (unat b))"
    using assms by (simp add: unat_word_ariths unat_of_nat)
  have "unat (utf8d ! (256 + (unat state * 16 + classOf (unat b)))) = stepOf (unat state) (unat b)"
    using utf8d_transition [OF assms, of "classOf (unat b)"] classOf_bound [of "unat b"] transOf_class [OF u8_bound]
    by simp
  then have "utf8d_at (256 + state * 16 + of_nat (classOf (unat b))) = Inr (of_nat (stepOf (unat state) (unat b)))"
    using small unfolding utf8d_at_def i utf8d_length by (simp only: u8_u32(2)) simp
  with type show ?thesis
    by (simp add: decode_def Let_def)
qed

fun runOf :: "nat \<Rightarrow> nat list \<Rightarrow> nat" where
  "runOf s [] = s"
| "runOf s (b # bs) = runOf (stepOf s b) bs"

lemma runOf_append: "runOf s (a @ b) = runOf (runOf s a) b"
  by (induction a arbitrary: s) simp_all

lemma runOf_reject: "runOf 1 bs = 1"
  by (induction bs) (simp_all add: stepOf_def)

lemma decodeLoop_run:
  "unat state \<le> 8 \<Longrightarrow> \<exists>cp'. decodeLoop bs (state, cp) = Inr (of_nat (runOf (unat state) (map unat bs)), cp')"
proof (induction bs arbitrary: state cp)
  case (Cons b bs)
  from decode_step [OF Cons.prems, of cp b]
  obtain cp' where d: "decode (state, cp) (ucast b) = Inr (of_nat (stepOf (unat state) (unat b)), cp')" by blast
  have u: "unat (of_nat (stepOf (unat state) (unat b)) :: u32) = stepOf (unat state) (unat b)"
    using stepOf_bound [of "unat state" "unat b"] by (simp add: unat_of_nat)
  show ?case
    using Cons.IH [of "of_nat (stepOf (unat state) (unat b))" cp'] stepOf_bound [of "unat state" "unat b"]
    by (simp add: d u)
qed simp

section \<open>What is accepted\<close>

text \<open>The digits of a code point to the base 64.\<close>

lemma digits64:
  fixes c :: nat
  shows "c = (c div 262144) * 262144 + (c div 4096 mod 64) * 4096 + (c div 64 mod 64) * 64 + c mod 64"
  "c div 64 = (c div 262144) * 4096 + (c div 4096 mod 64) * 64 + c div 64 mod 64"
  "c div 4096 = (c div 262144) * 64 + c div 4096 mod 64"
proof -
  have d: "c div 4096 = c div 64 div 64" "c div 262144 = c div 4096 div 64"
    by (simp_all add: div_mult2_eq [symmetric])
  have e: "c = c div 64 * 64 + c mod 64" "c div 64 = c div 4096 * 64 + c div 64 mod 64"
    "c div 4096 = c div 262144 * 64 + c div 4096 mod 64"
    unfolding d by simp_all
  show "c = (c div 262144) * 262144 + (c div 4096 mod 64) * 4096 + (c div 64 mod 64) * 64 + c mod 64"
    "c div 64 = (c div 262144) * 4096 + (c div 4096 mod 64) * 64 + c div 64 mod 64"
    "c div 4096 = (c div 262144) * 64 + c div 4096 mod 64"
    using e by linarith+
qed

lemma undigits64:
  fixes x y z :: nat
  assumes "y < 64" "z < 64"
  shows "(x * 64 + z) div 64 = x" "(x * 64 + z) mod 64 = z" "(x * 4096 + y * 64 + z) div 4096 = x"
    "(x * 4096 + y * 64 + z) div 64 mod 64 = y" "(x * 4096 + y * 64 + z) mod 64 = z"
proof -
  show 1: "(x * 64 + z) div 64 = x" "(x * 64 + z) mod 64 = z"
    using assms by simp_all
  have "(x * 4096 + y * 64 + z) div 64 = x * 64 + y"
    using assms by simp
  then show "(x * 4096 + y * 64 + z) div 4096 = x" "(x * 4096 + y * 64 + z) div 64 mod 64 = y"
    using assms div_mult2_eq [of "x * 4096 + y * 64 + z" 64 64] by simp_all
  show "(x * 4096 + y * 64 + z) mod 64 = z"
    using assms mod_mult_self4 [of 64 "x * 64 + y" z] by (simp add: mult.commute)
qed

lemma run_scalar: "scalarValue c \<Longrightarrow> runOf 0 (utf8_bytes c @ r) = runOf 0 r"
proof -
  assume c: "scalarValue c"
  consider "c < 0x80" | "0x80 \<le> c" "c < 0x800" | "0x800 \<le> c" "c < 0x10000" | "0x10000 \<le> c"
    by linarith
  then show ?thesis
  proof cases
    case 1
    then show ?thesis by (simp add: utf8_bytes_def stepOf_def)
  next
    case 2
    then have "2 \<le> c div 64" "c div 64 < 32" by (simp_all add: less_mult_imp_div_less)
    with 2 show ?thesis by (simp add: utf8_bytes_def stepOf_def)
  next
    case 3
    define x y z where "x = c div 4096" and "y = c div 64 mod 64" and "z = c mod 64"
    have "c = x * 4096 + y * 64 + z" "y < 64" "z < 64" and b: "utf8_bytes c = [0xE0 + x, 0x80 + y, 0x80 + z]"
      using 3 digits64(1) [of c] by (simp_all add: utf8_bytes_def x_def y_def z_def)
    then have "x < 16" "x = 0 \<longrightarrow> 32 \<le> y" "x = 13 \<longrightarrow> y < 32" "y < 64" "z < 64"
      using 3 c unfolding scalarValue_def by linarith+
    then show ?thesis by (simp add: b stepOf_def)
  next
    case 4
    define w x y z where "w = c div 262144" and "x = c div 4096 mod 64" and "y = c div 64 mod 64" and "z = c mod 64"
    have "c = w * 262144 + x * 4096 + y * 64 + z" "x < 64" "y < 64" "z < 64"
      and b: "utf8_bytes c = [0xF0 + w, 0x80 + x, 0x80 + y, 0x80 + z]"
      using 4 digits64(1) [of c] by (simp_all add: utf8_bytes_def w_def x_def y_def z_def)
    then have "w < 5" "w = 0 \<longrightarrow> 16 \<le> x" "w = 4 \<longrightarrow> x < 16" "x < 64" "y < 64" "z < 64"
      using 4 c unfolding scalarValue_def by linarith+
    then show ?thesis by (simp add: b stepOf_def)
  qed
qed

text \<open>What follows in each state.\<close>

lemma run_nil: "runOf s bs = 0 \<Longrightarrow> s \<noteq> 0 \<Longrightarrow> \<exists>b r. bs = b # r \<and> runOf (stepOf s b) r = 0"
  by (cases bs) simp_all

lemma run_1: "runOf (Suc 0) bs = 0 \<longleftrightarrow> False"
  using runOf_reject [of bs] by simp

lemma run_2: "runOf 2 bs = 0 \<Longrightarrow> \<exists>z r. bs = (0x80 + z) # r \<and> z < 64 \<and> runOf 0 r = 0"
  using run_nil [of 2 bs] by (auto simp: stepOf_def run_1 le_iff_add split: if_splits)

lemma run_3: "runOf 3 bs = 0 \<Longrightarrow> \<exists>y z r. bs = (0x80 + y) # (0x80 + z) # r \<and> y < 64 \<and> z < 64 \<and> runOf 0 r = 0"
  using run_nil [of 3 bs] by (auto simp: stepOf_def run_1 le_iff_add split: if_splits dest!: run_2)

lemma run_4: "runOf 4 bs = 0 \<Longrightarrow> \<exists>y z r. bs = (0x80 + y) # (0x80 + z) # r \<and> 32 \<le> y \<and> y < 64 \<and> z < 64 \<and> runOf 0 r = 0"
  using run_nil [of 4 bs] by (auto simp: stepOf_def run_1 le_iff_add split: if_splits dest!: run_2)

lemma run_5: "runOf 5 bs = 0 \<Longrightarrow> \<exists>y z r. bs = (0x80 + y) # (0x80 + z) # r \<and> y < 32 \<and> z < 64 \<and> runOf 0 r = 0"
  using run_nil [of 5 bs] by (auto simp: stepOf_def run_1 le_iff_add split: if_splits dest!: run_2)

lemma run_6: "runOf 6 bs = 0 \<Longrightarrow> \<exists>x y z r. bs = (0x80 + x) # (0x80 + y) # (0x80 + z) # r
    \<and> 16 \<le> x \<and> x < 64 \<and> y < 64 \<and> z < 64 \<and> runOf 0 r = 0"
  using run_nil [of 6 bs] by (auto simp: stepOf_def run_1 le_iff_add split: if_splits dest!: run_3)

lemma run_7: "runOf 7 bs = 0 \<Longrightarrow> \<exists>x y z r. bs = (0x80 + x) # (0x80 + y) # (0x80 + z) # r
    \<and> x < 64 \<and> y < 64 \<and> z < 64 \<and> runOf 0 r = 0"
  using run_nil [of 7 bs] by (auto simp: stepOf_def run_1 le_iff_add split: if_splits dest!: run_3)

lemma run_8: "runOf 8 bs = 0 \<Longrightarrow> \<exists>x y z r. bs = (0x80 + x) # (0x80 + y) # (0x80 + z) # r
    \<and> x < 16 \<and> y < 64 \<and> z < 64 \<and> runOf 0 r = 0"
  using run_nil [of 8 bs] by (auto simp: stepOf_def run_1 le_iff_add split: if_splits dest!: run_3)

lemma bytes_2: "y < 64 \<Longrightarrow> 2 \<le> x \<Longrightarrow> x < 32 \<Longrightarrow> utf8_bytes (x * 64 + y) = [0xC0 + x, 0x80 + y] \<and> scalarValue (x * 64 + y)"
  by (simp add: utf8_bytes_def scalarValue_def)

lemma bytes_3: "y < 64 \<Longrightarrow> z < 64 \<Longrightarrow> x < 16 \<Longrightarrow> x = 0 \<longrightarrow> 32 \<le> y \<Longrightarrow> x = 13 \<longrightarrow> y < 32 \<Longrightarrow>
    utf8_bytes (x * 4096 + y * 64 + z) = [0xE0 + x, 0x80 + y, 0x80 + z] \<and> scalarValue (x * 4096 + y * 64 + z)"
proof -
  assume a: "y < 64" "z < 64" "x < 16" "x = 0 \<longrightarrow> 32 \<le> y" "x = 13 \<longrightarrow> y < 32"
  then have "0x800 \<le> x * 4096 + y * 64 + z" "x * 4096 + y * 64 + z < 0x10000"
    by (cases "x = 0"; simp)+
  moreover have "scalarValue (x * 4096 + y * 64 + z)"
    using a by (cases "x = 13"; cases "x < 13") (simp_all add: scalarValue_def)
  ultimately show ?thesis
    using undigits64 [OF a(1,2), of x] by (simp add: utf8_bytes_def)
qed

lemma bytes_4: "x < 64 \<Longrightarrow> y < 64 \<Longrightarrow> z < 64 \<Longrightarrow> w < 5 \<Longrightarrow> w = 0 \<longrightarrow> 16 \<le> x \<Longrightarrow> w = 4 \<longrightarrow> x < 16 \<Longrightarrow>
    utf8_bytes (w * 262144 + x * 4096 + y * 64 + z) = [0xF0 + w, 0x80 + x, 0x80 + y, 0x80 + z]
    \<and> scalarValue (w * 262144 + x * 4096 + y * 64 + z)"
proof -
  assume a: "x < 64" "y < 64" "z < 64" "w < 5" "w = 0 \<longrightarrow> 16 \<le> x" "w = 4 \<longrightarrow> x < 16"
  let ?c = "w * 262144 + x * 4096 + y * 64 + z"
  have c: "?c = (w * 64 + x) * 4096 + y * 64 + z" by simp
  have d: "?c div 4096 = w * 64 + x" "?c div 64 mod 64 = y" "?c mod 64 = z"
    unfolding c using undigits64 [OF a(2,3)] by blast+
  then have "?c div 262144 = w" "?c div 4096 mod 64 = x"
    using div_mult2_eq [of ?c 4096 64] a(1) by simp_all
  moreover have "0x10000 \<le> ?c" "scalarValue ?c"
    using a unfolding scalarValue_def by linarith+
  ultimately show ?thesis
    using d by (simp add: utf8_bytes_def)
qed

lemma run_first:
  assumes "runOf 0 (b # r) = 0" and "b < 256"
  shows "\<exists>c r'. scalarValue c \<and> b # r = utf8_bytes c @ r' \<and> runOf 0 r' = 0 \<and> utf8_bytes c \<noteq> []"
proof -
  have r: "runOf (stepOf 0 b) r = 0"
    using assms(1) by simp
  consider "b < 0x80" | "0x80 \<le> b" "b < 0xC2" | "0xC2 \<le> b" "b < 0xE0" | "0xE0 \<le> b" "b < 0xF0"
    | "0xF0 \<le> b" "b < 0xF5" | "0xF5 \<le> b"
    by linarith
  then show ?thesis
  proof cases
    case 1
    with r show ?thesis
      by (intro exI [of _ b] exI [of _ r]) (simp add: stepOf_def utf8_bytes_def scalarValue_def)
  next
    case 3
    then obtain x where x: "b = 0xC0 + x" "2 \<le> x" "x < 32"
      by (intro that [of "b - 0xC0"]) simp_all
    have "stepOf 0 b = 2" using 3 by (simp add: stepOf_def)
    with r run_2 obtain z r' where z: "r = (0x80 + z) # r'" "z < 64" "runOf 0 r' = 0" by metis
    show ?thesis
      using bytes_2 [OF z(2) x(2,3)] x z by (intro exI [of _ "x * 64 + z"] exI [of _ r']) simp
  next
    case 4
    then obtain x where x: "b = 0xE0 + x" "x < 16"
      by (intro that [of "b - 0xE0"]) simp_all
    then have s: "stepOf 0 b = (if x = 0 then 4 else if x = 13 then 5 else 3)"
      by (simp add: stepOf_def)
    have "\<exists>y z r'. r = (0x80 + y) # (0x80 + z) # r' \<and> (x = 0 \<longrightarrow> 32 \<le> y) \<and> (x = 13 \<longrightarrow> y < 32) \<and> y < 64 \<and> z < 64
        \<and> runOf 0 r' = 0"
      using r s by (cases "x = 0"; cases "x = 13") (auto dest!: run_3 run_4 run_5)
    then obtain y z r' where "r = (0x80 + y) # (0x80 + z) # r'" "runOf 0 r' = 0"
      "y < 64" "z < 64" "x = 0 \<longrightarrow> 32 \<le> y" "x = 13 \<longrightarrow> y < 32" by blast
    with x bytes_3 [of y z x] show ?thesis
      by (intro exI [of _ "x * 4096 + y * 64 + z"] exI [of _ r']) simp
  next
    case 5
    then obtain w where w: "b = 0xF0 + w" "w < 5"
      by (intro that [of "b - 0xF0"]) simp_all
    then have s: "stepOf 0 b = (if w = 0 then 6 else if w = 4 then 8 else 7)"
      by (simp add: stepOf_def)
    have "\<exists>x y z r'. r = (0x80 + x) # (0x80 + y) # (0x80 + z) # r' \<and> (w = 0 \<longrightarrow> 16 \<le> x) \<and> (w = 4 \<longrightarrow> x < 16)
        \<and> x < 64 \<and> y < 64 \<and> z < 64 \<and> runOf 0 r' = 0"
      using r s by (cases "w = 0"; cases "w = 4") (auto dest!: run_6 run_7 run_8)
    then obtain x y z r' where "r = (0x80 + x) # (0x80 + y) # (0x80 + z) # r'" "runOf 0 r' = 0"
      "x < 64" "y < 64" "z < 64" "w = 0 \<longrightarrow> 16 \<le> x" "w = 4 \<longrightarrow> x < 16" by blast
    with w bytes_4 [of x y z w] show ?thesis
      by (intro exI [of _ "w * 262144 + x * 4096 + y * 64 + z"] exI [of _ r']) simp
  qed (use r in \<open>auto simp: stepOf_def run_1\<close>)
qed

lemma run_accepts: "runOf 0 bs = 0 \<Longrightarrow> (\<forall>b \<in> set bs. b < 256) \<Longrightarrow>
   \<exists>cs. list_all scalarValue cs \<and> bs = concat (map utf8_bytes cs)"
proof (induction bs rule: length_induct)
  case (1 bs)
  show ?case
  proof (cases bs)
    case (Cons b r)
    with 1 run_first [of b r] obtain c r' where
      c: "scalarValue c" "bs = utf8_bytes c @ r'" "runOf 0 r' = 0" "utf8_bytes c \<noteq> []"
      by auto
    with 1 obtain cs where "list_all scalarValue cs" "r' = concat (map utf8_bytes cs)"
      by (metis Un_iff length_append length_greater_0_conv less_add_same_cancel2 set_append)
    with c show ?thesis
      by (intro exI [of _ "c # cs"]) simp
  qed (auto intro: exI [of _ "[]"])
qed

definition validUtf8 :: "u8 list \<Rightarrow> bool" where
  "validUtf8 s \<longleftrightarrow> (\<exists>cs. list_all scalarValue cs \<and> map unat s = concat (map utf8_bytes cs))"

lemma run_scalars: "list_all scalarValue cs \<Longrightarrow> runOf 0 (concat (map utf8_bytes cs)) = 0"
  by (induction cs) (simp_all add: run_scalar)

lemma validUtf8_run: "validUtf8 s \<longleftrightarrow> runOf 0 (map unat s) = 0"
proof
  show "runOf 0 (map unat s) = 0 \<Longrightarrow> validUtf8 s"
    unfolding validUtf8_def using run_accepts [of "map unat s"] u8_bound by auto
qed (auto simp: validUtf8_def run_scalars)

lemma runOf_bound: "s \<le> 8 \<Longrightarrow> runOf s bs \<le> 8"
  by (induction bs arbitrary: s) (simp_all add: stepOf_bound)

text \<open>From every state but the rejecting one some bytes lead to acceptance.\<close>

definition completion :: "nat \<Rightarrow> u8 list" where
  "completion s = (if s = 0 then [] else if s = 2 then [0x80] else if s = 3 \<or> s = 5 then [0x80, 0x80]
     else if s = 4 then [0xA0, 0x80] else if s = 6 then [0x90, 0x80, 0x80] else [0x80, 0x80, 0x80])"

lemma completion_accepts: "s \<le> 8 \<Longrightarrow> s \<noteq> 1 \<Longrightarrow> runOf s (map unat (completion s)) = 0"
proof -
  assume s: "s \<le> 8" "s \<noteq> 1"
  then consider "s = 0" | "s = 2" | "s = 3" | "s = 4" | "s = 5" | "s = 6" | "s = 7" | "s = 8"
    by linarith
  then show ?thesis
    by cases (simp_all add: completion_def stepOf_def)
qed

lemma u32_small: "n \<le> 8 \<Longrightarrow> unat (of_nat n :: u32) = n" "n \<le> 8 \<Longrightarrow> m \<le> 8 \<Longrightarrow> (of_nat n :: u32) = of_nat m \<longleftrightarrow> n = m"
proof -
  show u: "n \<le> 8 \<Longrightarrow> unat (of_nat n :: u32) = n" for n
    by (simp add: unat_of_nat)
  show "n \<le> 8 \<Longrightarrow> m \<le> 8 \<Longrightarrow> (of_nat n :: u32) = of_nat m \<longleftrightarrow> n = m"
    using u [of n] u [of m] by metis
qed

lemma is_utf8_len_state_run:
  "unat st \<le> 8 \<Longrightarrow> is_utf8_len_state cp s st = Inr (of_nat (runOf (unat st) (map unat s)))"
  using decodeLoop_run [of st s cp] by (auto simp: is_utf8_len_state_def)

text \<open>
  \<^bold>\<open>C35.\<close> The validation of UTF-8 is right. \<open>is_utf8_len\<close> never reads outside its table and accepts exactly the
  byte strings that are encodings of sequences of Unicode scalar values: no overlong forms, no surrogates,
  nothing above 10FFFFh. Checking a message by fragments is the same as checking it whole: the state that
  \<open>is_utf8_len_state\<close> returns for a fragment is ACCEPT iff the fragment is valid by itself, REJECT iff
  no bytes after it could make it valid, and carrying it into the next fragment gives the state of both.
\<close>

theorem utf8_validation:
  "is_utf8_len cp s = Inr (if validUtf8 s then 1 else 0) \<and>
   (\<exists>st. is_utf8_len_state cp s UTF8_ACCEPT = Inr st \<and> (st = UTF8_ACCEPT \<longleftrightarrow> validUtf8 s) \<and>
     (st = UTF8_REJECT \<longleftrightarrow> (\<forall>t. \<not> validUtf8 (s @ t))) \<and>
     (\<forall>cp' t. is_utf8_len_state cp' t st = is_utf8_len_state cp (s @ t) UTF8_ACCEPT))"
proof -
  let ?n = "runOf 0 (map unat s)"
  have n: "?n \<le> 8" using runOf_bound [of 0] by simp
  have zero: "(of_nat ?n :: u32) = 0 \<longleftrightarrow> validUtf8 s" "(of_nat ?n :: u32) = 1 \<longleftrightarrow> ?n = 1"
    using u32_small(2) [OF n, of 0] u32_small(2) [OF n, of 1] by (simp_all add: validUtf8_run)
  have "?n = 1 \<longleftrightarrow> (\<forall>t. \<not> validUtf8 (s @ t))"
  proof
    show "\<forall>t. \<not> validUtf8 (s @ t) \<Longrightarrow> ?n = 1"
      using completion_accepts [OF n] by (metis validUtf8_run runOf_append map_append)
  qed (simp add: validUtf8_run runOf_append run_1)
  moreover have "is_utf8_len_state cp' t (of_nat ?n) = is_utf8_len_state cp (s @ t) UTF8_ACCEPT" for cp' t
    using n by (simp add: is_utf8_len_state_run u32_small(1) runOf_append)
  moreover have "is_utf8_len cp s = Inr (if validUtf8 s then 1 else 0)"
    using decodeLoop_run [of 0 s cp] zero by (auto simp: is_utf8_len_def)
  ultimately show ?thesis
    using zero by (intro conjI exI [of _ "of_nat ?n"]) (simp_all add: is_utf8_len_state_run)
qed

end
