(* ===== verification/Ws_Base64.thy ===== *)
theory Ws_Base64
  imports GB_Prelude "HOL-Library.Char_ord"
begin

text \<open>
  Base64, \<^verbatim>\<open>libs/wsServer/src/base64.c\<close>: encoding with a line feed after 72 characters and decoding that
  skips what is not in the alphabet. The buffers are filled from the front, so a buffer is the list of what
  has been written and every write is checked against the size that was allocated. \<open>malloc\<close> succeeds or
  not as a parameter says.
\<close>

section \<open>Encoding\<close>

definition base64_table :: string where
  "base64_table = ''ABCDEFGHIJKLMNOPQRSTUVWXYZabcdefghijklmnopqrstuvwxyz0123456789+/''"

text \<open>The array has 65 bytes with the terminator.\<close>

definition base64_char :: "u8 \<Rightarrow> char res" where
  "base64_char i = (if unat i < 64 then Inr (base64_table ! unat i)
     else if unat i = 64 then Inr (CHR 0x00) else Inl OutOfBounds)"

definition putc :: "nat \<Rightarrow> 'a \<Rightarrow> 'a list \<Rightarrow> 'a list res" where
  "putc olen c out = (if length out < olen then Inr (out @ [c]) else Inl OutOfBounds)"

definition put64 :: "nat \<Rightarrow> u8 \<Rightarrow> string \<Rightarrow> string res" where
  "put64 olen i out = bind_res (base64_char i) (\<lambda>c. putc olen c out)"

abbreviation lineFeed :: char where "lineFeed \<equiv> CHR 0x0A"

fun encodeLoop :: "nat \<Rightarrow> u8 list \<Rightarrow> nat \<Rightarrow> string \<Rightarrow> (u8 list \<times> nat \<times> string) res" where
  "encodeLoop olen (a # b # c # rest) line_len out =
     bind_res (put64 olen (drop_bit 2 a) out) (\<lambda>out.
     bind_res (put64 olen (push_bit 4 (a AND 0x03) OR drop_bit 4 b) out) (\<lambda>out.
     bind_res (put64 olen (push_bit 2 (b AND 0x0f) OR drop_bit 6 c) out) (\<lambda>out.
     bind_res (put64 olen (c AND 0x3f) out) (\<lambda>out.
     let line_len = line_len + 4 in
     if line_len \<ge> 72 then bind_res (putc olen lineFeed out) (encodeLoop olen rest 0)
     else encodeLoop olen rest line_len out))))"
| "encodeLoop olen rest line_len out = Inr (rest, line_len, out)"

text \<open>The one or two bytes that are left.\<close>

definition encodeTail :: "nat \<Rightarrow> u8 list \<Rightarrow> nat \<Rightarrow> string \<Rightarrow> (nat \<times> string) res" where
  "encodeTail olen rest line_len out =
    (case rest of [] \<Rightarrow> Inr (line_len, out)
     | a # r \<Rightarrow>
       bind_res (put64 olen (drop_bit 2 a) out) (\<lambda>out.
       bind_res
         (case r of [] \<Rightarrow>
            bind_res (put64 olen (push_bit 4 (a AND 0x03)) out) (putc olen (CHR ''=''))
          | b # _ \<Rightarrow>
            bind_res (put64 olen (push_bit 4 (a AND 0x03) OR drop_bit 4 b) out)
              (put64 olen (push_bit 2 (b AND 0x0f))))
         (\<lambda>out. bind_res (putc olen (CHR ''='') out) (\<lambda>out. Inr (line_len + 4, out)))))"

definition encodedSize :: "nat \<Rightarrow> u64" where
  "encodedSize len = (let olen = of_nat len * 4 div 3 + 4; olen = olen + olen div 72 in olen + 1)"

text \<open>The text before its terminator, or NULL.\<close>

definition base64_encode :: "bool \<Rightarrow> u8 list \<Rightarrow> string option res" where
  "base64_encode mallocOk src =
    (let olen = encodedSize (length src) in
     if olen < of_nat (length src) then Inr None
     else if \<not> mallocOk then Inr None
     else
       bind_res (encodeLoop (unat olen) src 0 []) (\<lambda>(rest, line_len, out).
       bind_res (encodeTail (unat olen) rest line_len out) (\<lambda>(line_len, out).
       bind_res (if line_len \<noteq> 0 then putc (unat olen) lineFeed out else Inr out) (\<lambda>out.
       bind_res (putc (unat olen) (CHR 0x00) out) (\<lambda>_. Inr (Some out))))))"

section \<open>Decoding\<close>

definition dtable :: "char \<Rightarrow> u8" where
  "dtable = (fold (\<lambda>i d. d(base64_table ! i := of_nat i)) [0..<64] (\<lambda>_. 0x80))(CHR ''='' := 0)"

fun decodeLoop64 :: "nat \<Rightarrow> string \<Rightarrow> nat \<Rightarrow> u8 list \<Rightarrow> u8 list \<Rightarrow> u8 list option res" where
  "decodeLoop64 olen [] pad block out = Inr (Some out)"
| "decodeLoop64 olen (c # cs) pad block out =
     (let tmp = dtable c in
      if tmp = 0x80 then decodeLoop64 olen cs pad block out
      else
        let pad = (if c = CHR ''='' then pad + 1 else pad); block = block @ [tmp] in
        if length block = 4 then
          bind_res (putc olen (push_bit 2 (block ! 0) OR drop_bit 4 (block ! 1)) out) (\<lambda>out.
          bind_res (putc olen (push_bit 4 (block ! 1) OR drop_bit 2 (block ! 2)) out) (\<lambda>out.
          bind_res (putc olen (push_bit 6 (block ! 2) OR block ! 3) out) (\<lambda>out.
            if pad > 0 then
              (if pad = 1 then Inr (Some (take (length out - 1) out))
               else if pad = 2 then Inr (Some (take (length out - 2) out))
               else Inr None)
            else decodeLoop64 olen cs pad [] out)))
        else decodeLoop64 olen cs pad block out)"

definition base64_decode :: "bool \<Rightarrow> string \<Rightarrow> u8 list option res" where
  "base64_decode mallocOk src =
    (let count = length (filter (\<lambda>c. dtable c \<noteq> 0x80) src) in
     if count = 0 \<or> count mod 4 \<noteq> 0 then Inr None
     else if \<not> mallocOk then Inr None
     else decodeLoop64 (count div 4 * 3) src 0 [] [])"

section \<open>The encoding as text\<close>

text \<open>RFC 4648: groups of 24 bits as four digits to the base 64, with padding.\<close>

definition digit64 :: "nat \<Rightarrow> char" where
  "digit64 d = base64_table ! d"

fun base64 :: "nat list \<Rightarrow> string" where
  "base64 (a # b # c # rest) =
     [digit64 (a div 4), digit64 (a mod 4 * 16 + b div 16), digit64 (b mod 16 * 4 + c div 64), digit64 (c mod 64)]
       @ base64 rest"
| "base64 [a, b] = [digit64 (a div 4), digit64 (a mod 4 * 16 + b div 16), digit64 (b mod 16 * 4), CHR ''='']"
| "base64 [a] = [digit64 (a div 4), digit64 (a mod 4 * 16), CHR ''='', CHR ''='']"
| "base64 [] = []"

lemma u8_parts:
  fixes x :: u8
  shows "unat (drop_bit n x) = unat x div 2 ^ n" "unat (x AND mask k) = unat x mod 2 ^ k"
  by (simp_all only: unsigned_drop_bit_eq take_bit_eq_mask [symmetric] unsigned_take_bit_eq)
    (simp_all add: drop_bit_eq_div take_bit_eq_mod u8_bound)

lemma u8_low_push:
  fixes x :: u8
  shows "unat (push_bit 4 (x AND 0x03)) = unat x mod 4 * 16" "unat (push_bit 2 (x AND 0x0f)) = unat x mod 16 * 4"
proof -
  have m: "(0x03 :: u8) = mask 2" "(0x0f :: u8) = mask 4"
    by (simp_all add: mask_eq_exp_minus_1)
  have "unat x mod 4 * 16 < 256" "unat x mod 16 * 4 < 256"
    by (simp_all add: less_mult_imp_div_less)
  then show "unat (push_bit 4 (x AND 0x03)) = unat x mod 4 * 16" "unat (push_bit 2 (x AND 0x0f)) = unat x mod 16 * 4"
    unfolding m by (simp_all only: unsigned_push_bit_eq u8_parts)
      (simp_all add: push_bit_eq_mult take_bit_eq_mod)
qed

lemma u8_or:
  fixes x y :: u8
  assumes "x AND y = 0" "unat x + unat y < 256"
  shows "unat (x OR y) = unat x + unat y"
  using assms unat_add_lem [of x y] by (simp add: disjunctive_add_eq_or)

lemma sextets:
  fixes a b c :: u8
  shows "unat (drop_bit 2 a) = unat a div 4" "unat (c AND 0x3f) = unat c mod 64"
    "unat (push_bit 4 (a AND 0x03) OR drop_bit 4 b) = unat a mod 4 * 16 + unat b div 16"
    "unat (push_bit 2 (b AND 0x0f) OR drop_bit 6 c) = unat b mod 16 * 4 + unat c div 64"
proof -
  have m: "(0x3f :: u8) = mask 6"
    by (simp add: mask_eq_exp_minus_1)
  show "unat (drop_bit 2 a) = unat a div 4" "unat (c AND 0x3f) = unat c mod 64"
    unfolding m by (simp_all only: u8_parts) simp_all
  have "push_bit 4 (a AND 0x03) AND drop_bit 4 b = 0" "push_bit 2 (b AND 0x0f) AND drop_bit 6 c = 0"
    by (rule bit_word_eqI, auto simp: bit_simps dest: bit_imp_le_length)+
  moreover have "unat b div 16 < 16" "unat c div 64 < 4"
    using u8_bound [of b] u8_bound [of c] by (simp_all add: less_mult_imp_div_less)
  moreover have "unat a mod 4 < 4" "unat b mod 16 < 16" by simp_all
  moreover have "unat (drop_bit 4 b) = unat b div 16" "unat (drop_bit 6 c) = unat c div 64"
    by (simp_all only: u8_parts) simp_all
  ultimately show "unat (push_bit 4 (a AND 0x03) OR drop_bit 4 b) = unat a mod 4 * 16 + unat b div 16"
    "unat (push_bit 2 (b AND 0x0f) OR drop_bit 6 c) = unat b mod 16 * 4 + unat c div 64"
    by (subst u8_or; simp only: u8_low_push; linarith)+
qed

section \<open>What the encoder writes\<close>

fun encoded :: "nat \<Rightarrow> u8 list \<Rightarrow> string" where
  "encoded l (a # b # c # rest) =
     base64 [unat a, unat b, unat c]
       @ (if l + 4 \<ge> 72 then lineFeed # encoded 0 rest else encoded (l + 4) rest)"
| "encoded l rest = base64 (map unat rest) @ (if l \<noteq> 0 \<or> rest \<noteq> [] then [lineFeed] else [])"

lemmas encoded_induct = encoded.induct [case_names group none one two]

lemma put64_digit:
  "unat i = d \<Longrightarrow> d < 64 \<Longrightarrow> length out < olen \<Longrightarrow> put64 olen i out = Inr (out @ [digit64 d])"
  by (auto simp: put64_def base64_char_def putc_def digit64_def)

lemma putc_ok: "length out < olen \<Longrightarrow> putc olen c out = Inr (out @ [c])"
  by (simp add: putc_def)

lemma sextet_bounds:
  fixes a b c :: u8
  shows "unat a div 4 < 64" "unat a mod 4 * 16 + unat b div 16 < 64" "unat b mod 16 * 4 + unat c div 64 < 64"
    "unat c mod 64 < 64" "unat a mod 4 * 16 < 64" "unat b mod 16 * 4 < 64"
proof -
  have "unat a div 4 < 64" "unat b div 16 < 16" "unat c div 64 < 4" "unat a mod 4 < 4" "unat b mod 16 < 16"
    using u8_bound [of a] u8_bound [of b] u8_bound [of c] by (simp_all add: less_mult_imp_div_less)
  then show "unat a div 4 < 64" "unat a mod 4 * 16 + unat b div 16 < 64" "unat b mod 16 * 4 + unat c div 64 < 64"
    "unat c mod 64 < 64" "unat a mod 4 * 16 < 64" "unat b mod 16 * 4 < 64"
    by (linarith | simp)+
qed

lemmas put_digits = put64_digit [OF sextets(1) sextet_bounds(1)] put64_digit [OF sextets(3) sextet_bounds(2)]
  put64_digit [OF sextets(4) sextet_bounds(3)] put64_digit [OF sextets(2) sextet_bounds(4)]
  put64_digit [OF u8_low_push(1) sextet_bounds(5)] put64_digit [OF u8_low_push(2) sextet_bounds(6)] putc_ok

definition finishEncoding :: "nat \<Rightarrow> u8 list \<times> nat \<times> string \<Rightarrow> string option res" where
  "finishEncoding olen = (\<lambda>(rest, line_len, out).
     bind_res (encodeTail olen rest line_len out) (\<lambda>(line_len, out).
     bind_res (if line_len \<noteq> 0 then putc olen lineFeed out else Inr out) (\<lambda>out.
     bind_res (putc olen (CHR 0x00) out) (\<lambda>_. Inr (Some out)))))"

lemma encodeLoop_encoded:
  "length out + length (encoded l src) < olen \<Longrightarrow>
   bind_res (encodeLoop olen src l out) (finishEncoding olen) = Inr (Some (out @ encoded l src))"
proof (induction olen src l out rule: encodeLoop.induct)
  case (1 olen a b c rest l out)
  then show ?case
    by (cases "72 \<le> l + 4") (simp_all add: put_digits bind_res_assoc del: push_bit_and)
qed (auto simp: finishEncoding_def encodeTail_def put_digits simp del: push_bit_and)

lemma line_ends:
  "l < 72 \<Longrightarrow> l mod 4 = 0 \<Longrightarrow> (l + 75) div 72 = Suc 0"
  "l < 72 \<Longrightarrow> l mod 4 = 0 \<Longrightarrow> (l + 71) div 72 = (if l = 0 then 0 else Suc 0)" for l :: nat
proof -
  assume "l < 72" "l mod 4 = 0"
  moreover from this obtain k where "l = 4 * k" by (metis mod_0_imp_dvd dvdE)
  ultimately have k: "l = 4 * k" "k \<le> 17" by auto
  then show "(l + 75) div 72 = Suc 0" by (intro div_nat_eqI) auto
  show "(l + 71) div 72 = (if l = 0 then 0 else Suc 0)" using k by (auto intro!: div_nat_eqI)
qed

lemma encoded_length:
  "l < 72 \<Longrightarrow> l mod 4 = 0 \<Longrightarrow>
   length (encoded l src) = 4 * ((length src + 2) div 3) + (l + 4 * ((length src + 2) div 3) + 71) div 72"
proof (induction l src rule: encoded_induct)
  case (group l a b c rest)
  let ?c = "4 * ((length rest + 2) div 3)"
  have c: "4 * ((length (a # b # c # rest) + 2) div 3) = 4 + ?c"
    by (simp only: list.size) presburger
  show ?case
  proof (cases "72 \<le> l + 4")
    case True
    with group have l: "l = 68" by presburger
    have "(72 + ?c + 71) div 72 = 1 + (?c + 71) div 72" by simp
    with group l show ?thesis unfolding c by simp
  next
    case False
    with group(2,3,4) show ?thesis unfolding c by simp
  qed
next
  case (none l)
  then show ?case using line_ends by simp
next
  case (one l a)
  then show ?case using line_ends(1) [of l] by (simp add: add.commute)
next
  case (two l a b)
  then show ?case using line_ends(1) [of l] by (simp add: add.commute)
qed

lemma encodedSize_room:
  assumes "length src < 2 ^ 60"
  shows "length (encoded 0 src) < unat (encodedSize (length src))" "of_nat (length src) \<le> encodedSize (length src)"
proof -
  let ?n = "length src"
  have *: "unat (of_nat ?n * 4 div 3 + 4 :: u64) = ?n * 4 div 3 + 4"
    using assms by (simp add: unat_word_ariths unat_of_nat)
  then have u: "unat (encodedSize ?n) = (?n * 4 div 3 + 4) + (?n * 4 div 3 + 4) div 72 + 1"
    using assms unfolding encodedSize_def Let_def by (simp add: unat_word_ariths unat_of_nat)
  have x: "4 * ((?n + 2) div 3) < ?n * 4 div 3 + 4" by presburger
  then have "(4 * ((?n + 2) div 3) + 71) div 72 \<le> (?n * 4 div 3 + 4 + 72) div 72"
    by (intro div_le_mono) simp
  then have "(4 * ((?n + 2) div 3) + 71) div 72 \<le> (?n * 4 div 3 + 4) div 72 + 1"
    by simp
  moreover have "length (encoded 0 src) = 4 * ((?n + 2) div 3) + (4 * ((?n + 2) div 3) + 71) div 72"
    using encoded_length [of 0 src] by simp
  ultimately show "length (encoded 0 src) < unat (encodedSize ?n)"
    unfolding u using x by linarith
  show "of_nat ?n \<le> encodedSize ?n"
    using assms u by (simp add: word_le_nat_alt unat_of_nat)
qed

lemma base64_encode_ok:
  assumes "length src < 2 ^ 60"
  shows "base64_encode True src = Inr (Some (encoded 0 src))"
proof -
  have "\<not> encodedSize (length src) < of_nat (length src)"
    using encodedSize_room(2) [OF assms] by (simp add: not_less)
  with encodeLoop_encoded [of "[]" 0 src "unat (encodedSize (length src))"] encodedSize_room(1) [OF assms]
  show ?thesis
    by (simp add: base64_encode_def finishEncoding_def Let_def split_def)
qed

section \<open>Decoding\<close>

lemma dtable_digit: "d < 64 \<Longrightarrow> dtable (digit64 d) = of_nat d \<and> digit64 d \<noteq> CHR ''='' \<and> digit64 d \<noteq> lineFeed"
proof -
  have "list_all (\<lambda>d. dtable (digit64 d) = of_nat d \<and> digit64 d \<noteq> CHR ''='' \<and> digit64 d \<noteq> lineFeed) [0..<64]"
    by code_simp
  then show "d < 64 \<Longrightarrow> dtable (digit64 d) = of_nat d \<and> digit64 d \<noteq> CHR ''='' \<and> digit64 d \<noteq> lineFeed"
    by (simp add: list_all_iff)
qed

lemma dtable_other: "dtable (CHR ''='') = 0" "dtable lineFeed = 0x80"
  by code_simp+

lemma decode_skip: "dtable c = 0x80 \<Longrightarrow> decodeLoop64 olen (c # cs) pad block out = decodeLoop64 olen cs pad block out"
  by simp

text \<open>A character of the alphabet with its value.\<close>

definition valued :: "char \<Rightarrow> u8 \<Rightarrow> bool" where
  "valued c v \<longleftrightarrow> dtable c = v \<and> v \<noteq> 0x80 \<and> c \<noteq> CHR ''=''"

lemma decode_block:
  assumes "valued c0 v0" "valued c1 v1" "valued c2 v2" "valued c3 v3" "length out + 3 \<le> olen"
  shows "decodeLoop64 olen (c0 # c1 # c2 # c3 # cs) 0 [] out
    = decodeLoop64 olen cs 0 [] (out @ [push_bit 2 v0 OR drop_bit 4 v1, push_bit 4 v1 OR drop_bit 2 v2, push_bit 6 v2 OR v3])"
  using assms by (auto simp: putc_ok valued_def)

lemma decode_pad1:
  assumes "valued c0 v0" "valued c1 v1" "valued c2 v2" "length out + 3 \<le> olen"
  shows "decodeLoop64 olen (c0 # c1 # c2 # CHR ''='' # cs) 0 [] out
    = Inr (Some (out @ [push_bit 2 v0 OR drop_bit 4 v1, push_bit 4 v1 OR drop_bit 2 v2]))"
  using assms by (auto simp: putc_ok dtable_other valued_def)

lemma decode_pad2:
  assumes "valued c0 v0" "valued c1 v1" "length out + 3 \<le> olen"
  shows "decodeLoop64 olen (c0 # c1 # CHR ''='' # CHR ''='' # cs) 0 [] out = Inr (Some (out @ [push_bit 2 v0 OR drop_bit 4 v1]))"
  using assms by (auto simp: putc_ok dtable_other valued_def)

text \<open>The bits come back together.\<close>

lemma rejoin:
  fixes a b c :: u8
  shows "push_bit 2 (drop_bit 2 a) OR drop_bit 4 (push_bit 4 (a AND 0x03) OR drop_bit 4 b) = a"
    "push_bit 4 (push_bit 4 (a AND 0x03) OR drop_bit 4 b) OR drop_bit 2 (push_bit 2 (b AND 0x0f) OR drop_bit 6 c) = b"
    "push_bit 6 (push_bit 2 (b AND 0x0f) OR drop_bit 6 c) OR (c AND 0x3f) = c"
    "push_bit 2 (drop_bit 2 a) OR drop_bit 4 (push_bit 4 (a AND 0x03)) = a"
    "push_bit 4 (push_bit 4 (a AND 0x03) OR drop_bit 4 b) OR drop_bit 2 (push_bit 2 (b AND 0x0f)) = b"
proof -
  have m: "(0x3f :: u8) = mask 6" "(0x03 :: u8) = mask 2" "(0x0f :: u8) = mask 4"
    by (simp_all add: mask_eq_exp_minus_1)
  show "push_bit 2 (drop_bit 2 a) OR drop_bit 4 (push_bit 4 (a AND 0x03) OR drop_bit 4 b) = a"
    "push_bit 4 (push_bit 4 (a AND 0x03) OR drop_bit 4 b) OR drop_bit 2 (push_bit 2 (b AND 0x0f) OR drop_bit 6 c) = b"
    "push_bit 6 (push_bit 2 (b AND 0x0f) OR drop_bit 6 c) OR (c AND 0x3f) = c"
    "push_bit 2 (drop_bit 2 a) OR drop_bit 4 (push_bit 4 (a AND 0x03)) = a"
    "push_bit 4 (push_bit 4 (a AND 0x03) OR drop_bit 4 b) OR drop_bit 2 (push_bit 2 (b AND 0x0f)) = b"
    unfolding m by (rule byte_eqI; simp add: bit_simps)+
qed

text \<open>The value of a digit is the bits that it was made of.\<close>

lemma dtable_value: "unat v = d \<Longrightarrow> d < 64 \<Longrightarrow> valued (digit64 d) v"
proof -
  assume d: "unat v = d" "d < 64"
  then have "v \<noteq> 0x80" by auto
  with d dtable_digit [of d] show ?thesis by (auto simp: valued_def)
qed

lemmas digit_values = dtable_value [OF sextets(1) sextet_bounds(1)] dtable_value [OF sextets(3) sextet_bounds(2)]
  dtable_value [OF sextets(4) sextet_bounds(3)] dtable_value [OF sextets(2) sextet_bounds(4)]
  dtable_value [OF u8_low_push(1) sextet_bounds(5)] dtable_value [OF u8_low_push(2) sextet_bounds(6)]

lemma decode_encoded:
  "length out + (length src + 2) div 3 * 3 \<le> olen \<Longrightarrow> decodeLoop64 olen (encoded l src) 0 [] out = Inr (Some (out @ src))"
proof (induction l src arbitrary: out rule: encoded_induct)
  case (group l a b c rest)
  have len: "(length (a # b # c # rest) + 2) div 3 * 3 = 3 + (length rest + 2) div 3 * 3"
    by (simp only: list.size) presburger
  have step: "decodeLoop64 olen (base64 [unat a, unat b, unat c] @ cs) 0 [] out = decodeLoop64 olen cs 0 [] (out @ [a, b, c])"
    for cs
    using decode_block [OF digit_values(1) [of a] digit_values(2) [of a b] digit_values(3) [of b c] digit_values(4) [of c],
      of out olen cs] group(3) len by (simp only: rejoin) (simp del: decodeLoop64.simps)
  show ?case
    using group len by (cases "72 \<le> l + 4")
      (simp_all only: encoded.simps step if_True if_False, simp_all add: dtable_other)
next
  case (none l)
  then show ?case by (simp add: dtable_other)
next
  case (one l a)
  then show ?case
    using decode_pad2 [OF digit_values(1) [of a] digit_values(5) [of a], of out olen "[lineFeed]"]
    by (simp only: rejoin) (simp del: decodeLoop64.simps)
next
  case (two l a b)
  then show ?case
    using decode_pad1 [OF digit_values(1) [of a] digit_values(2) [of a b] digit_values(6) [of b], of out olen "[lineFeed]"]
    by (simp only: rejoin) (simp del: decodeLoop64.simps)
qed

lemma valued_count: "valued c v \<Longrightarrow> dtable c \<noteq> 0x80"
  by (simp add: valued_def)

lemmas digit_counts = digit_values [THEN valued_count]

lemma encoded_count: "length (filter (\<lambda>c. dtable c \<noteq> 0x80) (encoded l src)) = 4 * ((length src + 2) div 3)"
proof (induction l src rule: encoded_induct)
  case (group l a b c rest)
  have "4 * ((length (a # b # c # rest) + 2) div 3) = 4 + 4 * ((length rest + 2) div 3)"
    by (simp only: list.size) presburger
  with group show ?case by (cases "72 \<le> l + 4") (simp_all add: digit_counts dtable_other)
qed (simp_all add: digit_counts dtable_other)

lemma encoded_text: "filter (\<lambda>c. c \<noteq> lineFeed) (encoded l src) = base64 (map unat src)"
proof (induction l src rule: encoded_induct)
  case (group l a b c rest)
  then show ?case
    using dtable_digit [OF sextet_bounds(1), of a] dtable_digit [OF sextet_bounds(2), of a b]
      dtable_digit [OF sextet_bounds(3), of b c] dtable_digit [OF sextet_bounds(4), of c]
    by (cases "72 \<le> l + 4") simp_all
next
  case (one l a)
  then show ?case
    using dtable_digit [OF sextet_bounds(1), of a] dtable_digit [OF sextet_bounds(5), of a] by simp
next
  case (two l a b)
  then show ?case
    using dtable_digit [OF sextet_bounds(1), of a] dtable_digit [OF sextet_bounds(2), of a b]
      dtable_digit [OF sextet_bounds(6), of b] by simp
qed simp

text \<open>Less than a line is one line.\<close>

lemma encoded_short:
  "l + 4 * ((length src + 2) div 3) < 72 \<Longrightarrow> src \<noteq> [] \<or> l \<noteq> 0 \<Longrightarrow> encoded l src = base64 (map unat src) @ [lineFeed]"
proof (induction l src rule: encoded_induct)
  case (group l a b c rest)
  have "4 * ((length (a # b # c # rest) + 2) div 3) = 4 + 4 * ((length rest + 2) div 3)"
    by (simp only: list.size) presburger
  with group show ?case by simp
qed auto

text \<open>
  \<^bold>\<open>C37.\<close> Base64 round trip. For every non-empty input that memory can hold, encoding stays inside the buffer
  whose size it computes beforehand, line feeds and terminator included; without its line feeds
  the text is the base64 of RFC 4648; and decoding the text, within the buffer that the decoder sizes by
  counting, gives back the input. The empty input is the exception: it encodes to the empty text, which the
  decoder refuses.
\<close>

theorem base64_roundtrip:
  assumes "length src < 2 ^ 60" and "src \<noteq> []"
  shows "\<exists>t. base64_encode True src = Inr (Some t) \<and> filter (\<lambda>c. c \<noteq> lineFeed) t = base64 (map unat src)
      \<and> base64_decode True t = Inr (Some src)
      \<and> base64_encode True [] = Inr (Some []) \<and> base64_decode True [] = Inr None"
proof -
  have "0 < (length src + 2) div 3" "length src \<le> (length src + 2) div 3 * 3"
    using assms(2) by (cases src; simp) presburger
  then have "base64_decode True (encoded 0 src) = Inr (Some src)"
    using decode_encoded [of "[]" src "(length src + 2) div 3 * 3" 0]
    by (simp add: base64_decode_def encoded_count Let_def)
  then show ?thesis
    using base64_encode_ok [OF assms(1)] base64_encode_ok [of "[]"] encoded_text
    by (simp add: base64_decode_def)
qed

lemma base64_roundtrip_witness: "\<exists>t. base64_encode True [77, 97] = Inr (Some t) \<and> base64_decode True t = Inr (Some [77, 97])"
  using base64_roundtrip [of "[77, 97]"] by auto

end
