(* ===== verification/Ws_Sha1.thy ===== *)
theory Ws_Sha1
  imports GB_Prelude
begin

text \<open>
  SHA-1, \<^verbatim>\<open>libs/wsServer/src/sha1.c\<close>: the context that collects a message byte by byte, the processing of a
  block, and the padding. A context is never NULL, as the handshake uses it. The code shifts bytes into the
  sign bit of an \<open>int\<close>, which C leaves undefined; the model takes the bits of the word, as compilers do.
\<close>

section \<open>The context\<close>

type_synonym digest = "u32 \<times> u32 \<times> u32 \<times> u32 \<times> u32"

record SHA1Context =
  Intermediate_Hash :: digest
  Length_Low :: u32
  Length_High :: u32
  Message_Block_Index :: nat
  Message_Block :: "nat \<Rightarrow> u8"
  Computed :: int
  Corrupted :: int

definition shaSuccess :: int where [simp]: "shaSuccess = 0"

definition shaStateError :: int where [simp]: "shaStateError = 3"

definition SHA1HashSize :: nat where [simp]: "SHA1HashSize = 20"

definition SHA1CircularShift :: "nat \<Rightarrow> u32 \<Rightarrow> u32" where
  "SHA1CircularShift bits w = push_bit bits w OR drop_bit (32 - bits) w"

definition SHA1Reset :: "SHA1Context \<Rightarrow> int \<times> SHA1Context" where
  "SHA1Reset context = (shaSuccess, context\<lparr>Length_Low := 0, Length_High := 0, Message_Block_Index := 0,
     Intermediate_Hash := (0x67452301, 0xEFCDAB89, 0x98BADCFE, 0x10325476, 0xC3D2E1F0),
     Computed := 0, Corrupted := 0\<rparr>)"

section \<open>A block\<close>

text \<open>The first 16 words, and the 64 that are computed from them.\<close>

definition blockWord :: "(nat \<Rightarrow> u8) \<Rightarrow> nat \<Rightarrow> u32" where
  "blockWord b t = push_bit 24 (ucast (b (t * 4))) OR push_bit 16 (ucast (b (t * 4 + 1)))
     OR push_bit 8 (ucast (b (t * 4 + 2))) OR ucast (b (t * 4 + 3))"

definition nextWord :: "u32 list \<Rightarrow> u32" where
  "nextWord W = (let t = length W in
     SHA1CircularShift 1 (W ! (t - 3) XOR W ! (t - 8) XOR W ! (t - 14) XOR W ! (t - 16)))"

fun extendWords :: "nat \<Rightarrow> u32 list \<Rightarrow> u32 list" where
  "extendWords 0 W = W"
| "extendWords (Suc n) W = extendWords n (W @ [nextWord W])"

text \<open>The body of each of the four loops; \<open>f\<close> is what it computes from B, C and D.\<close>

definition roundStep :: "(u32 \<Rightarrow> u32 \<Rightarrow> u32 \<Rightarrow> u32) \<Rightarrow> u32 \<Rightarrow> u32 list \<Rightarrow> nat \<Rightarrow> digest \<Rightarrow> digest" where
  "roundStep f K W t = (\<lambda>(A, B, C, D, E).
     let temp = SHA1CircularShift 5 A + f B C D + E + W ! t + K
     in (temp, A, SHA1CircularShift 30 B, C, D))"

definition SHA1ProcessMessageBlock :: "SHA1Context \<Rightarrow> SHA1Context" where
  "SHA1ProcessMessageBlock context =
    (let W = extendWords 64 (map (blockWord (Message_Block context)) [0..<16]);
         s = Intermediate_Hash context;
         s = fold (roundStep (\<lambda>B C D. (B AND C) OR (NOT B AND D)) 0x5A827999 W) [0..<20] s;
         s = fold (roundStep (\<lambda>B C D. B XOR C XOR D) 0x6ED9EBA1 W) [20..<40] s;
         s = fold (roundStep (\<lambda>B C D. (B AND C) OR (B AND D) OR (C AND D)) 0x8F1BBCDC W) [40..<60] s;
         s = fold (roundStep (\<lambda>B C D. B XOR C XOR D) 0xCA62C1D6 W) [60..<80] s;
         (A, B, C, D, E) = s;
         (h0, h1, h2, h3, h4) = Intermediate_Hash context
     in context\<lparr>Intermediate_Hash := (h0 + A, h1 + B, h2 + C, h3 + D, h4 + E), Message_Block_Index := 0\<rparr>)"

section \<open>Input and result\<close>

definition storeByte :: "u8 \<Rightarrow> SHA1Context \<Rightarrow> SHA1Context res" where
  "storeByte b context =
    bind_res (arr_set 64 (Message_Block context) (Message_Block_Index context) b) (\<lambda>m.
      Inr (context\<lparr>Message_Block := m, Message_Block_Index := Message_Block_Index context + 1\<rparr>))"

definition countByte :: "SHA1Context \<Rightarrow> SHA1Context" where
  "countByte context =
    (let context = context\<lparr>Length_Low := Length_Low context + 8\<rparr>
     in if Length_Low context = 0 then
          (let context = context\<lparr>Length_High := Length_High context + 1\<rparr>
           in if Length_High context = 0 then context\<lparr>Corrupted := 1\<rparr> else context)
        else context)"

fun inputLoop :: "u8 list \<Rightarrow> SHA1Context \<Rightarrow> SHA1Context res" where
  "inputLoop [] context = Inr context"
| "inputLoop (b # bs) context =
     (if Corrupted context \<noteq> 0 then Inr context
      else
        bind_res (storeByte b context) (\<lambda>context.
        let context = countByte context in
        inputLoop bs (if Message_Block_Index context = 64 then SHA1ProcessMessageBlock context else context)))"

definition SHA1Input :: "u8 list \<Rightarrow> SHA1Context \<Rightarrow> (int \<times> SHA1Context) res" where
  "SHA1Input message context =
    (if length message = 0 then Inr (shaSuccess, context)
     else if Computed context \<noteq> 0 then Inr (shaStateError, context\<lparr>Corrupted := shaStateError\<rparr>)
     else if Corrupted context \<noteq> 0 then Inr (Corrupted context, context)
     else bind_res (inputLoop message context) (\<lambda>context. Inr (shaSuccess, context)))"

text \<open>Zeros up to an index; the loop takes that many rounds at most.\<close>

fun zerosTo :: "nat \<Rightarrow> nat \<Rightarrow> SHA1Context \<Rightarrow> SHA1Context res" where
  "zerosTo 0 n context = Inr context"
| "zerosTo (Suc fuel) n context =
     (if Message_Block_Index context < n then bind_res (storeByte 0 context) (zerosTo fuel n) else Inr context)"

text \<open>The length of the message as the last 8 octets.\<close>

definition storeLength :: "SHA1Context \<Rightarrow> SHA1Context" where
  "storeLength context =
    (let high = Length_High context; low = Length_Low context
     in context\<lparr>Message_Block := (Message_Block context)
          (56 := ucast (drop_bit 24 high), 57 := ucast (drop_bit 16 high), 58 := ucast (drop_bit 8 high),
           59 := ucast high, 60 := ucast (drop_bit 24 low), 61 := ucast (drop_bit 16 low),
           62 := ucast (drop_bit 8 low), 63 := ucast low)\<rparr>)"

definition SHA1PadMessage :: "SHA1Context \<Rightarrow> SHA1Context res" where
  "SHA1PadMessage context =
    bind_res
      (if Message_Block_Index context > 55 then
         bind_res (storeByte 0x80 context) (\<lambda>context.
         bind_res (zerosTo 64 64 context) (\<lambda>context.
         zerosTo 64 56 (SHA1ProcessMessageBlock context)))
       else
         bind_res (storeByte 0x80 context) (zerosTo 64 56))
      (\<lambda>context. Inr (SHA1ProcessMessageBlock (storeLength context)))"

definition digestWord :: "digest \<Rightarrow> nat \<Rightarrow> u32" where
  "digestWord d i = (case d of (h0, h1, h2, h3, h4) \<Rightarrow> [h0, h1, h2, h3, h4] ! i)"

definition SHA1Result :: "SHA1Context \<Rightarrow> ((int \<times> u8 list) \<times> SHA1Context) res" where
  "SHA1Result context =
    (if Corrupted context \<noteq> 0 then Inr ((Corrupted context, []), context)
     else
       bind_res
         (if Computed context = 0 then
            bind_res (SHA1PadMessage context) (\<lambda>context.
              Inr (context\<lparr>Message_Block := (\<lambda>i. if i < 64 then 0 else Message_Block context i),
                Length_Low := 0, Length_High := 0, Computed := 1\<rparr>))
          else Inr context)
         (\<lambda>context.
           Inr ((shaSuccess, map (\<lambda>i. ucast (drop_bit (8 * (3 - i mod 4)) (digestWord (Intermediate_Hash context) (i div 4))))
             [0..<SHA1HashSize]), context)))"

section \<open>The standard\<close>

text \<open>FIPS 180-4: the padded message, its blocks, the schedule of a block and 80 rounds of one function each.\<close>

definition be32 :: "u32 \<Rightarrow> u8 list" where
  "be32 w = [ucast (drop_bit 24 w), ucast (drop_bit 16 w), ucast (drop_bit 8 w), ucast w]"

definition be64 :: "nat \<Rightarrow> u8 list" where
  "be64 n = map (\<lambda>i. of_nat (n div 256 ^ (7 - i))) [0..<8]"

definition sha1_pad :: "u8 list \<Rightarrow> u8 list" where
  "sha1_pad m = m @ [0x80] @ replicate ((119 - length m mod 64) mod 64) 0 @ be64 (8 * length m)"

function sha1_W :: "u8 list \<Rightarrow> nat \<Rightarrow> u32" where
  "sha1_W b t =
    (if t < 16 then of_nat (unat (b ! (4 * t)) * 2 ^ 24 + unat (b ! (4 * t + 1)) * 2 ^ 16
       + unat (b ! (4 * t + 2)) * 2 ^ 8 + unat (b ! (4 * t + 3)))
     else word_rotl 1 (sha1_W b (t - 3) XOR sha1_W b (t - 8) XOR sha1_W b (t - 14) XOR sha1_W b (t - 16)))"
  by pat_completeness auto
termination
  by (relation "measure snd") auto

declare sha1_W.simps [simp del]

definition sha1_f :: "nat \<Rightarrow> u32 \<Rightarrow> u32 \<Rightarrow> u32 \<Rightarrow> u32" where
  "sha1_f t x y z =
    (if t < 20 then (x AND y) XOR (NOT x AND z)
     else if t < 40 then x XOR y XOR z
     else if t < 60 then (x AND y) XOR (x AND z) XOR (y AND z)
     else x XOR y XOR z)"

definition sha1_K :: "nat \<Rightarrow> u32" where
  "sha1_K t = (if t < 20 then 0x5A827999 else if t < 40 then 0x6ED9EBA1 else if t < 60 then 0x8F1BBCDC else 0xCA62C1D6)"

definition sha1_round :: "u8 list \<Rightarrow> nat \<Rightarrow> digest \<Rightarrow> digest" where
  "sha1_round b t = (\<lambda>(A, B, C, D, E).
     (word_rotl 5 A + sha1_f t B C D + E + sha1_K t + sha1_W b t, A, word_rotl 30 B, C, D))"

definition sha1_block :: "digest \<Rightarrow> u8 list \<Rightarrow> digest" where
  "sha1_block h b = (case (h, fold (sha1_round b) [0..<80] h) of
     ((h0, h1, h2, h3, h4), (A, B, C, D, E)) \<Rightarrow> (h0 + A, h1 + B, h2 + C, h3 + D, h4 + E))"

function sha1_blocks :: "digest \<Rightarrow> u8 list \<Rightarrow> digest" where
  "sha1_blocks h m = (if length m < 64 then h else sha1_blocks (sha1_block h (take 64 m)) (drop 64 m))"
  by pat_completeness auto
termination
  by (relation "measure (\<lambda>(h, m). length m)") auto

declare sha1_blocks.simps [simp del]

definition sha1_bytes :: "digest \<Rightarrow> u8 list" where
  "sha1_bytes = (\<lambda>(h0, h1, h2, h3, h4). be32 h0 @ be32 h1 @ be32 h2 @ be32 h3 @ be32 h4)"

definition sha1 :: "u8 list \<Rightarrow> u8 list" where
  "sha1 m = sha1_bytes (sha1_blocks (0x67452301, 0xEFCDAB89, 0x98BADCFE, 0x10325476, 0xC3D2E1F0) (sha1_pad m))"

section \<open>Processing a block\<close>

lemma circular_shift: "0 < n \<Longrightarrow> n < 32 \<Longrightarrow> SHA1CircularShift n w = word_rotl n w"
proof (rule bit_word_eqI)
  fix m assume n: "0 < n" "n < 32" and m: "m < LENGTH(32)"
  show "bit (SHA1CircularShift n w) m = bit (word_rotl n w) m"
  proof (cases "n \<le> m")
    case True
    then have "(m + (32 - n)) mod 32 = m - n" using n m by (simp add: mod_if)
    with True n m show ?thesis
      by (auto simp: SHA1CircularShift_def bit_word_rotl_iff bit_simps dest: bit_imp_le_length)
  next
    case False
    then have "(m + (32 - n)) mod 32 = 32 - n + m" using n m by (simp add: mod_if) linarith
    with False n m show ?thesis
      by (auto simp: SHA1CircularShift_def bit_word_rotl_iff bit_simps)
  qed
qed

lemma blockWord_value:
  "blockWord b t = of_nat (unat (b (4 * t)) * 2 ^ 24 + unat (b (4 * t + 1)) * 2 ^ 16
     + unat (b (4 * t + 2)) * 2 ^ 8 + unat (b (4 * t + 3)))"
proof -
  let ?a = "push_bit 24 (ucast (b (4 * t))) :: u32" and ?b = "push_bit 16 (ucast (b (4 * t + 1))) :: u32"
    and ?c = "push_bit 8 (ucast (b (4 * t + 2))) :: u32" and ?d = "ucast (b (4 * t + 3)) :: u32"
  have "(?a OR ?b OR ?c) AND ?d = 0" "(?a OR ?b) AND ?c = 0" "?a AND ?b = 0"
    by (rule bit_word_eqI, auto simp: bit_simps dest: bit_imp_le_length)+
  then have "?a OR ?b OR ?c OR ?d = ?a + ?b + ?c + ?d"
    by (simp only: disjunctive_add_eq_or or.assoc)
  then show ?thesis
    by (simp add: blockWord_def push_bit_eq_mult mult.commute)
qed

lemma extendWords_length [simp]: "length (extendWords n W) = length W + n"
  by (induction n arbitrary: W) simp_all

lemma extendWords_prefix: "t < length W \<Longrightarrow> extendWords n W ! t = W ! t"
  by (induction n arbitrary: W) (simp_all add: nth_append)

lemma extendWords_schedule:
  "16 \<le> length W \<Longrightarrow> \<forall>t < length W. W ! t = sha1_W b t \<Longrightarrow> t < length W + n \<Longrightarrow> extendWords n W ! t = sha1_W b t"
proof (induction n arbitrary: W)
  case (Suc n)
  have "nextWord W = sha1_W b (length W)"
    using Suc.prems(1,2) by (subst sha1_W.simps) (simp add: nextWord_def Let_def circular_shift)
  then have "\<forall>t < length (W @ [nextWord W]). (W @ [nextWord W]) ! t = sha1_W b t"
    using Suc.prems(2) by (auto simp: nth_append less_Suc_eq)
  with Suc show ?case by simp
qed simp

definition blockBytes :: "SHA1Context \<Rightarrow> u8 list" where
  "blockBytes context = map (Message_Block context) [0..<64]"

lemma block_schedule: "t < 80 \<Longrightarrow>
    extendWords 64 (map (blockWord (Message_Block context)) [0..<16]) ! t = sha1_W (blockBytes context) t"
proof (rule extendWords_schedule)
  have "blockWord (Message_Block context) t = sha1_W (blockBytes context) t" if "t < 16" for t
    using that by (subst sha1_W.simps) (simp add: blockWord_value blockBytes_def)
  then show "\<forall>t < length (map (blockWord (Message_Block context)) [0..<16]).
      map (blockWord (Message_Block context)) [0..<16] ! t = sha1_W (blockBytes context) t"
    by simp
qed simp_all

lemma choices:
  fixes B C D :: u32
  shows "(B AND C) OR (NOT B AND D) = (B AND C) XOR (NOT B AND D)"
  "(B AND C) OR (B AND D) OR (C AND D) = (B AND C) XOR (B AND D) XOR (C AND D)"
  by (rule bit_word_eqI, auto simp: bit_simps)+

lemma round_eq:
  assumes "\<And>B C D. f B C D = sha1_f t B C D" "K = sha1_K t" "t < 80"
  shows "roundStep f K (extendWords 64 (map (blockWord (Message_Block context)) [0..<16])) t = sha1_round (blockBytes context) t"
  using block_schedule [OF assms(3), of "context"]
  by (auto simp: roundStep_def sha1_round_def assms(1,2) Let_def circular_shift fun_eq_iff algebra_simps)

lemma SHA1ProcessMessageBlock_spec:
  "SHA1ProcessMessageBlock context = context\<lparr>Intermediate_Hash := sha1_block (Intermediate_Hash context) (blockBytes context),
     Message_Block_Index := 0\<rparr>"
proof -
  let ?W = "extendWords 64 (map (blockWord (Message_Block context)) [0..<16])" and ?b = "blockBytes context"
  have f: "fold (roundStep (\<lambda>B C D. (B AND C) OR (NOT B AND D)) 0x5A827999 ?W) [0..<20] s = fold (sha1_round ?b) [0..<20] s"
    "fold (roundStep (\<lambda>B C D. B XOR C XOR D) 0x6ED9EBA1 ?W) [20..<40] s = fold (sha1_round ?b) [20..<40] s"
    "fold (roundStep (\<lambda>B C D. (B AND C) OR (B AND D) OR (C AND D)) 0x8F1BBCDC ?W) [40..<60] s = fold (sha1_round ?b) [40..<60] s"
    "fold (roundStep (\<lambda>B C D. B XOR C XOR D) 0xCA62C1D6 ?W) [60..<80] s = fold (sha1_round ?b) [60..<80] s" for s
    by (rule fold_cong [OF refl refl round_eq]; auto simp: sha1_f_def sha1_K_def choices)+
  have "[0..<80] = [0..<20] @ [20..<40] @ [40..<60] @ [60..<80]"
    using upt_add_eq_append [of 0 20 20] upt_add_eq_append [of 0 40 20] upt_add_eq_append [of 0 60 20]
    by (simp del: upt_rec_numeral)
  then have "fold (sha1_round ?b) [0..<80] s = fold (sha1_round ?b) [60..<80] (fold (sha1_round ?b) [40..<60]
      (fold (sha1_round ?b) [20..<40] (fold (sha1_round ?b) [0..<20] s)))" for s
    by (simp only: fold_append comp_apply)
  then show ?thesis
    by (simp add: SHA1ProcessMessageBlock_def Let_def f sha1_block_def split_def del: upt_rec_numeral)
qed

section \<open>Blocks of a message\<close>

lemma sha1_blocks_short: "length m < 64 \<Longrightarrow> sha1_blocks h m = h"
  by (subst sha1_blocks.simps) simp

lemma sha1_blocks_one: "length b = 64 \<Longrightarrow> sha1_blocks h (b @ m) = sha1_blocks (sha1_block h b) m"
  by (subst sha1_blocks.simps) simp

lemma sha1_blocks_append: "length m mod 64 = 0 \<Longrightarrow> sha1_blocks h (m @ n) = sha1_blocks (sha1_blocks h m) n"
proof (induction h m rule: sha1_blocks.induct)
  case (1 h m)
  show ?case
  proof (cases "length m < 64")
    case True
    with 1(2) have "m = []" by simp
    then show ?thesis by (simp add: sha1_blocks_short)
  next
    case False
    with 1(2) have "length (drop 64 m) mod 64 = 0"
      by (simp add: mod_if [of "length m"])
    with 1(1) [OF False] False have "sha1_blocks (sha1_block h (take 64 m)) (drop 64 m @ n)
        = sha1_blocks (sha1_blocks (sha1_block h (take 64 m)) (drop 64 m)) n" by blast
    moreover have "sha1_blocks h (m @ n) = sha1_blocks (sha1_block h (take 64 m)) (drop 64 m @ n)"
      using sha1_blocks_one [of "take 64 m" h "drop 64 m @ n"] False by (metis append_assoc append_take_drop_id
          length_take min_absorb2 not_less)
    moreover have "sha1_blocks h m = sha1_blocks (sha1_block h (take 64 m)) (drop 64 m)"
      using sha1_blocks_one [of "take 64 m" h "drop 64 m"] False by simp
    ultimately show ?thesis by simp
  qed
qed

section \<open>The context after some input\<close>

definition fullBlocks :: "'a list \<Rightarrow> 'a list" where
  "fullBlocks m = take (length m div 64 * 64) m"

definition lastBlock :: "'a list \<Rightarrow> 'a list" where
  "lastBlock m = drop (length m div 64 * 64) m"

abbreviation initialHash :: digest where
  "initialHash \<equiv> (0x67452301, 0xEFCDAB89, 0x98BADCFE, 0x10325476, 0xC3D2E1F0)"

definition absorbed :: "u8 list \<Rightarrow> SHA1Context \<Rightarrow> bool" where
  "absorbed m c \<longleftrightarrow> Intermediate_Hash c = sha1_blocks initialHash (fullBlocks m)
     \<and> Message_Block_Index c = length m mod 64 \<and> map (Message_Block c) [0..<length m mod 64] = lastBlock m
     \<and> unat (Length_High c) * 2 ^ 32 + unat (Length_Low c) = 8 * length m
     \<and> Computed c = 0 \<and> Corrupted c = 0"

lemma absorbed_reset: "absorbed [] (snd (SHA1Reset c))"
  by (simp add: absorbed_def SHA1Reset_def fullBlocks_def lastBlock_def sha1_blocks_short)

lemma fullBlocks_length: "length (fullBlocks m) mod 64 = 0" "length (lastBlock m) = length m mod 64"
proof -
  have "length m div 64 * 64 \<le> length m" by simp
  then show "length (fullBlocks m) mod 64 = 0"
    by (simp add: fullBlocks_def min_absorb2)
  show "length (lastBlock m) = length m mod 64"
    by (simp add: lastBlock_def minus_div_mult_eq_mod)
qed

lemma block_split: "fullBlocks m @ lastBlock m = m"
  by (simp add: fullBlocks_def lastBlock_def)

lemma append_byte:
  "length m mod 64 \<noteq> 63 \<Longrightarrow> fullBlocks (m @ [b]) = fullBlocks m \<and> lastBlock (m @ [b]) = lastBlock m @ [b]
     \<and> length (m @ [b]) mod 64 = length m mod 64 + 1"
  "length m mod 64 = 63 \<Longrightarrow> fullBlocks (m @ [b]) = fullBlocks m @ lastBlock m @ [b] \<and> lastBlock (m @ [b]) = []
     \<and> length (m @ [b]) mod 64 = 0"
proof -
  show "fullBlocks (m @ [b]) = fullBlocks m \<and> lastBlock (m @ [b]) = lastBlock m @ [b]
     \<and> length (m @ [b]) mod 64 = length m mod 64 + 1" if "length m mod 64 \<noteq> 63"
  proof -
    have "Suc (length m) div 64 = length m div 64" "Suc (length m) mod 64 = length m mod 64 + 1"
      using that by (simp_all add: div_Suc mod_Suc)
    moreover have "length m div 64 * 64 \<le> length m" by simp
    ultimately show ?thesis by (simp add: fullBlocks_def lastBlock_def)
  qed
  show "fullBlocks (m @ [b]) = fullBlocks m @ lastBlock m @ [b] \<and> lastBlock (m @ [b]) = []
     \<and> length (m @ [b]) mod 64 = 0" if "length m mod 64 = 63"
  proof -
    have *: "Suc (length m) mod 64 = 0" using that by (simp add: mod_Suc)
    then have "Suc (length m) div 64 * 64 = Suc (length m)"
      by (metis add.right_neutral div_mult_mod_eq)
    with * show ?thesis
      using block_split [of m] by (simp add: fullBlocks_def [of "m @ [b]"] lastBlock_def [of "m @ [b]"])
  qed
qed

lemma countByte_absorbed:
  assumes "unat (Length_High c) * 2 ^ 32 + unat (Length_Low c) = 8 * n" "8 * Suc n < 2 ^ 64" "Corrupted c = 0"
  shows "unat (Length_High (countByte c)) * 2 ^ 32 + unat (Length_Low (countByte c)) = 8 * Suc n"
    "Corrupted (countByte c) = 0" "Intermediate_Hash (countByte c) = Intermediate_Hash c"
    "Message_Block_Index (countByte c) = Message_Block_Index c" "Message_Block (countByte c) = Message_Block c"
    "Computed (countByte c) = Computed c"
proof -
  let ?L = "unat (Length_Low c)" and ?H = "unat (Length_High c)"
  have l: "?L < 2 ^ 32" "?H < 2 ^ 32"
    using unsigned_less [of "Length_Low c"] unsigned_less [of "Length_High c"] by simp_all
  have low: "unat (Length_Low c + 8) = (?L + 8) mod 2 ^ 32"
    by (simp add: unat_word_ariths)
  have "unat (Length_High (countByte c)) * 2 ^ 32 + unat (Length_Low (countByte c)) = 8 * Suc n \<and> Corrupted (countByte c) = 0"
  proof (cases "?L + 8 < 2 ^ 32")
    case True
    then have "unat (Length_Low c + 8) = ?L + 8" unfolding low by simp
    moreover from this have "Length_Low c + 8 \<noteq> 0" by (metis add_is_0 unat_0 zero_neq_numeral)
    ultimately show ?thesis using assms by (simp add: countByte_def)
  next
    case False
    have "8 dvd ?H * 2 ^ 32 + ?L" "8 dvd ?H * 2 ^ 32" unfolding assms(1) by simp_all
    then have "8 dvd ?L" by (simp only: dvd_add_right_iff)
    then obtain k where "?L = 8 * k" by (auto elim: dvdE)
    with False l have L: "?L + 8 = 2 ^ 32" by simp
    with assms(1,2) have "(?H + 1) * 2 ^ 32 < 2 ^ 64" by simp
    then have H: "?H + 1 < 2 ^ 32" by simp
    then have high: "unat (Length_High c + 1) = ?H + 1" by (simp add: unat_word_ariths)
    then have "Length_High c + 1 \<noteq> 0" by (metis add_is_0 unat_0 zero_neq_one)
    moreover have "Length_Low c + 8 = 0" using low L by (simp add: unat_eq_zero)
    ultimately show ?thesis using assms(1,3) L high by (simp add: countByte_def)
  qed
  then show "unat (Length_High (countByte c)) * 2 ^ 32 + unat (Length_Low (countByte c)) = 8 * Suc n"
    "Corrupted (countByte c) = 0" by simp_all
qed (simp_all add: countByte_def Let_def)

lemma absorbed_step:
  assumes "absorbed m c" "8 * Suc (length m) < 2 ^ 64"
  shows "\<exists>c1. storeByte b c = Inr c1 \<and>
    absorbed (m @ [b]) (if Message_Block_Index (countByte c1) = 64 then SHA1ProcessMessageBlock (countByte c1) else countByte c1)"
proof -
  let ?i = "length m mod 64"
  let ?c = "c\<lparr>Message_Block := (Message_Block c)(?i := b), Message_Block_Index := ?i + 1\<rparr>"
  have s: "storeByte b c = Inr ?c"
    using assms(1) by (simp add: storeByte_def absorbed_def)
  have a: "Intermediate_Hash c = sha1_blocks initialHash (fullBlocks m)" "map (Message_Block c) [0..<?i] = lastBlock m"
    "unat (Length_High ?c) * 2 ^ 32 + unat (Length_Low ?c) = 8 * length m" "Computed c = 0" "Corrupted ?c = 0"
    using assms(1) by (simp_all add: absorbed_def)
  note k = countByte_absorbed [OF a(3) assms(2) a(5)]
  have old: "map (Message_Block ?c) [0..<Suc ?i] = lastBlock m @ [b]"
    using a(2) by simp
  show ?thesis
  proof (cases "?i = 63")
    case True
    note ab = append_byte(2) [OF True, of b]
    have "blockBytes (countByte ?c) = lastBlock m @ [b]"
      unfolding blockBytes_def k(5) using old True by (simp del: upt_rec_numeral)
    moreover have "length (lastBlock m @ [b]) = 64"
      using fullBlocks_length(2) [of m] True by simp
    then have "sha1_blocks h (lastBlock m @ [b]) = sha1_block h (lastBlock m @ [b])" for h
      using sha1_blocks_one [of "lastBlock m @ [b]" h "[]"] by (simp add: sha1_blocks_short)
    ultimately show ?thesis
      using a(1,4) k ab True sha1_blocks_append [OF fullBlocks_length(1), of initialHash m "lastBlock m @ [b]"]
      by (intro exI [of _ ?c]) (simp add: s absorbed_def SHA1ProcessMessageBlock_spec)
  next
    case False
    note ab = append_byte(1) [OF False, of b]
    have "?i + 1 \<noteq> 64" using False by simp
    then show ?thesis
      using a(1,4) k ab old by (intro exI [of _ ?c]) (simp add: s absorbed_def del: upt_Suc)
  qed
qed

lemma inputLoop_absorbed:
  "absorbed m c \<Longrightarrow> 8 * (length m + length bs) < 2 ^ 64 \<Longrightarrow> \<exists>c'. inputLoop bs c = Inr c' \<and> absorbed (m @ bs) c'"
proof (induction bs arbitrary: m c)
  case (Cons b bs)
  from Cons.prems(2) have len: "8 * Suc (length m) < 2 ^ 64" by simp
  from absorbed_step [OF Cons.prems(1) len, of b] obtain c1 where c1: "storeByte b c = Inr c1"
    "absorbed (m @ [b]) (if Message_Block_Index (countByte c1) = 64 then SHA1ProcessMessageBlock (countByte c1) else countByte c1)"
    by blast
  have "Corrupted c = 0" using Cons.prems(1) by (simp add: absorbed_def)
  with c1 Cons.IH [OF c1(2)] Cons.prems(2) show ?case by (simp add: Let_def)
qed simp

lemma SHA1Input_absorbed:
  assumes "absorbed m c" "8 * (length m + length bs) < 2 ^ 64"
  shows "\<exists>c'. SHA1Input bs c = Inr (shaSuccess, c') \<and> absorbed (m @ bs) c'"
  using inputLoop_absorbed [OF assms] assms(1) by (auto simp: SHA1Input_def absorbed_def)

section \<open>Padding\<close>

definition begun :: "u8 list \<Rightarrow> SHA1Context \<Rightarrow> SHA1Context \<Rightarrow> bool" where
  "begun p c c' \<longleftrightarrow> Message_Block_Index c' = length p \<and> map (Message_Block c') [0..<length p] = p
     \<and> Intermediate_Hash c' = Intermediate_Hash c \<and> Length_Low c' = Length_Low c \<and> Length_High c' = Length_High c
     \<and> Computed c' = Computed c \<and> Corrupted c' = Corrupted c"

lemma begun_store: "begun p c c' \<Longrightarrow> length p < 64 \<Longrightarrow> \<exists>c''. storeByte b c' = Inr c'' \<and> begun (p @ [b]) c c''"
  by (simp add: storeByte_def begun_def)

lemma begun_zeros:
  "begun p c c' \<Longrightarrow> n \<le> 64 \<Longrightarrow> n \<le> length p + k \<Longrightarrow>
   \<exists>c''. zerosTo k n c' = Inr c'' \<and> begun (p @ replicate (n - length p) 0) c c''"
proof (induction k arbitrary: p c')
  case (Suc k)
  show ?case
  proof (cases "length p < n")
    case True
    with begun_store [OF Suc.prems(1), of 0] Suc.prems(2) obtain d where
      d: "storeByte 0 c' = Inr d" "begun (p @ [0]) c d" by auto
    have "p @ replicate (n - length p) 0 = (p @ [0]) @ replicate (n - length (p @ [0])) 0"
      using True by (simp add: Suc_diff_Suc flip: replicate_Suc)
    moreover have "Message_Block_Index c' = length p" using Suc.prems(1) by (simp add: begun_def)
    ultimately show ?thesis
      using Suc.IH [OF d(2)] Suc.prems(2,3) True d(1) by simp
  next
    case False
    with Suc.prems(1) show ?thesis by (auto simp: begun_def)
  qed
qed simp

lemma u32_bound: "unat w < 4294967296" for w :: u32
  using unsigned_less [of w] by simp

lemma word_bytes: "ucast (drop_bit n w) = (of_nat (unat w div 2 ^ n) :: u8)" for w :: u32
proof -
  have "unat (drop_bit n w) = unat w div 2 ^ n"
    using u32_bound [of w] by (simp only: unsigned_drop_bit_eq) (simp add: drop_bit_eq_div take_bit_eq_mod)
  then show ?thesis by (metis of_nat_unat)
qed

lemma be64_words:
  fixes high low :: u32
  assumes "unat high * 2 ^ 32 + unat low = n"
  shows "be64 n = [ucast (drop_bit 24 high), ucast (drop_bit 16 high), ucast (drop_bit 8 high), ucast high,
    ucast (drop_bit 24 low), ucast (drop_bit 16 low), ucast (drop_bit 8 low), ucast low]"
proof -
  have low: "unat low < 2 ^ 32"
    using unsigned_less [of low] by simp
  have top: "n div 2 ^ (32 + k) = unat high div 2 ^ k" for k
  proof -
    have "n div 2 ^ 32 = unat high" using low by (simp flip: assms)
    then show ?thesis by (simp add: power_add div_mult2_eq)
  qed
  have bottom: "(of_nat (n div 2 ^ k) :: u8) = of_nat (unat low div 2 ^ k)" if "k \<le> 24" for k
  proof -
    have "(2 :: nat) ^ 32 = 2 ^ (32 - k) * 2 ^ k"
      using that power_add [of "2 :: nat" "32 - k" k] by simp
    then have "n = unat high * 2 ^ (32 - k) * 2 ^ k + unat low"
      using assms by (simp only: mult.assoc)
    then have "n div 2 ^ k = unat high * 2 ^ (32 - k) + unat low div 2 ^ k"
      by simp
    also have "2 ^ (32 - k) = 2 ^ (24 - k) * (256 :: nat)"
      using that power_add [of "2 :: nat" "24 - k" 8] by simp
    finally have "n div 2 ^ k = unat high * 2 ^ (24 - k) * 256 + unat low div 2 ^ k"
      by simp
    moreover have "(of_nat (x * 256 + y) :: u8) = of_nat y" for x y
    proof -
      have "(256 :: u8) = 0" by simp
      then show ?thesis by (simp only: of_nat_add of_nat_mult of_nat_numeral mult_zero_right add_0)
    qed
    ultimately show ?thesis by metis
  qed
  have "be64 n = [of_nat (n div 2 ^ (32 + 24)), of_nat (n div 2 ^ (32 + 16)), of_nat (n div 2 ^ (32 + 8)),
      of_nat (n div 2 ^ (32 + 0)), of_nat (n div 2 ^ 24), of_nat (n div 2 ^ 16), of_nat (n div 2 ^ 8), of_nat (n div 2 ^ 0)]"
    by (simp add: be64_def upt_rec [of 0] upt_rec [of "Suc 0"] numeral_2_eq_2 [symmetric])
  also have "\<dots> = [ucast (drop_bit 24 high), ucast (drop_bit 16 high), ucast (drop_bit 8 high), ucast (drop_bit 0 high),
      ucast (drop_bit 24 low), ucast (drop_bit 16 low), ucast (drop_bit 8 low), ucast (drop_bit 0 low)]"
    unfolding top word_bytes by (simp only: bottom)
  finally show ?thesis by simp
qed

lemma digest_bytes:
  "map (\<lambda>i. ucast (drop_bit (8 * (3 - i mod 4)) (digestWord d (i div 4)))) [0..<SHA1HashSize] = sha1_bytes d"
  by (cases d) (simp add: sha1_bytes_def be32_def digestWord_def upt_rec [of 0] upt_rec [of "Suc 0"] numeral_2_eq_2 [symmetric])

lemma finish_block:
  assumes "begun p c c'" "length p = 56" "unat (Length_High c) * 2 ^ 32 + unat (Length_Low c) = n"
  shows "blockBytes (storeLength c') = p @ be64 n"
proof -
  have "[0..<64] = [0..<56] @ [56, 57, 58, 59, 60, 61, 62, 63]"
    using upt_add_eq_append [of 0 56 8] by simp
  moreover have "map (Message_Block c') [0..<56] = p" "Length_High c' = Length_High c" "Length_Low c' = Length_Low c"
    using assms(1,2) by (simp_all add: begun_def)
  moreover have "map (f(56 := a0, 57 := a1, 58 := a2, 59 := a3, 60 := a4, 61 := a5, 62 := a6, 63 := a7)) [0..<56]
      = map f [0..<56]" for f :: "nat \<Rightarrow> u8" and a0 a1 a2 a3 a4 a5 a6 a7
    by (rule map_cong) auto
  ultimately show ?thesis
    using be64_words [OF assms(3)] by (simp add: blockBytes_def storeLength_def Let_def del: upt_rec_numeral fun_upd_apply) simp
qed

lemma storeLength_simps [simp]:
  "Intermediate_Hash (storeLength c) = Intermediate_Hash c" "Corrupted (storeLength c) = Corrupted c"
  by (simp_all add: storeLength_def Let_def)

lemma pad_zeros: "i \<le> 55 \<Longrightarrow> (119 - i) mod 64 = 55 - i" for i :: nat
proof -
  assume "i \<le> 55"
  then have "119 - i = (55 - i) + 64" by simp
  then have "(119 - i) mod 64 = (55 - i) mod 64" by (simp only: mod_add_self2)
  then show ?thesis by simp
qed

lemma SHA1PadMessage_absorbed:
  assumes "absorbed m c"
  shows "\<exists>c'. SHA1PadMessage c = Inr c' \<and> Intermediate_Hash c' = sha1_blocks initialHash (sha1_pad m)
    \<and> Corrupted c' = 0"
proof -
  let ?i = "length m mod 64" and ?n = "8 * length m"
  note a = assms [unfolded absorbed_def]
  have i: "?i < 64" by simp
  have start: "begun (lastBlock m) c c"
    using a fullBlocks_length(2) [of m] by (simp add: begun_def)
  have len: "length (lastBlock m) = ?i" by (rule fullBlocks_length)
  have count: "unat (Length_High c) * 2 ^ 32 + unat (Length_Low c) = ?n" using a by blast
  from begun_store [OF start, where b = "0x80"] i len obtain c1 where
    c1: "storeByte 0x80 c = Inr c1" "begun (lastBlock m @ [0x80]) c c1" by auto
  show ?thesis
  proof (cases "55 < ?i")
    case True
    let ?p = "lastBlock m @ [0x80] @ replicate (63 - ?i) 0"
    from begun_zeros [OF c1(2), of 64 64] len obtain c2 where
      c2: "zerosTo 64 64 c1 = Inr c2" "begun ?p c c2" by auto
    have p: "length ?p = 64" using i len True by simp
    let ?c3 = "SHA1ProcessMessageBlock c2"
    have "blockBytes c2 = map (Message_Block c2) [0..<length ?p]" unfolding blockBytes_def p ..
    then have "blockBytes c2 = ?p" using c2(2) unfolding begun_def by metis
    then have c3: "Intermediate_Hash ?c3 = sha1_block (Intermediate_Hash c) ?p" "begun [] ?c3 ?c3"
      "Length_High ?c3 = Length_High c" "Length_Low ?c3 = Length_Low c" "Corrupted ?c3 = 0"
      using c2(2) a by (simp_all add: SHA1ProcessMessageBlock_spec begun_def)
    from begun_zeros [OF c3(2), of 56 64] obtain c4 where
      c4: "zerosTo 64 56 ?c3 = Inr c4" "begun (replicate 56 0) ?c3 c4" by auto
    have "sha1_pad m = fullBlocks m @ ?p @ (replicate 56 0 @ be64 ?n)"
    proof -
      have "(119 - ?i) mod 64 = (63 - ?i) + 56" using True i by simp
      then have "replicate ((119 - ?i) mod 64) (0 :: u8) = replicate (63 - ?i) 0 @ replicate 56 0"
        by (simp only: replicate_add)
      then show ?thesis
        using block_split [of m] unfolding sha1_pad_def by (simp del: replicate.simps)
    qed
    moreover have "length (replicate 56 0 @ be64 ?n) = 64" by (simp add: be64_def)
    ultimately have "sha1_blocks initialHash (sha1_pad m)
        = sha1_block (sha1_block (Intermediate_Hash c) ?p) (replicate 56 0 @ be64 ?n)"
      using sha1_blocks_append [OF fullBlocks_length(1)] sha1_blocks_one [OF p] a
        sha1_blocks_one [of "replicate 56 0 @ be64 ?n" _ "[]"] by (simp add: sha1_blocks_short)
    moreover have "SHA1PadMessage c = Inr (SHA1ProcessMessageBlock (storeLength c4))"
      using a True by (simp add: SHA1PadMessage_def c1(1) c2(1) c4(1))
    moreover have "Intermediate_Hash c4 = Intermediate_Hash ?c3" "Corrupted c4 = 0"
      using c4(2) c3 by (simp_all add: begun_def)
    ultimately show ?thesis
      using finish_block [OF c4(2), of ?n] count c3 by (simp only: SHA1ProcessMessageBlock_spec) simp
  next
    case False
    let ?p = "lastBlock m @ [0x80] @ replicate (55 - ?i) 0"
    from begun_zeros [OF c1(2), of 56 64] len False obtain c2 where
      c2: "zerosTo 64 56 c1 = Inr c2" "begun ?p c c2" by auto
    have p: "length ?p = 56" using len False by simp
    have "sha1_pad m = fullBlocks m @ (?p @ be64 ?n)"
    proof -
      have "(119 - ?i) mod 64 = 55 - ?i" using False by (intro pad_zeros) (simp only: not_less)
      then have "sha1_pad m = (fullBlocks m @ lastBlock m) @ [0x80] @ replicate (55 - ?i) 0 @ be64 ?n"
        unfolding sha1_pad_def block_split by (simp only:)
      then show ?thesis by (simp only: append_assoc)
    qed
    moreover have "length (?p @ be64 ?n) = 64" using p by (simp add: be64_def)
    ultimately have "sha1_blocks initialHash (sha1_pad m) = sha1_block (Intermediate_Hash c) (?p @ be64 ?n)"
      using sha1_blocks_append [OF fullBlocks_length(1)] a
        sha1_blocks_one [of "?p @ be64 ?n" _ "[]"] by (simp add: sha1_blocks_short)
    moreover have "SHA1PadMessage c = Inr (SHA1ProcessMessageBlock (storeLength c2))"
      using a False by (simp add: SHA1PadMessage_def c1(1) c2(1))
    moreover have "Intermediate_Hash c2 = Intermediate_Hash c" "Corrupted c2 = 0"
      using c2(2) a by (simp_all add: begun_def)
    ultimately show ?thesis
      using finish_block [OF c2(2) p count] by (simp only: SHA1ProcessMessageBlock_spec) simp
  qed
qed

text \<open>Input in pieces.\<close>

fun SHA1Inputs :: "u8 list list \<Rightarrow> SHA1Context \<Rightarrow> (int \<times> SHA1Context) res" where
  "SHA1Inputs [] c = Inr (shaSuccess, c)"
| "SHA1Inputs (p # ps) c = bind_res (SHA1Input p c) (\<lambda>(r, c). if r \<noteq> shaSuccess then Inr (r, c) else SHA1Inputs ps c)"

lemma SHA1Inputs_absorbed:
  "absorbed m c \<Longrightarrow> 8 * (length m + length (concat ps)) < 2 ^ 64 \<Longrightarrow>
   \<exists>c'. SHA1Inputs ps c = Inr (shaSuccess, c') \<and> absorbed (m @ concat ps) c'"
proof (induction ps arbitrary: m c)
  case (Cons p ps)
  then obtain c1 where c1: "SHA1Input p c = Inr (shaSuccess, c1)" "absorbed (m @ p) c1"
    using SHA1Input_absorbed [OF Cons.prems(1), of p] by auto
  with Cons.IH [OF c1(2)] Cons.prems(2) show ?case by auto
qed simp

lemma absorbed_result:
  assumes "absorbed m c"
  shows "\<exists>c'. SHA1Result c = Inr ((shaSuccess, sha1 m), c') \<and> SHA1Result c' = Inr ((shaSuccess, sha1 m), c')
    \<and> Computed c' = 1"
proof -
  from SHA1PadMessage_absorbed [OF assms] obtain d where
    d: "SHA1PadMessage c = Inr d" "Intermediate_Hash d = sha1_blocks initialHash (sha1_pad m)" "Corrupted d = 0"
    by blast
  have "Corrupted c = 0" "Computed c = 0" using assms by (simp_all add: absorbed_def)
  with d show ?thesis
    by (simp add: SHA1Result_def digest_bytes [unfolded SHA1HashSize_def] sha1_def)
qed

text \<open>
  \<^bold>\<open>C12.\<close> The streaming SHA-1 computes the SHA-1 of the standard. Whatever the context held before, resetting it,
  feeding a message of less than \<^verbatim>\<open>2^61\<close> bytes in any pieces and asking for the result succeeds without
  leaving the 64 bytes of the block, and gives the 20 bytes that FIPS 180-4 defines for the whole message: the
  division into pieces does not matter, whichever of the two ways of padding is taken. Asking again
  gives the same digest; more input afterwards is refused, and so is every later request.
\<close>

theorem sha1_streaming:
  assumes "length (concat ps) < 2 ^ 61"
  shows "\<exists>c' c'' c3. SHA1Inputs ps (snd (SHA1Reset c)) = Inr (shaSuccess, c')
    \<and> SHA1Result c' = Inr ((shaSuccess, sha1 (concat ps)), c'')
    \<and> SHA1Result c'' = Inr ((shaSuccess, sha1 (concat ps)), c'')
    \<and> SHA1Input [b] c'' = Inr (shaStateError, c3) \<and> SHA1Result c3 = Inr ((shaStateError, []), c3)"
proof -
  have "8 * (length [] + length (concat ps)) < 2 ^ 64"
    using assms by simp
  from SHA1Inputs_absorbed [OF absorbed_reset [of c] this] obtain c' where
    c': "SHA1Inputs ps (snd (SHA1Reset c)) = Inr (shaSuccess, c')" "absorbed (concat ps) c'" by auto
  from absorbed_result [OF c'(2)] obtain c'' where
    c'': "SHA1Result c' = Inr ((shaSuccess, sha1 (concat ps)), c'')"
    "SHA1Result c'' = Inr ((shaSuccess, sha1 (concat ps)), c'')" "Computed c'' = 1" by blast
  let ?c3 = "c''\<lparr>Corrupted := shaStateError\<rparr>"
  have "SHA1Input [b] c'' = Inr (shaStateError, ?c3)" "SHA1Result ?c3 = Inr ((shaStateError, []), ?c3)"
    using c''(3) by (simp_all add: SHA1Input_def SHA1Result_def)
  with c' c'' show ?thesis by blast
qed

definition staleContext :: SHA1Context where
  "staleContext = \<lparr>Intermediate_Hash = (1, 2, 3, 4, 5), Length_Low = 8, Length_High = 1, Message_Block_Index = 1,
     Message_Block = (\<lambda>_. 0xFF), Computed = 1, Corrupted = shaStateError\<rparr>"

lemma sha1_streaming_witness:
  "\<exists>c' c'' c3. SHA1Inputs [[0x61, 0x62], [], [0x63]] (snd (SHA1Reset staleContext)) = Inr (shaSuccess, c')
    \<and> SHA1Result c' = Inr ((shaSuccess, sha1 [0x61, 0x62, 0x63]), c'')
    \<and> SHA1Result c'' = Inr ((shaSuccess, sha1 [0x61, 0x62, 0x63]), c'')
    \<and> SHA1Input [0] c'' = Inr (shaStateError, c3) \<and> SHA1Result c3 = Inr ((shaStateError, []), c3)"
  using sha1_streaming [of "[[0x61, 0x62], [], [0x63]]" staleContext 0] by simp

end
