(* ===== verification/Ws_Handshake.thy ===== *)
theory Ws_Handshake
  imports Ws_Base64 Ws_Sha1
begin

text \<open>
  The opening handshake of the WebSocket library, \<^verbatim>\<open>libs/wsServer/src/handshake.c\<close>: finding the key in the
  request and building the answer. Bytes on the wire are a list; a buffer that holds C strings is a list
  with a terminator behind its end. \<open>strtok_r\<close> writes terminators into the buffer, and the pointers into it
  are indices. Allocations succeed.
\<close>

section \<open>Strings in a buffer\<close>

definition bytes :: "string \<Rightarrow> u8 list" where
  "bytes = map of_char"

definition cstr :: "u8 list \<Rightarrow> u8 list" where
  "cstr s = takeWhile (\<lambda>b. b \<noteq> 0) s"

text \<open>\<open>strstr\<close>: the position of the first occurrence.\<close>

fun strstr :: "u8 list \<Rightarrow> u8 list \<Rightarrow> nat option" where
  "strstr [] w = (if w = [] then Some 0 else None)"
| "strstr (b # bs) w = (if take (length w) (b # bs) = w then Some 0 else map_option Suc (strstr bs w))"

text \<open>\<open>strtok_r\<close> from a position: the start of the token, the buffer with the delimiter behind the token
  overwritten, and the position to go on from.\<close>

definition strtok :: "u8 set \<Rightarrow> u8 list \<Rightarrow> nat \<Rightarrow> (nat \<times> u8 list \<times> nat) option" where
  "strtok delims buf pos =
    (let start = pos + length (takeWhile (\<lambda>b. b \<in> delims) (cstr (drop pos buf)));
         end = start + length (takeWhile (\<lambda>b. b \<notin> delims) (cstr (drop start buf)))
     in if start = end then None
        else if end < length buf \<and> buf ! end \<noteq> 0 then Some (start, buf[end := 0], end + 1)
        else Some (start, buf, end))"

section \<open>The answer\<close>

definition WS_KEY_LEN :: nat where [simp]: "WS_KEY_LEN = 24"

definition WS_MS_LEN :: nat where [simp]: "WS_MS_LEN = 36"

definition WS_KEYMS_LEN :: nat where "WS_KEYMS_LEN = WS_KEY_LEN + WS_MS_LEN"

definition MAGIC_STRING :: string where "MAGIC_STRING = ''258EAFA5-E914-47DA-95CA-C5AB0DC85B11''"

definition WS_HS_REQ :: string where "WS_HS_REQ = ''Sec-WebSocket-Key''"

definition WS_HS_ACCLEN :: nat where [simp]: "WS_HS_ACCLEN = 130"

definition crlf :: string where "crlf = [CHR 0x0D, CHR 0x0A]"

definition WS_HS_ACCEPT :: string where
  "WS_HS_ACCEPT = ''HTTP/1.1 101 Switching Protocols'' @ crlf @ ''Upgrade: websocket'' @ crlf
     @ ''Connection: Upgrade'' @ crlf @ ''Sec-WebSocket-Accept: ''"

text \<open>The result, and the text that \<open>*dest\<close> is set to. The context is not initialised.\<close>

definition get_handshake_accept :: "SHA1Context \<Rightarrow> u8 list option \<Rightarrow> (int \<times> string) res" where
  "get_handshake_accept ctx wsKey =
    (case wsKey of None \<Rightarrow> Inr (-1, '''')
     | Some wsKey \<Rightarrow>
       (let str = take WS_KEY_LEN (cstr wsKey) @ bytes MAGIC_STRING in
        if length str + 1 > WS_KEY_LEN + WS_MS_LEN + 1 then Inl OutOfBounds
        else
          let str = str @ replicate (WS_KEY_LEN + WS_MS_LEN + 1 - length str) 0;
              (_, ctx) = SHA1Reset ctx in
          bind_res (SHA1Input (take WS_KEYMS_LEN str) ctx) (\<lambda>(_, ctx).
          bind_res (SHA1Result ctx) (\<lambda>((_, hash), ctx).
          bind_res (base64_encode True hash) (\<lambda>dest.
            case dest of None \<Rightarrow> Inl NullPointer
            | Some dest \<Rightarrow> if dest = [] then Inl OutOfBounds else Inr (0, butlast dest))))))"

text \<open>The loop over the lines: the start of the first one that holds the name of the field.\<close>

lemma strtok_progress:
  "strtok delims buf pos = Some (start, buf', pos') \<Longrightarrow> pos \<le> start \<and> start < pos' \<and> length buf' = length buf
     \<and> start < length buf"
proof -
  assume a: "strtok delims buf pos = Some (start, buf', pos')"
  then have "takeWhile (\<lambda>b. b \<notin> delims) (cstr (drop start buf)) \<noteq> []"
    by (auto simp: strtok_def Let_def split: if_splits)
  then have "start < length buf"
    by (metis cstr_def drop_all leI takeWhile.simps(1))
  with a show ?thesis
    by (auto simp: strtok_def Let_def split: if_splits)
qed

function findLine :: "u8 list \<Rightarrow> nat \<Rightarrow> nat option \<times> u8 list" where
  "findLine buf pos =
    (case strtok {0x0D, 0x0A} buf pos of None \<Rightarrow> (None, buf)
     | Some (s, buf, pos) \<Rightarrow>
         if strstr (cstr (drop s buf)) (bytes WS_HS_REQ) \<noteq> None then (Some s, buf) else findLine buf pos)"
  by pat_completeness auto
termination
  by (relation "measure (\<lambda>(buf, pos). 2 * length buf - pos)") (auto dest!: strtok_progress)

declare findLine.simps [simp del]

text \<open>The result, the response, and the request as it has been cut up.\<close>

definition get_handshake_response :: "SHA1Context \<Rightarrow> u8 list \<Rightarrow> ((int \<times> string) \<times> u8 list) res" where
  "get_handshake_response ctx hsrequest =
    (case findLine hsrequest 0 of (None, buf) \<Rightarrow> Inr ((-1, ''''), buf)
     | (Some s, buf) \<Rightarrow>
       (let (buf, pos) = (case strtok {0x20} buf s of None \<Rightarrow> (buf, length buf) | Some (_, buf, pos) \<Rightarrow> (buf, pos));
            (key, buf) = (case strtok {0x20} buf pos of None \<Rightarrow> (None, buf) | Some (s, buf, _) \<Rightarrow> (Some (drop s buf), buf))
        in bind_res (get_handshake_accept ctx key) (\<lambda>(ret, accept).
             if ret < 0 then Inr ((ret, ''''), buf)
             else
               let response = WS_HS_ACCEPT @ accept @ crlf @ crlf
               in if length response + 1 > WS_HS_ACCLEN then Inl OutOfBounds
                  else Inr ((0, response), buf))))"

section \<open>Tokens\<close>

lemma takeWhile_stop: "list_all P w \<Longrightarrow> \<not> P c \<Longrightarrow> takeWhile P (w @ c # r) = w"
  by (induction w) auto

lemma takeWhile_all: "list_all P w \<Longrightarrow> takeWhile P w = w"
  by (induction w) auto

lemma drop_split: "drop n xs = y # ys \<Longrightarrow> \<exists>pre. xs = pre @ y # ys \<and> length pre = n"
  by (metis append_take_drop_id drop_all leI length_take list.distinct(1) min_absorb2 less_imp_le)

lemma cstr_append: "list_all (\<lambda>b. b \<noteq> 0) w \<Longrightarrow> cstr (w @ r) = w @ cstr r"
  by (induction w) (auto simp: cstr_def)

lemma cstr_0 [simp]: "cstr (0 # r) = []"
  by (simp add: cstr_def)

lemma cstr_Cons: "b \<noteq> 0 \<Longrightarrow> cstr (b # r) = b # cstr r"
  by (simp add: cstr_def)

text \<open>A token with a delimiter behind it, and one that ends at a terminator.\<close>

lemma strtok_token:
  assumes "drop pos buf = d @ w @ c # r" "list_all (\<lambda>b. b \<in> delims) d" "list_all (\<lambda>b. b \<notin> delims \<and> b \<noteq> 0) w"
    "w \<noteq> []" "c \<in> delims" "0 \<notin> delims"
  shows "\<exists>buf'. strtok delims buf pos = Some (pos + length d, buf', pos + length d + length w + 1)
    \<and> drop (pos + length d) buf' = w @ 0 # r \<and> drop (pos + length d + length w + 1) buf' = r \<and> length buf' = length buf"
proof -
  have "\<exists>y ys. d @ w @ c # r = y # ys" by (cases d; cases w) auto
  with drop_split assms(1) obtain pre where pre: "buf = pre @ d @ w @ c # r" "length pre = pos" by metis
  have nz: "list_all (\<lambda>b. b \<noteq> 0) (d @ w)" "list_all (\<lambda>b. b \<notin> delims) w" "c \<noteq> 0" "list_all (\<lambda>b. b \<noteq> 0) w"
    using assms by (auto simp: list_all_iff)
  obtain x xs where w: "w = x # xs" "x \<notin> delims"
    using assms(3,4) by (cases w) auto
  have "takeWhile (\<lambda>b. b \<in> delims) (cstr (d @ w @ c # r)) = d"
    using cstr_append [OF nz(1), of "c # r"] takeWhile_stop [OF assms(2), of x] w by simp
  moreover have "takeWhile (\<lambda>b. b \<notin> delims) (cstr (w @ c # r)) = w"
    using cstr_append [OF nz(4), of "c # r"] takeWhile_stop [OF nz(2), of c] assms(5) nz(3) by (simp add: cstr_Cons)
  ultimately show ?thesis
    using pre nz(3) assms(4) by (auto simp: strtok_def Let_def nth_append list_update_append)
qed

lemma strtok_last:
  assumes "drop pos buf = w @ 0 # r" "list_all (\<lambda>b. b \<notin> delims \<and> b \<noteq> 0) w" "w \<noteq> []"
  shows "strtok delims buf pos = Some (pos, buf, pos + length w)"
proof -
  have "\<exists>y ys. w @ 0 # r = y # ys" by (cases w) auto
  with drop_split assms(1) obtain pre where pre: "buf = pre @ w @ 0 # r" "length pre = pos" by metis
  have nz: "list_all (\<lambda>b. b \<noteq> 0) w" "list_all (\<lambda>b. b \<notin> delims) w"
    using assms by (auto simp: list_all_iff)
  obtain x xs where w: "w = x # xs" "x \<notin> delims"
    using assms(2,3) by (cases w) auto
  have "takeWhile (\<lambda>b. b \<in> delims) (cstr (w @ 0 # r)) = []"
    using cstr_append [OF nz(1), of "0 # r"] w by simp
  moreover have "takeWhile (\<lambda>b. b \<notin> delims) (cstr (w @ 0 # r)) = w"
    using cstr_append [OF nz(1), of "0 # r"] takeWhile_all [OF nz(2)] by simp
  ultimately show ?thesis
    using pre assms(3) by (auto simp: strtok_def Let_def nth_append)
qed

section \<open>Requests\<close>

definition CRLF :: "u8 list" where "CRLF = [0x0D, 0x0A]"

text \<open>A line of a request: no terminator, no line end, not empty.\<close>

definition lineOk :: "u8 list \<Rightarrow> bool" where
  "lineOk l \<longleftrightarrow> l \<noteq> [] \<and> list_all (\<lambda>b. b \<noteq> 0x0D \<and> b \<noteq> 0x0A \<and> b \<noteq> 0) l"

lemma findLine_lines:
  "drop pos buf = d @ concat (map (\<lambda>l. l @ CRLF) ls) @ L @ CRLF @ r \<Longrightarrow> d \<in> {[], [0x0A]} \<Longrightarrow>
   list_all (\<lambda>l. lineOk l \<and> strstr l (bytes WS_HS_REQ) = None) ls \<Longrightarrow> lineOk L \<Longrightarrow>
   strstr L (bytes WS_HS_REQ) \<noteq> None \<Longrightarrow>
   \<exists>s buf'. findLine buf pos = (Some s, buf') \<and> drop s buf' = L @ 0 # 0x0A # r \<and> length buf' = length buf"
proof (induction ls arbitrary: buf pos d)
  case Nil
  let ?s = "pos + length d"
  from Nil have "drop pos buf = d @ L @ 0x0D # 0x0A # r" by (simp add: CRLF_def)
  from strtok_token [OF this, of "{0x0D, 0x0A}"] Nil obtain buf' p' where
    t: "strtok {0x0D, 0x0A} buf pos = Some (?s, buf', p')" "drop ?s buf' = L @ 0 # 0x0A # r" "length buf' = length buf"
    by (auto simp: lineOk_def list_all_iff)
  have "cstr (drop ?s buf') = L"
    using Nil(4) cstr_append [of L "0 # 0x0A # r"] by (simp add: t lineOk_def list_all_iff)
  with t Nil show ?case by (subst findLine.simps) simp
next
  case (Cons l ls)
  let ?s = "pos + length d"
  let ?rest = "concat (map (\<lambda>l. l @ CRLF) ls) @ L @ CRLF @ r"
  from Cons.prems(1) have "drop pos buf = d @ l @ 0x0D # 0x0A # ?rest" by (simp add: CRLF_def)
  from strtok_token [OF this, of "{0x0D, 0x0A}"] Cons.prems obtain buf' where
    t: "strtok {0x0D, 0x0A} buf pos = Some (?s, buf', ?s + length l + 1)" "drop ?s buf' = l @ 0 # 0x0A # ?rest"
    "drop (?s + length l + 1) buf' = 0x0A # ?rest" "length buf' = length buf"
    by (auto simp: lineOk_def list_all_iff)
  have "cstr (drop ?s buf') = l"
    using Cons.prems(3) cstr_append [of l "0 # 0x0A # ?rest"] by (simp add: t lineOk_def list_all_iff)
  moreover have "\<exists>s buf''. findLine buf' (?s + length l + 1) = (Some s, buf'') \<and> drop s buf'' = L @ 0 # 0x0A # r
      \<and> length buf'' = length buf'"
    using Cons.IH [of "?s + length l + 1" buf' "[0x0A]"] t(3) Cons.prems by simp
  ultimately show ?case
    using t Cons.prems(3) by (subst findLine.simps) auto
qed

lemma drop_tail: "drop p b = w @ r \<Longrightarrow> drop (length b - length r) b = r"
proof -
  assume "drop p b = w @ r"
  then have "b = (take p b @ w) @ r" by (metis append_assoc append_take_drop_id)
  then show ?thesis by (metis append_eq_conv_conj diff_add_inverse2 length_append)
qed

lemma bytes_length [simp]: "length (bytes s) = length s"
  by (simp add: bytes_def)

lemma magic_length: "length MAGIC_STRING = 36"
  by (simp add: MAGIC_STRING_def)

lemma accept_length: "length WS_HS_ACCEPT = 97"
  by (simp add: WS_HS_ACCEPT_def crlf_def)

lemma sha1_length: "length (sha1 m) = 20"
  by (simp add: sha1_def sha1_bytes_def be32_def split_def)

lemma base64_length: "length (base64 bs) = 4 * ((length bs + 2) div 3)"
proof (induction bs rule: base64.induct)
  case (1 a b c rest)
  then show ?case by (simp del: mult_div_mod_eq) presburger
qed simp_all

lemma get_handshake_accept_key:
  assumes "list_all (\<lambda>b. b \<noteq> 0) key" "length key = 24"
  shows "get_handshake_accept ctx (Some (key @ 0 # r))
    = Inr (0, base64 (map unat (sha1 (key @ bytes MAGIC_STRING))))"
proof -
  let ?m = "key @ bytes MAGIC_STRING"
  have k: "cstr (key @ 0 # r) = key"
    using cstr_append [OF assms(1), of "0 # r"] by simp
  obtain c' where c': "SHA1Input ?m (snd (SHA1Reset ctx)) = Inr (shaSuccess, c')" "absorbed ?m c'"
    using SHA1Input_absorbed [OF absorbed_reset [of ctx], of ?m] assms(2) by (auto simp: magic_length)
  obtain c'' where s: "SHA1Result c' = Inr ((shaSuccess, sha1 ?m), c'')"
    using absorbed_result [OF c'(2)] by blast
  have "sha1 ?m \<noteq> []"
    using sha1_length [of ?m] by auto
  then have "base64_encode True (sha1 ?m) = Inr (Some (base64 (map unat (sha1 ?m)) @ [lineFeed]))"
    using base64_encode_ok [of "sha1 ?m"] encoded_short [of 0 "sha1 ?m"] sha1_length [of ?m] by auto
  then show ?thesis
    using c'(1) s assms(2) by (simp add: get_handshake_accept_def Let_def k WS_KEYMS_LEN_def magic_length split_def)
qed

text \<open>
  \<^bold>\<open>C36.\<close> The opening handshake answers as RFC 6455 asks. For a request whose lines before the field
  \<^verbatim>\<open>Sec-WebSocket-Key\<close> do not mention it and whose key has 24 characters, the response is the fixed header with the
  base64 of the SHA-1 of the key and the magic string; with its terminator it fills the 130 bytes allocated
  for it exactly. No string operation leaves its buffer, and the request behind the line of the key, where the
  first frames may already be, is left as it was.
\<close>

theorem handshake_response:
  assumes "list_all (\<lambda>l. lineOk l \<and> strstr l (bytes WS_HS_REQ) = None) ls"
    and "list_all (\<lambda>b. b \<noteq> 0x20 \<and> b \<noteq> 0x0D \<and> b \<noteq> 0x0A \<and> b \<noteq> 0) key" and "length key = 24"
  shows "\<exists>response buf. get_handshake_response ctx
      (concat (map (\<lambda>l. l @ CRLF) ls) @ bytes (WS_HS_REQ @ '': '') @ key @ CRLF @ r) = Inr ((0, response), buf)
    \<and> response = WS_HS_ACCEPT @ base64 (map unat (sha1 (key @ bytes MAGIC_STRING))) @ crlf @ crlf
    \<and> length response + 1 = WS_HS_ACCLEN
    \<and> drop (length buf - length r) buf = r
    \<and> length buf = length (concat (map (\<lambda>l. l @ CRLF) ls)) + 45 + length r"
proof -
  let ?n = "bytes (WS_HS_REQ @ '': '')" and ?a = "base64 (map unat (sha1 (key @ bytes MAGIC_STRING)))"
  let ?req = "concat (map (\<lambda>l. l @ CRLF) ls) @ ?n @ key @ CRLF @ r"
  have n: "?n = bytes (WS_HS_REQ @ '':'') @ [0x20]" "length ?n = 19"
    by (simp_all add: bytes_def WS_HS_REQ_def)
  have L: "lineOk (?n @ key)" "strstr (?n @ key) (bytes WS_HS_REQ) = Some 0"
    using assms(2) by (auto simp: lineOk_def list_all_iff bytes_def WS_HS_REQ_def)
  from findLine_lines [of 0 ?req "[]" ls "?n @ key" r] L assms(1) obtain s buf where
    f: "findLine ?req 0 = (Some s, buf)" "drop s buf = (?n @ key) @ 0 # 0x0A # r" "length buf = length ?req" by auto
  from f(2) have "drop s buf = [] @ bytes (WS_HS_REQ @ '':'') @ 0x20 # key @ 0 # 0x0A # r"
    unfolding n(1) by simp
  from strtok_token [OF this, of "{0x20}"] obtain b' p where
    t: "strtok {0x20} buf s = Some (s, b', p)" "drop p b' = key @ 0 # 0x0A # r" "length b' = length buf"
    by (auto simp: bytes_def WS_HS_REQ_def)
  have "key \<noteq> []" "list_all (\<lambda>b. b \<noteq> 0) key" using assms(2,3) by (auto simp: list_all_iff)
  moreover from this have u: "strtok {0x20} b' p = Some (p, b', p + length key)"
    using strtok_last [OF t(2), of "{0x20}"] assms(2) by (auto simp: list_all_iff)
  ultimately have a: "get_handshake_accept ctx (Some (drop p b')) = Inr (0, ?a)"
    using get_handshake_accept_key [OF _ assms(3)] t(2) by simp
  have len: "length (WS_HS_ACCEPT @ ?a @ crlf @ crlf) = 129"
    by (simp add: accept_length base64_length sha1_length crlf_def)
  have "drop (length b' - length r) b' = r"
    by (rule drop_tail [of p _ "key @ [0, 0x0A]"]) (simp add: t(2))
  moreover have "length b' = length (concat (map (\<lambda>l. l @ CRLF) ls)) + 45 + length r"
    unfolding t(3) f(3) using n(2) assms(3) by (simp add: CRLF_def)
  ultimately show ?thesis
    using len by (simp add: get_handshake_response_def f t u a [unfolded t(2)] Let_def del: length_append)
qed

lemma handshake_response_witness:
  "\<exists>response buf. get_handshake_response staleContext
      (bytes ''GET / HTTP/1.1'' @ CRLF @ bytes (WS_HS_REQ @ '': '') @ bytes ''dGhlIHNhbXBsZSBub25jZQ=='' @ CRLF @ CRLF)
      = Inr ((0, response), buf) \<and> length response = 129"
proof -
  have "list_all (\<lambda>l. lineOk l \<and> strstr l (bytes WS_HS_REQ) = None) [bytes ''GET / HTTP/1.1'']"
    "list_all (\<lambda>b. b \<noteq> 0x20 \<and> b \<noteq> 0x0D \<and> b \<noteq> 0x0A \<and> b \<noteq> 0) (bytes ''dGhlIHNhbXBsZSBub25jZQ=='')"
    by (simp_all add: lineOk_def bytes_def WS_HS_REQ_def)
  from handshake_response [OF this, of staleContext CRLF] show ?thesis by auto
qed

end
