(* ===== verification/Ws_Frame.thy ===== *)
theory Ws_Frame
  imports Ws_Utf8 Ws_Handshake
begin

text \<open>
  Frames of the WebSocket library, \<^verbatim>\<open>libs/wsServer/src/ws.c\<close>: sending one, and reading a message with its
  control frames. It is compiled with the validation of UTF-8, its default.

  \<^item> A connection holds what the other side sends as the list of pieces that successive calls of \<open>recv\<close>
    find (an empty piece, or none left, is a call that returns 0 or an error), the bytes that went out, and
    how many bytes each call of \<open>send\<close> takes: \<open>None\<close> an error, \<open>Some k\<close> at most \<open>k + 1\<close>, as \<open>send\<close> takes at
    least one byte.
  \<^item> Lengths are 64-bit words, as in the code. \<open>realloc\<close> succeeds or not by size; the bytes of a new block are
    a parameter. A block resized to 0 bytes, which glibc frees and the code then frees again, is a fault.
  \<^item> The operands of \<open>|\<close> that read the bytes of a length are evaluated from left to right, as compilers do; C
    leaves the order open.
  \<^item> The mutexes protect the fields of a connection against threads that the server does not have: its
    callbacks and its sending never change them.
\<close>

section \<open>Connections\<close>

record connection =
  client_sock :: int
  ws_state :: int
  last_pong_id :: u32
  current_ping_id :: u32
  incoming :: "u8 list list"
  outgoing :: "u8 list"
  sends :: "nat \<Rightarrow> nat option"

definition WS_STATE_CONNECTING :: int where [simp]: "WS_STATE_CONNECTING = 0"
definition WS_STATE_OPEN :: int where [simp]: "WS_STATE_OPEN = 1"
definition WS_STATE_CLOSING :: int where [simp]: "WS_STATE_CLOSING = 2"
definition WS_STATE_CLOSED :: int where [simp]: "WS_STATE_CLOSED = 3"

definition WS_FIN :: u8 where [simp]: "WS_FIN = 128"
definition WS_FIN_SHIFT :: nat where [simp]: "WS_FIN_SHIFT = 7"
definition WS_FR_OP_CONT :: u8 where [simp]: "WS_FR_OP_CONT = 0"
definition WS_FR_OP_TXT :: u8 where [simp]: "WS_FR_OP_TXT = 1"
definition WS_FR_OP_BIN :: u8 where [simp]: "WS_FR_OP_BIN = 2"
definition WS_FR_OP_CLSE :: u8 where [simp]: "WS_FR_OP_CLSE = 8"
definition WS_FR_OP_PING :: u8 where [simp]: "WS_FR_OP_PING = 0x9"
definition WS_FR_OP_PONG :: u8 where [simp]: "WS_FR_OP_PONG = 0xA"

definition WS_CLSE_PROTERR :: int where [simp]: "WS_CLSE_PROTERR = 1002"
definition WS_CLSE_INVUTF8 :: int where [simp]: "WS_CLSE_INVUTF8 = 1007"

definition MESSAGE_LENGTH :: nat where [simp]: "MESSAGE_LENGTH = 2048"
definition MAX_FRAME_LENGTH :: u64 where [simp]: "MAX_FRAME_LENGTH = 16 * 1024 * 1024"

definition set_client_state :: "int \<Rightarrow> connection \<Rightarrow> connection" where
  "set_client_state s c = (if s < 0 \<or> s > 3 then c else c\<lparr>ws_state := s\<rparr>)"

section \<open>Sending\<close>

function send_all :: "u8 list \<Rightarrow> connection \<Rightarrow> int \<times> connection" where
  "send_all p c =
    (if p = [] then (0, c)
     else case sends c 0 of
         None \<Rightarrow> (-1, c\<lparr>sends := (\<lambda>i. sends c (Suc i))\<rparr>)
       | Some k \<Rightarrow> send_all (drop (Suc k) p)
           (c\<lparr>outgoing := outgoing c @ take (Suc k) p, sends := (\<lambda>i. sends c (Suc i))\<rparr>))"
  by pat_completeness auto
termination
  by (relation "measure (\<lambda>(p, c). length p)") auto

declare send_all.simps [simp del]

definition frameHeader :: "u64 \<Rightarrow> u8 \<Rightarrow> u8 list" where
  "frameHeader len type =
    (if len \<le> 125 then [WS_FIN OR type, ucast (len AND 0x7F)]
     else if len \<ge> 126 \<and> len \<le> 65535 then
       [WS_FIN OR type, 126, ucast (drop_bit 8 len AND 255), ucast (len AND 255)]
     else
       [WS_FIN OR type, 127, ucast (drop_bit 56 len AND 255), ucast (drop_bit 48 len AND 255),
        ucast (drop_bit 40 len AND 255), ucast (drop_bit 32 len AND 255), ucast (drop_bit 24 len AND 255),
        ucast (drop_bit 16 len AND 255), ucast (drop_bit 8 len AND 255), ucast (len AND 255)])"

text \<open>To one client, or to the open ones among all of them.\<close>

definition ws_sendframe :: "bool \<Rightarrow> u8 list \<Rightarrow> u8 \<Rightarrow> connection \<Rightarrow> int \<times> connection" where
  "ws_sendframe mallocOk message type c =
    (let response = frameHeader (of_nat (length message)) type @ message
     in if \<not> mallocOk then (-1, c) else send_all response c)"

fun broadcast :: "u8 list \<Rightarrow> connection list \<Rightarrow> int \<times> connection list" where
  "broadcast response [] = (0, [])"
| "broadcast response (c # cs) =
     (if client_sock c > -1 \<and> ws_state c = WS_STATE_OPEN then
        (case send_all response c of (r, c) \<Rightarrow>
          if r \<noteq> -1 then map_prod (\<lambda>t. r + t) (\<lambda>cs. c # cs) (broadcast response cs) else (-1, c # cs))
      else map_prod id (\<lambda>cs. c # cs) (broadcast response cs))"

definition ws_sendframe_all :: "bool \<Rightarrow> u8 list \<Rightarrow> u8 \<Rightarrow> connection list \<Rightarrow> int \<times> connection list" where
  "ws_sendframe_all mallocOk message type clients =
    (let response = frameHeader (of_nat (length message)) type @ message
     in if \<not> mallocOk then (-1, clients) else broadcast response clients)"

definition ws_sendframe_txt :: "bool \<Rightarrow> string \<Rightarrow> connection \<Rightarrow> int \<times> connection" where
  "ws_sendframe_txt mallocOk message c = ws_sendframe mallocOk (bytes message) WS_FR_OP_TXT c"

section \<open>Reading bytes\<close>

record ws_frame_data =
  frm :: "nat \<Rightarrow> u8"
  msg :: "buffer option"
  msg_ctrl :: "nat \<Rightarrow> u8"
  cur_pos :: nat
  amt_read :: nat
  frame_type :: int
  frame_size :: u64
  error :: bool
  client :: connection

definition recv :: "nat \<Rightarrow> connection \<Rightarrow> u8 list option \<times> connection" where
  "recv n c =
    (case incoming c of [] \<Rightarrow> (None, c)
     | p # ps \<Rightarrow>
         if p = [] then (None, c\<lparr>incoming := ps\<rparr>)
         else (Some (take n p), c\<lparr>incoming := (if drop n p = [] then ps else drop n p # ps)\<rparr>))"

text \<open>\<open>None\<close> is the result -1.\<close>

definition next_byte :: "ws_frame_data \<Rightarrow> (u8 option \<times> ws_frame_data) res" where
  "next_byte w =
    (let (ok, w) =
       (if cur_pos w = 0 \<or> cur_pos w = amt_read w then
          (case recv MESSAGE_LENGTH (client w) of
             (None, c) \<Rightarrow> (False, w\<lparr>error := True, client := c\<rparr>)
           | (Some p, c) \<Rightarrow> (True, w\<lparr>frm := (\<lambda>i. if i < length p then p ! i else frm w i),
                amt_read := length p, cur_pos := 0, client := c\<rparr>))
        else (True, w))
     in if \<not> ok then Inr (None, w)
        else bind_res (arr_get MESSAGE_LENGTH (frm w) (cur_pos w)) (\<lambda>b.
          Inr (Some b, w\<lparr>cur_pos := cur_pos w + 1\<rparr>)))"

text \<open>The result as the 64-bit integer that it is converted to.\<close>

definition next_byte64 :: "ws_frame_data \<Rightarrow> (u64 \<times> ws_frame_data) res" where
  "next_byte64 w = bind_res (next_byte w) (\<lambda>(b, w). Inr (case b of None \<Rightarrow> -1 | Some b \<Rightarrow> ucast b, w))"

text \<open>The bytes of a number, most significant first, from a shift down to 0.\<close>

fun readNumber :: "nat \<Rightarrow> u64 \<Rightarrow> ws_frame_data \<Rightarrow> (u64 \<times> ws_frame_data) res" where
  "readNumber 0 acc w = Inr (acc, w)"
| "readNumber (Suc n) acc w =
     bind_res (next_byte64 w) (\<lambda>(b, w). readNumber n (acc OR push_bit (8 * n) b) w)"

text \<open>The masks: a result -1 is stored as FFh.\<close>

fun readMasks :: "nat \<Rightarrow> ws_frame_data \<Rightarrow> (u8 list \<times> ws_frame_data) res" where
  "readMasks 0 w = Inr ([], w)"
| "readMasks (Suc n) w =
     bind_res (next_byte w) (\<lambda>(b, w).
     bind_res (readMasks n w) (\<lambda>(ms, w). Inr ((case b of None \<Rightarrow> 0xFF | Some b \<Rightarrow> b) # ms, w)))"

section \<open>A frame\<close>

text \<open>
  What the library asks of the C library: whether a block of a size can be had, the bytes that a new block
  holds, and the uninitialised variable that the UTF-8 decoder starts from.
\<close>

record ws_env =
  mallocOk :: bool
  reallocOk :: "nat \<Rightarrow> bool"
  freshBytes :: "nat \<Rightarrow> u8"
  codepoint :: u32

definition is_control_frame :: "u8 \<Rightarrow> bool" where
  "is_control_frame frame \<longleftrightarrow> frame = WS_FR_OP_CLSE \<or> frame = WS_FR_OP_PING \<or> frame = WS_FR_OP_PONG"

definition realloc :: "ws_env \<Rightarrow> u64 \<Rightarrow> buffer option \<Rightarrow> buffer option res" where
  "realloc e n p =
    (if n = 0 \<and> p \<noteq> None then Inl UseAfterFree
     else if \<not> reallocOk e (unat n) then Inr None
     else Inr (Some \<lparr>bsize = unat n, bdata = (\<lambda>i. case p of None \<Rightarrow> freshBytes e i
         | Some b \<Rightarrow> if i < bsize b then bdata b i else freshBytes e i)\<rparr>))"

text \<open>The block resized, or the error flag set; the first result is whether to go on.\<close>

definition resize :: "ws_env \<Rightarrow> u64 \<Rightarrow> buffer option \<Rightarrow> ws_frame_data \<Rightarrow> (bool \<times> buffer option \<times> ws_frame_data) res" where
  "resize e n buf w = bind_res (realloc e n buf) (\<lambda>tmp.
     Inr (if tmp = None then (False, buf, w\<lparr>error := True\<rparr>) else (True, tmp, w)))"

text \<open>The payload, unmasked, from an index on: \<open>n\<close> bytes are left and \<open>i\<close> have been read.\<close>

fun copyLoop :: "nat \<Rightarrow> u64 \<Rightarrow> u8 list \<Rightarrow> buffer option \<Rightarrow> u64 \<Rightarrow> ws_frame_data
    \<Rightarrow> (bool \<times> buffer option \<times> u64 \<times> ws_frame_data) res" where
  "copyLoop 0 i masks dest msg_idx w = Inr (True, dest, msg_idx, w)"
| "copyLoop (Suc n) i masks dest msg_idx w =
     bind_res (next_byte w) (\<lambda>(cur_byte, w).
       case cur_byte of None \<Rightarrow> Inr (False, dest, msg_idx, w)
       | Some b \<Rightarrow>
           bind_res (buf_set dest (unat msg_idx) (b XOR masks ! unat (i mod 4))) (\<lambda>dest.
             copyLoop n (i + 1) masks dest (msg_idx + 1) w))"

text \<open>
  \<open>read_frame\<close> returns whether it succeeded and what it stores through its pointers: the buffer, the length
  of the frame, the size so far and the index.
\<close>

definition readLength :: "u64 \<Rightarrow> ws_frame_data \<Rightarrow> (u64 \<times> ws_frame_data) res" where
  "readLength frame_length w =
    (if frame_length = 126 then readNumber 2 0 w
     else if frame_length = 127 then readNumber 8 0 w
     else Inr (frame_length, w))"

definition readPayload :: "ws_env \<Rightarrow> u8 \<Rightarrow> u8 list \<Rightarrow> bool \<Rightarrow> u64 \<Rightarrow> buffer option \<Rightarrow> u64 \<Rightarrow> ws_frame_data
    \<Rightarrow> (bool \<times> buffer option \<times> u64 \<times> ws_frame_data) res" where
  "readPayload e opcode masks is_fin frame_length dest msg_idx w =
    (if frame_length > 0 then
       bind_res
         (if \<not> is_control_frame opcode then resize e (msg_idx + frame_length + of_bool is_fin) dest w
          else Inr (True, dest, w))
         (\<lambda>(ok, dest, w).
           if ok then copyLoop (unat frame_length) 0 masks dest msg_idx w else Inr (False, dest, msg_idx, w))
     else Inr (True, dest, msg_idx, w))"

definition terminate :: "ws_env \<Rightarrow> u8 \<Rightarrow> bool \<Rightarrow> u64 \<Rightarrow> u64 \<Rightarrow> buffer option \<Rightarrow> u64 \<Rightarrow> ws_frame_data
    \<Rightarrow> (bool \<times> buffer option \<times> ws_frame_data) res" where
  "terminate e opcode is_fin frame_length whole dest msg_idx w =
    (if is_fin \<and> whole > 0 then
       bind_res
         (if frame_length = 0 \<and> \<not> is_control_frame opcode then resize e (msg_idx + 1) dest w
          else Inr (True, dest, w))
         (\<lambda>(ok, dest, w).
           if ok then bind_res (buf_set dest (unat msg_idx) 0) (\<lambda>dest. Inr (True, dest, w))
           else Inr (False, dest, w))
     else Inr (True, dest, w))"

definition read_frame :: "ws_env \<Rightarrow> u8 \<Rightarrow> bool \<Rightarrow> buffer option \<Rightarrow> u64 \<Rightarrow> u64 \<Rightarrow> u64 \<Rightarrow> ws_frame_data
    \<Rightarrow> (bool \<times> buffer option \<times> u64 \<times> u64 \<times> u64 \<times> ws_frame_data) res" where
  "read_frame e opcode is_fin buf frame_length whole msg_idx w =
    bind_res (readLength frame_length w) (\<lambda>(frame_length, w).
      let whole = whole + frame_length in
      if whole > MAX_FRAME_LENGTH then
        Inr (False, buf, frame_length, whole, msg_idx, w\<lparr>error := True\<rparr>)
      else
        bind_res (readMasks 4 w) (\<lambda>(masks, w).
        if error w then Inr (False, buf, frame_length, whole, msg_idx, w)
        else
          bind_res (readPayload e opcode masks is_fin frame_length buf msg_idx w) (\<lambda>(ok, buf, msg_idx, w).
          if \<not> ok then Inr (False, buf, frame_length, whole, msg_idx, w)
          else
            bind_res (terminate e opcode is_fin frame_length whole buf msg_idx w) (\<lambda>(ok, buf, w).
              Inr (ok, buf, frame_length, whole, msg_idx, w)))))"

section \<open>Control frames\<close>

text \<open>The content of a control frame goes to the array in the frame data.\<close>

abbreviation ctrlSize :: nat where "ctrlSize \<equiv> 125"

definition read_control :: "ws_env \<Rightarrow> u8 \<Rightarrow> bool \<Rightarrow> u64 \<Rightarrow> ws_frame_data \<Rightarrow> (bool \<times> u64 \<times> ws_frame_data) res" where
  "read_control e opcode is_fin frame_length w =
    bind_res (read_frame e opcode is_fin (Some \<lparr>bsize = ctrlSize, bdata = msg_ctrl w\<rparr>) frame_length 0 0 w)
      (\<lambda>(ok, buf, _, whole, _, w).
        Inr (ok, whole, w\<lparr>msg_ctrl := (case buf of None \<Rightarrow> msg_ctrl w | Some b \<Rightarrow> bdata b)\<rparr>))"

definition ctrl_bytes :: "nat \<Rightarrow> nat \<Rightarrow> ws_frame_data \<Rightarrow> u8 list res" where
  "ctrl_bytes i n w = (if i + n \<le> ctrlSize then Inr (map (msg_ctrl w) [i..<i + n]) else Inl OutOfBounds)"

definition send_ctrl :: "ws_env \<Rightarrow> nat \<Rightarrow> u8 \<Rightarrow> ws_frame_data \<Rightarrow> (int \<times> ws_frame_data) res" where
  "send_ctrl e n type w =
    bind_res (ctrl_bytes 0 n w) (\<lambda>s.
      case ws_sendframe (mallocOk e) s type (client w) of (r, c) \<Rightarrow> Inr (r, w\<lparr>client := c\<rparr>))"

definition do_pong :: "ws_env \<Rightarrow> u64 \<Rightarrow> ws_frame_data \<Rightarrow> (int \<times> ws_frame_data) res" where
  "do_pong e whole w =
    bind_res (send_ctrl e (unat whole) WS_FR_OP_PONG w) (\<lambda>(r, w).
      Inr (if r < 0 then (-1, w\<lparr>error := True\<rparr>) else (0, w)))"

definition close_code_ok :: "int \<Rightarrow> bool" where
  "close_code_ok cc \<longleftrightarrow> \<not> ((cc < 1000 \<or> cc > 1003) \<and> (cc < 1007 \<or> cc > 1011) \<and> (cc < 3000 \<or> cc > 4999))"

definition custom_close :: "ws_env \<Rightarrow> int \<Rightarrow> ws_frame_data \<Rightarrow> (int \<times> ws_frame_data) res" where
  "custom_close e cc w =
    bind_res (send_ctrl e 2 WS_FR_OP_CLSE
      (w\<lparr>msg_ctrl := (msg_ctrl w)(0 := of_int (cc div 256), 1 := of_int (cc mod 256))\<rparr>)) (\<lambda>(r, w).
        Inr (if r < 0 then -1 else 0, w))"

definition do_close :: "ws_env \<Rightarrow> int \<Rightarrow> ws_frame_data \<Rightarrow> (int \<times> ws_frame_data) res" where
  "do_close e close_code w =
    (if close_code \<noteq> -1 then custom_close e close_code w
     else
       let send = bind_res (send_ctrl e (unat (frame_size w)) WS_FR_OP_CLSE w) (\<lambda>(r, w).
             Inr (if r < 0 then -1 else 0, w))
       in if frame_size w = 0 \<or> frame_size w > 2 then send
          else
            let cc = (if frame_size w = 1 then uint (msg_ctrl w 0)
                      else uint (msg_ctrl w 0) * 256 + uint (msg_ctrl w 1))
            in if \<not> close_code_ok cc then custom_close e WS_CLSE_PROTERR w else send)"

definition pong_msg_to_int32 :: "(nat \<Rightarrow> u8) \<Rightarrow> u32" where
  "pong_msg_to_int32 m = push_bit 0 (ucast (m 3)) OR push_bit 8 (ucast (m 2))
     OR push_bit 16 (ucast (m 1)) OR push_bit 24 (ucast (m 0))"

definition int32_to_ping_msg :: "u32 \<Rightarrow> u8 list" where
  "int32_to_ping_msg ping_id = [ucast (drop_bit 24 ping_id), ucast (drop_bit 16 ping_id),
     ucast (drop_bit 8 ping_id), ucast (drop_bit 0 ping_id)]"

section \<open>The next message\<close>

text \<open>
  The variables of \<open>next_frame\<close> that live across frames, and how an iteration of its loop ends: at the
  condition with the value of \<open>is_fin\<close>, by a break, or by a return.
\<close>

record frame_vars =
  msg_data :: "buffer option"
  msg_idx_data :: u64
  utf8_state :: u32

datatype flow = Continue bool | Break | Return int

definition data_bytes :: "u64 \<Rightarrow> frame_vars \<Rightarrow> u8 list res" where
  "data_bytes frame_length v =
    (let n = unat frame_length; i = unat (msg_idx_data v - frame_length) in
     if n = 0 then Inr []
     else case msg_data v of None \<Rightarrow> Inl NullPointer
       | Some b \<Rightarrow> if i + n \<le> bsize b then Inr (map (bdata b) [i..<i + n]) else Inl OutOfBounds)"

definition validate_data :: "ws_env \<Rightarrow> bool \<Rightarrow> u64 \<Rightarrow> frame_vars \<Rightarrow> ws_frame_data
    \<Rightarrow> (frame_vars \<times> ws_frame_data) res" where
  "validate_data e is_fin frame_length v w =
    bind_res (data_bytes frame_length v) (\<lambda>s.
    bind_res (is_utf8_len_state (codepoint e) s (utf8_state v)) (\<lambda>st.
      let v = (if is_fin then v else v\<lparr>utf8_state := st\<rparr>);
          bad = (if is_fin then st \<noteq> UTF8_ACCEPT else st = UTF8_REJECT)
      in if bad then bind_res (do_close e WS_CLSE_INVUTF8 (w\<lparr>error := True\<rparr>)) (\<lambda>(_, w). Inr (v, w))
         else Inr (v, w)))"

definition data_frame :: "ws_env \<Rightarrow> u8 \<Rightarrow> bool \<Rightarrow> u64 \<Rightarrow> frame_vars \<Rightarrow> ws_frame_data
    \<Rightarrow> (flow \<times> frame_vars \<times> ws_frame_data) res" where
  "data_frame e opcode is_fin frame_length v w =
    bind_res (read_frame e opcode is_fin (msg_data v) frame_length (frame_size w) (msg_idx_data v) w)
      (\<lambda>(ok, msg, frame_length, whole, idx, w).
        let w = w\<lparr>frame_size := whole\<rparr>; v = v\<lparr>msg_data := msg, msg_idx_data := idx\<rparr>
        in if \<not> ok then Inr (Break, v, w)
           else if frame_type w = uint WS_FR_OP_TXT then
             bind_res (validate_data e is_fin frame_length v w) (\<lambda>(v, w). Inr (Continue is_fin, v, w))
           else Inr (Continue is_fin, v, w))"

definition pong_frame :: "ws_env \<Rightarrow> bool \<Rightarrow> u64 \<Rightarrow> ws_frame_data \<Rightarrow> (flow \<times> ws_frame_data) res" where
  "pong_frame e is_fin frame_length w =
    bind_res (read_control e WS_FR_OP_PONG is_fin frame_length w) (\<lambda>(ok, whole, w).
      if \<not> ok then Inr (Break, w)
      else if whole \<noteq> 4 then Inr (Continue False, w)
      else
        let pong_id = pong_msg_to_int32 (msg_ctrl w)
        in if sint pong_id < 0 \<or> sint pong_id > sint (current_ping_id (client w)) then Inr (Continue False, w)
           else Inr (Continue False, w\<lparr>client := (client w)\<lparr>last_pong_id := pong_id\<rparr>\<rparr>))"

definition ping_frame :: "ws_env \<Rightarrow> bool \<Rightarrow> u64 \<Rightarrow> ws_frame_data \<Rightarrow> (flow \<times> ws_frame_data) res" where
  "ping_frame e is_fin frame_length w =
    bind_res (read_control e WS_FR_OP_PING is_fin frame_length w) (\<lambda>(ok, whole, w).
      if \<not> ok then Inr (Break, w)
      else bind_res (do_pong e whole w) (\<lambda>(r, w). Inr (if r < 0 then Break else Continue False, w)))"

definition close_frame :: "ws_env \<Rightarrow> bool \<Rightarrow> u64 \<Rightarrow> ws_frame_data \<Rightarrow> (flow \<times> ws_frame_data) res" where
  "close_frame e is_fin frame_length w =
    bind_res (read_control e WS_FR_OP_CLSE is_fin frame_length w) (\<lambda>(ok, whole, w).
      if \<not> ok then Inr (Break, w)
      else
        bind_res
          (if whole > 2 then
             bind_res (ctrl_bytes 2 (unat whole - 2) w) (\<lambda>s. bind_res (is_utf8_len (codepoint e) s) (\<lambda>r. Inr (r \<noteq> 0)))
           else Inr True)
          (\<lambda>valid.
            Inr (if \<not> valid then (Break, w\<lparr>error := True\<rparr>)
              else (Return 0, w\<lparr>frame_size := whole, frame_type := uint WS_FR_OP_CLSE\<rparr>))))"

text \<open>One iteration of the loop.\<close>

definition knownOpcode :: "u8 \<Rightarrow> bool" where
  "knownOpcode opcode \<longleftrightarrow> opcode = WS_FR_OP_TXT \<or> opcode = WS_FR_OP_BIN \<or> opcode = WS_FR_OP_CONT \<or>
     opcode = WS_FR_OP_PING \<or> opcode = WS_FR_OP_PONG \<or> opcode = WS_FR_OP_CLSE"

definition dispatch_frame :: "ws_env \<Rightarrow> u8 \<Rightarrow> bool \<Rightarrow> frame_vars \<Rightarrow> ws_frame_data
    \<Rightarrow> (flow \<times> frame_vars \<times> ws_frame_data) res" where
  "dispatch_frame e opcode is_fin v w =
    bind_res (next_byte w) (\<lambda>(mask, w).
      let frame_length = ucast ((case mask of None \<Rightarrow> 0xFF | Some m \<Rightarrow> m) AND 0x7F) in
      if is_control_frame opcode \<and> (\<not> is_fin \<or> frame_length > 125) then Inr (Break, v, w\<lparr>error := True\<rparr>)
      else if \<not> is_control_frame opcode then data_frame e opcode is_fin frame_length v w
      else
        bind_res
          (if opcode = WS_FR_OP_PONG then pong_frame e is_fin frame_length w
           else if opcode = WS_FR_OP_PING then ping_frame e is_fin frame_length w
           else close_frame e is_fin frame_length w)
          (\<lambda>(f, w). Inr (f, v, w)))"

definition frame_body :: "ws_env \<Rightarrow> frame_vars \<Rightarrow> ws_frame_data \<Rightarrow> (flow \<times> frame_vars \<times> ws_frame_data) res" where
  "frame_body e v w =
    bind_res (next_byte w) (\<lambda>(cur_byte, w).
      case cur_byte of None \<Rightarrow> Inr (Return (-1), v, w)
      | Some b \<Rightarrow>
        let is_fin = (drop_bit WS_FIN_SHIFT b \<noteq> 0); opcode = b AND 0xF in
        if b AND 0x70 \<noteq> 0 then Inr (Break, v, w\<lparr>error := True\<rparr>)
        else if frame_type w = -1 \<and> opcode = WS_FR_OP_CONT
            \<or> frame_type w \<noteq> -1 \<and> \<not> is_control_frame opcode \<and> opcode \<noteq> WS_FR_OP_CONT then
          Inr (Break, v, w\<lparr>error := True\<rparr>)
        else if \<not> knownOpcode opcode then
          Inr (Continue is_fin, v, w\<lparr>frame_type := uint opcode, error := True\<rparr>)
        else if ws_state (client w) = WS_STATE_CLOSING \<and> opcode \<noteq> WS_FR_OP_CLSE then
          Inr (Break, v, w\<lparr>error := True\<rparr>)
        else
          dispatch_frame e opcode is_fin v
            (if opcode \<noteq> WS_FR_OP_CONT \<and> \<not> is_control_frame opcode then w\<lparr>frame_type := uint opcode\<rparr> else w))"

definition finish_message :: "frame_vars \<Rightarrow> ws_frame_data \<Rightarrow> int \<times> ws_frame_data" where
  "finish_message v w = (if error w then (-1, w\<lparr>msg := None\<rparr>) else (0, w\<lparr>msg := msg_data v\<rparr>))"

text \<open>
  The loop ends because every iteration that goes on has read a byte: what can still be read gets less.
\<close>

definition pending :: "ws_frame_data \<Rightarrow> nat" where
  "pending w = (if cur_pos w \<le> amt_read w then amt_read w - cur_pos w else MESSAGE_LENGTH - cur_pos w)
     + length (concat (incoming (client w)))"

lemma pending_upd [simp]:
  "pending (w\<lparr>error := x1\<rparr>) = pending w" "pending (w\<lparr>frame_type := x2\<rparr>) = pending w"
  "pending (w\<lparr>frame_size := x3\<rparr>) = pending w" "pending (w\<lparr>msg_ctrl := x4\<rparr>) = pending w"
  "pending (w\<lparr>msg := x5\<rparr>) = pending w"
  "incoming c = incoming (client w) \<Longrightarrow> pending (w\<lparr>client := c\<rparr>) = pending w"
  by (simp_all add: pending_def)

lemma next_byte_pending:
  "on_ok (\<lambda>(b, w'). pending w' \<le> pending w \<and> (b \<noteq> None \<longrightarrow> pending w' < pending w)) (next_byte w)"
proof (cases "cur_pos w = 0 \<or> cur_pos w = amt_read w")
  case True
  show ?thesis
  proof (cases "incoming (client w)")
    case (Cons p ps)
    then show ?thesis
      using True by (cases p) (auto simp: next_byte_def recv_def pending_def arr_get_def)
  qed (use True in \<open>simp add: next_byte_def recv_def\<close>)
next
  case False
  then show ?thesis
    by (auto simp: next_byte_def arr_get_def pending_def)
qed

lemma next_byte_le: "on_ok (\<lambda>(b, w'). pending w' \<le> pending w) (next_byte w)"
  by (rule on_ok_mono [OF next_byte_pending]) auto

lemma readNumber_pending: "on_ok (\<lambda>(x, w'). pending w' \<le> pending w) (readNumber n acc w)"
proof (induction n arbitrary: acc w)
  case (Suc n)
  show ?case
    unfolding readNumber.simps next_byte64_def bind_res_assoc
    by (rule on_ok_bind [OF next_byte_le]) (auto intro!: on_ok_mono [OF Suc.IH])
qed simp

lemma readMasks_pending: "on_ok (\<lambda>(x, w'). pending w' \<le> pending w) (readMasks n w)"
proof (induction n arbitrary: w)
  case (Suc n)
  show ?case
    unfolding readMasks.simps
    by (rule on_ok_bind [OF next_byte_le]) (auto intro!: on_ok_bind [OF Suc.IH])
qed simp

lemma copyLoop_pending: "on_ok (\<lambda>(ok, dest, idx, w'). pending w' \<le> pending w) (copyLoop n i masks dest idx w)"
proof (induction n arbitrary: i dest idx w)
  case (Suc n)
  show ?case
    unfolding copyLoop.simps
    by (rule on_ok_bind [OF next_byte_le])
      (auto split: option.split intro!: on_ok_bind_trivial on_ok_mono [OF Suc.IH])
qed simp

lemma resize_pending: "on_ok (\<lambda>(ok, dest, w'). pending w' = pending w) (resize e n dest w)"
  unfolding resize_def by (rule on_ok_bind_trivial) auto

lemma readPayload_pending:
  "on_ok (\<lambda>(ok, dest, idx, w'). pending w' \<le> pending w) (readPayload e opcode masks fin len dest idx w)"
proof -
  have "on_ok (\<lambda>(ok, dest, w'). pending w' = pending w)
      (if \<not> is_control_frame opcode then resize e n dest w else Inr (True, dest, w))" for n
    using resize_pending [of w e n dest] by simp
  then show ?thesis
    unfolding readPayload_def
    by (auto intro!: on_ok_bind [where P = "\<lambda>(ok, dest, w'). pending w' = pending w"] on_ok_mono [OF copyLoop_pending])
qed

lemma terminate_pending: "on_ok (\<lambda>(ok, dest, w'). pending w' = pending w) (terminate e opcode fin len whole dest idx w)"
proof -
  have step: "on_ok (\<lambda>(ok, dest, w'). pending w' = pending w)
      (if len = 0 \<and> \<not> is_control_frame opcode then resize e (idx + 1) dest w else Inr (True, dest, w))"
    using resize_pending [of w e "idx + 1" dest] by simp
  show ?thesis
    unfolding terminate_def
    by (cases "fin \<and> whole > 0", simp only: simp_thms if_True, rule on_ok_bind [OF step])
      (auto intro!: on_ok_bind_trivial)
qed

lemma read_frame_pending:
  "on_ok (\<lambda>(ok, buf, len, whole, idx, w'). pending w' \<le> pending w) (read_frame e opcode fin buf len whole idx w)"
proof -
  have len: "on_ok (\<lambda>(x, w'). pending w' \<le> pending w) (readLength len w)"
    by (simp add: readLength_def readNumber_pending)
  show ?thesis
    unfolding read_frame_def Let_def
    by (rule on_ok_bind [OF len])
      (auto intro!: on_ok_bind [OF readMasks_pending] on_ok_bind [OF readPayload_pending]
        on_ok_bind [OF terminate_pending])
qed

lemma read_control_pending:
  "on_ok (\<lambda>(ok, whole, w'). pending w' \<le> pending w) (read_control e opcode fin len w)"
  unfolding read_control_def by (rule on_ok_bind [OF read_frame_pending]) auto

lemma send_all_incoming: "incoming (snd (send_all p c)) = incoming c"
proof (induction p c rule: send_all.induct)
  case (1 p c)
  show ?case
    by (subst send_all.simps) (auto simp: 1 split: option.split)
qed

lemma ws_sendframe_incoming: "incoming (snd (ws_sendframe ok s type c)) = incoming c"
  by (simp add: ws_sendframe_def Let_def send_all_incoming)

lemma send_ctrl_pending: "on_ok (\<lambda>(r, w'). pending w' = pending w) (send_ctrl e n type w)"
  unfolding send_ctrl_def
  by (rule on_ok_bind_trivial) (metis (mono_tags, lifting) case_prod_conv on_ok_simps(1) pending_upd(6)
    split_pairs ws_sendframe_incoming prod.collapse)

lemma do_pong_pending: "on_ok (\<lambda>(r, w'). pending w' = pending w) (do_pong e n w)"
  unfolding do_pong_def by (rule on_ok_bind [OF send_ctrl_pending]) auto

lemma custom_close_pending: "on_ok (\<lambda>(r, w'). pending w' = pending w) (custom_close e cc w)"
  unfolding custom_close_def by (rule on_ok_bind [OF send_ctrl_pending]) auto

lemma do_close_pending: "on_ok (\<lambda>(r, w'). pending w' = pending w) (do_close e cc w)"
  unfolding do_close_def Let_def
  by (auto intro!: custom_close_pending on_ok_bind [OF send_ctrl_pending])

lemma validate_data_pending: "on_ok (\<lambda>(v, w'). pending w' = pending w) (validate_data e fin len v w)"
  unfolding validate_data_def Let_def
  by (intro on_ok_bind_trivial) (auto intro!: on_ok_bind [OF do_close_pending])

lemma data_frame_pending:
  "on_ok (\<lambda>(f, v, w'). pending w' \<le> pending w) (data_frame e opcode fin len v w)"
  unfolding data_frame_def Let_def
  by (rule on_ok_bind [OF read_frame_pending]) (auto intro!: on_ok_bind [OF validate_data_pending])

lemma control_pending:
  "on_ok (\<lambda>(f, w'). pending w' \<le> pending w) (pong_frame e fin len w)"
  "on_ok (\<lambda>(f, w'). pending w' \<le> pending w) (ping_frame e fin len w)"
  "on_ok (\<lambda>(f, w'). pending w' \<le> pending w) (close_frame e fin len w)"
proof -
  show "on_ok (\<lambda>(f, w'). pending w' \<le> pending w) (pong_frame e fin len w)"
    unfolding pong_frame_def Let_def by (rule on_ok_bind [OF read_control_pending]) auto
  show "on_ok (\<lambda>(f, w'). pending w' \<le> pending w) (ping_frame e fin len w)"
    unfolding ping_frame_def
    by (rule on_ok_bind [OF read_control_pending]) (auto intro!: on_ok_bind [OF do_pong_pending])
  show "on_ok (\<lambda>(f, w'). pending w' \<le> pending w) (close_frame e fin len w)"
    unfolding close_frame_def
    by (rule on_ok_bind [OF read_control_pending]) (auto intro!: on_ok_bind_trivial)
qed

lemma dispatch_pending: "on_ok (\<lambda>(f, v, w'). pending w' \<le> pending w) (dispatch_frame e opcode fin v w)"
proof -
  have control: "on_ok (\<lambda>(f, w'). pending w' \<le> pending x) m \<Longrightarrow>
      on_ok (\<lambda>(f, v, w'). pending w' \<le> pending x) (bind_res m (\<lambda>(f, w). Inr (f, v, w)))" for x m
    by (erule on_ok_bind) auto
  have le: "on_ok (\<lambda>(f, v, w'). pending w' \<le> pending x) m \<Longrightarrow> pending x \<le> pending w \<Longrightarrow>
      on_ok (\<lambda>(f, v, w'). pending w' \<le> pending w) m" for x m
    by (erule on_ok_mono) auto
  show ?thesis
    unfolding dispatch_frame_def Let_def
    by (rule on_ok_bind [OF next_byte_le])
      (auto intro: le [OF data_frame_pending] le [OF control [OF control_pending(1)]]
        le [OF control [OF control_pending(2)]] le [OF control [OF control_pending(3)]])
qed

lemma frame_body_pending:
  "on_ok (\<lambda>(f, v, w'). pending w' \<le> pending w \<and> (f = Return (-1) \<or> pending w' < pending w)) (frame_body e v w)"
proof -
  have "on_ok (\<lambda>(f, v, w'). pending w' \<le> pending w \<and> (f = Return (-1) \<or> pending w' < pending w))
      (dispatch_frame e opcode fin v x)" if "pending x < pending w" for x opcode fin
    by (rule on_ok_mono [OF dispatch_pending]) (use that in auto)
  then show ?thesis
    unfolding frame_body_def Let_def
    by (intro on_ok_bind [OF next_byte_pending]) (auto split: option.split)
qed

lemma bind_res_cong [fundef_cong]: "m = m' \<Longrightarrow> (\<And>x. m' = Inr x \<Longrightarrow> f x = f' x) \<Longrightarrow> bind_res m f = bind_res m' f'"
  by (cases m') auto

function frame_loop :: "ws_env \<Rightarrow> frame_vars \<Rightarrow> ws_frame_data \<Rightarrow> (int \<times> ws_frame_data) res" where
  "frame_loop e v w =
    bind_res (frame_body e v w) (\<lambda>(f, v, w).
      case f of Return r \<Rightarrow> Inr (r, w)
      | Break \<Rightarrow> Inr (finish_message v w)
      | Continue is_fin \<Rightarrow> if \<not> is_fin \<and> \<not> error w then frame_loop e v w else Inr (finish_message v w))"
  by pat_completeness auto
termination
  by (relation "measure (\<lambda>(e, v, w). pending w)") (use frame_body_pending in \<open>fastforce dest: on_okD\<close>)+

declare frame_loop.simps [simp del]

definition next_frame :: "ws_env \<Rightarrow> ws_frame_data \<Rightarrow> (int \<times> ws_frame_data) res" where
  "next_frame e w = frame_loop e \<lparr>msg_data = None, msg_idx_data = 0, utf8_state = UTF8_ACCEPT\<rparr>
     (w\<lparr>frame_size := 0, frame_type := -1, msg := None\<rparr>)"

text \<open>A call that succeeds has read something.\<close>

lemma frame_loop_pending:
  "on_ok (\<lambda>(r, w'). pending w' \<le> pending w \<and> (0 \<le> r \<longrightarrow> pending w' < pending w)) (frame_loop e v w)"
proof (induction e v w rule: frame_loop.induct)
  case (1 e v w)
  show ?case
  proof (cases "frame_body e v w")
    case (Inr t)
    obtain f v1 w1 where t: "t = (f, v1, w1)" by (cases t)
    then have le: "pending w1 \<le> pending w \<and> (f = Return (-1) \<or> pending w1 < pending w)"
      using frame_body_pending [of w e v] Inr by simp
    show ?thesis
    proof (cases "\<exists>fin. f = Continue fin \<and> \<not> fin \<and> \<not> error w1")
      case True
      then have "frame_loop e v w = frame_loop e v1 w1"
        by (subst frame_loop.simps) (auto simp: Inr t)
      moreover have "on_ok (\<lambda>(r, w'). pending w' \<le> pending w1 \<and> (0 \<le> r \<longrightarrow> pending w' < pending w1)) (frame_loop e v1 w1)"
        using True 1 [OF Inr t [symmetric] refl] by blast
      ultimately show ?thesis
        using le by (auto elim!: on_ok_mono)
    next
      case False
      then have "frame_loop e v w = Inr (case f of Return r \<Rightarrow> (r, w1) | _ \<Rightarrow> finish_message v1 w1)"
        by (subst frame_loop.simps) (auto simp: Inr t split: flow.split)
      then show ?thesis
        using le by (auto simp: finish_message_def split: flow.split)
    qed
  qed (subst frame_loop.simps, simp)
qed

lemma next_frame_pending: "on_ok (\<lambda>(r, w'). 0 \<le> r \<longrightarrow> pending w' < pending w) (next_frame e w)"
  unfolding next_frame_def by (rule on_ok_mono [OF frame_loop_pending]) auto

text \<open>The frame data of a new connection.\<close>

definition zeroFrame :: "connection \<Rightarrow> ws_frame_data" where
  "zeroFrame c = \<lparr>frm = (\<lambda>_. 0), msg = None, msg_ctrl = (\<lambda>_. 0), cur_pos = 0, amt_read = 0, frame_type = 0,
     frame_size = 0, error = False, client = c\<rparr>"

end
