(* ===== verification/Ws_Message.thy ===== *)
theory Ws_Message
  imports Ws_Frame
begin

text \<open>
  What \<open>next_frame\<close> of \<^verbatim>\<open>libs/wsServer/src/ws.c\<close> makes of the bytes on the wire. The frame data is seen as the
  bytes that are still to be read (\<open>stream\<close>: the rest of the buffer and what will arrive) beside the fields
  that reading does not touch (\<open>fixed\<close>), so that the pieces in which bytes arrive do not matter. Frames are
  encoded as RFC 6455 lays them out, with the lengths in their shortest form and the payload masked.
\<close>

section \<open>The stream\<close>

definition stream :: "ws_frame_data \<Rightarrow> u8 list" where
  "stream w = map (frm w) [cur_pos w..<amt_read w] @ concat (takeWhile (\<lambda>p. p \<noteq> []) (incoming (client w)))"

text \<open>The buffer is in order, and every \<open>send\<close> takes something.\<close>

definition readable :: "ws_frame_data \<Rightarrow> bool" where
  "readable w \<longleftrightarrow> cur_pos w \<le> amt_read w \<and> amt_read w \<le> MESSAGE_LENGTH \<and> (cur_pos w = 0 \<longrightarrow> amt_read w = 0)
     \<and> (\<forall>i. sends (client w) i \<noteq> None)"

definition fixed :: "ws_frame_data \<Rightarrow> ws_frame_data" where
  "fixed w = w\<lparr>frm := (\<lambda>_. 0), msg_ctrl := (\<lambda>_. 0), cur_pos := 0, amt_read := 0,
     client := (client w)\<lparr>incoming := [], sends := (\<lambda>_. None)\<rparr>\<rparr>"

definition facing :: "ws_frame_data \<Rightarrow> u8 list \<Rightarrow> ws_frame_data \<Rightarrow> bool" where
  "facing w s r \<longleftrightarrow> readable w \<and> stream w = s \<and> fixed w = r"

lemma facing_fields:
  assumes "facing w s r"
  shows "error w = error r" "frame_type w = frame_type r" "frame_size w = frame_size r" "msg w = msg r"
    "ws_state (client w) = ws_state (client r)" "outgoing (client w) = outgoing (client r)"
    "last_pong_id (client w) = last_pong_id (client r)" "current_ping_id (client w) = current_ping_id (client r)"
  using assms by (auto simp: facing_def fixed_def)

lemma facing_upd:
  assumes "facing w s r"
  shows "facing (w\<lparr>error := x1\<rparr>) s (r\<lparr>error := x1\<rparr>)" "facing (w\<lparr>frame_type := x2\<rparr>) s (r\<lparr>frame_type := x2\<rparr>)"
    "facing (w\<lparr>frame_size := x3\<rparr>) s (r\<lparr>frame_size := x3\<rparr>)" "facing (w\<lparr>msg := x4\<rparr>) s (r\<lparr>msg := x4\<rparr>)"
    "facing (w\<lparr>msg_ctrl := x5\<rparr>) s r"
    "facing (w\<lparr>client := (client w)\<lparr>last_pong_id := x6\<rparr>\<rparr>) s (r\<lparr>client := (client r)\<lparr>last_pong_id := x6\<rparr>\<rparr>)"
    "\<forall>i. x8 i \<noteq> None \<Longrightarrow> facing (w\<lparr>client := (client w)\<lparr>outgoing := x7, sends := x8\<rparr>\<rparr>) s (r\<lparr>client := (client r)\<lparr>outgoing := x7\<rparr>\<rparr>)"
  using assms by (auto simp: facing_def fixed_def readable_def stream_def)

lemma next_byte_facing: "facing w (b # s) r \<Longrightarrow> \<exists>w'. next_byte w = Inr (Some b, w') \<and> facing w' s r"
proof -
  assume a: "facing w (b # s) r"
  show ?thesis
  proof (cases "cur_pos w = amt_read w")
    case False
    then have lt: "cur_pos w < amt_read w" "cur_pos w \<noteq> 0" "cur_pos w < MESSAGE_LENGTH"
      using a by (auto simp: facing_def readable_def)
    then have "stream w = frm w (cur_pos w) # stream (w\<lparr>cur_pos := cur_pos w + 1\<rparr>)"
      by (simp add: stream_def upt_conv_Cons)
    then show ?thesis
      using a lt by (auto simp: next_byte_def facing_def fixed_def readable_def)
  next
    case True
    then obtain p ps where i: "incoming (client w) = p # ps" and p: "p \<noteq> []"
      using a by (cases "incoming (client w)") (auto simp: facing_def stream_def split: if_splits)
    let ?n = "min (length p) MESSAGE_LENGTH"
    let ?f = "\<lambda>i. if i < ?n then p ! i else frm w i"
    let ?ps = "if drop MESSAGE_LENGTH p = [] then ps else drop MESSAGE_LENGTH p # ps"
    let ?w = "w\<lparr>frm := ?f, amt_read := ?n, cur_pos := 1, client := (client w)\<lparr>incoming := ?ps\<rparr>\<rparr>"
    have pos: "0 < ?n" using p by (cases p) auto
    have nb: "next_byte w = Inr (Some (p ! 0), ?w)"
      using True i p pos by (auto simp: next_byte_def recv_def Let_def arr_get_def min_def fun_eq_iff)
    have "map ?f [0..<?n] = take MESSAGE_LENGTH p"
      by (intro nth_equalityI) auto
    then have x: "p ! 0 # map ?f [1..<?n] = take MESSAGE_LENGTH p"
      using pos by (simp add: upt_conv_Cons)
    have y: "stream ?w = map ?f [1..<?n] @ drop MESSAGE_LENGTH p @ concat (takeWhile (\<lambda>p. p \<noteq> []) ps)"
      by (simp add: stream_def)
    have z: "stream w = (take MESSAGE_LENGTH p @ drop MESSAGE_LENGTH p) @ concat (takeWhile (\<lambda>p. p \<noteq> []) ps)"
      using True i p by (simp add: stream_def)
    have "p ! 0 # stream ?w = stream w"
      unfolding y z x [symmetric] append_Cons append_assoc by (rule refl)
    then show ?thesis
      using a pos nb by (auto simp: facing_def fixed_def readable_def Suc_le_eq)
  qed
qed

section \<open>Frames on the wire\<close>

fun beValue :: "u8 list \<Rightarrow> u64 \<Rightarrow> u64" where
  "beValue [] acc = acc"
| "beValue (b # bs) acc = beValue bs (acc OR push_bit (8 * length bs) (ucast b))"

lemma readNumber_facing:
  "facing w (bs @ s) r \<Longrightarrow> \<exists>w'. readNumber (length bs) acc w = Inr (beValue bs acc, w') \<and> facing w' s r"
proof (induction bs arbitrary: acc w)
  case (Cons b bs)
  then obtain w1 where w1: "next_byte w = Inr (Some b, w1)" "facing w1 (bs @ s) r"
    using next_byte_facing [of w b "bs @ s" r] by auto
  with Cons.IH [OF w1(2)] show ?case
    by (simp add: next_byte64_def)
qed simp

lemma readMasks_facing:
  "facing w (ms @ s) r \<Longrightarrow> \<exists>w'. readMasks (length ms) w = Inr (ms, w') \<and> facing w' s r"
proof (induction ms arbitrary: w)
  case (Cons b bs)
  then obtain w1 where w1: "next_byte w = Inr (Some b, w1)" "facing w1 (bs @ s) r"
    using next_byte_facing [of w b "bs @ s" r] by auto
  with Cons.IH [OF w1(2)] show ?case by auto
qed simp

text \<open>The length field behind the first byte, with the mask bit.\<close>

definition be16_of :: "u64 \<Rightarrow> u8 list" where
  "be16_of n = [ucast (drop_bit 8 n), ucast n]"

definition be64_of :: "u64 \<Rightarrow> u8 list" where
  "be64_of n = [ucast (drop_bit 56 n), ucast (drop_bit 48 n), ucast (drop_bit 40 n), ucast (drop_bit 32 n),
     ucast (drop_bit 24 n), ucast (drop_bit 16 n), ucast (drop_bit 8 n), ucast n]"

definition lengthCode :: "u64 \<Rightarrow> u8" where
  "lengthCode n = (if n \<le> 125 then ucast n else if n \<le> 65535 then 126 else 127)"

definition lengthRest :: "u64 \<Rightarrow> u8 list" where
  "lengthRest n = (if n \<le> 125 then [] else if n \<le> 65535 then be16_of n else be64_of n)"

fun masked :: "u8 list \<Rightarrow> nat \<Rightarrow> u8 list \<Rightarrow> u8 list" where
  "masked ms i [] = []"
| "masked ms i (b # bs) = (b XOR ms ! (i mod 4)) # masked ms (Suc i) bs"

definition clientFrame :: "bool \<Rightarrow> u8 \<Rightarrow> u8 list \<Rightarrow> u8 list \<Rightarrow> u8 list" where
  "clientFrame fin opcode ms payload =
    [(if fin then WS_FIN OR opcode else opcode), 0x80 OR lengthCode (of_nat (length payload))]
      @ lengthRest (of_nat (length payload)) @ ms @ masked ms 0 payload"

lemma be16_value: "n \<le> 65535 \<Longrightarrow> beValue (be16_of n) 0 = n"
proof -
  assume "n \<le> 65535"
  then have n: "unat n < 2 ^ 16"
    by (simp add: word_le_nat_alt)
  have lt: "k < 16" if "bit n k" for k
  proof (rule ccontr)
    assume "\<not> k < 16"
    then have "unat n < 2 ^ k"
      using n power_increasing [of 16 k "2 :: nat"] by linarith
    moreover have "bit (unat n) k"
      using that by (simp add: bit_unsigned_iff)
    ultimately show False
      by (simp add: bit_iff_odd)
  qed
  have "m - 8 < 8" if "bit n m" for m
    using lt [OF that] by simp
  then show ?thesis
    by (intro bit_word_eqI) (auto simp: be16_of_def bit_simps)
qed

lemma be64_value: "beValue (be64_of n) 0 = n"
proof (rule bit_word_eqI)
  fix k assume "k < LENGTH(64)"
  then consider "k < 8" | "8 \<le> k" "k < 16" | "16 \<le> k" "k < 24" | "24 \<le> k" "k < 32" | "32 \<le> k" "k < 40"
    | "40 \<le> k" "k < 48" | "48 \<le> k" "k < 56" | "56 \<le> k" "k < 64" by fastforce
  then show "bit (beValue (be64_of n) 0) k = bit n k"
    by cases (auto simp: be64_of_def bit_simps)
qed

section \<open>Reading a frame\<close>

fun stored :: "nat \<Rightarrow> u8 list \<Rightarrow> (nat \<Rightarrow> u8) \<Rightarrow> (nat \<Rightarrow> u8)" where
  "stored i [] f = f"
| "stored i (b # bs) f = stored (Suc i) bs (f(i := b))"

lemma stored_other: "j < i \<or> i + length p \<le> j \<Longrightarrow> stored i p f j = f j"
  by (induction p arbitrary: i f) auto

lemma stored_at: "k < length p \<Longrightarrow> stored i p f (i + k) = p ! k"
proof (induction p arbitrary: i f k)
  case (Cons b bs)
  show ?case
  proof (cases k)
    case (Suc m)
    then show ?thesis using Cons.IH [of m "Suc i" "f(i := b)"] Cons.prems by (simp del: fun_upd_apply)
  qed (simp add: stored_other)
qed simp

lemma stored_map: "map (stored i p f) [i..<i + length p] = p"
  by (rule nth_equalityI) (simp_all add: stored_at)

lemma stored_prefix: "map (stored n p f) [0..<n + length p] = map f [0..<n] @ p"
proof -
  have "map (stored n p f) [0..<n + length p] = map (stored n p f) [0..<n] @ map (stored n p f) [n..<n + length p]"
    using upt_add_eq_append [of 0 n "length p"] by simp
  also have "map (stored n p f) [0..<n] = map f [0..<n]"
    by (simp add: stored_other)
  finally show ?thesis by (simp only: stored_map)
qed

lemma xor_twice: "(b XOR m) XOR m = b" for b :: u8
  by (simp add: xor.assoc)

lemma copyLoop_facing:
  "facing w (masked ms i p @ s) r \<Longrightarrow> length ms = 4 \<Longrightarrow> i + length p < 2 ^ 64 \<Longrightarrow>
   unat idx + length p \<le> bsize b \<Longrightarrow> bsize b < 2 ^ 64 \<Longrightarrow>
   \<exists>w'. copyLoop (length p) (of_nat i) ms (Some b) idx w
      = Inr (True, Some (b\<lparr>bdata := stored (unat idx) p (bdata b)\<rparr>), idx + of_nat (length p), w') \<and> facing w' s r"
proof (induction p arbitrary: i w idx b)
  case (Cons x p)
  let ?b = "b\<lparr>bdata := (bdata b)(unat idx := x)\<rparr>"
  obtain w1 where w1: "next_byte w = Inr (Some (x XOR ms ! (i mod 4)), w1)" "facing w1 (masked ms (Suc i) p @ s) r"
    using next_byte_facing [of w "x XOR ms ! (i mod 4)" "masked ms (Suc i) p @ s" r] Cons.prems(1) by auto
  have i: "unat ((of_nat i :: u64) mod 4) = i mod 4"
    using Cons.prems(3) by (simp add: unat_mod unat_of_nat)
  have idx: "unat (idx + 1) = Suc (unat idx)"
    using Cons.prems(4,5) by (simp add: unat_word_ariths)
  from Cons.IH [OF w1(2), of "idx + 1" ?b] Cons.prems obtain w2 where
    "copyLoop (length p) (of_nat (Suc i)) ms (Some ?b) (idx + 1) w1
      = Inr (True, Some (?b\<lparr>bdata := stored (Suc (unat idx)) p (bdata ?b)\<rparr>), idx + 1 + of_nat (length p), w2)"
    "facing w2 s r" by (auto simp: idx simp del: fun_upd_apply)
  with w1(1) Cons.prems(4) i show ?case
    by (simp add: xor_twice ac_simps del: fun_upd_apply)
qed simp

lemma code_simps:
  "n \<le> 125 \<Longrightarrow> ucast ((0x80 OR lengthCode n) AND 0x7F) = n"
  "125 < n \<Longrightarrow> n \<le> 65535 \<Longrightarrow> ucast ((0x80 OR lengthCode n) AND 0x7F) = (126 :: u64)"
  "65535 < n \<Longrightarrow> ucast ((0x80 OR lengthCode n) AND 0x7F) = (127 :: u64)"
proof -
  assume n: "n \<le> 125"
  then have "n = of_nat (unat n)" "unat n \<in> set [0..<126]"
    by (auto simp: word_le_nat_alt)
  moreover have "list_all (\<lambda>k. (ucast ((0x80 OR ucast (of_nat k :: u64)) AND 0x7F :: u8) :: u64) = of_nat k) [0..<126]"
    by code_simp
  ultimately have "ucast ((0x80 OR ucast n) AND 0x7F :: u8) = n"
    by (metis (mono_tags, lifting) list_all_iff)
  with n show "ucast ((0x80 OR lengthCode n) AND 0x7F) = n"
    by (simp add: lengthCode_def)
next
  show "125 < n \<Longrightarrow> n \<le> 65535 \<Longrightarrow> ucast ((0x80 OR lengthCode n) AND 0x7F) = (126 :: u64)"
    by (auto simp: lengthCode_def dest: leD)
  show "65535 < n \<Longrightarrow> ucast ((0x80 OR lengthCode n) AND 0x7F) = (127 :: u64)"
    using order.strict_trans [of 125 65535 n] by (auto simp: lengthCode_def dest: leD)
qed

lemma readLength_facing:
  assumes "facing w (lengthRest n @ s) r"
  shows "\<exists>w'. readLength (ucast ((0x80 OR lengthCode n) AND 0x7F)) w = Inr (n, w') \<and> facing w' s r"
proof -
  consider "n \<le> 125" | "125 < n" "n \<le> 65535" | "65535 < n"
    by (meson linorder_not_le)
  then show ?thesis
  proof cases
    case 1
    then have "n \<noteq> 126" "n \<noteq> 127" by auto
    with 1 assms show ?thesis by (simp add: code_simps(1) readLength_def lengthRest_def)
  next
    case 2
    then have "lengthRest n = be16_of n" by (auto simp: lengthRest_def dest: leD)
    then show ?thesis
      using 2 readNumber_facing [of w "be16_of n" s r 0] assms
      by (simp add: code_simps(2) readLength_def be16_value) (simp add: be16_of_def numeral_2_eq_2)
  next
    case 3
    then have "lengthRest n = be64_of n"
      using order.strict_trans [of 125 65535 n] by (auto simp: lengthRest_def dest: leD)
    moreover have "length (be64_of n) = 8" by (simp add: be64_of_def)
    ultimately show ?thesis
      using 3 readNumber_facing [of w "be64_of n" s r 0] assms by (simp add: code_simps(3) readLength_def be64_value)
  qed
qed

text \<open>What a buffer holds between the frames of a message, and with its terminator behind the last one.\<close>

definition content :: "u8 list \<Rightarrow> bool \<Rightarrow> buffer option \<Rightarrow> bool" where
  "content acc fin buf \<longleftrightarrow>
    (case buf of None \<Rightarrow> acc = []
     | Some b \<Rightarrow> acc \<noteq> [] \<and> bsize b = length acc + of_bool fin \<and> map (bdata b) [0..<length acc] = acc
         \<and> (fin \<longrightarrow> bdata b (length acc) = 0))"

definition granted :: "ws_env \<Rightarrow> bool" where
  "granted e \<longleftrightarrow> mallocOk e \<and> (\<forall>n. reallocOk e n)"

abbreviation maxFrame :: nat where "maxFrame \<equiv> 16777216"

lemma small64: "n < 2 ^ 64 \<Longrightarrow> unat (of_nat n :: u64) = n"
  by (simp add: unat_of_nat)

lemma zero64: "n < 2 ^ 64 \<Longrightarrow> of_nat n = (0 :: u64) \<longleftrightarrow> n = 0"
proof -
  assume "n < 2 ^ 64"
  then have "unat (of_nat n :: u64) = n" by (rule small64)
  then show ?thesis by auto
qed

lemma realloc_granted:
  assumes "granted e" "0 < n" "n < 2 ^ 64" "content acc False buf" "length acc \<le> n"
  shows "\<exists>b. realloc e (of_nat n) buf = Inr (Some b) \<and> bsize b = n \<and> map (bdata b) [0..<length acc] = acc"
proof -
  have n: "(of_nat n :: u64) \<noteq> 0" "unat (of_nat n :: u64) = n"
    using assms(2,3) zero64 [of n] small64 [of n] by auto
  have ok: "reallocOk e n"
    using assms(1) by (simp add: granted_def)
  show ?thesis
  proof (cases buf)
    case (Some b)
    then have b: "bsize b = length acc" "map (bdata b) [0..<length acc] = acc"
      using assms(4) by (auto simp: content_def)
    have "map (\<lambda>i. if i < bsize b then bdata b i else freshBytes e i) [0..<length acc] = map (bdata b) [0..<length acc]"
      by (rule map_cong) (simp_all add: b(1))
    then show ?thesis
      unfolding b(2) using n ok by (simp add: realloc_def Some)
  next
    case None
    then have "acc = []"
      using assms(4) by (simp add: content_def)
    with None n ok show ?thesis by (simp add: realloc_def)
  qed
qed

lemma readPayload_data:
  assumes "facing w (masked ms 0 p @ s) r" "length ms = 4" "\<not> is_control_frame opcode"
    "content acc False buf" "length acc + length p \<le> maxFrame" "granted e" "p \<noteq> []"
  shows "\<exists>b w'. readPayload e opcode ms fin (of_nat (length p)) buf (of_nat (length acc)) w
      = Inr (True, Some b, of_nat (length acc + length p), w')
    \<and> facing w' s r \<and> bsize b = length acc + length p + of_bool fin
    \<and> map (bdata b) [0..<length acc + length p] = acc @ p"
proof -
  let ?n = "length acc + length p + of_bool fin"
  have small: "?n < 2 ^ 64" "0 < ?n" "0 < length p" "length acc \<le> ?n"
    using assms(5,7) by (auto simp: of_bool_def)
  obtain b where b: "realloc e (of_nat ?n) buf = Inr (Some b)" "bsize b = ?n" "map (bdata b) [0..<length acc] = acc"
    using realloc_granted [OF assms(6) small(2,1) assms(4) small(4)] by blast
  have acc: "unat (of_nat (length acc) :: u64) = length acc" "unat (of_nat (length p) :: u64) = length p"
    using assms(5) by (auto intro!: small64)
  obtain w' where c: "copyLoop (length p) 0 ms (Some b) (of_nat (length acc)) w
      = Inr (True, Some (b\<lparr>bdata := stored (length acc) p (bdata b)\<rparr>), of_nat (length acc + length p), w')"
    "facing w' s r"
    using copyLoop_facing [OF assms(1,2), of "of_nat (length acc)" b] b(2) acc assms(5) small by auto
  have "(of_nat (length p) :: u64) > 0"
    using small(3) acc(2) by (simp add: word_greater_zero_iff) (metis length_0_conv unat_0 assms(7))
  moreover have "of_nat (length acc) + of_nat (length p) + of_bool fin = (of_nat ?n :: u64)"
    by simp
  moreover have "map (stored (length acc) p (bdata b)) [0..<length acc + length p] = acc @ p"
    by (simp only: stored_prefix b(3))
  ultimately show ?thesis
    using b c acc assms(3) by (simp add: readPayload_def resize_def)
qed

text \<open>A data frame.\<close>

lemma read_frame_data:
  assumes "facing w (lengthRest (of_nat (length p)) @ ms @ masked ms 0 p @ s) r" "\<not> error r" "length ms = 4"
    "\<not> is_control_frame opcode" "content acc False buf" "length acc + length p \<le> maxFrame" "granted e"
  shows "\<exists>buf' w'. read_frame e opcode fin buf (ucast ((0x80 OR lengthCode (of_nat (length p))) AND 0x7F))
        (of_nat (length acc)) (of_nat (length acc)) w
      = Inr (True, buf', of_nat (length p), of_nat (length acc + length p), of_nat (length acc + length p), w')
    \<and> facing w' s r \<and> content (acc @ p) fin buf'"
proof -
  let ?n = "length acc + length p"
  obtain w1 where w1: "readLength (ucast ((0x80 OR lengthCode (of_nat (length p))) AND 0x7F)) w = Inr (of_nat (length p), w1)"
    "facing w1 (ms @ masked ms 0 p @ s) r"
    using readLength_facing [OF assms(1)] by blast
  obtain w2 where w2: "readMasks 4 w1 = Inr (ms, w2)" "facing w2 (masked ms 0 p @ s) r"
    using readMasks_facing [OF w1(2)] assms(3) by auto
  have small: "unat (of_nat ?n :: u64) = ?n" "unat (of_nat (length acc) :: u64) = length acc"
    using assms(6) by (auto intro!: small64 simp del: of_nat_add)
  have size: "\<not> (of_nat ?n :: u64) > MAX_FRAME_LENGTH"
    using small(1) assms(6) by (simp add: word_less_nat_alt del: of_nat_add)
  have err: "\<not> error w2"
    using facing_fields(1) [OF w2(2)] assms(2) by simp
  have total: "(of_nat (length acc) :: u64) + of_nat (length p) = of_nat ?n" by simp
  have pos: "(of_nat ?n :: u64) > 0 \<longleftrightarrow> acc @ p \<noteq> []" "(of_nat ?n :: u64) = 0 \<longleftrightarrow> acc @ p = []"
    using zero64 [of ?n] assms(6) by (auto simp: word_greater_zero_iff)
  have len: "(of_nat (length p) :: u64) = 0 \<longleftrightarrow> p = []"
    using zero64 [of "length p"] assms(6) by auto
  show ?thesis
  proof (cases "p = []")
    case False
    obtain b w3 where p: "readPayload e opcode ms fin (of_nat (length p)) buf (of_nat (length acc)) w2
        = Inr (True, Some b, of_nat ?n, w3)" "facing w3 s r" "bsize b = ?n + of_bool fin"
      "map (bdata b) [0..<?n] = acc @ p"
      using readPayload_data [OF w2(2) assms(3-7) False] by blast
    let ?b = "if fin then b\<lparr>bdata := (bdata b)(?n := 0)\<rparr> else b"
    have t: "terminate e opcode fin (of_nat (length p)) (of_nat ?n) (Some b) (of_nat ?n) w3 = Inr (True, Some ?b, w3)"
      using False len pos p(3) small(1) by (simp add: terminate_def del: of_nat_add)
    have "map (bdata ?b) [0..<?n] = acc @ p"
      unfolding p(4) [symmetric] by (rule map_cong) auto
    then have "content (acc @ p) fin (Some ?b)"
      using False p(3) by (simp add: content_def)
    then show ?thesis
      using w1(1) w2(1) size err p(1,2) t by (simp add: read_frame_def Let_def total del: of_nat_add)
  next
    case True
    have pl: "readPayload e opcode ms fin (of_nat (length p)) buf (of_nat (length acc)) w2 = Inr (True, buf, of_nat ?n, w2)"
      by (simp add: readPayload_def True)
    show ?thesis
    proof (cases "fin \<and> acc \<noteq> []")
      case fin: True
      have n: "length acc + 1 < 2 ^ 64" "0 < length acc + 1" "length acc \<le> length acc + 1"
        using assms(6) by auto
      obtain b where b: "realloc e (of_nat (length acc + 1)) buf = Inr (Some b)" "bsize b = length acc + 1"
        "map (bdata b) [0..<length acc] = acc"
        using realloc_granted [OF assms(7) n(2,1) assms(5) n(3)] by blast
      let ?b = "b\<lparr>bdata := (bdata b)(length acc := 0)\<rparr>"
      have t: "terminate e opcode fin 0 (of_nat (length acc)) buf (of_nat (length acc)) w2 = Inr (True, Some ?b, w2)"
        using fin pos True assms(4) b(1,2) small(2) by (simp add: terminate_def resize_def add.commute)
      have "map (bdata ?b) [0..<length acc] = acc"
        by (subst (2) b(3) [symmetric]) (rule map_cong; simp)
      then have "content (acc @ p) fin (Some ?b)"
        using fin True b(2) by (simp add: content_def)
      then show ?thesis
        using w1(1) w2 size err pl t True by (auto simp: read_frame_def Let_def)
    next
      case False
      then have "terminate e opcode fin 0 (of_nat (length acc)) buf (of_nat (length acc)) w2 = Inr (True, buf, w2)"
        using pos True by (auto simp: terminate_def)
      moreover have "content acc fin buf"
        using False assms(5) by (cases buf) (auto simp: content_def)
      ultimately show ?thesis
        using w1(1) w2 size err pl True by (auto simp: read_frame_def Let_def)
    qed
  qed
qed

section \<open>Control frames\<close>

lemma readPayload_control:
  assumes "facing w (masked ms 0 p @ s) r" "length ms = 4" "is_control_frame opcode" "length p \<le> 125" "bsize b = ctrlSize"
  shows "\<exists>w'. readPayload e opcode ms True (of_nat (length p)) (Some b) 0 w
      = Inr (True, Some (b\<lparr>bdata := stored 0 p (bdata b)\<rparr>), of_nat (length p), w') \<and> facing w' s r"
proof (cases "p = []")
  case False
  have p: "unat (of_nat (length p) :: u64) = length p"
    using assms(4) by (auto intro!: small64)
  then have "(of_nat (length p) :: u64) > 0"
    using False by (auto simp: word_greater_zero_iff)
  moreover have "\<exists>w'. copyLoop (length p) 0 ms (Some b) 0 w
      = Inr (True, Some (b\<lparr>bdata := stored 0 p (bdata b)\<rparr>), of_nat (length p), w') \<and> facing w' s r"
    using copyLoop_facing [OF assms(1,2), of 0 b] assms(4,5) by auto
  ultimately show ?thesis
    using assms(3) p by (simp add: readPayload_def)
qed (use assms(1) in \<open>simp add: readPayload_def\<close>)

lemma read_control_facing:
  assumes "facing w (lengthRest (of_nat (length p)) @ ms @ masked ms 0 p @ s) r" "\<not> error r" "length ms = 4"
    "is_control_frame opcode"
  shows "length p \<le> 124 \<Longrightarrow> \<exists>w'. read_control e opcode True (of_nat (length p)) w
      = Inr (True, of_nat (length p), w') \<and> facing w' s r \<and> map (msg_ctrl w') [0..<length p] = p"
    and "length p = 125 \<Longrightarrow> read_control e opcode True (of_nat (length p)) w = Inl OutOfBounds"
proof -
  let ?c = "\<lparr>bsize = ctrlSize, bdata = msg_ctrl w\<rparr>"
  let ?d = "stored 0 p (msg_ctrl w)"
  {
    assume p: "length p \<le> 125"
    then have n: "unat (of_nat (length p) :: u64) = length p"
      by (auto intro!: small64)
    have le: "(of_nat (length p) :: u64) \<le> 125" "(of_nat (length p) :: u64) \<noteq> 126" "(of_nat (length p) :: u64) \<noteq> 127"
      using p n by (auto simp: word_le_nat_alt)
    have rest: "readLength (of_nat (length p)) w = Inr (of_nat (length p), w)" "lengthRest (of_nat (length p)) = []"
      using le by (simp_all add: readLength_def lengthRest_def)
    obtain w1 where w1: "readMasks 4 w = Inr (ms, w1)" "facing w1 (masked ms 0 p @ s) r"
      using readMasks_facing [of w ms "masked ms 0 p @ s" r] assms(1,3) rest(2) by auto
    have "\<not> error w1" "\<not> (of_nat (length p) :: u64) > MAX_FRAME_LENGTH"
      using facing_fields(1) [OF w1(2)] assms(2) n p by (simp_all add: word_less_nat_alt)
    moreover obtain w2 where w2: "facing w2 s r" "readPayload e opcode ms True (of_nat (length p)) (Some ?c) 0 w1
        = Inr (True, Some (?c\<lparr>bdata := ?d\<rparr>), of_nat (length p), w2)"
      using readPayload_control [OF w1(2) assms(3,4) p, of ?c] by auto
    moreover have "(of_nat (length p) :: u64) > 0 \<longleftrightarrow> p \<noteq> []"
      using zero64 [of "length p"] p by (auto simp: word_greater_zero_iff)
    ultimately have "facing w2 s r \<and> read_control e opcode True (of_nat (length p)) w =
        (if p = [] then Inr (True, 0, w2\<lparr>msg_ctrl := ?d\<rparr>)
         else if length p = 125 then Inl OutOfBounds
         else Inr (True, of_nat (length p), w2\<lparr>msg_ctrl := ?d(length p := 0)\<rparr>))"
      using rest(1) w1(1) assms(4) n p by (simp add: read_control_def read_frame_def terminate_def Let_def)
    then have "\<exists>w2. facing w2 s r \<and> read_control e opcode True (of_nat (length p)) w =
        (if p = [] then Inr (True, 0, w2\<lparr>msg_ctrl := ?d\<rparr>)
         else if length p = 125 then Inl OutOfBounds
         else Inr (True, of_nat (length p), w2\<lparr>msg_ctrl := ?d(length p := 0)\<rparr>))" ..
  }
  note read = this
  have map: "map (?d(length p := 0)) [0..<length p] = p" 
  proof -
    have "map (?d(length p := 0)) [0..<length p] = map ?d [0..<length p]" by (rule map_cong) auto
    then show ?thesis using stored_map [of 0 p "msg_ctrl w"] by simp
  qed
  {
    assume p: "length p \<le> 124"
    then obtain w2 where w2: "facing w2 s r" "read_control e opcode True (of_nat (length p)) w =
        (if p = [] then Inr (True, 0, w2\<lparr>msg_ctrl := ?d\<rparr>)
         else if length p = 125 then Inl OutOfBounds
         else Inr (True, of_nat (length p), w2\<lparr>msg_ctrl := ?d(length p := 0)\<rparr>))"
      using read by auto
    show "\<exists>w'. read_control e opcode True (of_nat (length p)) w
        = Inr (True, of_nat (length p), w') \<and> facing w' s r \<and> map (msg_ctrl w') [0..<length p] = p"
      using w2 p map facing_upd(5) [OF w2(1)] by (cases "p = []") (auto simp del: fun_upd_apply)
  }
  show "length p = 125 \<Longrightarrow> read_control e opcode True (of_nat (length p)) w = Inl OutOfBounds"
    using read by auto
qed

lemma send_all_ok:
  "\<forall>i. sends c i \<noteq> None \<Longrightarrow> \<exists>f. send_all p c = (0, c\<lparr>outgoing := outgoing c @ p, sends := f\<rparr>) \<and> (\<forall>i. f i \<noteq> None)"
proof (induction p c rule: send_all.induct)
  case (1 p c)
  show ?case
  proof (cases "p = []")
    case False
    obtain k where k: "sends c 0 = Some k" using 1(2) by blast
    show ?thesis
      using 1(1) [OF False k] 1(2) False k by (subst send_all.simps) auto
  qed (use 1(2) in \<open>subst send_all.simps, auto intro!: exI [of _ "sends c"]\<close>)
qed

lemma ws_sendframe_facing:
  assumes "facing w s r"
  shows "\<exists>c. ws_sendframe True m type (client w) = (0, c)
    \<and> facing (w\<lparr>client := c\<rparr>) s
        (r\<lparr>client := (client r)\<lparr>outgoing := outgoing (client r) @ frameHeader (of_nat (length m)) type @ m\<rparr>\<rparr>)"
proof -
  have "\<forall>i. sends (client w) i \<noteq> None"
    using assms by (simp add: facing_def readable_def)
  from send_all_ok [OF this, of "frameHeader (of_nat (length m)) type @ m"] obtain f where f: "\<forall>i. f i \<noteq> None"
    "ws_sendframe True m type (client w)
      = (0, (client w)\<lparr>outgoing := outgoing (client w) @ frameHeader (of_nat (length m)) type @ m, sends := f\<rparr>)"
    unfolding ws_sendframe_def Let_def by auto
  show ?thesis
    using facing_upd(7) [OF assms f(1), of "outgoing (client w) @ frameHeader (of_nat (length m)) type @ m"]
    unfolding f(2) facing_fields(6) [OF assms] by blast
qed

text \<open>A message on the wire: parts with their masks, and control frames before a part.\<close>

datatype item = Part "u8 list" "u8 list" | Ping "u8 list" "u8 list" | Pong "u8 list" "u8 list"

fun wire :: "u8 \<Rightarrow> item list \<Rightarrow> u8 list" where
  "wire opcode [] = []"
| "wire opcode (Part ms p # its) = clientFrame (its = []) opcode ms p @ wire WS_FR_OP_CONT its"
| "wire opcode (Ping ms p # its) = clientFrame True WS_FR_OP_PING ms p @ wire opcode its"
| "wire opcode (Pong ms p # its) = clientFrame True WS_FR_OP_PONG ms p @ wire opcode its"

fun payload :: "item list \<Rightarrow> u8 list" where
  "payload [] = []"
| "payload (Part ms p # its) = p @ payload its"
| "payload (_ # its) = payload its"

text \<open>A message ends with a part; its frames have masks, and control frames up to 124 bytes.\<close>

fun messageOk :: "item list \<Rightarrow> bool" where
  "messageOk [] = False"
| "messageOk (Part ms p # its) = (length ms = 4 \<and> (its = [] \<or> messageOk its))"
| "messageOk (Ping ms p # its) = (length ms = 4 \<and> length p \<le> 124 \<and> messageOk its)"
| "messageOk (Pong ms p # its) = (length ms = 4 \<and> length p \<le> 124 \<and> messageOk its)"

text \<open>What control frames do to the connection: a ping is answered, an identifier in a pong is noted.\<close>

definition pongId :: "u8 list \<Rightarrow> u32" where
  "pongId p = (case p of [a, b, c, d] \<Rightarrow> push_bit 24 (ucast a) OR push_bit 16 (ucast b) OR push_bit 8 (ucast c) OR ucast d | _ \<Rightarrow> -1)"

fun controlEffect :: "item \<Rightarrow> connection \<Rightarrow> connection" where
  "controlEffect (Part ms p) c = c"
| "controlEffect (Ping ms p) c =
     c\<lparr>outgoing := outgoing c @ frameHeader (of_nat (length p)) WS_FR_OP_PONG @ p\<rparr>"
| "controlEffect (Pong ms p) c =
     (if 0 \<le> sint (pongId p) \<and> sint (pongId p) \<le> sint (current_ping_id c) then c\<lparr>last_pong_id := pongId p\<rparr> else c)"

lemma controlEffect_state [simp]: "ws_state (controlEffect i c) = ws_state c"
  by (cases i) simp_all

lemma pongId_short: "length p \<noteq> 4 \<Longrightarrow> sint (pongId p) < 0"
  by (auto simp: pongId_def split: list.splits)

lemma pongId_read: "map f [0..<length p] = p \<Longrightarrow> length p = 4 \<Longrightarrow> pong_msg_to_int32 f = pongId p"
proof -
  assume a: "map f [0..<length p] = p" "length p = 4"
  have "[0..<4] = [0, 1, 2, 3 :: nat]" by (simp add: upt_rec)
  then have "p = [f 0, f 1, f 2, f 3]" using a by simp
  then show ?thesis by (simp add: pongId_def pong_msg_to_int32_def ac_simps)
qed

lemma ping_frame_facing:
  assumes "facing w (lengthRest (of_nat (length p)) @ ms @ masked ms 0 p @ s) r" "\<not> error r" "length ms = 4"
    "length p \<le> 124" "granted e"
  shows "\<exists>w'. ping_frame e True (of_nat (length p)) w = Inr (Continue False, w')
    \<and> facing w' s (r\<lparr>client := controlEffect (Ping ms p) (client r)\<rparr>)"
proof -
  obtain w1 where w1: "read_control e WS_FR_OP_PING True (of_nat (length p)) w = Inr (True, of_nat (length p), w1)"
    "facing w1 s r" "map (msg_ctrl w1) [0..<length p] = p"
    using read_control_facing(1) [OF assms(1-3) _ assms(4)] by (auto simp: is_control_frame_def)
  have n: "unat (of_nat (length p) :: u64) = length p"
    using assms(4) by (auto intro!: small64)
  then show ?thesis
    using w1 ws_sendframe_facing [OF w1(2), of p WS_FR_OP_PONG] assms(4,5)
    by (auto simp: ping_frame_def do_pong_def send_ctrl_def ctrl_bytes_def granted_def)
qed

lemma pong_frame_facing:
  assumes "facing w (lengthRest (of_nat (length p)) @ ms @ masked ms 0 p @ s) r" "\<not> error r" "length ms = 4"
    "length p \<le> 124"
  shows "\<exists>w'. pong_frame e True (of_nat (length p)) w = Inr (Continue False, w')
    \<and> facing w' s (r\<lparr>client := controlEffect (Pong ms p) (client r)\<rparr>)"
proof -
  obtain w1 where w1: "read_control e WS_FR_OP_PONG True (of_nat (length p)) w = Inr (True, of_nat (length p), w1)"
    "facing w1 s r" "map (msg_ctrl w1) [0..<length p] = p"
    using read_control_facing(1) [OF assms(1-3) _ assms(4)] by (auto simp: is_control_frame_def)
  have n: "(of_nat (length p) :: u64) = 4 \<longleftrightarrow> length p = 4"
    using small64 [of "length p"] assms(4) by (auto dest: arg_cong [of _ _ unat])
  show ?thesis
  proof (cases "length p = 4")
    case True
    from facing_upd(6) [OF w1(2), of "pongId p"] facing_fields(8) [OF w1(2)] w1(2) show ?thesis
      using w1(1) n True pongId_read [OF w1(3) True] by (auto simp: pong_frame_def Let_def linorder_not_le)
  next
    case False
    with n w1(1,2) pongId_short [OF False] show ?thesis by (auto simp: pong_frame_def)
  qed
qed

section \<open>Messages\<close>

lemma first_byte:
  "opcode \<in> {0, 1, 2, 8, 9, 10} \<Longrightarrow> b = (if fin then WS_FIN OR opcode else opcode) \<Longrightarrow>
   b AND 0x70 = 0 \<and> b AND 0xF = opcode \<and> (drop_bit WS_FIN_SHIFT b \<noteq> 0) = fin \<and> knownOpcode opcode"
  by (cases fin) (auto simp: knownOpcode_def)

text \<open>The variables between two frames of a message of a type, with the bytes that have been read.\<close>

definition collected :: "int \<Rightarrow> u8 list \<Rightarrow> bool \<Rightarrow> frame_vars \<Rightarrow> bool" where
  "collected T acc fin v \<longleftrightarrow> content acc fin (msg_data v) \<and> msg_idx_data v = of_nat (length acc)
     \<and> (T = 1 \<and> \<not> fin \<longrightarrow> utf8_state v = of_nat (runOf 0 (map unat acc)))"

definition validSoFar :: "int \<Rightarrow> u8 list \<Rightarrow> bool \<Rightarrow> bool" where
  "validSoFar T acc fin \<longleftrightarrow> (T = 1 \<longrightarrow> runOf 0 (map unat acc) \<noteq> 1 \<and> (fin \<longrightarrow> runOf 0 (map unat acc) = 0))"

lemma data_bytes_collected:
  assumes "content (acc @ p) fin (msg_data v)" "msg_idx_data v = of_nat (length acc + length p)"
    "length acc + length p \<le> maxFrame"
  shows "data_bytes (of_nat (length p)) v = Inr p"
proof -
  have n: "unat (of_nat (length p) :: u64) = length p" "unat (of_nat (length acc) :: u64) = length acc"
    using assms(3) by (auto intro!: small64)
  have i: "msg_idx_data v - of_nat (length p) = of_nat (length acc)"
    by (simp add: assms(2))
  show ?thesis
  proof (cases "p = []")
    case False
    then obtain b where b: "msg_data v = Some b" "bsize b = length acc + length p + of_bool fin"
      "map (bdata b) [0..<length acc + length p] = acc @ p"
      using assms(1) by (cases "msg_data v") (auto simp: content_def)
    have "map (bdata b) [length acc..<length acc + length p] = drop (length acc) (map (bdata b) [0..<length acc + length p])"
      by (simp add: drop_map)
    then have "map (bdata b) [length acc..<length acc + length p] = p"
      by (simp only: b(3)) simp
    then show ?thesis
      using False b(1,2) n by (simp add: data_bytes_def i)
  qed (simp add: data_bytes_def)
qed

lemma validate_data_collected:
  assumes "content (acc @ p) fin (msg_data v)" "msg_idx_data v = of_nat (length acc + length p)"
    "length acc + length p \<le> maxFrame" "utf8_state v = of_nat (runOf 0 (map unat acc))" "validSoFar 1 (acc @ p) fin"
  shows "\<exists>v'. validate_data e fin (of_nat (length p)) v w = Inr (v', w) \<and> collected 1 (acc @ p) fin v'"
proof -
  let ?a = "runOf 0 (map unat acc)" and ?n = "runOf 0 (map unat (acc @ p))"
  have le: "?a \<le> 8" "?n \<le> 8" using runOf_bound [of 0] by auto
  have "is_utf8_len_state (codepoint e) p (utf8_state v) = Inr (of_nat ?n)"
    using le(1) by (simp add: assms(4) is_utf8_len_state_run u32_small(1) runOf_append)
  moreover have "(of_nat ?n :: u32) = 0 \<longleftrightarrow> ?n = 0" "(of_nat ?n :: u32) = 1 \<longleftrightarrow> ?n = 1"
    using u32_small(2) [OF le(2), of 0] u32_small(2) [OF le(2), of 1] by simp_all
  ultimately show ?thesis
    using assms(1,2,5) data_bytes_collected [OF assms(1-3)]
    by (auto simp: validate_data_def collected_def validSoFar_def Let_def simp del: map_append)
qed

lemma data_frame_collected:
  assumes "facing w (lengthRest (of_nat (length p)) @ ms @ masked ms 0 p @ s) r" "\<not> error r" "length ms = 4"
    "\<not> is_control_frame opcode" "granted e" "collected (frame_type r) acc False v"
    "frame_size r = of_nat (length acc)" "length acc + length p \<le> maxFrame" "validSoFar (frame_type r) (acc @ p) fin"
  shows "\<exists>v' w'. data_frame e opcode fin (ucast ((0x80 OR lengthCode (of_nat (length p))) AND 0x7F)) v w
      = Inr (Continue fin, v', w')
    \<and> facing w' s (r\<lparr>frame_size := of_nat (length acc + length p)\<rparr>) \<and> collected (frame_type r) (acc @ p) fin v'"
proof -
  let ?n = "of_nat (length acc + length p) :: u64"
  have v: "content acc False (msg_data v)" "msg_idx_data v = of_nat (length acc)"
    using assms(6) by (auto simp: collected_def)
  obtain buf w1 where w1: "read_frame e opcode fin (msg_data v) (ucast ((0x80 OR lengthCode (of_nat (length p))) AND 0x7F))
        (of_nat (length acc)) (of_nat (length acc)) w = Inr (True, buf, of_nat (length p), ?n, ?n, w1)"
    "facing w1 s r" "content (acc @ p) fin buf"
    using read_frame_data [OF assms(1-4) v(1) assms(8,5)] by blast
  let ?v = "v\<lparr>msg_data := buf, msg_idx_data := ?n\<rparr>" and ?w = "w1\<lparr>frame_size := ?n\<rparr>"
  have w: "facing ?w s (r\<lparr>frame_size := ?n\<rparr>)" "frame_type ?w = frame_type r" "frame_size w = of_nat (length acc)"
    using facing_upd(3) [OF w1(2)] facing_fields(2) [OF w1(2)] facing_fields(3) [OF assms(1)] assms(7) by auto
  show ?thesis
  proof (cases "frame_type r = 1")
    case True
    have "\<exists>v'. validate_data e fin (of_nat (length p)) ?v ?w = Inr (v', ?w) \<and> collected 1 (acc @ p) fin v'"
      by (rule validate_data_collected)
        (use w1(3) assms(6,8,9) True in \<open>simp_all add: collected_def\<close>)
    then show ?thesis
      using w1(1) w True by (auto simp: data_frame_def v(2) Let_def simp del: of_nat_add)
  next
    case False
    then have "collected (frame_type r) (acc @ p) fin ?v"
      using w1(3) by (simp add: collected_def)
    then show ?thesis
      using w1(1) w False by (auto simp: data_frame_def v(2) Let_def simp del: of_nat_add)
  qed
qed

text \<open>The first two bytes of a frame lead to the handler of its kind.\<close>

lemma frame_body_starts:
  assumes "facing w (clientFrame fin opcode ms p @ s) r" "opcode \<in> {0, 1, 2, 8, 9, 10}"
    "is_control_frame opcode \<or> (frame_type r = -1 \<longleftrightarrow> opcode \<noteq> 0)" "ws_state (client r) \<noteq> WS_STATE_CLOSING"
  shows "\<exists>w'. frame_body e v w = dispatch_frame e opcode fin v w'
    \<and> facing w' ((0x80 OR lengthCode (of_nat (length p))) # lengthRest (of_nat (length p)) @ ms @ masked ms 0 p @ s)
        (if is_control_frame opcode \<or> opcode = 0 then r else r\<lparr>frame_type := uint opcode\<rparr>)"
proof -
  let ?b = "if fin then WS_FIN OR opcode else opcode"
  let ?s = "(0x80 OR lengthCode (of_nat (length p))) # lengthRest (of_nat (length p)) @ ms @ masked ms 0 p @ s"
  have "facing w (?b # ?s) r"
    using assms(1) by (simp only: clientFrame_def append_Cons append_Nil append_assoc)
  then obtain w1 where w1: "next_byte w = Inr (Some ?b, w1)" "facing w1 ?s r"
    using next_byte_facing by blast
  have b: "?b AND 0x70 = 0" "?b AND 0xF = opcode" "(drop_bit WS_FIN_SHIFT ?b \<noteq> 0) = fin" "knownOpcode opcode"
    using first_byte [OF assms(2) refl, of fin] by blast+
  have f: "frame_type w1 = frame_type r" "ws_state (client w1) = ws_state (client r)"
    using facing_fields [OF w1(2)] by auto
  have ok: "\<not> (frame_type w1 = -1 \<and> opcode = WS_FR_OP_CONT
      \<or> frame_type w1 \<noteq> -1 \<and> \<not> is_control_frame opcode \<and> opcode \<noteq> WS_FR_OP_CONT)"
    using assms(3) f(1) by (auto simp: is_control_frame_def)
  have "frame_body e v w = dispatch_frame e opcode fin v
      (if opcode \<noteq> WS_FR_OP_CONT \<and> \<not> is_control_frame opcode then w1\<lparr>frame_type := uint opcode\<rparr> else w1)"
    unfolding frame_body_def w1(1) bind_res_Inr prod.case option.case Let_def b(2,3)
    using b(1,4) ok assms(4) f(2) by (simp only: if_True if_False not_False_eq_True simp_thms)
  then show ?thesis
    using w1(2) facing_upd(2) [OF w1(2), of "uint opcode"] by auto
qed

lemma dispatch_data:
  assumes "facing w ((0x80 OR lengthCode (of_nat (length p))) # s) r" "\<not> is_control_frame opcode"
  shows "\<exists>w'. dispatch_frame e opcode fin v w
      = data_frame e opcode fin (ucast ((0x80 OR lengthCode (of_nat (length p))) AND 0x7F)) v w' \<and> facing w' s r"
  using next_byte_facing [OF assms(1)] assms(2) by (auto simp: dispatch_frame_def)

lemma dispatch_control:
  assumes "facing w ((0x80 OR lengthCode (of_nat (length p))) # s) r" "is_control_frame opcode" "length p \<le> 125"
  shows "\<exists>w'. dispatch_frame e opcode True v w = bind_res
      (if opcode = WS_FR_OP_PONG then pong_frame e True (of_nat (length p)) w'
       else if opcode = WS_FR_OP_PING then ping_frame e True (of_nat (length p)) w'
       else close_frame e True (of_nat (length p)) w') (\<lambda>(f, w). Inr (f, v, w)) \<and> facing w' s r"
proof -
  have "unat (of_nat (length p) :: u64) = length p"
    using assms(3) by (auto intro!: small64)
  then have "(of_nat (length p) :: u64) \<le> 125"
    using assms(3) by (simp add: word_le_nat_alt)
  moreover from this have "ucast ((0x80 OR lengthCode (of_nat (length p))) AND 0x7F) = (of_nat (length p) :: u64)"
    by (rule code_simps(1))
  ultimately show ?thesis
    using next_byte_facing [OF assms(1)] assms(2) by (auto simp: dispatch_frame_def Let_def dest: leD)
qed

lemma frame_body_part:
  assumes "facing w (clientFrame fin opcode ms p @ s) r" "\<not> error r" "length ms = 4"
    "opcode \<in> {0, 1, 2}" "frame_type r = -1 \<longleftrightarrow> opcode \<noteq> 0" "ws_state (client r) \<noteq> WS_STATE_CLOSING" "granted e"
    "T = (if opcode = 0 then frame_type r else uint opcode)" "collected T acc False v"
    "frame_size r = of_nat (length acc)" "length acc + length p \<le> maxFrame" "validSoFar T (acc @ p) fin"
  shows "\<exists>v' w'. frame_body e v w = Inr (Continue fin, v', w')
    \<and> facing w' s (r\<lparr>frame_type := T, frame_size := of_nat (length acc + length p)\<rparr>) \<and> collected T (acc @ p) fin v'"
proof -
  let ?s = "lengthRest (of_nat (length p)) @ ms @ masked ms 0 p @ s"
  have op: "\<not> is_control_frame opcode" "opcode \<in> {0, 1, 2, 8, 9, 10}"
    using assms(4) by (auto simp: is_control_frame_def)
  obtain w1 where w1: "frame_body e v w = dispatch_frame e opcode fin v w1"
    "facing w1 ((0x80 OR lengthCode (of_nat (length p))) # ?s) (r\<lparr>frame_type := T\<rparr>)"
    using frame_body_starts [OF assms(1) op(2) _ assms(6), of e v] assms(5,8) op(1) by (auto split: if_splits)
  obtain w2 where w2: "dispatch_frame e opcode fin v w1
      = data_frame e opcode fin (ucast ((0x80 OR lengthCode (of_nat (length p))) AND 0x7F)) v w2"
    "facing w2 ?s (r\<lparr>frame_type := T\<rparr>)"
    using dispatch_data [OF w1(2) op(1)] by blast
  show ?thesis
    using data_frame_collected [OF w2(2) _ assms(3) op(1) assms(7)] assms(2,9-12) w1(1) w2(1) by auto
qed

lemma frame_body_control:
  assumes "facing w (clientFrame True opcode ms p @ s) r" "\<not> error r" "length ms = 4" "length p \<le> 124"
    "opcode = WS_FR_OP_PING \<and> i = Ping ms p \<or> opcode = WS_FR_OP_PONG \<and> i = Pong ms p"
    "ws_state (client r) \<noteq> WS_STATE_CLOSING" "granted e"
  shows "\<exists>w'. frame_body e v w = Inr (Continue False, v, w') \<and> facing w' s (r\<lparr>client := controlEffect i (client r)\<rparr>)"
proof -
  let ?s = "lengthRest (of_nat (length p)) @ ms @ masked ms 0 p @ s"
  have op: "is_control_frame opcode" "opcode \<in> {0, 1, 2, 8, 9, 10}" "length p \<le> 125"
    using assms(4,5) by (auto simp: is_control_frame_def)
  obtain w1 where w1: "frame_body e v w = dispatch_frame e opcode True v w1"
    "facing w1 ((0x80 OR lengthCode (of_nat (length p))) # ?s) r"
    using frame_body_starts [OF assms(1) op(2) _ assms(6), of e v] op(1) by auto
  obtain w2 where w2: "dispatch_frame e opcode True v w1 = bind_res
      (if opcode = WS_FR_OP_PONG then pong_frame e True (of_nat (length p)) w2
       else if opcode = WS_FR_OP_PING then ping_frame e True (of_nat (length p)) w2
       else close_frame e True (of_nat (length p)) w2) (\<lambda>(f, w). Inr (f, v, w))" "facing w2 ?s r"
    using dispatch_control [OF w1(2) op(1,3)] by blast
  show ?thesis
    using ping_frame_facing [OF w2(2) assms(2-4,7)] pong_frame_facing [where e = e, OF w2(2) assms(2-4)] assms(5) w1(1) w2(1) by auto
qed

lemma validSoFar_prefix:
  "(T = 1 \<longrightarrow> validUtf8 (acc @ q)) \<Longrightarrow> (fin \<Longrightarrow> q = []) \<Longrightarrow> validSoFar T acc fin"
  by (auto simp: validSoFar_def validUtf8_run runOf_append run_1)

lemma frame_loop_message:
  "facing w (wire opcode its @ s) r \<Longrightarrow> messageOk its \<Longrightarrow> \<not> error r \<Longrightarrow> ws_state (client r) \<noteq> WS_STATE_CLOSING \<Longrightarrow>
   granted e \<Longrightarrow> opcode \<in> {0, 1, 2} \<Longrightarrow> (frame_type r = -1 \<longleftrightarrow> opcode \<noteq> 0) \<Longrightarrow>
   T = (if opcode = 0 then frame_type r else uint opcode) \<Longrightarrow> collected T acc False v \<Longrightarrow>
   frame_size r = of_nat (length acc) \<Longrightarrow> length acc + length (payload its) \<le> maxFrame \<Longrightarrow>
   (T = 1 \<longrightarrow> validUtf8 (acc @ payload its)) \<Longrightarrow>
   \<exists>w' m. frame_loop e v w = Inr (0, w')
    \<and> facing w' s (r\<lparr>frame_type := T, frame_size := of_nat (length (acc @ payload its)), msg := m,
        client := fold controlEffect its (client r)\<rparr>)
    \<and> content (acc @ payload its) True m"
proof (induction its arbitrary: opcode acc v w r)
  case (Cons i its)
  have control: ?case if i: "opc = WS_FR_OP_PING \<and> i = Ping ms p \<or> opc = WS_FR_OP_PONG \<and> i = Pong ms p" for opc ms p
  proof -
    have same: "wire opcode (i # its) = clientFrame True opc ms p @ wire opcode its" "payload (i # its) = payload its"
      "length ms = 4" "length p \<le> 124" "messageOk its"
      using i Cons.prems(2) by auto
    let ?r = "r\<lparr>client := controlEffect i (client r)\<rparr>"
    obtain w1 where w1: "frame_body e v w = Inr (Continue False, v, w1)" "facing w1 (wire opcode its @ s) ?r"
      using frame_body_control [where v = v, OF _ Cons.prems(3) same(3,4) i Cons.prems(4,5), of w] Cons.prems(1) same(1)
      by auto
    have "\<not> error w1" using facing_fields(1) [OF w1(2)] Cons.prems(3) by simp
    then have "frame_loop e v w = frame_loop e v w1"
      by (subst frame_loop.simps) (simp add: w1(1))
    moreover have "\<exists>w' m. frame_loop e v w1 = Inr (0, w')
      \<and> facing w' s (?r\<lparr>frame_type := T, frame_size := of_nat (length (acc @ payload its)), msg := m,
          client := fold controlEffect its (client ?r)\<rparr>)
      \<and> content (acc @ payload its) True m"
      by (rule Cons.IH [OF w1(2) same(5) _ _ Cons.prems(5,6) _ _ Cons.prems(9)])
        (use Cons.prems(3,4,7,8,10-12) same(2) in simp_all)
    ultimately show ?thesis using same(2) by simp
  qed
  show ?case
  proof (cases i)
    case i: (Part ms p)
    let ?fin = "its = []"
    let ?r = "r\<lparr>frame_type := T, frame_size := of_nat (length acc + length p)\<rparr>"
    have p: "length ms = 4" "its = [] \<or> messageOk its" "length acc + length p \<le> maxFrame"
      using Cons.prems(2,11) by (auto simp: i)
    have valid: "validSoFar T (acc @ p) ?fin"
      by (rule validSoFar_prefix [of _ _ "payload its"]) (use Cons.prems(12) in \<open>auto simp: i\<close>)
    obtain v1 w1 where w1: "frame_body e v w = Inr (Continue ?fin, v1, w1)" "facing w1 (wire 0 its @ s) ?r"
      "collected T (acc @ p) ?fin v1"
      using frame_body_part [OF _ Cons.prems(3) p(1) Cons.prems(6,7,4,5,8,9,10) p(3) valid, of w "wire 0 its @ s"]
        Cons.prems(1) by (auto simp: i)
    have e: "\<not> error w1" using facing_fields(1) [OF w1(2)] Cons.prems(3) by simp
    show ?thesis
    proof (cases "its = []")
      case True
      let ?w = "w1\<lparr>msg := msg_data v1\<rparr>"
      have "facing ?w s (?r\<lparr>msg := msg_data v1\<rparr>)" "content (acc @ p) True (msg_data v1)"
        using facing_upd(4) [OF w1(2)] w1(3) True by (auto simp: collected_def)
      moreover have "frame_loop e v w = Inr (0, ?w)"
        using w1(1) e True by (subst frame_loop.simps) (simp add: finish_message_def)
      ultimately show ?thesis using True by (auto simp: i)
    next
      case False
      have "0 \<le> uint opcode" by simp
      then have "uint opcode \<noteq> -1" by linarith
      then have T: "T \<noteq> -1" using Cons.prems(6-8) by auto
      from False p(2) have its: "messageOk its" by simp
      have "frame_loop e v w = frame_loop e v1 w1"
        by (subst frame_loop.simps) (simp add: w1(1) e False)
      moreover have "\<exists>w' m. frame_loop e v1 w1 = Inr (0, w')
        \<and> facing w' s (?r\<lparr>frame_type := T, frame_size := of_nat (length ((acc @ p) @ payload its)), msg := m,
            client := fold controlEffect its (client ?r)\<rparr>)
        \<and> content ((acc @ p) @ payload its) True m"
        by (rule Cons.IH [OF w1(2) its _ _ Cons.prems(5)])
          (use Cons.prems(3,4,11,12) T w1(3) False in \<open>simp_all add: i\<close>)
      ultimately show ?thesis by (simp add: i)
    qed
  qed (use control in blast)+
qed simp

lemma facing_fixed: "readable w \<Longrightarrow> stream w = s \<Longrightarrow> facing w s (fixed w)"
  by (simp add: facing_def)

lemma fixed_fields [simp]:
  "error (fixed w) = error w" "frame_type (fixed w) = frame_type w" "frame_size (fixed w) = frame_size w"
  "ws_state (client (fixed w)) = ws_state (client w)" "outgoing (client (fixed w)) = outgoing (client w)"
  "last_pong_id (client (fixed w)) = last_pong_id (client w)"
  by (simp_all add: fixed_def)

text \<open>The answers to the control frames of a message.\<close>

fun answer :: "item \<Rightarrow> u8 list" where
  "answer (Ping ms p) = frameHeader (of_nat (length p)) WS_FR_OP_PONG @ p"
| "answer _ = []"

lemma fold_answers: "outgoing (fold controlEffect its c) = outgoing c @ concat (map answer its)"
proof (induction its arbitrary: c)
  case (Cons i its)
  then show ?case by (cases i) simp_all
qed simp

definition startVars :: frame_vars where
  "startVars = \<lparr>msg_data = None, msg_idx_data = 0, utf8_state = UTF8_ACCEPT\<rparr>"

lemma next_frame_start:
  assumes "readable w" "stream w = s"
  shows "\<exists>w0. next_frame e w = frame_loop e startVars w0
    \<and> facing w0 s ((fixed w)\<lparr>frame_size := 0, frame_type := -1, msg := None\<rparr>)"
proof -
  let ?w = "w\<lparr>frame_size := 0, frame_type := -1, msg := None\<rparr>"
  have "facing ?w s ((fixed w)\<lparr>frame_size := 0, frame_type := -1, msg := None\<rparr>)"
    using facing_fixed [OF assms] by (intro facing_upd)
  then show ?thesis by (auto simp: next_frame_def startVars_def)
qed

lemma collected_start: "collected T [] False startVars"
  by (simp add: collected_def content_def startVars_def)

lemma next_frame_message_lemma:
  assumes "readable w" "stream w = wire opcode its @ s" "messageOk its" "opcode \<in> {WS_FR_OP_TXT, WS_FR_OP_BIN}"
    and "\<not> error w" "ws_state (client w) \<noteq> WS_STATE_CLOSING" "granted e"
    and "length (payload its) \<le> maxFrame" "opcode = WS_FR_OP_TXT \<longrightarrow> validUtf8 (payload its)"
  shows "\<exists>w'. next_frame e w = Inr (0, w') \<and> readable w' \<and> stream w' = s \<and> \<not> error w'
    \<and> frame_type w' = uint opcode \<and> frame_size w' = of_nat (length (payload its))
    \<and> content (payload its) True (msg w')
    \<and> ws_state (client w') = ws_state (client w)
    \<and> outgoing (client w') = outgoing (client w) @ concat (map answer its)"
proof -
  let ?r = "(fixed w)\<lparr>frame_size := 0, frame_type := -1, msg := None\<rparr>"
  obtain w0 where w0: "next_frame e w = frame_loop e startVars w0" "facing w0 (wire opcode its @ s) ?r"
    using next_frame_start [OF assms(1,2)] by blast
  obtain w' m where w': "frame_loop e startVars w0 = Inr (0, w')"
    "facing w' s (?r\<lparr>frame_type := uint opcode, frame_size := of_nat (length ([] @ payload its)), msg := m,
        client := fold controlEffect its (client ?r)\<rparr>)" "content ([] @ payload its) True m"
    using frame_loop_message [OF w0(2) assms(3) _ _ assms(7), where T = "uint opcode" and acc = "[]" and v = startVars]
      assms(4-6,8,9) collected_start by auto
  have "ws_state (fold controlEffect its c) = ws_state c" for c
    by (induction its arbitrary: c) simp_all
  then show ?thesis
    using w0(1) w'(1,3) facing_fields [OF w'(2)] w'(2) assms(5)
    by (auto simp: facing_def fold_answers)
qed

text \<open>
  \<^bold>\<open>C6.\<close> A message is received whole. If the bytes to come begin with a message as RFC 6455 lays it out, a text
  or binary frame and its continuations, masked, with any pings and pongs of up to 124 bytes in between, and
  up to 16 MB of it, valid UTF-8 if it is text, then \<open>next_frame\<close> never leaves a buffer, returns 0 with
  exactly the payload in a block of that size and a terminator behind it, and stands at the byte behind the
  message. Every ping has been answered with its own content, in order. In what pieces the bytes arrive, how
  many of them \<open>send\<close> takes at a time and what fresh memory holds make no difference. For an empty message the
  block is NULL.
\<close>

theorem next_frame_message:
  assumes "readable w" "stream w = wire opcode its @ s" "messageOk its" "opcode \<in> {WS_FR_OP_TXT, WS_FR_OP_BIN}"
    and "\<not> error w" "ws_state (client w) \<noteq> WS_STATE_CLOSING" "granted e"
    and "length (payload its) \<le> maxFrame" "opcode = WS_FR_OP_TXT \<longrightarrow> validUtf8 (payload its)"
  shows "\<exists>w'. next_frame e w = Inr (0, w') \<and> readable w' \<and> stream w' = s \<and> \<not> error w'
    \<and> frame_type w' = uint opcode \<and> frame_size w' = of_nat (length (payload its))
    \<and> (case msg w' of None \<Rightarrow> payload its = []
       | Some b \<Rightarrow> payload its \<noteq> [] \<and> bsize b = length (payload its) + 1
           \<and> map (bdata b) [0..<length (payload its)] = payload its \<and> bdata b (length (payload its)) = 0)
    \<and> ws_state (client w') = ws_state (client w)
    \<and> outgoing (client w') = outgoing (client w) @ concat (map answer its)"
  using next_frame_message_lemma [OF assms] unfolding content_def of_bool_eq by (simp cong: option.case_cong)

text \<open>A connection on which some pieces arrive, and whose \<open>send\<close> takes a byte at a time.\<close>

definition openConnection :: "u8 list list \<Rightarrow> connection" where
  "openConnection ps = \<lparr>client_sock = 4, ws_state = WS_STATE_OPEN, last_pong_id = 0, current_ping_id = 0,
     incoming = ps, outgoing = [], sends = (\<lambda>_. Some 0)\<rparr>"

definition plainEnv :: ws_env where
  "plainEnv = \<lparr>mallocOk = True, reallocOk = (\<lambda>_. True), freshBytes = (\<lambda>_. 0xAA), codepoint = 7\<rparr>"

definition resetItems :: "item list" where
  "resetItems = [Part [1, 2, 3, 4] (bytes ''re''), Ping [5, 6, 7, 8] [42], Part [9, 9, 9, 9] (bytes ''set'')]"

lemma demo_simps:
  "readable (zeroFrame (openConnection ps))" "\<not> error (zeroFrame c)" "granted plainEnv" "client (zeroFrame c) = c"
  "ws_state (openConnection ps) = WS_STATE_OPEN" "outgoing (openConnection ps) = []"
  "list_all (\<lambda>p. p \<noteq> []) ps \<Longrightarrow> stream (zeroFrame (openConnection ps)) = concat ps"
proof -
  show "list_all (\<lambda>p. p \<noteq> []) ps \<Longrightarrow> stream (zeroFrame (openConnection ps)) = concat ps"
    by (simp add: stream_def zeroFrame_def openConnection_def) (induction ps; simp)
qed (simp_all add: readable_def zeroFrame_def openConnection_def granted_def plainEnv_def)

lemma next_frame_message_witness:
  "\<exists>w' b. next_frame plainEnv (zeroFrame (openConnection [take 5 (wire WS_FR_OP_TXT resetItems), drop 5 (wire WS_FR_OP_TXT resetItems)]))
      = Inr (0, w') \<and> msg w' = Some b \<and> map (bdata b) [0..<5] = bytes ''reset'' \<and> bdata b 5 = 0
      \<and> outgoing (client w') = [0x8A, 1, 42]"
proof -
  let ?ps = "[take 5 (wire WS_FR_OP_TXT resetItems), drop 5 (wire WS_FR_OP_TXT resetItems)]"
  have its: "messageOk resetItems" "payload resetItems = bytes ''reset''"
    "concat (map answer resetItems) = [0x8A, 1, 42]" "validUtf8 (bytes ''reset'')"
    by (simp_all add: resetItems_def bytes_def frameHeader_def validUtf8_run stepOf_def)
  have ps: "list_all (\<lambda>p. p \<noteq> []) ?ps"
    by (simp add: resetItems_def bytes_def clientFrame_def lengthRest_def)
  from next_frame_message [of "zeroFrame (openConnection ?ps)" WS_FR_OP_TXT resetItems "[]" plainEnv, unfolded its(2,3)]
  obtain w' where w': "next_frame plainEnv (zeroFrame (openConnection ?ps)) = Inr (0, w')"
    "case msg w' of None \<Rightarrow> bytes ''reset'' = []
       | Some b \<Rightarrow> bytes ''reset'' \<noteq> [] \<and> bsize b = length (bytes ''reset'') + 1
           \<and> map (bdata b) [0..<length (bytes ''reset'')] = bytes ''reset'' \<and> bdata b (length (bytes ''reset'')) = 0"
    "outgoing (client w') = [] @ [0x8A, 1, 42]"
    using its ps by (auto simp: demo_simps)
  have len: "length (bytes ''reset'') = 5" by simp
  show ?thesis
    using w' unfolding len by (cases "msg w'") (auto simp: bytes_def)
qed

section \<open>Frames that break it\<close>

text \<open>
  \<^bold>\<open>C38.\<close> A control frame of 125 bytes, which the protocol allows and the code lets pass, is written past its
  array: the content fills all 125 bytes of it and the terminator goes behind the end. Any client can do this
  with a ping, a pong or a close frame.
\<close>

theorem control_125_overflows:
  assumes "readable w" "stream w = clientFrame True opcode ms p @ s"
    and "opcode \<in> {WS_FR_OP_PING, WS_FR_OP_PONG, WS_FR_OP_CLSE}" "length ms = 4" "length p = 125"
    and "\<not> error w" "ws_state (client w) \<noteq> WS_STATE_CLOSING"
  shows "next_frame e w = Inl OutOfBounds"
proof -
  let ?r = "(fixed w)\<lparr>frame_size := 0, frame_type := -1, msg := None\<rparr>"
  let ?s = "lengthRest (of_nat (length p)) @ ms @ masked ms 0 p @ s"
  have op: "is_control_frame opcode" "opcode \<in> {0, 1, 2, 8, 9, 10}" "length p \<le> 125" "\<not> error ?r"
    using assms(3,5,6) by (auto simp: is_control_frame_def)
  obtain w0 where w0: "next_frame e w = frame_loop e startVars w0" "facing w0 (clientFrame True opcode ms p @ s) ?r"
    using next_frame_start [OF assms(1,2)] by blast
  obtain w1 where w1: "frame_body e startVars w0 = dispatch_frame e opcode True startVars w1"
    "facing w1 ((0x80 OR lengthCode (of_nat (length p))) # ?s) ?r"
    using frame_body_starts [OF w0(2) op(2), of e startVars] op(1) assms(7) by auto
  obtain w2 where w2: "dispatch_frame e opcode True startVars w1 = bind_res
      (if opcode = WS_FR_OP_PONG then pong_frame e True (of_nat (length p)) w2
       else if opcode = WS_FR_OP_PING then ping_frame e True (of_nat (length p)) w2
       else close_frame e True (of_nat (length p)) w2) (\<lambda>(f, w). Inr (f, startVars, w))" "facing w2 ?s ?r"
    using dispatch_control [OF w1(2) op(1,3)] by blast
  have "frame_body e startVars w0 = Inl OutOfBounds"
    using read_control_facing(2) [OF w2(2) op(4) assms(4) _ assms(5)] w1(1) w2(1) assms(3)
    by (auto simp: pong_frame_def ping_frame_def close_frame_def is_control_frame_def)
  then show ?thesis
    by (simp add: w0(1) frame_loop.simps [of e startVars w0])
qed

lemma control_125_overflows_witness:
  "next_frame plainEnv (zeroFrame (openConnection [clientFrame True WS_FR_OP_PING [0, 0, 0, 0] (replicate 125 0x2A)]))
    = Inl OutOfBounds"
proof (rule control_125_overflows)
  show "stream (zeroFrame (openConnection [clientFrame True WS_FR_OP_PING [0, 0, 0, 0] (replicate 125 0x2A)]))
      = clientFrame True WS_FR_OP_PING [0, 0, 0, 0] (replicate 125 0x2A) @ []"
    by (subst demo_simps(7)) (simp_all add: clientFrame_def)
qed (simp_all add: demo_simps)

lemma be64_length: "length (be64_of n) = 8"
  by (simp add: be64_of_def)

text \<open>
  \<^bold>\<open>C39.\<close> The limit on the size of a message can be passed. The total is kept in 64 bits and compared after the
  addition, so a continuation frame that claims a length of 2 to the 64 minus \<open>k\<close> makes it smaller. The block is
  then shrunk by \<open>k\<close> bytes while writing goes on behind the bytes already there: the first byte of the
  payload is written behind the end of the block, and the many bytes after it further on. If \<open>k\<close> is all
  that has been read, the block is resized to 0 bytes, which frees it, and freed again.
\<close>

theorem continuation_wraps:
  assumes "readable w"
    and "stream w = clientFrame False opcode ms p @ [WS_FR_OP_CONT, 0xFF] @ be64_of (- of_nat k) @ ms' @ x # s"
    and "opcode \<in> {WS_FR_OP_TXT, WS_FR_OP_BIN}" "length ms = 4" "length ms' = 4" "length p \<le> maxFrame"
    and "opcode = WS_FR_OP_TXT \<longrightarrow> validUtf8 p" "0 < k" "k \<le> length p" "granted e"
    and "\<not> error w" "ws_state (client w) \<noteq> WS_STATE_CLOSING"
  shows "next_frame e w = Inl (if k = length p then UseAfterFree else OutOfBounds)"
proof -
  let ?r = "(fixed w)\<lparr>frame_size := 0, frame_type := -1, msg := None\<rparr>" and ?T = "uint opcode"
  let ?r' = "?r\<lparr>frame_type := ?T, frame_size := of_nat (length p)\<rparr>" and ?L = "- of_nat k :: u64"
  let ?s = "[WS_FR_OP_CONT, 0xFF] @ be64_of ?L @ ms' @ x # s"
  obtain w0 where w0: "next_frame e w = frame_loop e startVars w0" "facing w0 (clientFrame False opcode ms p @ ?s) ?r"
    using next_frame_start [OF assms(1,2)] by blast
  have valid: "validSoFar ?T ([] @ p) False"
    by (rule validSoFar_prefix [of _ _ "[]"]) (use assms(3,7) in auto)
  obtain v1 w1 where w1: "frame_body e startVars w0 = Inr (Continue False, v1, w1)" "facing w1 ?s ?r'" "collected ?T p False v1"
    using frame_body_part [OF w0(2) _ assms(4) _ _ _ assms(10) _ collected_start _ _ valid] assms(3,6,11,12) by auto
  obtain b where b: "msg_data v1 = Some b" "bsize b = length p" "msg_idx_data v1 = of_nat (length p)"
    using w1(3) assms(8,9) by (cases "msg_data v1") (auto simp: collected_def content_def)
  obtain w2 where w2: "next_byte w1 = Inr (Some 0, w2)" "facing w2 (0xFF # be64_of ?L @ ms' @ x # s) ?r'"
    using next_byte_facing [of w1 0] w1(2) by auto
  obtain w3 where w3: "next_byte w2 = Inr (Some 0xFF, w3)" "facing w3 (be64_of ?L @ ms' @ x # s) ?r'"
    using next_byte_facing [OF w2(2)] by auto
  obtain w4 where w4: "readNumber 8 0 w3 = Inr (?L, w4)" "facing w4 (ms' @ x # s) ?r'"
    using readNumber_facing [OF w3(2), of 0] by (auto simp: be64_length be64_value)
  obtain w5 where w5: "readMasks 4 w4 = Inr (ms', w5)" "facing w5 (x # s) ?r'"
    using readMasks_facing [OF w4(2)] assms(5) by auto
  obtain w6 where w6: "next_byte w5 = Inr (Some x, w6)"
    using next_byte_facing [OF w5(2)] by auto
  have f: "error w5 = False" "frame_type w2 = uint opcode" "ws_state (client w2) \<noteq> 2" "frame_size w3 = of_nat (length p)"
    "error w1 = False"
    using facing_fields [OF w5(2)] facing_fields [OF w2(2)] facing_fields [OF w3(2)] facing_fields [OF w1(2)] assms(11,12)
    by simp_all
  have n: "unat (of_nat (length p) :: u64) = length p" "unat (of_nat (length p - k) :: u64) = length p - k"
    "unat (of_nat k :: u64) = k"
    using assms(6,9) by (auto intro!: small64 simp del: of_nat_diff)
  have L: "?L \<noteq> 0" "of_nat (length p) + ?L = of_nat (length p - k)"
    using n(3) assms(8,9) by (auto simp: of_nat_diff)
  have small: "\<not> (of_nat (length p - k) :: u64) > MAX_FRAME_LENGTH"
    using n(2) assms(6) by (simp add: word_less_nat_alt)
  have zero: "(of_nat (length p - k) :: u64) = 0 \<longleftrightarrow> k = length p"
    using zero64 [of "length p - k"] assms(6,9) by auto
  obtain m where m: "unat ?L = Suc m"
    using L(1) by (metis not0_implies_Suc unat_eq_zero)
  have payload: "readPayload e 0 ms' False ?L (Some b) (of_nat (length p)) w5
      = Inl (if k = length p then UseAfterFree else OutOfBounds)"
    using L zero n b(2) assms(8-10) w6 m
    by (auto simp: readPayload_def word_greater_zero_iff is_control_frame_def resize_def realloc_def granted_def)
  have frame: "read_frame e 0 False (Some b) 127 (of_nat (length p)) (of_nat (length p)) w3
      = Inl (if k = length p then UseAfterFree else OutOfBounds)"
    using w4(1) w5(1) f(1) small payload L(2) by (simp add: read_frame_def readLength_def Let_def)
  have "frame_body e v1 w1 = Inl (if k = length p then UseAfterFree else OutOfBounds)"
    using w2(1) w3(1) f(2,3,4) b frame assms(3)
    by (auto simp: frame_body_def dispatch_frame_def data_frame_def Let_def is_control_frame_def knownOpcode_def)
  then show ?thesis
    using f(5) by (simp add: w0(1) frame_loop.simps [of e startVars w0] frame_loop.simps [of e v1 w1] w1(1))
qed

definition wrapBytes :: "u8 list" where
  "wrapBytes = clientFrame False WS_FR_OP_BIN [0, 0, 0, 0] [1, 2] @ [WS_FR_OP_CONT, 0xFF] @ be64_of (- of_nat 1) @ [0, 0, 0, 0] @ [7]"

lemma continuation_wraps_witness:
  "next_frame plainEnv (zeroFrame (openConnection [wrapBytes])) = Inl OutOfBounds"
proof -
  have "stream (zeroFrame (openConnection [wrapBytes])) = wrapBytes"
    by (subst demo_simps(7)) (simp_all add: wrapBytes_def clientFrame_def)
  then have "stream (zeroFrame (openConnection [wrapBytes])) = clientFrame False WS_FR_OP_BIN [0, 0, 0, 0] [1, 2]
      @ [WS_FR_OP_CONT, 0xFF] @ be64_of (- of_nat 1) @ [0, 0, 0, 0] @ 7 # []"
    unfolding wrapBytes_def .
  from continuation_wraps [OF _ this, of plainEnv] show ?thesis
    by (simp add: demo_simps)
qed

end
