(* ===== verification/Ws_Connection.thy ===== *)
theory Ws_Connection
  imports Ws_Message
begin

text \<open>
  A connection of the WebSocket library from its first byte to its last: \<open>do_handshake\<close>,
  \<open>ws_establishconnection\<close>, closing and pings of \<^verbatim>\<open>libs/wsServer/src/ws.c\<close>. The callbacks of the program are a
  record of functions on its state. Nothing of the program calls \<open>ws_close_client\<close>, so that no timeout
  thread exists.
\<close>

section \<open>Opening and closing\<close>

record 's ws_events =
  onopen :: "connection \<Rightarrow> 's \<Rightarrow> 's res"
  onclose :: "connection \<Rightarrow> 's \<Rightarrow> 's res"
  onmessage :: "connection \<Rightarrow> buffer option \<Rightarrow> u64 \<Rightarrow> int \<Rightarrow> 's \<Rightarrow> 's res"

text \<open>The context of the hash is the uninitialised one of \<open>get_handshake_accept\<close>.\<close>

definition do_handshake :: "SHA1Context \<Rightarrow> 's ws_events \<Rightarrow> ws_frame_data \<Rightarrow> 's \<Rightarrow> (int \<times> ws_frame_data \<times> 's) res" where
  "do_handshake ctx ev w s =
    (case recv (MESSAGE_LENGTH - 1) (client w) of
       (None, c) \<Rightarrow> Inr (-1, w\<lparr>client := c\<rparr>, s)
     | (Some p, c) \<Rightarrow>
       let w = w\<lparr>frm := (\<lambda>i. if i < length p then p ! i else frm w i), client := c\<rparr>;
           request = map (frm w) [0..<MESSAGE_LENGTH]
       in case strstr (cstr request) (CRLF @ CRLF) of
            None \<Rightarrow> Inr (-1, w, s)
          | Some i \<Rightarrow>
            let w = w\<lparr>amt_read := length p, cur_pos := i + 4\<rparr> in
            bind_res (get_handshake_response ctx request) (\<lambda>((ret, response), buf).
              let w = w\<lparr>frm := (\<lambda>i. if i < MESSAGE_LENGTH then buf ! i else frm w i)\<rparr> in
              if ret < 0 then Inr (-1, w, s)
              else case send_all (bytes response) (client w) of (r, c) \<Rightarrow>
                let w = w\<lparr>client := c\<rparr> in
                if r < 0 then Inr (-1, w, s)
                else bind_res (onopen ev (client w) s) (\<lambda>s. Inr (0, w, s))))"

definition close_client :: "connection \<Rightarrow> connection" where
  "close_client c = (set_client_state WS_STATE_CLOSED c)\<lparr>client_sock := -1\<rparr>"

text \<open>The loop over the messages; it ends because every message read takes bytes.\<close>

function message_loop :: "ws_env \<Rightarrow> 's ws_events \<Rightarrow> ws_frame_data \<Rightarrow> 's \<Rightarrow> (ws_frame_data \<times> 's) res" where
  "message_loop e ev w s =
    bind_res (next_frame e w) (\<lambda>(r, w).
      if \<not> r \<ge> 0 then Inr (w, s)
      else if (frame_type w = uint WS_FR_OP_TXT \<or> frame_type w = uint WS_FR_OP_BIN) \<and> \<not> error w then
        bind_res (onmessage ev (client w) (msg w) (frame_size w) (frame_type w) s) (\<lambda>s. message_loop e ev w s)
      else if frame_type w = uint WS_FR_OP_CLSE \<and> \<not> error w then
        (if ws_state (client w) \<noteq> WS_STATE_CLOSING then
           bind_res (do_close e (-1) (w\<lparr>client := set_client_state WS_STATE_CLOSING (client w)\<rparr>)) (\<lambda>(_, w). Inr (w, s))
         else Inr (w, s))
      else message_loop e ev w s)"
  by pat_completeness auto
termination
  by (relation "measure (\<lambda>(e, ev, w, s). pending w)") (use next_frame_pending in \<open>fastforce dest: on_okD\<close>)+

declare message_loop.simps [simp del]

definition ws_establishconnection ::
    "ws_env \<Rightarrow> SHA1Context \<Rightarrow> 's ws_events \<Rightarrow> connection \<Rightarrow> 's \<Rightarrow> (connection \<times> 's) res" where
  "ws_establishconnection e ctx ev c s =
    bind_res (do_handshake ctx ev (zeroFrame c) s) (\<lambda>(r, w, s).
    bind_res
      (if r < 0 then Inr (w, s)
       else
         bind_res (message_loop e ev (w\<lparr>client := set_client_state WS_STATE_OPEN (client w)\<rparr>) s) (\<lambda>(w, s).
           bind_res (onclose ev (client w) s) (\<lambda>s. Inr (w, s))))
      (\<lambda>(w, s).
        let c = client w in Inr (if ws_state c \<noteq> WS_STATE_CLOSED then close_client c else c, s)))"

text \<open>A new connection takes the first free slot, or is closed again.\<close>

fun accept_slot :: "int \<Rightarrow> connection list \<Rightarrow> connection list option" where
  "accept_slot new_sock [] = None"
| "accept_slot new_sock (c # cs) =
     (if client_sock c = -1 then
        Some (c\<lparr>client_sock := new_sock, ws_state := WS_STATE_CONNECTING, last_pong_id := -1, current_ping_id := -1\<rparr> # cs)
      else map_option (\<lambda>cs. c # cs) (accept_slot new_sock cs))"

section \<open>Pings of the server\<close>

definition send_ping_close :: "ws_env \<Rightarrow> int \<Rightarrow> connection \<Rightarrow> connection" where
  "send_ping_close e threshold c =
    (if ws_state c \<noteq> WS_STATE_OPEN then c
     else
       let c = c\<lparr>current_ping_id := current_ping_id c + 1\<rparr>;
           c = snd (ws_sendframe (mallocOk e) (int32_to_ping_msg (current_ping_id c)) WS_FR_OP_PING c)
       in if sint (current_ping_id c - last_pong_id c) > threshold then close_client c else c)"

definition ws_ping :: "ws_env \<Rightarrow> int \<Rightarrow> connection list \<Rightarrow> connection list" where
  "ws_ping e threshold clients = (if threshold \<le> 0 then clients else map (send_ping_close e threshold) clients)"

section \<open>The handshake\<close>

lemma strstr_bound: "strstr a p = Some i \<Longrightarrow> i + length p \<le> length a"
proof (induction a p arbitrary: i rule: strstr.induct)
  case (2 b bs p)
  show ?case
  proof (cases "take (length p) (b # bs) = p")
    case True
    then show ?thesis
      using 2(2) by (metis add_0 length_take min.cobounded1 min_def option.inject strstr.simps(2))
  qed (use 2 in auto)
qed (auto split: if_splits)

lemma strstr_append: "strstr a p = Some i \<Longrightarrow> strstr (a @ b) p = Some i"
proof (induction a p arbitrary: i rule: strstr.induct)
  case (1 p)
  then show ?case by (cases b) (auto split: if_splits)
next
  case (2 x xs p)
  have "take (length p) (x # xs @ b) = take (length p) (x # xs)"
    using strstr_bound [OF 2(2)] by (simp add: take_append flip: append_Cons)
  then show ?case
    using 2 by (auto split: if_splits)
qed

text \<open>A request: lines that do not mention the field, the key, and other lines up to the first empty one.\<close>

definition requestOf :: "u8 list list \<Rightarrow> u8 list \<Rightarrow> u8 list \<Rightarrow> u8 list" where
  "requestOf ls key rest = concat (map (\<lambda>l. l @ CRLF) ls) @ bytes (WS_HS_REQ @ '': '') @ key @ CRLF @ rest"

definition requestOk :: "u8 list list \<Rightarrow> u8 list \<Rightarrow> u8 list \<Rightarrow> bool" where
  "requestOk ls key rest \<longleftrightarrow> list_all (\<lambda>l. lineOk l \<and> strstr l (bytes WS_HS_REQ) = None) ls
     \<and> list_all (\<lambda>b. b \<noteq> 0x20 \<and> b \<noteq> 0x0D \<and> b \<noteq> 0x0A \<and> b \<noteq> 0) key \<and> length key = 24
     \<and> list_all (\<lambda>b. b \<noteq> 0) (requestOf ls key rest)
     \<and> strstr (requestOf ls key rest) (CRLF @ CRLF) = Some (length (requestOf ls key rest) - 4)"

definition responseTo :: "u8 list \<Rightarrow> u8 list" where
  "responseTo key = bytes (WS_HS_ACCEPT @ base64 (map unat (sha1 (key @ bytes MAGIC_STRING))) @ crlf @ crlf)"

lemma do_handshake_ok:
  assumes "requestOk ls key rest" "incoming c = (requestOf ls key rest @ x) # ps"
    "length (requestOf ls key rest @ x) < MESSAGE_LENGTH" "\<forall>i. sends c i \<noteq> None"
    "\<And>c. onopen ev c s = Inr (opened s)"
  shows "\<exists>w. do_handshake ctx ev (zeroFrame c) s = Inr (0, w, opened s) \<and> readable w
    \<and> stream w = x @ concat (takeWhile (\<lambda>p. p \<noteq> []) ps) \<and> \<not> error w
    \<and> ws_state (client w) = ws_state c \<and> outgoing (client w) = outgoing c @ responseTo key"
proof -
  let ?req = "requestOf ls key rest"
  define y where y: "y = ?req @ x"
  define zeros where "zeros = replicate (MESSAGE_LENGTH - length y) (0 :: u8)"
  have ok: "list_all (\<lambda>l. lineOk l \<and> strstr l (bytes WS_HS_REQ) = None) ls"
    "list_all (\<lambda>b. b \<noteq> 0x20 \<and> b \<noteq> 0x0D \<and> b \<noteq> 0x0A \<and> b \<noteq> 0) key" "length key = 24" "list_all (\<lambda>b. b \<noteq> 0) ?req"
    "strstr ?req (CRLF @ CRLF) = Some (length ?req - 4)"
    using assms(1) by (auto simp: requestOk_def)
  have "?req \<noteq> []" by (simp add: requestOf_def CRLF_def)
  then have recv: "recv (MESSAGE_LENGTH - 1) c = (Some y, c\<lparr>incoming := ps\<rparr>)"
    using assms(2,3) by (simp add: recv_def y del: MESSAGE_LENGTH_def)
  have request: "map (\<lambda>i. if i < length y then y ! i else 0) [0..<MESSAGE_LENGTH] = ?req @ x @ zeros"
    using assms(3) unfolding append_assoc [symmetric] y [symmetric] zeros_def
    by (intro nth_equalityI) (auto simp: nth_append)
  have found: "strstr (cstr (?req @ x @ zeros)) (CRLF @ CRLF) = Some (length ?req - 4)"
    using strstr_append [OF ok(5)] cstr_append [OF ok(4)] by simp
  have len4: "4 \<le> length ?req"
    using strstr_bound [OF ok(5)] by (simp add: CRLF_def)
  have "?req @ x @ zeros = concat (map (\<lambda>l. l @ CRLF) ls) @ bytes (WS_HS_REQ @ '': '') @ key @ CRLF @ rest @ x @ zeros"
    by (simp add: requestOf_def)
  then obtain response buf where r: "get_handshake_response ctx (?req @ x @ zeros) = Inr ((0, response), buf)"
    "bytes response = responseTo key"
    "drop (length buf - length (rest @ x @ zeros)) buf = rest @ x @ zeros"
    "length buf = length (concat (map (\<lambda>l. l @ CRLF) ls)) + 45 + length (rest @ x @ zeros)"
    using handshake_response [OF ok(1-3), of ctx "rest @ x @ zeros"] unfolding responseTo_def by metis
  have req: "length ?req = length (concat (map (\<lambda>l. l @ CRLF) ls)) + 45 + length rest"
    using ok(3) by (simp add: requestOf_def CRLF_def WS_HS_REQ_def)
  have "drop (length ?req) buf = drop (length rest) (drop (length buf - length (rest @ x @ zeros)) buf)"
    using r(4) req by (simp add: add.commute)
  then have tail: "drop (length ?req) buf = x @ zeros"
    unfolding r(3) by simp
  have lenbuf: "length buf = MESSAGE_LENGTH"
    using r(4) req assms(3) by (simp add: zeros_def y)
  obtain f where f: "send_all (bytes response) (c\<lparr>incoming := ps\<rparr>)
      = (0, c\<lparr>incoming := ps, outgoing := outgoing c @ responseTo key, sends := f\<rparr>)" "\<forall>i. f i \<noteq> None"
    using send_all_ok [of "c\<lparr>incoming := ps\<rparr>" "bytes response"] assms(4) r(2) by auto
  let ?f = "\<lambda>i. if i < MESSAGE_LENGTH then buf ! i else if i < length y then y ! i else 0"
  let ?w' = "(zeroFrame c)\<lparr>frm := ?f, cur_pos := length ?req, amt_read := length y,
    client := c\<lparr>incoming := ps, outgoing := outgoing c @ responseTo key, sends := f\<rparr>\<rparr>"
  have zero: "client (zeroFrame c) = c" "frm (zeroFrame c) = (\<lambda>_. 0)"
    by (simp_all add: zeroFrame_def)
  have run: "do_handshake ctx ev (zeroFrame c) s = Inr (0, ?w', opened s)"
    unfolding do_handshake_def zero recv prod.case option.case
    using request found r(1) f(1) len4 assms(5) by (simp add: Let_def zero del: MESSAGE_LENGTH_def cong: if_cong)
  have "map (frm ?w') [length ?req..<length y] = x"
  proof (rule nth_equalityI)
    fix i assume "i < length (map (frm ?w') [length ?req..<length y])"
    then have i: "i < length x" by (simp add: y)
    have "buf ! (length ?req + i) = drop (length ?req) buf ! i"
      using lenbuf assms(3) i by simp
    then show "map (frm ?w') [length ?req..<length y] ! i = x ! i"
      using i assms(3) tail by (simp add: nth_append y)
  qed (simp add: y)
  then have "stream ?w' = x @ concat (takeWhile (\<lambda>p. p \<noteq> []) ps)"
    by (simp add: stream_def)
  moreover have "readable ?w'"
    using f(2) assms(3) len4 by (auto simp: readable_def y)
  ultimately show ?thesis
    using run by (auto simp: zeroFrame_def)
qed

section \<open>Sessions\<close>

lemma next_byte_end:
  assumes "facing w [] r"
  shows "\<exists>w'. next_byte w = Inr (None, w') \<and> client w' = (client w)\<lparr>incoming := incoming (client w')\<rparr>"
proof -
  have e: "cur_pos w = amt_read w" "concat (takeWhile (\<lambda>p. p \<noteq> []) (incoming (client w))) = []"
    using assms by (auto simp: facing_def readable_def stream_def)
  show ?thesis
  proof (cases "incoming (client w)")
    case Nil
    with e(1) show ?thesis by (simp add: next_byte_def recv_def)
  next
    case (Cons p ps)
    with e(2) have "p = []" by (cases p) simp_all
    with e(1) Cons show ?thesis by (simp add: next_byte_def recv_def)
  qed
qed

text \<open>Control frames between messages, and then the end of the stream or a close frame.\<close>

fun controlOk :: "item \<Rightarrow> bool" where
  "controlOk (Part ms p) = False"
| "controlOk (Ping ms p) = (length ms = 4 \<and> length p \<le> 124)"
| "controlOk (Pong ms p) = (length ms = 4 \<and> length p \<le> 124)"

datatype sessionEnd = Gone | Close "u8 list" "u8 list" "u8 list"

fun endWire :: "sessionEnd \<Rightarrow> u8 list" where
  "endWire Gone = []"
| "endWire (Close ms p behind) = clientFrame True WS_FR_OP_CLSE ms p @ behind"

fun endOk :: "sessionEnd \<Rightarrow> bool" where
  "endOk Gone = True"
| "endOk (Close ms p behind) = (length ms = 4 \<and> length p \<le> 124)"

text \<open>
  The reply to a close frame. A reason that is not UTF-8 gets none, a code by itself must be one that RFC 6455 lets
  an endpoint send, and everything else is sent back.
\<close>

definition closeCodes :: "int set" where
  "closeCodes = {1000..1003} \<union> {1007..1011} \<union> {3000..4999}"

definition closeReply :: "u8 list \<Rightarrow> u8 list" where
  "closeReply p =
    (let q = if length p = 1 \<or> length p = 2 \<and> uint (p ! 0) * 256 + uint (p ! 1) \<notin> closeCodes then [0x03, 0xEA] else p
     in frameHeader (of_nat (length q)) WS_FR_OP_CLSE @ q)"

fun endReply :: "sessionEnd \<Rightarrow> u8 list" where
  "endReply Gone = []"
| "endReply (Close ms p behind) = (if 2 < length p \<and> \<not> validUtf8 (drop 2 p) then [] else closeReply p)"

lemma frame_loop_controls:
  "facing w (wire 0 cs @ t) r \<Longrightarrow> list_all controlOk cs \<Longrightarrow> \<not> error r \<Longrightarrow> ws_state (client r) \<noteq> WS_STATE_CLOSING \<Longrightarrow>
   granted e \<Longrightarrow>
   \<exists>w'. frame_loop e v w = frame_loop e v w' \<and> facing w' t (r\<lparr>client := fold controlEffect cs (client r)\<rparr>)"
proof (induction cs arbitrary: w r)
  case Nil
  then show ?case by auto
next
  case (Cons i cs)
  then obtain opc ms p where i: "opc = WS_FR_OP_PING \<and> i = Ping ms p \<or> opc = WS_FR_OP_PONG \<and> i = Pong ms p"
    by (cases i) auto
  then have same: "wire 0 (i # cs) = clientFrame True opc ms p @ wire 0 cs" "length ms = 4" "length p \<le> 124"
    using Cons.prems(2) by auto
  let ?r = "r\<lparr>client := controlEffect i (client r)\<rparr>"
  obtain w1 where w1: "frame_body e v w = Inr (Continue False, v, w1)" "facing w1 (wire 0 cs @ t) ?r"
    using frame_body_control [where v = v, OF _ Cons.prems(3) same(2,3) i Cons.prems(4,5), of w] Cons.prems(1) same(1)
    by auto
  have "\<not> error w1" using facing_fields(1) [OF w1(2)] Cons.prems(3) by simp
  then have "frame_loop e v w = frame_loop e v w1"
    by (subst frame_loop.simps) (simp add: w1(1))
  with Cons.IH [OF w1(2)] Cons.prems show ?case by simp
qed

lemma is_utf8_len_valid: "is_utf8_len cp s = Inr (if validUtf8 s then 1 else 0)"
proof -
  have "runOf 0 (map unat s) \<le> 8" using runOf_bound [of 0] by auto
  then show ?thesis
    using decodeLoop_run [of 0 s cp] u32_small(2) [of "runOf 0 (map unat s)" 0]
    by (auto simp: is_utf8_len_def validUtf8_run)
qed

lemma close_frame_facing:
  assumes "facing w (lengthRest (of_nat (length p)) @ ms @ masked ms 0 p @ s) r" "\<not> error r" "length ms = 4"
    "length p \<le> 124"
  shows "\<exists>w'. close_frame e True (of_nat (length p)) w = Inr (if 2 < length p \<and> \<not> validUtf8 (drop 2 p)
      then (Break, w'\<lparr>error := True\<rparr>)
      else (Return 0, w'\<lparr>frame_size := of_nat (length p), frame_type := uint WS_FR_OP_CLSE\<rparr>))
    \<and> facing w' s r \<and> map (msg_ctrl w') [0..<length p] = p"
proof -
  obtain w1 where w1: "read_control e WS_FR_OP_CLSE True (of_nat (length p)) w = Inr (True, of_nat (length p), w1)"
    "facing w1 s r" "map (msg_ctrl w1) [0..<length p] = p"
    using read_control_facing(1) [OF assms(1-3) _ assms(4)] by (auto simp: is_control_frame_def)
  have n: "unat (of_nat (length p) :: u64) = length p"
    using assms(4) by (auto intro!: small64)
  then have two: "(of_nat (length p) :: u64) > 2 \<longleftrightarrow> 2 < length p"
    by (simp add: word_less_nat_alt)
  have "ctrl_bytes 2 (length p - 2) w1 = Inr (drop 2 p)" if "2 < length p"
  proof -
    have "map (msg_ctrl w1) [2..<length p] = drop 2 (map (msg_ctrl w1) [0..<length p])"
      by (simp add: drop_map numeral_2_eq_2)
    then have "map (msg_ctrl w1) [2..<length p] = drop 2 p"
      by (simp only: w1(3))
    moreover have "2 + (length p - 2) = length p" "length p \<le> ctrlSize" using that assms(4) by simp_all
    ultimately show ?thesis by (simp only: ctrl_bytes_def if_True)
  qed
  then show ?thesis
    using w1 n two by (intro exI [of _ w1]) (simp add: close_frame_def is_utf8_len_valid)
qed

lemma frame_body_close:
  assumes "facing w (clientFrame True WS_FR_OP_CLSE ms p @ s) r" "\<not> error r" "length ms = 4" "length p \<le> 124"
    "ws_state (client r) \<noteq> WS_STATE_CLOSING"
  shows "\<exists>w'. frame_body e v w = (if 2 < length p \<and> \<not> validUtf8 (drop 2 p)
      then Inr (Break, v, w'\<lparr>error := True\<rparr>)
      else Inr (Return 0, v, w'\<lparr>frame_size := of_nat (length p), frame_type := uint WS_FR_OP_CLSE\<rparr>))
    \<and> facing w' s r \<and> map (msg_ctrl w') [0..<length p] = p"
proof -
  let ?s = "lengthRest (of_nat (length p)) @ ms @ masked ms 0 p @ s"
  have op: "is_control_frame WS_FR_OP_CLSE" "WS_FR_OP_CLSE \<in> {0, 1, 2, 8, 9, 10}" "length p \<le> 125"
    using assms(4) by (auto simp: is_control_frame_def)
  obtain w1 where w1: "frame_body e v w = dispatch_frame e WS_FR_OP_CLSE True v w1"
    "facing w1 ((0x80 OR lengthCode (of_nat (length p))) # ?s) r"
    using frame_body_starts [OF assms(1) op(2) _ assms(5), of e v] op(1) by auto
  obtain w2 where w2: "dispatch_frame e WS_FR_OP_CLSE True v w1 =
      bind_res (close_frame e True (of_nat (length p)) w2) (\<lambda>(f, w). Inr (f, v, w))" "facing w2 ?s r"
    using dispatch_control [OF w1(2) op(1,3), of e v] by auto
  show ?thesis
    using close_frame_facing [where e = e, OF w2(2) assms(2-4)] w1(1) w2(1) by auto
qed

lemma facing_closing:
  "facing w s r \<Longrightarrow> facing (w\<lparr>client := set_client_state WS_STATE_CLOSING (client w)\<rparr>) s
     (r\<lparr>client := set_client_state WS_STATE_CLOSING (client r)\<rparr>)"
  by (auto simp: facing_def fixed_def readable_def stream_def set_client_state_def)

lemma send_ctrl_facing:
  assumes "facing w s r" "map (msg_ctrl w) [0..<length q] = q" "length q \<le> 124" "granted e"
  shows "\<exists>w'. send_ctrl e (length q) WS_FR_OP_CLSE w = Inr (0, w') \<and> facing w' s (r\<lparr>client :=
    (client r)\<lparr>outgoing := outgoing (client r) @ frameHeader (of_nat (length q)) WS_FR_OP_CLSE @ q\<rparr>\<rparr>)"
  using ws_sendframe_facing [OF assms(1), of q WS_FR_OP_CLSE] assms(2-4)
  by (auto simp: send_ctrl_def ctrl_bytes_def granted_def)

lemma close_code_iff: "close_code_ok cc \<longleftrightarrow> cc \<in> closeCodes"
  by (auto simp: close_code_ok_def closeCodes_def)

lemma do_close_facing:
  assumes "facing w s r" "map (msg_ctrl w) [0..<length p] = p" "length p \<le> 124" "granted e"
    "frame_size w = of_nat (length p)"
  shows "\<exists>k w'. do_close e (-1) w = Inr (k, w')
    \<and> facing w' s (r\<lparr>client := (client r)\<lparr>outgoing := outgoing (client r) @ closeReply p\<rparr>\<rparr>)"
proof -
  have n: "unat (of_nat (length p) :: u64) = length p"
    using assms(3) by (auto intro!: small64)
  have size: "frame_size w = 0 \<longleftrightarrow> length p = 0" "frame_size w > 2 \<longleftrightarrow> 2 < length p" "frame_size w = 1 \<longleftrightarrow> length p = 1"
    using n assms(5) by (auto simp: word_less_nat_alt word_unat_eq_iff)
  have at: "msg_ctrl w i = p ! i" if "i < length p" for i
    using that arg_cong [OF assms(2), of "\<lambda>l. l ! i"] by simp
  show ?thesis
  proof (cases "length p = 1 \<or> length p = 2 \<and> uint (p ! 0) * 256 + uint (p ! 1) \<notin> closeCodes")
    case True
    let ?w = "w\<lparr>msg_ctrl := (msg_ctrl w)(0 := 3, 1 := 0xEA)\<rparr>"
    have "map (msg_ctrl ?w) [0..<length [3 :: u8, 0xEA]] = [3, 0xEA]"
      by (simp add: numeral_2_eq_2)
    from send_ctrl_facing [OF facing_upd(5) [OF assms(1)] this _ assms(4)] obtain w' where
      w': "send_ctrl e 2 WS_FR_OP_CLSE ?w = Inr (0, w')" "facing w' s (r\<lparr>client :=
        (client r)\<lparr>outgoing := outgoing (client r) @ closeReply p\<rparr>\<rparr>)"
      using True by (auto simp: closeReply_def numeral_2_eq_2)
    let ?cc = "if frame_size w = 1 then uint (msg_ctrl w 0) else uint (msg_ctrl w 0) * 256 + uint (msg_ctrl w 1)"
    have "uint (msg_ctrl w 0) < 256"
      using uint_lt2p [of "msg_ctrl w 0"] by simp
    then have small: "uint (msg_ctrl w 0) \<notin> closeCodes"
      by (simp add: closeCodes_def)
    have "p \<noteq> []" using True by auto
    with True small size(3) at [of 0] at [of 1] have "\<not> close_code_ok ?cc"
      unfolding close_code_iff by auto
    moreover have "\<not> (frame_size w = 0 \<or> frame_size w > 2)"
      using True size(1,2) by linarith
    ultimately have "do_close e (-1) w = custom_close e WS_CLSE_PROTERR w"
      by (simp only: do_close_def Let_def if_False if_True simp_thms)
    with w' show ?thesis by (auto simp: custom_close_def)
  next
    case False
    then have "do_close e (-1) w = bind_res (send_ctrl e (length p) WS_FR_OP_CLSE w) (\<lambda>(r, w). Inr (if r < 0 then -1 else 0, w))"
    proof (cases "length p = 2")
      case True
      with False have "close_code_ok (uint (msg_ctrl w 0) * 256 + uint (msg_ctrl w 1))"
        using at [of 0] at [of 1] by (simp add: close_code_iff)
      with True size n assms(5) show ?thesis by (simp add: do_close_def)
    next
      case False
      with \<open>\<not> (length p = 1 \<or> length p = 2 \<and> uint (p ! 0) * 256 + uint (p ! 1) \<notin> closeCodes)\<close>
      have "length p = 0 \<or> 2 < length p" by linarith
      with size have "frame_size w = 0 \<or> frame_size w > 2" by simp
      with n assms(5) show ?thesis by (simp add: do_close_def)
    qed
    with send_ctrl_facing [OF assms(1-4)] False show ?thesis
      by (auto simp: closeReply_def)
  qed
qed

text \<open>What is left of a session when its last message has been handled.\<close>

lemma next_frame_tail:
  assumes "readable w" "stream w = wire 0 cs @ endWire z" "list_all controlOk cs" "endOk z" "granted e"
    "\<not> error w" "ws_state (client w) \<noteq> WS_STATE_CLOSING"
  shows "\<exists>w' r. next_frame e w = frame_loop e startVars w' \<and> facing w' (endWire z) r \<and> \<not> error r
    \<and> ws_state (client r) = ws_state (client w) \<and> outgoing (client r) = outgoing (client w) @ concat (map answer cs)"
proof -
  let ?r = "(fixed w)\<lparr>frame_size := 0, frame_type := -1, msg := None\<rparr>"
  obtain w0 where w0: "next_frame e w = frame_loop e startVars w0" "facing w0 (wire 0 cs @ endWire z) ?r"
    using next_frame_start [OF assms(1,2)] by blast
  have "ws_state (fold controlEffect cs c) = ws_state c" for c
    by (induction cs arbitrary: c) simp_all
  moreover obtain w' where "frame_loop e startVars w0 = frame_loop e startVars w'"
    "facing w' (endWire z) (?r\<lparr>client := fold controlEffect cs (client ?r)\<rparr>)"
    using frame_loop_controls [OF w0(2) assms(3) _ _ assms(5), of startVars] assms(6,7) by auto
  ultimately show ?thesis
    using w0(1) assms(6)
    by (intro exI [of _ w'] exI [of _ "?r\<lparr>client := fold controlEffect cs (client ?r)\<rparr>"]) (simp add: fold_answers)
qed

text \<open>Messages in order: the kind and the items of each.\<close>

type_synonym wsMessage = "u8 \<times> item list"

definition wsMessageOk :: "wsMessage \<Rightarrow> bool" where
  "wsMessageOk = (\<lambda>(opcode, its). opcode \<in> {WS_FR_OP_TXT, WS_FR_OP_BIN} \<and> messageOk its \<and> payload its \<noteq> []
     \<and> length (payload its) \<le> maxFrame \<and> (opcode = WS_FR_OP_TXT \<longrightarrow> validUtf8 (payload its)))"

definition wireAll :: "wsMessage list \<Rightarrow> u8 list" where
  "wireAll ms = concat (map (\<lambda>(opcode, its). wire opcode its) ms)"

definition answersTo :: "wsMessage list \<Rightarrow> u8 list" where
  "answersTo ms = concat (map (\<lambda>(opcode, its). concat (map answer its)) ms)"

text \<open>
  What the library asks of a program: its callbacks return, and the one for messages depends on the payload in
  the block only, not on what is behind it.
\<close>

locale ws_program =
  fixes ev :: "'s ws_events" and opened closed :: "'s \<Rightarrow> 's" and received :: "u8 list \<Rightarrow> 's \<Rightarrow> 's"
  assumes onopen: "onopen ev c s = Inr (opened s)"
    and onclose: "onclose ev c s = Inr (closed s)"
    and onmessage: "p \<noteq> [] \<Longrightarrow> content p True m \<Longrightarrow> onmessage ev c m n t s = Inr (received p s)"
begin

lemma message_loop_end:
  assumes "readable w" "stream w = wire 0 cs @ endWire z" "list_all controlOk cs" "endOk z" "granted e"
    "\<not> error w" "ws_state (client w) = WS_STATE_OPEN"
  shows "\<exists>w'. message_loop e ev w s = Inr (w', s)
    \<and> outgoing (client w') = outgoing (client w) @ concat (map answer cs) @ endReply z
    \<and> ws_state (client w') \<noteq> WS_STATE_CLOSED"
proof -
  obtain w0 r where w0: "next_frame e w = frame_loop e startVars w0" "facing w0 (endWire z) r" "\<not> error r"
    "ws_state (client r) = WS_STATE_OPEN" "outgoing (client r) = outgoing (client w) @ concat (map answer cs)"
    using next_frame_tail [OF assms(1-6)] assms(7) by auto
  show ?thesis
  proof (cases z)
    case Gone
    then obtain w1 where w1: "next_byte w0 = Inr (None, w1)" "client w1 = (client w0)\<lparr>incoming := incoming (client w1)\<rparr>"
      using next_byte_end [of w0 r] w0(2) by auto
    have "next_frame e w = Inr (-1, w1)"
      using w0(1) w1(1) by (simp add: frame_loop.simps [of e startVars w0] frame_body_def)
    moreover have "outgoing (client w1) = outgoing (client w0)" "ws_state (client w1) = ws_state (client w0)"
      using arg_cong [OF w1(2), of outgoing] arg_cong [OF w1(2), of ws_state] by simp_all
    ultimately show ?thesis
      using facing_fields [OF w0(2)] w0(4,5) Gone by (subst message_loop.simps) simp
  next
    case (Close ms p behind)
    then have z: "facing w0 (clientFrame True WS_FR_OP_CLSE ms p @ behind) r" "length ms = 4" "length p \<le> 124"
      using w0(2) assms(4) by auto
    obtain w1 where w1: "frame_body e startVars w0 = (if 2 < length p \<and> \<not> validUtf8 (drop 2 p)
        then Inr (Break, startVars, w1\<lparr>error := True\<rparr>)
        else Inr (Return 0, startVars, w1\<lparr>frame_size := of_nat (length p), frame_type := uint WS_FR_OP_CLSE\<rparr>))"
      "facing w1 behind r" "map (msg_ctrl w1) [0..<length p] = p"
      using frame_body_close [where e = e and v = startVars, OF z(1) w0(3) z(2,3)] w0(4) by auto
    show ?thesis
    proof (cases "2 < length p \<and> \<not> validUtf8 (drop 2 p)")
      case True
      then have "next_frame e w = Inr (-1, w1\<lparr>error := True, msg := None\<rparr>)"
        using w0(1) w1(1) by (simp add: frame_loop.simps [of e startVars w0] finish_message_def)
      then show ?thesis
        using facing_fields [OF w1(2)] w0(4,5) True Close by (subst message_loop.simps) simp
    next
      case False
      let ?w = "w1\<lparr>frame_size := of_nat (length p), frame_type := uint WS_FR_OP_CLSE\<rparr>"
      let ?r = "r\<lparr>frame_size := of_nat (length p), frame_type := uint WS_FR_OP_CLSE\<rparr>"
      have w: "facing ?w behind ?r" "\<not> error ?w" "ws_state (client ?w) = WS_STATE_OPEN"
        using facing_upd(2,3) w1(2) facing_fields [OF w1(2)] w0(3,4) by auto
      let ?c = "\<lambda>w. w\<lparr>client := set_client_state WS_STATE_CLOSING (client w)\<rparr>"
      obtain k w2 where w2: "do_close e (-1) (?c ?w) = Inr (k, w2)" "facing w2 behind
          ((?c ?r)\<lparr>client := (client (?c ?r))\<lparr>outgoing := outgoing (client (?c ?r)) @ closeReply p\<rparr>\<rparr>)"
        using do_close_facing [OF facing_closing [OF w(1)], of p e] w1(3) z(3) assms(5) by auto
      have "next_frame e w = Inr (0, ?w)"
        using w0(1) w1(1) False by (simp add: frame_loop.simps [of e startVars w0])
      then have "message_loop e ev w s = Inr (w2, s)"
        using w(2,3) w2(1) by (subst message_loop.simps) simp
      then show ?thesis
        using facing_fields [OF w2(2)] w0(4,5) False Close by (auto simp: set_client_state_def)
    qed
  qed
qed

lemma message_loop_session:
  "readable w \<Longrightarrow> stream w = wireAll ms @ wire 0 cs @ endWire z \<Longrightarrow> list_all wsMessageOk ms \<Longrightarrow>
   list_all controlOk cs \<Longrightarrow> endOk z \<Longrightarrow> \<not> error w \<Longrightarrow> ws_state (client w) = WS_STATE_OPEN \<Longrightarrow> granted e \<Longrightarrow>
   \<exists>w'. message_loop e ev w s = Inr (w', fold (received \<circ> payload \<circ> snd) ms s)
    \<and> outgoing (client w') = outgoing (client w) @ answersTo ms @ concat (map answer cs) @ endReply z
    \<and> ws_state (client w') \<noteq> WS_STATE_CLOSED"
proof (induction ms arbitrary: w s)
  case Nil
  then show ?case
    using message_loop_end [of w cs z e s] by (simp add: wireAll_def answersTo_def)
next
  case (Cons m ms)
  obtain opcode its where m: "m = (opcode, its)" by (cases m)
  have ok: "opcode \<in> {WS_FR_OP_TXT, WS_FR_OP_BIN}" "messageOk its" "payload its \<noteq> []"
    "length (payload its) \<le> maxFrame" "opcode = WS_FR_OP_TXT \<longrightarrow> validUtf8 (payload its)" "list_all wsMessageOk ms"
    using Cons.prems(3) by (auto simp: wsMessageOk_def m)
  have "stream w = wire opcode its @ wireAll ms @ wire 0 cs @ endWire z"
    using Cons.prems(2) by (simp add: wireAll_def m)
  from next_frame_message_lemma [OF Cons.prems(1) this ok(2,1) Cons.prems(6) _ Cons.prems(8) ok(4,5)] Cons.prems(7) obtain w1 where
    w1: "next_frame e w = Inr (0, w1)" "readable w1" "stream w1 = wireAll ms @ wire 0 cs @ endWire z" "\<not> error w1"
      "frame_type w1 = uint opcode" "content (payload its) True (msg w1)"
      "ws_state (client w1) = ws_state (client w)" "outgoing (client w1) = outgoing (client w) @ concat (map answer its)"
    by auto
  have "message_loop e ev w s = message_loop e ev w1 (received (payload its) s)"
    using w1(1,4,5) ok(1) onmessage [OF ok(3) w1(6)] by (subst message_loop.simps) auto
  then show ?case
    using Cons.IH [OF w1(2,3) ok(6) Cons.prems(4,5) w1(4) _ Cons.prems(8), of "received (payload its) s"]
      Cons.prems(7) w1(7,8)
    by (auto simp: m answersTo_def)
qed

end

context ws_program
begin

lemma session:
  assumes "requestOk ls key rest" "incoming c = (requestOf ls key rest @ x) # ps"
    "length (requestOf ls key rest @ x) < MESSAGE_LENGTH"
    "x @ concat (takeWhile (\<lambda>p. p \<noteq> []) ps) = wireAll ms @ wire 0 cs @ endWire z"
    "list_all wsMessageOk ms" "list_all controlOk cs" "endOk z" "\<forall>i. sends c i \<noteq> None" "granted e"
  shows "\<exists>c'. ws_establishconnection e ctx ev c s
      = Inr (c', closed (fold (received \<circ> payload \<circ> snd) ms (opened s)))
    \<and> outgoing c' = outgoing c @ responseTo key @ answersTo ms @ concat (map answer cs) @ endReply z
    \<and> ws_state c' = WS_STATE_CLOSED \<and> client_sock c' = -1"
proof -
  let ?s = "wireAll ms @ wire 0 cs @ endWire z"
  obtain w where w: "do_handshake ctx ev (zeroFrame c) s = Inr (0, w, opened s)" "readable w" "stream w = ?s"
    "\<not> error w" "ws_state (client w) = ws_state c" "outgoing (client w) = outgoing c @ responseTo key"
    using do_handshake_ok [OF assms(1-3,8), of ev s opened ctx] onopen assms(4) by auto
  let ?w = "w\<lparr>client := set_client_state WS_STATE_OPEN (client w)\<rparr>"
  have "readable ?w" "stream ?w = ?s" "\<not> error ?w" "ws_state (client ?w) = WS_STATE_OPEN"
    "outgoing (client ?w) = outgoing (client w)"
    using w(2-4) by (auto simp: readable_def stream_def set_client_state_def)
  from message_loop_session [OF this(1,2) assms(5-7) this(3,4) assms(9), of "opened s"] this(5) obtain w' where
    w': "message_loop e ev ?w (opened s) = Inr (w', fold (received \<circ> payload \<circ> snd) ms (opened s))"
      "outgoing (client w') = outgoing c @ responseTo key @ answersTo ms @ concat (map answer cs) @ endReply z"
      "ws_state (client w') \<noteq> WS_STATE_CLOSED"
    using w(6) by auto
  then show ?thesis
    using w(1) onclose by (simp add: ws_establishconnection_def close_client_def set_client_state_def Let_def)
qed

end

end
