(* ===== verification/Server_Websocket.thy ===== *)
theory Server_Websocket
  imports Ws_Connection Machine_Properties Cpu_Debug_Properties
begin

text \<open>
  The server, \<^verbatim>\<open>src/Platforms/main_server.c\<close>, on top of the WebSocket library: its callbacks for a connection,
  the export of the CPU after every cycle as a text frame, and waiting. The callbacks get the block that
  \<open>next_frame\<close> has filled, NULL for an empty message.
\<close>

section \<open>Callbacks\<close>

definition chars :: "u8 list \<Rightarrow> string" where
  "chars s = map (\<lambda>b. char_of (unat b)) s"

lemma chars_bytes [simp]: "chars (bytes s) = s"
proof -
  have "char_of (unat (of_char c :: u8)) = c" for c
  proof -
    have "(of_char c :: u8) = of_nat (of_char c)" by (simp only: of_nat_of_char)
    then have "unat (of_char c :: u8) = (of_char c :: nat) mod 256"
      by (simp only: unat_of_nat) simp
    then show ?thesis by simp
  qed
  then show ?thesis by (simp add: chars_def bytes_def comp_def)
qed

text \<open>Reading a C string from a block; a NULL pointer given to \<open>strcmp\<close> is a fault.\<close>

definition blockString :: "buffer option \<Rightarrow> string res" where
  "blockString m =
    (case m of None \<Rightarrow> Inl NullPointer
     | Some b \<Rightarrow>
       let s = map (bdata b) [0..<bsize b] in
       if 0 \<in> set s then Inr (chars (cstr s)) else Inl OutOfBounds)"

definition serverEvents :: "server ws_events" where
  "serverEvents = \<lparr>onopen = (\<lambda>_ s. Inr (OnOpen s)), onclose = (\<lambda>_ s. Inr (OnClose s)),
     onmessage = (\<lambda>_ m _ _ s. bind_res (blockString m) (\<lambda>text. Inr (OnMessage text s)))\<rparr>"

text \<open>What a payload says to the server: the string before its first zero byte.\<close>

definition command :: "u8 list \<Rightarrow> string" where
  "command p = chars (cstr p)"

lemma command_bytes: "list_all (\<lambda>b. b \<noteq> 0) (bytes s) \<Longrightarrow> command (bytes s) = s"
  using cstr_append [of "bytes s" "[]"] by (simp add: command_def) (simp add: cstr_def)

lemma blockString_content: "p \<noteq> [] \<Longrightarrow> content p True m \<Longrightarrow> blockString m = Inr (command p)"
proof -
  assume p: "p \<noteq> []" "content p True m"
  then obtain b where b: "m = Some b" "bsize b = Suc (length p)" "map (bdata b) [0..<length p] = p" "bdata b (length p) = 0"
    by (cases m) (auto simp: content_def)
  then have "map (bdata b) [0..<bsize b] = p @ [0]"
    by simp
  moreover have "cstr (p @ [0]) = cstr p"
    by (induction p) (simp_all add: cstr_def)
  ultimately show ?thesis
    by (simp add: blockString_def b(1) command_def Let_def)
qed

interpretation server: ws_program serverEvents OnOpen OnClose "\<lambda>p. OnMessage (command p)"
  by unfold_locales (simp_all add: serverEvents_def blockString_content)

text \<open>
  \<^bold>\<open>C10.\<close> A whole session of a client with the server. The first piece that arrives holds the request, and the rest
  of the stream is a sequence of messages with control frames between and inside them, and then its end or a
  close frame with anything behind it. A message is a text or binary message that is not empty, in any number of masked
  frames, of up to 16 MB, and valid UTF-8 if it is text; a control frame has up to 124 bytes. Then the
  connection runs to its end without a fault, whatever pieces the bytes come in: the response to the handshake, the
  answers to the pings, and the reply to the close frame have been sent, the connection is closed and its slot
  free, and the flags of the server are what \<open>OnOpen\<close>, the commands in their order and \<open>OnClose\<close> make of
  them. A command ends at the first zero byte of its message; a binary message counts as well as a text. The
  close frame is sent back, with the code 1002 instead of one that must not be sent; a reason that is not
  UTF-8 gets no reply.
\<close>

theorem server_session:
  assumes "requestOk ls key rest" and "incoming c = (requestOf ls key rest @ x) # ps"
    and "length (requestOf ls key rest @ x) < MESSAGE_LENGTH"
    and "x @ concat (takeWhile (\<lambda>p. p \<noteq> []) ps) = wireAll ms @ wire 0 cs @ endWire z"
    and "list_all wsMessageOk ms" and "list_all controlOk cs" and "endOk z"
    and "\<forall>i. sends c i \<noteq> None" and "granted e"
  shows "\<exists>c'. ws_establishconnection e ctx serverEvents c s
      = Inr (c', OnClose (fold (\<lambda>m. OnMessage (command (payload (snd m)))) ms (OnOpen s)))
    \<and> outgoing c' = outgoing c @ responseTo key @ answersTo ms @ concat (map answer cs) @ endReply z
    \<and> ws_state c' = WS_STATE_CLOSED \<and> client_sock c' = -1"
  using server.session [OF assms, of ctx s] by (simp add: comp_def)

definition demoRequest :: "u8 list" where
  "demoRequest = requestOf [bytes ''GET / HTTP/1.1''] (bytes ''dGhlIHNhbXBsZSBub25jZQ=='') CRLF"

definition demoMessages :: "wsMessage list" where
  "demoMessages = [(WS_FR_OP_TXT, resetItems), (WS_FR_OP_TXT, [Part [1, 1, 1, 1] (bytes ''start'')])]"

lemma demo_request_ok: "requestOk [bytes ''GET / HTTP/1.1''] (bytes ''dGhlIHNhbXBsZSBub25jZQ=='') CRLF"
  by (simp add: requestOk_def requestOf_def lineOk_def bytes_def WS_HS_REQ_def CRLF_def)

text \<open>A ping after the messages, a close frame with the code 1000, and a byte behind it.\<close>

definition demoStream :: "u8 list" where
  "demoStream = wireAll demoMessages @ wire 0 [Ping [5, 6, 7, 8] [42]] @ endWire (Close [1, 2, 3, 4] [0x03, 0xE8] [7])"

lemma server_session_witness:
  "\<exists>c' s'. ws_establishconnection plainEnv staleContext serverEvents
      (openConnection [demoRequest @ take 9 demoStream, drop 9 demoStream]) (InitGlobals nopMachine)
      = Inr (c', s') \<and> restartGame s' \<and> startGame s' \<and> \<not> stepGame s' \<and> \<not> wsConnected s'
    \<and> outgoing c' = responseTo (bytes ''dGhlIHNhbXBsZSBub25jZQ=='') @ [0x8A, 1, 42, 0x8A, 1, 42, 0x88, 2, 0x03, 0xE8]"
proof -
  let ?c = "openConnection [demoRequest @ take 9 demoStream, drop 9 demoStream]"
  have ms: "list_all wsMessageOk demoMessages" "drop 9 demoStream \<noteq> []"
    "length demoRequest + length (take 9 demoStream) < MESSAGE_LENGTH"
    by (simp_all add: demoMessages_def resetItems_def wsMessageOk_def bytes_def validUtf8_run stepOf_def wireAll_def
        clientFrame_def lengthRest_def demoRequest_def requestOf_def WS_HS_REQ_def CRLF_def demoStream_def)
  have replies: "answersTo demoMessages = [0x8A, 1, 42]"
    "concat (map answer [Ping [5, 6, 7, 8] [42]]) = [0x8A, 1, 42]"
    "endReply (Close [1, 2, 3, 4] [0x03, 0xE8] [7]) = [0x88, 2, 0x03, 0xE8]"
    by (simp_all add: answersTo_def demoMessages_def resetItems_def frameHeader_def closeReply_def closeCodes_def)
  have run: "fold (\<lambda>m. OnMessage (command (payload (snd m)))) demoMessages (OnOpen (InitGlobals nopMachine))
      = OnMessage ''start'' (OnMessage ''reset'' (OnOpen (InitGlobals nopMachine)))"
  proof -
    have "payload resetItems = bytes ''reset''" "command (bytes ''reset'') = ''reset''" "command (bytes ''start'') = ''start''"
      by (simp add: resetItems_def bytes_def, (rule command_bytes, simp add: bytes_def)+)
    then show ?thesis by (simp add: demoMessages_def)
  qed
  have all: "take 9 demoStream @ drop 9 demoStream
      = wireAll demoMessages @ wire 0 [Ping [5, 6, 7, 8] [42]] @ endWire (Close [1, 2, 3, 4] [0x03, 0xE8] [7])"
    by (simp only: append_take_drop_id demoStream_def)
  obtain c' where "ws_establishconnection plainEnv staleContext serverEvents ?c (InitGlobals nopMachine)
      = Inr (c', OnClose (OnMessage ''start'' (OnMessage ''reset'' (OnOpen (InitGlobals nopMachine)))))"
    "outgoing c' = responseTo (bytes ''dGhlIHNhbXBsZSBub25jZQ=='') @ [0x8A, 1, 42, 0x8A, 1, 42, 0x88, 2, 0x03, 0xE8]"
    using server_session [OF demo_request_ok, of ?c "take 9 demoStream" "[drop 9 demoStream]" demoMessages
        "[Ping [5, 6, 7, 8] [42]]" "Close [1, 2, 3, 4] [0x03, 0xE8] [7]" plainEnv staleContext "InitGlobals nopMachine"]
      ms all unfolding run replies by (auto simp: openConnection_def demoRequest_def demo_simps)
  then show ?thesis
    by (auto simp: OnMessage_def OnOpen_def OnClose_def InitGlobals_def Let_def)
qed

text \<open>
  \<^bold>\<open>C40.\<close> An empty message ends the server. After the handshake, a client that sends a text or binary message
  without a payload, one masked frame of 6 bytes, gets \<open>OnMessage\<close> called with NULL, which it hands to
  \<open>strcmp\<close>.
\<close>

theorem empty_message_crashes:
  assumes "requestOk ls key rest" and "incoming c = (requestOf ls key rest @ x) # ps"
    and "length (requestOf ls key rest @ x) < MESSAGE_LENGTH"
    and "x @ concat (takeWhile (\<lambda>p. p \<noteq> []) ps) = wire opcode its @ r" and "messageOk its" and "payload its = []"
    and "opcode \<in> {WS_FR_OP_TXT, WS_FR_OP_BIN}" and "\<forall>i. sends c i \<noteq> None" and "granted e"
  shows "ws_establishconnection e ctx serverEvents c s = Inl NullPointer"
proof -
  obtain w where w: "do_handshake ctx serverEvents (zeroFrame c) s = Inr (0, w, OnOpen s)" "readable w"
    "stream w = wire opcode its @ r" "\<not> error w"
    using do_handshake_ok [OF assms(1-3,8), of serverEvents s OnOpen ctx] server.onopen assms(4) by auto
  let ?w = "w\<lparr>client := set_client_state WS_STATE_OPEN (client w)\<rparr>"
  have o: "readable ?w" "stream ?w = wire opcode its @ r" "\<not> error ?w" "ws_state (client ?w) \<noteq> WS_STATE_CLOSING"
    using w(2-4) by (auto simp: readable_def stream_def set_client_state_def)
  obtain w' where w': "next_frame e ?w = Inr (0, w')" "\<not> error w'" "frame_type w' = uint opcode" "content [] True (msg w')"
    using next_frame_message_lemma [OF o(1,2) assms(5,7) o(3,4) assms(9)] assms(6)
    by (auto simp: validUtf8_run)
  have "blockString (msg w') = Inl NullPointer"
    using w'(4) by (cases "msg w'") (auto simp: content_def blockString_def)
  then have "message_loop e serverEvents ?w (OnOpen s) = Inl NullPointer"
    using w'(1-3) assms(7) by (subst message_loop.simps) (auto simp: serverEvents_def)
  then show ?thesis
    using w(1) by (simp add: ws_establishconnection_def)
qed

lemma empty_message_crashes_witness:
  "ws_establishconnection plainEnv staleContext serverEvents
     (openConnection [demoRequest, [0x81, 0x80, 0, 0, 0, 0]]) (InitGlobals nopMachine) = Inl NullPointer"
proof -
  have "[0x81, 0x80, 0, 0, 0, 0] = wire WS_FR_OP_TXT [Part [0, 0, 0, 0] []]" "length demoRequest < MESSAGE_LENGTH"
    by (simp_all add: clientFrame_def lengthCode_def lengthRest_def demoRequest_def requestOf_def bytes_def
        WS_HS_REQ_def CRLF_def)
  with empty_message_crashes [OF demo_request_ok, of "openConnection [demoRequest, [0x81, 0x80, 0, 0, 0, 0]]" "[]"
      "[[0x81, 0x80, 0, 0, 0, 0]]" WS_FR_OP_TXT "[Part [0, 0, 0, 0] []]" "[]" plainEnv]
  show ?thesis
    by (simp add: openConnection_def demoRequest_def demo_simps)
qed

section \<open>Frames of the server\<close>

text \<open>How a client reads a frame that is not masked: its kind, its payload and what follows.\<close>

definition takePayload :: "u8 \<Rightarrow> nat \<Rightarrow> u8 list \<Rightarrow> (u8 \<times> u8 list \<times> u8 list) option" where
  "takePayload type n r = (if n \<le> length r then Some (type, take n r, drop n r) else None)"

definition readServerFrame :: "u8 list \<Rightarrow> (u8 \<times> u8 list \<times> u8 list) option" where
  "readServerFrame bs =
    (case bs of b0 # b1 # r \<Rightarrow>
        if b0 AND 0xF0 \<noteq> WS_FIN then None
        else if b1 < 126 then takePayload (b0 AND 0xF) (unat b1) r
        else if b1 = 126 then takePayload (b0 AND 0xF) (unat (beValue (take 2 r) 0)) (drop 2 r)
        else if b1 = 127 then takePayload (b0 AND 0xF) (unat (beValue (take 8 r) 0)) (drop 8 r)
        else None
     | _ \<Rightarrow> None)"

lemma frameHeader_eq:
  "frameHeader n type =
    (if n \<le> 125 then [WS_FIN OR type, ucast n]
     else if n \<le> 65535 then [WS_FIN OR type, 126] @ be16_of n
     else [WS_FIN OR type, 127] @ be64_of n)"
proof -
  have low: "ucast (m AND 255) = (ucast m :: u8)" for m :: u64
    by (rule bit_word_eqI) (auto simp: bit_simps)
  have ge: "126 \<le> n \<longleftrightarrow> \<not> n \<le> 125"
    by (auto simp: word_le_nat_alt)
  have small: "n AND 0x7F = n" if "n \<le> 125"
  proof -
    have "n AND 0x7F = take_bit 7 n"
      by (simp add: take_bit_eq_mask mask_eq_decr_exp)
    then have "unat (n AND 0x7F) = take_bit 7 (unat n)"
      by (simp only: unsigned_take_bit_eq)
    then have "unat (n AND 0x7F) = unat n"
      using that by (simp add: take_bit_eq_mod word_le_nat_alt)
    then show ?thesis
      by (simp only: word_unat_eq_iff)
  qed
  show ?thesis
    using small by (simp add: frameHeader_def be16_of_def be64_of_def low ge)
qed

lemma readServerFrame_header:
  assumes "length m < 2 ^ 64" "type \<in> {WS_FR_OP_TXT, WS_FR_OP_BIN, WS_FR_OP_CLSE, WS_FR_OP_PING, WS_FR_OP_PONG}"
  shows "readServerFrame (frameHeader (of_nat (length m)) type @ m @ r) = Some (type, m, r)"
proof -
  let ?n = "of_nat (length m) :: u64"
  have n: "unat ?n = length m" using assms(1) by (rule small64)
  have type: "(WS_FIN OR type) AND 0xF0 = WS_FIN" "(WS_FIN OR type) AND 0xF = type"
    using assms(2) by auto
  consider "?n \<le> 125" | "\<not> ?n \<le> 125" "?n \<le> 65535" | "\<not> ?n \<le> 125" "\<not> ?n \<le> 65535" by blast
  then show ?thesis
  proof cases
    case 1
    then have le: "length m \<le> 125" using n by (simp add: word_le_nat_alt)
    have "unat (ucast ?n :: u8) = length m"
      using n le by (simp add: unsigned_ucast_eq take_bit_nat_eq_self)
    moreover from this have "(ucast ?n :: u8) < 126"
      using le by (simp add: word_less_nat_alt)
    ultimately show ?thesis
      using 1 type by (simp add: frameHeader_eq readServerFrame_def takePayload_def)
  next
    case 2
    then show ?thesis
      using type n be16_value [OF 2(2)] by (simp add: frameHeader_eq readServerFrame_def takePayload_def) (simp add: be16_of_def takePayload_def numeral_2_eq_2)
  next
    case 3
    then show ?thesis
      using type n be64_value [of ?n] be64_length [of ?n] by (simp add: frameHeader_eq readServerFrame_def takePayload_def)
  qed
qed

section \<open>The export\<close>

text \<open>
  \<open>wsClient\<close> is the index of the client in the library's array, or NULL before the first connection, which
  sends to all. The object and the printed text stay on the heap when printing fails, and the text always
  does; \<open>junk\<close> is what the printing buffer holds at first.
\<close>

definition SendWebsocketData ::
    "ws_env \<Rightarrow> (nat \<Rightarrow> char) \<Rightarrow> nat option \<Rightarrow> gb \<Rightarrow> connection list \<Rightarrow> connection list res" where
  "SendWebsocketData e junk wsClient g clients =
    bind_res (cJSON_Print junk (GetCPUDataAsJSON g)) (\<lambda>jsonString.
      case jsonString of None \<Rightarrow> Inr clients
      | Some text \<Rightarrow>
        (case wsClient of
           None \<Rightarrow> Inr (snd (ws_sendframe_all (mallocOk e) (bytes text) WS_FR_OP_TXT clients))
         | Some i \<Rightarrow>
             if i < length clients then Inr (clients[i := snd (ws_sendframe_txt (mallocOk e) text (clients ! i))])
             else Inl OutOfBounds))"

text \<open>\<open>LoopCycle\<close> of the server with its last call.\<close>

definition serverCycle ::
    "ws_env \<Rightarrow> (nat \<Rightarrow> char) \<Rightarrow> nat option \<Rightarrow> gb \<times> connection list \<Rightarrow> (gb \<times> connection list) res" where
  "serverCycle e junk wsClient =
    (\<lambda>(g, clients). bind_res (LoopCycle g) (\<lambda>g.
       bind_res (SendWebsocketData e junk wsClient g clients) (\<lambda>clients. Inr (g, clients))))"

text \<open>Waiting: the results of \<open>nanosleep\<close>, and whether a signal interrupted it; \<open>None\<close> is to wait on.\<close>

fun sleepLoop :: "(int \<times> bool) list \<Rightarrow> int option" where
  "sleepLoop [] = None"
| "sleepLoop ((r, interrupted) # rs) = (if r \<noteq> 0 \<and> interrupted then sleepLoop rs else Some r)"

definition msleep :: "int \<Rightarrow> (int \<times> bool) list \<Rightarrow> int option" where
  "msleep tms results = (if tms < 0 then Some (-1) else sleepLoop results)"

lemma send_export:
  assumes "nameOk (lastOpcodeName g)" "i < length clients" "\<forall>k. sends (clients ! i) k \<noteq> None" "mallocOk e"
  shows "\<exists>c. SendWebsocketData e junk (Some i) g clients = Inr (clients[i := c])
    \<and> outgoing c = outgoing (clients ! i)
        @ frameHeader (of_nat (length (jsonText 0 (cpuObject g)))) WS_FR_OP_TXT @ bytes (jsonText 0 (cpuObject g))
    \<and> (\<forall>k. sends c k \<noteq> None)"
proof -
  let ?t = "jsonText 0 (cpuObject g)"
  have "length ?t + 4 \<le> INT_MAX div 2"
    using cpuObject_length [OF assms(1)] by (simp add: INT_MAX_def)
  then have p: "cJSON_Print junk (GetCPUDataAsJSON g) = Inr (Some ?t)"
    unfolding GetCPUDataAsJSON_object by (rule cJSON_Print_text [OF cpuObject_ok [OF assms(1)]])
  obtain f where "send_all (frameHeader (of_nat (length ?t)) WS_FR_OP_TXT @ bytes ?t) (clients ! i)
      = (0, (clients ! i)\<lparr>outgoing := outgoing (clients ! i)
          @ frameHeader (of_nat (length ?t)) WS_FR_OP_TXT @ bytes ?t, sends := f\<rparr>)" "\<forall>k. f k \<noteq> None"
    using send_all_ok [OF assms(3)] by metis
  then show ?thesis
    using p assms(2,4)
    by (intro exI [of _ "(clients ! i)\<lparr>outgoing := outgoing (clients ! i)
          @ frameHeader (of_nat (length ?t)) WS_FR_OP_TXT @ bytes ?t, sends := f\<rparr>"])
      (simp add: SendWebsocketData_def ws_sendframe_txt_def ws_sendframe_def Let_def)
qed

text \<open>The texts that a client reads, one frame each, until nothing is left.\<close>

fun readTexts :: "nat \<Rightarrow> u8 list \<Rightarrow> string list option" where
  "readTexts 0 bs = (if bs = [] then Some [] else None)"
| "readTexts (Suc n) bs =
     (case readServerFrame bs of None \<Rightarrow> None
      | Some (type, m, r) \<Rightarrow>
          if type = WS_FR_OP_TXT then map_option (\<lambda>ts. chars m # ts) (readTexts n r) else None)"

lemma readTexts_frame:
  "length t \<le> 600 \<Longrightarrow> readTexts (Suc n) (frameHeader (of_nat (length t)) WS_FR_OP_TXT @ bytes t @ r)
    = map_option (\<lambda>ts. t # ts) (readTexts n r)"
  using readServerFrame_header [of "bytes t" WS_FR_OP_TXT r] by simp

lemma export_frames:
  "safe g \<Longrightarrow> nameOk (lastOpcodeName g) \<Longrightarrow> i < length clients \<Longrightarrow> \<forall>k. sends (clients ! i) k \<noteq> None \<Longrightarrow> mallocOk e \<Longrightarrow>
   \<exists>g' clients' sent ts. cycles (serverCycle e junk (Some i)) n (g, clients) = Inr (g', clients')
    \<and> cycles LoopCycle n g = Inr g' \<and> length clients' = length clients
    \<and> (\<forall>j < length clients. j \<noteq> i \<longrightarrow> clients' ! j = clients ! j)
    \<and> outgoing (clients' ! i) = outgoing (clients ! i) @ sent \<and> readTexts n sent = Some ts
    \<and> (\<forall>k < n. \<exists>gk. cycles LoopCycle (Suc k) g = Inr gk \<and> readJson (ts ! k) = Some (cpuObject gk))"
proof (induction n arbitrary: g clients)
  case (Suc n)
  obtain g1 where g1: "LoopCycle g = Inr g1" "safe g1"
    using LoopCycle_total [OF Suc.prems(1)] by blast
  have n1: "nameOk (lastOpcodeName g1)"
    using LoopCycle_named [OF g1(1)] .
  let ?t = "jsonText 0 (cpuObject g1)"
  obtain c where c: "SendWebsocketData e junk (Some i) g1 clients = Inr (clients[i := c])"
    "outgoing c = outgoing (clients ! i) @ frameHeader (of_nat (length ?t)) WS_FR_OP_TXT @ bytes ?t"
    "\<forall>k. sends c k \<noteq> None"
    using send_export [OF n1 Suc.prems(3-5)] by blast
  have "\<forall>k. sends (clients[i := c] ! i) k \<noteq> None" "i < length (clients[i := c])"
    using c(3) Suc.prems(3) by simp_all
  from Suc.IH [OF g1(2) n1 this(2,1) Suc.prems(5)] obtain g' clients' sent ts where r:
    "cycles (serverCycle e junk (Some i)) n (g1, clients[i := c]) = Inr (g', clients')"
    "cycles LoopCycle n g1 = Inr g'" "length clients' = length clients"
    "\<forall>j < length clients. j \<noteq> i \<longrightarrow> clients' ! j = clients ! j"
    "outgoing (clients' ! i) = outgoing c @ sent" "readTexts n sent = Some ts"
    "\<forall>k < n. \<exists>gk. cycles LoopCycle (Suc k) g1 = Inr gk \<and> readJson (ts ! k) = Some (cpuObject gk)"
    using Suc.prems(3) by auto
  let ?sent = "frameHeader (of_nat (length ?t)) WS_FR_OP_TXT @ bytes ?t @ sent"
  have "readTexts (Suc n) ?sent = Some (?t # ts)"
    using readTexts_frame [OF cpuObject_length [OF n1], of n sent] r(6) by simp
  moreover have "\<exists>gk. cycles LoopCycle (Suc k) g = Inr gk \<and> readJson ((?t # ts) ! k) = Some (cpuObject gk)" if "k < Suc n" for k
  proof (cases k)
    case 0
    then show ?thesis using g1(1) jsonText_reads by simp
  next
    case (Suc m)
    then have "\<exists>gk. cycles LoopCycle (Suc m) g1 = Inr gk \<and> readJson (ts ! m) = Some (cpuObject gk)"
      using r(7) that by blast
    then show ?thesis using Suc g1(1) by simp
  qed
  ultimately show ?case
    using g1(1) c(1,2) r(1-5) by (intro exI [of _ g'] exI [of _ clients'] exI [of _ ?sent] exI [of _ "?t # ts"])
      (simp add: serverCycle_def)
qed simp

text \<open>
  \<^bold>\<open>C8.\<close> What the server sends is what the machine does. For any number of cycles of a machine whose cartridge
  cannot fault, with the client's \<open>send\<close> taking any number of bytes at a time, the cycles run without a fault
  to the state they reach without a client, other clients get nothing, and the bytes sent to the client are
  exactly one text frame per cycle: read as RFC 6455 says and then as JSON, the \<open>k\<close>th is the object of the
  registers and of the last instruction after \<open>k\<close> cycles.
\<close>

theorem export_stream:
  assumes "safe g" and "nameOk (lastOpcodeName g)" and "i < length clients"
    and "\<forall>k. sends (clients ! i) k \<noteq> None" and "mallocOk e"
  shows "\<exists>g' clients' sent ts. cycles (serverCycle e junk (Some i)) n (g, clients) = Inr (g', clients')
    \<and> cycles LoopCycle n g = Inr g' \<and> (\<forall>j < length clients. j \<noteq> i \<longrightarrow> clients' ! j = clients ! j)
    \<and> outgoing (clients' ! i) = outgoing (clients ! i) @ sent \<and> readTexts n sent = Some ts
    \<and> (\<forall>k < n. \<exists>gk. cycles LoopCycle (Suc k) g = Inr gk \<and> readJson (ts ! k) = Some (cpuObject gk))"
  using export_frames [OF assms, of junk n] by blast

lemma export_stream_witness:
  "\<exists>g' clients' sent ts. cycles (serverCycle plainEnv (\<lambda>_. CHR ''x'') (Some 0)) 100 (nopMachine, [openConnection []]) = Inr (g', clients')
    \<and> outgoing (clients' ! 0) = sent \<and> readTexts 100 sent = Some ts
    \<and> (\<exists>gk. cycles LoopCycle 42 nopMachine = Inr gk \<and> readJson (ts ! 41) = Some (cpuObject gk))"
proof -
  have "nameOk (lastOpcodeName nopMachine)" "\<forall>k. sends ([openConnection []] ! 0) k \<noteq> None" "mallocOk plainEnv"
    by (simp_all add: nopMachine_def nameOk_def gb_static_def openConnection_def plainEnv_def)
  from export_stream [OF nopMachine_safe this(1) _ this(2,3), of "\<lambda>_. CHR ''x''" 100]
  obtain g' clients' sent ts where r:
    "cycles (serverCycle plainEnv (\<lambda>_. CHR ''x'') (Some 0)) 100 (nopMachine, [openConnection []]) = Inr (g', clients')"
    "outgoing (clients' ! 0) = outgoing ([openConnection []] ! 0) @ sent" "readTexts 100 sent = Some ts"
    "\<forall>k < 100. \<exists>gk. cycles LoopCycle (Suc k) nopMachine = Inr gk \<and> readJson (ts ! k) = Some (cpuObject gk)"
    by auto
  from r(4) have "\<exists>gk. cycles LoopCycle (Suc 41) nopMachine = Inr gk \<and> readJson (ts ! 41) = Some (cpuObject gk)"
    by (rule allE [of _ 41]) simp
  then show ?thesis
    using r(1-3) by (simp add: openConnection_def del: cycles.simps)
qed

end
