(* ===== verification/Debug_Main.thy ===== *)
theory Debug_Main
  imports Test_Main Cjson_Correct
begin

text \<open>
  The two debug programs, \<^verbatim>\<open>src/Platforms/main_debug.c\<close> and \<^verbatim>\<open>src/Platforms/main_debug_testing.c\<close>. \<open>main\<close> of the
  first returns after its messages to the log, before it resets a game and enters its loop. The second runs the
  loop, prints the tick counter in every cycle and compares the registers with those of another emulator when
  it is told to; that emulator is not part of the repository, and its registers are the parameter \<open>cin_registers\<close>.
\<close>

section \<open>The first program\<close>

definition debug_main :: "os \<Rightarrow> string list \<Rightarrow> logEnv \<Rightarrow> (int \<times> logEnv) res" where
  "debug_main e argv w =
    (if length argv \<noteq> 2 then
       (case argv of [] \<Rightarrow> Inl NullPointer
        | prog # _ \<Rightarrow> Inr (1, w\<lparr>lg := printf_out (''Usage: '' @ prog @ '' <path to game>'' @ newline) (lg w)\<rparr>))
     else
       let w = w\<lparr>lg := snd (SetLogLevel eError (lg w))\<rparr>;
           w = w\<lparr>lg := InitLogFiles e None (clks w 0) (lg w), clks := (\<lambda>i. clks w (Suc i))\<rparr>
       in bind_res (LogW eError ''This is an error message'' [] w) (\<lambda>w.
          bind_res (LogW eWarning ''Warning message!!'' [] w) (\<lambda>w.
          bind_res (LogW eDebug ''Deeeeeeeebug'' [] w) (\<lambda>w.
          bind_res (LogW eError ''Formatted message = %d'' [VInt 73] w) (\<lambda>w.
          bind_res (LogW eError ''Str formatted msg %s %s'' [VStr ''abcdefesdf'', VStr ''123345dvg''] w) (\<lambda>w.
            Inr (0, w)))))))"

text \<open>The handler; it writes as many bytes as the whole text has, from an array of 100.\<close>

definition SigTermHandler :: "int \<Rightarrow> int \<Rightarrow> int \<Rightarrow> logger \<Rightarrow> (int \<times> logger) res" where
  "SigTermHandler si_code si_errno si_signo st =
    (case vformat (''SigTermHandler called with code: %d, errno: %d, signo: %d'' @ newline)
            [VInt si_code, VInt si_errno, VInt si_signo] of
       None \<Rightarrow> Inl BadFormat
     | Some text \<Rightarrow>
       (let (size, outMessage) = snprintf 100 text
        in if size > 100 then Inl OutOfBounds
           else bind_res (CleanupLogFiles (printf_out outMessage st)) (\<lambda>st. Inr (si_code + 128, st))))"

section \<open>The second program\<close>

text \<open>\<open>compareRegister\<close> is the body that \<open>DebugStep\<close> repeats for every register.\<close>

definition compareRegister :: "string \<Rightarrow> nat \<Rightarrow> nat \<Rightarrow> int \<times> 'a cstate_scheme \<Rightarrow> (int \<times> 'a cstate_scheme) res" where
  "compareRegister name cin reg = (\<lambda>(aValuesNotEqual, st).
    if cin \<noteq> reg then
      (let st = printf_out (''register '' @ name @ '' not equal'' @ newline) st
       in case vformat (''Cinoop '' @ name @ '': 0x%X, GameBloat '' @ name @ '': 0x%x'' @ newline) [VUInt cin, VUInt reg] of
            None \<Rightarrow> Inl BadFormat
          | Some text \<Rightarrow> Inr (1, printf_out text st))
    else Inr (aValuesNotEqual, st))"

text \<open>\<open>DebugPrint\<close>, which \<open>DebugStep\<close> calls when it has found a difference, has an empty body.\<close>

definition DebugStep :: "(string \<Rightarrow> nat) \<Rightarrow> registers \<Rightarrow> 'a cstate_scheme \<Rightarrow> (int \<times> 'a cstate_scheme) res" where
  "DebugStep cin_registers r st =
    bind_res (compareRegister ''A'' (cin_registers ''a'') (unat (rA r)) (0, st)) (\<lambda>st.
    bind_res (compareRegister ''B'' (cin_registers ''b'') (unat (rB r)) st) (\<lambda>st.
    bind_res (compareRegister ''C'' (cin_registers ''c'') (unat (rC r)) st) (\<lambda>st.
    bind_res (compareRegister ''D'' (cin_registers ''d'') (unat (rD r)) st) (\<lambda>st.
    bind_res (compareRegister ''E'' (cin_registers ''e'') (unat (rE r)) st) (\<lambda>st.
    bind_res (compareRegister ''F'' (cin_registers ''f'') (unat (rF r)) st) (\<lambda>st.
    bind_res (compareRegister ''H'' (cin_registers ''h'') (unat (rH r)) st) (\<lambda>st.
    bind_res (compareRegister ''L'' (cin_registers ''l'') (unat (rL r)) st) (\<lambda>st.
    bind_res (compareRegister ''PC'' (cin_registers ''pc'') (unat (rPC r)) st) (\<lambda>st.
    compareRegister ''SP'' (cin_registers ''sp'') (unat (rSP r)) st)))))))))"

text \<open>
  One cycle. The tick counter is an \<^verbatim>\<open>unsigned long\<close> and the format takes an \<^verbatim>\<open>int\<close>. At the breakpoint a
  character is read from the input and dropped; at the end of the input \<open>getchar\<close> returns at once.
\<close>

definition testingCycle :: "gb \<times> string \<times> 'a cstate_scheme \<Rightarrow> (gb \<times> string \<times> 'a cstate_scheme) res" where
  "testingCycle = (\<lambda>(g, input, st).
    bind_res (LoopCycle g) (\<lambda>g.
      case vformat (''GameBloat tick counter: %d'' @ newline) [VUInt (unat (tickCounter g))] of
        None \<Rightarrow> Inl BadFormat
      | Some text \<Rightarrow> Inr (g, if rPC (regs g) = 0x237 then tl input else input, printf_out text st)))"

definition testing_main ::
    "os \<Rightarrow> cenv \<Rightarrow> clock \<Rightarrow> nat \<Rightarrow> string list \<Rightarrow> string \<Rightarrow> gb \<Rightarrow> logger \<Rightarrow> (int option \<times> gb \<times> string \<times> logger) res" where
  "testing_main e ce clk n argv input g st =
    (if length argv \<noteq> 2 then
       (case argv of [] \<Rightarrow> Inl NullPointer
        | prog # _ \<Rightarrow> Inr (Some 1, g, input, printf_out (''Usage: '' @ prog @ '' <path to game>'' @ newline) st))
     else
       let st = InitLogFiles e None clk st in
       bind_res (resetGame ce (argv ! 1) g) (\<lambda>g.
       bind_res (cycles testingCycle n (g, input, st)) (\<lambda>s. Inr (None, s))))"

section \<open>What they do\<close>

lemma debug_texts:
  "vformat ''This is an error message'' [] = Some ''This is an error message''"
  "vformat ''Warning message!!'' [] = Some ''Warning message!!''"
  "vformat ''Deeeeeeeebug'' [] = Some ''Deeeeeeeebug''"
  "vformat ''Formatted message = %d'' [VInt 73] = Some ''Formatted message = 73''"
  "vformat ''Str formatted msg %s %s'' [VStr ''abcdefesdf'', VStr ''123345dvg'']
    = Some ''Str formatted msg abcdefesdf 123345dvg''"
  by code_simp+

lemma debug_main_logs:
  assumes "\<forall>i. clockOk (clks w i)" "length argv = 2" "logFile (lg w) \<noteq> Freed"
  shows "debug_main e argv w =
    (let w0 = w\<lparr>lg := InitLogFiles e None (clks w 0) ((lg w)\<lparr>currentLogLevel := eError\<rparr>), clks := (\<lambda>i. clks w (Suc i))\<rparr>
     in Inr (0, logEffect eError ''Str formatted msg abcdefesdf 123345dvg''
          (logEffect eError ''Formatted message = 73'' (logEffect eDebug ''Deeeeeeeebug''
          (logEffect eWarning ''Warning message!!'' (logEffect eError ''This is an error message'' w0))))))"
proof -
  let ?w0 = "w\<lparr>lg := InitLogFiles e None (clks w 0) ((lg w)\<lparr>currentLogLevel := eError\<rparr>), clks := (\<lambda>i. clks w (Suc i))\<rparr>"
  have init: "logFile (lg ?w0) \<noteq> Freed"
    using assms(3) by (simp add: InitLogFiles_def CreateLogfile_spec malloc_def Let_def split: prod.split)
  then have "logsOk ?w0"
    using assms(1) by (simp add: logsOk_def)
  then show ?thesis
    using assms(2) init by (simp add: debug_main_def SetLogLevel_spec LogW_ok debug_texts Let_def del: vformat.simps)
qed

lemma length_newline: "length newline = 1"
  by (simp add: newline_def)

lemma vformat_newline: "vformat newline [] = Some newline"
  by code_simp

text \<open>The text of the signal handler fits its array for every signal.\<close>

lemma signal_text:
  "vformat (''SigTermHandler called with code: %d, errno: %d, signo: %d'' @ newline) [VInt a, VInt b, VInt c]
    = Some (''SigTermHandler called with code: '' @ decI a @ '', errno: '' @ decI b @ '', signo: '' @ decI c @ newline)"
  by (simp add: directive_def vformat_newline)

lemma SigTermHandler_safe:
  assumes "\<forall>x \<in> {si_code, si_errno, si_signo}. - 2147483648 \<le> x \<and> x \<le> 2147483647" "logFile st \<noteq> Freed"
  shows "SigTermHandler si_code si_errno si_signo st =
    bind_res (CleanupLogFiles (printf_out (''SigTermHandler called with code: '' @ decI si_code @ '', errno: ''
      @ decI si_errno @ '', signo: '' @ decI si_signo @ newline) st)) (\<lambda>st. Inr (si_code + 128, st))"
proof -
  have "length (decI si_code) \<le> 11" "length (decI si_errno) \<le> 11" "length (decI si_signo) \<le> 11"
    using assms(1) by (auto intro!: decI_length)
  then show ?thesis
    unfolding SigTermHandler_def signal_text by (simp add: snprintf_def length_newline)
qed

text \<open>The tick counter does not have the type its format asks for, so no cycle of the second program is defined.\<close>

lemma testingCycle_undefined: "LoopCycle g = Inr g' \<Longrightarrow> testingCycle (g, input, st) = Inl BadFormat"
  by (simp add: testingCycle_def directive_def)

text \<open>\<open>DebugStep\<close> reports a difference, in its result and by what it prints, exactly when two registers differ.\<close>

definition diffText :: "string \<Rightarrow> nat \<Rightarrow> nat \<Rightarrow> string" where
  "diffText name cin reg = (if cin = reg then '''' else ''register '' @ name @ '' not equal'' @ newline
     @ ''Cinoop '' @ name @ '': 0x'' @ hexU cin @ '', GameBloat '' @ name @ '': 0x'' @ hexL reg @ newline)"

lemma diffText_empty: "diffText name cin reg = [] \<longleftrightarrow> cin = reg"
  by (simp add: diffText_def)

lemma printf_out_append: "printf_out t (printf_out s st) = printf_out (s @ t) st" "printf_out [] st = st"
  by (simp_all add: printf_out_def)

lemma compareRegister_eq:
  assumes "CHR ''%'' \<notin> set name"
  shows "compareRegister name cin reg (d, st) = Inr (if cin = reg then d else 1, printf_out (diffText name cin reg) st)"
proof -
  have "vformat (''Cinoop '' @ name @ '': 0x%X, GameBloat '' @ name @ '': 0x%x'' @ newline) [VUInt cin, VUInt reg]
    = Some (''Cinoop '' @ name @ '': 0x'' @ hexU cin @ '', GameBloat '' @ name @ '': 0x'' @ hexL reg @ newline)"
    using assms by (simp add: vformat_plain directive_def vformat_newline)
  then show ?thesis
    by (simp add: compareRegister_def diffText_def printf_out_append del: vformat.simps)
qed

lemma compareRegister_step:
  "CHR ''%'' \<notin> set name \<Longrightarrow> compareRegister name c reg (if t = [] then 0 else 1, printf_out t st)
    = Inr (if t @ diffText name c reg = [] then 0 else 1, printf_out (t @ diffText name c reg) st)"
  by (auto simp: compareRegister_eq printf_out_append diffText_empty)

lemma DebugStep_reports:
  "\<exists>t. DebugStep cin r st = Inr (if t = [] then 0 else 1, printf_out t st) \<and>
    (t = [] \<longleftrightarrow> cin ''a'' = unat (rA r) \<and> cin ''b'' = unat (rB r) \<and> cin ''c'' = unat (rC r) \<and> cin ''d'' = unat (rD r)
       \<and> cin ''e'' = unat (rE r) \<and> cin ''f'' = unat (rF r) \<and> cin ''h'' = unat (rH r) \<and> cin ''l'' = unat (rL r)
       \<and> cin ''pc'' = unat (rPC r) \<and> cin ''sp'' = unat (rSP r))"
proof -
  let ?t = "(((((((((([] @ diffText ''A'' (cin ''a'') (unat (rA r))) @ diffText ''B'' (cin ''b'') (unat (rB r)))
    @ diffText ''C'' (cin ''c'') (unat (rC r))) @ diffText ''D'' (cin ''d'') (unat (rD r)))
    @ diffText ''E'' (cin ''e'') (unat (rE r))) @ diffText ''F'' (cin ''f'') (unat (rF r)))
    @ diffText ''H'' (cin ''h'') (unat (rH r))) @ diffText ''L'' (cin ''l'') (unat (rL r)))
    @ diffText ''PC'' (cin ''pc'') (unat (rPC r))) @ diffText ''SP'' (cin ''sp'') (unat (rSP r)))"
  have names: "CHR ''%'' \<notin> set ''A''" "CHR ''%'' \<notin> set ''B''" "CHR ''%'' \<notin> set ''C''" "CHR ''%'' \<notin> set ''D''"
    "CHR ''%'' \<notin> set ''E''" "CHR ''%'' \<notin> set ''F''" "CHR ''%'' \<notin> set ''H''" "CHR ''%'' \<notin> set ''L''"
    "CHR ''%'' \<notin> set ''PC''" "CHR ''%'' \<notin> set ''SP''"
    by simp_all
  have start: "(0, st) = (if ([] :: string) = [] then 0 else 1, printf_out [] st)"
    by (simp add: printf_out_append)
  have "DebugStep cin r st = Inr (if ?t = [] then 0 else 1, printf_out ?t st)"
    unfolding DebugStep_def start by (simp only: names [THEN compareRegister_step] bind_res_Inr)
  then show ?thesis
    by (intro exI [of _ ?t]) (simp only: append_is_Nil_conv diffText_empty conj_assoc simp_thms)
qed

end
