(* ===== verification/Spec2Isabelle.thy ===== *)
theory Spec2Isabelle
  imports Gpu_Properties Mbc_Properties Cartridge_Properties Memory_Properties Decode_Outer
    Interrupt_Spec Cpu_Stack Programs Boot Test_Main Cpu_Debug_Properties
    Server_Websocket Debug_Main
begin

text \<open>
  A verification development for GameBloat, a Game Boy emulator in C.

  \<^bold>\<open>The program.\<close> The emulator keeps its state in global variables: the register file and the CPU's
  counters (\<^verbatim>\<open>src/cpu.c\<close>), the RAM arrays (\<^verbatim>\<open>src/memory.c\<close>), the display (\<^verbatim>\<open>src/gpu.c\<close>), the cartridge with its
  bank controller (\<^verbatim>\<open>src/cartridge.c\<close>, \<^verbatim>\<open>src/MBC.c\<close>, \<^verbatim>\<open>src/MBC/*.c\<close>) and the interrupt registers
  (\<^verbatim>\<open>src/interrupt.c\<close>). One round of the main loop, \<open>LoopCycle\<close>, executes an instruction, hands the ticks it
  took to the display and dispatches an interrupt. An instruction is fetched through the memory bus, looked
  up in one of two tables of function pointers (\<^verbatim>\<open>src/BaseOpcodeTable.c\<close>, \<^verbatim>\<open>src/CBOpcodeTable.c\<close>) and called
  with its operand. The bus sends an access to the cartridge, the video RAM, the RAM arrays, the display
  registers or the interrupt registers by its address. Front ends (\<^verbatim>\<open>src/Platforms/main_*.c\<close>) check and load
  a game (\<^verbatim>\<open>src/bios.c\<close>) and run the loop; the server runs it in a thread of its own, which another thread
  controls through flags, and sends the state of the CPU after each cycle to a WebSocket client, as JSON that a
  vendored library prints and another one frames. A logger and a small test framework serve all programs.

  \<^bold>\<open>How it is modelled.\<close> Every global becomes a field of a record and every function a function on the
  records it touches. The machine integers keep their width (\<open>u8\<close>, \<open>u16\<close>, \<open>u32\<close>, \<open>u64\<close> of theory
  \<open>GB_Prelude\<close>). An array access out of bounds, a NULL pointer, a shift by the width of its type or past
  the sign bit, and a call through a pointer of another function type are faults: an operation that can
  reach one returns \<open>fault + 'a\<close>, and nothing is assumed about inputs that would keep it from them.

  \<^item> \<open>Constants\<close>, \<open>Registers\<close>, \<open>Interrupts\<close>: \<^verbatim>\<open>src/cpu_constants.c\<close>, \<open>UpdateBit\<close> of \<^verbatim>\<open>src/utils.c\<close>, the register
    union and the flags of \<^verbatim>\<open>include/registers.h\<close>, requesting and enabling interrupts.
  \<^item> \<open>Gpu\<close>: \<^verbatim>\<open>src/gpu.c\<close>. The record \<open>GPU\<close> holds the display registers, video RAM, decoded tiles, frame
    buffer, mode and mode clock, and the file that the code dumps the first tile of video RAM to; \<open>gpuStep\<close> is the mode machine, \<open>renderScan\<close> the line drawing with its pixel
    loop \<open>renderLoop\<close>, \<open>updateTile\<close> the tile decoder.
  \<^item> \<open>Mbc\<close>: \<^verbatim>\<open>src/MBC.c\<close> and the controllers \<^verbatim>\<open>src/MBC/MBCNone.c\<close> to \<^verbatim>\<open>MBC5.c\<close>, with the real-time clock of
    \<^verbatim>\<open>MBC3.c\<close>. The record \<open>cart\<close> holds the header, the ROM and RAM blocks, the two function pointers and the
    state of each controller.
  \<^item> \<open>Cartridge\<close>: \<^verbatim>\<open>src/cartridge.c\<close> and \<^verbatim>\<open>src/bios.c\<close>: reading the file, its header and sizes, the logo and
    checksum tests.
  \<^item> \<open>Memory\<close>: \<^verbatim>\<open>src/memory.c\<close>. The record \<open>gb\<close> joins all globals; \<open>mmuReadByte\<close> and \<open>mmuWriteByte\<close> are the
    address decoder.
  \<^item> \<open>Cpu_Regs\<close>, \<open>Cpu_Mem\<close>: the instructions of \<^verbatim>\<open>src/cpu.c\<close> on registers and through memory. \<open>Opcode\<close>,
    \<open>Base_Table\<close>, \<open>Cb_Table\<close>: the two opcode tables, function by function and entry by entry, with the tick
    counts. \<open>Cpu\<close>: fetch, operand, execute, \<open>cpuStep\<close>, \<open>loadROM\<close> and interrupt dispatch.
  \<^item> \<open>Machine\<close>: \<open>LoopCycle\<close>, the resets of \<^verbatim>\<open>main_server.c\<close> and \<^verbatim>\<open>main_debug.c\<close>, and the three threads of the
    server as a step relation: a location of the emulator thread between every two accesses to shared flags,
    the callbacks of the websocket thread in between, and the main thread with its own reset.
  \<^item> \<open>Clib\<close>, \<open>Logger\<close>: the C library as far as the code formats, prints, allocates and writes files, and
    \<^verbatim>\<open>src/logger.c\<close> with the time stamps of \<^verbatim>\<open>src/utils.c\<close>. The record \<open>logger\<close> holds the heap as a count of
    live blocks, the output, the files and the logger's own variables.
  \<^item> \<open>Cpu_Tests\<close>, \<open>Test_Suite\<close>, \<open>Test_Main\<close>: the unit tests \<^verbatim>\<open>tests/cpu_tests.c\<close>, the framework
    \<^verbatim>\<open>tests/test_suite.c\<close> with its linked lists, and the program \<^verbatim>\<open>tests/test_main.c\<close>.
  \<^item> \<open>Cpu_Debug\<close>, \<open>Debug_Main\<close>: what \<^verbatim>\<open>src/cpu.c\<close> prints and exports of the CPU, and the two debug programs.
  \<^item> \<open>Cjson\<close>: building and printing items in \<^verbatim>\<open>libs/cJSON/cJSON.c\<close>, with its growing buffer. \<open>Json_Reader\<close>: a
    reader of JSON that does not come from the library.
  \<^item> \<open>Ws_Utf8\<close>, \<open>Ws_Base64\<close>, \<open>Ws_Sha1\<close>, \<open>Ws_Handshake\<close>: the files of \<^verbatim>\<open>libs/wsServer/src\<close> below \<^verbatim>\<open>ws.c\<close>. \<open>Ws_Frame\<close>:
    sending a frame and reading a message, with the record \<open>connection\<close> for a client and \<open>ws_frame_data\<close> for the
    bytes being read. \<open>Ws_Connection\<close>: a connection from its handshake to its close.
  \<^item> \<open>Server_Websocket\<close>: the callbacks and the export of \<^verbatim>\<open>main_server.c\<close> on top of that library, and the cycle
    with its export, \<open>serverCycle\<close>.

  \<^bold>\<open>What is proved.\<close> Each component has a theory \<open>_Correct\<close> with its library and one with its properties.

  \<^item> Safety and termination of the whole: on a machine whose cartridge cannot fault (\<open>cart_total\<close>) and whose
    file for the dump of video RAM opens (\<open>dumpable\<close>), which the code does not test, every opcode of both tables runs to its end (\<open>Cpu_Total\<close>), and so does any number of cycles
    (\<open>machine_never_faults\<close>, from the locale \<open>total_loop\<close>). \<open>Boot\<close> starts from the bytes of a file: which
    games run for ever without a fault, and where an ordinary game without RAM faults. MBC1 and MBC3 compute
    addresses past any ROM, so they are not in this class; their exact behaviour is stated instead.
  \<^item> The display: a clock over a frame of 70224 ticks (\<open>gpu_frame_clock\<close>), one VBLANK request per frame, and
    the drawing loop against a formula for each pixel. Step counts are bounded by 80, the shortest mode; an
    instruction takes at most 36 ticks.
  \<^item> Cartridges: which files load and pass the checks, what a loaded game reads, the ROM never changes,
    the bank arithmetic as it is, latching the clock and its overflow loop for all times.
  \<^item> The bus: round trips over the RAM and its echo (locale \<open>byte_bus\<close>), what no write changes, no faults
    outside the cartridge.
  \<^item> Instructions: every arithmetic and logic operation for all operands and flags against integer
    arithmetic, rotates, decimal adjustment, the forms at (HL) against the register forms, calls, returns and
    the stack as a refinement of an abstract stack (\<open>Cpu_Stack\<close>, locale \<open>return_stack\<close>).
  \<^item> The tables: every entry of both against a decoder of the bit fields (\<open>Decode\<close>, \<open>Decode_Outer\<close>), and the
    types of the functions behind the pointers.
  \<^item> Interrupts: exact dispatch, the refinement of an abstract controller with a priority order
    (\<open>Interrupt_Spec\<close>), the sources that can ever occur, and the ticks the display does not get.
  \<^item> Programs: a copy loop in machine code, run by the whole emulator, does what it says (\<open>Programs\<close>).
  \<^item> The front ends: both resets, the handshake between the threads in every reachable state, the requests they
    lose, and the state in which two of them work on the emulator at once.
  \<^item> The logger and the tests: the exact lines and files of a session (\<open>Logger_Properties\<close>), a suite as a list of
    cases with every block freed once (\<open>Test_Suite_Properties\<close>), what the test program returns.
  \<^item> Printing: the buffer of the JSON printer is never overrun, and what it returns reads back as the item
    (\<open>Cjson_Correct\<close>, \<open>Json_Reader\<close>). The instruction that the dump announces is the one executed next.
  \<^item> The WebSocket library: UTF-8, Base64, SHA-1 and the accept key against their standards; a message cut into
    fragments, with control frames between and in pieces of any size, is received as it was sent
    (\<open>Ws_Message\<close>); and where a peer makes the library write out of bounds: a control frame of 125 bytes and a
    length that wraps. The locale \<open>ws_program\<close> says what a program's callbacks must promise; the lemma on a whole
    connection is proved in it and used for the server.
  \<^item> The server: the effect of a session on the flags, what a client receives over any number of cycles
    (\<open>export_stream\<close>), and an empty message that ends the program.

  Where the code does not do what it means to, the theorem states what it does, and the text before it
  says so: the swapped stack bytes of \<open>push_ss\<close>, the lost carries of \<open>adc_s\<close> and \<open>sbc_s\<close>, the interrupt bit
  called as an address, and others.

  \<^bold>\<open>Bounds and fuel.\<close> \<open>renderLoop\<close> takes the number of pixels left and is called with the 160 of the C loop;
  \<open>updateTileLoop\<close>, the loops over the header and the reset tables recurse on the list of their indices.
  The overflow loop of \<open>latchRTC\<close> has a termination proof. The loops of the WebSocket library over frames and
  messages end because each round takes bytes from the connection: their measure is \<open>pending\<close>, what it still
  has to give. A message is limited to the 16 MB of the library. Growing the printing buffer doubles it until
  the text fits or the limit of \<open>int\<close> is reached. The main loop has no end: theorems about it speak of
  \<open>cycles n\<close> for every \<open>n\<close>, and \<open>emulator_run n\<close> counts the actions of the emulator thread in one round.

  \<^bold>\<open>Parameters.\<close> The time is a stream in the cartridge, one value per call of \<open>time(NULL)\<close>. The file system
  and \<open>malloc\<close> are the record \<open>cenv\<close>: the bytes of a file by name, and for each of the two allocations NULL or a
  block with whatever bytes it happens to hold. Which calls of \<open>fopen\<close> for the dump of video RAM succeed is a
  stream in the record \<open>GPU\<close>. The clock, the result of \<open>mkdir\<close> and the files of the logger are
  the records \<open>clock\<close>, \<open>os\<close> and \<open>cstate\<close>. What arrives on a socket is a list of the pieces \<open>recv\<close> returns, how much
  \<open>send\<close> takes a function of the call, and \<open>malloc\<close> in the WebSocket library the record \<open>ws_env\<close>. Shifts of a byte
  into the sign bit in SHA-1 are taken as compilers define them.

  \<^bold>\<open>Not modelled.\<close> The log lines inside the emulator's functions: no state depends on them, and what the logger
  does is modelled by itself. \<^verbatim>\<open>src/cgb.c\<close>, a structure nothing uses. The GTK window. Installing signal handlers.
  The loop of \<^verbatim>\<open>main_debug.c\<close>, which \<open>main\<close> returns before. What becomes of the server once its main thread and its emulator
  thread are both in a function that works on the emulator: such a state can be reached, as no lock is held, and it is
  where the step relation lets neither of them go on; a reset and a cycle are single steps before it. Of wsServer
  the sockets, the locks around the client array and the thread that closes a client after a timeout; of cJSON
  the parser and everything else the server does not call. The stand-alone experiments in \<^verbatim>\<open>GTKTesting\<close>,
  \<^verbatim>\<open>Aurelia_Test\<close> and \<^verbatim>\<open>timetest.c\<close>.
\<close>

end
